(* ===== verification/Prelude.thy ===== *)
theory Prelude
  imports Main "HOL-Library.Multiset"
begin

section \<open>Prelude: results, lists, doubles and characters\<close>

text \<open>
  What every component shares: the result type of code that may throw, the helpers for lists of
  records that the stores update by key, the numbers of JavaScript (integers held in a double)
  and the character classes of the code's regular expressions.

  Strings are HOL's \<open>string\<close>, one character for one UTF-16 code unit; the text of the protocol
  is ASCII, and so is the text of the model. Times are \<open>int\<close> (seconds or milliseconds, as the
  code has them).
\<close>

named_theorems result_simps \<open>equations and inversions of results\<close>
named_theorems char_simps \<open>character classes and case mapping\<close>
named_theorems list_upd \<open>updates of lists of records by a condition\<close>

subsection \<open>Results: a thrown error or a value\<close>

fun bindR :: "'e + 'a \<Rightarrow> ('a \<Rightarrow> 'e + 'b) \<Rightarrow> 'e + 'b" where
  "bindR (Inl e) f = Inl e"
| "bindR (Inr x) f = f x"

definition guardR :: "bool \<Rightarrow> 'e \<Rightarrow> 'e + unit" where
  "guardR b e = (if b then Inr () else Inl e)"

lemma bindR_Inr [result_simps]: "bindR m f = Inr y \<longleftrightarrow> (\<exists>x. m = Inr x \<and> f x = Inr y)"
  by (cases m) auto

lemma bindR_Inl [result_simps]:
  "bindR m f = Inl e \<longleftrightarrow> m = Inl e \<or> (\<exists>x. m = Inr x \<and> f x = Inl e)"
  by (cases m) auto

lemma guardR_Inr [result_simps]: "guardR b e = Inr u \<longleftrightarrow> b"
  by (simp add: guardR_def)

lemma guardR_Inl [result_simps]: "guardR b e = Inl e' \<longleftrightarrow> \<not> b \<and> e' = e"
  by (auto simp: guardR_def)

lemma guardR_True [simp]: "guardR True e = Inr ()"
  by (simp add: guardR_def)

lemma guardR_False [simp]: "guardR False e = Inl e"
  by (simp add: guardR_def)

text \<open>\<open>mapR f xs\<close> is a loop over \<open>xs\<close> whose body may throw: the first error wins.\<close>

fun mapR :: "('a \<Rightarrow> 'e + 'b) \<Rightarrow> 'a list \<Rightarrow> 'e + 'b list" where
  "mapR f [] = Inr []"
| "mapR f (x # xs) = bindR (f x) (\<lambda>y. bindR (mapR f xs) (\<lambda>ys. Inr (y # ys)))"

lemma mapR_Inr_length: "mapR f xs = Inr ys \<Longrightarrow> length ys = length xs"
  by (induction xs arbitrary: ys) (auto simp: result_simps)

lemma mapR_Inr_nth: "mapR f xs = Inr ys \<Longrightarrow> i < length xs \<Longrightarrow> f (xs ! i) = Inr (ys ! i)"
  by (induction xs arbitrary: ys i) (auto simp: result_simps nth_Cons split: nat.splits)

lemma mapR_Inr_set: "mapR f xs = Inr ys \<Longrightarrow> y \<in> set ys \<Longrightarrow> \<exists>x \<in> set xs. f x = Inr y"
  by (induction xs arbitrary: ys) (auto simp: result_simps)

lemma mapR_Inr_id: "(\<And>x y. x \<in> set xs \<Longrightarrow> f x = Inr y \<Longrightarrow> y = x) \<Longrightarrow> mapR f xs = Inr ys \<Longrightarrow> ys = xs"
  by (induction xs arbitrary: ys) (auto simp: result_simps)

lemma mapR_cong_Inr: "(\<And>x. x \<in> set xs \<Longrightarrow> f x = Inr (g x)) \<Longrightarrow> mapR f xs = Inr (map g xs)"
  by (induction xs) auto

subsection \<open>Lists of records updated by a condition (an SQL UPDATE, a JavaScript map)\<close>

definition update_where :: "('r \<Rightarrow> bool) \<Rightarrow> ('r \<Rightarrow> 'r) \<Rightarrow> 'r list \<Rightarrow> 'r list" where
  "update_where c u = map (\<lambda>r. if c r then u r else r)"

lemma update_where_Nil [simp]: "update_where c u [] = []"
  by (simp add: update_where_def)

lemma update_where_Cons [simp]:
  "update_where c u (r # rs) = (if c r then u r else r) # update_where c u rs"
  by (simp add: update_where_def)

lemma set_update_where [list_upd]:
  "set (update_where c u rs) = (\<lambda>r. if c r then u r else r) ` set rs"
  by (simp add: update_where_def)

lemma length_update_where [simp]: "length (update_where c u rs) = length rs"
  by (simp add: update_where_def)

lemma map_update_where [list_upd]:
  "(\<And>r. c r \<Longrightarrow> g (u r) = g r) \<Longrightarrow> map g (update_where c u rs) = map g rs"
  by (simp add: update_where_def)

lemma update_where_id: "(\<And>r. r \<in> set rs \<Longrightarrow> \<not> c r) \<Longrightarrow> update_where c u rs = rs"
  by (induction rs) auto

lemma find_update_where:
  assumes "\<And>r. c r \<Longrightarrow> P (u r) = P r"
  shows "find P (update_where c u rs) = map_option (\<lambda>r. if c r then u r else r) (find P rs)"
  by (induction rs) (auto simp: assms)

lemma find_key_unique:
  assumes "distinct (map g rs)" "r \<in> set rs"
  shows "find (\<lambda>x. g x = g r) rs = Some r"
  using assms by (induction rs) (auto simp: rev_image_eqI)

lemma find_None_iff_key: "find (\<lambda>x. g x = k) rs = None \<longleftrightarrow> k \<notin> g ` set rs"
  by (auto simp: find_None_iff)

lemma find_SomeD: "find P rs = Some r \<Longrightarrow> r \<in> set rs \<and> P r"
  by (auto simp: find_Some_iff)

text \<open>
  \<open>upsert\<close> is the shape of the application's \<open>replacePayment\<close>, \<open>replaceOrder\<close> and their kin: the
  record with the same key is replaced in place, a new one is put in front.
\<close>

definition upsert :: "('r \<Rightarrow> 'k) \<Rightarrow> 'r list \<Rightarrow> 'r \<Rightarrow> 'r list" where
  "upsert key rs next =
     (if \<exists>r \<in> set rs. key r = key next
      then map (\<lambda>r. if key r = key next then next else r) rs
      else next # rs)"

lemma upsert_mem [simp]: "next \<in> set (upsert key rs next)"
  by (auto simp: upsert_def)

lemma upsert_keys:
  "map key (upsert key rs next) =
     (if key next \<in> key ` set rs then map key rs else key next # map key rs)"
  by (auto simp: upsert_def image_iff) metis

lemma upsert_distinct: "distinct (map key rs) \<Longrightarrow> distinct (map key (upsert key rs next))"
  by (simp add: upsert_keys)

lemma upsert_other: "r \<in> set rs \<Longrightarrow> key r \<noteq> key next \<Longrightarrow> r \<in> set (upsert key rs next)"
  by (auto simp: upsert_def)

lemma set_upsert:
  "set (upsert key rs next) = insert next {r \<in> set rs. key r \<noteq> key next}"
  by (auto simp: upsert_def)

lemma find_upsert_same:
  "distinct (map key rs) \<Longrightarrow> find (\<lambda>r. key r = key next) (upsert key rs next) = Some next"
  using find_key_unique[OF upsert_distinct upsert_mem] by metis

lemma find_upsert_other:
  "k \<noteq> key next \<Longrightarrow> find (\<lambda>r. key r = k) (upsert key rs next) = find (\<lambda>r. key r = k) rs"
proof -
  assume k: "k \<noteq> key next"
  then have "find (\<lambda>r. key r = k) (map (\<lambda>r. if key r = key next then next else r) rs)
      = find (\<lambda>r. key r = k) rs"
    by (induction rs) auto
  with k show ?thesis by (auto simp: upsert_def)
qed

lemma distinct_set_single: "set xs = {k} \<Longrightarrow> distinct xs \<Longrightarrow> xs = [k]"
  by (cases xs; cases "tl xs") auto

subsection \<open>Sums over lists\<close>

lemma sum_list_filter_le:
  "(\<And>x. x \<in> set xs \<Longrightarrow> 0 \<le> f x) \<Longrightarrow> sum_list (map f (filter P xs)) \<le> sum_list (map (f :: 'a \<Rightarrow> int) xs)"
  by (induction xs) (auto intro: add_increasing)

lemma length_filter_update_where:
  assumes "\<And>r. r \<in> set rs \<Longrightarrow> c r \<Longrightarrow> P (u r) \<Longrightarrow> P r"
  shows "length (filter P (update_where c u rs)) \<le> length (filter P rs)"
  using assms by (induction rs) (auto simp: le_SucI)

subsection \<open>Integers in a double\<close>

text \<open>
  A JavaScript number is a double. An integer up to \<open>2 ^ 53\<close> in size is exact; a larger result
  of \<open>+\<close> or \<open>*\<close> on integers is rounded to the nearest multiple of the unit in the last place,
  ties to even. \<open>js_round\<close> is that rounding for an exact integer result (the model stays far below
  the overflow to infinity at \<open>2 ^ 1024\<close>).
\<close>

definition max_safe :: int where
  "max_safe = 9007199254740991"

definition is_safe :: "int \<Rightarrow> bool" where
  "is_safe n \<longleftrightarrow> \<bar>n\<bar> \<le> max_safe"

fun js_ulp :: "nat \<Rightarrow> nat" where
  "js_ulp n = (if n < 9007199254740992 then 1 else 2 * js_ulp (n div 2))"

declare js_ulp.simps [simp del]

definition js_round_nat :: "nat \<Rightarrow> nat" where
  "js_round_nat n =
     (let u = js_ulp n; q = n div u; r = n mod u
      in if 2 * r < u \<or> (2 * r = u \<and> even q) then q * u else Suc q * u)"

definition js_round :: "int \<Rightarrow> int" where
  "js_round n = (if n < 0 then - int (js_round_nat (nat (- n))) else int (js_round_nat (nat n)))"

lemma js_ulp_small: "n < 9007199254740992 \<Longrightarrow> js_ulp n = 1"
  by (simp add: js_ulp.simps)

lemma js_ulp_pos: "0 < js_ulp n"
  by (induction n rule: js_ulp.induct) (subst js_ulp.simps, auto)

lemma js_ulp_bound: "9007199254740992 \<le> n \<Longrightarrow> 9007199254740992 \<le> (n div js_ulp n) * js_ulp n"
proof (induction n rule: js_ulp.induct)
  case (1 n)
  from "1.prems" have u: "js_ulp n = 2 * js_ulp (n div 2)"
    by (simp add: js_ulp.simps[of n])
  show ?case
  proof (cases "n div 2 < 9007199254740992")
    case True
    with "1.prems" show ?thesis by (simp add: u js_ulp_small)
  next
    case False
    with "1.IH" "1.prems" have "9007199254740992 \<le> n div 2 div js_ulp (n div 2) * js_ulp (n div 2)"
      by simp
    then show ?thesis by (simp add: u div_mult2_eq algebra_simps)
  qed
qed

lemma js_round_nat_small: "n < 9007199254740992 \<Longrightarrow> js_round_nat n = n"
  by (simp add: js_round_nat_def js_ulp_small)

lemma js_round_nat_large: "9007199254740992 \<le> n \<Longrightarrow> 9007199254740992 \<le> js_round_nat n"
  using js_ulp_bound[of n] by (auto simp: js_round_nat_def Let_def)

lemma js_round_exact: "is_safe n \<Longrightarrow> js_round n = n"
  by (simp add: js_round_def is_safe_def max_safe_def js_round_nat_small)

lemma js_round_unsafe: "is_safe (js_round n) \<longleftrightarrow> is_safe n"
proof (cases "is_safe n")
  case True
  then show ?thesis by (simp add: js_round_exact)
next
  case False
  then have "9007199254740992 \<le> nat \<bar>n\<bar>"
    by (simp add: is_safe_def max_safe_def)
  then have "9007199254740992 \<le> js_round_nat (nat \<bar>n\<bar>)"
    by (rule js_round_nat_large)
  with False show ?thesis
    by (auto simp: is_safe_def max_safe_def js_round_def split: if_splits)
qed

lemma is_safe_round_eq: "is_safe (js_round n) \<Longrightarrow> js_round n = n"
  by (simp add: js_round_unsafe js_round_exact)

text \<open>Addition and multiplication of two integers held in doubles.\<close>

definition js_add :: "int \<Rightarrow> int \<Rightarrow> int" where
  "js_add a b = js_round (a + b)"

definition js_mul :: "int \<Rightarrow> int \<Rightarrow> int" where
  "js_mul a b = js_round (a * b)"

lemma js_add_exact: "is_safe (a + b) \<Longrightarrow> js_add a b = a + b"
  by (simp add: js_add_def js_round_exact)

lemma js_mul_exact: "is_safe (a * b) \<Longrightarrow> js_mul a b = a * b"
  by (simp add: js_mul_def js_round_exact)

lemma is_safe_js_add: "is_safe (js_add a b) \<longleftrightarrow> is_safe (a + b)"
  by (simp add: js_add_def js_round_unsafe)

lemma is_safe_js_mul: "is_safe (js_mul a b) \<longleftrightarrow> is_safe (a * b)"
  by (simp add: js_mul_def js_round_unsafe)

lemma js_round_nonneg: "0 \<le> n \<Longrightarrow> 0 \<le> js_round n"
  by (simp add: js_round_def)

lemma is_safe_mono: "is_safe b \<Longrightarrow> 0 \<le> a \<Longrightarrow> a \<le> b \<Longrightarrow> is_safe a"
  by (simp add: is_safe_def)

subsection \<open>Characters and the code's regular expressions\<close>

text \<open>The classes \<open>[0-9]\<close>, \<open>[a-f0-9]\<close>, \<open>[A-Fa-f0-9]\<close> and \<open>[A-Za-z0-9_-]\<close>, by character code.\<close>

abbreviation code_in :: "char \<Rightarrow> nat \<Rightarrow> nat \<Rightarrow> bool" where
  "code_in c lo hi \<equiv> lo \<le> (of_char c :: nat) \<and> of_char c \<le> hi"

definition is_digit :: "char \<Rightarrow> bool" where
  "is_digit c \<longleftrightarrow> code_in c 48 57"

definition is_lower_hex :: "char \<Rightarrow> bool" where
  "is_lower_hex c \<longleftrightarrow> code_in c 48 57 \<or> code_in c 97 102"

definition is_hex :: "char \<Rightarrow> bool" where
  "is_hex c \<longleftrightarrow> code_in c 48 57 \<or> code_in c 65 70 \<or> code_in c 97 102"

definition is_b64url :: "char \<Rightarrow> bool" where
  "is_b64url c \<longleftrightarrow>
     code_in c 65 90 \<or> code_in c 97 122 \<or> code_in c 48 57 \<or>
     of_char c = (95 :: nat) \<or> of_char c = (45 :: nat)"

lemmas [char_simps] = is_digit_def is_lower_hex_def is_hex_def is_b64url_def

text \<open>\<open>chars_between p lo hi\<close> is the regular expression \<open>^[p]{lo,hi}$\<close>.\<close>

definition chars_between :: "(char \<Rightarrow> bool) \<Rightarrow> nat \<Rightarrow> nat \<Rightarrow> string \<Rightarrow> bool" where
  "chars_between p lo hi s \<longleftrightarrow> list_all p s \<and> lo \<le> length s \<and> length s \<le> hi"

definition starts_with :: "string \<Rightarrow> string \<Rightarrow> bool" where
  "starts_with p s \<longleftrightarrow> take (length p) s = p"

lemma starts_with_append: "starts_with p s \<longleftrightarrow> (\<exists>t. s = p @ t)"
  by (metis starts_with_def append_eq_conv_conj append_take_drop_id)

definition lower_char :: "char \<Rightarrow> char" where
  "lower_char c = (if of_char c \<in> {65..90 :: nat} then char_of (of_char c + 32 :: nat) else c)"

definition upper_char :: "char \<Rightarrow> char" where
  "upper_char c = (if of_char c \<in> {97..122 :: nat} then char_of (of_char c - 32 :: nat) else c)"

definition to_lower :: "string \<Rightarrow> string" where
  "to_lower = map lower_char"

definition to_upper :: "string \<Rightarrow> string" where
  "to_upper = map upper_char"

lemma lower_char_idem [simp]: "lower_char (lower_char c) = lower_char c"
  by (auto simp: lower_char_def)

lemma to_lower_idem [simp]: "to_lower (to_lower s) = to_lower s"
  by (simp add: to_lower_def)

text \<open>Decimal digits of a natural number and the value of a digit string.\<close>

definition digit_char :: "nat \<Rightarrow> char" where
  "digit_char d = char_of (48 + d)"

definition digit_value :: "char \<Rightarrow> nat" where
  "digit_value c = of_char c - 48"

fun nat_text :: "nat \<Rightarrow> string" where
  "nat_text n = (if n < 10 then [digit_char n] else nat_text (n div 10) @ [digit_char (n mod 10)])"

declare nat_text.simps [simp del]

definition int_text :: "int \<Rightarrow> string" where
  "int_text i = (if i < 0 then CHR ''-'' # nat_text (nat (- i)) else nat_text (nat i))"

definition digits_value :: "string \<Rightarrow> nat" where
  "digits_value s = foldl (\<lambda>v c. 10 * v + digit_value c) 0 s"

lemma digit_value_char [simp]: "d < 10 \<Longrightarrow> digit_value (digit_char d) = d"
  by (simp add: digit_value_def digit_char_def)

lemma digit_char_is_digit: "d < 10 \<Longrightarrow> is_digit (digit_char d)"
  by (simp add: is_digit_def digit_char_def)

lemma digits_value_snoc: "digits_value (s @ [c]) = 10 * digits_value s + digit_value c"
  by (simp add: digits_value_def)

lemma digits_value_nat_text [simp]: "digits_value (nat_text n) = n"
proof (induction n rule: nat_text.induct)
  case (1 n)
  then show ?case
    by (subst nat_text.simps) (auto simp: digits_value_snoc, simp add: digits_value_def)
qed

lemma nat_text_digits: "list_all is_digit (nat_text n)"
proof (induction n rule: nat_text.induct)
  case (1 n)
  then show ?case
    by (subst nat_text.simps) (auto simp: digit_char_is_digit)
qed

lemma nat_text_nonempty [simp]: "nat_text n \<noteq> []"
  by (subst nat_text.simps) simp

lemma nat_text_inj: "nat_text m = nat_text n \<Longrightarrow> m = n"
  by (metis digits_value_nat_text)

lemma int_text_chars: "c \<in> set (int_text i) \<Longrightarrow> is_digit c \<or> c = CHR ''-''"
  using nat_text_digits by (auto simp: int_text_def list_all_iff split: if_splits)

lemma int_text_inj: "int_text i = int_text j \<Longrightarrow> i = j"
proof -
  assume eq: "int_text i = int_text j"
  have dash: "nat_text n \<noteq> CHR ''-'' # s" for n s
    using nat_text_digits[of n] by (auto simp: is_digit_def)
  show ?thesis
    using eq dash dash[symmetric] by (auto simp: int_text_def dest: nat_text_inj split: if_splits)
qed

end
