(* ===== verification/Js_Value.thy ===== *)
theory Js_Value
  imports Prelude "HOL-Library.Char_ord" "HOL-Library.List_Lexorder"
begin

section \<open>JavaScript values, JSON text and URLs\<close>

text \<open>
  The \<open>unknown\<close> values that the parsers of the relay, the faucet and the stores inspect, the
  canonical JSON text that the relay digests, and the parts of the platform's \<open>URL\<close> class that
  the code reads. The URL parser itself is the platform's and is a parameter of the model
  (\<open>url_parser\<close>); reading a component, setting \<open>pathname\<close> and printing are modelled here.

  A number is \<open>JInt i\<close> when its value is an integer that JSON prints in plain digits (below
  \<open>10 ^ 21\<close> in size) and \<open>JReal t\<close> otherwise, with \<open>t\<close> the text \<open>JSON.stringify\<close> prints for it
  (\<open>null\<close> for the numbers that are not finite). \<open>JUndef\<close> is \<open>undefined\<close>, which \<open>JSON.parse\<close>
  never returns but objects built by the code hold.
\<close>

datatype json =
    JUndef
  | JNull
  | JBool bool
  | JInt int
  | JReal string
  | JStr string
  | JArr "json list"
  | JObj "(string \<times> json) list"

type_synonym fields = "(string \<times> json) list"

subsection \<open>Reading a value\<close>

fun is_record :: "json \<Rightarrow> bool" where
  "is_record (JObj _) = True"
| "is_record _ = False"

fun fields_of :: "json \<Rightarrow> fields" where
  "fields_of (JObj fs) = fs"
| "fields_of _ = []"

text \<open>\<open>value.key\<close>: a missing key reads as \<open>undefined\<close>.\<close>

definition field :: "json \<Rightarrow> string \<Rightarrow> json" where
  "field v k = (case map_of (fields_of v) k of None \<Rightarrow> JUndef | Some x \<Rightarrow> x)"

definition has_key :: "json \<Rightarrow> string \<Rightarrow> bool" where
  "has_key v k \<longleftrightarrow> k \<in> set (map fst (fields_of v))"

text \<open>
  The test of the \<open>exactKeys\<close> functions: every required key is there, and every key is a required
  or an optional one.
\<close>

definition exact_keys :: "json \<Rightarrow> string list \<Rightarrow> string list \<Rightarrow> bool" where
  "exact_keys v required optional \<longleftrightarrow>
     list_all (has_key v) required \<and>
     list_all (\<lambda>k. k \<in> set (required @ optional)) (map fst (fields_of v))"

fun str_of :: "json \<Rightarrow> string option" where
  "str_of (JStr s) = Some s"
| "str_of _ = None"

text \<open>\<open>Number.isSafeInteger\<close>, with the integer it finds.\<close>

fun safe_int_of :: "json \<Rightarrow> int option" where
  "safe_int_of (JInt i) = (if is_safe i then Some i else None)"
| "safe_int_of _ = None"

fun arr_of :: "json \<Rightarrow> json list option" where
  "arr_of (JArr vs) = Some vs"
| "arr_of _ = None"

lemma str_of_Some [simp]: "str_of v = Some s \<longleftrightarrow> v = JStr s"
  by (cases v) auto

lemma arr_of_Some [simp]: "arr_of v = Some vs \<longleftrightarrow> v = JArr vs"
  by (cases v) auto

lemma safe_int_of_Some [simp]: "safe_int_of v = Some i \<longleftrightarrow> v = JInt i \<and> is_safe i"
  by (cases v) auto

text \<open>\<open>typeof v === "string" && p(v)\<close>.\<close>

definition str_such :: "(string \<Rightarrow> bool) \<Rightarrow> json \<Rightarrow> bool" where
  "str_such p v = (case v of JStr s \<Rightarrow> p s | _ \<Rightarrow> False)"

lemma str_such_iff: "str_such p v \<longleftrightarrow> (\<exists>s. v = JStr s \<and> p s)"
  by (auto simp: str_such_def split: json.splits)

text \<open>The same readings where the code throws \<open>e\<close> on a value of another type.\<close>

definition strR :: "'e \<Rightarrow> json \<Rightarrow> 'e + string" where
  "strR e v = (case str_of v of None \<Rightarrow> Inl e | Some s \<Rightarrow> Inr s)"

definition arrR :: "'e \<Rightarrow> json \<Rightarrow> 'e + json list" where
  "arrR e v = (case arr_of v of None \<Rightarrow> Inl e | Some vs \<Rightarrow> Inr vs)"

definition intR :: "'e \<Rightarrow> json \<Rightarrow> 'e + int" where
  "intR e v = (case safe_int_of v of None \<Rightarrow> Inl e | Some i \<Rightarrow> Inr i)"

lemma strR_Inr [result_simps]: "strR e v = Inr s \<longleftrightarrow> v = JStr s"
  by (auto simp: strR_def split: option.splits)

lemma arrR_Inr [result_simps]: "arrR e v = Inr vs \<longleftrightarrow> v = JArr vs"
  by (auto simp: arrR_def split: option.splits)

lemma intR_Inr [result_simps]: "intR e v = Inr i \<longleftrightarrow> v = JInt i \<and> is_safe i"
  by (auto simp: intR_def split: option.splits)

lemma readR_Inl [result_simps]:
  "strR e v = Inl e' \<longleftrightarrow> e' = e \<and> (\<forall>s. v \<noteq> JStr s)"
  "arrR e v = Inl e' \<longleftrightarrow> e' = e \<and> (\<forall>vs. v \<noteq> JArr vs)"
  "intR e v = Inl e' \<longleftrightarrow> e' = e \<and> (\<forall>i. v = JInt i \<longrightarrow> \<not> is_safe i)"
  by (cases v; auto simp: strR_def arrR_def intR_def)+

lemma readR_simps [simp]:
  "strR e (JStr s) = Inr s" "arrR e (JArr vs) = Inr vs" "is_safe i \<Longrightarrow> intR e (JInt i) = Inr i"
  by (simp_all add: strR_def arrR_def intR_def)

text \<open>\<open>Number(text)\<close> for a text of digits rounds to a double.\<close>

definition number_of_digits :: "string \<Rightarrow> int" where
  "number_of_digits s = js_round (int (digits_value s))"

definition is_digit_text :: "string \<Rightarrow> bool" where
  "is_digit_text s \<longleftrightarrow> s \<noteq> [] \<and> list_all is_digit s"

subsection \<open>Canonical JSON text\<close>

definition hex_digit :: "nat \<Rightarrow> char" where
  "hex_digit d = char_of (if d < 10 then 48 + d else 87 + d)"

definition json_escape :: "char \<Rightarrow> string" where
  "json_escape c =
     (let n = of_char c :: nat in
      if n = 34 then [char_of (92 :: nat), char_of (34 :: nat)]
      else if n = 92 then [char_of (92 :: nat), char_of (92 :: nat)]
      else if n = 8 then [char_of (92 :: nat), CHR ''b'']
      else if n = 12 then [char_of (92 :: nat), CHR ''f'']
      else if n = 10 then [char_of (92 :: nat), CHR ''n'']
      else if n = 13 then [char_of (92 :: nat), CHR ''r'']
      else if n = 9 then [char_of (92 :: nat), CHR ''t'']
      else if n < 32 then [char_of (92 :: nat), CHR ''u'', CHR ''0'', CHR ''0'', hex_digit (n div 16), hex_digit (n mod 16)]
      else [c])"

definition json_string :: "string \<Rightarrow> string" where
  "json_string s = [char_of (34 :: nat)] @ concat (map json_escape s) @ [char_of (34 :: nat)]"

fun join_with :: "string \<Rightarrow> string list \<Rightarrow> string" where
  "join_with sep [] = []"
| "join_with sep [x] = x"
| "join_with sep (x # xs) = x @ sep @ join_with sep xs"

text \<open>
  \<open>stableJson\<close>: members in the order of their keys. Keys compare by code unit, which is the
  lexicographic order of strings here. An \<open>undefined\<close> member is printed as the text the template
  literal of the code gives it.
\<close>

fun stable_json :: "json \<Rightarrow> string" where
  "stable_json JUndef = ''undefined''"
| "stable_json JNull = ''null''"
| "stable_json (JBool b) = (if b then ''true'' else ''false'')"
| "stable_json (JInt i) = int_text i"
| "stable_json (JReal t) = t"
| "stable_json (JStr s) = json_string s"
| "stable_json (JArr vs) = ''['' @ join_with '','' (map stable_json vs) @ '']''"
| "stable_json (JObj fs) =
     ''{'' @ join_with '','' (map (\<lambda>(k, t). json_string k @ '':'' @ t)
               (sort_key fst (map (\<lambda>(k, v). (k, stable_json v)) fs))) @ ''}''"

text \<open>What \<open>JSON.parse(JSON.stringify(v))\<close> gives back: \<open>undefined\<close> members are dropped.\<close>

fun json_roundtrip :: "json \<Rightarrow> json" where
  "json_roundtrip JUndef = JNull"
| "json_roundtrip (JReal t) = (if t = ''null'' then JNull else JReal t)"
| "json_roundtrip (JArr vs) = JArr (map json_roundtrip vs)"
| "json_roundtrip (JObj fs) =
     JObj (map (\<lambda>(k, v). (k, json_roundtrip v)) (filter (\<lambda>(k, v). v \<noteq> JUndef) fs))"
| "json_roundtrip v = v"

text \<open>A value as \<open>JSON.parse\<close> returns it: no \<open>undefined\<close>, finite numbers, distinct keys.\<close>

fun json_plain :: "json \<Rightarrow> bool" where
  "json_plain JUndef = False"
| "json_plain (JReal t) = (t \<noteq> ''null'')"
| "json_plain (JArr vs) = list_all json_plain vs"
| "json_plain (JObj fs) = (distinct (map fst fs) \<and> list_all (\<lambda>(k, v). json_plain v) fs)"
| "json_plain v = True"

lemma json_plain_not_undef: "json_plain v \<Longrightarrow> v \<noteq> JUndef"
  by auto

lemma json_roundtrip_plain: "json_plain v \<Longrightarrow> json_roundtrip v = v"
proof (induction v rule: json_roundtrip.induct)
  case (3 vs)
  then show ?case by (auto simp: list_all_iff intro: map_idI)
next
  case (4 fs)
  have "map (\<lambda>(k, v). (k, json_roundtrip v)) (filter (\<lambda>(k, v). v \<noteq> JUndef) fs) = fs"
  proof -
    have f: "filter (\<lambda>(k, v). v \<noteq> JUndef) fs = fs"
      using "4.prems" by (auto simp: list_all_iff filter_id_conv)
    have "map (\<lambda>(k, v). (k, json_roundtrip v)) fs = fs"
      using "4.prems" "4.IH" f by (intro map_idI) (force simp: list_all_iff)
    then show ?thesis by (simp add: f)
  qed
  then show ?case by simp
qed auto

text \<open>The canonical text does not depend on the order of the members.\<close>

lemma sort_key_perm:
  assumes "mset xs = mset ys" "distinct (map fst xs)"
  shows "sort_key fst xs = sort_key fst ys"
proof (rule properties_for_sort_key)
  show "mset (sort_key fst ys) = mset xs" by (simp add: assms(1))
  show "sorted (map fst (sort_key fst ys))" by simp
  have inj: "inj_on fst (set xs)" using assms(2) by (simp add: distinct_map)
  fix k assume "k \<in> set (sort_key fst ys)"
  then have kx: "k \<in> set xs" using assms(1) by (metis set_mset_mset set_sort)
  have "distinct xs" using assms(2) by (simp add: distinct_map)
  have single: "filter (\<lambda>x. fst k = fst x) zs = [k]" if "mset zs = mset xs" for zs
  proof -
    have "distinct zs" "set zs = set xs"
      using that \<open>distinct xs\<close> by (metis mset_eq_imp_distinct_iff, metis set_mset_mset)
    then have "set (filter (\<lambda>x. fst k = fst x) zs) = {k}" "distinct (filter (\<lambda>x. fst k = fst x) zs)"
      using kx inj by (auto dest: inj_onD)
    then show ?thesis by (intro distinct_set_single)
  qed
  show "filter (\<lambda>x. fst k = fst x) (sort_key fst ys) = filter (\<lambda>x. fst k = fst x) xs"
    using single[of "sort_key fst ys"] single[of xs] assms(1) by simp
qed

lemma stable_json_perm:
  assumes "mset fs = mset gs" "distinct (map fst fs)"
  shows "stable_json (JObj fs) = stable_json (JObj gs)"
proof -
  let ?t = "map (\<lambda>(k, v). (k, stable_json v))"
  have "mset (?t fs) = mset (?t gs)" using assms(1) by simp
  moreover have "distinct (map fst (?t fs))"
    using assms(2) by (simp add: case_prod_beta comp_def)
  ultimately have "sort_key fst (?t fs) = sort_key fst (?t gs)" by (rule sort_key_perm)
  then show ?thesis by simp
qed

subsection \<open>URLs\<close>

text \<open>
  The components of a parsed URL. \<open>host\<close> is the host with its port; \<open>pathname\<close> starts with a
  slash, \<open>search\<close> and \<open>hash\<close> are empty or start with their mark, as the platform has them for the
  \<open>http\<close> and \<open>https\<close> schemes. \<open>url_parser\<close> is the platform's \<open>new URL\<close>: \<open>None\<close> where it throws.
\<close>

record url =
  protocol :: string
  username :: string
  password :: string
  host :: string
  hostname :: string
  pathname :: string
  search :: string
  hash :: string

type_synonym url_parser = "string \<Rightarrow> url option"

definition http_or_https :: "url \<Rightarrow> bool" where
  "http_or_https u \<longleftrightarrow> protocol u = ''https:'' \<or> protocol u = ''http:''"

definition url_origin :: "url \<Rightarrow> string" where
  "url_origin u = protocol u @ ''//'' @ host u"

definition url_credentials :: "url \<Rightarrow> string" where
  "url_credentials u =
     (if username u = [] \<and> password u = [] then []
      else username u @ (if password u = [] then [] else '':'' @ password u) @ ''@'')"

text \<open>\<open>url.toString()\<close>.\<close>

definition url_text :: "url \<Rightarrow> string" where
  "url_text u = protocol u @ ''//'' @ url_credentials u @ host u @ pathname u @ search u @ hash u"

text \<open>\<open>s.replace(/\/+$/, "")\<close> and \<open>s.replace(/\/$/, "")\<close>.\<close>

definition strip_slashes :: "string \<Rightarrow> string" where
  "strip_slashes s = rev (dropWhile (\<lambda>c. c = CHR ''/'') (rev s))"

definition strip_slash :: "string \<Rightarrow> string" where
  "strip_slash s = (if s \<noteq> [] \<and> last s = CHR ''/'' then butlast s else s)"

text \<open>
  \<open>url.pathname = url.pathname.replace(/\/+$/, "")\<close>: the setter gives a URL of an \<open>http\<close> or
  \<open>https\<close> scheme the path \<open>/\<close> when the new path is empty.
\<close>

definition strip_path :: "url \<Rightarrow> url" where
  "strip_path u =
     (let p = strip_slashes (pathname u) in u\<lparr>pathname := if p = [] then ''/'' else p\<rparr>)"

definition normal_url_text :: "url \<Rightarrow> string" where
  "normal_url_text u = strip_slash (url_text (strip_path u))"

lemma strip_slashes_last:
  assumes "strip_slashes s \<noteq> []"
  shows "last (strip_slashes s) \<noteq> CHR ''/''"
proof -
  have "dropWhile (\<lambda>c. c = CHR ''/'') (rev s) \<noteq> []"
    using assms by (simp add: strip_slashes_def)
  from hd_dropWhile[OF this] show ?thesis
    by (simp add: strip_slashes_def last_rev)
qed

lemma strip_slashes_idem [simp]: "strip_slashes (strip_slashes s) = strip_slashes s"
  by (simp add: strip_slashes_def dropWhile_idem)

lemma strip_path_idem [simp]: "strip_path (strip_path u) = strip_path u"
  by (auto simp: strip_path_def Let_def) (simp add: strip_slashes_def)

lemma strip_path_fields [simp]:
  "protocol (strip_path u) = protocol u" "username (strip_path u) = username u"
  "password (strip_path u) = password u" "host (strip_path u) = host u"
  "hostname (strip_path u) = hostname u" "search (strip_path u) = search u"
  "hash (strip_path u) = hash u"
  by (simp_all add: strip_path_def Let_def)

text \<open>A normalised URL without query, fragment and credentials is the origin and the bare path.\<close>

lemma normal_url_text_eq:
  assumes "username u = []" "password u = []" "search u = []" "hash u = []"
  shows "normal_url_text u = url_origin u @ strip_slashes (pathname u)"
proof (cases "strip_slashes (pathname u) = []")
  case True
  then show ?thesis
    by (simp add: normal_url_text_def strip_path_def url_text_def url_credentials_def assms
        strip_slash_def url_origin_def butlast_append)
next
  case False
  then show ?thesis
    using strip_slashes_last[OF False]
    by (simp add: normal_url_text_def strip_path_def url_text_def url_credentials_def assms
        strip_slash_def url_origin_def)
qed

end
