(* ===== verification/Relay_Protocol.thy ===== *)
theory Relay_Protocol
  imports Js_Value
begin

section \<open>Relay: parsing of requests (relay/src/protocol.ts)\<close>

text \<open>
  Registrations of delivery slots and payment payloads, as the relay reads them from JSON. A
  thrown \<open>HttpError\<close> is its status and code; the message texts are left out. SHA-256 (in
  hexadecimal) is the parameter \<open>H\<close> and the platform's URL parser the parameter \<open>U\<close>.
\<close>

datatype http_error = HttpError (err_status: nat) (err_code: string)

record register_order_input =
  ri_orderId :: string
  ri_amount :: int
  ri_unit :: string
  ri_mint :: string
  ri_requestDigest :: string
  ri_expiresAt :: int
  ri_writeCapability :: string
  ri_readCapability :: string

text \<open>A proof is kept as the JSON object it came as; the payload is a record of its own.\<close>

type_synonym payment_proof = json

record payment_payload =
  pp_id :: string
  pp_memo :: "string option"
  pp_unit :: string
  pp_mint :: string
  pp_proofs :: "payment_proof list"

definition exactKeys :: "json \<Rightarrow> string list \<Rightarrow> string list \<Rightarrow> http_error + unit" where
  "exactKeys value required optional =
     guardR (exact_keys value required optional) (HttpError 400 ''invalid_request'')"

definition plain_http_url :: "url \<Rightarrow> bool" where
  "plain_http_url u \<longleftrightarrow>
     http_or_https u \<and> username u = [] \<and> password u = [] \<and> search u = [] \<and> hash u = []"

definition normalizedMint :: "url_parser \<Rightarrow> json \<Rightarrow> http_error + string" where
  "normalizedMint U value =
     bindR (strR (HttpError 400 ''invalid_mint'') value) (\<lambda>s.
       case U s of
         None \<Rightarrow> Inl (HttpError 400 ''invalid_mint'')
       | Some parsed \<Rightarrow>
           if \<not> plain_http_url parsed then Inl (HttpError 400 ''invalid_mint'')
           else Inr (normal_url_text parsed))"

definition positiveInteger :: "json \<Rightarrow> string \<Rightarrow> http_error + int" where
  "positiveInteger value code =
     (let parsed = (case value of
                      JStr s \<Rightarrow> (if is_digit_text s then JInt (number_of_digits s) else value)
                    | _ \<Rightarrow> value)
      in case safe_int_of parsed of
           None \<Rightarrow> Inl (HttpError 400 code)
         | Some i \<Rightarrow> if i \<le> 0 then Inl (HttpError 400 code) else Inr i)"

definition is_capability :: "string \<Rightarrow> bool" where
  "is_capability = chars_between is_b64url 43 128"

definition capability :: "json \<Rightarrow> http_error + string" where
  "capability value =
     bindR (strR (HttpError 400 ''invalid_capability'') value) (\<lambda>s.
       if is_capability s then Inr s else Inl (HttpError 400 ''invalid_capability''))"

definition hashSecret :: "(string \<Rightarrow> string) \<Rightarrow> string \<Rightarrow> string" where
  "hashSecret H value = H value"

definition digestPayload :: "(string \<Rightarrow> string) \<Rightarrow> json \<Rightarrow> string" where
  "digestPayload H value = ''sha256:'' @ H (stable_json value)"

definition is_order_id :: "string \<Rightarrow> bool" where
  "is_order_id = chars_between is_b64url 16 128"

definition is_request_digest :: "string \<Rightarrow> bool" where
  "is_request_digest s \<longleftrightarrow>
     starts_with ''sha256:'' s \<and> chars_between is_lower_hex 64 64 (drop 7 s)"

definition parseRegistration ::
  "url_parser \<Rightarrow> json \<Rightarrow> int \<Rightarrow> int \<Rightarrow> http_error + register_order_input" where
  "parseRegistration U value now maxTtlSeconds =
     bindR (guardR (is_record value) (HttpError 400 ''invalid_request'')) (\<lambda>_.
     bindR (exactKeys value
       [''order_id'', ''amount'', ''unit'', ''mint'', ''request_digest'', ''expires_at'',
        ''write_capability'', ''read_capability''] []) (\<lambda>_.
     bindR (strR (HttpError 400 ''invalid_order'') (field value ''order_id'')) (\<lambda>orderId.
     if \<not> is_order_id orderId then Inl (HttpError 400 ''invalid_order'')
     else if field value ''unit'' \<noteq> JStr ''rusd'' then Inl (HttpError 400 ''invalid_unit'')
     else
       bindR (strR (HttpError 400 ''invalid_digest'') (field value ''request_digest'')) (\<lambda>requestDigest.
       if \<not> is_request_digest requestDigest then Inl (HttpError 400 ''invalid_digest'')
       else
         bindR (intR (HttpError 400 ''invalid_expiry'') (field value ''expires_at'')) (\<lambda>expiresAt.
         if expiresAt \<le> now \<or> js_add now maxTtlSeconds < expiresAt
         then Inl (HttpError 400 ''invalid_expiry'')
         else
           bindR (capability (field value ''write_capability'')) (\<lambda>writeCapability.
           bindR (capability (field value ''read_capability'')) (\<lambda>readCapability.
           if writeCapability = readCapability then Inl (HttpError 400 ''invalid_capability'')
           else
             bindR (positiveInteger (field value ''amount'') ''invalid_amount'') (\<lambda>amount.
             bindR (normalizedMint U (field value ''mint'')) (\<lambda>mint.
             Inr \<lparr>ri_orderId = orderId, ri_amount = amount, ri_unit = ''rusd'',
                  ri_mint = mint, ri_requestDigest = requestDigest,
                  ri_expiresAt = expiresAt, ri_writeCapability = writeCapability,
                  ri_readCapability = readCapability\<rparr>)))))))))"

definition is_proof_id :: "string \<Rightarrow> bool" where
  "is_proof_id = chars_between is_b64url 1 128"

definition is_proof_secret :: "string \<Rightarrow> bool" where
  "is_proof_secret s \<longleftrightarrow> 16 \<le> length s \<and> length s \<le> 4096"

definition is_proof_C :: "string \<Rightarrow> bool" where
  "is_proof_C = chars_between is_hex 32 256"

text \<open>The body of the \<open>map\<close> over the proofs of a payload.\<close>

definition parseProof :: "json \<Rightarrow> http_error + payment_proof" where
  "parseProof item =
     bindR (guardR (is_record item) (HttpError 400 ''invalid_proofs'')) (\<lambda>_.
     bindR (exactKeys item [''amount'', ''id'', ''secret'', ''C''] [''dleq'', ''witness'', ''p2pk_e'']) (\<lambda>_.
     bindR (positiveInteger (field item ''amount'') ''invalid_proofs'') (\<lambda>_.
     if \<not> str_such is_proof_id (field item ''id'') \<or>
        \<not> str_such is_proof_secret (field item ''secret'') \<or>
        \<not> str_such is_proof_C (field item ''C'') \<or>
        (field item ''p2pk_e'' \<noteq> JUndef \<and> \<not> str_such (\<lambda>_. True) (field item ''p2pk_e''))
     then Inl (HttpError 400 ''invalid_proofs'')
     else Inr item)))"

definition memo_of :: "json \<Rightarrow> http_error + string option" where
  "memo_of v =
     (case v of
        JUndef \<Rightarrow> Inr None
      | JStr s \<Rightarrow> if 280 < length s then Inl (HttpError 400 ''invalid_memo'') else Inr (Some s)
      | _ \<Rightarrow> Inl (HttpError 400 ''invalid_memo''))"

definition parsePaymentPayload :: "url_parser \<Rightarrow> json \<Rightarrow> http_error + payment_payload" where
  "parsePaymentPayload U value =
     bindR (guardR (is_record value) (HttpError 400 ''invalid_payload'')) (\<lambda>_.
     bindR (exactKeys value [''id'', ''unit'', ''mint'', ''proofs''] [''memo'']) (\<lambda>_.
     bindR (strR (HttpError 400 ''invalid_order'') (field value ''id'')) (\<lambda>pid.
     if \<not> is_order_id pid then Inl (HttpError 400 ''invalid_order'')
     else if field value ''unit'' \<noteq> JStr ''rusd'' then Inl (HttpError 400 ''invalid_unit'')
     else
       bindR (memo_of (field value ''memo'')) (\<lambda>memo.
       bindR (arrR (HttpError 400 ''invalid_proofs'') (field value ''proofs'')) (\<lambda>items.
       if items = [] \<or> 256 < length items then Inl (HttpError 400 ''invalid_proofs'')
       else
         bindR (mapR parseProof items) (\<lambda>proofs.
         bindR (normalizedMint U (field value ''mint'')) (\<lambda>mint.
         Inr \<lparr>pp_id = pid, pp_memo = memo, pp_unit = ''rusd'', pp_mint = mint,
              pp_proofs = proofs\<rparr>)))))))"

text \<open>The loop of \<open>payloadAmount\<close>: the running total is checked after every addition.\<close>

fun proofs_total :: "int \<Rightarrow> payment_proof list \<Rightarrow> http_error + int" where
  "proofs_total acc [] = Inr acc"
| "proofs_total acc (x # xs) =
     bindR (positiveInteger (field x ''amount'') ''invalid_proofs'') (\<lambda>a.
       let acc' = js_add acc a in
       if \<not> is_safe acc' then Inl (HttpError 400 ''invalid_proofs'')
       else proofs_total acc' xs)"

definition payloadAmount :: "payment_payload \<Rightarrow> http_error + int" where
  "payloadAmount payload = proofs_total 0 (pp_proofs payload)"

text \<open>The payload as the JavaScript object that is digested and stored.\<close>

definition payload_object :: "payment_payload \<Rightarrow> json" where
  "payload_object p =
     JObj [(''id'', JStr (pp_id p)),
           (''memo'', (case pp_memo p of None \<Rightarrow> JUndef | Some m \<Rightarrow> JStr m)),
           (''unit'', JStr (pp_unit p)),
           (''mint'', JStr (pp_mint p)),
           (''proofs'', JArr (pp_proofs p))]"

subsection \<open>What the parsers guarantee\<close>

definition proof_amount :: "payment_proof \<Rightarrow> int" where
  "proof_amount proof =
     (case field proof ''amount'' of JInt i \<Rightarrow> i | JStr s \<Rightarrow> int (digits_value s) | _ \<Rightarrow> 0)"

lemma positiveInteger_Inr:
  "positiveInteger v code = Inr i \<longleftrightarrow>
     0 < i \<and> is_safe i \<and>
     (v = JInt i \<or> (\<exists>s. v = JStr s \<and> is_digit_text s \<and> int (digits_value s) = i))"
  by (cases v)
    (auto simp: positiveInteger_def number_of_digits_def js_round_unsafe js_round_exact Let_def)

lemma positiveInteger_Inl: "positiveInteger v code = Inl e \<Longrightarrow> e = HttpError 400 code"
  by (auto simp: positiveInteger_def Let_def split: option.splits if_splits)

lemma positiveInteger_amount:
  "positiveInteger (field p ''amount'') code = Inr i \<Longrightarrow> proof_amount p = i"
  by (auto simp: positiveInteger_Inr proof_amount_def)

lemma normalizedMint_Inr:
  "normalizedMint U v = Inr m \<longleftrightarrow>
     (\<exists>s u. v = JStr s \<and> U s = Some u \<and> plain_http_url u \<and> m = normal_url_text u)"
  by (auto simp: normalizedMint_def result_simps split: option.splits)

lemma capability_Inr [result_simps]: "capability v = Inr c \<longleftrightarrow> v = JStr c \<and> is_capability c"
  by (auto simp: capability_def result_simps split: if_splits)

lemma exactKeys_Inr [result_simps]: "exactKeys v r p = Inr u \<longleftrightarrow> exact_keys v r p"
  by (simp add: exactKeys_def result_simps)

lemma parseProof_Inr_same: "parseProof item = Inr p \<Longrightarrow> p = item"
  by (auto simp: parseProof_def result_simps split: if_splits)

lemma parseProof_amount:
  "parseProof item = Inr p \<Longrightarrow> 0 < proof_amount p \<and> is_safe (proof_amount p)"
  by (auto simp: parseProof_def result_simps positiveInteger_Inr proof_amount_def split: if_splits)

text \<open>The exact sum: no rounding is left in a total that the loop returns.\<close>

lemma proofs_total_Inr:
  assumes "proofs_total t ps = Inr n" "0 \<le> t" "is_safe t"
  shows "n = t + sum_list (map proof_amount ps) \<and> is_safe n \<and> t \<le> n \<and>
         (\<forall>p \<in> set ps. 0 < proof_amount p)"
  using assms
proof (induction ps arbitrary: t)
  case Nil
  then show ?case by simp
next
  case (Cons p ps)
  from Cons.prems(1) obtain a where a: "positiveInteger (field p ''amount'') ''invalid_proofs'' = Inr a"
    and safe: "is_safe (js_add t a)" and rest: "proofs_total (js_add t a) ps = Inr n"
    by (auto simp: result_simps Let_def split: if_splits)
  from safe have eq: "js_add t a = t + a"
    by (simp add: is_safe_js_add js_add_exact)
  from a have pos: "0 < a" by (simp add: positiveInteger_Inr)
  have "0 \<le> t + a" "is_safe (t + a)"
    using pos Cons.prems(2) safe by (simp_all add: eq)
  then have IH: "n = (t + a) + sum_list (map proof_amount ps)" "is_safe n" "t + a \<le> n"
    "\<forall>p \<in> set ps. 0 < proof_amount p"
    using Cons.IH[of "t + a"] rest unfolding eq by blast+
  have "proof_amount p = a" by (rule positiveInteger_amount[OF a])
  with IH(1) have "n = t + sum_list (map proof_amount (p # ps))" by simp
  moreover have "\<forall>q \<in> set (p # ps). 0 < proof_amount q"
    using IH(4) pos \<open>proof_amount p = a\<close> by simp
  ultimately show ?case using IH(2,3) pos by linarith
qed

lemma proofs_total_complete:
  assumes "\<forall>p \<in> set ps. positiveInteger (field p ''amount'') ''invalid_proofs'' = Inr (proof_amount p)"
    "0 \<le> t" "is_safe (t + sum_list (map proof_amount ps))"
  shows "proofs_total t ps = Inr (t + sum_list (map proof_amount ps))"
  using assms
proof (induction ps arbitrary: t)
  case (Cons p ps)
  have pos: "0 < proof_amount q" if "q \<in> set (p # ps)" for q
    using Cons.prems(1) that by (auto simp: positiveInteger_Inr)
  have "0 \<le> sum_list (map proof_amount ps)"
    by (rule sum_list_nonneg) (use pos in \<open>force\<close>)
  with Cons.prems pos[of p] have "is_safe (t + proof_amount p)"
    by (auto intro: is_safe_mono)
  then have "js_add t (proof_amount p) = t + proof_amount p"
    by (rule js_add_exact)
  then show ?case
    using Cons pos[of p] \<open>is_safe (t + proof_amount p)\<close> by (auto simp: Let_def algebra_simps)
qed simp

lemma proofs_total_unsafe:
  assumes "\<forall>p \<in> set ps. positiveInteger (field p ''amount'') ''invalid_proofs'' = Inr (proof_amount p)"
    "0 \<le> t" "is_safe t" "\<not> is_safe (t + sum_list (map proof_amount ps))"
  shows "proofs_total t ps = Inl (HttpError 400 ''invalid_proofs'')"
proof (cases "proofs_total t ps")
  case (Inr n)
  with proofs_total_Inr[OF this] assms show ?thesis by auto
next
  case (Inl e)
  then show ?thesis
    by (induction t ps rule: proofs_total.induct)
      (auto simp: result_simps Let_def dest: positiveInteger_Inl split: if_splits)
qed

definition valid_payload :: "payment_payload \<Rightarrow> bool" where
  "valid_payload p \<longleftrightarrow>
     is_order_id (pp_id p) \<and> pp_unit p = ''rusd'' \<and>
     (case pp_memo p of None \<Rightarrow> True | Some m \<Rightarrow> length m \<le> 280) \<and>
     pp_proofs p \<noteq> [] \<and> length (pp_proofs p) \<le> 256 \<and>
     (\<forall>x \<in> set (pp_proofs p). parseProof x = Inr x)"

lemma memo_of_Inr [result_simps]:
  "memo_of v = Inr m \<longleftrightarrow>
     (v = JUndef \<and> m = None) \<or> (\<exists>s. v = JStr s \<and> length s \<le> 280 \<and> m = Some s)"
  by (auto simp: memo_of_def split: json.splits)

lemma mapR_parseProof:
  "mapR parseProof items = Inr ps \<longleftrightarrow> ps = items \<and> (\<forall>x \<in> set items. parseProof x = Inr x)"
proof
  assume m: "mapR parseProof items = Inr ps"
  then have "ps = items" by (rule mapR_Inr_id[rotated]) (simp add: parseProof_Inr_same)
  moreover have "\<forall>x \<in> set items. parseProof x = Inr x"
    using mapR_Inr_nth[OF m] \<open>ps = items\<close> by (auto simp: in_set_conv_nth)
  ultimately show "ps = items \<and> (\<forall>x \<in> set items. parseProof x = Inr x)" by simp
next
  assume "ps = items \<and> (\<forall>x \<in> set items. parseProof x = Inr x)"
  then show "mapR parseProof items = Inr ps"
    using mapR_cong_Inr[of items parseProof "\<lambda>x. x"] by simp
qed

lemma parsePaymentPayload_Inr:
  "parsePaymentPayload U v = Inr p \<Longrightarrow>
     valid_payload p \<and> normalizedMint U (field v ''mint'') = Inr (pp_mint p)"
  by (auto simp: parsePaymentPayload_def result_simps valid_payload_def mapR_parseProof
      split: if_splits)

definition valid_registration :: "int \<Rightarrow> int \<Rightarrow> register_order_input \<Rightarrow> bool" where
  "valid_registration now ttl r \<longleftrightarrow>
     is_order_id (ri_orderId r) \<and> 0 < ri_amount r \<and> is_safe (ri_amount r) \<and>
     ri_unit r = ''rusd'' \<and> is_request_digest (ri_requestDigest r) \<and>
     now < ri_expiresAt r \<and> ri_expiresAt r \<le> js_add now ttl \<and>
     is_capability (ri_writeCapability r) \<and> is_capability (ri_readCapability r) \<and>
     ri_writeCapability r \<noteq> ri_readCapability r"

lemma parseRegistration_Inr:
  "parseRegistration U v now ttl = Inr r \<Longrightarrow> valid_registration now ttl r"
  by (auto simp: parseRegistration_def result_simps valid_registration_def positiveInteger_Inr
      split: if_splits)

lemma payloadAmount_valid:
  assumes "valid_payload p" "payloadAmount p = Inr n"
  shows "n = sum_list (map proof_amount (pp_proofs p)) \<and> 0 < n \<and> is_safe n"
proof -
  from assms(2) have t: "proofs_total 0 (pp_proofs p) = Inr n"
    by (simp add: payloadAmount_def)
  have "is_safe 0" by (simp add: is_safe_def max_safe_def)
  then have n: "n = sum_list (map proof_amount (pp_proofs p)) \<and> is_safe n \<and>
      (\<forall>x \<in> set (pp_proofs p). 0 < proof_amount x)"
    using proofs_total_Inr[OF t] by auto
  obtain x xs where xs: "pp_proofs p = x # xs"
    using assms(1) by (auto simp: valid_payload_def neq_Nil_conv)
  have "0 \<le> sum_list (map proof_amount xs)"
    by (rule sum_list_nonneg) (use n xs in force)
  with n xs show ?thesis by auto
qed

end
