(* ===== verification/State_Machine.thy ===== *)
theory State_Machine
  imports Prelude
begin

section \<open>Machines with an invariant\<close>

text \<open>
  The stores of the program are machines: a state and a list of operations, each a total step
  (an operation that throws is a step that leaves its state). \<open>run_machine\<close> runs a list of
  operations. The locale \<open>invariant_machine\<close> is the contract that an invariant's preservation
  gives: whoever shows that every single step keeps it gets that every run keeps it.
  \<open>tracked_machine\<close> adds a relation between the states before and after a step that is reflexive
  and transitive, such as "no row goes back": every run then satisfies it.
\<close>

definition run_machine :: "('o \<Rightarrow> 's \<Rightarrow> 's) \<Rightarrow> 'o list \<Rightarrow> 's \<Rightarrow> 's" where
  "run_machine step ops s = fold step ops s"

lemma run_machine_simps [simp]:
  "run_machine step [] s = s"
  "run_machine step (x # ops) s = run_machine step ops (step x s)"
  by (simp_all add: run_machine_def)

lemma run_machine_append [simp]:
  "run_machine step (xs @ ys) s = run_machine step ys (run_machine step xs s)"
  by (simp add: run_machine_def)

locale invariant_machine =
  fixes step :: "'o \<Rightarrow> 's \<Rightarrow> 's"
    and inv :: "'s \<Rightarrow> bool"
  assumes step_inv: "inv s \<Longrightarrow> inv (step x s)"
begin

lemma run_inv: "inv s \<Longrightarrow> inv (run_machine step ops s)"
  by (induction ops arbitrary: s) (auto intro: step_inv)

end

locale tracked_machine = invariant_machine step inv
  for step :: "'o \<Rightarrow> 's \<Rightarrow> 's" and inv :: "'s \<Rightarrow> bool" +
  fixes track :: "'s \<Rightarrow> 's \<Rightarrow> bool"
    and allowed :: "'o \<Rightarrow> bool"
  assumes track_refl: "track s s"
    and track_trans: "track s t \<Longrightarrow> track t u \<Longrightarrow> track s u"
    and step_track: "inv s \<Longrightarrow> allowed x \<Longrightarrow> track s (step x s)"
begin

lemma run_track: "inv s \<Longrightarrow> list_all allowed ops \<Longrightarrow> track s (run_machine step ops s)"
proof (induction ops arbitrary: s)
  case Nil
  then show ?case by (simp add: track_refl)
next
  case (Cons x ops)
  then have "track s (step x s)" "track (step x s) (run_machine step ops (step x s))"
    using step_inv[of s x] by (auto intro: step_track)
  then show ?case by (auto intro: track_trans)
qed

end

end
