(* ===== verification/Relay_Store.thy ===== *)
theory Relay_Store
  imports Relay_Protocol State_Machine
begin

section \<open>Relay: the slot store (relay/src/database.ts)\<close>

text \<open>
  The table \<open>relay_orders\<close> is the list of its rows in insertion order. A \<open>SELECT\<close> by a unique
  column is \<open>find\<close>, an \<open>UPDATE ... WHERE\<close> is \<open>update_where\<close>, a \<open>DELETE ... WHERE\<close> is \<open>filter\<close>. The
  column \<open>payload_json\<close> holds the JSON document that parsing the stored text gives back. Every
  operation reads the clock as one instant \<open>now\<close>; an operation returns its result or error and
  the table it leaves. \<open>deliver\<close> runs in a transaction, so its errors leave the table as it was.
\<close>

datatype slot_state = Open | Delivered | Acknowledged | Cancelled | Expired

record order_row =
  order_id_hash :: string
  write_hash :: string
  read_hash :: string
  row_amount :: int
  row_unit :: string
  row_mint :: string
  request_digest :: string
  expires_at :: int
  row_state :: slot_state
  payload_json :: "json option"
  payload_digest :: "string option"
  created_at :: int
  delivered_at :: "int option"
  acknowledged_at :: "int option"
  cancelled_at :: "int option"

type_synonym relay_store = "order_row list"

datatype register_result = Created | Existing
datatype delivery_result = Stored | Duplicate_delivery
datatype ack_result = Acknowledged_now | Duplicate_ack
datatype cancel_result = Cancelled_now | Duplicate_cancel

subsection \<open>Operations\<close>

text \<open>The INSERT fails on the primary key, on the two UNIQUE columns and on the CHECK of the amount.\<close>

definition insert_order :: "order_row \<Rightarrow> relay_store \<Rightarrow> relay_store option" where
  "insert_order r rows =
     (if (\<exists>x \<in> set rows. order_id_hash x = order_id_hash r \<or> write_hash x = write_hash r \<or>
                         read_hash x = read_hash r) \<or> \<not> 0 < row_amount r
      then None else Some (rows @ [r]))"

definition same_registration ::
  "(string \<Rightarrow> string) \<Rightarrow> register_order_input \<Rightarrow> order_row \<Rightarrow> bool" where
  "same_registration H input r \<longleftrightarrow>
     write_hash r = hashSecret H (ri_writeCapability input) \<and>
     read_hash r = hashSecret H (ri_readCapability input) \<and>
     row_amount r = ri_amount input \<and> row_unit r = ri_unit input \<and> row_mint r = ri_mint input \<and>
     request_digest r = ri_requestDigest input \<and> expires_at r = ri_expiresAt input"

definition new_row :: "(string \<Rightarrow> string) \<Rightarrow> int \<Rightarrow> register_order_input \<Rightarrow> order_row" where
  "new_row H now input =
     \<lparr>order_id_hash = hashSecret H (ri_orderId input),
      write_hash = hashSecret H (ri_writeCapability input),
      read_hash = hashSecret H (ri_readCapability input),
      row_amount = ri_amount input, row_unit = ri_unit input, row_mint = ri_mint input,
      request_digest = ri_requestDigest input, expires_at = ri_expiresAt input,
      row_state = Open, payload_json = None, payload_digest = None,
      created_at = now, delivered_at = None, acknowledged_at = None, cancelled_at = None\<rparr>"

definition register ::
  "(string \<Rightarrow> string) \<Rightarrow> int \<Rightarrow> register_order_input \<Rightarrow> relay_store \<Rightarrow>
   (http_error + register_result) \<times> relay_store" where
  "register H now input rows =
     (case find (\<lambda>r. order_id_hash r = hashSecret H (ri_orderId input)) rows of
        Some existing \<Rightarrow>
          (if same_registration H input existing then Inr Existing
           else Inl (HttpError 409 ''order_conflict''), rows)
      | None \<Rightarrow>
          (case insert_order (new_row H now input) rows of
             None \<Rightarrow> (Inl (HttpError 409 ''capability_conflict''), rows)
           | Some rows' \<Rightarrow> (Inr Created, rows')))"

text \<open>\<open>expireRow\<close> changes the table and the row object that the caller holds.\<close>

definition expire :: "order_row \<Rightarrow> order_row" where
  "expire r = r\<lparr>row_state := Expired, payload_json := None\<rparr>"

definition is_due :: "int \<Rightarrow> order_row \<Rightarrow> bool" where
  "is_due now r \<longleftrightarrow> expires_at r \<le> now \<and> row_state r = Open"

definition expireRow :: "int \<Rightarrow> order_row \<Rightarrow> relay_store \<Rightarrow> order_row \<times> relay_store" where
  "expireRow now row rows =
     (if \<not> is_due now row then (row, rows)
      else (expire row,
            update_where (\<lambda>r. order_id_hash r = order_id_hash row \<and> row_state r = Open) expire rows))"

definition mark_delivered :: "int \<Rightarrow> json \<Rightarrow> string \<Rightarrow> order_row \<Rightarrow> order_row" where
  "mark_delivered now document digest r =
     r\<lparr>row_state := Delivered, payload_json := Some document, payload_digest := Some digest,
       delivered_at := Some now\<rparr>"

text \<open>The test of the mismatch branch; counting the amount may throw.\<close>

definition payload_mismatch ::
  "(string \<Rightarrow> string) \<Rightarrow> payment_payload \<Rightarrow> order_row \<Rightarrow> http_error + bool" where
  "payload_mismatch H payload row =
     (if hashSecret H (pp_id payload) \<noteq> order_id_hash row \<or> pp_unit payload \<noteq> row_unit row \<or>
         pp_mint payload \<noteq> row_mint row
      then Inr True
      else bindR (payloadAmount payload) (\<lambda>n. Inr (n \<noteq> row_amount row)))"

definition deliver ::
  "(string \<Rightarrow> string) \<Rightarrow> int \<Rightarrow> string \<Rightarrow> payment_payload \<Rightarrow> relay_store \<Rightarrow>
   (http_error + delivery_result) \<times> relay_store" where
  "deliver H now writeCapability payload rows =
     (let writeHash = hashSecret H writeCapability;
          payloadDigest = digestPayload H (payload_object payload)
      in case find (\<lambda>r. write_hash r = writeHash) rows of
           None \<Rightarrow> (Inl (HttpError 404 ''not_found''), rows)
         | Some found \<Rightarrow>
             (let (row, rows') = expireRow now found rows in
              if row_state row = Expired \<or> row_state row = Cancelled
              then (Inl (HttpError 410 ''slot_closed''), rows)
              else if payload_digest row \<noteq> None \<and> payload_digest row \<noteq> Some []
              then (if payload_digest row = Some payloadDigest then (Inr Duplicate_delivery, rows')
                    else (Inl (HttpError 409 ''payload_conflict''), rows))
              else (case payload_mismatch H payload row of
                      Inl e \<Rightarrow> (Inl e, rows)
                    | Inr True \<Rightarrow> (Inl (HttpError 422 ''payload_mismatch''), rows)
                    | Inr False \<Rightarrow>
                        (Inr Stored,
                         update_where
                           (\<lambda>r. write_hash r = writeHash \<and> row_state r = Open \<and> payload_digest r = None)
                           (mark_delivered now (json_roundtrip (payload_object payload)) payloadDigest)
                           rows'))))"

definition rowForRead :: "(string \<Rightarrow> string) \<Rightarrow> string \<Rightarrow> relay_store \<Rightarrow> http_error + order_row" where
  "rowForRead H readCapability rows =
     (case find (\<lambda>r. read_hash r = hashSecret H readCapability) rows of
        None \<Rightarrow> Inl (HttpError 404 ''not_found'')
      | Some row \<Rightarrow> Inr row)"

definition read_slot ::
  "(string \<Rightarrow> string) \<Rightarrow> int \<Rightarrow> string \<Rightarrow> relay_store \<Rightarrow> (http_error + json option) \<times> relay_store" where
  "read_slot H now readCapability rows =
     (case rowForRead H readCapability rows of
        Inl e \<Rightarrow> (Inl e, rows)
      | Inr found \<Rightarrow>
          (let (row, rows') = expireRow now found rows in
           if row_state row = Open then (Inr None, rows')
           else if row_state row \<noteq> Delivered \<or> payload_json row = None
           then (Inl (HttpError 410 ''slot_closed''), rows')
           else (Inr (payload_json row), rows')))"

definition acknowledge ::
  "(string \<Rightarrow> string) \<Rightarrow> int \<Rightarrow> string \<Rightarrow> relay_store \<Rightarrow> (http_error + ack_result) \<times> relay_store" where
  "acknowledge H now readCapability rows =
     (case rowForRead H readCapability rows of
        Inl e \<Rightarrow> (Inl e, rows)
      | Inr found \<Rightarrow>
          (let (row, rows') = expireRow now found rows in
           if row_state row = Acknowledged then (Inr Duplicate_ack, rows')
           else if row_state row \<noteq> Delivered
           then (Inl (HttpError 409 ''not_delivered''), rows')
           else (Inr Acknowledged_now,
                 update_where (\<lambda>r. read_hash r = hashSecret H readCapability \<and> row_state r = Delivered)
                   (\<lambda>r. r\<lparr>row_state := Acknowledged, payload_json := None, acknowledged_at := Some now\<rparr>)
                   rows')))"

definition cancel ::
  "(string \<Rightarrow> string) \<Rightarrow> int \<Rightarrow> string \<Rightarrow> relay_store \<Rightarrow> (http_error + cancel_result) \<times> relay_store" where
  "cancel H now readCapability rows =
     (case rowForRead H readCapability rows of
        Inl e \<Rightarrow> (Inl e, rows)
      | Inr found \<Rightarrow>
          (let (row, rows') = expireRow now found rows in
           if row_state row = Cancelled then (Inr Duplicate_cancel, rows')
           else if row_state row \<noteq> Open
           then (Inl (HttpError 409 ''delivery_won''), rows')
           else (Inr Cancelled_now,
                 update_where (\<lambda>r. read_hash r = hashSecret H readCapability \<and> row_state r = Open)
                   (\<lambda>r. r\<lparr>row_state := Cancelled, cancelled_at := Some now\<rparr>)
                   rows')))"

text \<open>\<open>cleanup\<close>: the two UPDATEs and the DELETE, and the number of deleted rows.\<close>

definition cleanup_expire_open :: "int \<Rightarrow> relay_store \<Rightarrow> relay_store" where
  "cleanup_expire_open now = update_where (\<lambda>r. expires_at r \<le> now \<and> row_state r = Open) expire"

definition cleanup_expire_delivered :: "int \<Rightarrow> relay_store \<Rightarrow> relay_store" where
  "cleanup_expire_delivered cutoff =
     update_where (\<lambda>r. (case delivered_at r of None \<Rightarrow> False | Some t \<Rightarrow> t \<le> cutoff) \<and>
                       row_state r = Delivered) expire"

definition cleanup_deletes :: "int \<Rightarrow> order_row \<Rightarrow> bool" where
  "cleanup_deletes cutoff r \<longleftrightarrow>
     expires_at r \<le> cutoff \<and> row_state r \<in> {Expired, Acknowledged, Cancelled}"

definition cleanup :: "int \<Rightarrow> int \<Rightarrow> relay_store \<Rightarrow> nat \<times> relay_store" where
  "cleanup now retentionSeconds rows =
     (let cutoff = now - retentionSeconds;
          rows2 = cleanup_expire_delivered cutoff (cleanup_expire_open now rows)
      in (length (filter (cleanup_deletes cutoff) rows2),
          filter (\<lambda>r. \<not> cleanup_deletes cutoff r) rows2))"

text \<open>The operations as the steps of one machine, each at its own time.\<close>

datatype relay_op =
    Register register_order_input
  | Deliver string payment_payload
  | Read_slot string
  | Acknowledge string
  | Cancel string
  | Cleanup int

fun relay_step :: "(string \<Rightarrow> string) \<Rightarrow> int \<times> relay_op \<Rightarrow> relay_store \<Rightarrow> relay_store" where
  "relay_step H (now, Register input) rows = snd (register H now input rows)"
| "relay_step H (now, Deliver cap payload) rows = snd (deliver H now cap payload rows)"
| "relay_step H (now, Read_slot cap) rows = snd (read_slot H now cap rows)"
| "relay_step H (now, Acknowledge cap) rows = snd (acknowledge H now cap rows)"
| "relay_step H (now, Cancel cap) rows = snd (cancel H now cap rows)"
| "relay_step H (now, Cleanup retention) rows = snd (cleanup now retention rows)"

end
