(* ===== verification/Relay_Facts.thy ===== *)
theory Relay_Facts
  imports Relay_Store
begin

section \<open>Relay: invariant, life cycle and durability of the slot store\<close>

text \<open>
  \<open>store_ok\<close> is the invariant of the table: the three keys are unique and every row's stored
  payload agrees with its state. \<open>lifecycle\<close> is the abstract specification of one slot, the
  automaton that the table's rows refine. The operations are analysed once, as pointwise updates
  of the table (\<open>slot_update\<close>); the properties follow from that.
\<close>

subsection \<open>The invariant\<close>

definition payload_matches :: "(string \<Rightarrow> string) \<Rightarrow> order_row \<Rightarrow> payment_payload \<Rightarrow> bool" where
  "payload_matches H r p \<longleftrightarrow>
     hashSecret H (pp_id p) = order_id_hash r \<and> pp_unit p = row_unit r \<and> pp_mint p = row_mint r \<and>
     payloadAmount p = Inr (row_amount r)"

definition holds_payload :: "(string \<Rightarrow> string) \<Rightarrow> order_row \<Rightarrow> bool" where
  "holds_payload H r \<longleftrightarrow>
     (\<exists>p. payload_matches H r p \<and>
          payload_json r = Some (json_roundtrip (payload_object p)) \<and>
          payload_digest r = Some (digestPayload H (payload_object p)))"

definition row_ok :: "(string \<Rightarrow> string) \<Rightarrow> order_row \<Rightarrow> bool" where
  "row_ok H r \<longleftrightarrow>
     0 < row_amount r \<and> payload_digest r \<noteq> Some [] \<and>
     (case row_state r of
        Open \<Rightarrow> payload_json r = None \<and> payload_digest r = None
      | Delivered \<Rightarrow> holds_payload H r \<and> delivered_at r \<noteq> None
      | Acknowledged \<Rightarrow> payload_json r = None \<and> payload_digest r \<noteq> None
      | Cancelled \<Rightarrow> payload_json r = None \<and> payload_digest r = None
      | Expired \<Rightarrow> payload_json r = None)"

definition unique_keys :: "relay_store \<Rightarrow> bool" where
  "unique_keys rows \<longleftrightarrow>
     distinct (map order_id_hash rows) \<and> distinct (map write_hash rows) \<and> distinct (map read_hash rows)"

definition store_ok :: "(string \<Rightarrow> string) \<Rightarrow> relay_store \<Rightarrow> bool" where
  "store_ok H rows \<longleftrightarrow> unique_keys rows \<and> (\<forall>r \<in> set rows. row_ok H r)"

definition same_keys :: "order_row \<Rightarrow> order_row \<Rightarrow> bool" where
  "same_keys r r' \<longleftrightarrow>
     order_id_hash r' = order_id_hash r \<and> write_hash r' = write_hash r \<and> read_hash r' = read_hash r"

subsection \<open>The life cycle of a slot\<close>

inductive lifecycle :: "slot_state \<Rightarrow> slot_state \<Rightarrow> bool" where
  deliver_open: "lifecycle Open Delivered"
| cancel_open: "lifecycle Open Cancelled"
| expire_open: "lifecycle Open Expired"
| acknowledge_delivered: "lifecycle Delivered Acknowledged"
| expire_delivered: "lifecycle Delivered Expired"

inductive_simps lifecycle_from [simp]:
  "lifecycle Open s" "lifecycle Delivered s" "lifecycle Acknowledged s" "lifecycle Cancelled s"
  "lifecycle Expired s"

instantiation slot_state :: linorder
begin

fun slot_rank :: "slot_state \<Rightarrow> nat" where
  "slot_rank Open = 0"
| "slot_rank Delivered = 1"
| "slot_rank Acknowledged = 2"
| "slot_rank Cancelled = 3"
| "slot_rank Expired = 4"

definition less_eq_slot_state :: "slot_state \<Rightarrow> slot_state \<Rightarrow> bool" where
  "less_eq_slot_state s t \<longleftrightarrow> slot_rank s \<le> slot_rank t"

definition less_slot_state :: "slot_state \<Rightarrow> slot_state \<Rightarrow> bool" where
  "less_slot_state s t \<longleftrightarrow> slot_rank s < slot_rank t"

instance
proof
  fix s t u :: slot_state
  show "s < t \<longleftrightarrow> s \<le> t \<and> \<not> t \<le> s" "s \<le> s" "s \<le> t \<or> t \<le> s"
    by (auto simp: less_eq_slot_state_def less_slot_state_def)
  show "s \<le> t \<Longrightarrow> t \<le> u \<Longrightarrow> s \<le> u" by (simp add: less_eq_slot_state_def)
  show "s \<le> t \<Longrightarrow> t \<le> s \<Longrightarrow> s = t"
    by (cases s; cases t) (simp_all add: less_eq_slot_state_def)
qed

end

lemma lifecycle_increases: "lifecycle s t \<Longrightarrow> s < t"
  by (induction rule: lifecycle.induct) (simp_all add: less_slot_state_def)

definition closed_slot :: "slot_state \<Rightarrow> bool" where
  "closed_slot s \<longleftrightarrow> s \<in> {Acknowledged, Cancelled, Expired}"

lemma lifecycle_closed: "closed_slot s \<Longrightarrow> \<not> lifecycle s t"
  by (auto simp: closed_slot_def)

text \<open>A row moves along the life cycle or stays; its keys and its amount stay.\<close>

definition evolves :: "order_row \<Rightarrow> order_row \<Rightarrow> bool" where
  "evolves r r' \<longleftrightarrow>
     same_keys r r' \<and> row_amount r' = row_amount r \<and>
     (r' = r \<or> lifecycle (row_state r) (row_state r'))"

lemma evolves_refl [simp]: "evolves r r"
  by (simp add: evolves_def same_keys_def)

text \<open>
  \<open>slot_update H f\<close>: \<open>f\<close> is what one operation does to each row. The laws of the operations'
  row functions, and what they give for the whole table.
\<close>

definition slot_update :: "(string \<Rightarrow> string) \<Rightarrow> (order_row \<Rightarrow> order_row) \<Rightarrow> relay_store \<Rightarrow> bool" where
  "slot_update H f rows \<longleftrightarrow> (\<forall>r \<in> set rows. evolves r (f r) \<and> (row_ok H r \<longrightarrow> row_ok H (f r)))"

lemma slot_update_store_ok:
  assumes "slot_update H f rows" "store_ok H rows"
  shows "store_ok H (map f rows)"
proof -
  have "map order_id_hash (map f rows) = map order_id_hash rows"
    "map write_hash (map f rows) = map write_hash rows"
    "map read_hash (map f rows) = map read_hash rows"
    using assms(1) by (auto simp: slot_update_def evolves_def same_keys_def)
  then have "unique_keys (map f rows)"
    using assms(2) by (simp only: store_ok_def unique_keys_def)
  moreover have "\<forall>r \<in> set (map f rows). row_ok H r"
    using assms by (auto simp: slot_update_def store_ok_def)
  ultimately show ?thesis by (simp add: store_ok_def)
qed

lemma expire_ok: "row_ok H r \<Longrightarrow> row_ok H (expire r)"
  by (simp add: row_ok_def expire_def)

lemma expire_evolves: "row_state r \<in> {Open, Delivered} \<Longrightarrow> evolves r (expire r)"
  by (auto simp: evolves_def expire_def same_keys_def)

lemma slot_update_id: "slot_update H (\<lambda>r. r) rows"
  by (simp add: slot_update_def)

subsection \<open>Each operation as a pointwise update\<close>

definition due_update :: "int \<Rightarrow> string \<Rightarrow> order_row \<Rightarrow> order_row" where
  "due_update now k r = (if order_id_hash r = k \<and> is_due now r then expire r else r)"

lemma due_update_slot: "slot_update H (due_update now k) rows"
  by (auto simp: slot_update_def due_update_def is_due_def intro: expire_ok expire_evolves)

lemma expireRow_eq:
  assumes "unique_keys rows" "row \<in> set rows"
  shows "expireRow now row rows =
    (due_update now (order_id_hash row) row, map (due_update now (order_id_hash row)) rows)"
proof -
  have same: "r = row" if "r \<in> set rows" "order_id_hash r = order_id_hash row" for r
    using assms that by (auto simp: unique_keys_def distinct_map dest: inj_onD)
  show ?thesis
  proof (cases "is_due now row")
    case True
    then have "update_where (\<lambda>r. order_id_hash r = order_id_hash row \<and> row_state r = Open) expire rows
        = map (due_update now (order_id_hash row)) rows"
      using same by (auto simp: update_where_def due_update_def is_due_def)
    with True show ?thesis by (simp add: expireRow_def due_update_def)
  next
    case False
    then have "map (due_update now (order_id_hash row)) rows = rows"
      by (intro map_idI) (use same in \<open>auto simp: due_update_def\<close>)
    with False show ?thesis by (simp add: expireRow_def due_update_def)
  qed
qed

lemma rowForRead_Inr:
  "rowForRead H cap rows = Inr row \<Longrightarrow> row \<in> set rows \<and> read_hash row = hashSecret H cap"
  by (auto simp: rowForRead_def split: option.splits dest: find_SomeD)

lemma rowForRead_unique:
  assumes "unique_keys rows" "row \<in> set rows" "read_hash row = hashSecret H cap"
  shows "rowForRead H cap rows = Inr row"
proof -
  have "find (\<lambda>r. read_hash r = hashSecret H cap) rows = Some row"
    using find_key_unique[of read_hash rows row] assms by (simp add: unique_keys_def)
  then show ?thesis by (simp add: rowForRead_def)
qed

lemma find_write_unique:
  assumes "unique_keys rows" "row \<in> set rows" "write_hash row = k"
  shows "find (\<lambda>r. write_hash r = k) rows = Some row"
  using find_key_unique[of write_hash rows row] assms by (simp add: unique_keys_def)

lemma unique_by_read:
  "unique_keys rows \<Longrightarrow> r \<in> set rows \<Longrightarrow> r' \<in> set rows \<Longrightarrow> read_hash r = read_hash r' \<Longrightarrow> r = r'"
  by (auto simp: unique_keys_def distinct_map dest: inj_onD)

lemma unique_by_write:
  "unique_keys rows \<Longrightarrow> r \<in> set rows \<Longrightarrow> r' \<in> set rows \<Longrightarrow> write_hash r = write_hash r' \<Longrightarrow> r = r'"
  by (auto simp: unique_keys_def distinct_map dest: inj_onD)

lemma unique_by_order:
  "unique_keys rows \<Longrightarrow> r \<in> set rows \<Longrightarrow> r' \<in> set rows \<Longrightarrow> order_id_hash r = order_id_hash r' \<Longrightarrow> r = r'"
  by (auto simp: unique_keys_def distinct_map dest: inj_onD)

lemma unique_keys_map:
  "unique_keys rows \<Longrightarrow> (\<And>r. same_keys r (f r)) \<Longrightarrow> unique_keys (map f rows)"
  by (simp add: unique_keys_def same_keys_def comp_def)

lemma due_update_keys [simp]:
  "order_id_hash (due_update now k r) = order_id_hash r"
  "write_hash (due_update now k r) = write_hash r"
  "read_hash (due_update now k r) = read_hash r"
  "row_amount (due_update now k r) = row_amount r" "row_unit (due_update now k r) = row_unit r"
  "row_mint (due_update now k r) = row_mint r" "payload_digest (due_update now k r) = payload_digest r"
  by (simp_all add: due_update_def expire_def)

lemma due_update_ok: "row_ok H r \<Longrightarrow> row_ok H (due_update now k r)"
  by (simp add: due_update_def expire_ok)

lemma due_update_not_open: "row_state r \<noteq> Open \<Longrightarrow> due_update now k r = r"
  by (simp add: due_update_def is_due_def)

lemma due_update_state:
  "row_state (due_update now k r) = Open \<Longrightarrow> due_update now k r = r"
  by (auto simp: due_update_def expire_def split: if_splits)

lemma due_update_delivered:
  "row_state (due_update now k r) = Delivered \<longleftrightarrow> row_state r = Delivered"
  "row_state (due_update now k r) = Acknowledged \<longleftrightarrow> row_state r = Acknowledged"
  "row_state (due_update now k r) = Cancelled \<longleftrightarrow> row_state r = Cancelled"
  by (auto simp: due_update_def expire_def is_due_def)

lemma due_update_idle:
  assumes "unique_keys rows" "r \<in> set rows" "\<not> is_due now r"
  shows "map (due_update now (order_id_hash r)) rows = rows"
proof (rule map_idI)
  fix x assume x: "x \<in> set rows"
  show "due_update now (order_id_hash r) x = x"
  proof (cases "order_id_hash x = order_id_hash r")
    case True
    then have "x = r" using unique_by_order[OF assms(1) x assms(2)] by simp
    with assms(3) show ?thesis by (simp add: due_update_def)
  qed (simp add: due_update_def)
qed

lemma mark_delivered_ok:
  assumes "row_ok H r" "payload_matches H r p" "row_state r = Open"
  shows "row_ok H (mark_delivered now (json_roundtrip (payload_object p)) (digestPayload H (payload_object p)) r)"
proof -
  have "payload_matches H (mark_delivered now j d r) p" for j d
    using assms(2) by (simp add: payload_matches_def mark_delivered_def)
  with assms show ?thesis
    by (auto simp: row_ok_def mark_delivered_def holds_payload_def digestPayload_def)
qed

lemma payload_mismatch_False:
  "payload_mismatch H p row = Inr False \<longleftrightarrow> payload_matches H row p"
  by (auto simp: payload_mismatch_def payload_matches_def result_simps)

text \<open>The row function of a delivery that is stored.\<close>

definition store_payload :: "(string \<Rightarrow> string) \<Rightarrow> int \<Rightarrow> string \<Rightarrow> payment_payload \<Rightarrow> order_row \<Rightarrow> order_row" where
  "store_payload H now wh p r =
     (if write_hash r = wh \<and> row_state r = Open
      then mark_delivered now (json_roundtrip (payload_object p)) (digestPayload H (payload_object p)) r
      else r)"

text \<open>What \<open>deliver\<close> does in each of its outcomes.\<close>

lemma deliver_Inl: "deliver H now cap p rows = (Inl e, rows') \<Longrightarrow> rows' = rows"
  by (auto simp: deliver_def Let_def split: option.splits prod.splits if_splits sum.splits bool.splits)

lemma deliver_Duplicate:
  assumes "deliver H now cap p rows = (Inr Duplicate_delivery, rows')" "store_ok H rows"
  shows "rows' = rows \<and>
    (\<exists>r \<in> set rows. write_hash r = hashSecret H cap \<and> row_state r \<in> {Delivered, Acknowledged} \<and>
       payload_digest r = Some (digestPayload H (payload_object p)))"
proof -
  from assms(1) obtain r where f: "find (\<lambda>r. write_hash r = hashSecret H cap) rows = Some r"
    by (auto simp: deliver_def Let_def split: option.splits)
  then have r: "r \<in> set rows" "write_hash r = hashSecret H cap" by (auto dest: find_SomeD)
  have u: "unique_keys rows" and ok: "row_ok H r" using assms(2) r by (auto simp: store_ok_def)
  let ?k = "order_id_hash r"
  from assms(1) have *: "row_state (due_update now ?k r) \<notin> {Expired, Cancelled}"
      "payload_digest r = Some (digestPayload H (payload_object p))"
      "rows' = map (due_update now ?k) rows"
    by (auto simp: deliver_def Let_def f expireRow_eq[OF u r(1)] split: if_splits sum.splits bool.splits)
  then have "row_state r \<in> {Delivered, Acknowledged}"
    using ok by (cases "row_state r")
      (auto simp: row_ok_def due_update_def is_due_def expire_def split: if_splits)
  moreover from this have "\<not> is_due now r" by (auto simp: is_due_def)
  then have "map (due_update now ?k) rows = rows" by (rule due_update_idle[OF u r(1)])
  ultimately show ?thesis using * r by auto
qed

lemma deliver_Stored:
  assumes "deliver H now cap p rows = (Inr Stored, rows')" "store_ok H rows"
  shows "\<exists>r \<in> set rows. write_hash r = hashSecret H cap \<and> row_state r = Open \<and> \<not> is_due now r \<and>
    payload_matches H r p \<and> rows' = map (store_payload H now (hashSecret H cap) p) rows"
proof -
  from assms(1) obtain r where f: "find (\<lambda>r. write_hash r = hashSecret H cap) rows = Some r"
    by (auto simp: deliver_def Let_def split: option.splits)
  then have r: "r \<in> set rows" "write_hash r = hashSecret H cap" by (auto dest: find_SomeD)
  have u: "unique_keys rows" and ok: "row_ok H r" using assms(2) r by (auto simp: store_ok_def)
  let ?k = "order_id_hash r"
  let ?upd = "update_where (\<lambda>r. write_hash r = hashSecret H cap \<and> row_state r = Open \<and> payload_digest r = None)
    (mark_delivered now (json_roundtrip (payload_object p)) (digestPayload H (payload_object p)))"
  from assms(1) have *: "row_state (due_update now ?k r) \<notin> {Expired, Cancelled}"
      "payload_digest r = None \<or> payload_digest r = Some []"
      "payload_mismatch H p (due_update now ?k r) = Inr False"
      "rows' = ?upd (map (due_update now ?k) rows)"
    by (auto simp: deliver_def Let_def f expireRow_eq[OF u r(1)] split: if_splits sum.splits bool.splits)
  with ok have st: "row_state r = Open"
    by (cases "row_state r")
      (auto simp: row_ok_def holds_payload_def due_update_delivered due_update_not_open)
  have nd: "\<not> is_due now r" using * by (auto simp: due_update_def expire_def)
  have same: "due_update now ?k r = r" using nd by (simp add: due_update_def)
  have "map (due_update now ?k) rows = rows" by (rule due_update_idle[OF u r(1) nd])
  moreover have "payload_digest x = None" if "x \<in> set rows" "row_state x = Open" for x
    using assms(2) that by (auto simp: store_ok_def row_ok_def)
  ultimately have "rows' = map (store_payload H now (hashSecret H cap) p) rows"
    using *(4) by (auto simp: update_where_def store_payload_def)
  then show ?thesis
    using r st nd * same by (auto simp: payload_mismatch_False)
qed

lemma store_payload_slot:
  assumes "store_ok H rows" "r \<in> set rows" "write_hash r = wh" "payload_matches H r p"
  shows "slot_update H (store_payload H now wh p) rows"
proof -
  have "x = r" if "x \<in> set rows" "write_hash x = wh" for x
    using assms that unique_by_write by (auto simp: store_ok_def)
  then show ?thesis
    using assms(4) mark_delivered_ok
    by (auto simp: slot_update_def store_payload_def evolves_def same_keys_def mark_delivered_def)
qed

end
