(* ===== verification/Relay_Correct.thy ===== *)
theory Relay_Correct
  imports Relay_Facts
begin

section \<open>Relay: correctness of the slot store\<close>

text \<open>
  Every operation keeps \<open>store_ok\<close> and moves rows along \<open>lifecycle\<close>; the machine locales lift this
  to every run. From it: first delivery wins, delivery and cancellation exclude each other, a
  delivered payload stays readable until it is acknowledged or its retention ends, and a closed
  slot holds no bearer value.
\<close>

subsection \<open>Registration\<close>

lemma insert_order_ok:
  assumes "insert_order r rows = Some rows'" "store_ok H rows" "row_ok H r"
  shows "store_ok H rows'"
proof -
  from assms(1) have "rows' = rows @ [r]" and new: "order_id_hash r \<notin> order_id_hash ` set rows"
    "write_hash r \<notin> write_hash ` set rows" "read_hash r \<notin> read_hash ` set rows"
    by (auto simp: insert_order_def split: if_splits)
  with assms(2,3) show ?thesis by (auto simp: store_ok_def unique_keys_def)
qed

lemma new_row_ok: "0 < ri_amount input \<Longrightarrow> row_ok H (new_row H now input)"
  by (simp add: row_ok_def new_row_def)

lemma insert_order_amount: "insert_order r rows = Some rows' \<Longrightarrow> 0 < row_amount r"
  by (auto simp: insert_order_def split: if_splits)

lemma register_store_ok: "store_ok H rows \<Longrightarrow> store_ok H (snd (register H now input rows))"
  using insert_order_ok[OF _ _ new_row_ok] insert_order_amount
  by (fastforce simp: register_def new_row_def split: option.splits)

lemma register_keeps: "r \<in> set rows \<Longrightarrow> r \<in> set (snd (register H now input rows))"
  by (auto simp: register_def insert_order_def split: option.splits if_splits)

lemma register_new:
  "r' \<in> set (snd (register H now input rows)) \<Longrightarrow> r' \<in> set rows \<or> r' = new_row H now input"
  by (auto simp: register_def insert_order_def split: option.splits if_splits)

subsection \<open>Reading, acknowledging, cancelling\<close>

definition ack_row :: "int \<Rightarrow> string \<Rightarrow> order_row \<Rightarrow> order_row" where
  "ack_row now rh r =
     (if read_hash r = rh \<and> row_state r = Delivered
      then r\<lparr>row_state := Acknowledged, payload_json := None, acknowledged_at := Some now\<rparr> else r)"

definition cancel_row :: "int \<Rightarrow> string \<Rightarrow> order_row \<Rightarrow> order_row" where
  "cancel_row now rh r =
     (if read_hash r = rh \<and> row_state r = Open
      then r\<lparr>row_state := Cancelled, cancelled_at := Some now\<rparr> else r)"

lemma ack_row_slot: "slot_update H (ack_row now rh) rows"
  by (auto simp: slot_update_def ack_row_def evolves_def same_keys_def row_ok_def holds_payload_def)

lemma cancel_row_slot: "slot_update H (cancel_row now rh) rows"
  by (auto simp: slot_update_def cancel_row_def evolves_def same_keys_def row_ok_def)

lemma ack_row_keys [simp]:
  "order_id_hash (ack_row now rh r) = order_id_hash r" "write_hash (ack_row now rh r) = write_hash r"
  "read_hash (ack_row now rh r) = read_hash r" "payload_digest (ack_row now rh r) = payload_digest r"
  by (simp_all add: ack_row_def)

lemma cancel_row_keys [simp]:
  "order_id_hash (cancel_row now rh r) = order_id_hash r" "write_hash (cancel_row now rh r) = write_hash r"
  "read_hash (cancel_row now rh r) = read_hash r" "payload_digest (cancel_row now rh r) = payload_digest r"
  by (simp_all add: cancel_row_def)

lemma read_slot_effect:
  assumes "unique_keys rows"
  shows "snd (read_slot H now cap rows) = rows \<or>
    (\<exists>k. snd (read_slot H now cap rows) = map (due_update now k) rows)"
proof (cases "rowForRead H cap rows")
  case (Inr row)
  then have "row \<in> set rows" by (auto dest: rowForRead_Inr)
  then show ?thesis by (auto simp: read_slot_def Inr Let_def expireRow_eq[OF assms])
qed (simp add: read_slot_def)

lemma acknowledge_effect:
  assumes "unique_keys rows"
  shows "snd (acknowledge H now cap rows) = rows \<or>
    (\<exists>k. snd (acknowledge H now cap rows) = map (due_update now k) rows) \<or>
    (\<exists>k. snd (acknowledge H now cap rows) =
           map (ack_row now (hashSecret H cap)) (map (due_update now k) rows))"
proof (cases "rowForRead H cap rows")
  case (Inr row)
  then have "row \<in> set rows" by (auto dest: rowForRead_Inr)
  then show ?thesis
    by (auto simp: acknowledge_def Inr Let_def expireRow_eq[OF assms] update_where_def ack_row_def)
qed (simp add: acknowledge_def)

lemma cancel_effect:
  assumes "unique_keys rows"
  shows "snd (cancel H now cap rows) = rows \<or>
    (\<exists>k. snd (cancel H now cap rows) = map (due_update now k) rows) \<or>
    (\<exists>k. snd (cancel H now cap rows) =
           map (cancel_row now (hashSecret H cap)) (map (due_update now k) rows))"
proof (cases "rowForRead H cap rows")
  case (Inr row)
  then have "row \<in> set rows" by (auto dest: rowForRead_Inr)
  then show ?thesis
    by (auto simp: cancel_def Inr Let_def expireRow_eq[OF assms] update_where_def cancel_row_def)
qed (simp add: cancel_def)

lemma deliver_effect:
  assumes "store_ok H rows"
  shows "snd (deliver H now cap p rows) = rows \<or>
    (\<exists>r \<in> set rows. write_hash r = hashSecret H cap \<and> payload_matches H r p \<and>
       snd (deliver H now cap p rows) = map (store_payload H now (hashSecret H cap) p) rows)"
proof (cases "deliver H now cap p rows")
  case (Pair res rows')
  then show ?thesis
  proof (cases res)
    case (Inl e)
    with Pair show ?thesis by (auto dest: deliver_Inl)
  next
    case (Inr d)
    with Pair assms show ?thesis
      by (cases d) (auto dest: deliver_Stored deliver_Duplicate)
  qed
qed

subsection \<open>Clean-up\<close>

definition cleanup_row :: "int \<Rightarrow> int \<Rightarrow> order_row \<Rightarrow> order_row" where
  "cleanup_row now cutoff r =
     (if expires_at r \<le> now \<and> row_state r = Open then expire r
      else if (case delivered_at r of None \<Rightarrow> False | Some t \<Rightarrow> t \<le> cutoff) \<and> row_state r = Delivered
      then expire r else r)"

lemma cleanup_rows:
  "cleanup_expire_delivered cutoff (cleanup_expire_open now rows) = map (cleanup_row now cutoff) rows"
  by (auto simp: cleanup_expire_delivered_def cleanup_expire_open_def update_where_def
      cleanup_row_def expire_def)

lemma cleanup_row_slot: "slot_update H (cleanup_row now cutoff) rows"
  using expire_ok expire_evolves by (auto simp: slot_update_def cleanup_row_def)

lemma cleanup_eq:
  "cleanup now retention rows =
     (length (filter (cleanup_deletes (now - retention)) (map (cleanup_row now (now - retention)) rows)),
      filter (\<lambda>r. \<not> cleanup_deletes (now - retention) r) (map (cleanup_row now (now - retention)) rows))"
  by (simp add: cleanup_def Let_def cleanup_rows)

lemma store_ok_filter: "store_ok H rows \<Longrightarrow> store_ok H (filter P rows)"
  by (auto simp: store_ok_def unique_keys_def distinct_map_filter)

subsection \<open>Every step keeps the invariant\<close>

lemma relay_step_store_ok: "store_ok H rows \<Longrightarrow> store_ok H (relay_step H op rows)"
proof -
  assume ok: "store_ok H rows"
  then have u: "unique_keys rows" by (simp add: store_ok_def)
  have due: "store_ok H (map (due_update now k) rows)" for now k
    by (rule slot_update_store_ok[OF due_update_slot ok])
  obtain now o' where "op = (now, o')" by (cases op)
  then show ?thesis
  proof (cases o')
    case (Register input)
    with ok \<open>op = _\<close> show ?thesis by (simp add: register_store_ok)
  next
    case (Deliver cap p)
    with deliver_effect[OF ok, of now cap p] ok \<open>op = _\<close> show ?thesis
      using slot_update_store_ok[OF store_payload_slot[OF ok] ok] by auto
  next
    case (Read_slot cap)
    with read_slot_effect[OF u, of H now cap] ok due \<open>op = _\<close> show ?thesis by auto
  next
    case (Acknowledge cap)
    with acknowledge_effect[OF u, of H now cap] ok due \<open>op = _\<close> show ?thesis
      using slot_update_store_ok[OF ack_row_slot due] by auto
  next
    case (Cancel cap)
    with cancel_effect[OF u, of H now cap] ok due \<open>op = _\<close> show ?thesis
      using slot_update_store_ok[OF cancel_row_slot due] by auto
  next
    case (Cleanup retention)
    with \<open>op = _\<close> show ?thesis
      using store_ok_filter[OF slot_update_store_ok[OF cleanup_row_slot ok]] by (simp add: cleanup_eq)
  qed
qed

interpretation relay_machine: invariant_machine "relay_step H" "store_ok H" for H
  by unfold_locales (rule relay_step_store_ok)

subsection \<open>Every step follows the life cycle\<close>

text \<open>
  \<open>slot_track k\<close>: the row of order \<open>k\<close> afterwards was there before, and its state is reachable
  from its old one by the life cycle.
\<close>

definition slot_track :: "string \<Rightarrow> relay_store \<Rightarrow> relay_store \<Rightarrow> bool" where
  "slot_track k rows rows' \<longleftrightarrow>
     (\<forall>r' \<in> set rows'. order_id_hash r' = k \<longrightarrow>
        (\<exists>r \<in> set rows. order_id_hash r = k \<and> row_amount r' = row_amount r \<and>
           lifecycle\<^sup>*\<^sup>* (row_state r) (row_state r')))"

fun registers_order :: "(string \<Rightarrow> string) \<Rightarrow> string \<Rightarrow> int \<times> relay_op \<Rightarrow> bool" where
  "registers_order H k (now, Register input) = (hashSecret H (ri_orderId input) = k)"
| "registers_order H k (now, _) = False"

lemma slot_track_map: "slot_update H f rows \<Longrightarrow> slot_track k rows (map f rows)"
  by (fastforce simp: slot_track_def slot_update_def evolves_def same_keys_def)

lemma slot_track_refl: "slot_track k rows rows"
  by (auto simp: slot_track_def)

lemma slot_track_trans: "slot_track k a b \<Longrightarrow> slot_track k b c \<Longrightarrow> slot_track k a c"
  unfolding slot_track_def by (metis rtranclp_trans)

lemma slot_track_filter: "slot_track k rows rows' \<Longrightarrow> slot_track k rows (filter P rows')"
  by (auto simp: slot_track_def)

lemma relay_step_track:
  assumes ok: "store_ok H rows" and nr: "\<not> registers_order H k op"
  shows "slot_track k rows (relay_step H op rows)"
proof -
  have u: "unique_keys rows" using ok by (simp add: store_ok_def)
  have due: "slot_track k rows (map (due_update now i) rows)" for now i
    by (rule slot_track_map[OF due_update_slot])
  obtain now o' where op: "op = (now, o')" by (cases op)
  show ?thesis
  proof (cases o')
    case (Register input)
    have "r' \<in> set rows" if "r' \<in> set (snd (register H now input rows))" "order_id_hash r' = k" for r'
      using register_new[OF that(1)] that(2) nr by (auto simp: op Register new_row_def)
    then show ?thesis by (auto simp: op Register slot_track_def)
  next
    case (Deliver cap p)
    from deliver_effect[OF ok, of now cap p] show ?thesis
      using slot_track_map[OF store_payload_slot[OF ok]] slot_track_refl by (auto simp: op Deliver)
  next
    case (Read_slot cap)
    from read_slot_effect[OF u, of H now cap] show ?thesis
      using due slot_track_refl by (auto simp: op Read_slot)
  next
    case (Acknowledge cap)
    from acknowledge_effect[OF u, of H now cap] show ?thesis
      using due slot_track_refl slot_track_trans[OF due slot_track_map[OF ack_row_slot]]
      by (auto simp: op Acknowledge simp del: map_map)
  next
    case (Cancel cap)
    from cancel_effect[OF u, of H now cap] show ?thesis
      using due slot_track_refl slot_track_trans[OF due slot_track_map[OF cancel_row_slot]]
      by (auto simp: op Cancel simp del: map_map)
  next
    case (Cleanup retention)
    show ?thesis
      using slot_track_filter[OF slot_track_map[OF cleanup_row_slot]] by (simp add: op Cleanup cleanup_eq)
  qed
qed

interpretation slot_life: tracked_machine "relay_step H" "store_ok H" "slot_track k"
    "\<lambda>op. \<not> registers_order H k op" for H k
  by unfold_locales (auto intro: relay_step_track slot_track_refl slot_track_trans)

subsection \<open>A delivered row stays\<close>

definition row_stays :: "order_row \<Rightarrow> relay_store \<Rightarrow> relay_store \<Rightarrow> bool" where
  "row_stays r rows rows' \<longleftrightarrow> (row_state r = Delivered \<and> r \<in> set rows \<longrightarrow> r \<in> set rows')"

fun spares :: "(string \<Rightarrow> string) \<Rightarrow> string \<Rightarrow> int \<Rightarrow> int \<times> relay_op \<Rightarrow> bool" where
  "spares H rh t (now, Acknowledge cap) = (hashSecret H cap \<noteq> rh)"
| "spares H rh t (now, Cleanup retention) = (now - retention < t)"
| "spares H rh t (now, _) = True"

lemma row_stays_map:
  "(row_state r = Delivered \<Longrightarrow> f r = r) \<Longrightarrow> row_stays r rows (map f rows)"
  by (force simp: row_stays_def)

lemma store_payload_delivered: "row_state r = Delivered \<Longrightarrow> store_payload H now wh p r = r"
  by (simp add: store_payload_def)

lemma row_stays_store_payload: "row_stays r rows (map (store_payload H now wh p) rows)"
  by (rule row_stays_map) (rule store_payload_delivered)

lemma cancel_row_delivered: "row_state r = Delivered \<Longrightarrow> cancel_row now rh r = r"
  by (simp add: cancel_row_def)

lemma row_stays_cancel: "row_stays r rows (map (cancel_row now rh) rows)"
  by (rule row_stays_map) (rule cancel_row_delivered)

lemma row_stays_refl: "row_stays r rows rows"
  by (simp add: row_stays_def)

lemma row_stays_trans: "row_stays r a b \<Longrightarrow> row_stays r b c \<Longrightarrow> row_stays r a c"
  by (auto simp: row_stays_def)

lemma relay_step_stays:
  assumes ok: "store_ok H rows" and t: "delivered_at r = Some t" and sp: "spares H (read_hash r) t op"
  shows "row_stays r rows (relay_step H op rows)"
proof -
  have u: "unique_keys rows" using ok by (simp add: store_ok_def)
  have due: "row_stays r rows' (map (due_update now i) rows')" for now i rows'
    by (rule row_stays_map) (simp add: due_update_not_open)
  obtain now o' where op: "op = (now, o')" by (cases op)
  show ?thesis
  proof (cases o')
    case (Register input)
    then show ?thesis by (auto simp: op row_stays_def intro: register_keeps)
  next
    case (Deliver cap p)
    from deliver_effect[OF ok, of now cap p] show ?thesis
      using row_stays_store_payload row_stays_refl by (auto simp: op Deliver)
  next
    case (Read_slot cap)
    from read_slot_effect[OF u, of H now cap] show ?thesis
      using due row_stays_refl by (auto simp: op Read_slot)
  next
    case (Acknowledge cap)
    have ack: "row_stays r rows' (map (ack_row now (hashSecret H cap)) rows')" for rows'
      by (rule row_stays_map) (use sp in \<open>simp add: op Acknowledge ack_row_def\<close>)
    from acknowledge_effect[OF u, of H now cap] show ?thesis
      using due row_stays_refl row_stays_trans[OF due ack]
      by (auto simp: op Acknowledge simp del: map_map)
  next
    case (Cancel cap)
    from cancel_effect[OF u, of H now cap] show ?thesis
      using due row_stays_refl row_stays_trans[OF due row_stays_cancel]
      by (auto simp: op Cancel simp del: map_map)
  next
    case (Cleanup retention)
    have c: "cleanup_row now (now - retention) r = r" if "row_state r = Delivered"
      using that sp by (simp add: op Cleanup cleanup_row_def t)
    have "r \<in> set (snd (cleanup now retention rows))" if "row_state r = Delivered" "r \<in> set rows"
      using c[OF that(1)] that by (force simp: cleanup_eq cleanup_deletes_def)
    then show ?thesis by (auto simp: op Cleanup row_stays_def)
  qed
qed

lemma spares_delivered_at:
  "delivered_at r = Some t \<Longrightarrow> tracked_machine (relay_step H) (store_ok H) (row_stays r) (spares H (read_hash r) t)"
  by unfold_locales (auto intro: relay_step_stays row_stays_refl row_stays_trans)


subsection \<open>Results of the operations on a row of the table\<close>

text \<open>
  With the row of a capability given, each operation's result is a function of the row's state.
\<close>

lemma deliver_row:
  assumes ok: "store_ok H rows" and r: "r \<in> set rows" "write_hash r = hashSecret H cap"
    and st: "row_state r \<noteq> Open"
  shows "deliver H now cap p rows =
    (if row_state r \<in> {Cancelled, Expired} then (Inl (HttpError 410 ''slot_closed''), rows)
     else if payload_digest r = Some (digestPayload H (payload_object p)) then (Inr Duplicate_delivery, rows)
     else (Inl (HttpError 409 ''payload_conflict''), rows))"
proof -
  have u: "unique_keys rows" and rok: "row_ok H r" using ok r by (auto simp: store_ok_def)
  have nd: "\<not> is_due now r" using st by (simp add: is_due_def)
  have e: "expireRow now r rows = (r, rows)" using nd by (simp add: expireRow_def)
  have d: "payload_digest r \<noteq> None \<and> payload_digest r \<noteq> Some []" if "row_state r \<in> {Delivered, Acknowledged}"
    using rok that by (auto simp: row_ok_def holds_payload_def digestPayload_def)
  show ?thesis
    using d st by (cases "row_state r") (simp_all add: deliver_def Let_def find_write_unique[OF u r] e)
qed

lemma read_slot_row:
  assumes ok: "store_ok H rows" and r: "r \<in> set rows" "read_hash r = hashSecret H cap"
    and st: "row_state r \<noteq> Open"
  shows "read_slot H now cap rows =
    (if row_state r = Delivered then Inr (payload_json r) else Inl (HttpError 410 ''slot_closed''), rows)"
proof -
  have u: "unique_keys rows" and rok: "row_ok H r" using ok r by (auto simp: store_ok_def)
  have e: "expireRow now r rows = (r, rows)" using st by (simp add: expireRow_def is_due_def)
  have "payload_json r \<noteq> None" if "row_state r = Delivered"
    using rok that by (auto simp: row_ok_def holds_payload_def)
  then show ?thesis
    using st by (auto simp: read_slot_def rowForRead_unique[OF u r] e)
qed

lemma cancel_row_result:
  assumes ok: "store_ok H rows" and r: "r \<in> set rows" "read_hash r = hashSecret H cap"
    and st: "row_state r \<noteq> Open"
  shows "cancel H now cap rows =
    (if row_state r = Cancelled then Inr Duplicate_cancel else Inl (HttpError 409 ''delivery_won''), rows)"
proof -
  have u: "unique_keys rows" using ok by (simp add: store_ok_def)
  have e: "expireRow now r rows = (r, rows)" using st by (simp add: expireRow_def is_due_def)
  show ?thesis using st by (auto simp: cancel_def rowForRead_unique[OF u r] e)
qed

lemma cancel_done:
  assumes "cancel H now cap rows = (Inr Cancelled_now, rows')" and ok: "store_ok H rows"
  shows "\<exists>r \<in> set rows'. read_hash r = hashSecret H cap \<and> row_state r = Cancelled \<and>
    (\<exists>r0 \<in> set rows. row_state r0 = Open \<and> same_keys r0 r)"
proof -
  have u: "unique_keys rows" using ok by (simp add: store_ok_def)
  from assms(1) obtain r0 where q: "rowForRead H cap rows = Inr r0"
    by (cases "rowForRead H cap rows") (auto simp: cancel_def)
  then have r0: "r0 \<in> set rows" "read_hash r0 = hashSecret H cap" by (auto dest: rowForRead_Inr)
  from assms(1) have st: "row_state (due_update now (order_id_hash r0) r0) = Open"
    and rows': "rows' = map (cancel_row now (hashSecret H cap)) (map (due_update now (order_id_hash r0)) rows)"
    by (auto simp: cancel_def q Let_def expireRow_eq[OF u r0(1)] update_where_def cancel_row_def
        split: if_splits)
  have same: "due_update now (order_id_hash r0) r0 = r0" by (rule due_update_state[OF st])
  have "cancel_row now (hashSecret H cap) r0 \<in> set rows'"
    using r0 same unfolding rows' by (metis image_eqI image_set)
  moreover have "row_state (cancel_row now (hashSecret H cap) r0) = Cancelled"
    using r0 st same by (simp add: cancel_row_def)
  moreover have "read_hash (cancel_row now (hashSecret H cap) r0) = hashSecret H cap"
    "same_keys r0 (cancel_row now (hashSecret H cap) r0)"
    using r0 by (simp_all add: same_keys_def)
  ultimately show ?thesis using r0 st same by metis
qed

lemma deliver_done:
  assumes "deliver H now cap p rows = (Inr Stored, rows')" and ok: "store_ok H rows"
  shows "\<exists>r \<in> set rows'. write_hash r = hashSecret H cap \<and> row_state r = Delivered \<and>
    payload_json r = Some (json_roundtrip (payload_object p)) \<and>
    payload_digest r = Some (digestPayload H (payload_object p)) \<and> delivered_at r = Some now \<and>
    (\<exists>r0 \<in> set rows. row_state r0 = Open \<and> same_keys r0 r)"
proof -
  from deliver_Stored[OF assms] obtain r0 where r0: "r0 \<in> set rows" "write_hash r0 = hashSecret H cap"
    "row_state r0 = Open" and rows': "rows' = map (store_payload H now (hashSecret H cap) p) rows"
    by auto
  let ?r = "store_payload H now (hashSecret H cap) p r0"
  have "?r \<in> set rows'" using r0 rows' by simp
  then show ?thesis
    using r0 by (intro bexI[of _ ?r]) (auto simp: store_payload_def mark_delivered_def same_keys_def)
qed

lemma store_ok_after: "store_ok H rows \<Longrightarrow> relay_step H (now, op) rows = rows' \<Longrightarrow> store_ok H rows'"
  using relay_step_store_ok by blast

end
