(* ===== verification/Http.thy ===== *)
theory Http
  imports Js_Value "HOL-Library.AList"
begin

section \<open>HTTP services: environment, requests, bodies and rate tables\<close>

text \<open>
  What the relay and the faucet share of Node: settings read from the environment, the parts of a
  request and a response that the handlers use, the loop that reads a body under a size limit,
  and the \<open>Map\<close> that counts requests. The error of a service is built by \<open>mk\<close> from its status
  and code. \<open>JSON.parse\<close> of a body is the parameter \<open>J\<close>, and \<open>Number\<close> on a text that is not all
  digits (signs, white space, exponents, hexadecimal) is the parameter \<open>N\<close>.
\<close>

subsection \<open>Settings\<close>

type_synonym environment = "string \<Rightarrow> string option"

datatype config_error =
    Bad_integer string
  | Bad_flag string
  | Missing string
  | Invalid_url string
  | Bad_origin string
  | Not_https string
  | No_origins
  | Weak_secret
  | Short_retention

definition env_or :: "environment \<Rightarrow> string \<Rightarrow> string \<Rightarrow> string" where
  "env_or env name fallback = (case env name of None \<Rightarrow> fallback | Some raw \<Rightarrow> raw)"

definition js_number :: "(string \<Rightarrow> json) \<Rightarrow> string \<Rightarrow> json" where
  "js_number N raw = (if is_digit_text raw then JInt (number_of_digits raw) else N raw)"

definition integer_setting ::
  "(string \<Rightarrow> json) \<Rightarrow> environment \<Rightarrow> string \<Rightarrow> int \<Rightarrow> int \<Rightarrow> int \<Rightarrow> config_error + int" where
  "integer_setting N env name fallback minimum maximum =
     (let v = (case env name of None \<Rightarrow> JInt fallback | Some raw \<Rightarrow> js_number N raw)
      in case safe_int_of v of
           None \<Rightarrow> Inl (Bad_integer name)
         | Some i \<Rightarrow> if i < minimum \<or> maximum < i then Inl (Bad_integer name) else Inr i)"

lemma integer_setting_Inr [result_simps]:
  "integer_setting N env name d lo hi = Inr i \<Longrightarrow> lo \<le> i \<and> i \<le> hi"
  by (auto simp: integer_setting_def Let_def split: option.splits if_splits)

lemma integer_setting_default:
  "env name = None \<Longrightarrow> lo \<le> d \<Longrightarrow> d \<le> hi \<Longrightarrow> is_safe d \<Longrightarrow> integer_setting N env name d lo hi = Inr d"
  by (simp add: integer_setting_def)

text \<open>\<open>String.prototype.trim\<close> and \<open>split\<close> on one character, for one-byte text.\<close>

definition is_space :: "char \<Rightarrow> bool" where
  "is_space c \<longleftrightarrow> code_in c 9 13 \<or> of_char c = (32 :: nat) \<or> of_char c = (160 :: nat)"

definition trim :: "string \<Rightarrow> string" where
  "trim s = rev (dropWhile is_space (rev (dropWhile is_space s)))"

fun split_on :: "char \<Rightarrow> string \<Rightarrow> string list" where
  "split_on c [] = [[]]"
| "split_on c (x # xs) =
     (if x = c then [] # split_on c xs
      else (case split_on c xs of [] \<Rightarrow> [[x]] | p # ps \<Rightarrow> (x # p) # ps))"

text \<open>An entry of a comma-separated list of origins: trimmed, empty entries dropped.\<close>

definition origin_entries :: "string \<Rightarrow> string list" where
  "origin_entries raw = filter (\<lambda>v. v \<noteq> []) (map trim (split_on (CHR '','') raw))"

text \<open>The parsing of one origin, with the extra check of each service as \<open>extra\<close>.\<close>

definition plain_origin :: "url_parser \<Rightarrow> string \<Rightarrow> string \<Rightarrow> (url \<Rightarrow> bool) \<Rightarrow> config_error + string" where
  "plain_origin U name raw extra =
     (if raw = [] then Inl (Missing name)
      else case U raw of
             None \<Rightarrow> Inl (Invalid_url name)
           | Some parsed \<Rightarrow>
               if \<not> http_or_https parsed \<or> username parsed \<noteq> [] \<or> password parsed \<noteq> []
               then Inl (Bad_origin name)
               else if pathname parsed \<noteq> ''/'' \<or> search parsed \<noteq> [] \<or> hash parsed \<noteq> []
               then Inl (Bad_origin name)
               else if \<not> extra parsed then Inl (Not_https name)
               else Inr (url_origin parsed))"

lemma plain_origin_Inr:
  "plain_origin U name raw extra = Inr o' \<Longrightarrow>
     \<exists>u. U raw = Some u \<and> http_or_https u \<and> username u = [] \<and> password u = [] \<and>
         pathname u = ''/'' \<and> search u = [] \<and> hash u = [] \<and> extra u \<and> o' = url_origin u"
  by (auto simp: plain_origin_def split: option.splits if_splits)

subsection \<open>Requests and responses\<close>

record http_request =
  rq_method :: string
  rq_target :: string
  rq_origin :: "string option"
  rq_authorization :: "string option"
  rq_content_type :: "string option"
  rq_forwarded :: "string option"
  rq_address :: "string option"

record http_response =
  rs_status :: nat
  rs_body :: "json option"
  rs_origin :: "string option"
  rs_retry :: "int option"

text \<open>The part of a cross-origin check both services do first: the header that answers it.\<close>

definition cors :: "(nat \<Rightarrow> string \<Rightarrow> 'e) \<Rightarrow> string set \<Rightarrow> string option \<Rightarrow> 'e + string option" where
  "cors mk allowed requestOrigin =
     (if requestOrigin = None \<or> requestOrigin = Some [] then Inr None
      else if the requestOrigin \<notin> allowed then Inl (mk 403 ''origin_forbidden'')
      else Inr requestOrigin)"

lemma cors_Inr: "cors mk allowed h = Inr r \<Longrightarrow> r = None \<or> (\<exists>x \<in> allowed. h = Some x \<and> r = Some x)"
  by (auto simp: cors_def split: if_splits)

definition is_json_type :: "string option \<Rightarrow> bool" where
  "is_json_type h \<longleftrightarrow> starts_with ''application/json'' (to_lower (case h of None \<Rightarrow> [] | Some s \<Rightarrow> s))"

text \<open>The loop over the chunks of a body; a broken stream is \<open>None\<close> at its end.\<close>

fun read_chunks :: "(nat \<Rightarrow> string \<Rightarrow> 'e) \<Rightarrow> int \<Rightarrow> nat \<Rightarrow> string \<Rightarrow> string list \<Rightarrow> 'e + string" where
  "read_chunks mk limit got acc [] = Inr acc"
| "read_chunks mk limit got acc (chunk # rest) =
     (if limit < int (got + length chunk) then Inl (mk 413 ''body_too_large'')
      else read_chunks mk limit (got + length chunk) (acc @ chunk) rest)"

definition read_body ::
  "(nat \<Rightarrow> string \<Rightarrow> 'e) \<Rightarrow> (string \<Rightarrow> json option) \<Rightarrow> int \<Rightarrow> string list \<Rightarrow> 'e + json" where
  "read_body mk J limit chunks =
     bindR (read_chunks mk limit 0 [] chunks) (\<lambda>text.
       case J text of None \<Rightarrow> Inl (mk 400 ''invalid_json'') | Some v \<Rightarrow> Inr v)"

lemma read_chunks_eq:
  "int got \<le> limit \<Longrightarrow>
   read_chunks mk limit got acc chunks =
     (if int (got + length (concat chunks)) \<le> limit then Inr (acc @ concat chunks)
      else Inl (mk 413 ''body_too_large''))"
  by (induction chunks arbitrary: got acc) (auto simp: add.assoc)

text \<open>However a body is cut into chunks, reading it depends only on the whole text.\<close>

lemma read_body_eq:
  "0 \<le> limit \<Longrightarrow>
   read_body mk J limit chunks =
     (if limit < int (length (concat chunks)) then Inl (mk 413 ''body_too_large'')
      else (case J (concat chunks) of None \<Rightarrow> Inl (mk 400 ''invalid_json'') | Some v \<Rightarrow> Inr v))"
  by (simp add: read_body_def read_chunks_eq)

subsection \<open>Rate tables\<close>

text \<open>A \<open>Map\<close> from a key to the minute and the count, in insertion order; \<open>set\<close> is \<open>AList.update\<close>.\<close>

record rate_entry =
  entry_minute :: int
  entry_count :: nat

type_synonym rate_table = "(string \<times> rate_entry) list"

definition next_count :: "int \<Rightarrow> string \<Rightarrow> rate_table \<Rightarrow> nat" where
  "next_count minute k rate =
     (case map_of rate k of
        None \<Rightarrow> 1
      | Some current \<Rightarrow> if entry_minute current = minute then entry_count current + 1 else 1)"

definition rate_set :: "int \<Rightarrow> string \<Rightarrow> nat \<Rightarrow> rate_table \<Rightarrow> rate_table" where
  "rate_set minute k n rate = AList.update k \<lparr>entry_minute = minute, entry_count = n\<rparr> rate"

definition rate_prune :: "int \<Rightarrow> rate_table \<Rightarrow> rate_table" where
  "rate_prune minute rate = filter (\<lambda>(_, entry). \<not> entry_minute entry < minute) rate"

definition rate_ok :: "rate_table \<Rightarrow> bool" where
  "rate_ok rate \<longleftrightarrow> distinct (map fst rate)"

lemma rate_set_ok [simp]: "rate_ok rate \<Longrightarrow> rate_ok (rate_set minute k n rate)"
  by (simp add: rate_ok_def rate_set_def distinct_update)

lemma rate_prune_ok [simp]: "rate_ok rate \<Longrightarrow> rate_ok (rate_prune minute rate)"
  by (simp add: rate_ok_def rate_prune_def distinct_map_filter)

lemma map_of_rate_set:
  "map_of (rate_set minute k n rate) k' =
     (if k' = k then Some \<lparr>entry_minute = minute, entry_count = n\<rparr> else map_of rate k')"
  by (simp add: rate_set_def update_conv)

lemma map_of_rate_prune:
  "rate_ok rate \<Longrightarrow> map_of (rate_prune minute rate) k =
     (case map_of rate k of None \<Rightarrow> None | Some e \<Rightarrow> if entry_minute e < minute then None else Some e)"
  by (induction rate) (auto simp: rate_prune_def rate_ok_def map_of_eq_None_iff split: option.splits
      dest: map_of_SomeD)

end
