(* ===== verification/Relay_Server.thy ===== *)
theory Relay_Server
  imports Relay_Correct Http
begin

section \<open>Relay: configuration and HTTP server (relay/src/config.ts, server.ts, index.ts)\<close>

text \<open>
  \<open>loadConfig\<close> over an environment, and the request handler of \<open>createRelayServer\<close>. The handler
  runs without interruption up to the point where it waits for a body and again from there to the
  response; these two parts are \<open>relay_arrive\<close> and \<open>relay_body\<close>, and the server is the machine
  whose steps are arrivals, completed or broken bodies and the clean-ups that \<open>index.ts\<close> schedules,
  in any order. \<open>new URL(target, base)\<close> is the parameter \<open>UB\<close>; the bound of a body is counted in
  bytes, one per character of the text.
\<close>

subsection \<open>Configuration\<close>

record relay_config =
  rc_host :: string
  rc_port :: int
  rc_databasePath :: string
  rc_publicOrigin :: string
  rc_allowedOrigins :: "string set"
  rc_maxTtlSeconds :: int
  rc_retentionSeconds :: int
  rc_maxRequestsPerMinute :: int
  rc_bodyLimitBytes :: int

definition parseOrigin :: "url_parser \<Rightarrow> string \<Rightarrow> string \<Rightarrow> config_error + string" where
  "parseOrigin U name raw = plain_origin U name raw (\<lambda>_. True)"

definition relay_loadConfig ::
  "url_parser \<Rightarrow> (string \<Rightarrow> json) \<Rightarrow> environment \<Rightarrow> config_error + relay_config" where
  "relay_loadConfig U N env =
     bindR (parseOrigin U ''FIBERNUTS_RELAY_PUBLIC_ORIGIN''
       (env_or env ''FIBERNUTS_RELAY_PUBLIC_ORIGIN'' ''http://127.0.0.1:8090'')) (\<lambda>publicOrigin.
     if env ''NODE_ENV'' = Some ''production'' \<and> \<not> starts_with ''https://'' publicOrigin
     then Inl (Not_https ''FIBERNUTS_RELAY_PUBLIC_ORIGIN'')
     else
       bindR (mapR (parseOrigin U ''FIBERNUTS_RELAY_ALLOWED_ORIGINS'')
         (origin_entries (env_or env ''FIBERNUTS_RELAY_ALLOWED_ORIGINS'' ''http://127.0.0.1:5175'')))
         (\<lambda>origins.
       if origins = [] then Inl No_origins
       else
         bindR (integer_setting N env ''FIBERNUTS_RELAY_PORT'' 8090 1 65535) (\<lambda>port.
         bindR (integer_setting N env ''FIBERNUTS_RELAY_MAX_TTL_SECONDS'' 600 30 3600) (\<lambda>ttl.
         bindR (integer_setting N env ''FIBERNUTS_RELAY_RETENTION_SECONDS'' 3600 60 86400) (\<lambda>retention.
         bindR (integer_setting N env ''FIBERNUTS_RELAY_MAX_REQUESTS_PER_MINUTE'' 120 10 10000) (\<lambda>maxRequests.
         Inr \<lparr>rc_host = env_or env ''FIBERNUTS_RELAY_HOST'' ''127.0.0.1'', rc_port = port,
              rc_databasePath = env_or env ''FIBERNUTS_RELAY_DATABASE'' ''./data/relay.sqlite3'',
              rc_publicOrigin = publicOrigin, rc_allowedOrigins = set origins,
              rc_maxTtlSeconds = ttl, rc_retentionSeconds = retention,
              rc_maxRequestsPerMinute = maxRequests, rc_bodyLimitBytes = 128 * 1024\<rparr>))))))"

subsection \<open>Responses\<close>

definition relay_json :: "string option \<Rightarrow> nat \<Rightarrow> json \<Rightarrow> http_response" where
  "relay_json origin status body =
     \<lparr>rs_status = status, rs_body = Some body, rs_origin = origin, rs_retry = None\<rparr>"

definition empty_response :: "string option \<Rightarrow> http_response" where
  "empty_response origin = \<lparr>rs_status = 204, rs_body = None, rs_origin = origin, rs_retry = None\<rparr>"

text \<open>The \<open>catch\<close> of the handler, for a thrown \<open>HttpError\<close>; the message text is left out.\<close>

definition relay_fail :: "string option \<Rightarrow> http_error \<Rightarrow> http_response" where
  "relay_fail origin e = relay_json origin (err_status e) (JObj [(''error'', JStr (err_code e))])"

definition internal_error :: http_error where
  "internal_error = HttpError 500 ''internal_error''"

definition respondR :: "string option \<Rightarrow> (http_error + 'a) \<Rightarrow> ('a \<Rightarrow> http_response) \<Rightarrow> http_response" where
  "respondR origin result ok = (case result of Inl e \<Rightarrow> relay_fail origin e | Inr x \<Rightarrow> ok x)"

definition bearer :: "http_request \<Rightarrow> http_error + string" where
  "bearer request =
     (case rq_authorization request of
        None \<Rightarrow> Inl (HttpError 401 ''unauthorized'')
      | Some authorization \<Rightarrow>
          if \<not> starts_with ''Bearer '' authorization then Inl (HttpError 401 ''unauthorized'')
          else if \<not> is_capability (drop 7 authorization) then Inl (HttpError 401 ''unauthorized'')
          else Inr (drop 7 authorization))"

subsection \<open>The handler\<close>

text \<open>The requests per address and minute; the key joins both.\<close>

definition rate_key :: "string option \<Rightarrow> int \<Rightarrow> string" where
  "rate_key address minute =
     (case address of None \<Rightarrow> ''unknown'' | Some a \<Rightarrow> a) @ '':'' @ int_text minute"

definition relay_rate ::
  "relay_config \<Rightarrow> int \<Rightarrow> string option \<Rightarrow> rate_table \<Rightarrow> (http_error + unit) \<times> rate_table" where
  "relay_rate cfg minute address rate =
     (let k = rate_key address minute;
          n = next_count minute k rate;
          rate' = rate_set minute k n rate
      in if rc_maxRequestsPerMinute cfg < int n then (Inl (HttpError 429 ''rate_limited''), rate')
         else (Inr (), if 10000 < length rate' then rate_prune minute rate' else rate'))"

text \<open>What the handler waits for: the body of a registration, or of a delivery to a slot.\<close>

datatype body_use = For_register | For_deliver string

datatype start_result = Responded http_response | Awaiting "string option" body_use

definition delivery_match :: "string \<Rightarrow> string option" where
  "delivery_match path =
     (if starts_with ''/v1/deliver/'' path \<and> is_capability (drop 12 path) then Some (drop 12 path)
      else None)"

definition await_body :: "http_request \<Rightarrow> string option \<Rightarrow> body_use \<Rightarrow> start_result" where
  "await_body request origin purpose =
     (if \<not> is_json_type (rq_content_type request)
      then Responded (relay_fail origin (HttpError 415 ''content_type''))
      else Awaiting origin purpose)"

definition duplicate_body :: "string \<Rightarrow> bool \<Rightarrow> json" where
  "duplicate_body status duplicate = JObj [(''status'', JStr status), (''duplicate'', JBool duplicate)]"

definition relay_route ::
  "(string \<Rightarrow> string) \<Rightarrow> int \<Rightarrow> http_request \<Rightarrow> string option \<Rightarrow> string \<Rightarrow> relay_store \<Rightarrow>
   start_result \<times> relay_store" where
  "relay_route H now request origin path rows =
     (if rq_method request = ''GET'' \<and> path = ''/healthz''
      then (Responded (relay_json origin 200 (JObj [(''status'', JStr ''ok'')])), rows)
      else if rq_method request = ''POST'' \<and> path = ''/v1/orders''
      then (await_body request origin For_register, rows)
      else if rq_method request = ''POST'' \<and> delivery_match path \<noteq> None
      then (await_body request origin (For_deliver (the (delivery_match path))), rows)
      else if rq_method request = ''GET'' \<and> path = ''/v1/inbox''
      then (case bearer request of
              Inl e \<Rightarrow> (Responded (relay_fail origin e), rows)
            | Inr cap \<Rightarrow>
                (let (result, rows') = read_slot H now cap rows in
                 (Responded (respondR origin result (\<lambda>payload.
                    case payload of None \<Rightarrow> empty_response origin
                                  | Some document \<Rightarrow> relay_json origin 200 document)), rows')))
      else if rq_method request = ''POST'' \<and> path = ''/v1/inbox/ack''
      then (case bearer request of
              Inl e \<Rightarrow> (Responded (relay_fail origin e), rows)
            | Inr cap \<Rightarrow>
                (let (result, rows') = acknowledge H now cap rows in
                 (Responded (respondR origin result (\<lambda>r.
                    relay_json origin 200 (duplicate_body ''acknowledged'' (r = Duplicate_ack)))), rows')))
      else if rq_method request = ''POST'' \<and> path = ''/v1/inbox/cancel''
      then (case bearer request of
              Inl e \<Rightarrow> (Responded (relay_fail origin e), rows)
            | Inr cap \<Rightarrow>
                (let (result, rows') = cancel H now cap rows in
                 (Responded (respondR origin result (\<lambda>r.
                    relay_json origin 200 (duplicate_body ''cancelled'' (r = Duplicate_cancel)))), rows')))
      else (Responded (relay_fail origin (HttpError 404 ''not_found'')), rows))"

definition relay_arrive ::
  "(string \<Rightarrow> string) \<Rightarrow> (string \<Rightarrow> string \<Rightarrow> url option) \<Rightarrow> relay_config \<Rightarrow> int \<Rightarrow> http_request \<Rightarrow>
   rate_table \<times> relay_store \<Rightarrow> start_result \<times> rate_table \<times> relay_store" where
  "relay_arrive H UB cfg ms request = (\<lambda>(rate, rows).
     case cors HttpError (rc_allowedOrigins cfg) (rq_origin request) of
       Inl e \<Rightarrow> (Responded (relay_fail None e), rate, rows)
     | Inr origin \<Rightarrow>
         if rq_method request = ''OPTIONS'' then (Responded (empty_response origin), rate, rows)
         else
           (case relay_rate cfg (ms div 60000) (rq_address request) rate of
              (Inl e, rate') \<Rightarrow> (Responded (relay_fail origin e), rate', rows)
            | (Inr _, rate') \<Rightarrow>
                (case UB (rq_target request) (rc_publicOrigin cfg) of
                   None \<Rightarrow> (Responded (relay_fail origin internal_error), rate', rows)
                 | Some u \<Rightarrow>
                     (let (result, rows') = relay_route H (ms div 1000) request origin (pathname u) rows
                      in (result, rate', rows')))))"

text \<open>A completed body, or \<open>None\<close> for a request whose stream broke.\<close>

definition relay_body ::
  "(string \<Rightarrow> string) \<Rightarrow> url_parser \<Rightarrow> (string \<Rightarrow> json option) \<Rightarrow> relay_config \<Rightarrow> int \<Rightarrow>
   string option \<Rightarrow> body_use \<Rightarrow> string list option \<Rightarrow> relay_store \<Rightarrow> http_response \<times> relay_store" where
  "relay_body H U J cfg now origin purpose chunks rows =
     (case chunks of
        None \<Rightarrow> (relay_fail origin internal_error, rows)
      | Some cs \<Rightarrow>
          (case purpose of
             For_register \<Rightarrow>
               (case bindR (read_body HttpError J (rc_bodyLimitBytes cfg) cs)
                       (\<lambda>v. parseRegistration U v now (rc_maxTtlSeconds cfg)) of
                  Inl e \<Rightarrow> (relay_fail origin e, rows)
                | Inr input \<Rightarrow>
                    (let (result, rows') = register H now input rows in
                     (respondR origin result (\<lambda>r. relay_json origin (if r = Created then 201 else 200)
                        (JObj [(''order_id'', JStr (ri_orderId input)),
                               (''delivery_url'',
                                JStr (rc_publicOrigin cfg @ ''/v1/deliver/'' @ ri_writeCapability input)),
                               (''expires_at'', JInt (ri_expiresAt input))])), rows')))
           | For_deliver cap \<Rightarrow>
               (case bindR (read_body HttpError J (rc_bodyLimitBytes cfg) cs) (parsePaymentPayload U) of
                  Inl e \<Rightarrow> (relay_fail origin e, rows)
                | Inr payload \<Rightarrow>
                    (let (result, rows') = deliver H now cap payload rows in
                     (respondR origin result (\<lambda>r. relay_json origin 202
                        (duplicate_body ''delivered'' (r = Duplicate_delivery))), rows')))))"

subsection \<open>The server as a machine\<close>

text \<open>
  The state of the process and the rows on disk. \<open>sv_pending\<close> holds the handlers that wait for a
  body, by a number of the request; \<open>sv_replies\<close> and \<open>sv_admitted\<close> record, for the theorems only,
  the responses sent and the address and minute of every request past the rate check.
\<close>

record relay_server =
  sv_rate :: rate_table
  sv_store :: relay_store
  sv_pending :: "nat \<Rightarrow> (string option \<times> body_use) option"
  sv_replies :: "(nat \<times> http_response) list"
  sv_admitted :: "(string \<times> int) list"

definition relay_start :: "relay_config \<Rightarrow> int \<Rightarrow> relay_store \<Rightarrow> relay_server" where
  "relay_start cfg ms rows =
     \<lparr>sv_rate = [], sv_store = snd (cleanup (ms div 1000) (rc_retentionSeconds cfg) rows),
      sv_pending = (\<lambda>_. None), sv_replies = [], sv_admitted = []\<rparr>"

text \<open>\<open>Restart\<close> ends the process and starts \<open>index.ts\<close> again on the same database.\<close>

datatype relay_event =
    Arrive nat int http_request
  | Body nat int "string list option"
  | Scheduled_cleanup int
  | Restart int

definition is_admitted :: "relay_config \<Rightarrow> int \<Rightarrow> http_request \<Rightarrow> rate_table \<Rightarrow> bool" where
  "is_admitted cfg ms request rate \<longleftrightarrow>
     (\<exists>o'. cors HttpError (rc_allowedOrigins cfg) (rq_origin request) = Inr o') \<and>
     rq_method request \<noteq> ''OPTIONS'' \<and>
     fst (relay_rate cfg (ms div 60000) (rq_address request) rate) = Inr ()"

definition address_text :: "string option \<Rightarrow> string" where
  "address_text address = (case address of None \<Rightarrow> ''unknown'' | Some a \<Rightarrow> a)"

fun relay_serve ::
  "(string \<Rightarrow> string) \<Rightarrow> url_parser \<Rightarrow> (string \<Rightarrow> string \<Rightarrow> url option) \<Rightarrow> (string \<Rightarrow> json option) \<Rightarrow>
   relay_config \<Rightarrow> relay_event \<Rightarrow> relay_server \<Rightarrow> relay_server" where
  "relay_serve H U UB J cfg (Arrive n ms request) s =
     (if sv_pending s n \<noteq> None then s
      else
        (let (result, rate', rows') = relay_arrive H UB cfg ms request (sv_rate s, sv_store s);
             s' = s\<lparr>sv_rate := rate', sv_store := rows',
                    sv_admitted := (if is_admitted cfg ms request (sv_rate s)
                      then (address_text (rq_address request), ms div 60000) # sv_admitted s
                      else sv_admitted s)\<rparr>
         in case result of
              Responded r \<Rightarrow> s'\<lparr>sv_replies := (n, r) # sv_replies s\<rparr>
            | Awaiting origin purpose \<Rightarrow> s'\<lparr>sv_pending := (sv_pending s)(n \<mapsto> (origin, purpose))\<rparr>))"
| "relay_serve H U UB J cfg (Body n ms chunks) s =
     (case sv_pending s n of
        None \<Rightarrow> s
      | Some (origin, purpose) \<Rightarrow>
          (let (r, rows') = relay_body H U J cfg (ms div 1000) origin purpose chunks (sv_store s)
           in s\<lparr>sv_store := rows', sv_pending := (sv_pending s)(n := None),
                sv_replies := (n, r) # sv_replies s\<rparr>))"
| "relay_serve H U UB J cfg (Scheduled_cleanup ms) s =
     s\<lparr>sv_store := snd (cleanup (ms div 1000) (rc_retentionSeconds cfg) (sv_store s))\<rparr>"
| "relay_serve H U UB J cfg (Restart ms) s = relay_start cfg ms (sv_store s)"

end
