(* ===== verification/Relay_Server_Correct.thy ===== *)
theory Relay_Server_Correct
  imports Relay_Server
begin

section \<open>Relay server: refinement of the store machine and the rate limit\<close>

text \<open>
  The lemmas behind the server's properties: every event of the server is at most one checked
  operation on the store (\<open>checked_op\<close> says what the parsers and the bearer test have ensured), and
  the table of counts bounds what one address is admitted in one minute.
\<close>

lemma parseOrigins_Inr:
  "mapR (parseOrigin U name) raws = Inr origins \<Longrightarrow> x \<in> set origins \<Longrightarrow>
     \<exists>raw u. U raw = Some u \<and> http_or_https u \<and> url_credentials u = [] \<and> x = url_origin u"
  using plain_origin_Inr
  by (fastforce simp: parseOrigin_def url_credentials_def dest: mapR_Inr_set)

subsection \<open>Checked operations\<close>

fun checked_op :: "int \<Rightarrow> int \<times> relay_op \<Rightarrow> bool" where
  "checked_op ttl (now, Register input) = valid_registration now ttl input"
| "checked_op ttl (now, Deliver cap payload) = (is_capability cap \<and> valid_payload payload)"
| "checked_op ttl (now, Read_slot cap) = is_capability cap"
| "checked_op ttl (now, Acknowledge cap) = is_capability cap"
| "checked_op ttl (now, Cancel cap) = is_capability cap"
| "checked_op ttl (now, Cleanup retention) = True"

text \<open>\<open>at_most_one ttl H rows rows'\<close>: the store moved by no operation or by one checked one.\<close>

definition at_most_one :: "int \<Rightarrow> (string \<Rightarrow> string) \<Rightarrow> relay_store \<Rightarrow> relay_store \<Rightarrow> bool" where
  "at_most_one ttl H rows rows' \<longleftrightarrow>
     rows' = rows \<or> (\<exists>op. checked_op ttl op \<and> rows' = relay_step H op rows)"

lemma at_most_one_same [simp]: "at_most_one ttl H rows rows"
  by (simp add: at_most_one_def)

lemma at_most_oneI: "checked_op ttl op \<Longrightarrow> rows' = relay_step H op rows \<Longrightarrow> at_most_one ttl H rows rows'"
  unfolding at_most_one_def by blast

lemma bearer_Inr: "bearer request = Inr cap \<Longrightarrow>
    is_capability cap \<and> rq_authorization request = Some (''Bearer '' @ cap)"
  by (auto simp: bearer_def starts_with_append split: option.splits if_splits)

lemma delivery_match_Some: "delivery_match path = Some cap \<Longrightarrow>
    is_capability cap \<and> path = ''/v1/deliver/'' @ cap"
  by (auto simp: delivery_match_def starts_with_append split: if_splits)

text \<open>What the route of a request does to the store, by the bearer of the request alone.\<close>

definition bearer_step ::
  "(string \<Rightarrow> string) \<Rightarrow> http_request \<Rightarrow> relay_store \<Rightarrow> relay_store \<Rightarrow> bool" where
  "bearer_step H request rows rows' \<longleftrightarrow> rows' = rows \<or>
     (\<exists>cap now op. rq_authorization request = Some (''Bearer '' @ cap) \<and> is_capability cap \<and>
        op \<in> {Read_slot cap, Acknowledge cap, Cancel cap} \<and> rows' = relay_step H (now, op) rows)"

lemma bearer_stepI:
  "bearer request = Inr cap \<Longrightarrow> op \<in> {Read_slot cap, Acknowledge cap, Cancel cap} \<Longrightarrow>
   rows' = relay_step H (now, op) rows \<Longrightarrow> bearer_step H request rows rows'"
  using bearer_Inr[of request cap] by (auto simp: bearer_step_def)

lemma relay_route_store: "bearer_step H request rows (snd (relay_route H now request origin path rows))"
proof (cases "bearer request")
  case (Inl e)
  then show ?thesis by (simp add: relay_route_def bearer_step_def)
next
  case (Inr cap)
  note I = bearer_stepI[OF Inr, of _ _ H now rows]
  show ?thesis
    using I[of "Read_slot cap"] I[of "Acknowledge cap"] I[of "Cancel cap"]
    by (auto simp: relay_route_def Inr bearer_step_def[of H request rows rows] Let_def case_prod_beta)
qed

lemma relay_arrive_store:
  "bearer_step H request rows (snd (snd (relay_arrive H UB cfg ms request (rate, rows))))"
  using relay_route_store[of H request rows]
  by (auto simp: relay_arrive_def bearer_step_def[of H request rows rows] Let_def case_prod_beta
      split: sum.splits option.splits prod.splits)

lemma bearer_step_one:
  assumes "bearer_step H request rows rows'"
  shows "at_most_one ttl H rows rows'"
  using assms unfolding bearer_step_def
proof (elim disjE exE conjE)
  fix cap now op
  assume "is_capability cap" "op \<in> {Read_slot cap, Acknowledge cap, Cancel cap}"
    "rows' = relay_step H (now, op) rows"
  then show ?thesis by (intro at_most_oneI[of ttl "(now, op)"]) auto
qed simp

lemma relay_arrive_awaiting:
  assumes "fst (relay_arrive H UB cfg ms request s) = Awaiting origin (For_deliver cap)"
  shows "is_capability cap"
  using assms delivery_match_Some
  by (cases s) (auto simp: relay_arrive_def relay_route_def await_body_def Let_def case_prod_beta
      split: sum.splits option.splits prod.splits if_splits)

lemma relay_body_store:
  assumes "\<And>cap. purpose = For_deliver cap \<Longrightarrow> is_capability cap"
  shows "at_most_one (rc_maxTtlSeconds cfg) H rows
    (snd (relay_body H U J cfg now origin purpose chunks rows))"
proof (cases chunks)
  case (Some cs)
  show ?thesis
  proof (cases purpose)
    case For_register
    then show ?thesis
      by (auto simp: relay_body_def Some Let_def case_prod_beta result_simps split: sum.splits
          intro!: at_most_oneI[of _ "(now, Register _)"] dest: parseRegistration_Inr)
  next
    case (For_deliver cap)
    then show ?thesis
      using assms by (auto simp: relay_body_def Some Let_def case_prod_beta result_simps split: sum.splits
          intro!: at_most_oneI[of _ "(now, Deliver cap _)"] dest: parsePaymentPayload_Inr)
  qed
qed (simp add: relay_body_def)

subsection \<open>The invariant of the process\<close>

text \<open>
  A waiting delivery carries a well-formed capability, and every origin the server echoes is one
  that the configuration allows.
\<close>

definition origin_ok :: "relay_config \<Rightarrow> string option \<Rightarrow> bool" where
  "origin_ok cfg origin \<longleftrightarrow> (case origin of None \<Rightarrow> True | Some x \<Rightarrow> x \<in> rc_allowedOrigins cfg)"

definition process_ok :: "relay_config \<Rightarrow> relay_server \<Rightarrow> bool" where
  "process_ok cfg s \<longleftrightarrow>
     (\<forall>n origin purpose. sv_pending s n = Some (origin, purpose) \<longrightarrow>
        origin_ok cfg origin \<and> (\<forall>cap. purpose = For_deliver cap \<longrightarrow> is_capability cap)) \<and>
     (\<forall>(n, r) \<in> set (sv_replies s). origin_ok cfg (rs_origin r))"

lemma origin_ok_None [simp]: "origin_ok cfg None"
  by (simp add: origin_ok_def)

lemma response_origins [simp]:
  "rs_origin (relay_json origin n v) = origin" "rs_origin (empty_response origin) = origin"
  "rs_origin (relay_fail origin e) = origin"
  by (simp_all add: relay_json_def empty_response_def relay_fail_def)

lemma respondR_origin:
  "(\<And>x. rs_origin (ok x) = origin) \<Longrightarrow> rs_origin (respondR origin r ok) = origin"
  by (simp add: respondR_def split: sum.splits)

definition start_origin :: "start_result \<Rightarrow> string option" where
  "start_origin r = (case r of Responded p \<Rightarrow> rs_origin p | Awaiting origin _ \<Rightarrow> origin)"

lemma relay_route_origin: "start_origin (fst (relay_route H now request origin path rows)) = origin"
  by (auto simp: relay_route_def start_origin_def await_body_def Let_def case_prod_beta respondR_origin
      split: sum.splits option.splits)

lemma relay_arrive_origin: "origin_ok cfg (start_origin (fst (relay_arrive H UB cfg ms request s)))"
proof (cases "cors HttpError (rc_allowedOrigins cfg) (rq_origin request)")
  case (Inr origin)
  then have "origin_ok cfg origin"
    by (auto simp: origin_ok_def dest: cors_Inr split: option.splits)
  moreover have "start_origin (fst (relay_arrive H UB cfg ms request s)) = origin"
    by (cases s) (auto simp: relay_arrive_def Inr start_origin_def Let_def case_prod_beta
        relay_route_origin[unfolded start_origin_def] split: sum.splits option.splits prod.splits)
  ultimately show ?thesis by simp
qed (simp add: relay_arrive_def case_prod_beta start_origin_def)

lemma relay_body_origin: "rs_origin (fst (relay_body H U J cfg now origin purpose chunks rows)) = origin"
  by (auto simp: relay_body_def Let_def case_prod_beta respondR_origin
      split: sum.splits option.splits body_use.splits)

lemma relay_serve_process_ok: "process_ok cfg s \<Longrightarrow> process_ok cfg (relay_serve H U UB J cfg e s)"
proof (cases e)
  case (Arrive n ms request)
  assume ok: "process_ok cfg s"
  show ?thesis
    using ok relay_arrive_origin[of cfg H UB ms request "(sv_rate s, sv_store s)"]
      relay_arrive_awaiting[of H UB cfg ms request "(sv_rate s, sv_store s)"]
    by (auto simp: Arrive process_ok_def Let_def case_prod_beta start_origin_def split: start_result.splits)
next
  case (Body n ms chunks)
  assume ok: "process_ok cfg s"
  then show ?thesis
    by (auto simp: Body process_ok_def Let_def case_prod_beta relay_body_origin split: option.splits)
qed (auto simp: process_ok_def relay_start_def)

interpretation relay_process: invariant_machine "relay_serve H U UB J cfg" "process_ok cfg"
  for H U UB J cfg
  by unfold_locales (rule relay_serve_process_ok)

subsection \<open>Refinement of the store machine\<close>

lemma relay_serve_one:
  assumes "process_ok cfg s"
  shows "at_most_one (rc_maxTtlSeconds cfg) H (sv_store s) (sv_store (relay_serve H U UB J cfg e s))"
proof (cases e)
  case (Arrive n ms request)
  show ?thesis
    using bearer_step_one[OF relay_arrive_store]
    by (auto simp: Arrive Let_def case_prod_beta split: start_result.splits)
next
  case (Body n ms chunks)
  with assms show ?thesis
    using relay_body_store by (auto simp: process_ok_def Let_def case_prod_beta split: option.splits)
next
  case (Scheduled_cleanup ms)
  then show ?thesis by (auto intro!: at_most_oneI[of _ "(ms div 1000, Cleanup (rc_retentionSeconds cfg))"])
next
  case (Restart ms)
  then show ?thesis
    by (auto simp: relay_start_def intro!: at_most_oneI[of _ "(ms div 1000, Cleanup (rc_retentionSeconds cfg))"])
qed

lemma relay_runs_refine:
  assumes "process_ok cfg s"
  shows "\<exists>ops. list_all (checked_op (rc_maxTtlSeconds cfg)) ops \<and>
    sv_store (run_machine (relay_serve H U UB J cfg) es s) = run_machine (relay_step H) ops (sv_store s)"
  using assms
proof (induction es arbitrary: s)
  case Nil
  show ?case by (rule exI[of _ "[]"]) simp
next
  case (Cons e es)
  let ?s = "relay_serve H U UB J cfg e s"
  from Cons.IH[OF relay_serve_process_ok[OF Cons.prems]] obtain ops where
    ops: "list_all (checked_op (rc_maxTtlSeconds cfg)) ops"
      "sv_store (run_machine (relay_serve H U UB J cfg) es ?s) = run_machine (relay_step H) ops (sv_store ?s)"
    by blast
  from relay_serve_one[OF Cons.prems, of H U UB J e] show ?case
    unfolding at_most_one_def
  proof (elim disjE exE conjE)
    assume "sv_store ?s = sv_store s"
    with ops show ?thesis by (intro exI[of _ ops]) simp
  next
    fix op assume "checked_op (rc_maxTtlSeconds cfg) op" "sv_store ?s = relay_step H op (sv_store s)"
    with ops show ?thesis by (intro exI[of _ "op # ops"]) simp
  qed
qed

subsection \<open>The rate limit\<close>

lemma rate_key_inj:
  assumes "rate_key a m = rate_key a' m'"
  shows "address_text a = address_text a' \<and> m = m'"
proof -
  have last: "takeWhile (\<lambda>c. c \<noteq> CHR '':'') (rev (rate_key a m)) = rev (int_text m)" for a m
  proof -
    have "\<forall>c \<in> set (rev (int_text m)). c \<noteq> CHR '':''"
      by (fastforce dest: int_text_chars simp: is_digit_def)
    then have "takeWhile (\<lambda>c. c \<noteq> CHR '':'') (rev (int_text m) @ CHR '':'' # t) = rev (int_text m)" for t
      by (subst takeWhile_append2) auto
    then show ?thesis by (simp add: rate_key_def)
  qed
  have "int_text m = int_text m'" using last[of a m] last[of a' m'] assms by simp
  then have "m = m'" by (rule int_text_inj)
  with assms show ?thesis by (simp add: rate_key_def address_text_def)
qed

lemma rate_key_text: "rate_key a m = rate_key (Some (address_text a)) m"
  by (simp add: rate_key_def address_text_def split: option.splits)

text \<open>
  The count that the table keeps for an address in a minute. \<open>keyed\<close> says that a key names the
  minute of its entry, so that no two addresses share one.
\<close>

definition kept :: "rate_table \<Rightarrow> string \<Rightarrow> int \<Rightarrow> nat" where
  "kept rate a m = (case map_of rate (rate_key (Some a) m) of None \<Rightarrow> 0 | Some e \<Rightarrow> entry_count e)"

definition keyed :: "rate_table \<Rightarrow> bool" where
  "keyed rate \<longleftrightarrow> rate_ok rate \<and>
     (\<forall>k e. map_of rate k = Some e \<longrightarrow> (\<exists>a. k = rate_key (Some a) (entry_minute e)))"

lemma keyed_minute: "keyed rate \<Longrightarrow> map_of rate (rate_key a m) = Some e \<Longrightarrow> entry_minute e = m"
  unfolding keyed_def using rate_key_inj by metis

lemma next_count_kept:
  assumes "keyed rate"
  shows "next_count m (rate_key a m) rate = Suc (kept rate (address_text a) m)"
  using keyed_minute[OF assms, of a m]
  by (auto simp: next_count_def kept_def rate_key_text[of a, symmetric] split: option.splits)

lemma keyed_set: "keyed rate \<Longrightarrow> keyed (rate_set m (rate_key a m) n rate)"
  using rate_key_text[of a m] by (auto simp: keyed_def map_of_rate_set split: if_splits)

lemma kept_set:
  "kept (rate_set m (rate_key a m) n rate) a' m' =
     (if a' = address_text a \<and> m' = m then n else kept rate a' m')"
  using rate_key_inj[of "Some a'" m' a m] rate_key_text[of a m]
  by (auto simp: kept_def map_of_rate_set address_text_def[of "Some a'"])

lemma keyed_prune: "keyed rate \<Longrightarrow> keyed (rate_prune m rate)"
  by (auto simp: keyed_def map_of_rate_prune split: option.splits if_splits)

lemma kept_prune: "keyed rate \<Longrightarrow> m \<le> m' \<Longrightarrow> kept (rate_prune m rate) a m' = kept rate a m'"
  using keyed_minute[of rate "Some a" m']
  by (auto simp: kept_def keyed_def map_of_rate_prune split: option.splits)

lemma relay_rate_effect:
  assumes "keyed rate" "relay_rate cfg m a rate = (res, rate')"
  shows "keyed rate' \<and>
    (\<forall>a' m'. m \<le> m' \<longrightarrow> kept rate' a' m' =
       (if a' = address_text a \<and> m' = m then Suc (kept rate a' m') else kept rate a' m')) \<and>
    (res = Inr () \<longleftrightarrow> int (Suc (kept rate (address_text a) m)) \<le> rc_maxRequestsPerMinute cfg)"
proof -
  let ?k = "rate_key a m"
  let ?r = "rate_set m ?k (Suc (kept rate (address_text a) m)) rate"
  have k: "keyed ?r" by (rule keyed_set[OF assms(1)])
  have "rate' = ?r \<or> rate' = rate_prune m ?r"
    "res = Inr () \<longleftrightarrow> int (Suc (kept rate (address_text a) m)) \<le> rc_maxRequestsPerMinute cfg"
    using assms(2) by (auto simp: relay_rate_def next_count_kept[OF assms(1)] Let_def split: if_splits)
  then show ?thesis
    using k keyed_prune[OF k] kept_prune[OF k] by (auto simp: kept_set)
qed

subsection \<open>The counts of the whole process\<close>

definition rate_inv :: "relay_config \<Rightarrow> int \<Rightarrow> relay_server \<Rightarrow> bool" where
  "rate_inv cfg cur s \<longleftrightarrow>
     keyed (sv_rate s) \<and>
     (\<forall>a m. int (count_list (sv_admitted s) (a, m)) \<le> max 0 (rc_maxRequestsPerMinute cfg)) \<and>
     (\<forall>a m. cur \<le> m \<longrightarrow> count_list (sv_admitted s) (a, m) \<le> kept (sv_rate s) a m)"

lemma rate_inv_later: "rate_inv cfg cur s \<Longrightarrow> cur \<le> cur' \<Longrightarrow> rate_inv cfg cur' s"
  by (auto simp: rate_inv_def)

lemma rate_inv_cong:
  "sv_rate s' = sv_rate s \<Longrightarrow> sv_admitted s' = sv_admitted s \<Longrightarrow> rate_inv cfg cur s \<Longrightarrow> rate_inv cfg cur s'"
  by (simp add: rate_inv_def)

lemma rate_inv_start: "rate_inv cfg cur (relay_start cfg ms rows)"
  by (simp add: rate_inv_def relay_start_def keyed_def rate_ok_def)

fun event_time :: "relay_event \<Rightarrow> int" where
  "event_time (Arrive _ ms _) = ms"
| "event_time (Body _ ms _) = ms"
| "event_time (Scheduled_cleanup ms) = ms"
| "event_time (Restart ms) = ms"

lemma relay_arrive_rate:
  "fst (snd (relay_arrive H UB cfg ms request (rate, rows))) =
     (if (\<exists>o'. cors HttpError (rc_allowedOrigins cfg) (rq_origin request) = Inr o') \<and>
         rq_method request \<noteq> ''OPTIONS''
      then snd (relay_rate cfg (ms div 60000) (rq_address request) rate) else rate)"
  by (auto simp: relay_arrive_def Let_def case_prod_beta split: sum.splits option.splits prod.splits)

lemma rate_inv_arrive:
  assumes inv: "rate_inv cfg (ms div 60000) s"
    and s': "sv_rate s' = fst (snd (relay_arrive H UB cfg ms request (sv_rate s, rows)))"
      "sv_admitted s' = (if is_admitted cfg ms request (sv_rate s)
         then (address_text (rq_address request), ms div 60000) # sv_admitted s else sv_admitted s)"
  shows "rate_inv cfg (ms div 60000) s'"
proof (cases "(\<exists>o'. cors HttpError (rc_allowedOrigins cfg) (rq_origin request) = Inr o') \<and>
    rq_method request \<noteq> ''OPTIONS''")
  case False
  then show ?thesis
    using inv s' by (auto simp: relay_arrive_rate is_admitted_def intro: rate_inv_cong)
next
  case True
  let ?m = "ms div 60000"
  let ?a = "address_text (rq_address request)"
  obtain res rate' where rr: "relay_rate cfg ?m (rq_address request) (sv_rate s) = (res, rate')"
    by (cases "relay_rate cfg ?m (rq_address request) (sv_rate s)")
  have adm: "is_admitted cfg ms request (sv_rate s) \<longleftrightarrow> res = Inr ()"
    using True by (auto simp: is_admitted_def rr)
  have rate: "sv_rate s' = rate'" using True s'(1) by (simp add: relay_arrive_rate rr)
  have k: "keyed (sv_rate s)" using inv by (simp add: rate_inv_def)
  note eff = relay_rate_effect[OF k rr]
  have below: "count_list (sv_admitted s) (?a, ?m) \<le> kept (sv_rate s) ?a ?m"
    using inv by (simp add: rate_inv_def)
  have room: "1 + int (count_list (sv_admitted s) (?a, ?m)) \<le> rc_maxRequestsPerMinute cfg"
    if "res = Inr ()"
    using eff below that by auto
  show ?thesis
    using inv eff below room by (auto simp: rate_inv_def rate s'(2) adm le_SucI)
qed

lemma rate_inv_step:
  assumes "rate_inv cfg (event_time e div 60000) s"
  shows "rate_inv cfg (event_time e div 60000) (relay_serve H U UB J cfg e s)"
proof (cases e)
  case (Arrive n ms request)
  show ?thesis
  proof (cases "sv_pending s n")
    case None
    show ?thesis
      unfolding Arrive event_time.simps
      by (rule rate_inv_arrive[of cfg ms s _ H UB request "sv_store s"])
        (use assms None in \<open>simp_all add: Arrive Let_def case_prod_beta split: start_result.splits\<close>)
  qed (use assms in \<open>simp add: Arrive\<close>)
next
  case (Body n ms chunks)
  with assms show ?thesis
    by (auto simp: Let_def case_prod_beta intro: rate_inv_cong[of _ s] split: option.splits)
next
  case (Scheduled_cleanup ms)
  with assms show ?thesis by (auto intro: rate_inv_cong[of _ s])
qed (simp add: rate_inv_start)

lemma rate_inv_run:
  assumes "sorted (map event_time es)" "rate_inv cfg cur s"
    and "\<forall>e \<in> set es. cur \<le> event_time e div 60000"
  shows "\<exists>cur'. rate_inv cfg cur' (run_machine (relay_serve H U UB J cfg) es s)"
  using assms
proof (induction es arbitrary: s cur)
  case (Cons e es)
  have now: "rate_inv cfg (event_time e div 60000) s"
    using rate_inv_later Cons.prems by fastforce
  have "\<forall>e' \<in> set es. event_time e div 60000 \<le> event_time e' div 60000"
    using Cons.prems(1) by (auto intro: zdiv_mono1)
  with Cons.IH[OF _ rate_inv_step[OF now]] Cons.prems(1) show ?case by auto
qed auto

subsection \<open>Operations with another capability\<close>

lemma other_read_stays:
  assumes "store_ok H rows" "r \<in> set rows" "hashSecret H cap \<noteq> read_hash r"
    and "op \<in> {Read_slot cap, Acknowledge cap, Cancel cap}"
  shows "r \<in> set (relay_step H (now, op) rows)"
proof (cases "rowForRead H cap rows")
  case (Inr x)
  have u: "unique_keys rows" using assms(1) by (simp add: store_ok_def)
  have x: "x \<in> set rows" "read_hash x = hashSecret H cap" using rowForRead_Inr[OF Inr] by auto
  have "order_id_hash r \<noteq> order_id_hash x"
    using unique_by_order[OF u assms(2) x(1)] assms(3) x(2) by auto
  then have d: "due_update now (order_id_hash x) r = r" by (simp add: due_update_def)
  then have "r \<in> set (map (due_update now (order_id_hash x)) rows)" using assms(2) by (metis image_eqI image_set)
  then show ?thesis
    using assms(3,4) by (force simp: read_slot_def acknowledge_def cancel_def Inr Let_def
        expireRow_eq[OF u x(1)] list_upd)
qed (use assms in \<open>auto simp: read_slot_def acknowledge_def cancel_def\<close>)

lemma other_write_stays:
  assumes "store_ok H rows" "r \<in> set rows" "hashSecret H cap \<noteq> write_hash r"
  shows "r \<in> set (snd (deliver H now cap p rows))"
proof -
  have "store_payload H now (hashSecret H cap) p r = r" using assms(3) by (auto simp: store_payload_def)
  with deliver_effect[OF assms(1), of now cap p] assms(2) show ?thesis by (metis image_eqI image_set)
qed

end
