(* ===== verification/Relay_Properties.thy ===== *)
theory Relay_Properties
  imports Relay_Correct
begin

section \<open>Relay: the properties\<close>

text \<open>
  The claims about the relay, each over the operations of \<open>Relay_Store\<close> and \<open>Relay_Protocol\<close>, and
  their witnesses. The witnesses run one small order through the store, with the identity in the
  place of SHA-256.
\<close>

subsection \<open>A concrete order\<close>

definition demo_cap :: "char \<Rightarrow> string" where
  "demo_cap c = replicate 43 c"

definition demo_proof :: json where
  "demo_proof = JObj [(''amount'', JInt 250), (''id'', JStr ''k''),
     (''secret'', JStr ''0123456789abcdef''), (''C'', JStr (replicate 32 (CHR ''a'')))]"

definition demo_payload :: payment_payload where
  "demo_payload = \<lparr>pp_id = ''order_1234567890'', pp_memo = None, pp_unit = ''rusd'',
     pp_mint = ''https://m'', pp_proofs = [demo_proof]\<rparr>"

definition demo_order :: register_order_input where
  "demo_order = \<lparr>ri_orderId = ''order_1234567890'', ri_amount = 250, ri_unit = ''rusd'',
     ri_mint = ''https://m'', ri_requestDigest = ''d'', ri_expiresAt = 400,
     ri_writeCapability = demo_cap (CHR ''w''), ri_readCapability = demo_cap (CHR ''r'')\<rparr>"

definition idH :: "string \<Rightarrow> string" where
  "idH s = s"

definition demo_rows :: relay_store where
  "demo_rows = snd (register idH 100 demo_order [])"

definition demo_delivered :: relay_store where
  "demo_delivered = snd (deliver idH 200 (demo_cap (CHR ''w'')) demo_payload demo_rows)"

lemma demo_rows_eq: "demo_rows = [new_row idH 100 demo_order]"
  by (simp add: demo_rows_def register_def insert_order_def new_row_def demo_order_def)

lemma demo_rows_ok: "store_ok idH demo_rows"
  unfolding demo_rows_def by (rule register_store_ok) (simp add: store_ok_def unique_keys_def)

lemma demo_matches: "payload_matches idH (new_row idH t demo_order) demo_payload"
  by (simp add: payload_matches_def new_row_def demo_order_def demo_payload_def hashSecret_def idH_def
      payloadAmount_def positiveInteger_def demo_proof_def field_def is_safe_def max_safe_def
      js_add_def js_round_exact)

lemma demo_deliver:
  "deliver idH 200 (demo_cap (CHR ''w'')) demo_payload demo_rows = (Inr Stored, demo_delivered)"
proof -
  have "payload_mismatch idH demo_payload (new_row idH 100 demo_order) = Inr False"
    using demo_matches by (simp add: payload_mismatch_False)
  moreover have "\<not> is_due 200 (new_row idH 100 demo_order)"
    by (simp add: is_due_def new_row_def demo_order_def)
  moreover have "write_hash (new_row idH 100 demo_order) = demo_cap (CHR ''w'')"
    "row_state (new_row idH 100 demo_order) = Open" "payload_digest (new_row idH 100 demo_order) = None"
    by (simp_all add: new_row_def demo_order_def hashSecret_def idH_def)
  ultimately have "fst (deliver idH 200 (demo_cap (CHR ''w'')) demo_payload demo_rows) = Inr Stored"
    by (simp add: deliver_def demo_rows_eq expireRow_def hashSecret_def idH_def)
  then show ?thesis by (simp add: demo_delivered_def prod_eq_iff)
qed

lemma demo_delivered_eq:
  "demo_delivered = [store_payload idH 200 (demo_cap (CHR ''w'')) demo_payload (new_row idH 100 demo_order)]"
  using deliver_Stored[OF demo_deliver demo_rows_ok]
  by (simp add: demo_rows_eq hashSecret_def idH_def[of "demo_cap (CHR ''w'')"])

subsection \<open>The properties\<close>

text \<open>
  C1. Whatever registrations, deliveries, reads, acknowledgements, cancellations and clean-ups the
  relay serves, in any order and at any times, its table keeps unique keys, and each row's stored
  payload agrees with its state: an open slot has none, a delivered one holds a payload whose
  order, unit, mint and exact total are the registered ones, and a closed one holds none.
\<close>

theorem relay_table_invariant: "store_ok H (run_machine (relay_step H) ops [])"
  by (rule relay_machine.run_inv) (simp add: store_ok_def unique_keys_def)

text \<open>
  C2. The table refines the life cycle of a slot: over any run without a new registration of order
  \<open>k\<close>, every row of that order was there before with the same amount, and its state is reached
  from its old state by the steps open to delivered, cancelled or expired, and delivered to
  acknowledged or expired. So a slot never leaves a closed state and is never delivered twice.
\<close>

theorem relay_slot_lifecycle:
  assumes "store_ok H rows" "list_all (\<lambda>op. \<not> registers_order H k op) ops"
    and "r' \<in> set (run_machine (relay_step H) ops rows)" "order_id_hash r' = k"
  shows "\<exists>r \<in> set rows. order_id_hash r = k \<and> row_amount r' = row_amount r \<and>
           lifecycle\<^sup>*\<^sup>* (row_state r) (row_state r')"
  using slot_life.run_track[OF assms(1,2)] assms(3,4) by (auto simp: slot_track_def)

theorem relay_slot_lifecycle_witness:
  "\<exists>r \<in> set demo_rows. order_id_hash r = ''order_1234567890'' \<and> row_amount r = 250 \<and>
     lifecycle\<^sup>*\<^sup>* (row_state r) Delivered"
proof -
  let ?ops = "[(200, Deliver (demo_cap (CHR ''w'')) demo_payload)]"
  let ?r' = "store_payload idH 200 (demo_cap (CHR ''w'')) demo_payload (new_row idH 100 demo_order)"
  have run: "run_machine (relay_step idH) ?ops demo_rows = demo_delivered"
    by (simp add: demo_deliver)
  have k: "list_all (\<lambda>op. \<not> registers_order idH ''order_1234567890'' op) ?ops" by simp
  have in1: "?r' \<in> set (run_machine (relay_step idH) ?ops demo_rows)"
    unfolding run by (simp add: demo_delivered_eq)
  have f: "order_id_hash ?r' = ''order_1234567890''" "row_amount ?r' = 250" "row_state ?r' = Delivered"
    by (simp_all add: store_payload_def mark_delivered_def new_row_def demo_order_def hashSecret_def idH_def)
  show ?thesis
    using relay_slot_lifecycle[OF demo_rows_ok k in1 f(1)] f by auto
qed

text \<open>
  C3. Durability: once a delivery is stored, the holder of the slot's read capability reads exactly
  that payload after any further operations, at any time and past the order's expiry, as long as
  none of them acknowledges with this read capability and no clean-up's retention has run out
  since the delivery.
\<close>

theorem relay_delivery_durable:
  assumes ok: "store_ok H rows"
    and d: "deliver H now writeCap p rows = (Inr Stored, rows')"
    and r: "\<exists>r \<in> set rows. write_hash r = hashSecret H writeCap \<and> read_hash r = hashSecret H readCap"
    and ops: "list_all (spares H (hashSecret H readCap) now) ops"
  shows "fst (read_slot H later readCap (run_machine (relay_step H) ops rows')) =
           Inr (Some (json_roundtrip (payload_object p)))"
proof -
  from deliver_done[OF d ok] obtain x x0 where x: "x \<in> set rows'" "write_hash x = hashSecret H writeCap"
    "row_state x = Delivered" "payload_json x = Some (json_roundtrip (payload_object p))"
    "delivered_at x = Some now" and x0: "x0 \<in> set rows" "same_keys x0 x" by auto
  have rd: "read_hash x = hashSecret H readCap"
    using r x(2) x0 ok unique_by_write by (auto simp: same_keys_def store_ok_def)
  have ok': "store_ok H rows'" using relay_step_store_ok[OF ok, of "(now, Deliver writeCap p)"] d by simp
  have t: "row_stays x rows' (run_machine (relay_step H) ops rows')"
    by (rule tracked_machine.run_track[OF spares_delivered_at[OF x(5)] ok']) (use ops rd in simp)
  with x have "x \<in> set (run_machine (relay_step H) ops rows')" by (simp add: row_stays_def)
  from read_slot_row[OF relay_machine.run_inv[OF ok'] this rd] x show ?thesis by simp
qed

theorem relay_delivery_durable_witness:
  "fst (read_slot idH 1000 (demo_cap (CHR ''r''))
      (run_machine (relay_step idH) [(900, Cleanup 3600), (950, Cancel (demo_cap (CHR ''r'')))] demo_delivered)) =
     Inr (Some (json_roundtrip (payload_object demo_payload)))"
proof -
  have "\<exists>r \<in> set demo_rows. write_hash r = hashSecret idH (demo_cap (CHR ''w'')) \<and>
      read_hash r = hashSecret idH (demo_cap (CHR ''r''))"
    by (simp add: demo_rows_eq new_row_def demo_order_def)
  moreover have "list_all (spares idH (hashSecret idH (demo_cap (CHR ''r''))) 200)
      [(900, Cleanup 3600), (950, Cancel (demo_cap (CHR ''r'')))]" by simp
  ultimately show ?thesis by (rule relay_delivery_durable[OF demo_rows_ok demo_deliver])
qed

text \<open>
  C4. Exactness: from any state the store reaches, a read that returns a document returns a payload
  for the order of this very slot, of its unit and mint, whose proofs add up, without rounding, to
  exactly the registered amount. An underpaid or overpaid payload is never handed to the vendor.
\<close>

theorem relay_read_exact:
  assumes "fst (read_slot H now cap (run_machine (relay_step H) ops [])) = Inr (Some doc)"
  shows "\<exists>r \<in> set (run_machine (relay_step H) ops []). \<exists>p.
    read_hash r = hashSecret H cap \<and> doc = json_roundtrip (payload_object p) \<and>
    hashSecret H (pp_id p) = order_id_hash r \<and> pp_unit p = row_unit r \<and> pp_mint p = row_mint r \<and>
    sum_list (map proof_amount (pp_proofs p)) = row_amount r"
proof -
  let ?rows = "run_machine (relay_step H) ops []"
  have ok: "store_ok H ?rows"
    by (rule relay_machine.run_inv) (simp add: store_ok_def unique_keys_def)
  then have u: "unique_keys ?rows" by (simp add: store_ok_def)
  from assms obtain r where q: "rowForRead H cap ?rows = Inr r"
    by (cases "rowForRead H cap ?rows") (auto simp: read_slot_def)
  then have r: "r \<in> set ?rows" "read_hash r = hashSecret H cap" by (auto dest: rowForRead_Inr)
  have "row_state r \<noteq> Open"
    using assms by (auto simp: read_slot_def q expireRow_eq[OF u r(1)] due_update_def expire_def split: if_splits)
  with read_slot_row[OF ok r] assms have "row_state r = Delivered" "payload_json r = Some doc"
    by (auto split: if_splits)
  moreover have "row_ok H r" using ok r(1) by (simp add: store_ok_def)
  ultimately obtain p where p: "payload_matches H r p" "doc = json_roundtrip (payload_object p)"
    by (auto simp: row_ok_def holds_payload_def)
  have "sum_list (map proof_amount (pp_proofs p)) = row_amount r"
    using p(1) proofs_total_Inr[of 0 "pp_proofs p" "row_amount r"]
    by (simp add: payload_matches_def payloadAmount_def is_safe_def max_safe_def)
  with p r show ?thesis by (auto simp: payload_matches_def)
qed

theorem relay_read_exact_witness:
  "\<exists>(r :: order_row) p. read_hash r = demo_cap (CHR ''r'') \<and>
     json_roundtrip (payload_object demo_payload) = json_roundtrip (payload_object p) \<and>
     sum_list (map proof_amount (pp_proofs p)) = row_amount r"
proof -
  let ?ops = "[(100, Register demo_order), (200, Deliver (demo_cap (CHR ''w'')) demo_payload)]"
  have run: "run_machine (relay_step idH) ?ops [] = demo_delivered"
    using demo_deliver by (simp add: demo_rows_def)
  have ok: "store_ok idH demo_delivered"
    using relay_step_store_ok[OF demo_rows_ok, of "(200, Deliver (demo_cap (CHR ''w'')) demo_payload)"]
    by (simp add: demo_deliver)
  let ?r = "store_payload idH 200 (demo_cap (CHR ''w'')) demo_payload (new_row idH 100 demo_order)"
  have r: "?r \<in> set demo_delivered" "read_hash ?r = hashSecret idH (demo_cap (CHR ''r''))"
    "row_state ?r = Delivered" "payload_json ?r = Some (json_roundtrip (payload_object demo_payload))"
    by (simp_all add: demo_delivered_eq store_payload_def mark_delivered_def new_row_def demo_order_def
        hashSecret_def idH_def)
  have "fst (read_slot idH 300 (demo_cap (CHR ''r'')) (run_machine (relay_step idH) ?ops [])) =
      Inr (Some (json_roundtrip (payload_object demo_payload)))"
    unfolding run using read_slot_row[OF ok r(1,2)] r(3,4) by simp
  from relay_read_exact[OF this] obtain x :: order_row and p where
    x: "read_hash x = hashSecret idH (demo_cap (CHR ''r''))"
      "json_roundtrip (payload_object demo_payload) = json_roundtrip (payload_object p)"
      "sum_list (map proof_amount (pp_proofs p)) = row_amount x" by blast
  from x(1) have "read_hash x = demo_cap (CHR ''r'')" by (simp add: hashSecret_def idH_def)
  with x(2,3) show ?thesis by blast
qed

text \<open>
  The first payload wins: after a stored delivery, delivering the same payload again at any time
  reports a duplicate and changes nothing, and any payload with another digest is refused with 409
  and changes nothing.
\<close>

lemma relay_first_delivery_wins:
  assumes "store_ok H rows" "deliver H now cap p rows = (Inr Stored, rows')"
  shows "deliver H later cap q rows' =
    (if digestPayload H (payload_object q) = digestPayload H (payload_object p)
     then Inr Duplicate_delivery else Inl (HttpError 409 ''payload_conflict''), rows')"
proof -
  have ok': "store_ok H rows'"
    using relay_step_store_ok[OF assms(1), of "(now, Deliver cap p)"] assms(2) by simp
  from deliver_done[OF assms(2,1)] obtain r where "r \<in> set rows'" "write_hash r = hashSecret H cap"
    "row_state r = Delivered" "payload_digest r = Some (digestPayload H (payload_object p))" by auto
  with deliver_row[OF ok', of r cap later q] show ?thesis by auto
qed

theorem relay_first_delivery_wins_witness:
  "deliver idH 900 (demo_cap (CHR ''w'')) demo_payload demo_delivered =
     (Inr Duplicate_delivery, demo_delivered)"
  using relay_first_delivery_wins[OF demo_rows_ok demo_deliver, of 900 demo_payload] by simp

text \<open>
  C5. Delivery and cancellation exclude each other: after a stored delivery every cancellation of the
  slot is refused with 409, and after a cancellation every delivery to the slot and every read of it
  is refused with 410; the refusals change nothing.
\<close>

theorem relay_cancel_or_deliver:
  assumes "store_ok H rows"
    and "r \<in> set rows" "write_hash r = hashSecret H writeCap" "read_hash r = hashSecret H readCap"
  shows "(deliver H now writeCap p rows = (Inr Stored, rows1) \<longrightarrow>
            cancel H later readCap rows1 = (Inl (HttpError 409 ''delivery_won''), rows1)) \<and>
         (cancel H now readCap rows = (Inr Cancelled_now, rows2) \<longrightarrow>
            deliver H later writeCap q rows2 = (Inl (HttpError 410 ''slot_closed''), rows2) \<and>
            read_slot H later readCap rows2 = (Inl (HttpError 410 ''slot_closed''), rows2))"
proof (intro conjI impI)
  assume d: "deliver H now writeCap p rows = (Inr Stored, rows1)"
  have ok1: "store_ok H rows1"
    using relay_step_store_ok[OF assms(1), of "(now, Deliver writeCap p)"] d by simp
  from deliver_done[OF d assms(1)] obtain x x0 where x: "x \<in> set rows1" "row_state x = Delivered"
    "write_hash x = hashSecret H writeCap" "x0 \<in> set rows" "same_keys x0 x" by auto
  have "read_hash x = hashSecret H readCap"
    using x(3-) assms unique_by_write[of rows r x0] by (auto simp: same_keys_def store_ok_def)
  from cancel_row_result[OF ok1 x(1) this] x(2)
  show "cancel H later readCap rows1 = (Inl (HttpError 409 ''delivery_won''), rows1)" by simp
next
  assume c: "cancel H now readCap rows = (Inr Cancelled_now, rows2)"
  have ok2: "store_ok H rows2"
    using relay_step_store_ok[OF assms(1), of "(now, Cancel readCap)"] c by simp
  from cancel_done[OF c assms(1)] obtain x x0 where x: "x \<in> set rows2" "row_state x = Cancelled"
    "read_hash x = hashSecret H readCap" "x0 \<in> set rows" "same_keys x0 x" by auto
  have w: "write_hash x = hashSecret H writeCap"
    using x(3-) assms unique_by_read[of rows r x0] by (auto simp: same_keys_def store_ok_def)
  show "deliver H later writeCap q rows2 = (Inl (HttpError 410 ''slot_closed''), rows2)"
    using deliver_row[OF ok2 x(1) w] x(2) by simp
  show "read_slot H later readCap rows2 = (Inl (HttpError 410 ''slot_closed''), rows2)"
    using read_slot_row[OF ok2 x(1,3)] x(2) by simp
qed

theorem relay_cancel_or_deliver_witness:
  "cancel idH 201 (demo_cap (CHR ''r'')) demo_delivered =
     (Inl (HttpError 409 ''delivery_won''), demo_delivered)"
proof -
  have r: "new_row idH 100 demo_order \<in> set demo_rows"
    "write_hash (new_row idH 100 demo_order) = hashSecret idH (demo_cap (CHR ''w''))"
    "read_hash (new_row idH 100 demo_order) = hashSecret idH (demo_cap (CHR ''r''))"
    by (simp_all add: demo_rows_eq new_row_def demo_order_def)
  from relay_cancel_or_deliver[OF demo_rows_ok r, of 200 demo_payload demo_delivered 201 _ demo_payload]
  show ?thesis using demo_deliver by simp
qed

end
