(* ===== verification/Relay_Server_Properties.thy ===== *)
theory Relay_Server_Properties
  imports Relay_Server_Correct Relay_Properties
begin

section \<open>Relay server: the properties\<close>

subsection \<open>A concrete configuration and requests\<close>

definition demo_url :: "string \<Rightarrow> url" where
  "demo_url h = \<lparr>protocol = ''https:'', username = [], password = [], host = h, hostname = h,
     pathname = ''/'', search = [], hash = []\<rparr>"

definition demo_parser :: url_parser where
  "demo_parser s = (if s = ''https://r'' then Some (demo_url ''r'')
     else if s = ''https://w'' then Some (demo_url ''w'') else None)"

definition demo_env :: environment where
  "demo_env = [''NODE_ENV'' \<mapsto> ''production'', ''FIBERNUTS_RELAY_PUBLIC_ORIGIN'' \<mapsto> ''https://r'',
     ''FIBERNUTS_RELAY_ALLOWED_ORIGINS'' \<mapsto> '' https://w,'', ''FIBERNUTS_RELAY_MAX_TTL_SECONDS'' \<mapsto> ''120'']"

definition demo_relay_config :: relay_config where
  "demo_relay_config =
     \<lparr>rc_host = ''127.0.0.1'', rc_port = 8090, rc_databasePath = ''./data/relay.sqlite3'',
      rc_publicOrigin = ''https://r'', rc_allowedOrigins = {''https://w''}, rc_maxTtlSeconds = 120,
      rc_retentionSeconds = 3600, rc_maxRequestsPerMinute = 120, rc_bodyLimitBytes = 131072\<rparr>"

lemma demo_load:
  "relay_loadConfig demo_parser (\<lambda>_. JNull) demo_env = Inr demo_relay_config"
  by (simp add: relay_loadConfig_def env_or_def demo_env_def parseOrigin_def plain_origin_def demo_parser_def
      demo_url_def demo_relay_config_def http_or_https_def url_origin_def starts_with_def origin_entries_def trim_def is_space_def
      integer_setting_def js_number_def is_digit_text_def number_of_digits_def digits_value_def
      digit_value_def is_digit_def is_safe_def max_safe_def js_round_exact)

definition demo_request :: "string \<Rightarrow> string \<Rightarrow> http_request" where
  "demo_request method origin = \<lparr>rq_method = method, rq_target = ''/healthz'', rq_origin = Some origin,
     rq_authorization = None, rq_content_type = None, rq_forwarded = None, rq_address = Some ''::1''\<rparr>"

definition demo_server :: "relay_event list \<Rightarrow> relay_server" where
  "demo_server es = run_machine (relay_serve idH (\<lambda>_. None) (\<lambda>t b. Some (demo_url ''r''\<lparr>pathname := t\<rparr>))
     (\<lambda>_. None) demo_relay_config) es (relay_start demo_relay_config 0 [])"

text \<open>An event that uses a capability of the row \<open>r\<close>.\<close>

definition uses_slot :: "(string \<Rightarrow> string) \<Rightarrow> order_row \<Rightarrow> relay_server \<Rightarrow> relay_event \<Rightarrow> bool" where
  "uses_slot H r s e \<longleftrightarrow>
     (case e of
        Arrive n ms request \<Rightarrow>
          (case rq_authorization request of
             None \<Rightarrow> False
           | Some a \<Rightarrow> starts_with ''Bearer '' a \<and> hashSecret H (drop 7 a) = read_hash r)
      | Body n ms chunks \<Rightarrow>
          (case sv_pending s n of
             Some (origin, For_deliver cap) \<Rightarrow> hashSecret H cap = write_hash r
           | _ \<Rightarrow> False)
      | _ \<Rightarrow> True)"

subsection \<open>The properties\<close>

text \<open>
  C6. Refinement: from an empty database, whatever requests arrive, in whatever order their bodies
  complete, and with clean-ups and restarts anywhere between, the rows on disk are those that a
  sequence of checked store operations leaves: registrations inside the allowed time window, payloads
  that passed the parser, capabilities of the right form. So the table's invariant holds.
\<close>

theorem relay_server_refines:
  "\<exists>ops. list_all (checked_op (rc_maxTtlSeconds cfg)) ops \<and>
     sv_store (run_machine (relay_serve H U UB J cfg) es (relay_start cfg ms [])) =
       run_machine (relay_step H) ops [] \<and>
     store_ok H (run_machine (relay_step H) ops [])"
proof -
  have "process_ok cfg (relay_start cfg ms [])" by (simp add: process_ok_def relay_start_def)
  from relay_runs_refine[OF this, of H U UB J es] obtain ops where
    "list_all (checked_op (rc_maxTtlSeconds cfg)) ops"
    "sv_store (run_machine (relay_serve H U UB J cfg) es (relay_start cfg ms [])) =
       run_machine (relay_step H) ops []"
    by (auto simp: relay_start_def cleanup_eq)
  moreover have "store_ok H (run_machine (relay_step H) ops [])"
    by (rule relay_machine.run_inv) (simp add: store_ok_def unique_keys_def)
  ultimately show ?thesis by blast
qed

text \<open>
  C7. The rate limit: while the clock does not go back, one process admits at most
  \<open>maxRequestsPerMinute\<close> requests of one address in one minute, whatever the other requests and
  although the table of counts is pruned.
\<close>

theorem relay_rate_limit:
  assumes "sorted (map event_time es)"
  shows "int (count_list (sv_admitted (run_machine (relay_serve H U UB J cfg) es (relay_start cfg ms rows)))
           (address, minute)) \<le> max 0 (rc_maxRequestsPerMinute cfg)"
proof -
  have "\<exists>cur. rate_inv cfg cur (run_machine (relay_serve H U UB J cfg) es (relay_start cfg ms rows))"
  proof (cases es)
    case (Cons e es')
    have "\<forall>x \<in> set es. event_time e div 60000 \<le> event_time x div 60000"
      using assms by (auto simp: Cons intro: zdiv_mono1)
    from rate_inv_run[OF assms rate_inv_start this] show ?thesis .
  qed (auto intro: rate_inv_start)
  then show ?thesis by (auto simp: rate_inv_def)
qed

theorem relay_rate_limit_witness:
  "int (count_list (sv_admitted (demo_server
     [Arrive 1 1000 (demo_request ''GET'' ''https://w''), Arrive 2 61000 (demo_request ''GET'' ''https://w'')]))
       (''::1'', 1)) \<le> 120"
proof -
  let ?es = "[Arrive 1 1000 (demo_request ''GET'' ''https://w''), Arrive 2 61000 (demo_request ''GET'' ''https://w'')]"
  have "sorted (map event_time ?es)" by simp
  note limit = relay_rate_limit[OF this, of idH "\<lambda>_. None" "\<lambda>t b. Some (demo_url ''r''\<lparr>pathname := t\<rparr>)"
      "\<lambda>_. None" demo_relay_config 0 "[]" "''::1''" 1, folded demo_server_def]
  have "max 0 (rc_maxRequestsPerMinute demo_relay_config) = 120" by (simp add: demo_relay_config_def)
  with limit show ?thesis by (simp only:)
qed

text \<open>
  C8. Nobody touches a slot without its capability: an arriving request whose bearer is not the
  slot's read capability, and a completed body that is not a delivery to its write capability,
  leave the row exactly as it is.
\<close>

theorem relay_needs_capability:
  assumes ok: "store_ok H (sv_store s)" and r: "r \<in> set (sv_store s)" and no: "\<not> uses_slot H r s e"
  shows "r \<in> set (sv_store (relay_serve H U UB J cfg e s))"
proof (cases e)
  case (Arrive n ms request)
  have "r \<in> set (snd (snd (relay_arrive H UB cfg ms request (sv_rate s, sv_store s))))"
    using relay_arrive_store[of H request "sv_store s" UB cfg ms "sv_rate s"] no r
    by (auto simp: bearer_step_def uses_slot_def Arrive starts_with_def
        intro: other_read_stays[OF ok] simp del: relay_step.simps)
  with r show ?thesis by (auto simp: Arrive Let_def case_prod_beta split: start_result.splits)
next
  case (Body n ms chunks)
  then show ?thesis
    using no r other_write_stays[OF ok r]
    by (auto simp: uses_slot_def relay_body_def Let_def case_prod_beta register_keeps
        split: option.splits body_use.splits sum.splits)
qed (use no in \<open>simp_all add: uses_slot_def\<close>)

theorem relay_needs_capability_witness:
  "new_row idH 100 demo_order \<in> set (sv_store (relay_serve idH (\<lambda>_. None) (\<lambda>_ _. None) (\<lambda>_. None)
     demo_relay_config (Arrive 1 150000 (demo_request ''GET'' ''https://w''))
     (relay_start demo_relay_config 100000 demo_rows)))"
proof -
  have rows: "sv_store (relay_start demo_relay_config 100000 demo_rows) = demo_rows"
    by (simp add: relay_start_def cleanup_eq demo_rows_eq cleanup_row_def cleanup_deletes_def new_row_def
        demo_order_def)
  have ok: "store_ok idH (sv_store (relay_start demo_relay_config 100000 demo_rows))"
    by (simp only: rows demo_rows_ok)
  have r: "new_row idH 100 demo_order \<in> set (sv_store (relay_start demo_relay_config 100000 demo_rows))"
    unfolding rows by (simp add: demo_rows_eq)
  show ?thesis
    by (rule relay_needs_capability[OF ok r]) (simp add: uses_slot_def demo_request_def)
qed

text \<open>
  Browser origins: every response the server sends answers either no origin or one that the
  configuration allows, and a request from any other origin gets 403 and changes nothing else.
\<close>

lemma relay_origin_guard:
  "(\<forall>(n, r) \<in> set (sv_replies (run_machine (relay_serve H U UB J cfg) es (relay_start cfg ms rows))).
      origin_ok cfg (rs_origin r)) \<and>
   (rq_origin request = Some x \<and> x \<noteq> [] \<and> x \<notin> rc_allowedOrigins cfg \<longrightarrow>
      relay_arrive H UB cfg now request (rate, rows) =
        (Responded (relay_fail None (HttpError 403 ''origin_forbidden'')), rate, rows))"
proof -
  have "process_ok cfg (relay_start cfg ms rows)" by (simp add: process_ok_def relay_start_def)
  from relay_process.run_inv[OF this, of H U UB J es] show ?thesis
    by (auto simp: process_ok_def relay_arrive_def cors_def)
qed

theorem relay_origin_guard_witness:
  "relay_arrive idH (\<lambda>_ _. None) demo_relay_config 5 (demo_request ''GET'' ''https://x'') ([], []) =
     (Responded (relay_fail None (HttpError 403 ''origin_forbidden'')), [], [])"
  using relay_origin_guard[where cfg = demo_relay_config and H = idH and UB = "\<lambda>_ _. None" and
      request = "demo_request ''GET'' ''https://x''" and x = "''https://x''" and now = 5 and rate = "[]" and
      rows = "[]"]
  by (simp add: demo_request_def demo_relay_config_def)

text \<open>
  A configuration that loads is within its bounds: the time to live, the retention, the port and
  the rate lie in the ranges the code names, at least one browser origin is allowed, every allowed
  origin is the bare origin of an HTTP(S) URL without credentials, and in production the
  relay's own origin is HTTPS.
\<close>

lemma relay_config_sound:
  assumes "relay_loadConfig U N env = Inr cfg"
  shows "30 \<le> rc_maxTtlSeconds cfg \<and> rc_maxTtlSeconds cfg \<le> 3600 \<and>
    60 \<le> rc_retentionSeconds cfg \<and> rc_retentionSeconds cfg \<le> 86400 \<and>
    10 \<le> rc_maxRequestsPerMinute cfg \<and> rc_maxRequestsPerMinute cfg \<le> 10000 \<and>
    1 \<le> rc_port cfg \<and> rc_port cfg \<le> 65535 \<and> rc_bodyLimitBytes cfg = 131072 \<and>
    rc_allowedOrigins cfg \<noteq> {} \<and>
    (\<forall>x \<in> rc_allowedOrigins cfg. \<exists>raw u. U raw = Some u \<and> http_or_https u \<and> url_credentials u = [] \<and>
       x = url_origin u) \<and>
    (env ''NODE_ENV'' = Some ''production'' \<longrightarrow> starts_with ''https://'' (rc_publicOrigin cfg))"
proof -
  have "x \<in> rc_allowedOrigins cfg \<Longrightarrow>
      \<exists>raw u. U raw = Some u \<and> http_or_https u \<and> url_credentials u = [] \<and> x = url_origin u" for x
    using assms by (auto simp: relay_loadConfig_def bindR_Inr split: if_splits dest: parseOrigins_Inr)
  moreover have "env ''NODE_ENV'' = Some ''production'' \<longrightarrow> starts_with ''https://'' (rc_publicOrigin cfg)"
    using assms by (auto simp: relay_loadConfig_def bindR_Inr split: if_splits)
  ultimately show ?thesis
    using assms by (auto simp: relay_loadConfig_def bindR_Inr split: if_splits dest!: integer_setting_Inr)
qed

theorem relay_config_sound_witness:
  "starts_with ''https://'' (rc_publicOrigin demo_relay_config) \<and> rc_maxTtlSeconds demo_relay_config \<le> 3600"
  using relay_config_sound[OF demo_load] by (simp add: demo_env_def)

end
