(* ===== verification/Faucet_Protocol.thy ===== *)
theory Faucet_Protocol
  imports Http
begin

section \<open>Faucet: configuration and claim requests (faucet/src/config.ts, protocol.ts)\<close>

text \<open>
  The faucet's settings and the parsing of a claim. An \<open>HttpError\<close> of the faucet also carries the
  seconds to wait. HMAC-SHA-256 in hexadecimal is the parameter \<open>M\<close>, of a key and a text.
\<close>

datatype faucet_error = FaucetError (fe_status: nat) (fe_code: string) (fe_retry: "int option")

abbreviation plain_error :: "nat \<Rightarrow> string \<Rightarrow> faucet_error" where
  "plain_error status code \<equiv> FaucetError status code None"

subsection \<open>Configuration\<close>

datatype hash_type = Data | Type | Data1 | Data2

record udt_script =
  us_codeHash :: string
  us_hashType :: hash_type
  us_args :: string

record faucet_config =
  fc_host :: string
  fc_port :: int
  fc_databasePath :: string
  fc_publicOrigin :: string
  fc_allowedOrigins :: "string set"
  fc_mintUrl :: string
  fc_mintApiUrl :: string
  fc_fiberRpcUrl :: string
  fc_enabled :: bool
  fc_amount :: int
  fc_unit :: string
  fc_network :: string
  fc_unitScale :: int
  fc_invoiceCurrency :: string
  fc_udtScript :: udt_script
  fc_clientCooldownSeconds :: int
  fc_networkDailyClaimLimit :: int
  fc_dailyClaimLimit :: int
  fc_maxRequestsPerMinute :: int
  fc_maxFeeBaseUnits :: int
  fc_maxFeeRate :: int
  fc_recoveryDelaySeconds :: int
  fc_reconciliationIntervalSeconds :: int
  fc_sensitiveRetentionSeconds :: int
  fc_upstreamTimeoutMs :: int
  fc_bodyLimitBytes :: int
  fc_identifierSecret :: string
  fc_trustProxy :: bool

definition flag_setting :: "environment \<Rightarrow> string \<Rightarrow> bool \<Rightarrow> config_error + bool" where
  "flag_setting env name fallback =
     (case env name of
        None \<Rightarrow> Inr fallback
      | Some raw \<Rightarrow> if raw = ''true'' then Inr True
                    else if raw = ''false'' then Inr False
                    else Inl (Bad_flag name))"

definition httpUrl :: "url_parser \<Rightarrow> environment \<Rightarrow> string \<Rightarrow> string \<Rightarrow> bool \<Rightarrow> config_error + string" where
  "httpUrl U env name raw productionHttps =
     plain_origin U name raw
       (\<lambda>parsed. \<not> (productionHttps \<and> env ''NODE_ENV'' = Some ''production'' \<and> protocol parsed \<noteq> ''https:''))"

definition is_identifier_secret :: "string \<Rightarrow> bool" where
  "is_identifier_secret = chars_between is_hex 64 64"

definition rusd_script :: udt_script where
  "rusd_script =
     \<lparr>us_codeHash = ''0x1142755a044bf2ee358cba9f2da187ce928c91cd4dc8692ded0337efa677d21a'',
      us_hashType = Type,
      us_args = ''0x878fcc6f1f08d48e87bb1c3b3d5083f23f8a39c5d5c764f253b55b998526439b''\<rparr>"

definition faucet_loadConfig ::
  "url_parser \<Rightarrow> (string \<Rightarrow> json) \<Rightarrow> environment \<Rightarrow> config_error + faucet_config" where
  "faucet_loadConfig U N env =
     bindR (httpUrl U env ''FIBERNUTS_FAUCET_PUBLIC_ORIGIN''
       (env_or env ''FIBERNUTS_FAUCET_PUBLIC_ORIGIN'' ''http://127.0.0.1:8091'') True) (\<lambda>publicOrigin.
     bindR (httpUrl U env ''FIBERNUTS_FAUCET_MINT_URL''
       (env_or env ''FIBERNUTS_FAUCET_MINT_URL'' ''http://127.0.0.1:8085'') True) (\<lambda>mintUrl.
     bindR (httpUrl U env ''FIBERNUTS_FAUCET_MINT_API_URL''
       (env_or env ''FIBERNUTS_FAUCET_MINT_API_URL'' mintUrl) False) (\<lambda>mintApiUrl.
     bindR (httpUrl U env ''FIBERNUTS_FAUCET_FIBER_RPC''
       (env_or env ''FIBERNUTS_FAUCET_FIBER_RPC'' ''http://127.0.0.1:8227'') False) (\<lambda>fiberRpcUrl.
     bindR (mapR (\<lambda>v. httpUrl U env ''FIBERNUTS_FAUCET_ALLOWED_ORIGINS'' v True)
       (origin_entries (env_or env ''FIBERNUTS_FAUCET_ALLOWED_ORIGINS'' ''http://127.0.0.1:5175'')))
       (\<lambda>origins.
     if origins = [] then Inl No_origins
     else
       let identifierSecret = env_or env ''FIBERNUTS_FAUCET_IDENTIFIER_SECRET''
             ''local-faucet-identifier-secret-change-me'' in
       if env ''NODE_ENV'' = Some ''production'' \<and> \<not> is_identifier_secret identifierSecret
       then Inl Weak_secret
       else
     bindR (integer_setting N env ''FIBERNUTS_FAUCET_CLIENT_COOLDOWN_SECONDS'' 86400 60 2592000) (\<lambda>cooldown.
     bindR (integer_setting N env ''FIBERNUTS_FAUCET_SENSITIVE_RETENTION_SECONDS'' 604800 3600 2592000) (\<lambda>retention.
     if retention < cooldown then Inl Short_retention
     else
     bindR (integer_setting N env ''FIBERNUTS_FAUCET_PORT'' 8091 1 65535) (\<lambda>port.
     bindR (flag_setting env ''FIBERNUTS_FAUCET_ENABLED'' False) (\<lambda>enabled.
     bindR (integer_setting N env ''FIBERNUTS_FAUCET_AMOUNT'' 1000 1 100000) (\<lambda>amount.
     bindR (integer_setting N env ''FIBERNUTS_FAUCET_UNIT_SCALE'' 1000000 1 1000000000) (\<lambda>scale.
     bindR (integer_setting N env ''FIBERNUTS_FAUCET_NETWORK_DAILY_CLAIM_LIMIT'' 3 1 1000) (\<lambda>networkLimit.
     bindR (integer_setting N env ''FIBERNUTS_FAUCET_DAILY_CLAIM_LIMIT'' 25 1 100000) (\<lambda>dailyLimit.
     bindR (integer_setting N env ''FIBERNUTS_FAUCET_MAX_REQUESTS_PER_MINUTE'' 120 10 10000) (\<lambda>maxRequests.
     bindR (integer_setting N env ''FIBERNUTS_FAUCET_MAX_FEE_BASE_UNITS'' 5000000 0 1000000000) (\<lambda>maxFee.
     bindR (integer_setting N env ''FIBERNUTS_FAUCET_MAX_FEE_RATE'' 5 0 1000) (\<lambda>maxFeeRate.
     bindR (integer_setting N env ''FIBERNUTS_FAUCET_RECOVERY_DELAY_SECONDS'' 10 5 300) (\<lambda>recovery.
     bindR (integer_setting N env ''FIBERNUTS_FAUCET_RECONCILIATION_SECONDS'' 10 5 300) (\<lambda>reconciliation.
     bindR (integer_setting N env ''FIBERNUTS_FAUCET_UPSTREAM_TIMEOUT_MS'' 10000 1000 60000) (\<lambda>timeout.
     bindR (flag_setting env ''FIBERNUTS_FAUCET_TRUST_PROXY'' False) (\<lambda>trustProxy.
     Inr \<lparr>fc_host = env_or env ''FIBERNUTS_FAUCET_HOST'' ''127.0.0.1'', fc_port = port,
          fc_databasePath = env_or env ''FIBERNUTS_FAUCET_DATABASE'' ''./data/faucet.sqlite3'',
          fc_publicOrigin = publicOrigin, fc_allowedOrigins = set origins, fc_mintUrl = mintUrl,
          fc_mintApiUrl = mintApiUrl, fc_fiberRpcUrl = fiberRpcUrl, fc_enabled = enabled,
          fc_amount = amount, fc_unit = ''rusd'', fc_network = ''testnet'', fc_unitScale = scale,
          fc_invoiceCurrency = ''Fibt'', fc_udtScript = rusd_script,
          fc_clientCooldownSeconds = cooldown, fc_networkDailyClaimLimit = networkLimit,
          fc_dailyClaimLimit = dailyLimit, fc_maxRequestsPerMinute = maxRequests,
          fc_maxFeeBaseUnits = maxFee, fc_maxFeeRate = maxFeeRate,
          fc_recoveryDelaySeconds = recovery, fc_reconciliationIntervalSeconds = reconciliation,
          fc_sensitiveRetentionSeconds = retention, fc_upstreamTimeoutMs = timeout,
          fc_bodyLimitBytes = 4096, fc_identifierSecret = identifierSecret,
          fc_trustProxy = trustProxy\<rparr>))))))))))))))))))))"

subsection \<open>Claim requests\<close>

record claim_request =
  cr_quoteId :: string
  cr_clientId :: string

definition is_quote_id :: "string \<Rightarrow> bool" where
  "is_quote_id = chars_between is_b64url 8 256"

definition is_client_id :: "string \<Rightarrow> bool" where
  "is_client_id = chars_between is_b64url 43 64"

definition parseClaimRequest :: "json \<Rightarrow> faucet_error + claim_request" where
  "parseClaimRequest value =
     (if \<not> is_record value \<or> length (fields_of value) \<noteq> 2 \<or> \<not> has_key value ''quote_id'' \<or>
         \<not> has_key value ''client_id''
      then Inl (plain_error 400 ''invalid_request'')
      else if \<not> str_such is_quote_id (field value ''quote_id'')
      then Inl (plain_error 400 ''invalid_quote'')
      else if \<not> str_such is_client_id (field value ''client_id'')
      then Inl (plain_error 400 ''invalid_client'')
      else
        bindR (strR (plain_error 400 ''invalid_quote'') (field value ''quote_id'')) (\<lambda>quoteId.
        bindR (strR (plain_error 400 ''invalid_client'') (field value ''client_id'')) (\<lambda>clientId.
        Inr \<lparr>cr_quoteId = quoteId, cr_clientId = clientId\<rparr>)))"

text \<open>The separator between purpose and value is the character with code 0.\<close>

definition identifierHash :: "(string \<Rightarrow> string \<Rightarrow> string) \<Rightarrow> string \<Rightarrow> string \<Rightarrow> string \<Rightarrow> string" where
  "identifierHash M secret purpose v = M secret (purpose @ [char_of (0 :: nat)] @ v)"

definition nextUtcDay :: "int \<Rightarrow> int" where
  "nextUtcDay now = (now div 86400 + 1) * 86400"

definition startOfUtcDay :: "int \<Rightarrow> int" where
  "startOfUtcDay now = now div 86400 * 86400"

lemma startOfUtcDay_le: "startOfUtcDay now \<le> now"
  by (simp add: startOfUtcDay_def)

lemma nextUtcDay_gt: "now < nextUtcDay now \<and> nextUtcDay now \<le> now + 86400"
  using startOfUtcDay_le[of now] pos_mod_bound[of 86400 now]
  by (simp add: nextUtcDay_def startOfUtcDay_def algebra_simps)

lemma same_day: "startOfUtcDay s \<le> t \<Longrightarrow> t < nextUtcDay s \<longleftrightarrow> t div 86400 \<le> s div 86400"
  by (auto simp: startOfUtcDay_def nextUtcDay_def)

lemma parseClaimRequest_Inr:
  "parseClaimRequest v = Inr r \<Longrightarrow> is_quote_id (cr_quoteId r) \<and> is_client_id (cr_clientId r)"
  by (auto simp: parseClaimRequest_def str_such_iff result_simps split: if_splits)

end
