(* ===== verification/Faucet_Store.thy ===== *)
theory Faucet_Store
  imports Faucet_Protocol State_Machine
begin

section \<open>Faucet: the claim store (faucet/src/database.ts)\<close>

text \<open>
  The table \<open>faucet_claims\<close> is the list of its rows in insertion order. A row and the record that
  \<open>mapRow\<close> makes of it have the same fields, so one record type stands for both. \<open>reserve\<close> runs in
  a transaction: its errors leave the table as it was. Nothing deletes a row.
\<close>

datatype claim_state = Dispatching | Pending | Paid | Issued | Failed | Recoverable

record claim_record =
  quoteHash :: string
  quoteId :: "string option"
  claimInvoice :: "string option"
  paymentHash :: "string option"
  quotePubkey :: "string option"
  clientHash :: "string option"
  networkHash :: "string option"
  claimState :: claim_state
  claimAmount :: int
  claimUnit :: string
  claimExpiry :: int
  attemptCount :: nat
  attemptedAt :: "int option"
  createdAt :: int
  updatedAt :: int
  failureCode :: "string option"

type_synonym claim_rows = "claim_record list"

record reserve_claim =
  rv_quoteHash :: string
  rv_quoteId :: string
  rv_invoice :: string
  rv_paymentHash :: string
  rv_quotePubkey :: string
  rv_clientHash :: string
  rv_networkHash :: string
  rv_amount :: int
  rv_unit :: string
  rv_expiry :: int
  rv_cooldownSeconds :: int
  rv_networkDailyLimit :: int
  rv_dailyLimit :: int

record faucet_stats =
  claimsTotal :: nat
  claimsToday :: nat
  paidTotal :: nat
  issuedTotal :: nat

text \<open>A JavaScript string or null is false when it is null or empty.\<close>

definition blank :: "string option \<Rightarrow> bool" where
  "blank x \<longleftrightarrow> x = None \<or> x = Some []"

lemma blank_simps [simp]: "blank None" "blank (Some s) \<longleftrightarrow> s = []"
  by (auto simp: blank_def)

definition find_claim :: "string \<Rightarrow> claim_rows \<Rightarrow> claim_record option" where
  "find_claim k rows = find (\<lambda>r. quoteHash r = k) rows"

subsection \<open>Reserving a claim\<close>

text \<open>The newest claim of the client inside the cool-down window, by its creation time.\<close>

definition recent_claim :: "string \<Rightarrow> int \<Rightarrow> claim_rows \<Rightarrow> int option" where
  "recent_claim client since rows =
     (case map createdAt (filter (\<lambda>r. clientHash r = Some client \<and> since < createdAt r) rows) of
        [] \<Rightarrow> None
      | t # ts \<Rightarrow> Some (fold max ts t))"

definition network_count :: "string \<Rightarrow> int \<Rightarrow> claim_rows \<Rightarrow> nat" where
  "network_count network since rows =
     length (filter (\<lambda>r. networkHash r = Some network \<and> since \<le> createdAt r) rows)"

definition day_count :: "int \<Rightarrow> claim_rows \<Rightarrow> nat" where
  "day_count since rows = length (filter (\<lambda>r. since \<le> createdAt r) rows)"

definition new_claim :: "int \<Rightarrow> reserve_claim \<Rightarrow> claim_record" where
  "new_claim now input =
     \<lparr>quoteHash = rv_quoteHash input, quoteId = Some (rv_quoteId input),
      claimInvoice = Some (rv_invoice input), paymentHash = Some (rv_paymentHash input),
      quotePubkey = Some (rv_quotePubkey input), clientHash = Some (rv_clientHash input),
      networkHash = Some (rv_networkHash input), claimState = Dispatching,
      claimAmount = rv_amount input, claimUnit = rv_unit input, claimExpiry = rv_expiry input,
      attemptCount = 0, attemptedAt = None, createdAt = now, updatedAt = now, failureCode = None\<rparr>"

text \<open>The INSERT fails on the primary key, on UNIQUE (payment_hash) and on CHECK (amount).\<close>

definition insert_claim :: "claim_record \<Rightarrow> claim_rows \<Rightarrow> claim_rows option" where
  "insert_claim r rows =
     (if (\<exists>x \<in> set rows. quoteHash x = quoteHash r \<or>
            (paymentHash x \<noteq> None \<and> paymentHash x = paymentHash r)) \<or> \<not> 0 < claimAmount r
      then None else Some (rows @ [r]))"

definition reserve ::
  "int \<Rightarrow> reserve_claim \<Rightarrow> claim_rows \<Rightarrow> (faucet_error + claim_record \<times> bool) \<times> claim_rows" where
  "reserve now input rows =
     (case find_claim (rv_quoteHash input) rows of
        Some existing \<Rightarrow> (Inr (existing, False), rows)
      | None \<Rightarrow>
          (case recent_claim (rv_clientHash input) (now - rv_cooldownSeconds input) rows of
             Some t \<Rightarrow>
               (Inl (FaucetError 429 ''claim_cooldown''
                  (Some (max 1 (t + rv_cooldownSeconds input - now)))), rows)
           | None \<Rightarrow>
               (if rv_networkDailyLimit input
                     \<le> int (network_count (rv_networkHash input) (startOfUtcDay now) rows)
                then (Inl (FaucetError 429 ''network_limit'' (Some (nextUtcDay now - now))), rows)
                else if rv_dailyLimit input \<le> int (day_count (startOfUtcDay now) rows)
                then (Inl (FaucetError 429 ''daily_limit'' (Some (nextUtcDay now - now))), rows)
                else (case insert_claim (new_claim now input) rows of
                        None \<Rightarrow> (Inl (plain_error 409 ''claim_conflict''), rows)
                      | Some rows' \<Rightarrow> (Inr (new_claim now input, True), rows')))))"

subsection \<open>Updates\<close>

definition update_claim :: "string \<Rightarrow> (claim_record \<Rightarrow> claim_record) \<Rightarrow> claim_rows \<Rightarrow> claim_rows" where
  "update_claim k u rows = update_where (\<lambda>r. quoteHash r = k) u rows"

text \<open>\<open>require\<close> throws a plain \<open>Error\<close>, which every handler reports as an internal error.\<close>

definition internal_fault :: faucet_error where
  "internal_fault = plain_error 500 ''internal_error''"

definition require_claim :: "string \<Rightarrow> claim_rows \<Rightarrow> faucet_error + claim_record" where
  "require_claim k rows = (case find_claim k rows of None \<Rightarrow> Inl internal_fault | Some r \<Rightarrow> Inr r)"

definition attempted :: "int \<Rightarrow> claim_record \<Rightarrow> claim_record" where
  "attempted now r =
     r\<lparr>claimState := Dispatching, attemptCount := attemptCount r + 1, attemptedAt := Some now,
       updatedAt := now, failureCode := None\<rparr>"

definition markAttempt ::
  "int \<Rightarrow> string \<Rightarrow> claim_rows \<Rightarrow> (faucet_error + claim_record) \<times> claim_rows" where
  "markAttempt now k rows =
     (let rows' = update_claim k (attempted now) rows in (require_claim k rows', rows'))"

definition moved :: "int \<Rightarrow> claim_state \<Rightarrow> string option \<Rightarrow> claim_record \<Rightarrow> claim_record" where
  "moved now st code r = r\<lparr>claimState := st, updatedAt := now, failureCode := code\<rparr>"

definition transition ::
  "int \<Rightarrow> string \<Rightarrow> claim_state \<Rightarrow> string option \<Rightarrow> claim_rows \<Rightarrow>
   (faucet_error + claim_record) \<times> claim_rows" where
  "transition now k st code rows =
     (let rows' = update_claim k (moved now st code) rows in (require_claim k rows', rows'))"

subsection \<open>Queries\<close>

definition is_open_claim :: "claim_record \<Rightarrow> bool" where
  "is_open_claim r \<longleftrightarrow>
     claimState r \<in> {Dispatching, Pending, Recoverable} \<and> quoteId r \<noteq> None \<and>
     failureCode r \<notin> {Some ''manual_review_required'', Some ''payment_hash_mismatch'',
       Some ''missing_dispatch_data'', Some ''missing_payment_hash'', Some ''quote_changed''}"

text \<open>Rows with the same \<open>updated_at\<close> come in insertion order.\<close>

definition open_claims :: "nat \<Rightarrow> claim_rows \<Rightarrow> claim_rows" where
  "open_claims limit rows = take limit (sort_key updatedAt (filter is_open_claim rows))"

definition claim_stats :: "int \<Rightarrow> claim_rows \<Rightarrow> faucet_stats" where
  "claim_stats now rows =
     \<lparr>claimsTotal = length rows,
      claimsToday = length (filter (\<lambda>r. startOfUtcDay now \<le> createdAt r) rows),
      paidTotal = length (filter (\<lambda>r. claimState r \<in> {Paid, Issued}) rows),
      issuedTotal = length (filter (\<lambda>r. claimState r = Issued) rows)\<rparr>"

definition scrubbed :: "claim_record \<Rightarrow> claim_record" where
  "scrubbed r =
     r\<lparr>quoteId := None, claimInvoice := None, paymentHash := None, quotePubkey := None,
       clientHash := None, networkHash := None,
       claimState := (if claimState r \<in> {Dispatching, Pending} then Recoverable else claimState r)\<rparr>"

definition is_sensitive :: "claim_record \<Rightarrow> bool" where
  "is_sensitive r \<longleftrightarrow>
     quoteId r \<noteq> None \<or> claimInvoice r \<noteq> None \<or> paymentHash r \<noteq> None \<or> quotePubkey r \<noteq> None \<or>
     clientHash r \<noteq> None \<or> networkHash r \<noteq> None"

definition scrub :: "int \<Rightarrow> int \<Rightarrow> claim_rows \<Rightarrow> nat \<times> claim_rows" where
  "scrub now retentionSeconds rows =
     (let c = (\<lambda>r. updatedAt r \<le> now - retentionSeconds \<and> is_sensitive r)
      in (length (filter c rows), update_where c scrubbed rows))"

end
