(* ===== verification/Faucet_Upstream.thy ===== *)
theory Faucet_Upstream
  imports Faucet_Protocol "HOL-Library.Word"
begin

section \<open>Faucet: the mint and the Fiber node (faucet/src/upstream.ts)\<close>

text \<open>
  What the two clients send and how they read the replies. The network is outside: a reply is a
  value of \<open>http_reply\<close>, an unreachable or slow service is \<open>Unreachable\<close>, and a body that is not
  JSON is \<open>None\<close>. The packed script of an asset is decoded byte by byte.
\<close>

datatype http_reply = Unreachable | Reply nat "json option"

datatype quote_phase = Unpaid_quote | Paid_quote | Issued_quote

record mint_quote_view =
  mq_quoteId :: string
  mq_invoice :: string
  mq_amount :: int
  mq_unit :: string
  mq_pubkey :: "string option"
  mq_expiry :: int
  mq_phase :: quote_phase

text \<open>
  \<open>Nested_status\<close> is a status that is not a string but prints as one of the four names, such as an
  array of one string: the check by \<open>String(result.status)\<close> lets it pass, and it equals none of them.
\<close>

datatype payment_status = Created_payment | Inflight | Success | Failed_payment | Nested_status

record fiber_payment =
  fp_paymentHash :: string
  fp_status :: payment_status
  fp_fee :: nat

record parsed_fiber_invoice =
  pi_paymentHash :: string
  pi_currency :: string
  pi_amount :: nat
  pi_udtScript :: "udt_script option"

datatype upstream_error = Upstream faucet_error | Rpc_error string

subsection \<open>Reading values\<close>

definition upstream_record :: "json \<Rightarrow> faucet_error + json" where
  "upstream_record value = (if is_record value then Inr value else Inl (plain_error 502 ''upstream_response''))"

definition integerLike :: "json \<Rightarrow> faucet_error + int" where
  "integerLike value =
     (let parsed = (case value of
                      JStr s \<Rightarrow> (if is_digit_text s then JInt (number_of_digits s) else value)
                    | _ \<Rightarrow> value)
      in case safe_int_of parsed of
           None \<Rightarrow> Inl (plain_error 502 ''upstream_response'')
         | Some i \<Rightarrow> if i < 0 then Inl (plain_error 502 ''upstream_response'') else Inr i)"

definition hex_value :: "char \<Rightarrow> nat" where
  "hex_value c =
     (let n = of_char c :: nat in
      if 97 \<le> n then n - 87 else if 65 \<le> n then n - 55 else n - 48)"

definition hex_number :: "string \<Rightarrow> nat" where
  "hex_number s = foldl (\<lambda>v c. 16 * v + hex_value c) 0 s"

definition has_hex_prefix :: "string \<Rightarrow> bool" where
  "has_hex_prefix s \<longleftrightarrow> starts_with ''0x'' s \<or> starts_with ''0X'' s"

definition hexInteger :: "json \<Rightarrow> faucet_error + nat" where
  "hexInteger value =
     bindR (strR (plain_error 502 ''upstream_response'') value) (\<lambda>s.
       if has_hex_prefix s \<and> drop 2 s \<noteq> [] \<and> list_all is_hex (drop 2 s) then Inr (hex_number (drop 2 s))
       else Inl (plain_error 502 ''upstream_response''))"

subsection \<open>The packed script\<close>

type_synonym bytes = "8 word list"

fun hex_bytes :: "string \<Rightarrow> bytes" where
  "hex_bytes (a # b # rest) = word_of_nat (16 * hex_value a + hex_value b) # hex_bytes rest"
| "hex_bytes _ = []"

definition byte_hex :: "8 word \<Rightarrow> string" where
  "byte_hex w = [hex_digit (unat w div 16), hex_digit (unat w mod 16)]"

definition hex_text :: "bytes \<Rightarrow> string" where
  "hex_text bs = ''0x'' @ concat (map byte_hex bs)"

definition readUint32 :: "bytes \<Rightarrow> nat \<Rightarrow> nat option" where
  "readUint32 bytes offset =
     (if length bytes < offset + 4 then None
      else Some (unat (bytes ! offset) + 256 * unat (bytes ! (offset + 1)) +
                 65536 * unat (bytes ! (offset + 2)) + 16777216 * unat (bytes ! (offset + 3))))"

definition hash_type_of :: "8 word \<Rightarrow> hash_type option" where
  "hash_type_of w =
     (if w = 0 then Some Data else if w = 1 then Some Type else if w = 2 then Some Data1
      else if w = 4 then Some Data2 else None)"

definition decode_script :: "bytes \<Rightarrow> udt_script option" where
  "decode_script bytes =
     Option.bind (readUint32 bytes 0) (\<lambda>total.
     Option.bind (readUint32 bytes 4) (\<lambda>codeHashOffset.
     Option.bind (readUint32 bytes 8) (\<lambda>hashTypeOffset.
     Option.bind (readUint32 bytes 12) (\<lambda>argsOffset.
     if total \<noteq> length bytes \<or> codeHashOffset \<noteq> 16 \<or>
        int hashTypeOffset - int codeHashOffset \<noteq> 32 \<or> int argsOffset - int hashTypeOffset \<noteq> 1
     then None
     else
       Option.bind (readUint32 bytes argsOffset) (\<lambda>argsLength.
       if argsOffset + 4 + argsLength \<noteq> length bytes then None
       else
         Option.bind (hash_type_of (bytes ! hashTypeOffset)) (\<lambda>hashType.
         Some \<lparr>us_codeHash = hex_text (take (hashTypeOffset - codeHashOffset) (drop codeHashOffset bytes)),
               us_hashType = hashType,
               us_args = hex_text (drop (argsOffset + 4) bytes)\<rparr>))))))"

definition is_hex_pairs :: "string \<Rightarrow> bool" where
  "is_hex_pairs s \<longleftrightarrow> has_hex_prefix s \<and> drop 2 s \<noteq> [] \<and> even (length (drop 2 s)) \<and> list_all is_hex (drop 2 s)"

definition decodePackedScript :: "json \<Rightarrow> faucet_error + udt_script" where
  "decodePackedScript value =
     bindR (strR (plain_error 502 ''fiber_response'') value) (\<lambda>s.
       if \<not> is_hex_pairs s then Inl (plain_error 502 ''fiber_response'')
       else (case decode_script (hex_bytes (drop 2 s)) of
               None \<Rightarrow> Inl (plain_error 502 ''fiber_response'')
             | Some script \<Rightarrow> Inr script))"

definition udt_scripts :: "json list \<Rightarrow> json list" where
  "udt_scripts attrs =
     concat (map (\<lambda>a. if is_record a \<and> field a ''udt_script'' \<noteq> JUndef then [field a ''udt_script''] else []) attrs)"

definition invoiceUdtScript :: "json \<Rightarrow> faucet_error + udt_script option" where
  "invoiceUdtScript attrs =
     bindR (arrR (plain_error 502 ''fiber_response'') attrs) (\<lambda>attributes.
       case udt_scripts attributes of
         [] \<Rightarrow> Inr None
       | [script] \<Rightarrow> bindR (decodePackedScript script) (\<lambda>s. Inr (Some s))
       | _ \<Rightarrow> Inl (plain_error 502 ''fiber_response''))"

subsection \<open>The mint client\<close>

definition is_pubkey :: "string \<Rightarrow> bool" where
  "is_pubkey s \<longleftrightarrow>
     (starts_with ''02'' s \<or> starts_with ''03'' s) \<and> chars_between is_hex 64 64 (drop 2 s)"

definition responseJson :: "json option \<Rightarrow> faucet_error + json" where
  "responseJson body =
     (case body of None \<Rightarrow> Inl (plain_error 502 ''upstream_response'') | Some v \<Rightarrow> Inr v)"

definition optional_amount :: "json \<Rightarrow> faucet_error + int" where
  "optional_amount v = (if v = JUndef then Inr 0 else integerLike v)"

definition quote_phase_of :: "json \<Rightarrow> int \<Rightarrow> int \<Rightarrow> int \<Rightarrow> quote_phase" where
  "quote_phase_of stateField amount amountPaid amountIssued =
     (let st = (case str_of stateField of None \<Rightarrow> [] | Some s \<Rightarrow> to_upper s) in
      if st = ''ISSUED'' \<or> amount \<le> amountIssued then Issued_quote
      else if st = ''PAID'' \<or> amount \<le> amountPaid then Paid_quote
      else Unpaid_quote)"

definition read_mint_quote :: "string \<Rightarrow> json \<Rightarrow> faucet_error + mint_quote_view" where
  "read_mint_quote quoteId raw =
     bindR (integerLike (field raw ''amount'')) (\<lambda>amount.
     bindR (optional_amount (field raw ''amount_paid'')) (\<lambda>amountPaid.
     bindR (optional_amount (field raw ''amount_issued'')) (\<lambda>amountIssued.
     if field raw ''quote'' \<noteq> JStr quoteId \<or>
        \<not> str_such (\<lambda>s. 16 \<le> length s \<and> length s \<le> 8192) (field raw ''request'') \<or>
        \<not> str_such (\<lambda>_. True) (field raw ''unit'') \<or>
        (field raw ''pubkey'' \<noteq> JUndef \<and> \<not> str_such is_pubkey (field raw ''pubkey''))
     then Inl (plain_error 502 ''upstream_response'')
     else
       bindR (intR (plain_error 502 ''upstream_response'') (field raw ''expiry'')) (\<lambda>expiry.
       if expiry \<le> 0 then Inl (plain_error 502 ''upstream_response'')
       else
         bindR (strR (plain_error 502 ''upstream_response'') (field raw ''request'')) (\<lambda>request.
         bindR (strR (plain_error 502 ''upstream_response'') (field raw ''unit'')) (\<lambda>unit.
         Inr \<lparr>mq_quoteId = quoteId, mq_invoice = request, mq_amount = amount,
              mq_unit = to_lower unit,
              mq_pubkey = map_option to_lower (str_of (field raw ''pubkey'')),
              mq_expiry = expiry,
              mq_phase = quote_phase_of (field raw ''state'') amount amountPaid amountIssued\<rparr>))))))"

definition getQuote :: "string \<Rightarrow> http_reply \<Rightarrow> faucet_error + mint_quote_view" where
  "getQuote quoteId reply =
     (case reply of
        Unreachable \<Rightarrow> Inl (plain_error 502 ''mint_unavailable'')
      | Reply status body \<Rightarrow>
          if status = 404 then Inl (plain_error 404 ''quote_not_found'')
          else if status < 200 \<or> 299 < status then Inl (plain_error 502 ''mint_unavailable'')
          else bindR (responseJson body) (\<lambda>v. bindR (upstream_record v) (read_mint_quote quoteId)))"

subsection \<open>The Fiber node client\<close>

definition js_truthy :: "json \<Rightarrow> bool" where
  "js_truthy v \<longleftrightarrow> v \<notin> {JUndef, JNull, JBool False, JInt 0, JStr []}"

definition rpc_call :: "http_reply \<Rightarrow> upstream_error + json" where
  "rpc_call reply =
     (case reply of
        Unreachable \<Rightarrow> Inl (Upstream (plain_error 502 ''fiber_unavailable''))
      | Reply status body \<Rightarrow>
          if status < 200 \<or> 299 < status then Inl (Upstream (plain_error 502 ''fiber_unavailable''))
          else
            (case bindR (responseJson body) upstream_record of
               Inl e \<Rightarrow> Inl (Upstream e)
             | Inr envelope \<Rightarrow>
                 if js_truthy (field envelope ''error'')
                 then Inl (Rpc_error (case str_of (field (field envelope ''error'') ''message'') of
                        None \<Rightarrow> ''Unknown Fiber RPC error'' | Some m \<Rightarrow> m))
                 else if \<not> has_key envelope ''result''
                 then Inl (Upstream (plain_error 502 ''fiber_response''))
                 else Inr (field envelope ''result'')))"

definition liftU :: "faucet_error + 'a \<Rightarrow> upstream_error + 'a" where
  "liftU r = (case r of Inl e \<Rightarrow> Inl (Upstream e) | Inr x \<Rightarrow> Inr x)"

definition is_payment_hash :: "string \<Rightarrow> bool" where
  "is_payment_hash s \<longleftrightarrow> has_hex_prefix s \<and> chars_between is_hex 64 64 (drop 2 s)"

definition read_invoice :: "json \<Rightarrow> faucet_error + parsed_fiber_invoice" where
  "read_invoice v =
     bindR (upstream_record v) (\<lambda>result.
     bindR (upstream_record (field result ''invoice'')) (\<lambda>decoded.
     bindR (upstream_record (field decoded ''data'')) (\<lambda>data.
     if \<not> str_such is_payment_hash (field data ''payment_hash'') \<or>
        \<not> str_such (\<lambda>_. True) (field decoded ''currency'')
     then Inl (plain_error 502 ''fiber_response'')
     else
       bindR (strR (plain_error 502 ''fiber_response'') (field data ''payment_hash'')) (\<lambda>paymentHash.
       bindR (strR (plain_error 502 ''fiber_response'') (field decoded ''currency'')) (\<lambda>currency.
       bindR (hexInteger (field decoded ''amount'')) (\<lambda>amount.
       bindR (invoiceUdtScript (field data ''attrs'')) (\<lambda>script.
       Inr \<lparr>pi_paymentHash = to_lower paymentHash, pi_currency = currency, pi_amount = amount,
            pi_udtScript = script\<rparr>)))))))"

definition parseInvoice :: "http_reply \<Rightarrow> upstream_error + parsed_fiber_invoice" where
  "parseInvoice reply = bindR (rpc_call reply) (\<lambda>v. liftU (read_invoice v))"

text \<open>\<open>String(result.status)\<close>, as far as it can be one of the four names.\<close>

fun status_text :: "json \<Rightarrow> string option" where
  "status_text (JStr s) = Some s"
| "status_text (JArr [v]) = status_text v"
| "status_text _ = None"

definition status_of :: "json \<Rightarrow> payment_status" where
  "status_of v =
     (if v = JStr ''Created'' then Created_payment else if v = JStr ''Inflight'' then Inflight
      else if v = JStr ''Success'' then Success else if v = JStr ''Failed'' then Failed_payment
      else Nested_status)"

definition payment :: "int \<Rightarrow> json \<Rightarrow> faucet_error + fiber_payment" where
  "payment maxFeeBaseUnits v =
     bindR (upstream_record v) (\<lambda>result.
     if \<not> str_such is_payment_hash (field result ''payment_hash'') \<or>
        status_text (field result ''status'') \<notin>
          {Some ''Created'', Some ''Inflight'', Some ''Success'', Some ''Failed''}
     then Inl (plain_error 502 ''fiber_response'')
     else
       bindR (strR (plain_error 502 ''fiber_response'') (field result ''payment_hash'')) (\<lambda>paymentHash.
       bindR (hexInteger (field result ''fee'')) (\<lambda>fee.
       if maxFeeBaseUnits < int fee then Inl (plain_error 502 ''fee_exceeded'')
       else Inr \<lparr>fp_paymentHash = to_lower paymentHash, fp_status = status_of (field result ''status''),
                 fp_fee = fee\<rparr>)))"

definition contains_text :: "string \<Rightarrow> string \<Rightarrow> bool" where
  "contains_text p s \<longleftrightarrow> list_ex (\<lambda>i. starts_with p (drop i s)) [0..<Suc (length s)]"

definition getPayment :: "int \<Rightarrow> http_reply \<Rightarrow> upstream_error + fiber_payment option" where
  "getPayment maxFeeBaseUnits reply =
     (case bindR (rpc_call reply) (\<lambda>v. liftU (payment maxFeeBaseUnits v)) of
        Inl (Rpc_error m) \<Rightarrow>
          if contains_text ''payment session not found'' (to_lower m) then Inr None else Inl (Rpc_error m)
      | Inl (Upstream e) \<Rightarrow> Inl (Upstream e)
      | Inr p \<Rightarrow> Inr (Some p))"

text \<open>The parameters of \<open>send_payment\<close>: the fee limits go out in hexadecimal.\<close>

fun hex_digits :: "nat \<Rightarrow> string" where
  "hex_digits n = (if n < 16 then [hex_digit n] else hex_digits (n div 16) @ [hex_digit (n mod 16)])"

declare hex_digits.simps [simp del]

definition send_params :: "faucet_config \<Rightarrow> string \<Rightarrow> json" where
  "send_params cfg invoice =
     JObj [(''invoice'', JStr invoice),
           (''max_fee_amount'', JStr (''0x'' @ hex_digits (nat (fc_maxFeeBaseUnits cfg)))),
           (''max_fee_rate'', JStr (''0x'' @ hex_digits (nat (fc_maxFeeRate cfg)))),
           (''dry_run'', JBool False)]"

definition sendPayment :: "int \<Rightarrow> http_reply \<Rightarrow> upstream_error + fiber_payment" where
  "sendPayment maxFeeBaseUnits reply =
     bindR (rpc_call reply) (\<lambda>v. liftU (payment maxFeeBaseUnits v))"

end
