(* ===== verification/Faucet_Service.thy ===== *)
theory Faucet_Service
  imports Faucet_Store Faucet_Upstream
begin

section \<open>Faucet: the claim service (faucet/src/service.ts, index.ts)\<close>

text \<open>
  A claim is a task that runs between its \<open>await\<close>s without interruption. Each stretch is a function
  from the rows to the rows and an outcome: finished, or waiting for a reply with the local variables
  it needs (\<open>claim_pc\<close>). The service is the machine whose steps are new claims, replies to waiting
  tasks, the reconciliation pass that \<open>index.ts\<close> schedules and a crash of the process, interleaved
  in any order. Every stretch reads the clock as one instant \<open>now\<close>; messages are left out.
\<close>

subsection \<open>Results\<close>

datatype public_status = Paying | Paid_claim | Issued_claim | Failed_claim | Recoverable_claim

record claim_result =
  cl_status :: public_status
  cl_amount :: int
  cl_unit :: string
  cl_retryAfter :: "int option"

fun public_status_of :: "claim_state \<Rightarrow> public_status" where
  "public_status_of Dispatching = Paying"
| "public_status_of Pending = Paying"
| "public_status_of Paid = Paid_claim"
| "public_status_of Issued = Issued_claim"
| "public_status_of Failed = Failed_claim"
| "public_status_of Recoverable = Recoverable_claim"

definition claim_result_of :: "claim_record \<Rightarrow> int option \<Rightarrow> claim_result" where
  "claim_result_of record retry =
     \<lparr>cl_status = public_status_of (claimState record), cl_amount = claimAmount record,
      cl_unit = ''rusd'', cl_retryAfter = retry\<rparr>"

definition sameUdtScript :: "udt_script option \<Rightarrow> udt_script \<Rightarrow> bool" where
  "sameUdtScript actual expected \<longleftrightarrow>
     (case actual of
        None \<Rightarrow> False
      | Some s \<Rightarrow> us_codeHash s = us_codeHash expected \<and> us_hashType s = us_hashType expected \<and>
                   us_args s = us_args expected)"

record public_faucet_config =
  pc_enabled :: bool
  pc_amount :: int
  pc_unit :: string
  pc_network :: string
  pc_mint :: string
  pc_cooldownSeconds :: int
  pc_remainingToday :: int

definition publicConfig :: "faucet_config \<Rightarrow> int \<Rightarrow> claim_rows \<Rightarrow> public_faucet_config" where
  "publicConfig cfg now rows =
     (let stats = claim_stats now rows in
      \<lparr>pc_enabled = (fc_enabled cfg \<and> int (claimsToday stats) < fc_dailyClaimLimit cfg),
       pc_amount = fc_amount cfg, pc_unit = fc_unit cfg, pc_network = fc_network cfg,
       pc_mint = fc_mintUrl cfg, pc_cooldownSeconds = fc_clientCooldownSeconds cfg,
       pc_remainingToday = max 0 (fc_dailyClaimLimit cfg - int (claimsToday stats))\<rparr>)"

subsection \<open>Checks\<close>

definition validateQuote :: "faucet_config \<Rightarrow> mint_quote_view \<Rightarrow> string option \<Rightarrow> faucet_error + unit" where
  "validateQuote cfg quote expectedId =
     (if (expectedId \<noteq> None \<and> Some (mq_quoteId quote) \<noteq> expectedId) \<or>
         mq_amount quote \<noteq> fc_amount cfg \<or> mq_unit quote \<noteq> fc_unit cfg
      then Inl (plain_error 422 ''quote_mismatch'')
      else if \<not> starts_with ''fibt1'' (to_lower (mq_invoice quote))
      then Inl (plain_error 422 ''wrong_network'')
      else Inr ())"

definition assertOwner :: "claim_record \<Rightarrow> string \<Rightarrow> faucet_error + unit" where
  "assertOwner record client =
     guardR (blank (clientHash record) \<or> clientHash record = Some client) (plain_error 404 ''claim_not_found'')"

subsection \<open>The stretches of a task\<close>

datatype claim_pc =
    Await_quote string string string
  | Await_invoice string string string mint_quote_view
  | Await_stored_quote claim_record
  | Await_payment claim_record mint_quote_view
  | Await_send claim_record claim_record

datatype outcome = Finished "faucet_error + claim_result" | Waiting claim_pc

text \<open>\<open>result(this.store.transition(...), retry)\<close>.\<close>

definition settle ::
  "int \<Rightarrow> string \<Rightarrow> claim_state \<Rightarrow> string option \<Rightarrow> int option \<Rightarrow> claim_rows \<Rightarrow>
   (faucet_error + claim_result) \<times> claim_rows" where
  "settle now k st code retry rows =
     (let (res, rows') = transition now k st code rows
      in (bindR res (\<lambda>r. Inr (claim_result_of r retry)), rows'))"

definition finished :: "(faucet_error + claim_result) \<times> claim_rows \<Rightarrow> outcome \<times> claim_rows" where
  "finished x = (Finished (fst x), snd x)"

definition applyPayment ::
  "int \<Rightarrow> claim_record \<Rightarrow> fiber_payment \<Rightarrow> claim_rows \<Rightarrow> (faucet_error + claim_result) \<times> claim_rows" where
  "applyPayment now record p rows =
     (if fp_status p = Success then settle now (quoteHash record) Paid None (Some 2) rows
      else if fp_status p = Failed_payment
      then settle now (quoteHash record) Failed (Some ''fiber_failed'') (Some 2) rows
      else settle now (quoteHash record) Pending None (Some 5) rows)"

definition dispatch :: "int \<Rightarrow> claim_record \<Rightarrow> claim_rows \<Rightarrow> outcome \<times> claim_rows" where
  "dispatch now input rows =
     (if blank (claimInvoice input) \<or> blank (paymentHash input)
      then finished (settle now (quoteHash input) Recoverable (Some ''missing_dispatch_data'') (Some 30) rows)
      else (case markAttempt now (quoteHash input) rows of
              (Inl e, rows') \<Rightarrow> (Finished (Inl e), rows')
            | (Inr record, rows') \<Rightarrow> (Waiting (Await_send input record), rows')))"

text \<open>The reply to \<open>sendPayment\<close>; the \<open>catch\<close> also covers a failing transition in the \<open>try\<close>.\<close>

definition after_send ::
  "faucet_config \<Rightarrow> int \<Rightarrow> claim_record \<Rightarrow> claim_record \<Rightarrow> upstream_error + fiber_payment \<Rightarrow> claim_rows \<Rightarrow>
   (faucet_error + claim_result) \<times> claim_rows" where
  "after_send cfg now input record answer rows =
     (let tried = (case answer of
                     Inl e \<Rightarrow> (Inl internal_fault, rows)
                   | Inr p \<Rightarrow>
                       if Some (fp_paymentHash p) \<noteq> paymentHash input
                       then settle now (quoteHash input) Recoverable (Some ''payment_hash_mismatch'') (Some 30) rows
                       else applyPayment now record p rows)
      in case tried of
           (Inr r, rows') \<Rightarrow> (Inr r, rows')
         | (Inl e, rows') \<Rightarrow>
             settle now (quoteHash input) Recoverable (Some ''dispatch_unknown'')
               (Some (fc_recoveryDelaySeconds cfg)) rows')"

definition reconcile ::
  "faucet_config \<Rightarrow> int \<Rightarrow> claim_record \<Rightarrow> mint_quote_view \<Rightarrow> claim_rows \<Rightarrow> outcome \<times> claim_rows" where
  "reconcile cfg now record quote rows =
     (case validateQuote cfg quote (quoteId record) of
        Inl e \<Rightarrow> (Finished (Inl e), rows)
      | Inr _ \<Rightarrow>
          if (claimInvoice record \<noteq> None \<and> Some (mq_invoice quote) \<noteq> claimInvoice record) \<or>
             (quotePubkey record \<noteq> None \<and> mq_pubkey quote \<noteq> quotePubkey record) \<or>
             mq_expiry quote \<noteq> claimExpiry record
          then finished (settle now (quoteHash record) Recoverable (Some ''quote_changed'') (Some 30) rows)
          else if mq_phase quote = Issued_quote
          then finished (settle now (quoteHash record) Issued None None rows)
          else if mq_phase quote = Paid_quote
          then finished (settle now (quoteHash record) Paid None (Some 2) rows)
          else if claimState record = Failed
          then (Finished (Inr (claim_result_of record None)), rows)
          else if blank (paymentHash record)
          then finished (settle now (quoteHash record) Recoverable (Some ''missing_payment_hash'') (Some 10) rows)
          else (Waiting (Await_payment record quote), rows))"

definition attempted_recently :: "faucet_config \<Rightarrow> int \<Rightarrow> claim_record \<Rightarrow> bool" where
  "attempted_recently cfg now record \<longleftrightarrow>
     (case attemptedAt record of None \<Rightarrow> False | Some t \<Rightarrow> now - t < fc_recoveryDelaySeconds cfg)"

definition after_payment ::
  "faucet_config \<Rightarrow> int \<Rightarrow> claim_record \<Rightarrow> mint_quote_view \<Rightarrow> upstream_error + fiber_payment option \<Rightarrow>
   claim_rows \<Rightarrow> outcome \<times> claim_rows" where
  "after_payment cfg now record quote answer rows =
     (case answer of
        Inl e \<Rightarrow>
          finished (settle now (quoteHash record) Recoverable (Some ''payment_check_unknown'') (Some 10) rows)
      | Inr (Some p) \<Rightarrow>
          if Some (fp_paymentHash p) \<noteq> paymentHash record
          then finished (settle now (quoteHash record) Recoverable (Some ''payment_hash_mismatch'') (Some 30) rows)
          else finished (applyPayment now record p rows)
      | Inr None \<Rightarrow>
          if failureCode record = Some ''payment_hash_mismatch''
          then (Finished (Inr (claim_result_of record (Some 30))), rows)
          else if attempted_recently cfg now record
          then finished (settle now (quoteHash record) Recoverable (Some ''dispatch_unconfirmed'')
                 (Some (fc_recoveryDelaySeconds cfg)) rows)
          else if mq_expiry quote \<le> now
          then finished (settle now (quoteHash record) Failed (Some ''quote_expired'') None rows)
          else if 2 \<le> attemptCount record \<or> blank (claimInvoice record)
          then finished (settle now (quoteHash record) Recoverable (Some ''manual_review_required'') (Some 30) rows)
          else dispatch now record rows)"

definition reconcileStored :: "claim_record \<Rightarrow> claim_rows \<Rightarrow> outcome \<times> claim_rows" where
  "reconcileStored record rows =
     (if blank (quoteId record) then (Finished (Inr (claim_result_of record None)), rows)
      else (Waiting (Await_stored_quote record), rows))"

definition claimExclusive ::
  "faucet_config \<Rightarrow> string \<Rightarrow> string \<Rightarrow> string \<Rightarrow> string \<Rightarrow> claim_rows \<Rightarrow> outcome \<times> claim_rows" where
  "claimExclusive cfg k qid client network rows =
     (case find_claim k rows of
        Some existing \<Rightarrow>
          (case assertOwner existing client of
             Inl e \<Rightarrow> (Finished (Inl e), rows)
           | Inr _ \<Rightarrow>
               if claimState existing = Issued \<or> blank (quoteId existing)
               then (Finished (Inr (claim_result_of existing None)), rows)
               else reconcileStored existing rows)
      | None \<Rightarrow>
          if \<not> fc_enabled cfg then (Finished (Inl (plain_error 503 ''faucet_paused'')), rows)
          else (Waiting (Await_quote qid client network), rows))"

definition after_quote ::
  "faucet_config \<Rightarrow> int \<Rightarrow> string \<Rightarrow> string \<Rightarrow> string \<Rightarrow> faucet_error + mint_quote_view \<Rightarrow> outcome" where
  "after_quote cfg now qid client network answer =
     (case bindR answer (\<lambda>quote.
        bindR (validateQuote cfg quote None) (\<lambda>_.
        bindR (guardR (\<not> blank (mq_pubkey quote)) (plain_error 422 ''quote_unlocked'')) (\<lambda>_.
        bindR (guardR (mq_phase quote = Unpaid_quote) (plain_error 409 ''quote_already_funded'')) (\<lambda>_.
        bindR (guardR (now + 15 < mq_expiry quote) (plain_error 410 ''quote_expired'')) (\<lambda>_.
        Inr quote))))) of
        Inl e \<Rightarrow> Finished (Inl e)
      | Inr quote \<Rightarrow> Waiting (Await_invoice qid client network quote))"

definition invoice_matches :: "faucet_config \<Rightarrow> parsed_fiber_invoice \<Rightarrow> bool" where
  "invoice_matches cfg decoded \<longleftrightarrow>
     pi_currency decoded = fc_invoiceCurrency cfg \<and>
     int (pi_amount decoded) = fc_amount cfg * fc_unitScale cfg \<and>
     sameUdtScript (pi_udtScript decoded) (fc_udtScript cfg)"

definition reserve_input ::
  "faucet_config \<Rightarrow> string \<Rightarrow> string \<Rightarrow> string \<Rightarrow> string \<Rightarrow> mint_quote_view \<Rightarrow> string \<Rightarrow> reserve_claim" where
  "reserve_input cfg k qid client network quote payHash =
     \<lparr>rv_quoteHash = k, rv_quoteId = qid, rv_invoice = mq_invoice quote, rv_paymentHash = payHash,
      rv_quotePubkey = (case mq_pubkey quote of None \<Rightarrow> [] | Some p \<Rightarrow> p),
      rv_clientHash = client, rv_networkHash = network, rv_amount = mq_amount quote,
      rv_unit = mq_unit quote, rv_expiry = mq_expiry quote,
      rv_cooldownSeconds = fc_clientCooldownSeconds cfg,
      rv_networkDailyLimit = fc_networkDailyClaimLimit cfg, rv_dailyLimit = fc_dailyClaimLimit cfg\<rparr>"

fun error_of :: "upstream_error \<Rightarrow> faucet_error" where
  "error_of (Upstream e) = e"
| "error_of (Rpc_error _) = plain_error 502 ''fiber_rpc''"

definition after_invoice ::
  "faucet_config \<Rightarrow> int \<Rightarrow> string \<Rightarrow> string \<Rightarrow> string \<Rightarrow> string \<Rightarrow> mint_quote_view \<Rightarrow>
   upstream_error + parsed_fiber_invoice \<Rightarrow> claim_rows \<Rightarrow> outcome \<times> claim_rows" where
  "after_invoice cfg now k qid client network quote answer rows =
     (case answer of
        Inl e \<Rightarrow> (Finished (Inl (error_of e)), rows)
      | Inr decoded \<Rightarrow>
          if \<not> invoice_matches cfg decoded
          then (Finished (Inl (plain_error 422 ''invoice_mismatch'')), rows)
          else
            (case reserve now (reserve_input cfg k qid client network quote (pi_paymentHash decoded)) rows of
               (Inl e, rows') \<Rightarrow> (Finished (Inl e), rows')
             | (Inr (record, created), rows') \<Rightarrow>
                 (case assertOwner record client of
                    Inl e \<Rightarrow> (Finished (Inl e), rows')
                  | Inr _ \<Rightarrow> if created then dispatch now record rows'
                              else reconcile cfg now record quote rows')))"

subsection \<open>The service as a machine\<close>

text \<open>
  \<open>fs_tasks\<close> is the map \<open>inFlight\<close>: per quote the client's hash and where the task waits. \<open>fs_pass\<close>
  is the running reconciliation pass: the records it has still to look at and the quote whose task
  it awaits. The last three fields record, for the theorems only, every call of \<open>sendPayment\<close> (quote,
  invoice, time), every reply to \<open>parseInvoice\<close> and every created reservation (client, network, time).
\<close>

record faucet_service =
  fs_rows :: claim_rows
  fs_tasks :: "string \<Rightarrow> (string \<times> claim_pc) option"
  fs_pass :: "(claim_record list \<times> string option) option"
  fs_sent :: "(string \<times> string option \<times> int) list"
  fs_decoded :: "(string \<times> parsed_fiber_invoice) list"
  fs_reserved :: "(string \<times> string \<times> int) list"

definition faucet_start :: "claim_rows \<Rightarrow> faucet_service" where
  "faucet_start rows =
     \<lparr>fs_rows = rows, fs_tasks = (\<lambda>_. None), fs_pass = None, fs_sent = [], fs_decoded = [], fs_reserved = []\<rparr>"

datatype faucet_event =
    Claim int string string string
  | Answer int string http_reply
  | Pass_start int
  | Pass_next int
  | Crash int

text \<open>A finished task leaves the map, and a pass that awaited it goes on.\<close>

definition release_pass :: "string \<Rightarrow> (claim_record list \<times> string option) option \<Rightarrow>
    (claim_record list \<times> string option) option" where
  "release_pass k pass =
     map_option (\<lambda>(rest, awaiting). (rest, if awaiting = Some k then None else awaiting)) pass"

definition set_task :: "int \<Rightarrow> string \<Rightarrow> string \<Rightarrow> outcome \<times> claim_rows \<Rightarrow> faucet_service \<Rightarrow> faucet_service" where
  "set_task now k client r s =
     (case r of
        (Finished _, rows') \<Rightarrow>
          s\<lparr>fs_rows := rows', fs_tasks := (fs_tasks s)(k := None), fs_pass := release_pass k (fs_pass s)\<rparr>
      | (Waiting pc, rows') \<Rightarrow>
          s\<lparr>fs_rows := rows', fs_tasks := (fs_tasks s)(k \<mapsto> (client, pc)),
            fs_sent := (case pc of Await_send input record \<Rightarrow> [(k, claimInvoice input, now)] | _ \<Rightarrow> []) @ fs_sent s\<rparr>)"

definition log_invoice ::
  "mint_quote_view \<Rightarrow> upstream_error + parsed_fiber_invoice \<Rightarrow> faucet_service \<Rightarrow> faucet_service" where
  "log_invoice quote answer s =
     (case answer of Inl _ \<Rightarrow> s | Inr d \<Rightarrow> s\<lparr>fs_decoded := (mq_invoice quote, d) # fs_decoded s\<rparr>)"

definition log_reserved :: "int \<Rightarrow> string \<Rightarrow> string \<Rightarrow> claim_rows \<Rightarrow> faucet_service \<Rightarrow> faucet_service" where
  "log_reserved now client network before s =
     (if length before < length (fs_rows s)
      then s\<lparr>fs_reserved := (client, network, now) # fs_reserved s\<rparr> else s)"

definition resume_task ::
  "faucet_config \<Rightarrow> int \<Rightarrow> string \<Rightarrow> http_reply \<Rightarrow> string \<Rightarrow> claim_pc \<Rightarrow> faucet_service \<Rightarrow> faucet_service" where
  "resume_task cfg now k reply client pc s =
     (case pc of
        Await_quote qid c network \<Rightarrow>
          set_task now k client (after_quote cfg now qid c network (getQuote qid reply), fs_rows s) s
      | Await_invoice qid c network quote \<Rightarrow>
          log_reserved now c network (fs_rows s)
            (set_task now k client
               (after_invoice cfg now k qid c network quote (parseInvoice reply) (fs_rows s))
               (log_invoice quote (parseInvoice reply) s))
      | Await_stored_quote record \<Rightarrow>
          (case getQuote (case quoteId record of None \<Rightarrow> [] | Some q \<Rightarrow> q) reply of
             Inl e \<Rightarrow> set_task now k client (Finished (Inl e), fs_rows s) s
           | Inr quote \<Rightarrow> set_task now k client (reconcile cfg now record quote (fs_rows s)) s)
      | Await_payment record quote \<Rightarrow>
          set_task now k client
            (after_payment cfg now record quote (getPayment (fc_maxFeeBaseUnits cfg) reply) (fs_rows s)) s
      | Await_send input record \<Rightarrow>
          set_task now k client
            (finished (after_send cfg now input record (sendPayment (fc_maxFeeBaseUnits cfg) reply) (fs_rows s))) s)"

fun faucet_step ::
  "(string \<Rightarrow> string \<Rightarrow> string) \<Rightarrow> faucet_config \<Rightarrow> faucet_event \<Rightarrow> faucet_service \<Rightarrow> faucet_service" where
  "faucet_step M cfg (Claim now qid clientId networkId) s =
     (let k = identifierHash M (fc_identifierSecret cfg) ''quote'' qid;
          client = identifierHash M (fc_identifierSecret cfg) ''client'' clientId;
          network = identifierHash M (fc_identifierSecret cfg) ''network'' networkId
      in if fs_tasks s k \<noteq> None then s
         else set_task now k client (claimExclusive cfg k qid client network (fs_rows s)) s)"
| "faucet_step M cfg (Answer now k reply) s =
     (case fs_tasks s k of
        None \<Rightarrow> s
      | Some (client, pc) \<Rightarrow> resume_task cfg now k reply client pc s)"
| "faucet_step M cfg (Pass_start now) s =
     (if fs_pass s \<noteq> None then s else s\<lparr>fs_pass := Some (open_claims 100 (fs_rows s), None)\<rparr>)"
| "faucet_step M cfg (Pass_next now) s =
     (case fs_pass s of
        Some ([], None) \<Rightarrow>
          s\<lparr>fs_rows := snd (scrub now (fc_sensitiveRetentionSeconds cfg) (fs_rows s)), fs_pass := None\<rparr>
      | Some (record # rest, None) \<Rightarrow>
          if blank (quoteId record) \<or> fs_tasks s (quoteHash record) \<noteq> None
          then s\<lparr>fs_pass := Some (rest, None)\<rparr>
          else
            set_task now (quoteHash record)
              (case clientHash record of None \<Rightarrow> [] | Some c \<Rightarrow> c)
              (reconcileStored record (fs_rows s))
              (s\<lparr>fs_pass := Some (rest, Some (quoteHash record))\<rparr>)
      | _ \<Rightarrow> s)"
| "faucet_step M cfg (Crash now) s = s\<lparr>fs_tasks := (\<lambda>_. None), fs_pass := None\<rparr>"

end
