(* ===== verification/Faucet_Refine.thy ===== *)
theory Faucet_Refine
  imports Faucet_Service
begin

section \<open>Faucet: the service refines a machine of atomic moves\<close>

text \<open>
  \<open>service_move\<close> is the abstract specification of the service: the moves that may happen to the rows,
  the tasks and the recorded calls, one at a time. A payment is sent only with the attempt already
  counted in the row, from a record that was attempted at most once and not recently; a row is
  created only by a reservation within the limits. Every event of the service is a sequence of
  such moves at the event's time (\<open>faucet_step_refines\<close>); the invariants are proved move by move.
  With \<open>strict\<close>, a reconciliation pass takes up only records that agree with the current row.
\<close>

subsection \<open>Changes of one row\<close>

datatype change = Keep | Move claim_state "string option" | Attempt

fun apply_change :: "int \<Rightarrow> string \<Rightarrow> change \<Rightarrow> claim_rows \<Rightarrow> claim_rows" where
  "apply_change now k Keep rows = rows"
| "apply_change now k (Move st code) rows = update_claim k (moved now st code) rows"
| "apply_change now k Attempt rows = update_claim k (attempted now) rows"

fun pc_record :: "claim_pc \<Rightarrow> claim_record option" where
  "pc_record (Await_stored_quote r) = Some r"
| "pc_record (Await_payment r q) = Some r"
| "pc_record _ = None"

fun is_send :: "claim_pc \<Rightarrow> bool" where
  "is_send (Await_send i r) = True"
| "is_send _ = False"

text \<open>A record that a task for \<open>k\<close> works with: the current row, or what the task held already.\<close>

definition held :: "faucet_service \<Rightarrow> string \<Rightarrow> claim_record \<Rightarrow> bool" where
  "held s k r \<longleftrightarrow> quoteHash r = k \<and>
     (find_claim k (fs_rows s) = Some r \<or>
      (\<exists>client pc. fs_tasks s k = Some (client, pc) \<and> pc_record pc = Some r))"

definition may_send :: "faucet_config \<Rightarrow> int \<Rightarrow> claim_record \<Rightarrow> bool" where
  "may_send cfg now r \<longleftrightarrow>
     \<not> blank (claimInvoice r) \<and> \<not> blank (paymentHash r) \<and> attemptCount r < 2 \<and>
     \<not> attempted_recently cfg now r"

definition pass_records :: "faucet_service \<Rightarrow> claim_record list" where
  "pass_records s = (case fs_pass s of None \<Rightarrow> [] | Some (rest, _) \<Rightarrow> rest)"

inductive service_move :: "faucet_config \<Rightarrow> bool \<Rightarrow> int \<Rightarrow> faucet_service \<Rightarrow> faucet_service \<Rightarrow> bool"
  for cfg strict now where
  finish: "ch \<noteq> Attempt \<Longrightarrow>
    service_move cfg strict now s (s\<lparr>fs_rows := apply_change now k ch (fs_rows s),
      fs_tasks := (fs_tasks s)(k := None), fs_pass := release_pass k (fs_pass s)\<rparr>)"
| wait: "pc_record pc = None \<Longrightarrow> \<not> is_send pc \<Longrightarrow>
    service_move cfg strict now s (s\<lparr>fs_tasks := (fs_tasks s)(k \<mapsto> (client, pc))\<rparr>)"
| hold: "pc_record pc = Some r \<Longrightarrow> held s k r \<Longrightarrow>
    service_move cfg strict now s (s\<lparr>fs_tasks := (fs_tasks s)(k \<mapsto> (client, pc))\<rparr>)"
| send: "held s k r \<Longrightarrow> may_send cfg now r \<Longrightarrow> find_claim k (fs_rows s) \<noteq> None \<Longrightarrow> quoteHash r' = k \<Longrightarrow>
    service_move cfg strict now s (s\<lparr>fs_rows := apply_change now k Attempt (fs_rows s),
      fs_tasks := (fs_tasks s)(k \<mapsto> (client, Await_send r r')),
      fs_sent := (k, claimInvoice r, now) # fs_sent s\<rparr>)"
| reserve_row: "find_claim (rv_quoteHash input) (fs_rows s) = None \<Longrightarrow>
    reserve now input (fs_rows s) = (Inr (new_claim now input, True), fs_rows s @ [new_claim now input]) \<Longrightarrow>
    rv_cooldownSeconds input = fc_clientCooldownSeconds cfg \<Longrightarrow>
    rv_networkDailyLimit input = fc_networkDailyClaimLimit cfg \<Longrightarrow>
    rv_dailyLimit input = fc_dailyClaimLimit cfg \<Longrightarrow>
    (rv_invoice input, d) \<in> set (fs_decoded s) \<Longrightarrow> invoice_matches cfg d \<Longrightarrow>
    rv_paymentHash input = pi_paymentHash d \<Longrightarrow>
    service_move cfg strict now s (s\<lparr>fs_rows := fs_rows s @ [new_claim now input],
      fs_reserved := (rv_clientHash input, rv_networkHash input, now) # fs_reserved s\<rparr>)"
| decoded: "service_move cfg strict now s (s\<lparr>fs_decoded := x # fs_decoded s\<rparr>)"
| scrubbing: "service_move cfg strict now s
    (s\<lparr>fs_rows := snd (scrub now (fc_sensitiveRetentionSeconds cfg) (fs_rows s)), fs_pass := None\<rparr>)"
| pass_start: "service_move cfg strict now s (s\<lparr>fs_pass := Some (open_claims 100 (fs_rows s), None)\<rparr>)"
| pass_skip: "fs_pass s = Some (record # rest, None) \<Longrightarrow>
    service_move cfg strict now s (s\<lparr>fs_pass := Some (rest, None)\<rparr>)"
| pass_take: "fs_pass s = Some (record # rest, None) \<Longrightarrow>
    strict \<longrightarrow> find_claim (quoteHash record) (fs_rows s) = Some record \<Longrightarrow>
    fs_tasks s (quoteHash record) = None \<Longrightarrow>
    service_move cfg strict now s (s\<lparr>fs_pass := Some (rest, Some (quoteHash record)),
      fs_tasks := (fs_tasks s)(quoteHash record \<mapsto> (client, Await_stored_quote record))\<rparr>)"
| crash: "service_move cfg strict now s (s\<lparr>fs_tasks := (\<lambda>_. None), fs_pass := None\<rparr>)"

abbreviation service_moves :: "faucet_config \<Rightarrow> bool \<Rightarrow> int \<Rightarrow> faucet_service \<Rightarrow> faucet_service \<Rightarrow> bool" where
  "service_moves cfg strict now \<equiv> (service_move cfg strict now)\<^sup>*\<^sup>*"

subsection \<open>Every stretch is a move\<close>

lemma settle_rows: "snd (settle now k st code retry rows) = apply_change now k (Move st code) rows"
  by (simp add: settle_def transition_def Let_def)

lemma update_claim_absent: "find_claim k rows = None \<Longrightarrow> update_claim k u rows = rows"
  unfolding update_claim_def find_claim_def by (rule update_where_id) (auto simp: find_None_iff)

lemma settle_Inl: "fst (settle now k st code retry rows) = Inl e \<Longrightarrow> snd (settle now k st code retry rows) = rows"
proof -
  assume e: "fst (settle now k st code retry rows) = Inl e"
  have keep: "find_claim k (update_claim k (moved now st code) rows) =
      map_option (\<lambda>r. if quoteHash r = k then moved now st code r else r) (find_claim k rows)"
    unfolding find_claim_def update_claim_def by (rule find_update_where) (simp add: moved_def)
  have "find_claim k rows = None"
    using e by (auto simp: settle_def transition_def Let_def require_claim_def keep split: option.splits)
  then show ?thesis by (simp add: settle_rows update_claim_absent)
qed

text \<open>\<open>outcome_ok\<close>: what a stretch that starts from record \<open>r\<close> of quote \<open>k\<close> may do.\<close>

definition outcome_ok ::
  "faucet_config \<Rightarrow> int \<Rightarrow> string \<Rightarrow> claim_record \<Rightarrow> claim_rows \<Rightarrow> outcome \<times> claim_rows \<Rightarrow> bool" where
  "outcome_ok cfg now k r rows x \<longleftrightarrow>
     (case fst x of
        Finished _ \<Rightarrow> \<exists>ch. ch \<noteq> Attempt \<and> snd x = apply_change now k ch rows
      | Waiting pc \<Rightarrow>
          (pc_record pc = Some r \<and> snd x = rows) \<or>
          (\<exists>r'. pc = Await_send r r' \<and> quoteHash r' = k \<and> may_send cfg now r \<and> find_claim k rows \<noteq> None \<and>
             snd x = apply_change now k Attempt rows))"

lemma outcome_keep: "outcome_ok cfg now k r rows (Finished res, rows)"
  unfolding outcome_ok_def by (auto intro: exI[of _ Keep])

lemma outcome_finished: "outcome_ok cfg now k r rows (finished (settle now k st code retry rows))"
  by (auto simp: outcome_ok_def finished_def settle_rows intro: exI[of _ "Move st code"])

lemma applyPayment_settle:
  "\<exists>st code retry. applyPayment now r p rows = settle now (quoteHash r) st code retry rows"
  unfolding applyPayment_def by auto

lemma outcome_apply: "quoteHash r = k \<Longrightarrow> outcome_ok cfg now k r rows (finished (applyPayment now r p rows))"
  using applyPayment_settle[of now r p rows] outcome_finished by metis

lemma find_claim_key: "find_claim k rows = Some r \<Longrightarrow> r \<in> set rows \<and> quoteHash r = k"
  unfolding find_claim_def by (rule find_SomeD)

lemma markAttempt_cases:
  "markAttempt now k rows =
     (case find_claim k rows of
        None \<Rightarrow> (Inl internal_fault, rows)
      | Some r \<Rightarrow> (Inr (attempted now r), apply_change now k Attempt rows))"
proof -
  have keep: "find_claim k (update_claim k (attempted now) rows) =
      map_option (\<lambda>r. if quoteHash r = k then attempted now r else r) (find_claim k rows)"
    unfolding find_claim_def update_claim_def by (rule find_update_where) (simp add: attempted_def)
  have "quoteHash r = k" if "find_claim k rows = Some r" for r
    using find_SomeD[OF that[unfolded find_claim_def]] by simp
  then show ?thesis
    by (auto simp: markAttempt_def Let_def require_claim_def keep update_claim_absent split: option.splits)
qed

lemma dispatch_ok:
  assumes "quoteHash r = k" "attemptCount r < 2" "\<not> attempted_recently cfg now r"
  shows "outcome_ok cfg now k r rows (dispatch now r rows)"
proof (cases "blank (claimInvoice r) \<or> blank (paymentHash r)")
  case True
  then show ?thesis using assms(1) by (simp add: dispatch_def outcome_finished)
next
  case False
  then show ?thesis
    using assms by (cases "find_claim k rows")
      (auto simp: dispatch_def markAttempt_cases outcome_keep outcome_ok_def may_send_def attempted_def
        dest: find_claim_key)
qed

lemma reconcile_ok: "quoteHash r = k \<Longrightarrow> outcome_ok cfg now k r rows (reconcile cfg now r quote rows)"
  by (auto simp: reconcile_def outcome_keep outcome_finished outcome_ok_def[of _ _ _ _ _ "(Waiting _, _)"]
      split: sum.splits)

lemma after_payment_ok:
  "quoteHash r = k \<Longrightarrow> outcome_ok cfg now k r rows (after_payment cfg now r quote answer rows)"
  by (auto simp: after_payment_def outcome_keep outcome_finished outcome_apply
      intro: dispatch_ok split: sum.splits option.splits)

lemma after_send_rows:
  assumes "quoteHash input = k" "quoteHash r = k"
  shows "\<exists>ch. ch \<noteq> Attempt \<and> snd (after_send cfg now input r answer rows) = apply_change now k ch rows"
proof -
  have fin: "\<exists>ch. ch \<noteq> Attempt \<and>
      snd (case settle now k st code retry rows of
             (Inr x, rows') \<Rightarrow> (Inr x, rows')
           | (Inl e, rows') \<Rightarrow> settle now k Recoverable c2 r2 rows') = apply_change now k ch rows"
    for st code retry c2 r2
  proof (cases "fst (settle now k st code retry rows)")
    case (Inl e)
    from settle_Inl[OF this] Inl
    have "settle now k st code retry rows = (Inl e, rows)" by (simp add: prod_eq_iff)
    then show ?thesis
      using settle_rows[of now k Recoverable c2 r2 rows] by (intro exI[of _ "Move Recoverable c2"]) simp
  next
    case (Inr x)
    then have "settle now k st code retry rows = (Inr x, snd (settle now k st code retry rows))"
      by (simp add: prod_eq_iff)
    then show ?thesis
      using settle_rows[of now k st code retry rows]
      by (intro exI[of _ "Move st code"]) (auto split: prod.splits)
  qed
  have a: "\<And>p. \<exists>st code retry. applyPayment now r p rows = settle now k st code retry rows"
    using applyPayment_settle assms(2) by metis
  show ?thesis
  proof (cases answer)
    case (Inl e)
    then show ?thesis
      using assms(1) by (auto simp: after_send_def settle_rows
          intro!: exI[of _ "Move Recoverable (Some ''dispatch_unknown'')"])
  next
    case (Inr p)
    from a[of p] obtain st code retry where ap: "applyPayment now r p rows = settle now k st code retry rows"
      by blast
    show ?thesis
      unfolding after_send_def Inr assms(1) by (simp add: ap fin)
  qed
qed

lemma length_apply_change [simp]: "length (apply_change now k ch rows) = length rows"
  by (cases ch) (simp_all add: update_claim_def)

subsection \<open>Every event is a sequence of moves\<close>

text \<open>The records that tasks hold belong to their quotes.\<close>

fun pc_ok :: "string \<Rightarrow> claim_pc \<Rightarrow> bool" where
  "pc_ok k (Await_stored_quote r) = (quoteHash r = k)"
| "pc_ok k (Await_payment r q) = (quoteHash r = k)"
| "pc_ok k (Await_send i r) = (quoteHash i = k \<and> quoteHash r = k)"
| "pc_ok k _ = True"

definition tasks_ok :: "faucet_service \<Rightarrow> bool" where
  "tasks_ok s \<longleftrightarrow> (\<forall>k client pc. fs_tasks s k = Some (client, pc) \<longrightarrow> pc_ok k pc)"

lemma pc_ok_record: "pc_record pc = Some r \<Longrightarrow> pc_ok k pc \<longleftrightarrow> quoteHash r = k"
  by (cases pc) auto

lemma pc_ok_plain: "pc_record pc = None \<Longrightarrow> \<not> is_send pc \<Longrightarrow> pc_ok k pc"
  by (cases pc) auto

lemma move_tasks_ok: "service_move cfg strict now s s' \<Longrightarrow> tasks_ok s \<Longrightarrow> tasks_ok s'"
  by (induction rule: service_move.induct)
    (auto simp: tasks_ok_def held_def pc_ok_record pc_ok_plain)

lemma set_task_move:
  assumes "outcome_ok cfg now k r (fs_rows s) x" "held s k r"
  shows "service_move cfg strict now s (set_task now k client x s)"
proof (cases "fst x")
  case (Finished res)
  with assms(1) obtain ch where "ch \<noteq> Attempt" "snd x = apply_change now k ch (fs_rows s)"
    by (auto simp: outcome_ok_def)
  with Finished show ?thesis
    using service_move.finish[of ch cfg strict now s k] by (simp add: set_task_def case_prod_beta)
next
  case (Waiting pc)
  with assms(1) consider "pc_record pc = Some r" "snd x = fs_rows s"
    | r' where "pc = Await_send r r'" "quoteHash r' = k" "may_send cfg now r" "find_claim k (fs_rows s) \<noteq> None"
      "snd x = apply_change now k Attempt (fs_rows s)"
    by (auto simp: outcome_ok_def)
  then show ?thesis
  proof cases
    case 1
    then have "set_task now k client x s = s\<lparr>fs_tasks := (fs_tasks s)(k \<mapsto> (client, pc))\<rparr>"
      using Waiting by (cases pc) (simp_all add: set_task_def case_prod_beta)
    with service_move.hold[OF 1(1) assms(2)] show ?thesis by simp
  next
    case 2
    then have "set_task now k client x s = s\<lparr>fs_rows := apply_change now k Attempt (fs_rows s),
        fs_tasks := (fs_tasks s)(k \<mapsto> (client, Await_send r r')), fs_sent := (k, claimInvoice r, now) # fs_sent s\<rparr>"
      using Waiting by (simp add: set_task_def case_prod_beta)
    with service_move.send[OF assms(2) 2(3,4,2)] show ?thesis by simp
  qed
qed

lemma set_task_keep: "service_move cfg strict now s (set_task now k client (Finished res, fs_rows s) s)"
  using service_move.finish[of Keep cfg strict now s k] by (simp add: set_task_def)

lemma set_task_wait:
  "pc_record pc = None \<Longrightarrow> \<not> is_send pc \<Longrightarrow>
   service_move cfg strict now s (set_task now k client (Waiting pc, fs_rows s) s)"
  using service_move.wait[of pc cfg strict now s k client] by (cases pc) (simp_all add: set_task_def)

lemma reserve_Inr:
  assumes "reserve now input rows = (Inr (r, created), rows')"
  shows "(if created then find_claim (rv_quoteHash input) rows = None \<and> r = new_claim now input \<and> rows' = rows @ [r]
          else find_claim (rv_quoteHash input) rows = Some r \<and> rows' = rows)"
  using assms by (auto simp: reserve_def insert_claim_def split: option.splits if_splits)

lemma reserve_Inl: "reserve now input rows = (Inl e, rows') \<Longrightarrow> rows' = rows"
  by (auto simp: reserve_def split: option.splits if_splits)

lemma find_claim_append:
  "find_claim k (rows @ [r]) =
     (case find_claim k rows of Some x \<Rightarrow> Some x | None \<Rightarrow> if quoteHash r = k then Some r else None)"
  by (induction rows) (auto simp: find_claim_def)

lemma set_task_fields [simp]:
  "fs_rows (set_task now k client x s) = snd x"
  "fs_decoded (set_task now k client x s) = fs_decoded s"
  "fs_reserved (set_task now k client x s) = fs_reserved s"
  by (simp_all add: set_task_def case_prod_beta split: outcome.splits)

lemma log_invoice_fields [simp]:
  "fs_rows (log_invoice quote answer s) = fs_rows s" "fs_tasks (log_invoice quote answer s) = fs_tasks s"
  by (simp_all add: log_invoice_def split: sum.splits)

lemma log_invoice_moves: "service_moves cfg strict now s (log_invoice quote answer s)"
  by (auto simp: log_invoice_def intro: service_move.decoded split: sum.splits)

lemma log_reserved_same: "length (snd x) = length before \<Longrightarrow>
   log_reserved now c network before (set_task now' k client x s) = set_task now' k client x s"
  by (simp add: log_reserved_def)

lemma log_reserved_new:
  "length before < length (snd x) \<Longrightarrow>
   log_reserved now c network before (set_task now k client x s) =
     set_task now k client x (s\<lparr>fs_rows := rows2, fs_reserved := (c, network, now) # fs_reserved s\<rparr>)"
  by (simp add: log_reserved_def) (simp add: set_task_def case_prod_beta split: outcome.splits)

lemma outcome_length: "outcome_ok cfg now k r rows x \<Longrightarrow> length (snd x) = length rows"
  by (auto simp: outcome_ok_def update_claim_def split: outcome.splits)

lemma new_claim_fields [simp]:
  "quoteHash (new_claim now input) = rv_quoteHash input" "attemptCount (new_claim now input) = 0"
  "attemptedAt (new_claim now input) = None" "clientHash (new_claim now input) = Some (rv_clientHash input)"
  "createdAt (new_claim now input) = now" "updatedAt (new_claim now input) = now"
  by (simp_all add: new_claim_def)

lemma invoice_moves:
  "service_moves cfg strict now s
     (log_reserved now c network (fs_rows s)
       (set_task now k client (after_invoice cfg now k qid c network quote answer (fs_rows s))
         (log_invoice quote answer s)))"
proof -
  let ?s1 = "log_invoice quote answer s"
  let ?x = "after_invoice cfg now k qid c network quote answer (fs_rows s)"
  note start = log_invoice_moves[of cfg strict now s quote answer]
  have keep: ?thesis if "?x = (Finished res, fs_rows s)" for res
    using set_task_keep[of cfg strict now ?s1 k client res] start
    by (simp add: that log_reserved_same)
  have old: ?thesis if "outcome_ok cfg now k r (fs_rows s) ?x" "find_claim k (fs_rows s) = Some r" for r
    using set_task_move[of cfg now k r ?s1 ?x strict client] that find_claim_key[OF that(2)] start
    by (simp add: held_def log_reserved_same outcome_length[OF that(1)])
  show ?thesis
  proof (cases answer)
    case (Inl e)
    then show ?thesis using keep by (simp add: after_invoice_def)
  next
    case (Inr d)
    let ?input = "reserve_input cfg k qid c network quote (pi_paymentHash d)"
    have input: "rv_quoteHash ?input = k" "rv_clientHash ?input = c" "rv_networkHash ?input = network"
      "rv_cooldownSeconds ?input = fc_clientCooldownSeconds cfg"
      "rv_networkDailyLimit ?input = fc_networkDailyClaimLimit cfg" "rv_dailyLimit ?input = fc_dailyClaimLimit cfg"
      "rv_invoice ?input = mq_invoice quote" "rv_paymentHash ?input = pi_paymentHash d"
      by (simp_all add: reserve_input_def)
    show ?thesis
    proof (cases "invoice_matches cfg d")
      case False
      then show ?thesis using keep Inr by (simp add: after_invoice_def)
    next
      case True
      obtain res rows' where rv: "reserve now ?input (fs_rows s) = (res, rows')" by fastforce
      show ?thesis
      proof (cases res)
        case (Inl e)
        with reserve_Inl rv have "rows' = fs_rows s" by blast
        then show ?thesis using keep Inr True rv Inl by (simp add: after_invoice_def)
      next
        case (Inr rc)
        obtain r created where rc: "rc = (r, created)" by fastforce
        note ri = reserve_Inr[OF rv[unfolded Inr rc]]
        show ?thesis
        proof (cases created)
          case False
          with ri have f: "find_claim k (fs_rows s) = Some r" and rows': "rows' = fs_rows s"
            by (simp_all add: input)
          have x: "?x = (case assertOwner r c of Inl e \<Rightarrow> (Finished (Inl e), fs_rows s)
              | Inr _ \<Rightarrow> reconcile cfg now r quote (fs_rows s))"
            using \<open>answer = Inr d\<close> True False by (simp add: after_invoice_def rv Inr rc rows')
          show ?thesis
            using x keep old[OF _ f] reconcile_ok[of r k cfg now "fs_rows s" quote] find_claim_key[OF f]
            by (cases "assertOwner r c") auto
        next
          case True
          with ri have f: "find_claim k (fs_rows s) = None" and r: "r = new_claim now ?input"
            and rows': "rows' = fs_rows s @ [r]" by (simp_all add: input)
          let ?s2 = "?s1\<lparr>fs_rows := rows', fs_reserved := (c, network, now) # fs_reserved ?s1\<rparr>"
          have own: "assertOwner r c = Inr ()" by (simp add: assertOwner_def r input)
          have x: "?x = dispatch now r rows'"
            using \<open>answer = Inr d\<close> True \<open>invoice_matches cfg d\<close>
            by (simp add: after_invoice_def rv Inr rc own)
          have ok: "outcome_ok cfg now k r rows' ?x"
            unfolding x by (rule dispatch_ok) (simp_all add: r input attempted_recently_def)
          have d: "(mq_invoice quote, d) \<in> set (fs_decoded ?s1)"
            using \<open>answer = Inr d\<close> by (simp add: log_invoice_def)
          have "service_move cfg strict now ?s1 ?s2"
            using service_move.reserve_row[of ?input ?s1 now cfg d strict] rv f d True \<open>invoice_matches cfg d\<close>
            by (simp add: input Inr rc rows' r)
          moreover have k: "quoteHash r = k" unfolding r by (simp only: new_claim_fields input)
          have "held ?s2 k r" using f k by (simp add: held_def rows' find_claim_append)
          then have "service_move cfg strict now ?s2 (set_task now k client ?x ?s2)"
            by (intro set_task_move[of _ _ _ r]) (use ok in simp_all)
          moreover have "log_reserved now c network (fs_rows s) (set_task now k client ?x ?s1) =
              set_task now k client ?x ?s2"
            by (rule log_reserved_new) (simp add: outcome_length[OF ok] rows')
          ultimately show ?thesis using start by simp
        qed
      qed
    qed
  qed
qed

fun faucet_time :: "faucet_event \<Rightarrow> int" where
  "faucet_time (Claim now _ _ _) = now"
| "faucet_time (Answer now _ _) = now"
| "faucet_time (Pass_start now) = now"
| "faucet_time (Pass_next now) = now"
| "faucet_time (Crash now) = now"

text \<open>\<open>fresh_event\<close>: a pass takes up a record only while it agrees with the current row.\<close>

definition fresh_event :: "faucet_service \<Rightarrow> faucet_event \<Rightarrow> bool" where
  "fresh_event s e \<longleftrightarrow>
     (case e of
        Pass_next now \<Rightarrow>
          (case fs_pass s of
             Some (record # rest, None) \<Rightarrow>
               blank (quoteId record) \<or> fs_tasks s (quoteHash record) \<noteq> None \<or>
               find_claim (quoteHash record) (fs_rows s) = Some record
           | _ \<Rightarrow> True)
      | _ \<Rightarrow> True)"

lemma held_task: "fs_tasks s k = Some (client, pc) \<Longrightarrow> pc_record pc = Some r \<Longrightarrow> pc_ok k pc \<Longrightarrow> held s k r"
  by (auto simp: held_def pc_ok_record)

lemma resume_moves:
  assumes t: "fs_tasks s k = Some (client, pc)" and ok: "pc_ok k pc"
  shows "service_moves cfg strict now s (resume_task cfg now k reply client pc s)"
proof (cases pc)
  case (Await_quote qid c network)
  then show ?thesis
    using set_task_keep[of cfg strict now s k client] set_task_wait[of _ cfg strict now s k client]
    by (auto simp: resume_task_def after_quote_def split: sum.splits)
next
  case (Await_invoice qid c network quote)
  then show ?thesis using invoice_moves by (simp add: resume_task_def)
next
  case (Await_stored_quote x)
  with t ok have h: "held s k x" "quoteHash x = k" by (auto intro: held_task)
  show ?thesis
    using set_task_keep[of cfg strict now s k client] set_task_move[OF reconcile_ok[OF h(2)] h(1)]
    by (auto simp: resume_task_def Await_stored_quote split: sum.splits)
next
  case (Await_payment x quote)
  with t ok have h: "held s k x" "quoteHash x = k" by (auto intro: held_task)
  show ?thesis
    using set_task_move[OF after_payment_ok[OF h(2)] h(1)]
    by (auto simp: resume_task_def Await_payment)
next
  case (Await_send input x)
  with ok have k: "quoteHash input = k" "quoteHash x = k" by simp_all
  let ?x = "finished (after_send cfg now input x (sendPayment (fc_maxFeeBaseUnits cfg) reply) (fs_rows s))"
  obtain ch where "ch \<noteq> Attempt" "snd ?x = apply_change now k ch (fs_rows s)"
    using after_send_rows[OF k, of cfg now] by (auto simp: finished_def)
  then have "set_task now k client ?x s = s\<lparr>fs_rows := apply_change now k ch (fs_rows s),
      fs_tasks := (fs_tasks s)(k := None), fs_pass := release_pass k (fs_pass s)\<rparr>"
    by (simp add: set_task_def finished_def)
  with service_move.finish[OF \<open>ch \<noteq> Attempt\<close>, of cfg strict now s k] show ?thesis
    by (simp add: resume_task_def Await_send)
qed

lemma claim_moves:
  assumes "fs_tasks s k = None"
  shows "service_moves cfg strict now s (set_task now k client (claimExclusive cfg k qid client network (fs_rows s)) s)"
proof (cases "find_claim k (fs_rows s)")
  case None
  then show ?thesis
    using set_task_keep[of cfg strict now s k client] set_task_wait[of _ cfg strict now s k client]
    by (auto simp: claimExclusive_def)
next
  case (Some existing)
  then have h: "held s k existing" by (auto simp: held_def dest: find_claim_key)
  have "outcome_ok cfg now k existing (fs_rows s) (claimExclusive cfg k qid client network (fs_rows s))"
    by (auto simp: claimExclusive_def Some reconcileStored_def outcome_keep
        outcome_ok_def[of _ _ _ _ _ "(Waiting _, _)"] split: sum.splits)
  with h show ?thesis using set_task_move[of cfg now k existing s _ strict client] by blast
qed

theorem faucet_step_moves:
  assumes ok: "tasks_ok s" and fresh: "strict \<longrightarrow> fresh_event s e"
  shows "service_moves cfg strict (faucet_time e) s (faucet_step M cfg e s)"
proof (cases e)
  case (Claim now qid clientId networkId)
  then show ?thesis
    using claim_moves[of s "identifierHash M (fc_identifierSecret cfg) ''quote'' qid"]
    by (cases "fs_tasks s (identifierHash M (fc_identifierSecret cfg) ''quote'' qid)") (auto simp: Let_def)
next
  case (Answer now k reply)
  then show ?thesis
    using resume_moves ok by (auto simp: tasks_ok_def split: option.splits)
next
  case (Pass_start now)
  then show ?thesis using service_move.pass_start by auto
next
  case (Pass_next now)
  show ?thesis
  proof (cases "\<exists>x rest. fs_pass s = Some (x # rest, None)")
    case True
    then obtain x rest where p: "fs_pass s = Some (x # rest, None)" by blast
    show ?thesis
    proof (cases "blank (quoteId x) \<or> fs_tasks s (quoteHash x) \<noteq> None")
      case True
      then show ?thesis using service_move.pass_skip[OF p] by (auto simp: Pass_next p)
    next
      case False
      then have "strict \<longrightarrow> find_claim (quoteHash x) (fs_rows s) = Some x"
        using fresh by (auto simp: fresh_event_def Pass_next p)
      moreover from False have "fs_tasks s (quoteHash x) = None" by blast
      ultimately show ?thesis
        using service_move.pass_take[OF p] False
        by (simp add: Pass_next p reconcileStored_def set_task_def r_into_rtranclp)
    qed
  next
    case False
    then have "faucet_step M cfg e s = s \<or>
        faucet_step M cfg e s =
          s\<lparr>fs_rows := snd (scrub now (fc_sensitiveRetentionSeconds cfg) (fs_rows s)), fs_pass := None\<rparr>"
      by (auto simp: Pass_next split: option.splits list.splits)
    then show ?thesis
      using service_move.scrubbing[of cfg strict now s] by (auto simp: Pass_next)
  qed
next
  case (Crash now)
  then show ?thesis using service_move.crash by auto
qed

lemma moves_tasks_ok: "service_moves cfg strict now s s' \<Longrightarrow> tasks_ok s \<Longrightarrow> tasks_ok s'"
  by (induction rule: rtranclp_induct) (auto intro: move_tasks_ok)

lemma faucet_step_tasks_ok: "tasks_ok s \<Longrightarrow> tasks_ok (faucet_step M cfg e s)"
  using faucet_step_moves[of s False e cfg M] moves_tasks_ok by blast

lemma tasks_ok_start: "tasks_ok (faucet_start rows)"
  by (simp add: tasks_ok_def faucet_start_def)

fun fresh_run :: "(string \<Rightarrow> string \<Rightarrow> string) \<Rightarrow> faucet_config \<Rightarrow> faucet_event list \<Rightarrow> faucet_service \<Rightarrow> bool" where
  "fresh_run M cfg [] s = True"
| "fresh_run M cfg (e # es) s = (fresh_event s e \<and> fresh_run M cfg es (faucet_step M cfg e s))"

subsection \<open>Invariants of the moves are invariants of the service\<close>

text \<open>
  The contract that the proofs of the invariants use. In \<open>timed_invariant\<close> the invariant may mention
  the time of the event; \<open>clocked_invariant\<close> adds that time may pass, and gives runs along a clock that
  does not go back; \<open>move_invariant\<close> is for invariants that do not mention the time.
\<close>

locale timed_invariant =
  fixes cfg :: faucet_config and strict :: bool and ok :: "int \<Rightarrow> faucet_service \<Rightarrow> bool"
  assumes move_ok: "service_move cfg strict now s s' \<Longrightarrow> tasks_ok s \<Longrightarrow> ok now s \<Longrightarrow> ok now s'"
begin

lemma moves_ok: "service_moves cfg strict now s s' \<Longrightarrow> tasks_ok s \<Longrightarrow> ok now s \<Longrightarrow> ok now s'"
  by (induction rule: rtranclp_induct) (auto intro: move_ok moves_tasks_ok)

lemma step_ok:
  "tasks_ok s \<Longrightarrow> ok (faucet_time e) s \<Longrightarrow> strict \<longrightarrow> fresh_event s e \<Longrightarrow>
   ok (faucet_time e) (faucet_step M cfg e s)"
  using faucet_step_moves[of s strict e cfg M] moves_ok by blast

end

locale clocked_invariant = timed_invariant +
  assumes later: "ok cur s \<Longrightarrow> cur \<le> now \<Longrightarrow> ok now s"
begin

lemma run_clocked:
  assumes "tasks_ok s" "ok cur s" "sorted (map faucet_time es)" "\<forall>e \<in> set es. cur \<le> faucet_time e"
    and "strict \<longrightarrow> fresh_run M cfg es s"
  shows "\<exists>cur'. ok cur' (run_machine (faucet_step M cfg) es s)"
  using assms
proof (induction es arbitrary: s cur)
  case (Cons e es)
  have "ok (faucet_time e) s" using later Cons.prems by simp
  then have "ok (faucet_time e) (faucet_step M cfg e s)"
    using step_ok Cons.prems by simp
  then show ?case
    using Cons.IH[OF faucet_step_tasks_ok[OF Cons.prems(1)]] Cons.prems by simp
qed auto

end

locale move_invariant =
  fixes cfg :: faucet_config and strict :: bool and ok :: "faucet_service \<Rightarrow> bool"
  assumes plain_move_ok: "service_move cfg strict now s s' \<Longrightarrow> tasks_ok s \<Longrightarrow> ok s \<Longrightarrow> ok s'"

sublocale move_invariant \<subseteq> timed_invariant cfg strict "\<lambda>_. ok"
  by unfold_locales (rule plain_move_ok)

context move_invariant
begin

lemma run_ok:
  assumes "tasks_ok s" "ok s" "strict \<longrightarrow> fresh_run M cfg es s"
  shows "ok (run_machine (faucet_step M cfg) es s)"
  using assms
proof (induction es arbitrary: s)
  case (Cons e es)
  have "ok (faucet_step M cfg e s)" using step_ok[OF Cons.prems(1,2)] Cons.prems(3) by simp
  then show ?case using Cons.IH[OF faucet_step_tasks_ok[OF Cons.prems(1)]] Cons.prems(3) by simp
qed simp

end

end
