(* ===== verification/Faucet_Correct.thy ===== *)
theory Faucet_Correct
  imports Faucet_Refine
begin

section \<open>Faucet: the invariants of the service\<close>

text \<open>
  Four invariants over the atomic moves: the daily budget of claims, the evidence behind every
  payment, the attempts counted before every payment, and the alignment of the rows with the
  recorded reservations, from which the client's cool-down and the network's daily cap follow.
\<close>

declare apply_change.simps [simp del]

subsection \<open>What the changes of rows keep\<close>

lemma map_apply_change:
  assumes "\<And>r. g (attempted now r) = g r" "\<And>st code r. g (moved now st code r) = g r"
  shows "map g (apply_change now k ch rows) = map g rows"
  using assms by (cases ch) (auto simp: apply_change.simps update_claim_def intro: map_update_where)

lemma scrub_rows: "snd (scrub now ret rows) =
    map (\<lambda>r. if updatedAt r \<le> now - ret \<and> is_sensitive r then scrubbed r else r) rows"
  by (simp add: scrub_def update_where_def Let_def)

lemma map_createdAt [simp]:
  "map createdAt (apply_change now k ch rows) = map createdAt rows"
  "map createdAt (snd (scrub now ret rows)) = map createdAt rows"
  by (rule map_apply_change) (auto simp: attempted_def moved_def scrub_rows scrubbed_def)

lemma find_apply_change:
  "find_claim k' (apply_change now k ch rows) =
     map_option (\<lambda>r. if k' = k
       then (case ch of Keep \<Rightarrow> r | Move st code \<Rightarrow> moved now st code r | Attempt \<Rightarrow> attempted now r) else r)
       (find_claim k' rows)"
proof -
  have upd: "find_claim k' (update_claim k u rows) =
      map_option (\<lambda>r. if quoteHash r = k then u r else r) (find_claim k' rows)"
    if "\<And>r. quoteHash (u r) = quoteHash r" for u
    unfolding find_claim_def update_claim_def by (rule find_update_where) (simp add: that)
  have "quoteHash r = k'" if "find_claim k' rows = Some r" for r
    using find_claim_key[OF that] by simp
  then show ?thesis
    by (cases "find_claim k' rows"; cases ch) (auto simp: apply_change.simps upd moved_def attempted_def)
qed

lemma find_scrub:
  "find_claim k (snd (scrub now ret rows)) =
     map_option (\<lambda>r. if updatedAt r \<le> now - ret \<and> is_sensitive r then scrubbed r else r) (find_claim k rows)"
  unfolding scrub_def Let_def snd_conv find_claim_def
  by (rule find_update_where) (simp add: scrubbed_def)

text \<open>A successful reservation has passed the three limits.\<close>

lemma reserve_True:
  assumes "reserve now input rows = (Inr (r, True), rows')"
  shows "recent_claim (rv_clientHash input) (now - rv_cooldownSeconds input) rows = None \<and>
    int (network_count (rv_networkHash input) (startOfUtcDay now) rows) < rv_networkDailyLimit input \<and>
    int (day_count (startOfUtcDay now) rows) < rv_dailyLimit input \<and> 0 < rv_amount input"
  using assms by (auto simp: reserve_def insert_claim_def new_claim_def split: option.splits if_splits)

subsection \<open>The daily budget\<close>

definition claims_of_day :: "int \<Rightarrow> claim_rows \<Rightarrow> nat" where
  "claims_of_day d rows = length (filter (\<lambda>t. t div 86400 = d) (map createdAt rows))"

lemma claims_of_day_kept [simp]:
  "claims_of_day d (apply_change now k ch rows) = claims_of_day d rows"
  "claims_of_day d (snd (scrub now ret rows)) = claims_of_day d rows"
  unfolding claims_of_day_def by (simp_all only: map_createdAt)

definition budget_ok :: "faucet_config \<Rightarrow> faucet_service \<Rightarrow> bool" where
  "budget_ok cfg s \<longleftrightarrow> (\<forall>d. int (claims_of_day d (fs_rows s)) \<le> max 0 (fc_dailyClaimLimit cfg))"

lemma day_start: "t div 86400 = now div 86400 \<Longrightarrow> startOfUtcDay now \<le> t" for t :: int
  using startOfUtcDay_le[of t] by (simp add: startOfUtcDay_def)

lemma claims_today: "claims_of_day (now div 86400) rows \<le> day_count (startOfUtcDay now) rows"
  unfolding claims_of_day_def day_count_def
  by (induction rows) (auto simp: day_start intro: le_SucI)

lemma budget_reserve:
  assumes "int (day_count (startOfUtcDay now) rows) < limit" "createdAt r = now"
    and "\<And>d. int (claims_of_day d rows) \<le> max 0 limit"
  shows "int (claims_of_day d (rows @ [r])) \<le> max 0 limit"
  using assms(3)[of d] claims_today[of now rows] assms(1,2)
  by (cases "d = now div 86400") (auto simp: claims_of_day_def)

interpretation budget: move_invariant cfg False "budget_ok cfg" for cfg
proof unfold_locales
  fix now s s'
  assume "service_move cfg False now s s'" "budget_ok cfg s"
  then show "budget_ok cfg s'"
    by (induction rule: service_move.induct)
      (auto simp: budget_ok_def intro!: budget_reserve dest: reserve_True)
qed

subsection \<open>The evidence behind a payment\<close>

definition evidence :: "faucet_config \<Rightarrow> faucet_service \<Rightarrow> string \<Rightarrow> string option \<Rightarrow> bool" where
  "evidence cfg s i payHash \<longleftrightarrow>
     (\<exists>d. (i, d) \<in> set (fs_decoded s) \<and> invoice_matches cfg d \<and> payHash = Some (pi_paymentHash d))"

definition backed :: "faucet_config \<Rightarrow> faucet_service \<Rightarrow> claim_record \<Rightarrow> bool" where
  "backed cfg s r \<longleftrightarrow> (\<forall>inv. claimInvoice r = Some inv \<longrightarrow> evidence cfg s inv (paymentHash r))"

definition evidence_ok :: "faucet_config \<Rightarrow> faucet_service \<Rightarrow> bool" where
  "evidence_ok cfg s \<longleftrightarrow>
     (\<forall>r \<in> set (fs_rows s). backed cfg s r) \<and>
     (\<forall>k client pc r. fs_tasks s k = Some (client, pc) \<longrightarrow> pc_record pc = Some r \<longrightarrow> backed cfg s r) \<and>
     (\<forall>r \<in> set (pass_records s). backed cfg s r) \<and>
     (\<forall>(k, inv, t) \<in> set (fs_sent s). \<exists>i payHash. inv = Some i \<and> evidence cfg s i payHash)"

lemma backed_cong:
  "claimInvoice r' = claimInvoice r \<Longrightarrow> paymentHash r' = paymentHash r \<Longrightarrow> fs_decoded s' = fs_decoded s \<Longrightarrow>
   backed cfg s' r' = backed cfg s r"
  by (simp add: backed_def evidence_def)

lemma backed_mono: "set (fs_decoded s) \<subseteq> set (fs_decoded s') \<Longrightarrow> backed cfg s r \<Longrightarrow> backed cfg s' r"
  unfolding backed_def evidence_def by blast

lemma evidence_mono:
  "set (fs_decoded s) \<subseteq> set (fs_decoded s') \<Longrightarrow> evidence cfg s i p \<Longrightarrow> evidence cfg s' i p"
  by (auto simp: evidence_def)

lemma backed_changed:
  assumes "r \<in> set (apply_change now k ch rows)" "\<forall>r \<in> set rows. backed cfg s r"
  shows "backed cfg s r"
proof -
  from assms(1) obtain x where "x \<in> set rows" "claimInvoice r = claimInvoice x" "paymentHash r = paymentHash x"
    by (cases ch) (auto simp: apply_change.simps update_claim_def set_update_where moved_def attempted_def split: if_splits)
  then show ?thesis using assms(2) backed_cong[of r x s s cfg] by auto
qed

lemma backed_scrubbed:
  assumes "r \<in> set (snd (scrub now ret rows))" "\<forall>r \<in> set rows. backed cfg s r"
  shows "backed cfg s r"
  using assms by (auto simp: scrub_rows scrubbed_def backed_def split: if_splits)

lemma held_backed: "held s k r \<Longrightarrow> evidence_ok cfg s \<Longrightarrow> backed cfg s r"
  by (auto simp: held_def evidence_ok_def dest: find_claim_key)

lemma release_pass_records: "pass_records (s\<lparr>fs_rows := rows, fs_tasks := t, fs_pass := release_pass k (fs_pass s)\<rparr>) = pass_records s"
  by (cases "fs_pass s") (auto simp: pass_records_def release_pass_def)

lemma open_claims_subset: "set (open_claims n rows) \<subseteq> set rows"
  by (auto simp: open_claims_def dest: in_set_takeD)

lemma sent_evidence:
  assumes "held s k r" "may_send cfg now r" "evidence_ok cfg s"
  shows "\<exists>i payHash. claimInvoice r = Some i \<and> evidence cfg s i payHash"
  using held_backed[OF assms(1,3)] assms(2) by (auto simp: backed_def may_send_def blank_def)

text \<open>The parts of the invariant, each over the fields it reads.\<close>

lemma evidence_okI:
  assumes "\<And>r. r \<in> set (fs_rows s') \<Longrightarrow> backed cfg s' r"
    and "\<And>k client pc r. fs_tasks s' k = Some (client, pc) \<Longrightarrow> pc_record pc = Some r \<Longrightarrow> backed cfg s' r"
    and "\<And>r. r \<in> set (pass_records s') \<Longrightarrow> backed cfg s' r"
    and "\<And>k i t. (k, i, t) \<in> set (fs_sent s') \<Longrightarrow> \<exists>x payHash. i = Some x \<and> evidence cfg s' x payHash"
  shows "evidence_ok cfg s'"
  using assms unfolding evidence_ok_def by fast

lemma evidence_okD:
  assumes "evidence_ok cfg s"
  shows "r \<in> set (fs_rows s) \<Longrightarrow> backed cfg s r"
    and "fs_tasks s k = Some (client, pc) \<Longrightarrow> pc_record pc = Some r \<Longrightarrow> backed cfg s r"
    and "r \<in> set (pass_records s) \<Longrightarrow> backed cfg s r"
    and "(k, i, t) \<in> set (fs_sent s) \<Longrightarrow> \<exists>x payHash. i = Some x \<and> evidence cfg s x payHash"
  using assms unfolding evidence_ok_def by fast+

lemma evidence_keep:
  assumes "fs_decoded s' = fs_decoded s"
    and "\<And>r. r \<in> set (fs_rows s') \<Longrightarrow> backed cfg s r"
    and "\<And>k client pc r. fs_tasks s' k = Some (client, pc) \<Longrightarrow> pc_record pc = Some r \<Longrightarrow> backed cfg s r"
    and "\<And>r. r \<in> set (pass_records s') \<Longrightarrow> backed cfg s r"
    and "\<And>k i t. (k, i, t) \<in> set (fs_sent s') \<Longrightarrow> \<exists>x payHash. i = Some x \<and> evidence cfg s x payHash"
  shows "evidence_ok cfg s'"
proof -
  have "backed cfg s' r = backed cfg s r" "evidence cfg s' i p = evidence cfg s i p" for r i p
    using assms(1) by (simp_all add: backed_def evidence_def)
  with assms show ?thesis by (intro evidence_okI) simp_all
qed

lemma move_evidence:
  assumes "service_move cfg strict now s s'" "evidence_ok cfg s"
  shows "evidence_ok cfg s'"
proof -
  note D = evidence_okD[OF assms(2)]
  have rows: "backed cfg s r" if "r \<in> set (apply_change now k ch (fs_rows s))" for r k ch
    by (rule backed_changed[OF that]) (simp add: D(1))
  have scr: "backed cfg s r" if "r \<in> set (snd (scrub now ret (fs_rows s)))" for r ret
    by (rule backed_scrubbed[OF that]) (simp add: D(1))
  have rest: "backed cfg s r" if "fs_pass s = Some (x # rest, w)" "r = x \<or> r \<in> set rest" for r x rest w
    using D(3)[of r] that by (auto simp: pass_records_def)
  show ?thesis
    using assms(1)
  proof cases
    case (finish ch k)
    have p: "pass_records s' = pass_records s"
      unfolding finish(1) by (cases "fs_pass s") (auto simp: pass_records_def release_pass_def)
    show ?thesis
      by (rule evidence_keep[of s' s]) (use rows D p in \<open>auto simp: finish(1) split: if_splits\<close>)
  next
    case (wait pc k client)
    have p: "pass_records s' = pass_records s" by (simp add: wait(1) pass_records_def)
    show ?thesis
      by (rule evidence_keep[of s' s]) (use wait D p in \<open>auto split: if_splits\<close>)
  next
    case (hold pc r k client)
    have p: "pass_records s' = pass_records s" by (simp add: hold(1) pass_records_def)
    show ?thesis
      by (rule evidence_keep[of s' s])
        (use hold held_backed[OF hold(3) assms(2)] D p in \<open>auto split: if_splits\<close>)
  next
    case (send k r r' client)
    have p: "pass_records s' = pass_records s" by (simp add: send(1) pass_records_def)
    show ?thesis
      by (rule evidence_keep[of s' s])
        (use sent_evidence[OF send(2,3) assms(2)] rows D p in \<open>auto simp: send(1) split: if_splits\<close>)
  next
    case (reserve_row input d)
    have p: "pass_records s' = pass_records s" by (simp add: reserve_row(1) pass_records_def)
    have "backed cfg s (new_claim now input)"
      using reserve_row by (auto simp: backed_def evidence_def new_claim_def)
    then show ?thesis
      by (intro evidence_keep[of s' s]) (use D p in \<open>auto simp: reserve_row(1)\<close>)
  next
    case (decoded x)
    have mono: "set (fs_decoded s) \<subseteq> set (fs_decoded s')" by (auto simp: decoded)
    have p: "pass_records s' = pass_records s" by (simp add: decoded pass_records_def)
    show ?thesis
    proof (rule evidence_okI)
      show "\<exists>x payHash. i = Some x \<and> evidence cfg s' x payHash" if "(k, i, t) \<in> set (fs_sent s')" for k i t
      proof -
        from that have "(k, i, t) \<in> set (fs_sent s)" by (simp add: decoded)
        from D(4)[OF this] show ?thesis using evidence_mono[OF mono] by blast
      qed
    qed (use D backed_mono[OF mono] p in \<open>auto simp: decoded\<close>)
  next
    case scrubbing
    show ?thesis
      by (rule evidence_keep[of s' s]) (use scr D in \<open>auto simp: scrubbing pass_records_def\<close>)
  next
    case pass_start
    show ?thesis
      by (rule evidence_keep[of s' s])
        (use D open_claims_subset[of 100 "fs_rows s"] in \<open>auto simp: pass_start pass_records_def\<close>)
  next
    case (pass_skip x rest)
    show ?thesis
      by (rule evidence_keep[of s' s]) (use rest[OF pass_skip(2)] D in \<open>auto simp: pass_skip(1) pass_records_def\<close>)
  next
    case (pass_take x rest client)
    show ?thesis
      by (rule evidence_keep[of s' s])
        (use rest[OF pass_take(2)] D in \<open>auto simp: pass_take(1) pass_records_def split: if_splits\<close>)
  next
    case crash
    show ?thesis
      by (rule evidence_keep[of s' s]) (use D in \<open>auto simp: crash pass_records_def\<close>)
  qed
qed

interpretation evidences: move_invariant cfg False "evidence_ok cfg" for cfg
  by unfold_locales (rule move_evidence)

subsection \<open>Attempts are counted before they are made\<close>

text \<open>The times of the calls of \<open>sendPayment\<close> for a quote, newest first.\<close>

definition sends :: "faucet_service \<Rightarrow> string \<Rightarrow> int list" where
  "sends s k = map (\<lambda>(_, _, t). t) (filter (\<lambda>(q, _, _). q = k) (fs_sent s))"

definition attempts_of :: "faucet_service \<Rightarrow> string \<Rightarrow> nat" where
  "attempts_of s k = (case find_claim k (fs_rows s) of None \<Rightarrow> 0 | Some r \<Rightarrow> attemptCount r)"

definition counted :: "faucet_service \<Rightarrow> bool" where
  "counted s \<longleftrightarrow> (\<forall>k. length (sends s k) \<le> attempts_of s k)"

lemma sends_simps [simp]:
  "sends (s\<lparr>fs_rows := a\<rparr>) k = sends s k" "sends (s\<lparr>fs_tasks := b\<rparr>) k = sends s k"
  "sends (s\<lparr>fs_pass := c\<rparr>) k = sends s k" "sends (s\<lparr>fs_decoded := d\<rparr>) k = sends s k"
  "sends (s\<lparr>fs_reserved := e\<rparr>) k = sends s k"
  by (simp_all add: sends_def)

lemma sends_Cons:
  "fs_sent s' = (q, i, t) # fs_sent s \<Longrightarrow> sends s' k = (if k = q then t # sends s k else sends s k)"
  by (auto simp: sends_def)

lemma attempts_change:
  "(case find_claim k' (apply_change now k ch rows) of None \<Rightarrow> 0 | Some r \<Rightarrow> attemptCount r) =
     (case find_claim k' rows of None \<Rightarrow> 0
      | Some r \<Rightarrow> if k' = k \<and> ch = Attempt then Suc (attemptCount r) else attemptCount r)"
  by (cases ch) (auto simp: find_apply_change moved_def attempted_def split: option.splits)

lemma attempts_scrub:
  "(case find_claim k (snd (scrub now ret rows)) of None \<Rightarrow> 0 | Some r \<Rightarrow> attemptCount r) =
     (case find_claim k rows of None \<Rightarrow> 0 | Some r \<Rightarrow> attemptCount r)"
  by (auto simp: find_scrub scrubbed_def split: option.splits)

lemma attempts_append: "attemptCount r = 0 \<Longrightarrow>
  (case find_claim k (rows @ [r]) of None \<Rightarrow> 0 | Some r \<Rightarrow> attemptCount r) =
     (case find_claim k rows of None \<Rightarrow> 0 | Some r \<Rightarrow> attemptCount r)"
  by (auto simp: find_claim_append split: option.splits)

lemma move_counted:
  assumes "service_move cfg strict now s s'" "counted s"
  shows "counted s'"
proof -
  from assms(2) have c: "length (sends s k) \<le> (case find_claim k (fs_rows s) of None \<Rightarrow> 0 | Some r \<Rightarrow> attemptCount r)" for k
    by (simp add: counted_def attempts_of_def)
  have up: "(case find_claim k (fs_rows s) of None \<Rightarrow> 0
      | Some r \<Rightarrow> if k = k' \<and> ch = Attempt then Suc (attemptCount r) else attemptCount r)
      \<ge> length (sends s k)" for k k' ch
    using c[of k] by (auto split: option.splits)
  show ?thesis
    using assms(1)
  proof cases
    case (send k r r' client)
    have sent: "sends s' q = (if q = k then now # sends s q else sends s q)" for q
      by (rule sends_Cons) (simp add: send(1))
    have rows: "fs_rows s' = apply_change now k Attempt (fs_rows s)" by (simp add: send(1))
    have "length (sends s' q) \<le> attempts_of s' q" for q
      using send(4) c[of q] by (auto simp: sent rows attempts_of_def attempts_change split: option.splits)
    then show ?thesis by (simp add: counted_def)
  qed (use c up in \<open>simp_all add: counted_def attempts_of_def attempts_change attempts_scrub attempts_append\<close>)
qed

interpretation counting: move_invariant cfg False counted for cfg
  by unfold_locales (rule move_counted)

subsection \<open>At most two payments of a quote\<close>

text \<open>
  In a run where a pass takes up current records only, the row knows the number and the time of the
  payments, and so does the record that a task works with.
\<close>

definition agrees :: "faucet_service \<Rightarrow> string \<Rightarrow> claim_record \<Rightarrow> bool" where
  "agrees s k r \<longleftrightarrow> attemptCount r = length (sends s k) \<and>
     attemptedAt r = (case sends s k of [] \<Rightarrow> None | t # _ \<Rightarrow> Some t)"

definition spaced :: "int \<Rightarrow> int list \<Rightarrow> bool" where
  "spaced d ts \<longleftrightarrow> sorted_wrt (\<lambda>later earlier. d \<le> later - earlier) ts"

definition two_sends_ok :: "faucet_config \<Rightarrow> faucet_service \<Rightarrow> bool" where
  "two_sends_ok cfg s \<longleftrightarrow>
     (\<forall>k. (case find_claim k (fs_rows s) of None \<Rightarrow> sends s k = [] | Some r \<Rightarrow> agrees s k r) \<and>
          length (sends s k) \<le> 2 \<and> spaced (fc_recoveryDelaySeconds cfg) (sends s k)) \<and>
     (\<forall>k client pc r. fs_tasks s k = Some (client, pc) \<longrightarrow> pc_record pc = Some r \<longrightarrow> agrees s k r)"

lemma two_sendsD:
  assumes "two_sends_ok cfg s"
  shows "find_claim k (fs_rows s) = Some r \<Longrightarrow> agrees s k r"
    and "find_claim k (fs_rows s) = None \<Longrightarrow> sends s k = []"
    and "length (sends s k) \<le> 2" "spaced (fc_recoveryDelaySeconds cfg) (sends s k)"
    and "fs_tasks s k = Some (client, pc) \<Longrightarrow> pc_record pc = Some r \<Longrightarrow> agrees s k r"
  using assms unfolding two_sends_ok_def by (fastforce split: option.splits)+

lemma two_sendsI:
  assumes "\<And>k r. find_claim k (fs_rows s) = Some r \<Longrightarrow> agrees s k r"
    and "\<And>k. find_claim k (fs_rows s) = None \<Longrightarrow> sends s k = []"
    and "\<And>k. length (sends s k) \<le> 2" "\<And>k. spaced (fc_recoveryDelaySeconds cfg) (sends s k)"
    and "\<And>k client pc r. fs_tasks s k = Some (client, pc) \<Longrightarrow> pc_record pc = Some r \<Longrightarrow> agrees s k r"
  shows "two_sends_ok cfg s"
  using assms unfolding two_sends_ok_def by (auto split: option.splits)

lemma agrees_held: "held s k r \<Longrightarrow> two_sends_ok cfg s \<Longrightarrow> agrees s k r"
  using two_sendsD by (auto simp: held_def)

lemma agrees_cong: "(\<And>q. sends s' q = sends s q) \<Longrightarrow> agrees s' k r = agrees s k r"
  by (simp add: agrees_def)

lemma agrees_fields:
  "attemptCount r' = attemptCount r \<Longrightarrow> attemptedAt r' = attemptedAt r \<Longrightarrow> agrees s k r' = agrees s k r"
  by (simp add: agrees_def)

text \<open>Moves other than \<open>send\<close>: the calls stay, the rows keep their attempts, tasks hold known records.\<close>

lemma two_sends_keep:
  assumes ok: "two_sends_ok cfg s" and sent: "fs_sent s' = fs_sent s"
    and rows: "\<And>k r. find_claim k (fs_rows s') = Some r \<Longrightarrow> agrees s k r"
      "\<And>k. find_claim k (fs_rows s') = None \<Longrightarrow> find_claim k (fs_rows s) = None"
    and tasks: "\<And>k client pc r. fs_tasks s' k = Some (client, pc) \<Longrightarrow> pc_record pc = Some r \<Longrightarrow> agrees s k r"
  shows "two_sends_ok cfg s'"
proof -
  have same: "sends s' q = sends s q" for q using sent by (simp add: sends_def)
  show ?thesis
    using two_sendsD[OF ok] rows tasks by (intro two_sendsI) (simp_all add: same agrees_cong[OF same])
qed

lemma agrees_change:
  assumes "two_sends_ok cfg s" "ch \<noteq> Attempt" "find_claim k (apply_change now q ch (fs_rows s)) = Some r"
  shows "agrees s k r"
proof -
  from assms(3) obtain x where x: "find_claim k (fs_rows s) = Some x"
    "attemptCount r = attemptCount x" "attemptedAt r = attemptedAt x"
    using assms(2) by (cases ch) (auto simp: find_apply_change moved_def split: if_splits)
  then show ?thesis using two_sendsD(1)[OF assms(1) x(1)] agrees_fields by blast
qed

lemma agrees_scrub:
  assumes "two_sends_ok cfg s" "find_claim k (snd (scrub now ret (fs_rows s))) = Some r"
  shows "agrees s k r"
proof -
  from assms(2) obtain x where x: "find_claim k (fs_rows s) = Some x"
    "attemptCount r = attemptCount x" "attemptedAt r = attemptedAt x"
    by (auto simp: find_scrub scrubbed_def split: if_splits)
  then show ?thesis using two_sendsD(1)[OF assms(1) x(1)] agrees_fields by blast
qed

lemma send_two:
  assumes ok: "two_sends_ok cfg s" and h: "held s k r" and m: "may_send cfg now r"
  shows "length (now # sends s k) \<le> 2 \<and> spaced (fc_recoveryDelaySeconds cfg) (now # sends s k)"
proof -
  have a: "agrees s k r" by (rule agrees_held[OF h ok])
  have "length (sends s k) < 2" using a m by (simp add: agrees_def may_send_def)
  then consider "sends s k = []" | t where "sends s k = [t]"
    by (cases "sends s k"; cases "tl (sends s k)") auto
  then show ?thesis
  proof cases
    case 2
    then have "fc_recoveryDelaySeconds cfg \<le> now - t"
      using a m by (simp add: agrees_def may_send_def attempted_recently_def)
    with 2 show ?thesis by (simp add: spaced_def)
  qed (simp add: spaced_def)
qed

lemma move_two_sends:
  assumes "service_move cfg True now s s'" "two_sends_ok cfg s"
  shows "two_sends_ok cfg s'"
  using assms(1)
proof cases
  case (send k r r' client)
  have sent: "sends s' q = (if q = k then now # sends s q else sends s q)" for q
    by (rule sends_Cons) (simp add: send(1))
  have rows: "fs_rows s' = apply_change now k Attempt (fs_rows s)"
    and tasks: "fs_tasks s' = (fs_tasks s)(k \<mapsto> (client, Await_send r r'))" by (simp_all add: send(1))
  note D = two_sendsD[OF assms(2)]
  show ?thesis
  proof (rule two_sendsI)
    fix q x assume "find_claim q (fs_rows s') = Some x"
    then obtain z where z: "find_claim q (fs_rows s) = Some z" "x = (if q = k then attempted now z else z)"
      by (auto simp: rows find_apply_change)
    from D(1)[OF z(1)] show "agrees s' q x" by (simp add: z(2) agrees_def sent attempted_def)
  next
    fix q assume "find_claim q (fs_rows s') = None"
    then show "sends s' q = []" using D(2)[of q] send(4) by (auto simp: rows find_apply_change sent)
  next
    fix q show "length (sends s' q) \<le> 2" "spaced (fc_recoveryDelaySeconds cfg) (sends s' q)"
      using send_two[OF assms(2) send(2,3)] D(3,4)[of q] by (simp_all add: sent)
  next
    fix q c pc x assume "fs_tasks s' q = Some (c, pc)" "pc_record pc = Some x"
    then show "agrees s' q x" using D(5)[of q c pc x] by (auto simp: tasks agrees_def sent split: if_splits)
  qed
next
  case (finish ch k)
  show ?thesis
  proof (rule two_sends_keep[OF assms(2)])
    show "agrees s q r" if "find_claim q (fs_rows s') = Some r" for q r
      using agrees_change[OF assms(2) finish(2)] that by (simp add: finish(1))
  qed (use two_sendsD[OF assms(2)] in \<open>auto simp: finish(1) find_apply_change split: if_splits\<close>)
next
  case (hold pc r k client)
  show ?thesis
    by (rule two_sends_keep[OF assms(2)])
      (use two_sendsD[OF assms(2)] agrees_held[OF hold(3) assms(2)] hold in \<open>auto split: if_splits\<close>)
next
  case (reserve_row input d)
  show ?thesis
    by (rule two_sends_keep[OF assms(2)])
      (use two_sendsD[OF assms(2)] reserve_row(2) in
        \<open>auto simp: reserve_row(1) find_claim_append agrees_def split: option.splits if_splits\<close>)
next
  case scrubbing
  show ?thesis
    by (rule two_sends_keep[OF assms(2)])
      (use two_sendsD[OF assms(2)] agrees_scrub[OF assms(2)] in \<open>auto simp: scrubbing find_scrub\<close>)
next
  case (pass_take x rest client)
  show ?thesis
    by (rule two_sends_keep[OF assms(2)])
      (use two_sendsD[OF assms(2)] pass_take(3) in \<open>auto simp: pass_take(1) split: if_splits\<close>)
qed (rule two_sends_keep[OF assms(2)]; use two_sendsD[OF assms(2)] in \<open>auto split: if_splits\<close>)+

interpretation two_sends: move_invariant cfg True "two_sends_ok cfg" for cfg
  by unfold_locales (rule move_two_sends)

end
