(* ===== verification/Faucet_Limits.thy ===== *)
theory Faucet_Limits
  imports Faucet_Correct
begin

section \<open>Faucet: cool-down and network cap\<close>

text \<open>
  The limits of \<open>reserve\<close> look at the rows, and the rows are scrubbed of their client and network
  after the retention time. The invariant aligns the recorded reservations with the rows, one to
  one: a reservation's row still carries its hashes, or the retention has run out since.
\<close>

definition aligned_row :: "int \<Rightarrow> string \<times> string \<times> int \<Rightarrow> claim_record \<Rightarrow> bool" where
  "aligned_row expired e r \<longleftrightarrow>
     (case e of (client, network, t) \<Rightarrow>
        createdAt r = t \<and> ((clientHash r = Some client \<and> networkHash r = Some network) \<or> t \<le> expired))"

definition row_times_ok :: "int \<Rightarrow> claim_record \<Rightarrow> bool" where
  "row_times_ok now r \<longleftrightarrow> createdAt r \<le> updatedAt r \<and> updatedAt r \<le> now"

definition cooldown_ok :: "int \<Rightarrow> (string \<times> string \<times> int) list \<Rightarrow> bool" where
  "cooldown_ok cooldown log \<longleftrightarrow>
     sorted_wrt (\<lambda>(c, _, later) (c', _, earlier). c = c' \<longrightarrow> cooldown \<le> later - earlier) log"

definition network_claims :: "string \<Rightarrow> int \<Rightarrow> (string \<times> string \<times> int) list \<Rightarrow> nat" where
  "network_claims n d log = length (filter (\<lambda>(_, m, t). m = n \<and> t div 86400 = d) log)"

definition network_ok :: "int \<Rightarrow> (string \<times> string \<times> int) list \<Rightarrow> bool" where
  "network_ok limit log \<longleftrightarrow> (\<forall>n d. int (network_claims n d log) \<le> max 0 limit)"

definition limits_ok :: "faucet_config \<Rightarrow> int \<Rightarrow> faucet_service \<Rightarrow> bool" where
  "limits_ok cfg now s \<longleftrightarrow>
     list_all2 (aligned_row (now - fc_sensitiveRetentionSeconds cfg)) (rev (fs_reserved s)) (fs_rows s) \<and>
     list_all (row_times_ok now) (fs_rows s) \<and>
     (fc_clientCooldownSeconds cfg \<le> fc_sensitiveRetentionSeconds cfg \<longrightarrow>
        cooldown_ok (fc_clientCooldownSeconds cfg) (fs_reserved s)) \<and>
     (86400 \<le> fc_sensitiveRetentionSeconds cfg \<longrightarrow>
        network_ok (fc_networkDailyClaimLimit cfg) (fs_reserved s))"

subsection \<open>Changes of rows keep the alignment\<close>

lemma apply_change_map:
  "apply_change now k ch rows =
     map (\<lambda>r. if quoteHash r = k
       then (case ch of Keep \<Rightarrow> r | Move st code \<Rightarrow> moved now st code r | Attempt \<Rightarrow> attempted now r) else r) rows"
  by (cases ch) (auto simp: apply_change.simps update_claim_def update_where_def cong: if_cong)

lemma aligned_map:
  assumes "list_all2 (aligned_row x) es rows"
    and "\<And>e r. r \<in> set rows \<Longrightarrow> aligned_row x e r \<Longrightarrow> aligned_row x e (f r)"
  shows "list_all2 (aligned_row x) es (map f rows)"
  using assms by (induction rule: list_all2_induct) auto

lemma times_map:
  assumes "list_all (row_times_ok now) rows" "\<And>r. row_times_ok now r \<Longrightarrow> row_times_ok now (f r)"
  shows "list_all (row_times_ok now) (map f rows)"
  using assms by (auto simp: list_all_iff)

lemma change_row:
  assumes "row_times_ok now r"
  shows "row_times_ok now (case ch of Keep \<Rightarrow> r | Move st code \<Rightarrow> moved now st code r | Attempt \<Rightarrow> attempted now r)"
  using assms by (cases ch) (auto simp: row_times_ok_def moved_def attempted_def)

lemma aligned_fields:
  "createdAt r' = createdAt r \<Longrightarrow> clientHash r' = clientHash r \<Longrightarrow> networkHash r' = networkHash r \<Longrightarrow>
   aligned_row x e r' = aligned_row x e r"
  by (simp add: aligned_row_def)

lemma limits_change:
  assumes "limits_ok cfg now s" "fs_rows s' = apply_change now k ch (fs_rows s)" "fs_reserved s' = fs_reserved s"
  shows "limits_ok cfg now s'"
proof -
  let ?f = "\<lambda>r. if quoteHash r = k
    then (case ch of Keep \<Rightarrow> r | Move st code \<Rightarrow> moved now st code r | Attempt \<Rightarrow> attempted now r) else r"
  have "aligned_row x e (?f r) = aligned_row x e r" for x e r
    by (rule aligned_fields; cases ch) (auto simp: moved_def attempted_def)
  with assms(1) show ?thesis
    using change_row[of now _ ch]
    by (auto simp: limits_ok_def assms(2,3) apply_change_map intro!: aligned_map times_map)
qed

lemma limits_scrub:
  assumes ok: "limits_ok cfg now s" and r: "fs_reserved s' = fs_reserved s"
    and rows: "fs_rows s' = snd (scrub now (fc_sensitiveRetentionSeconds cfg) (fs_rows s))"
  shows "limits_ok cfg now s'"
proof -
  let ?x = "now - fc_sensitiveRetentionSeconds cfg"
  let ?f = "\<lambda>r. if updatedAt r \<le> ?x \<and> is_sensitive r then scrubbed r else r"
  from ok have times: "list_all (row_times_ok now) (fs_rows s)"
    and al: "list_all2 (aligned_row ?x) (rev (fs_reserved s)) (fs_rows s)" by (simp_all add: limits_ok_def)
  have "list_all2 (aligned_row ?x) (rev (fs_reserved s)) (map ?f (fs_rows s))"
    using al
  proof (rule aligned_map)
    fix e r assume "r \<in> set (fs_rows s)" "aligned_row ?x e r"
    moreover from this times have "createdAt r \<le> updatedAt r" by (auto simp: list_all_iff row_times_ok_def)
    ultimately show "aligned_row ?x e (?f r)" by (auto simp: aligned_row_def scrubbed_def)
  qed
  moreover have "list_all (row_times_ok now) (map ?f (fs_rows s))"
    using times by (rule times_map) (simp add: row_times_ok_def scrubbed_def)
  ultimately show ?thesis using ok by (simp add: limits_ok_def r rows scrub_rows)
qed

subsection \<open>A reservation keeps the limits\<close>

lemma recent_None:
  assumes "recent_claim c since rows = None" "r \<in> set rows" "clientHash r = Some c"
  shows "createdAt r \<le> since"
proof (rule ccontr)
  assume "\<not> createdAt r \<le> since"
  with assms(2,3) have "r \<in> set (filter (\<lambda>r. clientHash r = Some c \<and> since < createdAt r) rows)" by simp
  then have "filter (\<lambda>r. clientHash r = Some c \<and> since < createdAt r) rows \<noteq> []" by (metis empty_iff empty_set)
  with assms(1) show False by (auto simp: recent_claim_def split: list.splits)
qed

lemma aligned_exists:
  assumes "list_all2 (aligned_row x) (rev log) rows" "e \<in> set log"
  shows "\<exists>r \<in> set rows. aligned_row x e r"
  using assms by (metis in_set_conv_nth list_all2_conv_all_nth set_rev)

lemma count_aligned:
  assumes "list_all2 R es rows" "\<And>e r. R e r \<Longrightarrow> P e \<Longrightarrow> Q r"
  shows "length (filter P es) \<le> length (filter Q rows)"
  using assms by (induction rule: list_all2_induct) (auto intro: le_SucI)

lemma network_claims_rev: "network_claims n d (rev log) = network_claims n d log"
  by (simp add: network_claims_def flip: rev_filter)

lemma network_today:
  assumes al: "list_all2 (aligned_row (now - ret)) (rev log) rows" and ret: "86400 \<le> ret"
  shows "network_claims n (now div 86400) log \<le> network_count n (startOfUtcDay now) rows"
proof -
  have "network_claims n (now div 86400) (rev log) \<le> network_count n (startOfUtcDay now) rows"
    unfolding network_claims_def network_count_def
    using al
  proof (rule count_aligned)
    fix e r
    assume a: "aligned_row (now - ret) e r" and e: "case e of (_, m, t) \<Rightarrow> m = n \<and> t div 86400 = now div 86400"
    obtain c m t where et: "e = (c, m, t)" by (cases e)
    have "startOfUtcDay now \<le> t" using e by (intro day_start) (simp add: et)
    moreover have "now - 86400 < startOfUtcDay now"
      using nextUtcDay_gt[of now] by (simp add: nextUtcDay_def startOfUtcDay_def algebra_simps)
    ultimately have "\<not> t \<le> now - ret" using ret by linarith
    with a e \<open>startOfUtcDay now \<le> t\<close> show "networkHash r = Some n \<and> startOfUtcDay now \<le> createdAt r"
      by (auto simp: et aligned_row_def)
  qed
  then show ?thesis by (simp only: network_claims_rev)
qed

lemma limits_reserve:
  assumes ok: "limits_ok cfg now s"
    and rv: "reserve now input (fs_rows s) = (Inr (new_claim now input, True), rows')"
    and input: "rv_cooldownSeconds input = fc_clientCooldownSeconds cfg"
      "rv_networkDailyLimit input = fc_networkDailyClaimLimit cfg"
    and s': "fs_rows s' = fs_rows s @ [new_claim now input]"
      "fs_reserved s' = (rv_clientHash input, rv_networkHash input, now) # fs_reserved s"
  shows "limits_ok cfg now s'"
proof -
  let ?x = "now - fc_sensitiveRetentionSeconds cfg"
  let ?c = "rv_clientHash input" let ?n = "rv_networkHash input"
  from ok have al: "list_all2 (aligned_row ?x) (rev (fs_reserved s)) (fs_rows s)"
    and times: "list_all (row_times_ok now) (fs_rows s)" by (simp_all add: limits_ok_def)
  note lim = reserve_True[OF rv]
  have al': "list_all2 (aligned_row ?x) (rev (fs_reserved s')) (fs_rows s')"
    using al by (auto simp: s' aligned_row_def new_claim_def intro!: list_all2_appendI)
  have times': "list_all (row_times_ok now) (fs_rows s')"
    using times by (simp add: s' row_times_ok_def)
  have cool: "cooldown_ok (fc_clientCooldownSeconds cfg) (fs_reserved s')"
    if "fc_clientCooldownSeconds cfg \<le> fc_sensitiveRetentionSeconds cfg"
  proof -
    have "fc_clientCooldownSeconds cfg \<le> now - t" if e: "(?c, m, t) \<in> set (fs_reserved s)" for m t
    proof -
      from aligned_exists[OF al e] obtain r where r: "r \<in> set (fs_rows s)" "createdAt r = t"
        "clientHash r = Some ?c \<or> t \<le> ?x" by (auto simp: aligned_row_def)
      then show ?thesis
        using recent_None[of ?c "now - fc_clientCooldownSeconds cfg" "fs_rows s" r] lim
          \<open>fc_clientCooldownSeconds cfg \<le> fc_sensitiveRetentionSeconds cfg\<close> by (auto simp: input)
    qed
    then show ?thesis
      using ok that by (auto simp: cooldown_ok_def limits_ok_def s')
  qed
  have net: "network_ok (fc_networkDailyClaimLimit cfg) (fs_reserved s')"
    if "86400 \<le> fc_sensitiveRetentionSeconds cfg"
  proof -
    have "int (network_claims ?n (now div 86400) (fs_reserved s)) < fc_networkDailyClaimLimit cfg"
      using network_today[OF al that, of ?n] lim by (simp add: input)
    then show ?thesis
      using ok that by (auto simp: network_ok_def limits_ok_def s' network_claims_def)
  qed
  show ?thesis
    unfolding limits_ok_def using al' times' cool net by blast
qed

lemma move_limits:
  assumes "service_move cfg strict now s s'" "limits_ok cfg now s"
  shows "limits_ok cfg now s'"
  using assms(1)
proof cases
  case (finish ch k)
  show ?thesis by (rule limits_change[OF assms(2), of s' k ch]) (simp_all add: finish(1))
next
  case (send k r r' client)
  show ?thesis by (rule limits_change[OF assms(2), of s' k Attempt]) (simp_all add: send(1))
next
  case (reserve_row input d)
  show ?thesis
    by (rule limits_reserve[OF assms(2) reserve_row(3)]) (use reserve_row in simp_all)
next
  case scrubbing
  show ?thesis by (rule limits_scrub[OF assms(2)]) (simp_all add: scrubbing)
qed (use assms(2) in \<open>simp_all add: limits_ok_def\<close>)

lemma limits_later: "limits_ok cfg cur s \<Longrightarrow> cur \<le> now \<Longrightarrow> limits_ok cfg now s"
proof -
  assume ok: "limits_ok cfg cur s" and le: "cur \<le> now"
  have "list_all2 (aligned_row (now - fc_sensitiveRetentionSeconds cfg)) (rev (fs_reserved s)) (fs_rows s)"
    using ok le by (auto simp: limits_ok_def aligned_row_def elim!: list_all2_mono)
  moreover have "list_all (row_times_ok now) (fs_rows s)"
    using ok le by (auto simp: limits_ok_def row_times_ok_def list_all_iff)
  ultimately show ?thesis using ok by (simp add: limits_ok_def)
qed

interpretation limits: clocked_invariant cfg False "limits_ok cfg" for cfg
  by unfold_locales (auto intro: move_limits limits_later)

lemma limits_start: "limits_ok cfg now (faucet_start [])"
  by (simp add: limits_ok_def faucet_start_def cooldown_ok_def network_ok_def network_claims_def)

lemma limits_run:
  assumes "sorted (map faucet_time es)"
  shows "\<exists>cur. limits_ok cfg cur (run_machine (faucet_step M cfg) es (faucet_start []))"
proof (cases es)
  case Nil
  then show ?thesis using limits_start by auto
next
  case (Cons e es')
  then have "\<forall>x \<in> set es. faucet_time e \<le> faucet_time x" using assms by auto
  then show ?thesis
    using limits.run_clocked[OF tasks_ok_start limits_start assms] by simp
qed

section \<open>Faucet: what makes a claim paid\<close>

text \<open>
  \<open>reported_paid\<close> says that the reply a task waits for reports a payment: the mint calls the quote paid
  or issued, or the Fiber node reports success for the payment hash of the record, within the fee
  limit. No stretch moves a row to paid or issued without such a report.
\<close>

lemma payment_Inr: "payment maxFee v = Inr p \<Longrightarrow> int (fp_fee p) \<le> maxFee"
  by (auto simp: payment_def bindR_Inr split: if_splits)

lemma liftU_Inr [simp]: "liftU r = Inr x \<longleftrightarrow> r = Inr x"
  by (simp add: liftU_def split: sum.splits)

lemma sendPayment_Inr: "sendPayment maxFee reply = Inr p \<Longrightarrow> int (fp_fee p) \<le> maxFee"
  by (auto simp: sendPayment_def bindR_Inr dest: payment_Inr)

lemma getPayment_Inr: "getPayment maxFee reply = Inr (Some p) \<Longrightarrow> int (fp_fee p) \<le> maxFee"
  by (auto simp: getPayment_def bindR_Inr dest: payment_Inr split: sum.splits upstream_error.splits if_splits)

definition reported_paid :: "faucet_config \<Rightarrow> claim_pc \<Rightarrow> http_reply \<Rightarrow> bool" where
  "reported_paid cfg pc reply \<longleftrightarrow>
     (case pc of
        Await_quote qid c n \<Rightarrow> False
      | Await_invoice qid c n quote \<Rightarrow> mq_phase quote \<noteq> Unpaid_quote
      | Await_stored_quote r \<Rightarrow>
          (\<exists>quote. getQuote (case quoteId r of None \<Rightarrow> [] | Some q \<Rightarrow> q) reply = Inr quote \<and> mq_phase quote \<noteq> Unpaid_quote)
      | Await_payment r quote \<Rightarrow>
          (\<exists>p. getPayment (fc_maxFeeBaseUnits cfg) reply = Inr (Some p) \<and> fp_status p = Success \<and>
             Some (fp_paymentHash p) = paymentHash r \<and> int (fp_fee p) \<le> fc_maxFeeBaseUnits cfg)
      | Await_send r r' \<Rightarrow>
          (\<exists>p. sendPayment (fc_maxFeeBaseUnits cfg) reply = Inr p \<and> fp_status p = Success \<and>
             Some (fp_paymentHash p) = paymentHash r \<and> int (fp_fee p) \<le> fc_maxFeeBaseUnits cfg))"

lemma find_settle: "find_claim k (snd (settle now q st code retry rows)) =
   map_option (\<lambda>r. if k = q then moved now st code r else r) (find_claim k rows)"
  by (simp add: settle_rows find_apply_change cong: if_cong)

definition unpaid_at :: "string \<Rightarrow> claim_rows \<Rightarrow> bool" where
  "unpaid_at k rows \<longleftrightarrow> (\<forall>r. find_claim k rows = Some r \<longrightarrow> claimState r \<notin> {Paid, Issued})"

lemma unpaid_settle: "unpaid_at k rows \<Longrightarrow> st \<notin> {Paid, Issued} \<Longrightarrow> unpaid_at k (snd (settle now q st code retry rows))"
  by (auto simp: unpaid_at_def find_settle moved_def)

lemma unpaid_finished: "unpaid_at k rows \<Longrightarrow> st \<notin> {Paid, Issued} \<Longrightarrow> unpaid_at k (snd (finished (settle now q st code retry rows)))"
  by (simp add: finished_def unpaid_settle)

lemma unpaid_apply: "unpaid_at k rows \<Longrightarrow> fp_status p \<noteq> Success \<Longrightarrow> unpaid_at k (snd (applyPayment now r p rows))"
  by (auto simp: applyPayment_def intro!: unpaid_settle)

lemma unpaid_attempt: "unpaid_at k rows \<Longrightarrow> unpaid_at k (apply_change now q Attempt rows)"
  by (auto simp: unpaid_at_def find_apply_change attempted_def)

lemma unpaid_dispatch: "unpaid_at k rows \<Longrightarrow> unpaid_at k (snd (dispatch now r rows))"
  by (auto simp: dispatch_def markAttempt_cases unpaid_finished unpaid_attempt split: option.splits)

lemma unpaid_reconcile: "unpaid_at k rows \<Longrightarrow> mq_phase quote = Unpaid_quote \<Longrightarrow> unpaid_at k (snd (reconcile cfg now r quote rows))"
  by (auto simp: reconcile_def unpaid_finished split: sum.splits)

lemma unpaid_after_payment:
  assumes "unpaid_at k rows" "\<not> (\<exists>p. answer = Inr (Some p) \<and> fp_status p = Success \<and> Some (fp_paymentHash p) = paymentHash r)"
  shows "unpaid_at k (snd (after_payment cfg now r quote answer rows))"
  using assms unpaid_apply[of k rows _ now r]
  by (auto simp: after_payment_def unpaid_finished unpaid_dispatch finished_def[of "applyPayment _ _ _ _"] split: sum.splits option.splits)

lemma unpaid_catch:
  assumes "unpaid_at k (snd x)" "st \<notin> {Paid, Issued}"
  shows "unpaid_at k (snd (case x of (Inr r, rows') \<Rightarrow> (Inr r, rows') | (Inl e, rows') \<Rightarrow> settle now q st code retry rows'))"
  using assms by (auto simp: unpaid_settle split: prod.splits sum.splits)

lemma unpaid_after_send:
  assumes "unpaid_at k rows" "\<not> (\<exists>p. answer = Inr p \<and> fp_status p = Success \<and> Some (fp_paymentHash p) = paymentHash input)"
  shows "unpaid_at k (snd (after_send cfg now input r answer rows))"
  unfolding after_send_def Let_def
  by (rule unpaid_catch) (use assms in \<open>auto simp: unpaid_settle unpaid_apply split: sum.splits\<close>)

lemma reserve_unpaid: "unpaid_at k rows \<Longrightarrow> unpaid_at k (snd (reserve now input rows))"
  by (auto simp: unpaid_at_def reserve_def insert_claim_def find_claim_append new_claim_def split: option.splits if_splits)

lemma unpaid_after_invoice:
  assumes "unpaid_at k rows" "mq_phase quote = Unpaid_quote"
  shows "unpaid_at k (snd (after_invoice cfg now q qid c network quote answer rows))"
proof (cases answer)
  case (Inr d)
  let ?rv = "reserve now (reserve_input cfg q qid c network quote (pi_paymentHash d)) rows"
  have "unpaid_at k (snd ?rv)" using reserve_unpaid[OF assms(1)] .
  then show ?thesis
    using assms by (auto simp: after_invoice_def Inr unpaid_dispatch unpaid_reconcile split: prod.splits sum.splits)
qed (use assms in \<open>simp add: after_invoice_def\<close>)

end
