(* ===== verification/Faucet_Script.thy ===== *)
theory Faucet_Script
  imports Faucet_Upstream
begin

section \<open>Faucet: hexadecimal text and the packed script\<close>

text \<open>
  \<open>pack_script\<close> is the layout of a script in the Molecule format: the total length, three offsets,
  the 32 bytes of the code hash, the hash type and the length-prefixed arguments. The decoder of
  the faucet inverts it, and accepts nothing else.
\<close>

subsection \<open>Hexadecimal\<close>

lemma hex_value_digit: "d < 16 \<Longrightarrow> hex_value (hex_digit d) = d"
  by (simp add: hex_value_def hex_digit_def)

lemma hex_digit_is_hex: "d < 16 \<Longrightarrow> is_hex (hex_digit d)"
  by (simp add: is_hex_def hex_digit_def)

lemma hex_digit_value: "is_hex c \<Longrightarrow> hex_digit (hex_value c) = lower_char c"
  by (auto simp: is_hex_def hex_value_def hex_digit_def lower_char_def Let_def)

lemma hex_value_less: "is_hex c \<Longrightarrow> hex_value c < 16"
  by (auto simp: is_hex_def hex_value_def Let_def)

lemma byte_unat: "h < 16 \<Longrightarrow> l < 16 \<Longrightarrow> unat (word_of_nat (16 * h + l) :: 8 word) = 16 * h + l"
  by (simp add: unat_word_ariths unsigned_of_nat take_bit_eq_mod)

lemma unat_byte_bound: "unat (w :: 8 word) < 256"
  using unsigned_less[of w] by simp

lemma hex_bytes_hex [simp]: "hex_bytes (concat (map byte_hex bs)) = bs"
proof (induction bs)
  case (Cons b bs)
  have "unat b div 16 < 16" "unat b mod 16 < 16" using unat_byte_bound[of b] by auto
  then have "word_of_nat (16 * hex_value (hex_digit (unat b div 16)) + hex_value (hex_digit (unat b mod 16))) = b"
    by (simp add: hex_value_digit)
  with Cons show ?case by (simp add: byte_hex_def)
qed simp

lemma hex_hex_bytes:
  "list_all is_hex s \<Longrightarrow> even (length s) \<Longrightarrow> concat (map byte_hex (hex_bytes s)) = to_lower s"
proof (induction s rule: hex_bytes.induct)
  case (1 a b rest)
  then have "hex_value a < 16" "hex_value b < 16" by (simp_all add: hex_value_less)
  then have "byte_hex (word_of_nat (16 * hex_value a + hex_value b)) = [lower_char a, lower_char b]"
    using 1 unfolding byte_hex_def byte_unat[OF \<open>hex_value a < 16\<close> \<open>hex_value b < 16\<close>]
    by (simp add: hex_digit_value)
  with 1 show ?case by (simp add: to_lower_def)
qed (auto simp: to_lower_def)

lemma byte_hex_props: "list_all is_hex (byte_hex w)" "length (byte_hex w) = 2"
  using unat_byte_bound[of w] by (simp_all add: byte_hex_def hex_digit_is_hex)

lemma hex_text_pairs: "bs \<noteq> [] \<Longrightarrow> is_hex_pairs (hex_text bs)"
proof -
  assume "bs \<noteq> []"
  moreover have "list_all is_hex (concat (map byte_hex bs))" "length (concat (map byte_hex bs)) = 2 * length bs"
    by (induction bs) (auto simp: byte_hex_props)
  moreover from this have "concat (map byte_hex bs) \<noteq> []"
    using \<open>bs \<noteq> []\<close> by (metis length_0_conv mult_eq_0_iff zero_neq_numeral)
  ultimately show ?thesis by (auto simp: is_hex_pairs_def hex_text_def has_hex_prefix_def starts_with_def)
qed

lemma lower_hex_text [simp]: "to_lower (hex_text bs) = hex_text bs"
proof -
  have "to_lower (byte_hex w) = byte_hex w" for w
    using unat_byte_bound[of w]
    by (auto simp: byte_hex_def to_lower_def lower_char_def hex_digit_def)
  then have "to_lower (concat (map byte_hex bs)) = concat (map byte_hex bs)"
    by (induction bs) (auto simp: to_lower_def)
  then show ?thesis by (simp add: hex_text_def to_lower_def lower_char_def)
qed

lemma hex_pairs_text:
  assumes "is_hex_pairs s"
  shows "to_lower s = hex_text (hex_bytes (drop 2 s)) \<and> hex_bytes (drop 2 s) \<noteq> []"
proof -
  from assms have d: "list_all is_hex (drop 2 s)" "even (length (drop 2 s))" "drop 2 s \<noteq> []"
    unfolding is_hex_pairs_def by blast+
  have split: "to_lower s = to_lower (take 2 s) @ to_lower (drop 2 s)"
    by (metis append_take_drop_id map_append to_lower_def)
  have "take 2 s = ''0x'' \<or> take 2 s = ''0X''"
    using assms by (auto simp: is_hex_pairs_def has_hex_prefix_def starts_with_def numeral_2_eq_2)
  moreover have "to_lower ''0x'' = ''0x''" "to_lower ''0X'' = ''0x''" by code_simp+
  ultimately have "to_lower (take 2 s) = ''0x''" by auto
  with split have "to_lower s = hex_text (hex_bytes (drop 2 s))"
    by (simp add: hex_text_def hex_hex_bytes[OF d(1,2)])
  moreover have "hex_bytes (drop 2 s) \<noteq> []"
    using d(3) hex_hex_bytes[OF d(1,2)] by (auto simp: to_lower_def)
  ultimately show ?thesis by simp
qed

lemma is_hex_lower: "is_hex (lower_char c) = is_hex c"
  by (auto simp: is_hex_def lower_char_def)

lemma is_hex_pairs_lower: "is_hex_pairs (to_lower s) \<Longrightarrow> has_hex_prefix s \<Longrightarrow> is_hex_pairs s"
proof -
  assume p: "is_hex_pairs (to_lower s)" and h: "has_hex_prefix s"
  have d: "drop 2 (to_lower s) = map lower_char (drop 2 s)" by (simp add: to_lower_def drop_map)
  have "list_all is_hex (map lower_char t) = list_all is_hex t" for t
    by (simp add: list_all_iff is_hex_lower)
  with p h show ?thesis unfolding is_hex_pairs_def d by auto
qed

subsection \<open>Little-endian integers\<close>

definition le32 :: "nat \<Rightarrow> bytes" where
  "le32 n = [word_of_nat n, word_of_nat (n div 256), word_of_nat (n div 65536), word_of_nat (n div 16777216)]"

lemma length_le32 [simp]: "length (le32 n) = 4"
  by (simp add: le32_def)

lemma unat_byte: "unat (word_of_nat n :: 8 word) = n mod 256"
  by (simp add: unsigned_of_nat take_bit_eq_mod)

lemma div_steps: "n div 65536 = n div 256 div 256" "n div 16777216 = n div 256 div 256 div 256" for n :: nat
  by (simp_all flip: div_mult2_eq)

lemma bytes_value:
  fixes n :: nat
  assumes "n < 4294967296"
  shows "n mod 256 + 256 * (n div 256 mod 256) + 65536 * (n div 65536 mod 256) + 16777216 * (n div 16777216 mod 256) = n"
proof -
  let ?b = "n div 256" let ?c = "?b div 256" let ?d = "?c div 256"
  have d: "?d mod 256 = ?d" using assms by (simp flip: div_mult2_eq add: div_less_iff_less_mult)
  have "n mod 256 + 256 * ?b = n" "?b mod 256 + 256 * ?c = ?b" "?c mod 256 + 256 * ?d = ?c"
    by (rule mod_mult_div_eq)+
  then show ?thesis unfolding div_steps d by linarith
qed

lemma digits_of_bytes:
  assumes "a < 256" "b < 256" "c < 256" "d < 256" and n: "n = a + 256 * b + 65536 * c + 16777216 * (d :: nat)"
  shows "n mod 256 = a" "n div 256 mod 256 = b" "n div 65536 mod 256 = c" "n div 16777216 mod 256 = d"
    "n < 4294967296"
proof -
  have split: "(x + 256 * m) mod 256 = x" "(x + 256 * m) div 256 = m" if "x < 256" for x m :: nat
    using that by auto
  have n': "n = a + 256 * (b + 256 * (c + 256 * d))" by (simp add: n)
  show "n mod 256 = a" "n div 256 mod 256 = b" "n div 65536 mod 256 = c" "n div 16777216 mod 256 = d"
    unfolding n' div_steps using assms(1-4) by (simp_all only: split mod_less)
  show "n < 4294967296" using assms by linarith
qed

lemma readUint32_le32: "n < 4294967296 \<Longrightarrow> readUint32 (xs @ le32 n @ ys) (length xs) = Some n"
  using bytes_value[of n] by (simp add: readUint32_def le32_def nth_append unat_byte)

lemma readUint32_inv:
  assumes "readUint32 bs k = Some n"
  shows "take 4 (drop k bs) = le32 n \<and> n < 4294967296 \<and> k + 4 \<le> length bs"
proof -
  from assms have k: "k + 4 \<le> length bs"
    and n: "n = unat (bs ! k) + 256 * unat (bs ! (k + 1)) + 65536 * unat (bs ! (k + 2)) + 16777216 * unat (bs ! (k + 3))"
    by (auto simp: readUint32_def split: if_splits)
  have b: "unat (bs ! k) < 256" "unat (bs ! (k + 1)) < 256" "unat (bs ! (k + 2)) < 256" "unat (bs ! (k + 3)) < 256"
    by (rule unat_byte_bound)+
  have "take 4 (drop k bs) = [bs ! k, bs ! (k + 1), bs ! (k + 2), bs ! (k + 3)]"
    using k by (simp add: list_eq_iff_nth_eq nth_Cons less_Suc_eq numeral_eq_Suc split: nat.splits)
  moreover have "n mod 256 = unat (bs ! k)" "n div 256 mod 256 = unat (bs ! (k + 1))"
    "n div 65536 mod 256 = unat (bs ! (k + 2))" "n div 16777216 mod 256 = unat (bs ! (k + 3))" "n < 4294967296"
    by (rule digits_of_bytes[OF b n])+
  ultimately show ?thesis
    using k by (simp add: le32_def word_unat_eq_iff unat_byte)
qed

subsection \<open>The script table\<close>

definition pack_script :: "bytes \<Rightarrow> 8 word \<Rightarrow> bytes \<Rightarrow> bytes" where
  "pack_script code ht args =
     le32 (53 + length args) @ le32 16 @ le32 48 @ le32 49 @ code @ [ht] @ le32 (length args) @ args"

lemma decode_pack:
  assumes "length code = 32" "53 + length args < 4294967296" "hash_type_of ht = Some t"
  shows "decode_script (pack_script code ht args) =
    Some \<lparr>us_codeHash = hex_text code, us_hashType = t, us_args = hex_text args\<rparr>"
proof -
  let ?p = "pack_script code ht args"
  note r = readUint32_le32
  have reads: "readUint32 ?p 0 = Some (53 + length args)" "readUint32 ?p 4 = Some 16"
    "readUint32 ?p 8 = Some 48" "readUint32 ?p 12 = Some 49" "readUint32 ?p 49 = Some (length args)"
    using assms(1,2) r[of "53 + length args" "[]"] r[of 16 "le32 (53 + length args)"]
      r[of 48 "le32 (53 + length args) @ le32 16"] r[of 49 "le32 (53 + length args) @ le32 16 @ le32 48"]
      r[of "length args" "le32 (53 + length args) @ le32 16 @ le32 48 @ le32 49 @ code @ [ht]" args]
    by (simp_all add: pack_script_def)
  have parts: "?p ! 48 = ht" "take 32 (drop 16 ?p) = code" "drop 53 ?p = args" "length ?p = 53 + length args"
    using assms(1) by (simp_all add: pack_script_def nth_append)
  show ?thesis by (simp add: decode_script_def reads parts assms(3))
qed

lemma list_split4: "4 \<le> length bs \<Longrightarrow> bs = take 4 bs @ drop 4 bs"
  by simp

lemma decode_unpack:
  assumes "decode_script bs = Some r"
  shows "\<exists>code ht args. bs = pack_script code ht args \<and> length code = 32 \<and>
    53 + length args < 4294967296 \<and> hash_type_of ht = Some (us_hashType r) \<and>
    us_codeHash r = hex_text code \<and> us_args r = hex_text args"
proof -
  from assms obtain n t where
    reads: "readUint32 bs 0 = Some (length bs)" "readUint32 bs 4 = Some 16" "readUint32 bs 8 = Some 48"
      "readUint32 bs 12 = Some 49" "readUint32 bs 49 = Some n"
    and n': "53 + n = length bs" and t: "hash_type_of (bs ! 48) = Some t"
    and r: "r = \<lparr>us_codeHash = hex_text (take 32 (drop 16 bs)), us_hashType = t, us_args = hex_text (drop 53 bs)\<rparr>"
    unfolding decode_script_def bind_eq_Some_conv by (auto split: if_splits simp: bind_eq_Some_conv)
  have n: "length bs = 53 + n" using n' by simp
  note i = reads[THEN readUint32_inv]
  have bs: "bs = take 4 bs @ take 4 (drop 4 bs) @ take 4 (drop 8 bs) @ take 4 (drop 12 bs) @
      take 32 (drop 16 bs) @ [bs ! 48] @ take 4 (drop 49 bs) @ drop 53 bs"
  proof -
    have "drop k bs = take m (drop k bs) @ drop (k + m) bs" for k m
      by (metis append_take_drop_id drop_drop add.commute)
    from this[of 0 4] this[of 4 4] this[of 8 4] this[of 12 4] this[of 16 32] this[of 48 1] this[of 49 4]
    show ?thesis using n by (simp add: take_Suc_conv_app_nth hd_drop_conv_nth take_Suc)
  qed
  have "bs = pack_script (take 32 (drop 16 bs)) (bs ! 48) (drop 53 bs)"
    using i n by (subst bs) (simp add: pack_script_def)
  then show ?thesis
    using i n t r by (intro exI[of _ "take 32 (drop 16 bs)"] exI[of _ "bs ! 48"] exI[of _ "drop 53 bs"]) simp
qed

lemma decodePackedScript_iff:
  "decodePackedScript (JStr s) = Inr r \<longleftrightarrow>
     has_hex_prefix s \<and>
     (\<exists>code ht args. to_lower s = hex_text (pack_script code ht args) \<and> length code = 32 \<and>
       53 + length args < 4294967296 \<and> hash_type_of ht = Some (us_hashType r) \<and>
       us_codeHash r = hex_text code \<and> us_args r = hex_text args)" (is "?L \<longleftrightarrow> ?R")
proof
  assume ?L
  then have p: "is_hex_pairs s" and d: "decode_script (hex_bytes (drop 2 s)) = Some r"
    by (auto simp: decodePackedScript_def result_simps split: if_splits option.splits)
  from p have "has_hex_prefix s" by (simp add: is_hex_pairs_def)
  moreover obtain code ht args where "hex_bytes (drop 2 s) = pack_script code ht args"
    "length code = 32 \<and> 53 + length args < 4294967296 \<and> hash_type_of ht = Some (us_hashType r) \<and>
     us_codeHash r = hex_text code \<and> us_args r = hex_text args"
    using decode_unpack[OF d] by blast
  moreover from this(1) have "to_lower s = hex_text (pack_script code ht args)"
    using hex_pairs_text[OF p] by simp
  ultimately show ?R by blast
next
  assume R: ?R
  then obtain code ht args where
    s: "to_lower s = hex_text (pack_script code ht args)" and pre: "has_hex_prefix s"
    and c: "length code = 32" "53 + length args < 4294967296" "hash_type_of ht = Some (us_hashType r)"
    and r: "us_codeHash r = hex_text code" "us_args r = hex_text args" by blast
  have lo: "drop 2 (to_lower s) = concat (map byte_hex (pack_script code ht args))"
    unfolding s hex_text_def by simp
  have "is_hex_pairs (to_lower s)" unfolding s by (rule hex_text_pairs) (simp add: pack_script_def)
  then have p: "is_hex_pairs s" using pre by (simp add: is_hex_pairs_lower)
  have "hex_text (hex_bytes (drop 2 s)) = hex_text (pack_script code ht args)"
    using hex_pairs_text[OF p] s by simp
  then have "hex_bytes (drop 2 s) = pack_script code ht args"
    by (metis append_same_eq hex_bytes_hex hex_text_def same_append_eq)
  then show ?L
    using p decode_pack[OF c] r by (simp add: decodePackedScript_def)
qed

end
