(* ===== verification/Faucet_Demo.thy ===== *)
theory Faucet_Demo
  imports Faucet_Limits Faucet_Script
begin

section \<open>Faucet: a concrete configuration and replies\<close>

text \<open>
  The values the witnesses of the faucet run on: a configuration that loads, with an amount of one
  unit, a keyed hash that leaves the text as it is, and the replies of a mint and a node to them.
\<close>

definition demo_packed :: string where
  "demo_packed = hex_text (pack_script (hex_bytes (drop 2 (us_codeHash rusd_script))) 1
     (hex_bytes (drop 2 (us_args rusd_script))))"

lemma demo_packed_decodes: "decodePackedScript (JStr demo_packed) = Inr rusd_script"
proof -
  have hash: "is_hex_pairs (us_codeHash rusd_script)" "to_lower (us_codeHash rusd_script) = us_codeHash rusd_script"
    "length (hex_bytes (drop 2 (us_codeHash rusd_script))) = 32"
    and args: "is_hex_pairs (us_args rusd_script)" "to_lower (us_args rusd_script) = us_args rusd_script"
    "length (hex_bytes (drop 2 (us_args rusd_script))) = 32"
    by code_simp+
  have "has_hex_prefix demo_packed" by (simp add: demo_packed_def hex_text_def has_hex_prefix_def starts_with_def)
  moreover have "to_lower demo_packed = demo_packed" by (simp add: demo_packed_def)
  moreover have "hash_type_of 1 = Some (us_hashType rusd_script)" by (simp add: hash_type_of_def rusd_script_def)
  moreover have "us_codeHash rusd_script = hex_text (hex_bytes (drop 2 (us_codeHash rusd_script)))"
    "us_args rusd_script = hex_text (hex_bytes (drop 2 (us_args rusd_script)))"
    using hex_pairs_text[OF hash(1)] hex_pairs_text[OF args(1)] hash(2) args(2) by simp_all
  moreover have "53 + length (hex_bytes (drop 2 (us_args rusd_script))) < 4294967296" by (simp only: args(3))
  ultimately show ?thesis
    unfolding decodePackedScript_iff using hash(3) demo_packed_def by metis
qed

definition demo_faucet :: "int \<Rightarrow> int \<Rightarrow> faucet_config" where
  "demo_faucet cooldown retention =
     \<lparr>fc_host = ''127.0.0.1'', fc_port = 8091, fc_databasePath = ''./data/faucet.sqlite3'',
      fc_publicOrigin = ''https://f'', fc_allowedOrigins = {''https://w''}, fc_mintUrl = ''https://m'',
      fc_mintApiUrl = ''https://m'', fc_fiberRpcUrl = ''http://n'', fc_enabled = True, fc_amount = 1,
      fc_unit = ''rusd'', fc_network = ''testnet'', fc_unitScale = 1, fc_invoiceCurrency = ''Fibt'',
      fc_udtScript = rusd_script, fc_clientCooldownSeconds = cooldown, fc_networkDailyClaimLimit = 1,
      fc_dailyClaimLimit = 25, fc_maxRequestsPerMinute = 120, fc_maxFeeBaseUnits = 5000000,
      fc_maxFeeRate = 5, fc_recoveryDelaySeconds = 10, fc_reconciliationIntervalSeconds = 10,
      fc_sensitiveRetentionSeconds = retention, fc_upstreamTimeoutMs = 10000, fc_bodyLimitBytes = 4096,
      fc_identifierSecret = ''s'', fc_trustProxy = False\<rparr>"

text \<open>The environment that loads as \<open>demo_faucet 60 3600\<close>.\<close>

definition demo_faucet_parser :: url_parser where
  "demo_faucet_parser s =
     (if s \<in> {''https://f'', ''https://m'', ''https://w''}
      then Some \<lparr>protocol = ''https:'', username = [], password = [], host = drop 8 s, hostname = drop 8 s,
        pathname = ''/'', search = [], hash = []\<rparr>
      else if s = ''http://n''
      then Some \<lparr>protocol = ''http:'', username = [], password = [], host = ''n'', hostname = ''n'',
        pathname = ''/'', search = [], hash = []\<rparr>
      else None)"

definition demo_faucet_env :: environment where
  "demo_faucet_env =
     [''FIBERNUTS_FAUCET_PUBLIC_ORIGIN'' \<mapsto> ''https://f'', ''FIBERNUTS_FAUCET_MINT_URL'' \<mapsto> ''https://m'',
      ''FIBERNUTS_FAUCET_FIBER_RPC'' \<mapsto> ''http://n'', ''FIBERNUTS_FAUCET_ALLOWED_ORIGINS'' \<mapsto> ''https://w'',
      ''FIBERNUTS_FAUCET_IDENTIFIER_SECRET'' \<mapsto> ''s'', ''FIBERNUTS_FAUCET_ENABLED'' \<mapsto> ''true'',
      ''FIBERNUTS_FAUCET_AMOUNT'' \<mapsto> ''1'', ''FIBERNUTS_FAUCET_UNIT_SCALE'' \<mapsto> ''1'',
      ''FIBERNUTS_FAUCET_CLIENT_COOLDOWN_SECONDS'' \<mapsto> ''60'',
      ''FIBERNUTS_FAUCET_SENSITIVE_RETENTION_SECONDS'' \<mapsto> ''3600'',
      ''FIBERNUTS_FAUCET_NETWORK_DAILY_CLAIM_LIMIT'' \<mapsto> ''1'']"

lemma demo_faucet_load:
  "faucet_loadConfig demo_faucet_parser (\<lambda>_. JNull) demo_faucet_env = Inr (demo_faucet 60 3600)"
  by (simp add: faucet_loadConfig_def env_or_def demo_faucet_env_def httpUrl_def plain_origin_def
      demo_faucet_parser_def demo_faucet_def http_or_https_def url_origin_def starts_with_def
      origin_entries_def trim_def is_space_def integer_setting_def flag_setting_def js_number_def
      is_digit_text_def number_of_digits_def digits_value_def digit_value_def is_digit_def is_safe_def
      max_safe_def js_round_exact Let_def)

definition demoM :: "string \<Rightarrow> string \<Rightarrow> string" where
  "demoM key text = text"

definition demo_pubkey :: string where
  "demo_pubkey = ''02'' @ replicate 64 (CHR ''a'')"

definition demo_invoice :: "char \<Rightarrow> string" where
  "demo_invoice c = ''fibt1'' @ replicate 11 c"

definition demo_hash :: "char \<Rightarrow> string" where
  "demo_hash c = ''0x'' @ replicate 64 c"

definition quote_reply :: "char \<Rightarrow> http_reply" where
  "quote_reply c = Reply 200 (Some (JObj
     [(''quote'', JStr [c]), (''amount'', JInt 1), (''request'', JStr (demo_invoice c)),
      (''unit'', JStr ''rusd''), (''pubkey'', JStr demo_pubkey), (''expiry'', JInt 1000000)]))"

definition demo_quote :: "char \<Rightarrow> mint_quote_view" where
  "demo_quote c = \<lparr>mq_quoteId = [c], mq_invoice = demo_invoice c, mq_amount = 1, mq_unit = ''rusd'',
     mq_pubkey = Some demo_pubkey, mq_expiry = 1000000, mq_phase = Unpaid_quote\<rparr>"

definition invoice_reply :: "char \<Rightarrow> http_reply" where
  "invoice_reply c = Reply 200 (Some (JObj [(''result'', JObj [(''invoice'', JObj
     [(''currency'', JStr ''Fibt''), (''amount'', JStr ''0x1''),
      (''data'', JObj [(''payment_hash'', JStr (demo_hash c)),
        (''attrs'', JArr [JObj [(''udt_script'', JStr demo_packed)]])])])])]))"

definition demo_decoded :: "char \<Rightarrow> parsed_fiber_invoice" where
  "demo_decoded c = \<lparr>pi_paymentHash = demo_hash c, pi_currency = ''Fibt'', pi_amount = 1,
     pi_udtScript = Some rusd_script\<rparr>"

definition not_found_reply :: http_reply where
  "not_found_reply = Reply 200 (Some (JObj
     [(''error'', JObj [(''message'', JStr ''Payment session not found'')])]))"

lemma demo_pubkey_ok: "is_pubkey demo_pubkey" "to_lower demo_pubkey = demo_pubkey"
  by code_simp+

lemma getQuote_demo: "getQuote [c] (quote_reply c) = Inr (demo_quote c)"
  using demo_pubkey_ok
  by (simp add: getQuote_def quote_reply_def responseJson_def upstream_record_def read_mint_quote_def
      field_def integerLike_def is_safe_def max_safe_def optional_amount_def str_such_def demo_invoice_def
      demo_quote_def quote_phase_of_def to_lower_def lower_char_def)

lemma demo_hash_ok: "c \<in> {CHR ''a'', CHR ''b''} \<Longrightarrow> is_payment_hash (demo_hash c) \<and> to_lower (demo_hash c) = demo_hash c"
  by (auto simp: is_payment_hash_def demo_hash_def has_hex_prefix_def starts_with_def chars_between_def
      is_hex_def to_lower_def lower_char_def list_all_iff)

lemma parseInvoice_demo:
  "c \<in> {CHR ''a'', CHR ''b''} \<Longrightarrow> parseInvoice (invoice_reply c) = Inr (demo_decoded c)"
  using demo_hash_ok[of c]
  by (simp add: parseInvoice_def rpc_call_def invoice_reply_def responseJson_def upstream_record_def
      read_invoice_def field_def has_key_def js_truthy_def liftU_def str_such_def hexInteger_def has_hex_prefix_def
      starts_with_def is_hex_def hex_number_def hex_value_def invoiceUdtScript_def udt_scripts_def
      demo_packed_decodes demo_decoded_def)

lemma getPayment_demo: "getPayment n not_found_reply = Inr None"
proof -
  have "contains_text ''payment session not found'' (to_lower ''Payment session not found'')" by code_simp
  then show ?thesis
    by (simp add: getPayment_def not_found_reply_def rpc_call_def responseJson_def upstream_record_def
      field_def has_key_def js_truthy_def liftU_def)
qed

lemma sendPayment_demo: "sendPayment n Unreachable = Inl (Upstream (plain_error 502 ''fiber_unavailable''))"
  by (simp add: sendPayment_def rpc_call_def)

text \<open>The text facts that a run of the service needs.\<close>

lemma demo_text [simp]:
  "starts_with ''fibt1'' (to_lower (demo_invoice c))" "demo_invoice c \<noteq> []" "demo_hash c \<noteq> []"
  "demo_pubkey \<noteq> []" "demo_hash c = demo_hash d \<longleftrightarrow> c = d"
  by (auto simp: demo_invoice_def demo_hash_def demo_pubkey_def starts_with_def to_lower_def lower_char_def)

lemma demo_quote_fields [simp]:
  "mq_quoteId (demo_quote c) = [c]" "mq_invoice (demo_quote c) = demo_invoice c" "mq_amount (demo_quote c) = 1"
  "mq_unit (demo_quote c) = ''rusd''" "mq_pubkey (demo_quote c) = Some demo_pubkey"
  "mq_expiry (demo_quote c) = 1000000" "mq_phase (demo_quote c) = Unpaid_quote"
  by (simp_all add: demo_quote_def)

lemma demo_decoded_fields [simp]:
  "invoice_matches (demo_faucet c r) (demo_decoded x)" "pi_paymentHash (demo_decoded x) = demo_hash x"
  by (simp_all add: invoice_matches_def demo_decoded_def demo_faucet_def sameUdtScript_def)

lemma validate_demo [simp]:
  "validateQuote (demo_faucet c r) (demo_quote x) None = Inr ()"
  "validateQuote (demo_faucet c r) (demo_quote x) (Some [x]) = Inr ()"
  by (simp_all add: validateQuote_def demo_faucet_def)

definition demo_key :: "char \<Rightarrow> string" where
  "demo_key c = ''quote'' @ [char_of (0 :: nat), c]"

lemma demo_key_hash [simp]: "identifierHash demoM key ''quote'' [c] = demo_key c"
  by (simp add: identifierHash_def demoM_def demo_key_def)

lemma demo_key_eq [simp]: "demo_key c = demo_key d \<longleftrightarrow> c = d"
  by (simp add: demo_key_def)

definition demo_row :: "char \<Rightarrow> string \<Rightarrow> string \<Rightarrow> int \<Rightarrow> claim_state \<Rightarrow> nat \<Rightarrow> int option \<Rightarrow> int \<Rightarrow> string option \<Rightarrow> claim_record" where
  "demo_row c client network t st n att upd code =
     \<lparr>quoteHash = demo_key c, quoteId = Some [c], claimInvoice = Some (demo_invoice c),
      paymentHash = Some (demo_hash c), quotePubkey = Some demo_pubkey, clientHash = Some client,
      networkHash = Some network, claimState = st, claimAmount = 1, claimUnit = ''rusd'',
      claimExpiry = 1000000, attemptCount = n, attemptedAt = att, createdAt = t, updatedAt = upd,
      failureCode = code\<rparr>"

lemma demo_row_sel [simp]:
  "quoteHash (demo_row c client network t st n att upd code) = demo_key c"
  "quoteId (demo_row c client network t st n att upd code) = Some [c]"
  "claimInvoice (demo_row c client network t st n att upd code) = Some (demo_invoice c)"
  "paymentHash (demo_row c client network t st n att upd code) = Some (demo_hash c)"
  "quotePubkey (demo_row c client network t st n att upd code) = Some demo_pubkey"
  "clientHash (demo_row c client network t st n att upd code) = Some client"
  "networkHash (demo_row c client network t st n att upd code) = Some network"
  "claimState (demo_row c client network t st n att upd code) = st"
  "claimExpiry (demo_row c client network t st n att upd code) = 1000000"
  "attemptCount (demo_row c client network t st n att upd code) = n"
  "attemptedAt (demo_row c client network t st n att upd code) = att"
  "createdAt (demo_row c client network t st n att upd code) = t"
  "updatedAt (demo_row c client network t st n att upd code) = upd"
  "failureCode (demo_row c client network t st n att upd code) = code"
  "attempted now (demo_row c client network t st n att upd code) =
     demo_row c client network t Dispatching (Suc n) (Some now) now None"
  "moved now st' code' (demo_row c client network t st n att upd code) =
     demo_row c client network t st' n att now code'"
  by (simp_all add: demo_row_def attempted_def moved_def)

text \<open>A claim whose payment call gets no reply, and a later attempt for a stored claim.\<close>

definition first_try :: "int \<Rightarrow> char \<Rightarrow> string \<Rightarrow> string \<Rightarrow> faucet_event list" where
  "first_try now c client network =
    [Claim now [c] client network, Answer now (demo_key c) (quote_reply c),
     Answer now (demo_key c) (invoice_reply c), Answer now (demo_key c) Unreachable]"

definition second_try :: "int \<Rightarrow> char \<Rightarrow> faucet_event list" where
  "second_try now c =
    [Answer now (demo_key c) (quote_reply c), Answer now (demo_key c) not_found_reply,
     Answer now (demo_key c) Unreachable]"

definition demo_client :: "string \<Rightarrow> string" where
  "demo_client x = identifierHash demoM ''s'' ''client'' x"

definition demo_network :: "string \<Rightarrow> string" where
  "demo_network x = identifierHash demoM ''s'' ''network'' x"

lemma cfg_sel [simp]:
  "fc_identifierSecret (demo_faucet cd ret) = ''s''" "fc_enabled (demo_faucet cd ret)"
  "fc_clientCooldownSeconds (demo_faucet cd ret) = cd" "fc_sensitiveRetentionSeconds (demo_faucet cd ret) = ret"
  "fc_networkDailyClaimLimit (demo_faucet cd ret) = 1" "fc_dailyClaimLimit (demo_faucet cd ret) = 25"
  "fc_recoveryDelaySeconds (demo_faucet cd ret) = 10"
  by (simp_all add: demo_faucet_def)

lemma first_try:
  assumes "find_claim (demo_key c) rows = None" "fs_tasks s (demo_key c) = None" "fs_rows s = rows"
    "now < 900000" "c \<in> {CHR ''a'', CHR ''b''}"
   and rv: "reserve now (reserve_input (demo_faucet cd ret) (demo_key c) [c] (demo_client x) (demo_network w) (demo_quote c) (demo_hash c)) rows
     = (Inr (demo_row c (demo_client x) (demo_network w) now Dispatching 0 None now None, True),
         rows @ [demo_row c (demo_client x) (demo_network w) now Dispatching 0 None now None])"
  shows "run_machine (faucet_step demoM (demo_faucet cd ret)) (first_try now c x w) s =
    s\<lparr>fs_rows := rows @ [demo_row c (demo_client x) (demo_network w) now Recoverable 1 (Some now) now (Some ''dispatch_unknown'')],
      fs_pass := release_pass (demo_key c) (fs_pass s),
      fs_sent := (demo_key c, Some (demo_invoice c), now) # fs_sent s,
      fs_decoded := (demo_invoice c, demo_decoded c) # fs_decoded s,
      fs_reserved := (demo_client x, demo_network w, now) # fs_reserved s\<rparr>"
proof -
  let ?k = "demo_key c" let ?cfg = "demo_faucet cd ret" let ?C = "demo_client x" let ?N = "demo_network w"
  let ?r = "demo_row c ?C ?N now Dispatching"
  have none: "\<forall>r \<in> set rows. quoteHash r \<noteq> demo_key c"
    using assms(1) by (auto simp: find_claim_def find_None_iff)
  have upd: "update_claim ?k u (rows @ [demo_row c ?C ?N t st n att up code]) = rows @ [u (demo_row c ?C ?N t st n att up code)]"
    for u t st n att up code
    using none by (induction rows) (auto simp: update_claim_def)
  have fnd: "find_claim ?k (rows @ [demo_row c ?C ?N t st n att up code]) = Some (demo_row c ?C ?N t st n att up code)" for t st n att up code
    using assms(1) by (simp add: find_claim_append)
  have 1: "faucet_step demoM ?cfg (Claim now [c] x w) s = s\<lparr>fs_tasks := (fs_tasks s)(?k \<mapsto> (?C, Await_quote [c] ?C ?N))\<rparr>"
    using assms(1-3) by (simp add: Let_def claimExclusive_def set_task_def demo_client_def demo_network_def)
  let ?s1 = "s\<lparr>fs_tasks := (fs_tasks s)(?k \<mapsto> (?C, Await_quote [c] ?C ?N))\<rparr>"
  have 2: "faucet_step demoM ?cfg (Answer now ?k (quote_reply c)) ?s1 =
     s\<lparr>fs_tasks := (fs_tasks s)(?k \<mapsto> (?C, Await_invoice [c] ?C ?N (demo_quote c)))\<rparr>"
    using assms(1-4) by (simp add: resume_task_def getQuote_demo after_quote_def set_task_def)
  let ?s2 = "s\<lparr>fs_tasks := (fs_tasks s)(?k \<mapsto> (?C, Await_invoice [c] ?C ?N (demo_quote c)))\<rparr>"
  let ?s3 = "s\<lparr>fs_rows := rows @ [?r 1 (Some now) now None],
     fs_tasks := (fs_tasks s)(?k \<mapsto> (?C, Await_send (?r 0 None now None) (?r 1 (Some now) now None))),
     fs_sent := (?k, Some (demo_invoice c), now) # fs_sent s,
     fs_decoded := (demo_invoice c, demo_decoded c) # fs_decoded s, fs_reserved := (?C, ?N, now) # fs_reserved s\<rparr>"
  have 3: "faucet_step demoM ?cfg (Answer now ?k (invoice_reply c)) ?s2 = ?s3"
    using assms(3,5) by (simp add: resume_task_def parseInvoice_demo after_invoice_def rv assertOwner_def
      dispatch_def markAttempt_def Let_def upd require_claim_def fnd set_task_def log_invoice_def log_reserved_def)
  have 4: "faucet_step demoM ?cfg (Answer now ?k Unreachable) ?s3 = 
     s\<lparr>fs_rows := rows @ [demo_row c ?C ?N now Recoverable 1 (Some now) now (Some ''dispatch_unknown'')],
      fs_pass := release_pass (demo_key c) (fs_pass s),
      fs_sent := (demo_key c, Some (demo_invoice c), now) # fs_sent s,
      fs_decoded := (demo_invoice c, demo_decoded c) # fs_decoded s,
      fs_reserved := (?C, ?N, now) # fs_reserved s\<rparr>"
    using assms(2) by (simp add: resume_task_def sendPayment_demo after_send_def settle_def transition_def Let_def upd require_claim_def fnd set_task_def finished_def fun_upd_idem)
  show ?thesis unfolding first_try_def run_machine_simps 1 2 3 4 ..
qed


lemma second_try:
  assumes t: "fs_tasks s (demo_key c) = Some (cl, Await_stored_quote (demo_row c client network t0 st 1 (Some t1) u code))"
    and st: "st \<noteq> Failed" "code \<noteq> Some ''payment_hash_mismatch''" "t1 + 10 \<le> now" "now < 900000"
    and f: "find_claim (demo_key c) (fs_rows s) = Some r"
  shows "run_machine (faucet_step demoM (demo_faucet cd ret)) (second_try now c) s =
    s\<lparr>fs_rows := update_claim (demo_key c) (moved now Recoverable (Some ''dispatch_unknown''))
        (update_claim (demo_key c) (attempted now) (fs_rows s)),
      fs_tasks := (fs_tasks s)(demo_key c := None), fs_pass := release_pass (demo_key c) (fs_pass s),
      fs_sent := (demo_key c, Some (demo_invoice c), now) # fs_sent s\<rparr>"
proof -
  let ?k = "demo_key c" let ?cfg = "demo_faucet cd ret"
  let ?r = "demo_row c client network t0 st 1 (Some t1) u code"
  let ?rows1 = "update_claim ?k (attempted now) (fs_rows s)"
  let ?s1 = "s\<lparr>fs_tasks := (fs_tasks s)(?k \<mapsto> (cl, Await_payment ?r (demo_quote c)))\<rparr>"
  let ?s2 = "s\<lparr>fs_rows := ?rows1, fs_tasks := (fs_tasks s)(?k \<mapsto> (cl, Await_send ?r (attempted now r))),
    fs_sent := (?k, Some (demo_invoice c), now) # fs_sent s\<rparr>"
  have m: "markAttempt now ?k (fs_rows s) = (Inr (attempted now r), ?rows1)"
    using f by (simp add: markAttempt_cases apply_change.simps)
  have req: "require_claim ?k (update_claim ?k (moved now Recoverable x) ?rows1) =
      Inr (moved now Recoverable x (attempted now r))" for x
    using find_apply_change[of ?k now ?k "Move Recoverable x" ?rows1]
      find_apply_change[of ?k now ?k Attempt "fs_rows s"] f
    by (simp add: require_claim_def apply_change.simps)
  have 1: "faucet_step demoM ?cfg (Answer now ?k (quote_reply c)) s = ?s1"
    using t st(1) by (simp add: resume_task_def getQuote_demo reconcile_def set_task_def)
  have 2: "faucet_step demoM ?cfg (Answer now ?k not_found_reply) ?s1 = ?s2"
    using st by (simp add: resume_task_def getPayment_demo after_payment_def attempted_recently_def
        dispatch_def m set_task_def)
  have 3: "faucet_step demoM ?cfg (Answer now ?k Unreachable) ?s2 =
      s\<lparr>fs_rows := update_claim ?k (moved now Recoverable (Some ''dispatch_unknown'')) ?rows1,
        fs_tasks := (fs_tasks s)(?k := None), fs_pass := release_pass ?k (fs_pass s),
        fs_sent := (?k, Some (demo_invoice c), now) # fs_sent s\<rparr>"
    by (simp add: resume_task_def sendPayment_demo after_send_def settle_def transition_def Let_def req
        set_task_def finished_def)
  show ?thesis unfolding second_try_def run_machine_simps 1 2 3 ..
qed

subsection \<open>Runs of the service\<close>

text \<open>The stored rows of two claims whose payment call got no reply.\<close>

abbreviation rA :: claim_record where
  "rA \<equiv> demo_row (CHR ''a'') (demo_client ''x'') (demo_network ''n'') 0 Recoverable 1 (Some 0) 0
     (Some ''dispatch_unknown'')"

abbreviation rB :: claim_record where
  "rB \<equiv> demo_row (CHR ''b'') (demo_client ''y'') (demo_network ''m'') 1 Recoverable 1 (Some 1) 1
     (Some ''dispatch_unknown'')"

abbreviation ka :: string where
  "ka \<equiv> demo_key (CHR ''a'')"

abbreviation kb :: string where
  "kb \<equiv> demo_key (CHR ''b'')"

lemma demo_ids [simp]:
  "demo_client x = demo_client y \<longleftrightarrow> x = y" "demo_network x = demo_network y \<longleftrightarrow> x = y"
  by (auto simp: demo_client_def demo_network_def identifierHash_def demoM_def)

lemma reserve_demo:
  assumes "find_claim (demo_key c) rows = None" "recent_claim (demo_client x) (now - cd) rows = None"
    "network_count (demo_network w) (startOfUtcDay now) rows = 0" "day_count (startOfUtcDay now) rows < 25"
    "\<forall>r \<in> set rows. paymentHash r \<noteq> Some (demo_hash c)"
  shows "reserve now (reserve_input (demo_faucet cd ret) (demo_key c) [c] (demo_client x) (demo_network w)
      (demo_quote c) (demo_hash c)) rows =
    (Inr (demo_row c (demo_client x) (demo_network w) now Dispatching 0 None now None, True),
     rows @ [demo_row c (demo_client x) (demo_network w) now Dispatching 0 None now None])"
proof -
  have "\<forall>r \<in> set rows. quoteHash r \<noteq> demo_key c" using assms(1) by (auto simp: find_claim_def find_None_iff)
  with assms show ?thesis
    by (auto simp: reserve_def reserve_input_def insert_claim_def new_claim_def demo_row_def)
qed

lemma first_a: "run_machine (faucet_step demoM (demo_faucet cd ret)) (first_try 0 (CHR ''a'') ''x'' ''n'') (faucet_start []) =
   \<lparr>fs_rows = [rA], fs_tasks = (\<lambda>_. None), fs_pass = None, fs_sent = [(demo_key (CHR ''a''), Some (demo_invoice (CHR ''a'')), 0)],
      fs_decoded = [(demo_invoice (CHR ''a''), demo_decoded (CHR ''a''))], fs_reserved = [(demo_client ''x'', demo_network ''n'', 0)]\<rparr>"
  by (subst first_try[of _ "[]"]) (simp_all add: faucet_start_def reserve_demo[of _ "[]", simplified] find_claim_def release_pass_def
     recent_claim_def network_count_def day_count_def)


text \<open>
  A pass lists the claims \<open>a\<close> and \<open>b\<close> and waits for the mint about \<open>a\<close>; meanwhile the client of \<open>b\<close> asks
  again and \<open>b\<close> is paid for the second time; then the pass comes to its own, old copy of \<open>b\<close>.
\<close>

definition stale_run :: "faucet_event list" where
  "stale_run =
     first_try 0 (CHR ''a'') ''x'' ''n'' @ first_try 1 (CHR ''b'') ''y'' ''m'' @
     [Pass_start 100, Pass_next 100, Claim 101 ''b'' ''y'' ''m''] @ second_try 101 (CHR ''b'') @
     [Answer 200 (demo_key (CHR ''a'')) Unreachable, Pass_next 200] @ second_try 200 (CHR ''b'')"

lemma both: "run_machine (faucet_step demoM (demo_faucet 60 ret)) (first_try 0 (CHR ''a'') ''x'' ''n'' @ first_try 1 (CHR ''b'') ''y'' ''m'') (faucet_start []) =
   \<lparr>fs_rows = [rA, rB], fs_tasks = (\<lambda>_. None), fs_pass = None,
     fs_sent = [(kb, Some (demo_invoice (CHR ''b'')), 1), (ka, Some (demo_invoice (CHR ''a'')), 0)],
     fs_decoded = [(demo_invoice (CHR ''b''), demo_decoded (CHR ''b'')), (demo_invoice (CHR ''a''), demo_decoded (CHR ''a''))],
     fs_reserved = [(demo_client ''y'', demo_network ''m'', 1), (demo_client ''x'', demo_network ''n'', 0)]\<rparr>"
  unfolding run_machine_append first_a
  by (subst first_try[of _ "[rA]"]) (simp_all add: reserve_demo find_claim_def release_pass_def
     recent_claim_def network_count_def day_count_def)

lemma taken: "run_machine (faucet_step demoM (demo_faucet 60 ret)) [Pass_start 100, Pass_next 100, Claim 101 ''b'' ''y'' ''m'']
   \<lparr>fs_rows = [rA, rB], fs_tasks = (\<lambda>_. None), fs_pass = None, fs_sent = S, fs_decoded = D, fs_reserved = R\<rparr> =
   \<lparr>fs_rows = [rA, rB], fs_tasks = [ka \<mapsto> (demo_client ''x'', Await_stored_quote rA), kb \<mapsto> (demo_client ''y'', Await_stored_quote rB)],
     fs_pass = Some ([rB], Some ka), fs_sent = S, fs_decoded = D, fs_reserved = R\<rparr>"
  by (simp add: open_claims_def is_open_claim_def reconcileStored_def set_task_def Let_def claimExclusive_def find_claim_def assertOwner_def
     demo_client_def[symmetric] fun_eq_iff)

lemma stale_sends: "sends (run_machine (faucet_step demoM (demo_faucet 60 3600)) stale_run (faucet_start [])) kb = [200, 101, 1]"
proof -
  let ?run = "run_machine (faucet_step demoM (demo_faucet 60 3600))"
  let ?B = "demo_row (CHR ''b'') (demo_client ''y'') (demo_network ''m'') 1 Recoverable 2 (Some 101) 101 (Some ''dispatch_unknown'')"
  let ?i = "Some (demo_invoice (CHR ''b''))"
  have r: "update_claim kb u [rA, x] = [rA, u x]" if "quoteHash x = kb" for u x
    using that by (simp add: update_claim_def)
  have 1: "?run (second_try 101 (CHR ''b''))
      \<lparr>fs_rows = [rA, rB],
       fs_tasks = [ka \<mapsto> (demo_client ''x'', Await_stored_quote rA), kb \<mapsto> (demo_client ''y'', Await_stored_quote rB)],
       fs_pass = Some ([rB], Some ka), fs_sent = S, fs_decoded = D, fs_reserved = R\<rparr> =
    \<lparr>fs_rows = [rA, ?B], fs_tasks = [ka \<mapsto> (demo_client ''x'', Await_stored_quote rA)],
       fs_pass = Some ([rB], Some ka), fs_sent = (kb, ?i, 101) # S, fs_decoded = D, fs_reserved = R\<rparr>" for S D R
    by (subst second_try) (simp_all add: find_claim_def update_claim_def release_pass_def fun_eq_iff numeral_2_eq_2, simp_all)
  have 2: "?run [Answer 200 ka Unreachable, Pass_next 200]
     \<lparr>fs_rows = [rA, ?B], fs_tasks = [ka \<mapsto> (demo_client ''x'', Await_stored_quote rA)],
       fs_pass = Some ([rB], Some ka), fs_sent = S, fs_decoded = D, fs_reserved = R\<rparr> =
     \<lparr>fs_rows = [rA, ?B], fs_tasks = [kb \<mapsto> (demo_client ''y'', Await_stored_quote rB)],
       fs_pass = Some ([], Some kb), fs_sent = S, fs_decoded = D, fs_reserved = R\<rparr>" for S D R
    by (simp add: resume_task_def getQuote_def set_task_def release_pass_def reconcileStored_def)
  have 3: "fs_sent (?run (second_try 200 (CHR ''b''))
     \<lparr>fs_rows = [rA, ?B], fs_tasks = [kb \<mapsto> (demo_client ''y'', Await_stored_quote rB)],
       fs_pass = Some ([], Some kb), fs_sent = S, fs_decoded = D, fs_reserved = R\<rparr>) = (kb, ?i, 200) # S" for S D R
    by (subst second_try) (simp_all add: find_claim_def, simp_all)
  show ?thesis
    unfolding stale_run_def run_machine_append both[unfolded run_machine_append] taken 1 2 sends_def 3 by simp
qed
text \<open>A claim, a pass that scrubs it an hour later, and a second claim from the same network.\<close>

definition bypass_run :: "faucet_event list" where
  "bypass_run =
     first_try 0 (CHR ''a'') ''x'' ''n'' @
     [Pass_start 3700, Pass_next 3700, Answer 3700 ka Unreachable, Pass_next 3700] @
     first_try 4000 (CHR ''b'') ''y'' ''n''"

lemma bypass_reserved:
  "fs_reserved (run_machine (faucet_step demoM (demo_faucet 60 3600)) bypass_run (faucet_start [])) =
     [(demo_client ''y'', demo_network ''n'', 4000), (demo_client ''x'', demo_network ''n'', 0)]"
proof -
  let ?run = "run_machine (faucet_step demoM (demo_faucet 60 3600))"
  have scrubbed: "?run [Pass_start 3700, Pass_next 3700, Answer 3700 ka Unreachable, Pass_next 3700]
      \<lparr>fs_rows = [rA], fs_tasks = (\<lambda>_. None), fs_pass = None, fs_sent = S, fs_decoded = D, fs_reserved = R\<rparr> =
     \<lparr>fs_rows = [scrubbed rA], fs_tasks = (\<lambda>_. None), fs_pass = None, fs_sent = S, fs_decoded = D, fs_reserved = R\<rparr>"
    for S D R
    by (simp add: open_claims_def is_open_claim_def reconcileStored_def set_task_def resume_task_def getQuote_def
        release_pass_def scrub_def is_sensitive_def fun_eq_iff)
  have fields: "quoteHash (scrubbed r) = quoteHash r" "clientHash (scrubbed r) = None"
    "networkHash (scrubbed r) = None" "paymentHash (scrubbed r) = None" "createdAt (scrubbed r) = createdAt r"
    for r :: claim_record
    by (simp_all add: scrubbed_def)
  show ?thesis
    unfolding bypass_run_def run_machine_append first_a scrubbed
    by (subst first_try[of _ "[scrubbed rA]"])
      (simp_all add: reserve_demo find_claim_def recent_claim_def network_count_def day_count_def fields)
qed

end
