(* ===== verification/Faucet_Properties.thy ===== *)
theory Faucet_Properties
  imports Faucet_Demo
begin

section \<open>Faucet: the properties\<close>

text \<open>
  A run of the service starts with an empty table and takes any events in any order. \<open>run_faucet\<close>
  names the state it leaves.
\<close>

definition run_faucet ::
  "(string \<Rightarrow> string \<Rightarrow> string) \<Rightarrow> faucet_config \<Rightarrow> faucet_event list \<Rightarrow> faucet_service" where
  "run_faucet M cfg es = run_machine (faucet_step M cfg) es (faucet_start [])"

lemma demo_first_run:
  "run_faucet demoM (demo_faucet 60 3600) (first_try 0 (CHR ''a'') ''x'' ''n'') =
     \<lparr>fs_rows = [rA], fs_tasks = (\<lambda>_. None), fs_pass = None, fs_sent = [(ka, Some (demo_invoice (CHR ''a'')), 0)],
      fs_decoded = [(demo_invoice (CHR ''a''), demo_decoded (CHR ''a''))],
      fs_reserved = [(demo_client ''x'', demo_network ''n'', 0)]\<rparr>"
  unfolding run_faucet_def by (rule first_a)

text \<open>
  C9. Refinement: in every run, every event of the service is a sequence of the atomic moves of the
  abstract machine \<open>service_move\<close>: a payment call always comes with its attempt already counted in the row,
  from a record attempted at most once and not recently, and a row appears only through a
  reservation within the limits and for a verified invoice.
\<close>

theorem faucet_refines_moves:
  "service_moves cfg False (faucet_time e) (run_faucet M cfg es) (faucet_step M cfg e (run_faucet M cfg es))"
proof -
  have "tasks_ok (run_machine (faucet_step M cfg) es s)" if "tasks_ok s" for s
    using that by (induction es arbitrary: s) (simp_all add: faucet_step_tasks_ok)
  from this[OF tasks_ok_start] show ?thesis
    unfolding run_faucet_def by (intro faucet_step_moves) simp_all
qed

text \<open>
  C10. The faucet pays only verified invoices: whenever \<open>sendPayment\<close> is called, in any run, the
  Fiber node has decoded that very invoice before, and its currency, its exact amount in base units
  and its asset script were the configured ones.
\<close>

theorem faucet_pays_verified:
  assumes "(k, i, t) \<in> set (fs_sent (run_faucet M cfg es))"
  shows "\<exists>x d. i = Some x \<and> (x, d) \<in> set (fs_decoded (run_faucet M cfg es)) \<and>
    pi_currency d = fc_invoiceCurrency cfg \<and> int (pi_amount d) = fc_amount cfg * fc_unitScale cfg \<and>
    pi_udtScript d = Some (fc_udtScript cfg)"
proof -
  have "evidence_ok cfg (faucet_start [])"
    by (simp add: evidence_ok_def faucet_start_def pass_records_def)
  from evidences.run_ok[OF tasks_ok_start this] have "evidence_ok cfg (run_faucet M cfg es)"
    by (simp add: run_faucet_def)
  from evidence_okD(4)[OF this assms] obtain x d where
    "i = Some x" "(x, d) \<in> set (fs_decoded (run_faucet M cfg es))" "invoice_matches cfg d"
    by (auto simp: evidence_def)
  then show ?thesis
    by (auto simp: invoice_matches_def sameUdtScript_def intro!: exI[of _ d] split: option.splits)
qed

theorem faucet_pays_verified_witness:
  "\<exists>d. (demo_invoice (CHR ''a''), d) \<in>
      set (fs_decoded (run_faucet demoM (demo_faucet 60 3600) (first_try 0 (CHR ''a'') ''x'' ''n''))) \<and>
     int (pi_amount d) = 1"
proof -
  have "(ka, Some (demo_invoice (CHR ''a'')), 0) \<in>
      set (fs_sent (run_faucet demoM (demo_faucet 60 3600) (first_try 0 (CHR ''a'') ''x'' ''n'')))"
    by (simp add: demo_first_run)
  from faucet_pays_verified[OF this] show ?thesis by (auto simp: demo_faucet_def)
qed

text \<open>
  C11. Attempts are written before they are made: at every moment of every run, across crashes, the
  row of a quote counts at least as many attempts as there were calls of \<open>sendPayment\<close> for it.
\<close>

theorem faucet_counts_first:
  "length (sends (run_faucet M cfg es) k) \<le> attempts_of (run_faucet M cfg es) k"
proof -
  have "counted (faucet_start [])" by (simp add: counted_def sends_def faucet_start_def)
  from counting.run_ok[OF tasks_ok_start this, of M cfg es] show ?thesis
    by (simp add: counted_def run_faucet_def)
qed

text \<open>
  C12. At most two payments: in a run whose reconciliation passes take up only records that agree with
  their rows, \<open>sendPayment\<close> is called at most twice for a quote, and the second call comes no
  earlier than the recovery delay after the first.
\<close>

theorem faucet_two_sends:
  assumes "fresh_run M cfg es (faucet_start [])"
  shows "length (sends (run_faucet M cfg es) k) \<le> 2 \<and>
    spaced (fc_recoveryDelaySeconds cfg) (sends (run_faucet M cfg es) k)"
proof -
  have "two_sends_ok cfg (faucet_start [])"
    by (simp add: two_sends_ok_def sends_def faucet_start_def find_claim_def spaced_def)
  from two_sends.run_ok[OF tasks_ok_start this] assms have "two_sends_ok cfg (run_faucet M cfg es)"
    by (simp add: run_faucet_def)
  from two_sendsD(3,4)[OF this] show ?thesis by blast
qed

theorem faucet_two_sends_witness:
  "length (sends (run_faucet demoM (demo_faucet 60 3600) (first_try 0 (CHR ''a'') ''x'' ''n'')) ka) \<le> 2"
proof -
  have "fresh_run demoM (demo_faucet 60 3600) (first_try 0 (CHR ''a'') ''x'' ''n'') (faucet_start [])"
    unfolding first_try_def by (simp add: fresh_event_def del: faucet_step.simps)
  from faucet_two_sends[OF this, of ka] show ?thesis by simp
qed

text \<open>
  C13. The bound needs its hypothesis: a pass that comes to a record it read before the client's own
  retry pays a third time, 99 seconds after an attempt that the row has recorded.
\<close>

theorem faucet_stale_pass_pays_again:
  "sends (run_faucet demoM (demo_faucet 60 3600) stale_run) (demo_key (CHR ''b'')) = [200, 101, 1]"
  unfolding run_faucet_def by (rule stale_sends)

text \<open>
  C14. The daily budget: in every run, and whatever the clock does, no UTC day has more created
  claims than the configured daily limit.
\<close>

theorem faucet_daily_budget:
  "int (claims_of_day day (fs_rows (run_faucet M cfg es))) \<le> max 0 (fc_dailyClaimLimit cfg)"
proof -
  have "budget_ok cfg (faucet_start [])" by (simp add: budget_ok_def faucet_start_def claims_of_day_def)
  from budget.run_ok[OF tasks_ok_start this, of M es] show ?thesis by (simp add: budget_ok_def run_faucet_def)
qed

text \<open>
  C15. The client's cool-down: while the clock does not go back, two claims created for the same
  client are at least the cool-down apart, although rows lose their client after the retention
  time, for every configuration that loads.
\<close>

theorem faucet_client_cooldown:
  assumes "faucet_loadConfig U N env = Inr cfg" "sorted (map faucet_time es)"
  shows "cooldown_ok (fc_clientCooldownSeconds cfg) (fs_reserved (run_faucet M cfg es))"
proof -
  have "fc_clientCooldownSeconds cfg \<le> fc_sensitiveRetentionSeconds cfg"
    using assms(1) by (auto simp: faucet_loadConfig_def bindR_Inr Let_def split: if_splits)
  moreover have "\<exists>cur. limits_ok cfg cur (run_faucet M cfg es)"
    unfolding run_faucet_def by (rule limits_run[OF assms(2)])
  ultimately show ?thesis by (auto simp: limits_ok_def)
qed

theorem faucet_client_cooldown_witness:
  "cooldown_ok 60 (fs_reserved (run_faucet demoM (demo_faucet 60 3600) (first_try 0 (CHR ''a'') ''x'' ''n'')))"
proof -
  have "sorted (map faucet_time (first_try 0 (CHR ''a'') ''x'' ''n''))" by (simp add: first_try_def)
  from faucet_client_cooldown[OF demo_faucet_load this, of demoM] show ?thesis by (simp add: demo_faucet_def)
qed

text \<open>
  C16. The network's daily cap: while the clock does not go back and the retention is at least one
  day, no network address has more claims created in a UTC day than its limit.
\<close>

theorem faucet_network_cap:
  assumes "86400 \<le> fc_sensitiveRetentionSeconds cfg" "sorted (map faucet_time es)"
  shows "int (network_claims network day (fs_reserved (run_faucet M cfg es))) \<le>
    max 0 (fc_networkDailyClaimLimit cfg)"
  using limits_run[OF assms(2), of cfg M] assms(1) by (auto simp: limits_ok_def network_ok_def run_faucet_def)

theorem faucet_network_cap_witness:
  "int (network_claims (demo_network ''n'') 0
     (fs_reserved (run_faucet demoM (demo_faucet 60 86400) (first_try 0 (CHR ''a'') ''x'' ''n'')))) \<le> 1"
proof -
  have "sorted (map faucet_time (first_try 0 (CHR ''a'') ''x'' ''n''))" by (simp add: first_try_def)
  from faucet_network_cap[OF _ this, of "demo_faucet 60 86400"] show ?thesis by (simp add: demo_faucet_def)
qed

text \<open>
  C17. Without that much retention the cap is void: a configuration that loads, with a limit of one
  claim a day for a network, lets the same network have two claims in one day, since the pass scrubs
  the network of the first after an hour.
\<close>

theorem faucet_network_cap_bypassed:
  "\<exists>U N env cfg es. faucet_loadConfig U N env = Inr cfg \<and> fc_networkDailyClaimLimit cfg = 1 \<and>
     sorted (map faucet_time es) \<and>
     network_claims (demo_network ''n'') 0 (fs_reserved (run_faucet demoM cfg es)) = 2"
proof (intro exI conjI)
  show "faucet_loadConfig demo_faucet_parser (\<lambda>_. JNull) demo_faucet_env = Inr (demo_faucet 60 3600)"
    by (rule demo_faucet_load)
  show "fc_networkDailyClaimLimit (demo_faucet 60 3600) = 1" by simp
  show "sorted (map faucet_time bypass_run)" by (simp add: bypass_run_def first_try_def)
  show "network_claims (demo_network ''n'') 0
      (fs_reserved (run_faucet demoM (demo_faucet 60 3600) bypass_run)) = 2"
    unfolding run_faucet_def bypass_reserved by (simp add: network_claims_def)
qed

text \<open>
  C18. Ownership: a claim of another browser for a quote that already belongs to a client changes no row, starts
  no task and pays nothing.
\<close>

theorem faucet_foreign_claim:
  assumes "find_claim (identifierHash M (fc_identifierSecret cfg) ''quote'' qid) (fs_rows s) = Some r"
    and "clientHash r = Some owner" "owner \<noteq> []"
    and "owner \<noteq> identifierHash M (fc_identifierSecret cfg) ''client'' clientId"
  shows "fs_rows (faucet_step M cfg (Claim now qid clientId networkId) s) = fs_rows s \<and>
    fs_tasks (faucet_step M cfg (Claim now qid clientId networkId) s) = fs_tasks s \<and>
    fs_sent (faucet_step M cfg (Claim now qid clientId networkId) s) = fs_sent s"
  using assms
  by (cases "fs_tasks s (identifierHash M (fc_identifierSecret cfg) ''quote'' qid)")
    (auto simp: Let_def claimExclusive_def assertOwner_def set_task_def fun_upd_idem)

theorem faucet_foreign_claim_witness:
  "fs_sent (faucet_step demoM (demo_faucet 60 3600) (Claim 5 ''a'' ''z'' ''n'')
     (run_faucet demoM (demo_faucet 60 3600) (first_try 0 (CHR ''a'') ''x'' ''n''))) =
   [(ka, Some (demo_invoice (CHR ''a'')), 0)]"
proof -
  have "find_claim (identifierHash demoM (fc_identifierSecret (demo_faucet 60 3600)) ''quote'' ''a'')
      (fs_rows (run_faucet demoM (demo_faucet 60 3600) (first_try 0 (CHR ''a'') ''x'' ''n''))) = Some rA"
    by (simp add: demo_first_run find_claim_def)
  from faucet_foreign_claim[OF this, of "demo_client ''x''" "''z''" 5 "''n''"] show ?thesis
    by (simp add: demo_first_run demo_client_def identifierHash_def demoM_def del: faucet_step.simps)
qed

text \<open>
  C19. The decoder of asset scripts accepts exactly the packed scripts: a text decodes to a script if
  and only if it is, up to the case of its hexadecimal digits, the Molecule table of a 32-byte code
  hash, a known hash type and length-prefixed arguments, and then these parts are the result.
\<close>

theorem faucet_script_exact:
  "decodePackedScript (JStr text) = Inr script \<longleftrightarrow>
     has_hex_prefix text \<and>
     (\<exists>code ht args. to_lower text = hex_text (pack_script code ht args) \<and> length code = 32 \<and>
       53 + length args < 4294967296 \<and> hash_type_of ht = Some (us_hashType script) \<and>
       us_codeHash script = hex_text code \<and> us_args script = hex_text args)"
  by (rule decodePackedScript_iff)

text \<open>
  C20. Honest states: a reply moves a claim to paid or issued only when it reports so: the mint's quote is
  paid or issued, or the Fiber node reports a successful payment with the record's payment hash and
  a fee within the limit.
\<close>

theorem faucet_status_honest:
  assumes "fs_tasks s k = Some (client, pc)" "unpaid_at k (fs_rows s)"
    and "\<not> unpaid_at k (fs_rows (faucet_step M cfg (Answer now k reply) s))"
  shows "reported_paid cfg pc reply"
proof (rule ccontr)
  assume no: "\<not> reported_paid cfg pc reply"
  have "unpaid_at k (fs_rows (resume_task cfg now k reply client pc s))"
  proof (cases pc)
    case (Await_payment r quote)
    with no show ?thesis
      using assms(2) getPayment_Inr by (auto simp: resume_task_def reported_paid_def intro!: unpaid_after_payment)
  next
    case (Await_send r r')
    with no show ?thesis
      using assms(2) sendPayment_Inr
      by (auto simp: resume_task_def reported_paid_def finished_def intro!: unpaid_after_send)
  next
    case (Await_invoice qid c n quote)
    with no show ?thesis
      using assms(2) by (auto simp: resume_task_def reported_paid_def log_reserved_def unpaid_after_invoice)
  qed (use no assms(2) in \<open>auto simp: resume_task_def reported_paid_def unpaid_reconcile split: sum.splits\<close>)
  with assms(1,3) show False by simp
qed

theorem faucet_status_honest_witness:
  "reported_paid (demo_faucet 60 3600) (Await_stored_quote rA) (Reply 200 (Some (JObj
     [(''quote'', JStr ''a''), (''amount'', JInt 1), (''request'', JStr (demo_invoice (CHR ''a''))),
      (''unit'', JStr ''rusd''), (''pubkey'', JStr demo_pubkey), (''expiry'', JInt 1000000), (''state'', JStr ''PAID'')])))"
proof -
  let ?reply = "Reply 200 (Some (JObj
     [(''quote'', JStr ''a''), (''amount'', JInt 1), (''request'', JStr (demo_invoice (CHR ''a''))),
      (''unit'', JStr ''rusd''), (''pubkey'', JStr demo_pubkey), (''expiry'', JInt 1000000), (''state'', JStr ''PAID'')]))"
  have q: "getQuote ''a'' ?reply = Inr (demo_quote (CHR ''a'') \<lparr>mq_phase := Paid_quote\<rparr>)"
    using demo_pubkey_ok
  by (simp add: getQuote_def responseJson_def upstream_record_def read_mint_quote_def
      field_def integerLike_def is_safe_def max_safe_def optional_amount_def str_such_def demo_invoice_def
      demo_quote_def quote_phase_of_def to_lower_def lower_char_def to_upper_def upper_char_def char_of_def)
  have v: "validateQuote (demo_faucet 60 3600) (demo_quote (CHR ''a'') \<lparr>mq_phase := Paid_quote\<rparr>) (Some ''a'') = Inr ()"
    by (simp add: validateQuote_def demo_faucet_def)
  let ?s = "\<lparr>fs_rows = [rA], fs_tasks = [ka \<mapsto> (demo_client ''x'', Await_stored_quote rA)], fs_pass = None, fs_sent = [], fs_decoded = [], fs_reserved = []\<rparr>"
  show ?thesis
  proof (rule faucet_status_honest[of ?s ka _ _ demoM _ 50])
    show "\<not> unpaid_at ka (fs_rows (faucet_step demoM (demo_faucet 60 3600) (Answer 50 ka ?reply) ?s))"
      by (simp add: resume_task_def q v find_claim_def[of ka "[_]"] reconcile_def unpaid_at_def finished_def find_settle)
  qed (simp_all add: unpaid_at_def find_claim_def)
qed
end
