(* ===== verification/Faucet_Server.thy ===== *)
theory Faucet_Server
  imports Faucet_Service State_Machine
begin

section \<open>Faucet: HTTP server (faucet/src/server.ts, index.ts)\<close>

text \<open>
  The request handler of \<open>createFaucetServer\<close> around the claim service. A request is checked up to the
  point where it waits for its body; a claim then starts or joins the task of its quote and is answered
  when that task ends. Addresses are counted under their keyed hash. \<open>index.ts\<close> gives the passes and
  the restart.
\<close>

subsection \<open>Responses\<close>

text \<open>\<open>...(seconds ? {...} : {})\<close>: zero seconds are left out.\<close>

definition retry_truthy :: "int option \<Rightarrow> int option" where
  "retry_truthy retry = (if retry = Some 0 then None else retry)"

definition retry_member :: "int option \<Rightarrow> fields" where
  "retry_member retry = (case retry_truthy retry of None \<Rightarrow> [] | Some t \<Rightarrow> [(''retry_after_seconds'', JInt t)])"

definition faucet_json :: "string option \<Rightarrow> nat \<Rightarrow> json \<Rightarrow> int option \<Rightarrow> http_response" where
  "faucet_json origin status body retry =
     \<lparr>rs_status = status, rs_body = Some body, rs_origin = origin, rs_retry = retry_truthy retry\<rparr>"

definition faucet_fail :: "string option \<Rightarrow> faucet_error \<Rightarrow> http_response" where
  "faucet_fail origin e =
     faucet_json origin (fe_status e) (JObj ((''error'', JStr (fe_code e)) # retry_member (fe_retry e))) (fe_retry e)"

fun public_status_text :: "public_status \<Rightarrow> string" where
  "public_status_text Paying = ''paying''"
| "public_status_text Paid_claim = ''paid''"
| "public_status_text Issued_claim = ''issued''"
| "public_status_text Failed_claim = ''failed''"
| "public_status_text Recoverable_claim = ''recoverable''"

definition claim_response :: "string option \<Rightarrow> faucet_error + claim_result \<Rightarrow> http_response" where
  "claim_response origin r =
     (case r of
        Inl e \<Rightarrow> faucet_fail origin e
      | Inr c \<Rightarrow>
          faucet_json origin (if cl_status c \<in> {Paying, Recoverable_claim} then 202 else 200)
            (JObj ([(''status'', JStr (public_status_text (cl_status c))), (''amount'', JInt (cl_amount c)),
                    (''unit'', JStr (cl_unit c))] @ retry_member (cl_retryAfter c)))
            (cl_retryAfter c))"

definition config_json :: "public_faucet_config \<Rightarrow> json" where
  "config_json p = JObj
     [(''enabled'', JBool (pc_enabled p)), (''amount'', JInt (pc_amount p)), (''unit'', JStr (pc_unit p)),
      (''network'', JStr (pc_network p)), (''mint'', JStr (pc_mint p)),
      (''cooldownSeconds'', JInt (pc_cooldownSeconds p)), (''remainingToday'', JInt (pc_remainingToday p))]"

definition stats_json :: "faucet_stats \<Rightarrow> json" where
  "stats_json st = JObj
     [(''claimsTotal'', JInt (int (claimsTotal st))), (''claimsToday'', JInt (int (claimsToday st))),
      (''paidTotal'', JInt (int (paidTotal st))), (''issuedTotal'', JInt (int (issuedTotal st)))]"

subsection \<open>The handler\<close>

definition remoteAddress :: "bool \<Rightarrow> http_request \<Rightarrow> string" where
  "remoteAddress trustProxy request =
     (let first = (case rq_forwarded request of None \<Rightarrow> [] | Some h \<Rightarrow> trim (hd (split_on (CHR '','') h)))
      in if trustProxy \<and> first \<noteq> [] \<and> length first \<le> 128 then first
         else (case rq_address request of None \<Rightarrow> ''unknown'' | Some a \<Rightarrow> a))"

definition too_many :: faucet_error where
  "too_many = FaucetError 429 ''rate_limited'' (Some 60)"

definition faucet_rate ::
  "faucet_config \<Rightarrow> int \<Rightarrow> string \<Rightarrow> rate_table \<Rightarrow> (faucet_error + unit) \<times> rate_table" where
  "faucet_rate cfg minute k rate =
     (let full = (map_of rate k = None \<and> 10000 \<le> length rate);
          room = (if full then rate_prune minute rate else rate)
      in if full \<and> 10000 \<le> length room then (Inl too_many, room)
         else
           let n = next_count minute k room; counted = rate_set minute k n room
           in (if fc_maxRequestsPerMinute cfg < int n then Inl too_many else Inr (), counted))"

text \<open>Answered at once, or waiting for the body of a claim: its origin and its address.\<close>

datatype faucet_arrival = Answered http_response | Reading "string option" string

definition faucet_route ::
  "faucet_config \<Rightarrow> int \<Rightarrow> http_request \<Rightarrow> string option \<Rightarrow> string \<Rightarrow> url \<Rightarrow> claim_rows \<Rightarrow> faucet_arrival" where
  "faucet_route cfg now request origin address u rows =
     (if search u \<noteq> [] then Answered (faucet_fail origin (plain_error 400 ''query_forbidden''))
      else if rq_method request = ''GET'' \<and> pathname u = ''/healthz''
      then Answered (faucet_json origin 200 (JObj [(''status'', JStr ''ok'')]) None)
      else if rq_method request = ''GET'' \<and> pathname u = ''/v1/config''
      then Answered (faucet_json origin 200 (config_json (publicConfig cfg now rows)) None)
      else if rq_method request = ''GET'' \<and> pathname u = ''/v1/stats''
      then Answered (faucet_json origin 200 (stats_json (claim_stats now rows)) None)
      else if rq_method request = ''POST'' \<and> pathname u = ''/v1/claims''
      then (if \<not> is_json_type (rq_content_type request)
            then Answered (faucet_fail origin (plain_error 415 ''content_type''))
            else Reading origin address)
      else Answered (faucet_fail origin (plain_error 404 ''not_found'')))"

definition faucet_rate_key ::
  "(string \<Rightarrow> string \<Rightarrow> string) \<Rightarrow> faucet_config \<Rightarrow> http_request \<Rightarrow> string" where
  "faucet_rate_key M cfg request =
     identifierHash M (fc_identifierSecret cfg) ''rate'' (remoteAddress (fc_trustProxy cfg) request)"

definition faucet_arrive ::
  "(string \<Rightarrow> string \<Rightarrow> string) \<Rightarrow> (string \<Rightarrow> string \<Rightarrow> url option) \<Rightarrow> faucet_config \<Rightarrow> int \<Rightarrow> http_request \<Rightarrow>
   claim_rows \<Rightarrow> rate_table \<Rightarrow> faucet_arrival \<times> rate_table" where
  "faucet_arrive M UB cfg ms request rows rate =
     (case cors plain_error (fc_allowedOrigins cfg) (rq_origin request) of
        Inl e \<Rightarrow> (Answered (faucet_fail None e), rate)
      | Inr origin \<Rightarrow>
          if rq_method request = ''OPTIONS''
          then (Answered \<lparr>rs_status = 204, rs_body = None, rs_origin = origin, rs_retry = None\<rparr>, rate)
          else
            (case faucet_rate cfg (ms div 60000) (faucet_rate_key M cfg request) rate of
               (Inl e, rate') \<Rightarrow> (Answered (faucet_fail origin e), rate')
             | (Inr _, rate') \<Rightarrow>
                 (case UB (rq_target request) (fc_publicOrigin cfg) of
                    None \<Rightarrow> Answered (faucet_fail origin internal_fault)
                  | Some u \<Rightarrow> faucet_route cfg (ms div 1000) request origin
                      (remoteAddress (fc_trustProxy cfg) request) u rows, rate')))"

text \<open>A completed body, or \<open>None\<close> for a request whose stream broke.\<close>

definition claim_input ::
  "(string \<Rightarrow> json option) \<Rightarrow> faucet_config \<Rightarrow> string list option \<Rightarrow> faucet_error + claim_request" where
  "claim_input J cfg chunks =
     (case chunks of
        None \<Rightarrow> Inl internal_fault
      | Some cs \<Rightarrow> bindR (read_body plain_error J (fc_bodyLimitBytes cfg) cs) parseClaimRequest)"

text \<open>How the task of a quote goes on after the reply it waits for.\<close>

definition resume_outcome ::
  "faucet_config \<Rightarrow> int \<Rightarrow> string \<Rightarrow> http_reply \<Rightarrow> claim_pc \<Rightarrow> claim_rows \<Rightarrow> outcome" where
  "resume_outcome cfg now k reply pc rows =
     (case pc of
        Await_quote qid c network \<Rightarrow> after_quote cfg now qid c network (getQuote qid reply)
      | Await_invoice qid c network quote \<Rightarrow> fst (after_invoice cfg now k qid c network quote (parseInvoice reply) rows)
      | Await_stored_quote record \<Rightarrow>
          (case getQuote (case quoteId record of None \<Rightarrow> [] | Some q \<Rightarrow> q) reply of
             Inl e \<Rightarrow> Finished (Inl e)
           | Inr quote \<Rightarrow> fst (reconcile cfg now record quote rows))
      | Await_payment record quote \<Rightarrow>
          fst (after_payment cfg now record quote (getPayment (fc_maxFeeBaseUnits cfg) reply) rows)
      | Await_send input record \<Rightarrow>
          Finished (fst (after_send cfg now input record (sendPayment (fc_maxFeeBaseUnits cfg) reply) rows)))"

subsection \<open>The server as a machine\<close>

text \<open>
  \<open>fv_reading\<close> holds the handlers that wait for a body, by a number of the request, and \<open>fv_waiting\<close> those
  that wait for the task of a quote. \<open>fv_replies\<close> and \<open>fv_admitted\<close> record, for the theorems only, the
  responses sent and the key and minute of every request past the rate check.
\<close>

record faucet_server =
  fv_rate :: rate_table
  fv_service :: faucet_service
  fv_reading :: "nat \<Rightarrow> (string option \<times> string) option"
  fv_waiting :: "(nat \<times> string option \<times> string) list"
  fv_replies :: "(nat \<times> http_response) list"
  fv_admitted :: "(string \<times> int) list"

definition faucet_server_start :: "faucet_service \<Rightarrow> faucet_server" where
  "faucet_server_start service =
     \<lparr>fv_rate = [], fv_service = service, fv_reading = (\<lambda>_. None), fv_waiting = [], fv_replies = [], fv_admitted = []\<rparr>"

datatype faucet_server_event =
    Request_in nat int http_request
  | Body_in nat int "string list option"
  | Reply_in int string http_reply
  | Pass_in int
  | Pass_record_in int
  | Restart_in int

definition faucet_admits ::
  "(string \<Rightarrow> string \<Rightarrow> string) \<Rightarrow> faucet_config \<Rightarrow> int \<Rightarrow> http_request \<Rightarrow> rate_table \<Rightarrow> bool" where
  "faucet_admits M cfg ms request rate \<longleftrightarrow>
     (\<exists>o'. cors plain_error (fc_allowedOrigins cfg) (rq_origin request) = Inr o') \<and>
     rq_method request \<noteq> ''OPTIONS'' \<and>
     fst (faucet_rate cfg (ms div 60000) (faucet_rate_key M cfg request) rate) = Inr ()"

definition respond :: "nat \<Rightarrow> http_response \<Rightarrow> faucet_server \<Rightarrow> faucet_server" where
  "respond n r s = s\<lparr>fv_replies := (n, r) # fv_replies s\<rparr>"

text \<open>The claim of a parsed body: \<open>FaucetService.claim\<close>, which joins a running task of the same browser.\<close>

definition serve_claim ::
  "(string \<Rightarrow> string \<Rightarrow> string) \<Rightarrow> faucet_config \<Rightarrow> nat \<Rightarrow> int \<Rightarrow> string option \<Rightarrow> string \<Rightarrow> claim_request \<Rightarrow>
   faucet_server \<Rightarrow> faucet_server" where
  "serve_claim M cfg n now origin address input s =
     (let k = identifierHash M (fc_identifierSecret cfg) ''quote'' (cr_quoteId input);
          client = identifierHash M (fc_identifierSecret cfg) ''client'' (cr_clientId input);
          network = identifierHash M (fc_identifierSecret cfg) ''network'' address;
          service = fv_service s;
          s' = s\<lparr>fv_service := faucet_step M cfg (Claim now (cr_quoteId input) (cr_clientId input) address) service\<rparr>;
          waits = s'\<lparr>fv_waiting := fv_waiting s @ [(n, origin, k)]\<rparr>
      in case fs_tasks service k of
           Some (active, _) \<Rightarrow>
             if active \<noteq> client then respond n (claim_response origin (Inl (plain_error 404 ''claim_not_found''))) s'
             else waits
         | None \<Rightarrow>
             (case fst (claimExclusive cfg k (cr_quoteId input) client network (fs_rows service)) of
                Finished r \<Rightarrow> respond n (claim_response origin r) s'
              | Waiting _ \<Rightarrow> waits))"

text \<open>The end of a task answers every handler that waits for it.\<close>

definition answer_waiting :: "string \<Rightarrow> faucet_error + claim_result \<Rightarrow> faucet_server \<Rightarrow> faucet_server" where
  "answer_waiting k r s =
     s\<lparr>fv_waiting := filter (\<lambda>(n, origin, k'). k' \<noteq> k) (fv_waiting s),
       fv_replies := map (\<lambda>(n, origin, k'). (n, claim_response origin r)) (filter (\<lambda>(n, origin, k'). k' = k) (fv_waiting s))
         @ fv_replies s\<rparr>"

fun faucet_serve ::
  "(string \<Rightarrow> string \<Rightarrow> string) \<Rightarrow> (string \<Rightarrow> string \<Rightarrow> url option) \<Rightarrow> (string \<Rightarrow> json option) \<Rightarrow> faucet_config \<Rightarrow>
   faucet_server_event \<Rightarrow> faucet_server \<Rightarrow> faucet_server" where
  "faucet_serve M UB J cfg (Request_in n ms request) s =
     (if fv_reading s n \<noteq> None then s
      else
        (let (result, rate') = faucet_arrive M UB cfg ms request (fs_rows (fv_service s)) (fv_rate s);
             s' = s\<lparr>fv_rate := rate',
                    fv_admitted := (if faucet_admits M cfg ms request (fv_rate s)
                      then (faucet_rate_key M cfg request, ms div 60000) # fv_admitted s else fv_admitted s)\<rparr>
         in case result of
              Answered r \<Rightarrow> respond n r s'
            | Reading origin address \<Rightarrow> s'\<lparr>fv_reading := (fv_reading s)(n \<mapsto> (origin, address))\<rparr>))"
| "faucet_serve M UB J cfg (Body_in n ms chunks) s =
     (case fv_reading s n of
        None \<Rightarrow> s
      | Some (origin, address) \<Rightarrow>
          (let s' = s\<lparr>fv_reading := (fv_reading s)(n := None)\<rparr>
           in case claim_input J cfg chunks of
                Inl e \<Rightarrow> respond n (faucet_fail origin e) s'
              | Inr input \<Rightarrow> serve_claim M cfg n (ms div 1000) origin address input s'))"
| "faucet_serve M UB J cfg (Reply_in ms k reply) s =
     (case fs_tasks (fv_service s) k of
        None \<Rightarrow> s
      | Some (client, pc) \<Rightarrow>
          (let s' = s\<lparr>fv_service := faucet_step M cfg (Answer (ms div 1000) k reply) (fv_service s)\<rparr>
           in case resume_outcome cfg (ms div 1000) k reply pc (fs_rows (fv_service s)) of
                Finished r \<Rightarrow> answer_waiting k r s'
              | Waiting _ \<Rightarrow> s'))"
| "faucet_serve M UB J cfg (Pass_in ms) s = s\<lparr>fv_service := faucet_step M cfg (Pass_start (ms div 1000)) (fv_service s)\<rparr>"
| "faucet_serve M UB J cfg (Pass_record_in ms) s =
     s\<lparr>fv_service := faucet_step M cfg (Pass_next (ms div 1000)) (fv_service s)\<rparr>"
| "faucet_serve M UB J cfg (Restart_in ms) s =
     faucet_server_start (faucet_step M cfg (Crash (ms div 1000)) (fv_service s))"

end
