(* ===== verification/Faucet_Server_Correct.thy ===== *)
theory Faucet_Server_Correct
  imports Faucet_Server Faucet_Demo
begin

section \<open>Faucet server: refinement and rate limit\<close>

text \<open>
  Every event of the server is at most one event of the claim service, so what holds of every run of the
  service holds behind the server; and the table of counts stays within its bound and its limit.
\<close>

subsection \<open>Tasks\<close>

abbreviation after_outcome :: "string \<Rightarrow> outcome \<Rightarrow> (string \<times> claim_pc) option" where
  "after_outcome client r \<equiv> (case r of Finished _ \<Rightarrow> None | Waiting pc \<Rightarrow> Some (client, pc))"

lemma tasks_set: "fs_tasks (set_task now k client r s) = (fs_tasks s)(k := after_outcome client (fst r))"
  by (auto simp: set_task_def split: prod.splits outcome.splits)

lemma tasks_resume:
  "fs_tasks (resume_task cfg now k reply client pc s) =
     (fs_tasks s)(k := after_outcome client (resume_outcome cfg now k reply pc (fs_rows s)))"
  by (auto simp: resume_task_def resume_outcome_def tasks_set log_reserved_def log_invoice_def finished_def
      split: claim_pc.splits sum.splits)

text \<open>The event of the service that an event of the server is.\<close>

fun forwarded ::
  "(string \<Rightarrow> json option) \<Rightarrow> faucet_config \<Rightarrow> faucet_server_event \<Rightarrow> faucet_server \<Rightarrow> faucet_event list" where
  "forwarded J cfg (Request_in n ms request) s = []"
| "forwarded J cfg (Body_in n ms chunks) s =
     (case (fv_reading s n, claim_input J cfg chunks) of
        (Some (origin, address), Inr input) \<Rightarrow> [Claim (ms div 1000) (cr_quoteId input) (cr_clientId input) address]
      | _ \<Rightarrow> [])"
| "forwarded J cfg (Reply_in ms k reply) s =
     (if fs_tasks (fv_service s) k = None then [] else [Answer (ms div 1000) k reply])"
| "forwarded J cfg (Pass_in ms) s = [Pass_start (ms div 1000)]"
| "forwarded J cfg (Pass_record_in ms) s = [Pass_next (ms div 1000)]"
| "forwarded J cfg (Restart_in ms) s = [Crash (ms div 1000)]"

lemma respond_sel [simp]:
  "fv_service (respond n r s) = fv_service s" "fv_reading (respond n r s) = fv_reading s"
  "fv_waiting (respond n r s) = fv_waiting s" "fv_rate (respond n r s) = fv_rate s"
  "fv_admitted (respond n r s) = fv_admitted s"
  by (simp_all add: respond_def)

lemma answer_waiting_sel [simp]:
  "fv_service (answer_waiting k r s) = fv_service s" "fv_reading (answer_waiting k r s) = fv_reading s"
  "fv_rate (answer_waiting k r s) = fv_rate s" "fv_admitted (answer_waiting k r s) = fv_admitted s"
  by (simp_all add: answer_waiting_def)

lemma serve_claim_sel:
  "fv_service (serve_claim M cfg n now origin address input s) =
     faucet_step M cfg (Claim now (cr_quoteId input) (cr_clientId input) address) (fv_service s)"
  "fv_reading (serve_claim M cfg n now origin address input s) = fv_reading s"
  "fv_rate (serve_claim M cfg n now origin address input s) = fv_rate s"
  "fv_admitted (serve_claim M cfg n now origin address input s) = fv_admitted s"
  by (simp_all add: serve_claim_def Let_def split: option.split prod.split outcome.split del: faucet_step.simps)

lemma serve_forwarded:
  "fv_service (faucet_serve M UB J cfg e s) = run_machine (faucet_step M cfg) (forwarded J cfg e s) (fv_service s)"
  by (cases e)
     (auto simp: Let_def serve_claim_sel faucet_server_start_def case_prod_beta simp del: faucet_step.simps
       split: option.split prod.split sum.split outcome.split faucet_arrival.split)

subsection \<open>Who waits\<close>

text \<open>The claims come from parsed bodies and carry the address of a request that has arrived.\<close>

definition arrived_from :: "faucet_config \<Rightarrow> faucet_server_event list \<Rightarrow> string \<Rightarrow> bool" where
  "arrived_from cfg es address =
     list_ex (\<lambda>e. case e of Request_in n ms request \<Rightarrow> address = remoteAddress (fc_trustProxy cfg) request | _ \<Rightarrow> False) es"

fun claim_from :: "faucet_config \<Rightarrow> faucet_server_event list \<Rightarrow> faucet_event \<Rightarrow> bool" where
  "claim_from cfg es (Claim now qid cid address) = (is_quote_id qid \<and> is_client_id cid \<and> arrived_from cfg es address)"
| "claim_from cfg es _ = True"

definition answered_later :: "faucet_server \<Rightarrow> bool" where
  "answered_later s = list_all (\<lambda>(n, origin, k). fs_tasks (fv_service s) k \<noteq> None) (fv_waiting s)"

definition reading_from :: "faucet_config \<Rightarrow> faucet_server_event list \<Rightarrow> faucet_server \<Rightarrow> bool" where
  "reading_from cfg es s \<longleftrightarrow> (\<forall>x \<in> ran (fv_reading s). arrived_from cfg es (snd x))"

lemma arrived_from_more: "arrived_from cfg es address \<Longrightarrow> arrived_from cfg (es @ later) address"
  by (simp add: arrived_from_def)

lemma claim_from_more: "claim_from cfg es fe \<Longrightarrow> claim_from cfg (es @ later) fe"
  by (cases fe) (auto intro: arrived_from_more)

lemma arrive_reading:
  "fst (faucet_arrive M UB cfg ms request rows rate) = Reading origin address \<Longrightarrow>
   address = remoteAddress (fc_trustProxy cfg) request"
  by (auto simp: faucet_arrive_def faucet_route_def split: sum.splits if_splits prod.splits option.splits)

text \<open>Only an arrival adds a handler that reads.\<close>

lemma serve_reading:
  "ran (fv_reading (faucet_serve M UB J cfg e s)) \<subseteq> ran (fv_reading s) \<union>
     {x. case e of Request_in n ms request \<Rightarrow> snd x = remoteAddress (fc_trustProxy cfg) request | _ \<Rightarrow> False}"
proof (cases e)
  case (Request_in n ms request)
  then show ?thesis
    using arrive_reading[of M UB cfg ms request]
    by (auto simp: Let_def case_prod_beta ran_def split: faucet_arrival.splits if_splits)
next
  case (Body_in n ms chunks)
  have "ran ((fv_reading s)(n := None)) \<subseteq> ran (fv_reading s)" by (auto simp: ran_def)
  then show ?thesis
    by (auto simp: Body_in Let_def serve_claim_sel simp del: faucet_step.simps split: option.split prod.split sum.split)
next
  case (Reply_in ms k reply)
  then show ?thesis
    by (simp add: Let_def del: faucet_step.simps split: option.split prod.split outcome.split)
qed (simp_all add: faucet_server_start_def del: faucet_step.simps)

lemma reading_from_step:
  assumes "reading_from cfg es s"
  shows "reading_from cfg (es @ [e]) (faucet_serve M UB J cfg e s)"
  unfolding reading_from_def
proof
  fix x
  assume "x \<in> ran (fv_reading (faucet_serve M UB J cfg e s))"
  then consider "x \<in> ran (fv_reading s)" | n ms request where "e = Request_in n ms request" "snd x = remoteAddress (fc_trustProxy cfg) request"
    using serve_reading[of M UB J cfg e s] by (cases e) auto
  then show "arrived_from cfg (es @ [e]) (snd x)"
    using assms by cases (auto simp: reading_from_def arrived_from_more, simp add: arrived_from_def)
qed

lemma parsed_claim: "claim_input J cfg chunks = Inr input \<Longrightarrow> is_quote_id (cr_quoteId input) \<and> is_client_id (cr_clientId input)"
  by (auto simp: claim_input_def result_simps parseClaimRequest_Inr split: option.splits)

lemma forwarded_from:
  assumes "reading_from cfg es s"
  shows "list_all (claim_from cfg (es @ [e])) (forwarded J cfg e s)"
proof (cases e)
  case (Body_in n ms chunks)
  show ?thesis
  proof (cases "fv_reading s n")
    case (Some x)
    then have "arrived_from cfg (es @ [e]) (snd x)"
      using assms arrived_from_more ranI[of "fv_reading s" n x] Some by (simp add: reading_from_def)
    with Some show ?thesis
      using parsed_claim[of J cfg chunks] by (cases x) (auto simp: Body_in split: sum.split)
  qed (simp add: Body_in)
qed simp_all

text \<open>A task that starts or goes on leaves every other task; a handler waits only for a running one.\<close>

lemma step_tasks:
  "fs_tasks (faucet_step M cfg (Claim now qid cid address) s) =
     (let k = identifierHash M (fc_identifierSecret cfg) ''quote'' qid;
          client = identifierHash M (fc_identifierSecret cfg) ''client'' cid;
          network = identifierHash M (fc_identifierSecret cfg) ''network'' address
      in if fs_tasks s k \<noteq> None then fs_tasks s
         else (fs_tasks s)(k := after_outcome client (fst (claimExclusive cfg k qid client network (fs_rows s)))))"
  "fs_tasks (faucet_step M cfg (Answer now k reply) s) =
     (case fs_tasks s k of
        None \<Rightarrow> fs_tasks s
      | Some (client, pc) \<Rightarrow>
          (fs_tasks s)(k := after_outcome client (resume_outcome cfg now k reply pc (fs_rows s))))"
  by (simp_all add: Let_def tasks_set tasks_resume split: option.split prod.split)

lemma pass_tasks:
  assumes "fs_tasks s k \<noteq> None"
  shows "fs_tasks (faucet_step M cfg (Pass_start now) s) k \<noteq> None"
    "fs_tasks (faucet_step M cfg (Pass_next now) s) k \<noteq> None"
  using assms by (auto simp: tasks_set split: option.splits list.splits prod.splits)

lemma answered_later_cong:
  "answered_later s \<Longrightarrow> fv_waiting s' = fv_waiting s \<Longrightarrow>
   (\<And>k. fs_tasks (fv_service s) k \<noteq> None \<Longrightarrow> fs_tasks (fv_service s') k \<noteq> None) \<Longrightarrow> answered_later s'"
  by (auto simp: answered_later_def list_all_iff split_beta simp del: split_paired_All not_None_eq)

lemma answered_later_step:
  assumes "answered_later s"
  shows "answered_later (faucet_serve M UB J cfg e s)"
proof (cases e)
  case (Request_in n ms request)
  with assms show ?thesis
    by (auto simp: answered_later_def Let_def case_prod_beta split: faucet_arrival.split)
next
  case (Body_in n ms chunks)
  have "answered_later (serve_claim M cfg n now origin address input t)"
    if "answered_later t" for now origin address input t
    using that
    by (auto simp: answered_later_def serve_claim_def Let_def step_tasks list_all_iff simp del: faucet_step.simps
        split: option.splits prod.splits outcome.splits)
  with assms show ?thesis
    by (auto simp: Body_in answered_later_def Let_def split: option.split prod.split sum.split)
next
  case (Reply_in ms k reply)
  with assms show ?thesis
    by (auto simp: answered_later_def answer_waiting_def Let_def step_tasks list_all_iff simp del: faucet_step.simps
        split: option.splits prod.splits outcome.splits)
next
  case (Pass_in ms)
  with assms show ?thesis
    by (elim answered_later_cong) (simp_all add: pass_tasks del: faucet_step.simps not_None_eq)
next
  case (Pass_record_in ms)
  with assms show ?thesis
    by (elim answered_later_cong) (simp_all add: pass_tasks del: faucet_step.simps not_None_eq)
qed (simp add: answered_later_def faucet_server_start_def)

text \<open>A whole run.\<close>

definition run_faucet_server ::
  "(string \<Rightarrow> string \<Rightarrow> string) \<Rightarrow> (string \<Rightarrow> string \<Rightarrow> url option) \<Rightarrow> (string \<Rightarrow> json option) \<Rightarrow> faucet_config \<Rightarrow>
   faucet_server_event list \<Rightarrow> faucet_server" where
  "run_faucet_server M UB J cfg es = run_machine (faucet_serve M UB J cfg) es (faucet_server_start (faucet_start []))"

lemma server_run:
  "reading_from cfg es (run_faucet_server M UB J cfg es) \<and> answered_later (run_faucet_server M UB J cfg es) \<and>
   (\<exists>fes. fv_service (run_faucet_server M UB J cfg es) = run_machine (faucet_step M cfg) fes (faucet_start []) \<and>
      list_all (claim_from cfg es) fes)"
proof (induction es rule: rev_induct)
  case Nil
  show ?case
    by (auto simp: run_faucet_server_def faucet_server_start_def reading_from_def answered_later_def intro!: exI[of _ "[]"])
next
  case (snoc e es)
  let ?s = "run_faucet_server M UB J cfg es"
  have run: "run_faucet_server M UB J cfg (es @ [e]) = faucet_serve M UB J cfg e ?s"
    by (simp add: run_faucet_server_def)
  obtain fes where fes: "fv_service ?s = run_machine (faucet_step M cfg) fes (faucet_start [])" "list_all (claim_from cfg es) fes"
    using snoc by blast
  have "list_all (claim_from cfg (es @ [e])) (fes @ forwarded J cfg e ?s)"
    using fes(2) claim_from_more forwarded_from[of cfg es ?s] snoc by (auto simp: list_all_iff)
  moreover have "fv_service (faucet_serve M UB J cfg e ?s) =
      run_machine (faucet_step M cfg) (fes @ forwarded J cfg e ?s) (faucet_start [])"
    by (simp add: serve_forwarded fes(1))
  ultimately show ?case
    using snoc reading_from_step answered_later_step unfolding run by blast
qed

subsection \<open>The table of counts\<close>

definition held_count :: "rate_table \<Rightarrow> string \<Rightarrow> int \<Rightarrow> nat" where
  "held_count rate k m =
     (case map_of rate k of None \<Rightarrow> 0 | Some e \<Rightarrow> if entry_minute e = m then entry_count e else 0)"

lemma next_held: "next_count m k rate = Suc (held_count rate k m)"
  by (simp add: next_count_def held_count_def split: option.split)

lemma held_set: "held_count (rate_set m k n rate) k' m = (if k' = k then n else held_count rate k' m)"
  by (simp add: held_count_def map_of_rate_set)

lemma held_prune: "rate_ok rate \<Longrightarrow> held_count (rate_prune m rate) k m = held_count rate k m"
  by (auto simp: held_count_def map_of_rate_prune split: option.split)

lemma length_update: "length (AList.update k v xs) = (if map_of xs k = None then Suc (length xs) else length xs)"
  by (induction xs) auto

lemma length_rate_set: "length (rate_set m k n rate) = (if map_of rate k = None then Suc (length rate) else length rate)"
  by (simp add: rate_set_def length_update)

lemma faucet_rate_effect:
  assumes "rate_ok rate" "length rate \<le> 10000" "faucet_rate cfg m k rate = (res, rate')"
  shows "rate_ok rate'" "length rate' \<le> 10000"
    "held_count rate k' m \<le> held_count rate' k' m"
    "res = Inr () \<Longrightarrow> held_count rate' k m = Suc (held_count rate k m) \<and> int (held_count rate' k m) \<le> fc_maxRequestsPerMinute cfg"
proof -
  define room where "room = (if map_of rate k = None \<and> 10000 \<le> length rate then rate_prune m rate else rate)"
  have room: "rate_ok room" "held_count room k' m = held_count rate k' m" for k'
    using assms(1) by (simp_all add: room_def held_prune)
  have short: "length room \<le> 10000"
    using assms(2) order_trans[OF length_filter_le assms(2)] by (simp add: room_def rate_prune_def)
  note facts = assms(3)[unfolded faucet_rate_def, folded room_def] room short
  have cases: "rate' = room \<and> res = Inl too_many \<or>
      rate' = rate_set m k (Suc (held_count rate k m)) room \<and> (map_of room k = None \<longrightarrow> length room < 10000) \<and>
      (res = Inr () \<longrightarrow> int (Suc (held_count rate k m)) \<le> fc_maxRequestsPerMinute cfg)"
    using facts by (auto simp: Let_def next_held room_def split: if_splits)
  show "rate_ok rate'" "length rate' \<le> 10000"
    using cases room short by (auto simp: length_rate_set)
  show "held_count rate k' m \<le> held_count rate' k' m"
    using cases room(2) by (auto simp: held_set)
  show "held_count rate' k m = Suc (held_count rate k m) \<and> int (held_count rate' k m) \<le> fc_maxRequestsPerMinute cfg"
    if "res = Inr ()"
    using cases that by (auto simp: held_set)
qed

definition counts_ok :: "faucet_config \<Rightarrow> int \<Rightarrow> faucet_server \<Rightarrow> bool" where
  "counts_ok cfg cur s \<longleftrightarrow>
     rate_ok (fv_rate s) \<and> length (fv_rate s) \<le> 10000 \<and>
     (\<forall>k m. int (count_list (fv_admitted s) (k, m)) \<le> max 0 (fc_maxRequestsPerMinute cfg)) \<and>
     (\<forall>k m. cur < m \<longrightarrow> count_list (fv_admitted s) (k, m) = 0) \<and>
     (\<forall>k. count_list (fv_admitted s) (k, cur) \<le> held_count (fv_rate s) k cur)"

lemma counts_later: "counts_ok cfg cur s \<Longrightarrow> cur \<le> cur' \<Longrightarrow> counts_ok cfg cur' s"
  by (cases "cur = cur'") (auto simp: counts_ok_def)

lemma counts_cong:
  "counts_ok cfg cur s \<Longrightarrow> fv_rate s' = fv_rate s \<Longrightarrow> fv_admitted s' = fv_admitted s \<Longrightarrow> counts_ok cfg cur s'"
  by (simp add: counts_ok_def)

lemma counts_start: "counts_ok cfg cur (faucet_server_start service)"
  by (simp add: counts_ok_def faucet_server_start_def rate_ok_def)

fun server_time :: "faucet_server_event \<Rightarrow> int" where
  "server_time (Request_in _ ms _) = ms"
| "server_time (Body_in _ ms _) = ms"
| "server_time (Reply_in ms _ _) = ms"
| "server_time (Pass_in ms) = ms"
| "server_time (Pass_record_in ms) = ms"
| "server_time (Restart_in ms) = ms"

lemma arrive_rate:
  "snd (faucet_arrive M UB cfg ms request rows rate) =
     (if (\<exists>o'. cors plain_error (fc_allowedOrigins cfg) (rq_origin request) = Inr o') \<and> rq_method request \<noteq> ''OPTIONS''
      then snd (faucet_rate cfg (ms div 60000) (faucet_rate_key M cfg request) rate) else rate)"
  by (auto simp: faucet_arrive_def split: sum.splits prod.splits)

lemma counts_arrive:
  assumes "counts_ok cfg (ms div 60000) s"
    and "fv_rate s' = snd (faucet_arrive M UB cfg ms request rows (fv_rate s))"
    and "fv_admitted s' = (if faucet_admits M cfg ms request (fv_rate s)
      then (faucet_rate_key M cfg request, ms div 60000) # fv_admitted s else fv_admitted s)"
  shows "counts_ok cfg (ms div 60000) s'"
proof (cases "(\<exists>o'. cors plain_error (fc_allowedOrigins cfg) (rq_origin request) = Inr o') \<and> rq_method request \<noteq> ''OPTIONS''")
  case False
  then have "\<not> faucet_admits M cfg ms request (fv_rate s)" by (auto simp: faucet_admits_def)
  with False assms(2,3) show ?thesis by (intro counts_cong[OF assms(1)]) (auto simp: arrive_rate)
next
  case True
  let ?m = "ms div 60000" and ?k = "faucet_rate_key M cfg request"
  obtain res rate' where rr: "faucet_rate cfg ?m ?k (fv_rate s) = (res, rate')" by (cases "faucet_rate cfg ?m ?k (fv_rate s)")
  have adm: "faucet_admits M cfg ms request (fv_rate s) \<longleftrightarrow> res = Inr ()" using True by (simp add: faucet_admits_def rr)
  have rate: "fv_rate s' = rate'" using True assms(2) by (simp add: arrive_rate rr)
  have ok: "rate_ok (fv_rate s)" "length (fv_rate s) \<le> 10000" using assms(1) by (simp_all add: counts_ok_def)
  note effect = faucet_rate_effect[OF ok rr]
  have below: "count_list (fv_admitted s) (k, ?m) \<le> held_count (fv_rate s) k ?m" for k
    using assms(1) by (simp add: counts_ok_def)
  show ?thesis
  proof (cases "res = Inr ()")
    case False
    then show ?thesis
      using assms(1) effect(1,2) le_trans[OF below effect(3)] by (auto simp: counts_ok_def rate assms(3) adm)
  next
    case True
    have "count_list (fv_admitted s') (k, ?m) \<le> held_count rate' k ?m" for k
      using effect(4)[OF True] below[of k] le_trans[OF below effect(3), of k] by (auto simp: assms(3) adm True)
    moreover have "1 + int (count_list (fv_admitted s) (?k, ?m)) \<le> fc_maxRequestsPerMinute cfg"
      using effect(4)[OF True] below[of ?k] by linarith
    then have "int (count_list (fv_admitted s') (k, m)) \<le> max 0 (fc_maxRequestsPerMinute cfg)" for k m
      using assms(1) by (auto simp: counts_ok_def assms(3) adm True)
    ultimately show ?thesis
      using assms(1) effect(1,2) by (auto simp: counts_ok_def rate assms(3) adm True)
  qed
qed

lemma counts_step:
  assumes "counts_ok cfg (server_time e div 60000) s"
  shows "counts_ok cfg (server_time e div 60000) (faucet_serve M UB J cfg e s)"
proof (cases e)
  case (Request_in n ms request)
  show ?thesis
  proof (cases "fv_reading s n")
    case None
    show ?thesis
      unfolding Request_in server_time.simps
      by (rule counts_arrive[of cfg ms s _ M UB request "fs_rows (fv_service s)"])
         (use assms None in \<open>simp_all add: Request_in Let_def case_prod_beta split: faucet_arrival.split\<close>)
  qed (use assms in \<open>simp add: Request_in\<close>)
next
  case (Body_in n ms chunks)
  then show ?thesis
    by (intro counts_cong[OF assms])
       (simp_all add: Let_def serve_claim_sel del: faucet_step.simps split: option.split prod.split sum.split)
next
  case (Reply_in ms k reply)
  then show ?thesis
    by (intro counts_cong[OF assms])
       (simp_all add: Let_def del: faucet_step.simps split: option.split prod.split outcome.split)
qed (use assms in \<open>auto intro: counts_cong counts_start simp del: faucet_step.simps\<close>)

lemma counts_run:
  assumes "sorted (map server_time es)" "counts_ok cfg cur s" "\<forall>e \<in> set es. cur \<le> server_time e div 60000"
  shows "\<exists>cur'. counts_ok cfg cur' (run_machine (faucet_serve M UB J cfg) es s)"
  using assms
proof (induction es arbitrary: s cur)
  case (Cons e es)
  have now: "counts_ok cfg (server_time e div 60000) s" using counts_later Cons.prems by fastforce
  have "\<forall>e' \<in> set es. server_time e div 60000 \<le> server_time e' div 60000"
    using Cons.prems(1) by (auto intro: zdiv_mono1)
  with Cons.IH[OF _ counts_step[OF now]] Cons.prems(1) show ?case by auto
qed auto

section \<open>Faucet server: the properties\<close>

text \<open>
  C21. Refinement: behind every run of the HTTP server the claim service runs one of its own runs.
\<close>

theorem faucet_server_refines:
  "\<exists>fes. fv_service (run_faucet_server M UB J cfg es) = run_machine (faucet_step M cfg) fes (faucet_start []) \<and>
     list_all (claim_from cfg es) fes \<and>
     list_all (\<lambda>(n, origin, k). fs_tasks (fv_service (run_faucet_server M UB J cfg es)) k \<noteq> None)
       (fv_waiting (run_faucet_server M UB J cfg es))"
  using server_run[of cfg es M UB J] by (auto simp: answered_later_def)

text \<open>
  The rate limit and its table.
\<close>

theorem faucet_server_rate:
  assumes "sorted (map server_time es)"
  shows "int (count_list (fv_admitted (run_faucet_server M UB J cfg es)) (k, minute)) \<le> max 0 (fc_maxRequestsPerMinute cfg) \<and>
    length (fv_rate (run_faucet_server M UB J cfg es)) \<le> 10000"
proof -
  have "\<exists>cur. counts_ok cfg cur (run_faucet_server M UB J cfg es)"
  proof (cases es)
    case (Cons e es')
    have "\<forall>x \<in> set es. server_time e div 60000 \<le> server_time x div 60000"
      using assms by (auto simp: Cons intro: zdiv_mono1)
    from counts_run[OF assms counts_start this] show ?thesis unfolding run_faucet_server_def .
  qed (auto simp: run_faucet_server_def intro: counts_start)
  then show ?thesis by (auto simp: counts_ok_def)
qed

definition demo_visit :: http_request where
  "demo_visit =
     \<lparr>rq_method = ''GET'', rq_target = ''/healthz'', rq_origin = None, rq_authorization = None, rq_content_type = None,
      rq_forwarded = None, rq_address = Some ''::1''\<rparr>"

lemma faucet_server_rate_witness:
  "int (count_list (fv_admitted (run_faucet_server demoM (\<lambda>t b. None) (\<lambda>t. None) (demo_faucet 60 3600)
     [Request_in 1 1000 demo_visit, Request_in 2 61000 demo_visit]))
     (faucet_rate_key demoM (demo_faucet 60 3600) demo_visit, 1)) \<le> max 0 (fc_maxRequestsPerMinute (demo_faucet 60 3600))"
proof -
  have "sorted (map server_time [Request_in 1 1000 demo_visit, Request_in 2 61000 demo_visit])" by simp
  from faucet_server_rate[OF this] show ?thesis by blast
qed

end
