(* ===== verification/Effects.thy ===== *)
theory Effects
  imports Prelude
begin

section \<open>Operations with effects\<close>

text \<open>
  The asynchronous methods of the applications are functions from a session state to a result and
  the state they leave: \<open>('s, 'e, 'a) effect\<close>. A \<open>throw\<close> is the result \<open>Inl e\<close>, and it keeps
  what was done to the state before it, as an exception in the code does. \<open>outcome m Q E s\<close>
  says what holds of the result and the state: \<open>Q\<close> after a return, \<open>E\<close> after a throw. The rules
  in \<open>outcomes\<close> pull such a statement back through an operation one call at a time.
\<close>

type_synonym ('s, 'e, 'a) effect = "'s \<Rightarrow> ('e + 'a) \<times> 's"

named_theorems outcomes \<open>statements about the result and the state an operation leaves\<close>

definition returnM :: "'a \<Rightarrow> ('s, 'e, 'a) effect" where
  "returnM x s = (Inr x, s)"

definition throwM :: "'e \<Rightarrow> ('s, 'e, 'a) effect" where
  "throwM e s = (Inl e, s)"

definition bindM :: "('s, 'e, 'a) effect \<Rightarrow> ('a \<Rightarrow> ('s, 'e, 'b) effect) \<Rightarrow> ('s, 'e, 'b) effect" where
  "bindM m f s = (case m s of (Inl e, s') \<Rightarrow> (Inl e, s') | (Inr x, s') \<Rightarrow> f x s')"

text \<open>\<open>try { m } catch (e) { h e }\<close>, and the same where the rest of the method follows the try.\<close>

definition catchM :: "('s, 'e, 'a) effect \<Rightarrow> ('e \<Rightarrow> ('s, 'e, 'a) effect) \<Rightarrow> ('s, 'e, 'a) effect" where
  "catchM m h s = (case m s of (Inl e, s') \<Rightarrow> h e s' | (Inr x, s') \<Rightarrow> (Inr x, s'))"

definition tryM ::
  "('s, 'e, 'a) effect \<Rightarrow> ('e \<Rightarrow> ('s, 'e, 'b) effect) \<Rightarrow> ('a \<Rightarrow> ('s, 'e, 'b) effect) \<Rightarrow>
   ('s, 'e, 'b) effect" where
  "tryM m h f s = (case m s of (Inl e, s') \<Rightarrow> h e s' | (Inr x, s') \<Rightarrow> f x s')"

definition readM :: "('s \<Rightarrow> 'a) \<Rightarrow> ('s, 'e, 'a) effect" where
  "readM f s = (Inr (f s), s)"

definition guardM :: "bool \<Rightarrow> 'e \<Rightarrow> ('s, 'e, unit) effect" where
  "guardM b e s = (if b then Inr () else Inl e, s)"

definition liftM :: "'e + 'a \<Rightarrow> ('s, 'e, 'a) effect" where
  "liftM r s = (r, s)"

text \<open>A value that must be there: \<open>if (!x) throw e\<close>, and the value afterwards.\<close>

definition needM :: "'a option \<Rightarrow> 'e \<Rightarrow> ('s, 'e, 'a) effect" where
  "needM v e s = (case v of None \<Rightarrow> (Inl e, s) | Some x \<Rightarrow> (Inr x, s))"

definition outcome ::
  "('s, 'e, 'a) effect \<Rightarrow> ('a \<Rightarrow> 's \<Rightarrow> bool) \<Rightarrow> ('e \<Rightarrow> 's \<Rightarrow> bool) \<Rightarrow> 's \<Rightarrow> bool" where
  "outcome m Q E s = (case m s of (Inl e, s') \<Rightarrow> E e s' | (Inr x, s') \<Rightarrow> Q x s')"

lemma outcome_return [outcomes]: "outcome (returnM x) Q E s \<longleftrightarrow> Q x s"
  by (simp add: outcome_def returnM_def)

lemma outcome_throw [outcomes]: "outcome (throwM e) Q E s \<longleftrightarrow> E e s"
  by (simp add: outcome_def throwM_def)

lemma outcome_bind [outcomes]:
  "outcome (bindM m f) Q E s \<longleftrightarrow> outcome m (\<lambda>x. outcome (f x) Q E) E s"
  by (simp add: outcome_def bindM_def split: prod.splits sum.splits)

lemma outcome_catch [outcomes]:
  "outcome (catchM m h) Q E s \<longleftrightarrow> outcome m Q (\<lambda>e. outcome (h e) Q E) s"
  by (simp add: outcome_def catchM_def split: prod.splits sum.splits)

lemma outcome_try [outcomes]:
  "outcome (tryM m h f) Q E s \<longleftrightarrow> outcome m (\<lambda>x. outcome (f x) Q E) (\<lambda>e. outcome (h e) Q E) s"
  by (simp add: outcome_def tryM_def split: prod.splits sum.splits)

lemma outcome_read [outcomes]: "outcome (readM f) Q E s \<longleftrightarrow> Q (f s) s"
  by (simp add: outcome_def readM_def)

lemma outcome_guard [outcomes]: "outcome (guardM b e) Q E s \<longleftrightarrow> (if b then Q () s else E e s)"
  by (simp add: outcome_def guardM_def)

lemma outcome_lift [outcomes]:
  "outcome (liftM r) Q E s \<longleftrightarrow> (case r of Inl e \<Rightarrow> E e s | Inr x \<Rightarrow> Q x s)"
  by (simp add: outcome_def liftM_def)

lemma outcome_need [outcomes]:
  "outcome (needM v e) Q E s \<longleftrightarrow> (case v of None \<Rightarrow> E e s | Some x \<Rightarrow> Q x s)"
  by (simp add: outcome_def needM_def split: option.splits)

lemma outcome_if [outcomes]:
  "outcome (if b then m else n) Q E s \<longleftrightarrow> (if b then outcome m Q E s else outcome n Q E s)"
  by simp

lemma outcome_mono:
  assumes "outcome m Q E s" "\<And>x t. Q x t \<Longrightarrow> Q' x t" "\<And>e t. E e t \<Longrightarrow> E' e t"
  shows "outcome m Q' E' s"
  using assms by (auto simp: outcome_def split: prod.splits sum.splits)

lemma outcome_conj:
  "outcome m (\<lambda>x t. Q x t \<and> R x t) (\<lambda>e t. E e t \<and> F e t) s \<longleftrightarrow> outcome m Q E s \<and> outcome m R F s"
  by (auto simp: outcome_def split: prod.splits sum.splits)

text \<open>\<open>keeps I m\<close>: the operation keeps \<open>I\<close>, whether it returns or throws.\<close>

definition keeps :: "('s \<Rightarrow> bool) \<Rightarrow> ('s, 'e, 'a) effect \<Rightarrow> bool" where
  "keeps I m \<longleftrightarrow> (\<forall>s. I s \<longrightarrow> I (snd (m s)))"

lemma keeps_outcome: "keeps I m \<longleftrightarrow> (\<forall>s. I s \<longrightarrow> outcome m (\<lambda>_. I) (\<lambda>_. I) s)"
  by (auto simp: keeps_def outcome_def split: prod.splits sum.splits)
     (metis snd_conv sum.exhaust surj_pair)+

lemma keepsD: "keeps I m \<Longrightarrow> I s \<Longrightarrow> I (snd (m s))"
  by (simp add: keeps_def)

text \<open>Reading a statement about an outcome off the pair that the operation returns.\<close>

lemma outcome_InrD: "outcome m Q E s \<Longrightarrow> m s = (Inr x, s') \<Longrightarrow> Q x s'"
  by (simp add: outcome_def)

lemma outcome_InlD: "outcome m Q E s \<Longrightarrow> m s = (Inl e, s') \<Longrightarrow> E e s'"
  by (simp add: outcome_def)

lemma outcome_snd: "outcome m (\<lambda>_. P) (\<lambda>_. P) s \<longleftrightarrow> P (snd (m s))"
  by (simp add: outcome_def split: prod.splits sum.splits)

lemma bindM_cong [fundef_cong]:
  "m s = m' s' \<Longrightarrow> (\<And>x t. m' s' = (Inr x, t) \<Longrightarrow> f x t = f' x t) \<Longrightarrow> bindM m f s = bindM m' f' s'"
  by (auto simp: bindM_def split: prod.splits sum.splits)

end
