(* ===== verification/Wallet_Types.thy ===== *)
theory Wallet_Types
  imports Js_Value Effects
begin

section \<open>The records of the wallet and of the market\<close>

text \<open>
  The operations both applications keep (\<open>wallet/src/domain/operations.ts\<close>), the quotes and
  previews of the wallet library, and the market's payments, orders and snapshot
  (\<open>market/src/domain/types.ts\<close>). An optional field is an \<open>option\<close>; a field that JavaScript
  computes from foreign amounts is a \<open>number\<close>, \<open>None\<close> for \<open>NaN\<close>. Proofs and prepared outputs are
  objects of the cashu-ts package: they stay JSON values and the code reads single members of them.
\<close>

type_synonym number = "int option"
type_synonym cashu_proof = json
type_synonym output_data = json

definition num_add :: "number \<Rightarrow> number \<Rightarrow> number" where
  "num_add a b = (case (a, b) of (Some i, Some j) \<Rightarrow> Some (js_add i j) | _ \<Rightarrow> None)"

text \<open>\<open>a < b\<close>: a comparison with \<open>NaN\<close> is false.\<close>

definition num_less :: "number \<Rightarrow> number \<Rightarrow> bool" where
  "num_less a b = (case (a, b) of (Some i, Some j) \<Rightarrow> i < j | _ \<Rightarrow> False)"

definition num_safe :: "number \<Rightarrow> bool" where
  "num_safe a = (case a of None \<Rightarrow> False | Some i \<Rightarrow> is_safe i)"

text \<open>A constructor of an enumeration with its text, and the text read back.\<close>

definition enum_of :: "('a \<Rightarrow> string) \<Rightarrow> 'a list \<Rightarrow> string \<Rightarrow> 'a option" where
  "enum_of txt all s = find (\<lambda>x. txt x = s) all"

lemma enum_of_text:
  assumes "x \<in> set all" "inj_on txt (set all)"
  shows "enum_of txt all (txt x) = Some x"
  using assms unfolding enum_of_def
  by (induction all) (auto simp: inj_on_def)

lemma enum_of_Some: "enum_of txt all s = Some x \<Longrightarrow> txt x = s \<and> x \<in> set all"
  by (auto simp: enum_of_def find_Some_iff)

subsection \<open>Stored previews and quotes\<close>

record swap_preview =
  sw_amount :: number
  sw_fees :: number
  sw_keyset :: string
  sw_inputs :: "cashu_proof list"
  sw_send :: "output_data list option"
  sw_keep :: "output_data list option"
  sw_unselected :: "cashu_proof list option"

datatype quote_state = UNPAID | PENDING | PAID

record stored_melt_quote =
  smq_quote :: string
  smq_amount :: number
  smq_feeReserve :: number
  smq_unit :: string
  smq_state :: quote_state
  smq_expiry :: int
  smq_request :: string

subsection \<open>Operations\<close>

record base_operation =
  op_id :: string
  op_amount :: number
  op_createdAt :: int
  op_updatedAt :: int
  op_mintUrl :: string
  op_unit :: string
  op_note :: "string option"
  op_error :: "string option"

datatype add_state =
  Add_awaiting | Add_observed | Add_issuing | Add_settled | Add_expired | Add_recoverable | Add_failed

record add_operation = base_operation +
  add_state :: add_state
  add_quoteId :: string
  add_invoice :: string
  add_expiry :: "int option"
  add_faucet :: bool
  add_quotePubkey :: "string option"
  add_quotePrivateKey :: "string option"
  add_outputData :: "output_data list option"
  add_keysetId :: "string option"
  add_legacySignature :: "string option"
  add_payloadSignature :: "string option"

datatype send_state =
  Send_preparing | Send_awaiting | Send_accepted | Send_reclaiming | Send_reclaimed | Send_recovery

record send_operation = base_operation +
  snd_state :: send_state
  snd_fee :: "number option"
  snd_token :: "string option"
  snd_requestId :: "string option"
  snd_swap :: "swap_preview option"

datatype receive_state =
  Rcv_detected | Rcv_checking | Rcv_securing | Rcv_settled | Rcv_recoverable | Rcv_failed

record receive_operation = base_operation +
  rcv_state :: receive_state
  rcv_requestId :: "string option"
  rcv_requestedAmount :: "number option"
  rcv_token :: "string option"
  rcv_swap :: "swap_preview option"

datatype cash_out_state = Out_dispatching | Out_pending | Out_paid | Out_failed | Out_unknown

record cash_out_operation = base_operation +
  co_state :: cash_out_state
  co_invoice :: string
  co_quote :: stored_melt_quote
  co_cashuFee :: "number option"
  co_reserved :: "cashu_proof list option"
  co_outputData :: "output_data list option"
  co_keysetId :: "string option"
  co_recoverySwap :: "swap_preview option"

datatype wallet_operation =
    Add add_operation
  | Send send_operation
  | Receive receive_operation
  | CashOut cash_out_operation

fun base_of :: "wallet_operation \<Rightarrow> base_operation" where
  "base_of (Add x) = base_operation.truncate x"
| "base_of (Send x) = base_operation.truncate x"
| "base_of (Receive x) = base_operation.truncate x"
| "base_of (CashOut x) = base_operation.truncate x"

subsection \<open>Texts of the states\<close>

fun quote_state_text :: "quote_state \<Rightarrow> string" where
  "quote_state_text UNPAID = ''UNPAID''"
| "quote_state_text PENDING = ''PENDING''"
| "quote_state_text PAID = ''PAID''"

fun add_state_text :: "add_state \<Rightarrow> string" where
  "add_state_text Add_awaiting = ''awaiting_payment''"
| "add_state_text Add_observed = ''payment_observed''"
| "add_state_text Add_issuing = ''issuing''"
| "add_state_text Add_settled = ''settled''"
| "add_state_text Add_expired = ''expired''"
| "add_state_text Add_recoverable = ''recoverable''"
| "add_state_text Add_failed = ''failed''"

fun send_state_text :: "send_state \<Rightarrow> string" where
  "send_state_text Send_preparing = ''preparing''"
| "send_state_text Send_awaiting = ''awaiting_acceptance''"
| "send_state_text Send_accepted = ''accepted''"
| "send_state_text Send_reclaiming = ''reclaiming''"
| "send_state_text Send_reclaimed = ''reclaimed''"
| "send_state_text Send_recovery = ''recovery_required''"

fun receive_state_text :: "receive_state \<Rightarrow> string" where
  "receive_state_text Rcv_detected = ''detected''"
| "receive_state_text Rcv_checking = ''checking''"
| "receive_state_text Rcv_securing = ''securing''"
| "receive_state_text Rcv_settled = ''settled''"
| "receive_state_text Rcv_recoverable = ''recoverable''"
| "receive_state_text Rcv_failed = ''failed''"

fun cash_out_state_text :: "cash_out_state \<Rightarrow> string" where
  "cash_out_state_text Out_dispatching = ''dispatching''"
| "cash_out_state_text Out_pending = ''pending''"
| "cash_out_state_text Out_paid = ''paid''"
| "cash_out_state_text Out_failed = ''failed''"
| "cash_out_state_text Out_unknown = ''unknown''"

definition quote_states :: "quote_state list" where
  "quote_states = [UNPAID, PENDING, PAID]"

definition add_states :: "add_state list" where
  "add_states = [Add_awaiting, Add_observed, Add_issuing, Add_settled, Add_expired, Add_recoverable, Add_failed]"

definition send_states :: "send_state list" where
  "send_states = [Send_preparing, Send_awaiting, Send_accepted, Send_reclaiming, Send_reclaimed, Send_recovery]"

definition receive_states :: "receive_state list" where
  "receive_states = [Rcv_detected, Rcv_checking, Rcv_securing, Rcv_settled, Rcv_recoverable, Rcv_failed]"

definition cash_out_states :: "cash_out_state list" where
  "cash_out_states = [Out_dispatching, Out_pending, Out_paid, Out_failed, Out_unknown]"

lemma quote_state_parse [simp]: "enum_of quote_state_text quote_states (quote_state_text x) = Some x"
  by (cases x) (simp_all add: enum_of_def quote_states_def)

lemma add_state_parse [simp]: "enum_of add_state_text add_states (add_state_text x) = Some x"
  by (cases x) (simp_all add: enum_of_def add_states_def)

lemma cash_out_state_parse [simp]:
  "enum_of cash_out_state_text cash_out_states (cash_out_state_text x) = Some x"
  by (cases x) (simp_all add: enum_of_def cash_out_states_def)

end
