(* ===== verification/Market_Errors.thy ===== *)
theory Market_Errors
  imports Http
begin

section \<open>Errors of the applications and their redaction\<close>

text \<open>
  What the methods of the market and the wallet throw, and \<open>safeErrorMessage\<close> of
  \<open>market/src/domain/errors.ts\<close>, which turns a thrown value into the text that is shown and
  stored. The seven regular expressions of \<open>SENSITIVE_PATTERNS\<close> are written as deterministic
  matchers: in each of them a character that may be matched by a part is never one that the next
  part could need, so that greedy matching never has to be taken back.
\<close>

datatype failure =
    Failure string
  | Relay_failure string "nat option" "string option"
  | Storage_failure string
  | Faucet_failure string string "int option"
  | Incompatible_mint string
  | Thrown_text string
  | Thrown_value

fun failure_text :: "failure \<Rightarrow> string option" where
  "failure_text (Failure t) = Some t"
| "failure_text (Relay_failure t _ _) = Some t"
| "failure_text (Storage_failure t) = Some t"
| "failure_text (Faucet_failure _ t _) = Some t"
| "failure_text (Incompatible_mint t) = Some t"
| "failure_text (Thrown_text t) = Some t"
| "failure_text Thrown_value = None"

subsection \<open>Global replacement\<close>

text \<open>
  A matcher gets the character before the position and the text from it, and gives the length of
  its match with the replacement. \<open>replace_from\<close> is \<open>String.replace\<close> with a global expression: after
  a match it goes on behind it.
\<close>

type_synonym matcher = "char option \<Rightarrow> string \<Rightarrow> (nat \<times> string) option"

fun replace_from :: "matcher \<Rightarrow> char option \<Rightarrow> nat \<Rightarrow> string \<Rightarrow> string" where
  "replace_from m before skip [] = []"
| "replace_from m before (Suc k) (c # s) = replace_from m (Some c) k s"
| "replace_from m before 0 (c # s) =
     (case m before (c # s) of
        None \<Rightarrow> c # replace_from m (Some c) 0 s
      | Some (n, r) \<Rightarrow> r @ replace_from m (Some c) (n - 1) s)"

text \<open>The parts of an expression: each gives the text behind what it matched.\<close>

type_synonym eater = "string \<Rightarrow> string option"

definition eat_text :: "string \<Rightarrow> eater" where
  "eat_text p s = (if to_lower (take (length p) s) = to_lower p then Some (drop (length p) s) else None)"

definition eat_char :: "(char \<Rightarrow> bool) \<Rightarrow> eater" where
  "eat_char p s = (case s of [] \<Rightarrow> None | c # r \<Rightarrow> if p c then Some r else None)"

definition eat_run :: "nat \<Rightarrow> (char \<Rightarrow> bool) \<Rightarrow> eater" where
  "eat_run lo p s = (if lo \<le> length (takeWhile p s) then Some (dropWhile p s) else None)"

definition eat_maybe :: "char \<Rightarrow> eater" where
  "eat_maybe c s = (case s of [] \<Rightarrow> Some [] | d # r \<Rightarrow> if d = c then Some r else Some s)"

fun eat_any :: "eater list \<Rightarrow> eater" where
  "eat_any [] s = None"
| "eat_any (f # fs) s = (case f s of None \<Rightarrow> eat_any fs s | Some r \<Rightarrow> Some r)"

fun eat_all :: "eater list \<Rightarrow> eater" where
  "eat_all [] s = Some s"
| "eat_all (f # fs) s = (case f s of None \<Rightarrow> None | Some r \<Rightarrow> eat_all fs r)"

text \<open>\<open>[expression, text]\<close>, and \<open>[(group)expression, "$1[redacted]"]\<close>.\<close>

definition whole_match :: "eater list \<Rightarrow> string \<Rightarrow> matcher" where
  "whole_match fs t before s = map_option (\<lambda>r. (length s - length r, t)) (eat_all fs s)"

definition after_group :: "eater list \<Rightarrow> eater \<Rightarrow> matcher" where
  "after_group g f before s =
     (case eat_all g s of
        None \<Rightarrow> None
      | Some r \<Rightarrow> map_option (\<lambda>r'. (length s - length r', take (length s - length r) s @ ''[redacted]'')) (f r))"

definition is_word :: "char \<Rightarrow> bool" where
  "is_word c \<longleftrightarrow> code_in c 65 90 \<or> code_in c 97 122 \<or> code_in c 48 57 \<or> of_char c = (95 :: nat)"

definition is_alnum :: "char \<Rightarrow> bool" where
  "is_alnum c \<longleftrightarrow> code_in c 65 90 \<or> code_in c 97 122 \<or> code_in c 48 57"

definition quote_char :: char where
  "quote_char = char_of (34 :: nat)"

definition hex_value_match :: matcher where
  "hex_value_match before s =
     (if (case before of None \<Rightarrow> True | Some c \<Rightarrow> \<not> is_word c) \<and>
         64 \<le> length s \<and> list_all is_hex (take 64 s) \<and>
         (case drop 64 s of [] \<Rightarrow> True | c # _ \<Rightarrow> \<not> is_word c)
      then Some (64, ''[redacted 32-byte value]'') else None)"

definition sensitive_patterns :: "matcher list" where
  "sensitive_patterns =
     [whole_match [eat_text ''cashu'', eat_char (\<lambda>c. lower_char c \<in> {CHR ''a'', CHR ''b''}), eat_run 1 is_b64url]
        ''[redacted Cashu token]'',
      whole_match [eat_text ''creq'', eat_char (\<lambda>c. lower_char c \<in> {CHR ''a'', CHR ''b''}), eat_run 1 is_b64url]
        ''[redacted payment request]'',
      whole_match [eat_text ''fibt1'', eat_run 1 is_alnum] ''[redacted Fiber invoice]'',
      after_group [eat_text ''Bearer'', eat_run 1 is_space] (eat_run 20 is_b64url),
      after_group [eat_text ''/v1/deliver/''] (eat_run 20 is_b64url),
      after_group
        [eat_maybe quote_char,
         eat_any [eat_text ''secret'', eat_text ''privateKey'', eat_text ''readCapability'', eat_text ''writeCapability''],
         eat_maybe quote_char, eat_run 0 is_space, eat_char (\<lambda>c. c = CHR '':'' \<or> c = CHR ''=''),
         eat_run 0 is_space, eat_maybe quote_char]
        (eat_run 1 (\<lambda>c. c \<noteq> quote_char \<and> \<not> is_space c \<and> c \<noteq> CHR '','' \<and> c \<noteq> CHR ''}'')),
      hex_value_match]"

definition fallback_text :: string where
  "fallback_text = ''The operation could not be completed.''"

definition safeErrorMessage :: "failure \<Rightarrow> string" where
  "safeErrorMessage reason =
     (let raw = (case failure_text reason of None \<Rightarrow> fallback_text | Some t \<Rightarrow> t);
          safe = fold (\<lambda>m t. replace_from m None 0 t) sensitive_patterns
                   (if raw = [] then fallback_text else raw)
      in if 500 < length safe then take 497 safe @ ''...'' else safe)"

subsection \<open>What the redaction gives\<close>

lemma safeErrorMessage_length: "length (safeErrorMessage reason) \<le> 500"
  by (simp add: safeErrorMessage_def Let_def)

text \<open>A replacement text that is not empty never empties a text that is not empty.\<close>

lemma replace_from_nonempty:
  assumes "\<And>b s n r. m b s = Some (n, r) \<Longrightarrow> r \<noteq> []"
  shows "s \<noteq> [] \<Longrightarrow> replace_from m before 0 s \<noteq> []"
  using assms by (cases s) (auto split: option.splits)

lemma sensitive_nonempty:
  assumes "m \<in> set sensitive_patterns" "m b s = Some (n, r)"
  shows "r \<noteq> []"
  using assms
  by (auto simp: sensitive_patterns_def whole_match_def after_group_def hex_value_match_def
      split: option.splits if_splits)

lemma fold_replace_nonempty:
  "\<forall>m \<in> set ms. \<forall>b t n r. m b t = Some (n, r) \<longrightarrow> r \<noteq> [] \<Longrightarrow> s \<noteq> [] \<Longrightarrow>
   fold (\<lambda>m t. replace_from m None 0 t) ms s \<noteq> []"
proof (induction ms arbitrary: s)
  case (Cons m ms)
  then have "replace_from m None 0 s \<noteq> []"
    by (intro replace_from_nonempty) auto
  with Cons.IH Cons.prems(1) show ?case by simp
qed simp

lemma safeErrorMessage_nonempty: "safeErrorMessage reason \<noteq> []"
proof -
  have "fold (\<lambda>m t. replace_from m None 0 t) sensitive_patterns t \<noteq> []" if "t \<noteq> []" for t
    using that sensitive_nonempty by (intro fold_replace_nonempty) blast+
  then show ?thesis by (auto simp: safeErrorMessage_def Let_def fallback_text_def)
qed

end
