(* ===== verification/Wallet_Request.thy ===== *)
theory Wallet_Request
  imports Wallet_Types Market_Errors
begin

section \<open>Payment requests\<close>

text \<open>
  \<open>wallet/src/lib/payment-request.ts\<close>: the address of a mint, creating a payment request, decoding
  and validating one. The coding of a request as text and the reading of its lock are the cashu-ts
  package's: \<open>cashu\<close> collects the package's functions that the applications call, as a parameter.
\<close>

subsection \<open>The package\<close>

datatype transport_type = POST | NOSTR

record request_transport =
  tp_type :: transport_type
  tp_target :: string
  tp_tags :: "string list list option"

record nut10_option =
  n10_kind :: string
  n10_data :: string
  n10_tags :: "string list list option"

record p2pk_lock =
  lk_pubkey :: string
  lk_locktime :: "int option"
  lk_refundKeys :: "string list"
  lk_signatures :: "int option"

text \<open>A \<open>PaymentRequest\<close> of the package; \<open>rr_amount\<close> is its amount as \<open>units\<close> reads it.\<close>

record raw_request =
  rr_transport :: "request_transport list option"
  rr_id :: "string option"
  rr_amount :: "number option"
  rr_unit :: "string option"
  rr_mints :: "string list option"
  rr_description :: "string option"
  rr_singleUse :: bool
  rr_nut10 :: "nut10_option option"

record cashu =
  decode_request :: "string \<Rightarrow> raw_request option"
  encode_request :: "raw_request \<Rightarrow> string"
  lock_options :: "raw_request \<Rightarrow> failure + p2pk_lock option"
  deserialize_proofs :: "json list \<Rightarrow> cashu_proof list option"
  output_valid :: "json \<Rightarrow> bool"

text \<open>
  The platform the applications run on: \<open>new URL\<close>, \<open>JSON.parse\<close>, \<open>JSON.stringify\<close> and \<open>Number\<close> of a
  text that is not all digits, the sort key of a text (\<open>localeCompare\<close> compares sort keys), with the
  package. The documented behaviour of the JSON functions is \<open>json_laws\<close>: parsing what was printed
  gives the printed value without its undefined members.
\<close>

record platform =
  new_url :: url_parser
  json_parse :: "string \<Rightarrow> json option"
  json_stringify :: "json \<Rightarrow> string"
  text_number :: "string \<Rightarrow> json"
  collation :: "string \<Rightarrow> nat list"
  package :: cashu

definition json_laws :: "platform \<Rightarrow> bool" where
  "json_laws P \<longleftrightarrow>
     (\<forall>v. is_record v \<longrightarrow> json_parse P (json_stringify P v) = Some (json_roundtrip v) \<and> json_stringify P v \<noteq> [])"

record decoded_request =
  dr_id :: "string option"
  dr_amount :: number
  dr_unit :: string
  dr_mints :: "string list"
  dr_description :: string
  dr_singleUse :: bool
  dr_transport :: "request_transport list"
  dr_nut10 :: "nut10_option option"
  dr_encoded :: string

subsection \<open>The address of a mint\<close>

text \<open>The expression \<open>/%[0-9a-f]{2}/i\<close>.\<close>

fun has_percent :: "string \<Rightarrow> bool" where
  "has_percent (a # b # c # s) = ((a = CHR ''%'' \<and> is_hex b \<and> is_hex c) \<or> has_percent (b # c # s))"
| "has_percent _ = False"

definition normalizeMintUrl :: "url_parser \<Rightarrow> string \<Rightarrow> failure + string" where
  "normalizeMintUrl U v =
     (case U v of
        None \<Rightarrow> Inl (Failure ''Invalid URL'')
      | Some u \<Rightarrow>
          bindR (guardR (http_or_https u) (Failure ''Mint URLs must use HTTP or HTTPS.'')) (\<lambda>_.
          bindR (guardR (username u = [] \<and> password u = [])
            (Failure ''Mint URLs must not contain credentials.'')) (\<lambda>_.
          bindR (guardR (search u = [] \<and> hash u = [])
            (Failure ''Mint URLs must not contain query parameters or fragments.'')) (\<lambda>_.
          bindR (guardR (\<not> has_percent (pathname u))
            (Failure ''Mint URL paths must not contain percent-encoded characters.'')) (\<lambda>_.
          Inr (normal_url_text u))))))"

lemma normalizeMintUrl_Inr:
  "normalizeMintUrl U v = Inr t \<longleftrightarrow>
     (\<exists>u. U v = Some u \<and> http_or_https u \<and> username u = [] \<and> password u = [] \<and> search u = [] \<and>
       hash u = [] \<and> \<not> has_percent (pathname u) \<and> t = normal_url_text u)"
  by (auto simp: normalizeMintUrl_def result_simps split: option.splits)

text \<open>Two addresses name the same mint when both have a normal form and the forms are equal.\<close>

definition sameMint :: "url_parser \<Rightarrow> string \<Rightarrow> string \<Rightarrow> failure + bool" where
  "sameMint U a b =
     bindR (normalizeMintUrl U a) (\<lambda>x. bindR (normalizeMintUrl U b) (\<lambda>y. Inr (x = y)))"

subsection \<open>Creating, decoding and validating\<close>

definition createPaymentRequest ::
  "url_parser \<Rightarrow> cashu \<Rightarrow> string \<Rightarrow> int \<Rightarrow> string \<Rightarrow> string \<Rightarrow> string \<Rightarrow> string option \<Rightarrow>
   request_transport list option \<Rightarrow> nut10_option option \<Rightarrow> failure + decoded_request" where
  "createPaymentRequest U C fresh amount unit mintUrl description given transport nut10 =
     (let id = (case given of None \<Rightarrow> fresh | Some i \<Rightarrow> i) in
      bindR (normalizeMintUrl U mintUrl) (\<lambda>mint.
      (let normal_unit = to_lower unit;
           request = \<lparr>rr_transport = transport, rr_id = Some id, rr_amount = Some (Some amount),
             rr_unit = Some normal_unit, rr_mints = Some [mint], rr_description = Some description,
             rr_singleUse = True, rr_nut10 = nut10\<rparr>
       in Inr \<lparr>dr_id = Some id, dr_amount = Some amount, dr_unit = normal_unit, dr_mints = [mint],
            dr_description = description, dr_singleUse = True,
            dr_transport = (case transport of None \<Rightarrow> [] | Some ts \<Rightarrow> ts), dr_nut10 = nut10,
            dr_encoded = encode_request C request\<rparr>)))"

text \<open>\<open>/^creq[ab]/i\<close>\<close>

definition is_request_text :: "string \<Rightarrow> bool" where
  "is_request_text s \<longleftrightarrow>
     to_lower (take 5 s) = ''creqa'' \<or> to_lower (take 5 s) = ''creqb''"

definition truthy_text :: "string option \<Rightarrow> bool" where
  "truthy_text t \<longleftrightarrow> (case t of None \<Rightarrow> False | Some s \<Rightarrow> s \<noteq> [])"

definition text_or :: "string \<Rightarrow> string option \<Rightarrow> string" where
  "text_or d t = (case t of None \<Rightarrow> d | Some s \<Rightarrow> s)"

definition decodePaymentRequest :: "url_parser \<Rightarrow> cashu \<Rightarrow> string \<Rightarrow> failure + decoded_request" where
  "decodePaymentRequest U C encoded =
     (let value = trim encoded in
      bindR (guardR (is_request_text value)
        (Failure ''This is not a Cashu payment request. Requests begin with creq.'')) (\<lambda>_.
      case decode_request C value of
        None \<Rightarrow> Inl (Failure ''The payment request could not be decoded. Ask the recipient to create it again.'')
      | Some r \<Rightarrow>
          bindR (guardR (rr_amount r \<noteq> None) (Failure ''This request does not specify an amount.'')) (\<lambda>_.
          bindR (guardR (truthy_text (rr_unit r)) (Failure ''This request does not specify a unit.'')) (\<lambda>_.
          bindR (guardR (\<not> (rr_singleUse r \<and> \<not> truthy_text (rr_id r)))
            (Failure ''This single-use request has no request ID, so replay cannot be prevented.'')) (\<lambda>_.
          bindR (guardR (num_safe (the (rr_amount r)) \<and> 0 < the (the (rr_amount r)))
            (Failure ''This request does not contain a valid positive amount.'')) (\<lambda>_.
          bindR (mapR (normalizeMintUrl U) (case rr_mints r of None \<Rightarrow> [] | Some ms \<Rightarrow> ms)) (\<lambda>mints.
          (let description = trim (text_or [] (rr_description r)) in
           Inr \<lparr>dr_id = rr_id r, dr_amount = the (rr_amount r), dr_unit = to_lower (text_or [] (rr_unit r)),
             dr_mints = mints, dr_description = (if description = [] then ''Payment'' else description),
             dr_singleUse = rr_singleUse r,
             dr_transport = (case rr_transport r of None \<Rightarrow> [] | Some ts \<Rightarrow> ts),
             dr_nut10 = rr_nut10 r, dr_encoded = value\<rparr>))))))))"

definition postTransport :: "decoded_request \<Rightarrow> request_transport option" where
  "postTransport r = find (\<lambda>t. tp_type t = POST) (dr_transport r)"

definition paymentRequestLock :: "cashu \<Rightarrow> decoded_request \<Rightarrow> failure + p2pk_lock option" where
  "paymentRequestLock C r =
     (case decode_request C (dr_encoded r) of
        None \<Rightarrow> Inl Thrown_value
      | Some q \<Rightarrow> lock_options C q)"

definition validatePaymentRequest ::
  "url_parser \<Rightarrow> decoded_request \<Rightarrow> string \<Rightarrow> string \<Rightarrow> number \<Rightarrow> failure + unit" where
  "validatePaymentRequest U r mintUrl unit balance =
     bindR (guardR (num_safe (dr_amount r) \<and> 0 < the (dr_amount r))
       (Failure ''This request does not contain a valid positive amount.'')) (\<lambda>_.
     bindR (guardR (dr_unit r = to_lower unit)
       (Failure (''This request is denominated in '' @ to_upper (dr_unit r) @ '', not '' @ to_upper unit @ ''.''))) (\<lambda>_.
     bindR (normalizeMintUrl U mintUrl) (\<lambda>active.
     bindR (guardR (dr_mints r = [] \<or> active \<in> set (dr_mints r))
       (Failure ''This request accepts ecash from another mint. No proofs were changed.'')) (\<lambda>_.
     guardR (\<not> num_less balance (dr_amount r))
       (Failure ''This request is larger than your spendable ecash balance.'')))))"

lemma decodePaymentRequest_facts:
  assumes "decodePaymentRequest U C e = Inr r"
  shows "\<exists>a. dr_amount r = Some a \<and> is_safe a \<and> 0 < a"
    and "dr_encoded r = trim e"
    and "dr_singleUse r \<Longrightarrow> truthy_text (dr_id r)"
    and "dr_description r \<noteq> []"
  using assms
  by (auto simp: decodePaymentRequest_def Let_def result_simps num_safe_def split: option.splits if_splits)

text \<open>What creating a request writes, decoding reads back.\<close>

lemma decode_created:
  assumes created: "createPaymentRequest U C fresh amount unit mintUrl description given transport nut10 = Inr r"
    and codec: "\<And>q. decode_request C (encode_request C q) = Some q" "\<And>q. is_request_text (encode_request C q)"
      "\<And>q. trim (encode_request C q) = encode_request C q"
    and mint: "\<And>v t. normalizeMintUrl U v = Inr t \<Longrightarrow> normalizeMintUrl U t = Inr t"
    and amount: "is_safe amount" "0 < amount" and unit: "unit \<noteq> []"
    and description: "trim description = description" "description \<noteq> []"
    and given: "given \<noteq> Some []" "given = None \<Longrightarrow> fresh \<noteq> []"
  shows "decodePaymentRequest U C (dr_encoded r) = Inr r"
proof -
  have u: "to_lower unit \<noteq> []" using unit by (simp add: to_lower_def)
  obtain m where m: "normalizeMintUrl U mintUrl = Inr m"
    using created by (auto simp: createPaymentRequest_def Let_def result_simps)
  show ?thesis
  proof (cases given)
    case None
    with created given mint[OF m] u show ?thesis
      by (simp add: createPaymentRequest_def decodePaymentRequest_def Let_def m)
         (auto simp: codec truthy_text_def text_or_def num_safe_def amount description)
  next
    case (Some i)
    with created given mint[OF m] u show ?thesis
      by (simp add: createPaymentRequest_def decodePaymentRequest_def Let_def m)
         (auto simp: codec truthy_text_def text_or_def num_safe_def amount description)
  qed
qed

end
