(* ===== verification/Market_Types.thy ===== *)
theory Market_Types
  imports Wallet_Request
begin

section \<open>The market's own records\<close>

text \<open>
  \<open>market/src/domain/types.ts\<close> and the record types of \<open>market/src/event/manifest.ts\<close>. The literal
  types of a single value (\<open>version\<close>, \<open>kind\<close>, the network) have no field.
\<close>

subsection \<open>The event\<close>

datatype item_price = Price int | Custom_price

record catalog_item =
  ci_id :: string
  ci_label :: string
  ci_description :: string
  ci_price :: item_price

record vendor_manifest =
  vm_id :: string
  vm_name :: string
  vm_description :: string
  vm_location :: string
  vm_catalog :: "catalog_item list"

record event_manifest =
  em_id :: string
  em_name :: string
  em_description :: string
  em_venue :: string
  em_networkLabel :: string
  em_unit :: string
  em_mintUrl :: string
  em_codeHash :: string
  em_args :: string
  em_relayOrigin :: string
  em_faucetOrigin :: string
  em_vendors :: "vendor_manifest list"

subsection \<open>Payments\<close>

datatype market_role = Attendee | Vendor

datatype payment_state =
  Pay_preparing | Pay_ready | Pay_delivering | Pay_delivered | Pay_unspent | Pay_pending | Pay_spent
  | Pay_recoverable

record attendee_payment =
  pay_id :: string
  pay_orderId :: string
  pay_state :: payment_state
  pay_amount :: number
  pay_fee :: number
  pay_unit :: string
  pay_mintUrl :: string
  pay_vendorName :: string
  pay_description :: string
  pay_request :: "string option"
  pay_deliveryUrl :: "string option"
  pay_payloadJson :: "string option"
  pay_token :: "string option"
  pay_swap :: "swap_preview option"
  pay_retryable :: "bool option"
  pay_deliveredAt :: "int option"
  pay_checkedAt :: "int option"
  pay_createdAt :: int
  pay_updatedAt :: int
  pay_error :: "string option"

subsection \<open>Orders\<close>

datatype order_state =
  Ord_registering | Ord_awaiting | Ord_cancelling | Ord_received | Ord_validating | Ord_swapping
  | Ord_settled | Ord_cancelled | Ord_expired | Ord_rejected | Ord_recoverable

record order_item =
  oi_itemId :: string
  oi_label :: string
  oi_quantity :: int
  oi_unitPrice :: int

record vendor_order =
  ord_id :: string
  ord_state :: order_state
  ord_eventId :: string
  ord_vendorId :: string
  ord_items :: "order_item list"
  ord_amount :: int
  ord_unit :: string
  ord_mintUrl :: string
  ord_description :: string
  ord_expiresAt :: int
  ord_request :: "string option"
  ord_requestDigest :: "string option"
  ord_deliveryUrl :: "string option"
  ord_readCapability :: "string option"
  ord_writeCapability :: "string option"
  ord_privateKey :: "string option"
  ord_publicKey :: "string option"
  ord_incomingToken :: "string option"
  ord_incomingSwap :: "swap_preview option"
  ord_relayRegistered :: "bool option"
  ord_relayAcknowledged :: "bool option"
  ord_createdAt :: int
  ord_updatedAt :: int
  ord_error :: "string option"

subsection \<open>The snapshot\<close>

record market_snapshot =
  sn_eventId :: string
  sn_role :: market_role
  sn_mintUrl :: string
  sn_unit :: string
  sn_proofs :: "cashu_proof list"
  sn_addCash :: "add_operation list"
  sn_payments :: "attendee_payment list"
  sn_orders :: "vendor_order list"
  sn_cashOut :: "cash_out_operation list"

subsection \<open>What the screens offer for a payment\<close>

text \<open>JavaScript's truth of an optional time: \<open>0\<close> is false.\<close>

definition truthy_int :: "int option \<Rightarrow> bool" where
  "truthy_int v \<longleftrightarrow> (case v of None \<Rightarrow> False | Some i \<Rightarrow> i \<noteq> 0)"

definition paymentCanRetry :: "attendee_payment \<Rightarrow> bool" where
  "paymentCanRetry p =
     (if pay_state p \<notin> {Pay_preparing, Pay_ready, Pay_delivering, Pay_recoverable} then False
      else if truthy_int (pay_deliveredAt p) \<or> pay_retryable p = Some False then False
      else if pay_swap p \<noteq> None then truthy_text (pay_request p) \<and> truthy_text (pay_deliveryUrl p)
      else truthy_text (pay_token p) \<and> truthy_text (pay_payloadJson p) \<and> truthy_text (pay_deliveryUrl p))"

definition paymentCanCheck :: "attendee_payment \<Rightarrow> bool" where
  "paymentCanCheck p \<longleftrightarrow>
     truthy_text (pay_token p) \<and> pay_state p \<in> {Pay_delivered, Pay_unspent, Pay_pending, Pay_recoverable}"

subsection \<open>Texts of the states\<close>

fun role_text :: "market_role \<Rightarrow> string" where
  "role_text Attendee = ''attendee''"
| "role_text Vendor = ''vendor''"

fun payment_state_text :: "payment_state \<Rightarrow> string" where
  "payment_state_text Pay_preparing = ''preparing''"
| "payment_state_text Pay_ready = ''ready_to_deliver''"
| "payment_state_text Pay_delivering = ''delivering''"
| "payment_state_text Pay_delivered = ''delivered''"
| "payment_state_text Pay_unspent = ''unspent''"
| "payment_state_text Pay_pending = ''pending''"
| "payment_state_text Pay_spent = ''spent''"
| "payment_state_text Pay_recoverable = ''recoverable''"

fun order_state_text :: "order_state \<Rightarrow> string" where
  "order_state_text Ord_registering = ''registering''"
| "order_state_text Ord_awaiting = ''awaiting_payment''"
| "order_state_text Ord_cancelling = ''cancelling''"
| "order_state_text Ord_received = ''payload_received''"
| "order_state_text Ord_validating = ''validating''"
| "order_state_text Ord_swapping = ''swapping''"
| "order_state_text Ord_settled = ''settled''"
| "order_state_text Ord_cancelled = ''cancelled''"
| "order_state_text Ord_expired = ''expired''"
| "order_state_text Ord_rejected = ''rejected''"
| "order_state_text Ord_recoverable = ''recoverable''"

definition payment_states :: "payment_state list" where
  "payment_states = [Pay_preparing, Pay_ready, Pay_delivering, Pay_delivered, Pay_unspent, Pay_pending,
     Pay_spent, Pay_recoverable]"

definition order_states :: "order_state list" where
  "order_states = [Ord_registering, Ord_awaiting, Ord_cancelling, Ord_received, Ord_validating,
     Ord_swapping, Ord_settled, Ord_cancelled, Ord_expired, Ord_rejected, Ord_recoverable]"

lemma payment_state_parse [simp]:
  "enum_of payment_state_text payment_states (payment_state_text x) = Some x"
  by (cases x) (simp_all add: enum_of_def payment_states_def)

lemma order_state_parse [simp]: "enum_of order_state_text order_states (order_state_text x) = Some x"
  by (cases x) (simp_all add: enum_of_def order_states_def)

lemma role_text_inj [simp]: "role_text a = role_text b \<longleftrightarrow> a = b"
  by (cases a; cases b) auto

end
