(* ===== verification/Market_Storage.thy ===== *)
theory Market_Storage
  imports Market_Types
begin

section \<open>The market's stored snapshot\<close>

text \<open>
  \<open>market/src/domain/storage.ts\<close>: every field of a stored document is checked before the document
  becomes a snapshot, and a snapshot is checked in the same way before it is stored. Labels and
  texts are those of the code. \<open>deserializeProofs\<close> and \<open>OutputData.deserialize\<close> are the package's.
\<close>

definition malformed :: "string \<Rightarrow> failure" where
  "malformed label = Storage_failure (''Stored '' @ label @ '' is malformed.'')"

subsection \<open>Amounts of foreign objects\<close>

text \<open>
  \<open>units\<close> of \<open>wallet/src/lib/wallet.ts\<close>: an amount of the package prints as a text of digits, and
  so it is such a text here; a number is itself, anything else is \<open>NaN\<close>.
\<close>

fun units :: "json \<Rightarrow> number" where
  "units (JInt i) = Some i"
| "units (JStr s) = (if is_digit_text s then Some (number_of_digits s) else None)"
| "units _ = None"

definition number_json :: "number \<Rightarrow> json" where
  "number_json a = (case a of None \<Rightarrow> JReal ''null'' | Some i \<Rightarrow> JInt i)"

definition set_field :: "string \<Rightarrow> json \<Rightarrow> json \<Rightarrow> json" where
  "set_field k x v = JObj (AList.update k x (fields_of v))"

definition normalizeProof :: "cashu_proof \<Rightarrow> cashu_proof" where
  "normalizeProof p = set_field ''amount'' (number_json (units (field p ''amount''))) p"

definition proof_units :: "cashu_proof \<Rightarrow> number" where
  "proof_units p = units (field p ''amount'')"

definition sumProofs :: "cashu_proof list \<Rightarrow> number" where
  "sumProofs ps = foldl (\<lambda>total p. num_add total (proof_units p)) (Some 0) ps"

subsection \<open>Reading a field\<close>

definition storedRecord :: "string \<Rightarrow> json \<Rightarrow> failure + json" where
  "storedRecord label v = (if is_record v then Inr v else Inl (malformed label))"

definition storedKeys :: "string \<Rightarrow> string list \<Rightarrow> string list \<Rightarrow> json \<Rightarrow> failure + unit" where
  "storedKeys label required optional v = guardR (exact_keys v required optional) (malformed label)"

definition storedList :: "string \<Rightarrow> json \<Rightarrow> failure + json list" where
  "storedList label v = arrR (malformed label) v"

definition storedText :: "string \<Rightarrow> (string \<Rightarrow> bool) \<Rightarrow> json \<Rightarrow> failure + string" where
  "storedText label pattern v =
     bindR (strR (malformed label) v) (\<lambda>s.
     bindR (guardR (s \<noteq> [] \<and> pattern s) (malformed label)) (\<lambda>_. Inr s))"

definition storedInteger :: "string \<Rightarrow> int \<Rightarrow> json \<Rightarrow> failure + int" where
  "storedInteger label low v =
     bindR (intR (malformed label) v) (\<lambda>i. bindR (guardR (low \<le> i) (malformed label)) (\<lambda>_. Inr i))"

definition storedBoolean :: "string \<Rightarrow> json \<Rightarrow> failure + bool" where
  "storedBoolean label v = (case v of JBool b \<Rightarrow> Inr b | _ \<Rightarrow> Inl (malformed label))"

definition storedEnum :: "string \<Rightarrow> ('a \<Rightarrow> string) \<Rightarrow> 'a list \<Rightarrow> json \<Rightarrow> failure + 'a" where
  "storedEnum label txt all v =
     bindR (strR (malformed label) v) (\<lambda>s.
     case enum_of txt all s of None \<Rightarrow> Inl (malformed label) | Some x \<Rightarrow> Inr x)"

text \<open>The optional readers: \<open>undefined\<close> stays absent.\<close>

definition optionalR :: "(json \<Rightarrow> failure + 'a) \<Rightarrow> json \<Rightarrow> failure + 'a option" where
  "optionalR f v = (if v = JUndef then Inr None else bindR (f v) (\<lambda>x. Inr (Some x)))"

abbreviation any_text :: "string \<Rightarrow> bool" where
  "any_text \<equiv> \<lambda>_. True"

definition is_inbox_capability :: "string \<Rightarrow> bool" where
  "is_inbox_capability = chars_between is_b64url 43 128"

definition is_private_key :: "string \<Rightarrow> bool" where
  "is_private_key = chars_between is_lower_hex 64 64"

definition is_public_key :: "string \<Rightarrow> bool" where
  "is_public_key s \<longleftrightarrow> (starts_with ''02'' s \<or> starts_with ''03'' s) \<and> chars_between is_lower_hex 64 64 (drop 2 s)"

definition is_order_digest :: "string \<Rightarrow> bool" where
  "is_order_digest s \<longleftrightarrow> starts_with ''sha256:'' s \<and> chars_between is_lower_hex 64 64 (drop 7 s)"

text \<open>\<open>/^cashu[AB]/i\<close>\<close>

definition is_token_text :: "string \<Rightarrow> bool" where
  "is_token_text s \<longleftrightarrow> to_lower (take 6 s) = ''cashua'' \<or> to_lower (take 6 s) = ''cashub''"

subsection \<open>Proofs, outputs and previews\<close>

text \<open>The loop over the proofs, with the secrets seen so far.\<close>

fun check_proofs :: "string \<Rightarrow> json list \<Rightarrow> cashu_proof list \<Rightarrow> failure + unit" where
  "check_proofs label seen [] = Inr ()"
| "check_proofs label seen (p # ps) =
     bindR (guardR (num_safe (proof_units p) \<and> 0 < the (proof_units p)) (malformed label)) (\<lambda>_.
     bindR (guardR (field p ''secret'' \<notin> set seen) (malformed label)) (\<lambda>_.
     check_proofs label (field p ''secret'' # seen) ps))"

definition storedProofs :: "platform \<Rightarrow> string \<Rightarrow> json \<Rightarrow> failure + cashu_proof list" where
  "storedProofs P label v =
     bindR (storedList label v) (\<lambda>vs.
     case deserialize_proofs (package P) vs of
       None \<Rightarrow> Inl (Storage_failure (''Stored '' @ label @ '' contains invalid proofs.''))
     | Some ps \<Rightarrow> bindR (check_proofs label [] ps) (\<lambda>_. Inr ps))"

definition storedOutputs :: "platform \<Rightarrow> string \<Rightarrow> json \<Rightarrow> failure + output_data list" where
  "storedOutputs P label v =
     bindR (storedList label v) (\<lambda>vs.
     bindR (guardR (list_all (output_valid (package P)) vs)
       (Storage_failure (''Stored '' @ label @ '' contains invalid recovery outputs.''))) (\<lambda>_. Inr vs))"

definition storedSwap :: "platform \<Rightarrow> string \<Rightarrow> json \<Rightarrow> failure + swap_preview" where
  "storedSwap P label v =
     bindR (storedRecord label v) (\<lambda>raw.
     bindR (storedKeys label [''amount'', ''fees'', ''keysetId'', ''inputs'']
       [''sendOutputs'', ''keepOutputs'', ''unselectedProofs''] raw) (\<lambda>_.
     bindR (storedInteger (label @ '' amount'') 1 (field raw ''amount'')) (\<lambda>amount.
     bindR (storedInteger (label @ '' fees'') 0 (field raw ''fees'')) (\<lambda>fees.
     bindR (storedText (label @ '' keyset'') any_text (field raw ''keysetId'')) (\<lambda>keyset.
     bindR (storedProofs P (label @ '' inputs'') (field raw ''inputs'')) (\<lambda>inputs.
     bindR (optionalR (storedOutputs P (label @ '' send outputs'')) (field raw ''sendOutputs'')) (\<lambda>send_out.
     bindR (optionalR (storedOutputs P (label @ '' keep outputs'')) (field raw ''keepOutputs'')) (\<lambda>keep_out.
     bindR (optionalR (storedProofs P (label @ '' unselected proofs'')) (field raw ''unselectedProofs'')) (\<lambda>unselected.
     bindR (guardR (inputs \<noteq> []) (malformed (label @ '' inputs''))) (\<lambda>_.
     Inr \<lparr>sw_amount = Some amount, sw_fees = Some fees, sw_keyset = keyset, sw_inputs = inputs,
       sw_send = send_out, sw_keep = keep_out, sw_unselected = unselected\<rparr>))))))))))"

subsection \<open>The fields every operation has\<close>

definition assertBase ::
  "platform \<Rightarrow> event_manifest \<Rightarrow> string \<Rightarrow> string \<Rightarrow> json \<Rightarrow> failure + base_operation" where
  "assertBase P m label kind raw =
     bindR (guardR (field raw ''kind'' = JStr kind) (malformed label)) (\<lambda>_.
     bindR (storedText (label @ '' ID'') any_text (field raw ''id'')) (\<lambda>id.
     bindR (storedInteger (label @ '' amount'') 1 (field raw ''amount'')) (\<lambda>amount.
     bindR (storedInteger (label @ '' creation time'') 0 (field raw ''createdAt'')) (\<lambda>created.
     bindR (storedInteger (label @ '' update time'') 0 (field raw ''updatedAt'')) (\<lambda>updated.
     bindR (strR (Storage_failure (''Stored '' @ label @ '' belongs to another mint.'')) (field raw ''mintUrl'')) (\<lambda>mint.
     bindR (sameMint (new_url P) mint (em_mintUrl m)) (\<lambda>same.
     bindR (guardR same (Storage_failure (''Stored '' @ label @ '' belongs to another mint.''))) (\<lambda>_.
     bindR (guardR (field raw ''unit'' = JStr (em_unit m))
       (Storage_failure (''Stored '' @ label @ '' belongs to another unit.''))) (\<lambda>_.
     bindR (optionalR (storedText (label @ '' note'') any_text) (field raw ''note'')) (\<lambda>note.
     bindR (optionalR (storedText (label @ '' error'') any_text) (field raw ''error'')) (\<lambda>err.
     Inr \<lparr>op_id = id, op_amount = Some amount, op_createdAt = created, op_updatedAt = updated,
       op_mintUrl = mint, op_unit = em_unit m, op_note = note, op_error = err\<rparr>)))))))))))"

subsection \<open>Operations that add cash\<close>

definition normalizeAdd :: "platform \<Rightarrow> event_manifest \<Rightarrow> json \<Rightarrow> failure + add_operation" where
  "normalizeAdd P m v =
     (let label = ''add-cash operation'' in
     bindR (storedRecord label v) (\<lambda>raw.
     bindR (storedKeys label
       [''id'', ''kind'', ''state'', ''amount'', ''createdAt'', ''updatedAt'', ''mintUrl'', ''unit'', ''quoteId'', ''invoice'']
       [''note'', ''error'', ''expiry'', ''fundingSource'', ''quotePubkey'', ''quotePrivateKey'', ''outputData'',
        ''keysetId'', ''legacySignature'', ''payloadSignature''] raw) (\<lambda>_.
     bindR (assertBase P m label ''add'' raw) (\<lambda>base.
     bindR (storedEnum (label @ '' state'') add_state_text add_states (field raw ''state'')) (\<lambda>state.
     bindR (storedText (label @ '' quote'') any_text (field raw ''quoteId'')) (\<lambda>quote.
     bindR (storedText (label @ '' invoice'') any_text (field raw ''invoice'')) (\<lambda>invoice.
     bindR (guardR (field raw ''fundingSource'' \<in> {JUndef, JStr ''faucet''})
       (malformed (label @ '' funding source''))) (\<lambda>_.
     bindR (optionalR (storedText (label @ '' quote public key'') is_public_key) (field raw ''quotePubkey'')) (\<lambda>pubkey.
     bindR (optionalR (storedText (label @ '' quote private key'') is_private_key) (field raw ''quotePrivateKey'')) (\<lambda>privkey.
     bindR (guardR (\<not> (field raw ''fundingSource'' = JStr ''faucet'' \<and> pubkey = None))
       (malformed (label @ '' quote public key''))) (\<lambda>_.
     bindR (optionalR (storedInteger (label @ '' expiry'') 1) (field raw ''expiry'')) (\<lambda>expiry.
     bindR (optionalR (storedOutputs P (label @ '' outputs'')) (field raw ''outputData'')) (\<lambda>outputs.
     bindR (optionalR (storedText (label @ '' keyset'') any_text) (field raw ''keysetId'')) (\<lambda>keyset.
     bindR (optionalR (storedText (label @ '' legacy signature'') any_text) (field raw ''legacySignature'')) (\<lambda>legacy.
     bindR (optionalR (storedText (label @ '' payload signature'') any_text) (field raw ''payloadSignature'')) (\<lambda>payload.
     Inr \<lparr>op_id = op_id base, op_amount = op_amount base, op_createdAt = op_createdAt base,
       op_updatedAt = op_updatedAt base, op_mintUrl = op_mintUrl base, op_unit = op_unit base,
       op_note = op_note base, op_error = op_error base, add_state = state, add_quoteId = quote,
       add_invoice = invoice, add_expiry = expiry, add_faucet = (field raw ''fundingSource'' = JStr ''faucet''),
       add_quotePubkey = pubkey, add_quotePrivateKey = privkey, add_outputData = outputs,
       add_keysetId = keyset, add_legacySignature = legacy, add_payloadSignature = payload\<rparr>))))))))))))))))"

end
