(* ===== verification/Market_Snapshot.thy ===== *)
theory Market_Snapshot
  imports Market_Storage
begin

section \<open>Payments, orders, cash-outs and the whole snapshot\<close>

text \<open>
  The rest of \<open>market/src/domain/storage.ts\<close>: the documents of the larger records, the rules that
  tie a state to the recovery data it needs, the snapshot, and loading and saving it.
\<close>

subsection \<open>Delivery data\<close>

definition is_delivery_path :: "string \<Rightarrow> bool" where
  "is_delivery_path s \<longleftrightarrow> starts_with ''/v1/deliver/'' s \<and> chars_between is_b64url 43 128 (drop 12 s)"

definition assertDeliveryUrl :: "platform \<Rightarrow> event_manifest \<Rightarrow> string \<Rightarrow> string \<Rightarrow> failure + unit" where
  "assertDeliveryUrl P m label v =
     (case new_url P v of
        None \<Rightarrow> Inl (malformed label)
      | Some u \<Rightarrow>
          guardR (url_origin u = em_relayOrigin m \<and> username u = [] \<and> password u = [] \<and> search u = [] \<and>
              hash u = [] \<and> is_delivery_path (pathname u)) (malformed label))"

definition validatePayloadJson :: "platform \<Rightarrow> event_manifest \<Rightarrow> string \<Rightarrow> string \<Rightarrow> failure + unit" where
  "validatePayloadJson P m orderId text =
     (case json_parse P text of
        None \<Rightarrow> Inl (Storage_failure ''Stored payment payload is malformed.'')
      | Some v \<Rightarrow>
          bindR (storedRecord ''payment payload'' v) (\<lambda>raw.
          bindR (storedKeys ''payment payload'' [''id'', ''unit'', ''mint'', ''proofs''] [''memo''] raw) (\<lambda>_.
          bindR (guardR (field raw ''id'' = JStr orderId \<and> field raw ''unit'' = JStr (em_unit m))
            (Storage_failure ''Stored payment payload belongs to another order, mint, or unit.'')) (\<lambda>_.
          bindR (strR (Storage_failure ''Stored payment payload belongs to another order, mint, or unit.'')
            (field raw ''mint'')) (\<lambda>mint.
          bindR (sameMint (new_url P) mint (em_mintUrl m)) (\<lambda>same.
          bindR (guardR same
            (Storage_failure ''Stored payment payload belongs to another order, mint, or unit.'')) (\<lambda>_.
          bindR (storedProofs P ''payment payload proofs'' (field raw ''proofs'')) (\<lambda>ps.
          bindR (guardR (ps \<noteq> []) (malformed ''payment payload proofs'')) (\<lambda>_.
          bindR (optionalR (storedText ''payment payload memo'' any_text) (field raw ''memo'')) (\<lambda>_.
          Inr ()))))))))))"

text \<open>The absent check of an optional value.\<close>

definition whenSome :: "'a option \<Rightarrow> ('a \<Rightarrow> failure + unit) \<Rightarrow> failure + unit" where
  "whenSome v f = (case v of None \<Rightarrow> Inr () | Some x \<Rightarrow> f x)"

subsection \<open>Payments\<close>

definition complete_delivery :: "attendee_payment \<Rightarrow> bool" where
  "complete_delivery p \<longleftrightarrow> pay_token p \<noteq> None \<and> pay_payloadJson p \<noteq> None \<and> pay_deliveryUrl p \<noteq> None"

definition payment_rules :: "attendee_payment \<Rightarrow> bool" where
  "payment_rules p \<longleftrightarrow>
     (pay_state p = Pay_preparing \<longrightarrow> pay_swap p \<noteq> None \<and> pay_request p \<noteq> None \<and> pay_deliveryUrl p \<noteq> None) \<and>
     (pay_state p \<in> {Pay_ready, Pay_delivering, Pay_delivered, Pay_unspent, Pay_pending} \<longrightarrow> complete_delivery p) \<and>
     (pay_state p = Pay_recoverable \<longrightarrow> pay_swap p \<noteq> None \<or> complete_delivery p) \<and>
     (pay_state p = Pay_spent \<longrightarrow> pay_token p = None \<and> pay_payloadJson p = None \<and> pay_swap p = None \<and>
        pay_request p = None \<and> pay_deliveryUrl p = None) \<and>
     (pay_retryable p = Some False \<longrightarrow> pay_state p = Pay_recoverable) \<and>
     (pay_deliveredAt p \<noteq> None \<longrightarrow> complete_delivery p \<or> pay_state p = Pay_spent)"

definition normalizePayment :: "platform \<Rightarrow> event_manifest \<Rightarrow> json \<Rightarrow> failure + attendee_payment" where
  "normalizePayment P m v =
     (let label = ''attendee payment'' in
     bindR (storedRecord label v) (\<lambda>raw.
     bindR (storedKeys label
       [''id'', ''kind'', ''orderId'', ''state'', ''amount'', ''fee'', ''unit'', ''mintUrl'', ''vendorName'',
        ''description'', ''createdAt'', ''updatedAt'']
       [''request'', ''deliveryUrl'', ''payloadJson'', ''token'', ''swap'', ''deliveryRetryable'', ''deliveredAt'',
        ''proofStateCheckedAt'', ''error''] raw) (\<lambda>_.
     bindR (assertBase P m label ''event_payment'' raw) (\<lambda>base.
     bindR (storedEnum (label @ '' state'') payment_state_text payment_states (field raw ''state'')) (\<lambda>state.
     bindR (storedText (label @ '' order ID'') any_text (field raw ''orderId'')) (\<lambda>orderId.
     bindR (storedInteger (label @ '' fee'') 0 (field raw ''fee'')) (\<lambda>fee.
     bindR (storedText (label @ '' vendor'') any_text (field raw ''vendorName'')) (\<lambda>vendor.
     bindR (storedText (label @ '' description'') any_text (field raw ''description'')) (\<lambda>description.
     bindR (optionalR (storedText (label @ '' request'') is_request_text) (field raw ''request'')) (\<lambda>request.
     bindR (optionalR (storedText (label @ '' delivery URL'') any_text) (field raw ''deliveryUrl'')) (\<lambda>deliveryUrl.
     bindR (optionalR (storedText (label @ '' payload'') any_text) (field raw ''payloadJson'')) (\<lambda>payload.
     bindR (optionalR (storedText (label @ '' token'') is_token_text) (field raw ''token'')) (\<lambda>token.
     bindR (optionalR (storedSwap P (label @ '' swap'')) (field raw ''swap'')) (\<lambda>swap.
     bindR (optionalR (storedBoolean (label @ '' retry flag'')) (field raw ''deliveryRetryable'')) (\<lambda>retryable.
     bindR (optionalR (storedInteger (label @ '' delivery time'') 1) (field raw ''deliveredAt'')) (\<lambda>delivered.
     bindR (optionalR (storedInteger (label @ '' proof-state time'') 0) (field raw ''proofStateCheckedAt'')) (\<lambda>checked.
     bindR (whenSome deliveryUrl (assertDeliveryUrl P m (label @ '' delivery URL''))) (\<lambda>_.
     bindR (whenSome payload (validatePayloadJson P m orderId)) (\<lambda>_.
     (let p = \<lparr>pay_id = op_id base, pay_orderId = orderId, pay_state = state, pay_amount = op_amount base,
           pay_fee = Some fee, pay_unit = op_unit base, pay_mintUrl = op_mintUrl base,
           pay_vendorName = vendor, pay_description = description, pay_request = request,
           pay_deliveryUrl = deliveryUrl, pay_payloadJson = payload, pay_token = token, pay_swap = swap,
           pay_retryable = retryable, pay_deliveredAt = delivered, pay_checkedAt = checked,
           pay_createdAt = op_createdAt base, pay_updatedAt = op_updatedAt base, pay_error = op_error base\<rparr>
      in bindR (guardR (payment_rules p) (malformed label)) (\<lambda>_. Inr p)))))))))))))))))))))"

subsection \<open>Orders\<close>

definition normalizeItem :: "string \<Rightarrow> nat \<Rightarrow> json \<Rightarrow> failure + order_item" where
  "normalizeItem label i v =
     (let item = label @ '' item '' @ nat_text (Suc i) in
     bindR (storedRecord item v) (\<lambda>raw.
     bindR (storedKeys item [''itemId'', ''label'', ''quantity'', ''unitPrice''] [] raw) (\<lambda>_.
     bindR (storedText (label @ '' item ID'') any_text (field raw ''itemId'')) (\<lambda>itemId.
     bindR (storedText (label @ '' item label'') any_text (field raw ''label'')) (\<lambda>text.
     bindR (storedInteger (label @ '' item quantity'') 1 (field raw ''quantity'')) (\<lambda>quantity.
     bindR (storedInteger (label @ '' item price'') 1 (field raw ''unitPrice'')) (\<lambda>price.
     Inr \<lparr>oi_itemId = itemId, oi_label = text, oi_quantity = quantity, oi_unitPrice = price\<rparr>)))))))"

definition normalizeItems :: "string \<Rightarrow> json \<Rightarrow> failure + order_item list" where
  "normalizeItems label v =
     bindR (storedList label v) (\<lambda>vs.
     bindR (mapR (\<lambda>(i, x). normalizeItem label i x) (enumerate 0 vs)) (\<lambda>items.
     bindR (guardR (items \<noteq> []) (malformed label)) (\<lambda>_. Inr items)))"

fun items_total :: "string \<Rightarrow> int \<Rightarrow> order_item list \<Rightarrow> failure + int" where
  "items_total label so_far [] = Inr so_far"
| "items_total label so_far (x # xs) =
     (let subtotal = js_mul (oi_quantity x) (oi_unitPrice x); next_sum = js_add so_far subtotal
      in bindR (guardR (is_safe subtotal \<and> is_safe next_sum) (malformed label)) (\<lambda>_. items_total label next_sum xs))"

definition order_registration :: "vendor_order \<Rightarrow> bool" where
  "order_registration x \<longleftrightarrow> ord_request x \<noteq> None \<and> ord_requestDigest x \<noteq> None \<and> ord_deliveryUrl x \<noteq> None \<and>
     ord_readCapability x \<noteq> None \<and> ord_writeCapability x \<noteq> None \<and> ord_privateKey x \<noteq> None \<and> ord_publicKey x \<noteq> None"

definition order_rules :: "vendor_order \<Rightarrow> bool" where
  "order_rules x \<longleftrightarrow>
     (ord_state x \<in> {Ord_registering, Ord_awaiting, Ord_cancelling} \<longrightarrow> order_registration x) \<and>
     (ord_state x \<in> {Ord_received, Ord_validating} \<longrightarrow>
        ord_incomingToken x \<noteq> None \<and> ord_privateKey x \<noteq> None \<and> ord_publicKey x \<noteq> None) \<and>
     (ord_state x = Ord_swapping \<longrightarrow>
        ord_incomingSwap x \<noteq> None \<and> ord_privateKey x \<noteq> None \<and> ord_publicKey x \<noteq> None) \<and>
     (ord_state x \<in> {Ord_settled, Ord_cancelled, Ord_expired} \<longrightarrow>
        ord_privateKey x = None \<and> ord_incomingToken x = None \<and> ord_incomingSwap x = None \<and>
        ord_request x = None \<and> ord_deliveryUrl x = None \<and> ord_writeCapability x = None)"

definition normalizeOrder :: "platform \<Rightarrow> event_manifest \<Rightarrow> json \<Rightarrow> failure + vendor_order" where
  "normalizeOrder P m v =
     (let label = ''vendor order'' in
     bindR (storedRecord label v) (\<lambda>raw.
     bindR (storedKeys label
       [''id'', ''kind'', ''state'', ''eventId'', ''vendorId'', ''items'', ''amount'', ''unit'', ''mintUrl'',
        ''description'', ''expiresAt'', ''createdAt'', ''updatedAt'']
       [''request'', ''requestDigest'', ''deliveryUrl'', ''readCapability'', ''writeCapability'', ''privateKey'',
        ''publicKey'', ''incomingToken'', ''incomingSwap'', ''relayRegistered'', ''relayAcknowledged'', ''error''] raw) (\<lambda>_.
     bindR (assertBase P m label ''vendor_order'' raw) (\<lambda>base.
     bindR (storedEnum (label @ '' state'') order_state_text order_states (field raw ''state'')) (\<lambda>state.
     bindR (guardR (field raw ''eventId'' = JStr (em_id m) \<and>
         list_ex (\<lambda>x. field raw ''vendorId'' = JStr (vm_id x)) (em_vendors m))
       (Storage_failure ''Stored vendor order belongs to another event or vendor.'')) (\<lambda>_.
     bindR (strR (malformed label) (field raw ''vendorId'')) (\<lambda>vendorId.
     bindR (normalizeItems (label @ '' items'') (field raw ''items'')) (\<lambda>items.
     bindR (storedInteger (label @ '' amount'') 1 (field raw ''amount'')) (\<lambda>amount.
     bindR (items_total (label @ '' total'') 0 items) (\<lambda>total.
     bindR (guardR (total = amount) (malformed (label @ '' total''))) (\<lambda>_.
     bindR (storedText (label @ '' description'') any_text (field raw ''description'')) (\<lambda>description.
     bindR (storedInteger (label @ '' expiry'') 1 (field raw ''expiresAt'')) (\<lambda>expiresAt.
     bindR (optionalR (storedText (label @ '' request'') is_request_text) (field raw ''request'')) (\<lambda>request.
     bindR (optionalR (storedText (label @ '' request digest'') is_order_digest) (field raw ''requestDigest'')) (\<lambda>digest.
     bindR (optionalR (storedText (label @ '' delivery URL'') any_text) (field raw ''deliveryUrl'')) (\<lambda>deliveryUrl.
     bindR (optionalR (storedText (label @ '' read capability'') is_inbox_capability) (field raw ''readCapability'')) (\<lambda>readCap.
     bindR (optionalR (storedText (label @ '' write capability'') is_inbox_capability) (field raw ''writeCapability'')) (\<lambda>writeCap.
     bindR (optionalR (storedText (label @ '' private key'') is_private_key) (field raw ''privateKey'')) (\<lambda>privateKey.
     bindR (optionalR (storedText (label @ '' public key'') is_public_key) (field raw ''publicKey'')) (\<lambda>publicKey.
     bindR (optionalR (storedText (label @ '' incoming token'') is_token_text) (field raw ''incomingToken'')) (\<lambda>token.
     bindR (optionalR (storedSwap P (label @ '' incoming swap'')) (field raw ''incomingSwap'')) (\<lambda>swap.
     bindR (optionalR (storedBoolean (label @ '' relay registration'')) (field raw ''relayRegistered'')) (\<lambda>registered.
     bindR (optionalR (storedBoolean (label @ '' relay acknowledgement'')) (field raw ''relayAcknowledged'')) (\<lambda>acknowledged.
     bindR (whenSome deliveryUrl (assertDeliveryUrl P m (label @ '' delivery URL''))) (\<lambda>_.
     (let x = \<lparr>ord_id = op_id base, ord_state = state, ord_eventId = em_id m, ord_vendorId = vendorId,
           ord_items = items, ord_amount = amount, ord_unit = op_unit base, ord_mintUrl = op_mintUrl base,
           ord_description = description, ord_expiresAt = expiresAt, ord_request = request,
           ord_requestDigest = digest, ord_deliveryUrl = deliveryUrl, ord_readCapability = readCap,
           ord_writeCapability = writeCap, ord_privateKey = privateKey, ord_publicKey = publicKey,
           ord_incomingToken = token, ord_incomingSwap = swap, ord_relayRegistered = registered,
           ord_relayAcknowledged = acknowledged, ord_createdAt = op_createdAt base,
           ord_updatedAt = op_updatedAt base, ord_error = op_error base\<rparr>
      in bindR (guardR (order_rules x) (malformed label)) (\<lambda>_. Inr x)))))))))))))))))))))))))))"

subsection \<open>Cash-outs\<close>

definition normalizeQuote :: "event_manifest \<Rightarrow> json \<Rightarrow> failure + stored_melt_quote" where
  "normalizeQuote m v =
     (let label = ''cash-out quote'' in
     bindR (storedRecord label v) (\<lambda>raw.
     bindR (storedKeys label [''quote'', ''amount'', ''feeReserve'', ''unit'', ''state'', ''expiry'', ''request''] [] raw) (\<lambda>_.
     bindR (guardR (field raw ''unit'' = JStr (em_unit m))
       (Storage_failure ''Stored cash-out quote belongs to another unit.'')) (\<lambda>_.
     bindR (storedText (label @ '' ID'') any_text (field raw ''quote'')) (\<lambda>quote.
     bindR (storedInteger (label @ '' amount'') 1 (field raw ''amount'')) (\<lambda>amount.
     bindR (storedInteger (label @ '' fee reserve'') 0 (field raw ''feeReserve'')) (\<lambda>reserve.
     bindR (storedEnum (label @ '' state'') quote_state_text quote_states (field raw ''state'')) (\<lambda>state.
     bindR (storedInteger (label @ '' expiry'') 1 (field raw ''expiry'')) (\<lambda>expiry.
     bindR (storedText (label @ '' request'') any_text (field raw ''request'')) (\<lambda>request.
     Inr \<lparr>smq_quote = quote, smq_amount = Some amount, smq_feeReserve = Some reserve, smq_unit = em_unit m,
       smq_state = state, smq_expiry = expiry, smq_request = request\<rparr>))))))))))"

definition normalizeCashOut :: "platform \<Rightarrow> event_manifest \<Rightarrow> json \<Rightarrow> failure + cash_out_operation" where
  "normalizeCashOut P m v =
     (let label = ''cash-out operation'' in
     bindR (storedRecord label v) (\<lambda>raw.
     bindR (storedKeys label
       [''id'', ''kind'', ''state'', ''amount'', ''createdAt'', ''updatedAt'', ''mintUrl'', ''unit'', ''invoice'', ''quote'']
       [''note'', ''error'', ''cashuFee'', ''reservedProofs'', ''outputData'', ''keysetId'', ''recoverySwap''] raw) (\<lambda>_.
     bindR (assertBase P m label ''cashout'' raw) (\<lambda>base.
     bindR (normalizeQuote m (field raw ''quote'')) (\<lambda>quote.
     bindR (storedText (label @ '' invoice'') any_text (field raw ''invoice'')) (\<lambda>invoice.
     bindR (guardR (smq_request quote = invoice \<and> smq_amount quote = op_amount base) (malformed label)) (\<lambda>_.
     bindR (storedEnum (label @ '' state'') cash_out_state_text cash_out_states (field raw ''state'')) (\<lambda>state.
     bindR (optionalR (storedInteger (label @ '' proof fee'') 0) (field raw ''cashuFee'')) (\<lambda>fee.
     bindR (optionalR (storedProofs P (label @ '' reserved proofs'')) (field raw ''reservedProofs'')) (\<lambda>reserved.
     bindR (optionalR (storedOutputs P (label @ '' change outputs'')) (field raw ''outputData'')) (\<lambda>outputs.
     bindR (optionalR (storedText (label @ '' keyset'') any_text) (field raw ''keysetId'')) (\<lambda>keyset.
     bindR (optionalR (storedSwap P (label @ '' recovery swap'')) (field raw ''recoverySwap'')) (\<lambda>recovery.
     Inr \<lparr>op_id = op_id base, op_amount = op_amount base, op_createdAt = op_createdAt base,
       op_updatedAt = op_updatedAt base, op_mintUrl = op_mintUrl base, op_unit = op_unit base,
       op_note = op_note base, op_error = op_error base, co_state = state, co_invoice = invoice,
       co_quote = quote, co_cashuFee = map_option Some fee, co_reserved = reserved, co_outputData = outputs,
       co_keysetId = keyset, co_recoverySwap = recovery\<rparr>)))))))))))))"

subsection \<open>The snapshot\<close>

text \<open>The loop of \<open>uniqueIds\<close>.\<close>

fun uniqueIds :: "string \<Rightarrow> string list \<Rightarrow> string list \<Rightarrow> failure + unit" where
  "uniqueIds label seen [] = Inr ()"
| "uniqueIds label seen (i # is) =
     bindR (guardR (i \<notin> set seen)
       (Storage_failure (''Stored '' @ label @ '' contains a duplicate identifier.''))) (\<lambda>_.
     uniqueIds label (i # seen) is)"

definition swap_inputs :: "swap_preview option \<Rightarrow> cashu_proof list" where
  "swap_inputs sw = (case sw of None \<Rightarrow> [] | Some x \<Rightarrow> sw_inputs x)"

definition proof_list :: "cashu_proof list option \<Rightarrow> cashu_proof list" where
  "proof_list v = (case v of None \<Rightarrow> [] | Some ps \<Rightarrow> ps)"

definition reserved_proofs :: "market_snapshot \<Rightarrow> cashu_proof list" where
  "reserved_proofs s =
     concat (map (\<lambda>p. swap_inputs (pay_swap p)) (sn_payments s)) @
     concat (map (\<lambda>x. proof_list (co_reserved x)) (sn_cashOut s))"

definition assertSpendableProofsAreNotReserved :: "market_snapshot \<Rightarrow> failure + unit" where
  "assertSpendableProofsAreNotReserved s =
     (let spendable = map (\<lambda>p. field p ''secret'') (sn_proofs s)
      in guardR (\<not> list_ex (\<lambda>p. field p ''secret'' \<in> set spendable) (reserved_proofs s))
           (Storage_failure ''Stored spendable and reserved proof sets overlap.''))"

definition normalizeSnapshot ::
  "platform \<Rightarrow> event_manifest \<Rightarrow> market_role \<Rightarrow> json \<Rightarrow> failure + market_snapshot" where
  "normalizeSnapshot P m role v =
     bindR (storedRecord ''market data'' v) (\<lambda>raw.
     bindR (storedKeys ''market data''
       [''version'', ''eventId'', ''role'', ''mintUrl'', ''unit'', ''proofs'', ''addCash'', ''payments'', ''orders'', ''cashOut'']
       [] raw) (\<lambda>_.
     (let foreign_value = Storage_failure ''Stored market value belongs to another event, role, mint, or unit.'' in
     bindR (guardR (field raw ''version'' = JInt 1 \<and> field raw ''eventId'' = JStr (em_id m) \<and>
         field raw ''role'' = JStr (role_text role)) foreign_value) (\<lambda>_.
     bindR (strR foreign_value (field raw ''mintUrl'')) (\<lambda>mint.
     bindR (sameMint (new_url P) mint (em_mintUrl m)) (\<lambda>same.
     bindR (guardR (same \<and> field raw ''unit'' = JStr (em_unit m)) foreign_value) (\<lambda>_.
     bindR (storedProofs P ''spendable proofs'' (field raw ''proofs'')) (\<lambda>proofs.
     bindR (storedList ''add-cash operations'' (field raw ''addCash'')) (\<lambda>adds.
     bindR (mapR (normalizeAdd P m) adds) (\<lambda>addCash.
     bindR (storedList ''payments'' (field raw ''payments'')) (\<lambda>pays.
     bindR (mapR (normalizePayment P m) pays) (\<lambda>payments.
     bindR (storedList ''orders'' (field raw ''orders'')) (\<lambda>ords.
     bindR (mapR (normalizeOrder P m) ords) (\<lambda>orders.
     bindR (storedList ''cash-out operations'' (field raw ''cashOut'')) (\<lambda>outs.
     bindR (mapR (normalizeCashOut P m) outs) (\<lambda>cashOut.
     (let s = \<lparr>sn_eventId = em_id m, sn_role = role, sn_mintUrl = em_mintUrl m, sn_unit = em_unit m,
           sn_proofs = proofs, sn_addCash = addCash, sn_payments = payments, sn_orders = orders,
           sn_cashOut = cashOut\<rparr> in
     bindR (guardR (\<not> (role = Attendee \<and> orders \<noteq> []))
       (Storage_failure ''Stored attendee data contains vendor orders.'')) (\<lambda>_.
     bindR (guardR (\<not> (role = Vendor \<and> payments \<noteq> []))
       (Storage_failure ''Stored vendor data contains attendee payments.'')) (\<lambda>_.
     bindR (uniqueIds ''add-cash operations'' [] (map op_id addCash)) (\<lambda>_.
     bindR (uniqueIds ''payments'' [] (map pay_id payments)) (\<lambda>_.
     bindR (uniqueIds ''orders'' [] (map ord_id orders)) (\<lambda>_.
     bindR (uniqueIds ''cash-out operations'' [] (map op_id cashOut)) (\<lambda>_.
     bindR (assertSpendableProofsAreNotReserved s) (\<lambda>_.
     Inr s))))))))))))))))))))))))"

end
