(* ===== verification/Market_Storage_Facts.thy ===== *)
theory Market_Storage_Facts
  imports Market_Snapshot
begin

section \<open>What the stored documents look like\<close>

text \<open>
  For every reader: which values it accepts and what it gives. For every record: the object that
  \<open>JSON.stringify\<close> prints for it (\<open>..._json\<close>), the conditions it satisfies once it has been read
  (\<open>..._ok\<close>, the type invariant of the stored data), and that exactly these records read back
  from their own objects.
\<close>

subsection \<open>Readers\<close>

definition opt_json :: "('a \<Rightarrow> json) \<Rightarrow> 'a option \<Rightarrow> json" where
  "opt_json f v = (case v of None \<Rightarrow> JUndef | Some x \<Rightarrow> f x)"

definition opt_ok :: "('a \<Rightarrow> bool) \<Rightarrow> 'a option \<Rightarrow> bool" where
  "opt_ok p v = (case v of None \<Rightarrow> True | Some x \<Rightarrow> p x)"

lemma opt_ok_simps [simp]: "opt_ok p None" "opt_ok p (Some x) = p x"
  by (simp_all add: opt_ok_def)

lemma opt_json_simps [simp]: "opt_json f None = JUndef" "opt_json f (Some x) = f x"
  by (simp_all add: opt_json_def)

lemma storedRecord_Inr [result_simps]: "storedRecord label v = Inr w \<longleftrightarrow> is_record v \<and> w = v"
  by (auto simp: storedRecord_def)

lemma storedKeys_Inr [result_simps]:
  "storedKeys label required optional v = Inr u \<longleftrightarrow> exact_keys v required optional"
  by (simp add: storedKeys_def result_simps)

lemma storedList_Inr [result_simps]: "storedList label v = Inr vs \<longleftrightarrow> v = JArr vs"
  by (simp add: storedList_def result_simps)

lemma storedText_Inr [result_simps]:
  "storedText label p v = Inr s \<longleftrightarrow> v = JStr s \<and> s \<noteq> [] \<and> p s"
  by (auto simp: storedText_def result_simps)

lemma storedInteger_Inr [result_simps]:
  "storedInteger label low v = Inr i \<longleftrightarrow> v = JInt i \<and> is_safe i \<and> low \<le> i"
  by (auto simp: storedInteger_def result_simps)

lemma storedBoolean_Inr [result_simps]: "storedBoolean label v = Inr b \<longleftrightarrow> v = JBool b"
  by (cases v) (auto simp: storedBoolean_def)

lemma storedEnum_Inr [result_simps]:
  "storedEnum label txt all v = Inr x \<longleftrightarrow> v = JStr (txt x) \<and> enum_of txt all (txt x) = Some x"
  by (auto simp: storedEnum_def result_simps split: option.splits dest: enum_of_Some)

lemma optional_text_Inr [result_simps]:
  "optionalR (storedText label p) v = Inr y \<longleftrightarrow> v = opt_json JStr y \<and> opt_ok (\<lambda>s. s \<noteq> [] \<and> p s) y"
  by (cases y) (auto simp: optionalR_def result_simps)

lemma optional_integer_Inr [result_simps]:
  "optionalR (storedInteger label low) v = Inr y \<longleftrightarrow>
     v = opt_json JInt y \<and> opt_ok (\<lambda>i. is_safe i \<and> low \<le> i) y"
  by (cases y) (auto simp: optionalR_def result_simps)

lemma optional_boolean_Inr [result_simps]:
  "optionalR (storedBoolean label) v = Inr y \<longleftrightarrow> v = opt_json JBool y"
  by (cases y) (auto simp: optionalR_def result_simps)

lemma storedOutputs_Inr [result_simps]:
  "storedOutputs P label v = Inr vs \<longleftrightarrow> v = JArr vs \<and> list_all (output_valid (package P)) vs"
  by (auto simp: storedOutputs_def result_simps)

lemma optional_outputs_Inr [result_simps]:
  "optionalR (storedOutputs P label) v = Inr y \<longleftrightarrow>
     v = opt_json JArr y \<and> opt_ok (list_all (output_valid (package P))) y"
  by (cases y) (auto simp: optionalR_def result_simps)

text \<open>The documented behaviour of the package's codecs: what they accept, they accept again as it is.\<close>

definition package_laws :: "cashu \<Rightarrow> bool" where
  "package_laws C \<longleftrightarrow> deserialize_proofs C [] = Some [] \<and>
     (\<forall>vs ps. deserialize_proofs C vs = Some ps \<longrightarrow> deserialize_proofs C ps = Some ps \<and> list_all json_plain ps) \<and>
     (\<forall>v. output_valid C v \<longrightarrow> json_plain v)"

definition proof_ok :: "cashu_proof \<Rightarrow> bool" where
  "proof_ok p \<longleftrightarrow> (\<exists>a. proof_units p = Some a \<and> is_safe a \<and> 0 < a)"

definition proofs_ok :: "platform \<Rightarrow> cashu_proof list \<Rightarrow> bool" where
  "proofs_ok P ps \<longleftrightarrow> deserialize_proofs (package P) ps = Some ps \<and> list_all proof_ok ps \<and>
     distinct (map (\<lambda>p. field p ''secret'') ps)"

lemma check_proofs_Inr [result_simps]:
  "check_proofs label seen ps = Inr () \<longleftrightarrow>
     list_all proof_ok ps \<and> distinct (map (\<lambda>p. field p ''secret'') ps) \<and>
     (\<forall>p \<in> set ps. field p ''secret'' \<notin> set seen)"
proof (induction ps arbitrary: seen)
  case (Cons p ps)
  have "num_safe (proof_units p) \<and> 0 < the (proof_units p) \<longleftrightarrow> proof_ok p"
    by (auto simp: num_safe_def proof_ok_def split: option.splits)
  then show ?case by (simp add: Cons.IH result_simps image_iff) metis
qed simp

lemma storedProofs_ok:
  "package_laws (package P) \<Longrightarrow> storedProofs P label v = Inr ps \<Longrightarrow> proofs_ok P ps"
  by (auto simp: storedProofs_def result_simps proofs_ok_def package_laws_def split: option.splits)

lemma storedProofs_back: "proofs_ok P ps \<Longrightarrow> storedProofs P label (JArr ps) = Inr ps"
  using check_proofs_Inr[of label "[]" ps] by (simp add: storedProofs_def storedList_def proofs_ok_def)

lemma optional_proofs_ok:
  "package_laws (package P) \<Longrightarrow> optionalR (storedProofs P label) v = Inr y \<Longrightarrow> opt_ok (proofs_ok P) y"
  by (cases y) (auto simp: optionalR_def result_simps dest: storedProofs_ok split: if_splits)

lemma optional_proofs_back:
  "opt_ok (proofs_ok P) y \<Longrightarrow> optionalR (storedProofs P label) (opt_json JArr y) = Inr y"
  by (cases y) (auto simp: optionalR_def storedProofs_back)

subsection \<open>Objects\<close>

text \<open>The object with the members that are not \<open>undefined\<close>.\<close>

definition obj :: "fields \<Rightarrow> json" where
  "obj ms = JObj (filter (\<lambda>(k, v). v \<noteq> JUndef) ms)"

lemma is_record_obj [simp]: "is_record (obj ms)"
  by (simp add: obj_def)

lemma map_of_filter_undef:
  "distinct (map fst ms) \<Longrightarrow>
   map_of (filter (\<lambda>(k, v). v \<noteq> JUndef) ms) k =
     (case map_of ms k of None \<Rightarrow> None | Some v \<Rightarrow> if v = JUndef then None else Some v)"
  by (induction ms) (auto simp: map_of_eq_None_iff split: option.splits)

lemma field_obj:
  "distinct (map fst ms) \<Longrightarrow> field (obj ms) k = (case map_of ms k of None \<Rightarrow> JUndef | Some v \<Rightarrow> v)"
  by (simp add: field_def obj_def map_of_filter_undef split: option.splits)

lemma exact_keys_obj:
  "list_all (\<lambda>k. list_ex (\<lambda>(l, v). l = k \<and> v \<noteq> JUndef) ms) required \<Longrightarrow>
   list_all (\<lambda>k. k \<in> set (required @ optional)) (map fst ms) \<Longrightarrow> exact_keys (obj ms) required optional"
  unfolding exact_keys_def obj_def has_key_def
  by (force simp: list_all_iff list_ex_iff)

lemma json_plain_obj:
  "distinct (map fst ms) \<Longrightarrow> list_all (\<lambda>(k, v). v = JUndef \<or> json_plain v) ms \<Longrightarrow> json_plain (obj ms)"
  by (auto simp: obj_def list_all_iff distinct_map_filter)

lemma json_plain_opt:
  "opt_ok (\<lambda>x. json_plain (f x)) y \<Longrightarrow> opt_json f y = JUndef \<or> json_plain (opt_json f y)"
  by (cases y) auto

lemma number_json_Some [simp]: "number_json (Some i) = JInt i"
  by (simp add: number_json_def)

lemma number_json_int [simp]: "number_json a = JInt i \<longleftrightarrow> a = Some i"
  by (cases a) (auto simp: number_json_def)

lemma number_json_defined [simp]: "number_json a \<noteq> JUndef"
  by (cases a) (auto simp: number_json_def)

subsection \<open>Base fields and previews\<close>

definition base_ok :: "platform \<Rightarrow> event_manifest \<Rightarrow> 'a base_operation_scheme \<Rightarrow> bool" where
  "base_ok P m b \<longleftrightarrow>
     op_id b \<noteq> [] \<and> (\<exists>a. op_amount b = Some a \<and> is_safe a \<and> 1 \<le> a) \<and>
     is_safe (op_createdAt b) \<and> 0 \<le> op_createdAt b \<and> is_safe (op_updatedAt b) \<and> 0 \<le> op_updatedAt b \<and>
     sameMint (new_url P) (op_mintUrl b) (em_mintUrl m) = Inr True \<and> op_unit b = em_unit m \<and>
     opt_ok (\<lambda>s. s \<noteq> []) (op_note b) \<and> opt_ok (\<lambda>s. s \<noteq> []) (op_error b)"

definition base_members :: "string \<Rightarrow> string \<Rightarrow> 'a base_operation_scheme \<Rightarrow> fields" where
  "base_members kind state b =
     [(''id'', JStr (op_id b)), (''kind'', JStr kind), (''state'', JStr state),
      (''amount'', number_json (op_amount b)), (''createdAt'', JInt (op_createdAt b)),
      (''updatedAt'', JInt (op_updatedAt b)), (''mintUrl'', JStr (op_mintUrl b)), (''unit'', JStr (op_unit b)),
      (''note'', opt_json JStr (op_note b)), (''error'', opt_json JStr (op_error b))]"

lemma assertBase_Inr [result_simps]:
  "assertBase P m label kind raw = Inr b \<longleftrightarrow>
     base_ok P m b \<and> field raw ''kind'' = JStr kind \<and> field raw ''id'' = JStr (op_id b) \<and>
     field raw ''amount'' = number_json (op_amount b) \<and> field raw ''createdAt'' = JInt (op_createdAt b) \<and>
     field raw ''updatedAt'' = JInt (op_updatedAt b) \<and> field raw ''mintUrl'' = JStr (op_mintUrl b) \<and>
     field raw ''unit'' = JStr (op_unit b) \<and> field raw ''note'' = opt_json JStr (op_note b) \<and>
     field raw ''error'' = opt_json JStr (op_error b)"
  by (cases b) (auto simp: assertBase_def base_ok_def result_simps)

definition swap_json :: "swap_preview \<Rightarrow> json" where
  "swap_json x = obj
     [(''amount'', number_json (sw_amount x)), (''fees'', number_json (sw_fees x)),
      (''keysetId'', JStr (sw_keyset x)), (''inputs'', JArr (sw_inputs x)),
      (''sendOutputs'', opt_json JArr (sw_send x)), (''keepOutputs'', opt_json JArr (sw_keep x)),
      (''unselectedProofs'', opt_json JArr (sw_unselected x))]"

definition swap_ok :: "platform \<Rightarrow> swap_preview \<Rightarrow> bool" where
  "swap_ok P x \<longleftrightarrow>
     (\<exists>a. sw_amount x = Some a \<and> is_safe a \<and> 1 \<le> a) \<and> (\<exists>f. sw_fees x = Some f \<and> is_safe f \<and> 0 \<le> f) \<and>
     sw_keyset x \<noteq> [] \<and> proofs_ok P (sw_inputs x) \<and> sw_inputs x \<noteq> [] \<and>
     opt_ok (list_all (output_valid (package P))) (sw_send x) \<and>
     opt_ok (list_all (output_valid (package P))) (sw_keep x) \<and> opt_ok (proofs_ok P) (sw_unselected x)"

lemma storedSwap_ok:
  "package_laws (package P) \<Longrightarrow> storedSwap P label v = Inr x \<Longrightarrow> swap_ok P x"
  by (auto simp: storedSwap_def swap_ok_def result_simps dest: storedProofs_ok optional_proofs_ok)

lemma storedSwap_back: "swap_ok P x \<Longrightarrow> storedSwap P label (swap_json x) = Inr x"
  by (cases x)
     (auto simp: storedSwap_def swap_ok_def swap_json_def field_obj exact_keys_obj result_simps
        optional_proofs_back storedProofs_back)

lemma swap_json_defined [simp]: "swap_json x \<noteq> JUndef"
  by (simp add: swap_json_def obj_def)

lemma optional_swap_ok:
  "package_laws (package P) \<Longrightarrow> optionalR (storedSwap P label) v = Inr y \<Longrightarrow> opt_ok (swap_ok P) y"
  by (cases y) (auto simp: optionalR_def result_simps dest: storedSwap_ok split: if_splits)

lemma optional_swap_back:
  "opt_ok (swap_ok P) y \<Longrightarrow> optionalR (storedSwap P label) (opt_json swap_json y) = Inr y"
  by (cases y) (auto simp: optionalR_def storedSwap_back)

subsection \<open>Operations that add cash\<close>

definition add_json :: "add_operation \<Rightarrow> json" where
  "add_json x = obj (base_members ''add'' (add_state_text (add_state x)) x @
     [(''quoteId'', JStr (add_quoteId x)), (''invoice'', JStr (add_invoice x)),
      (''expiry'', opt_json JInt (add_expiry x)),
      (''fundingSource'', if add_faucet x then JStr ''faucet'' else JUndef),
      (''quotePubkey'', opt_json JStr (add_quotePubkey x)),
      (''quotePrivateKey'', opt_json JStr (add_quotePrivateKey x)),
      (''outputData'', opt_json JArr (add_outputData x)), (''keysetId'', opt_json JStr (add_keysetId x)),
      (''legacySignature'', opt_json JStr (add_legacySignature x)),
      (''payloadSignature'', opt_json JStr (add_payloadSignature x))])"

definition add_ok :: "platform \<Rightarrow> event_manifest \<Rightarrow> add_operation \<Rightarrow> bool" where
  "add_ok P m x \<longleftrightarrow>
     base_ok P m x \<and> add_quoteId x \<noteq> [] \<and> add_invoice x \<noteq> [] \<and>
     opt_ok (\<lambda>i. is_safe i \<and> 1 \<le> i) (add_expiry x) \<and>
     (add_faucet x \<longrightarrow> add_quotePubkey x \<noteq> None) \<and>
     opt_ok (\<lambda>s. s \<noteq> [] \<and> is_public_key s) (add_quotePubkey x) \<and>
     opt_ok (\<lambda>s. s \<noteq> [] \<and> is_private_key s) (add_quotePrivateKey x) \<and>
     opt_ok (list_all (output_valid (package P))) (add_outputData x) \<and>
     opt_ok (\<lambda>s. s \<noteq> []) (add_keysetId x) \<and> opt_ok (\<lambda>s. s \<noteq> []) (add_legacySignature x) \<and>
     opt_ok (\<lambda>s. s \<noteq> []) (add_payloadSignature x)"

lemma normalizeAdd_ok: "normalizeAdd P m v = Inr x \<Longrightarrow> add_ok P m x"
  unfolding normalizeAdd_def Let_def bindR_Inr
  by (elim exE conjE, simp only: sum.inject, hypsubst)
     (auto simp: result_simps add_ok_def base_ok_def simp del: append.simps)

lemma normalizeAdd_back: "add_ok P m x \<Longrightarrow> normalizeAdd P m (add_json x) = Inr x"
  by (cases x)
     (simp add: normalizeAdd_def Let_def result_simps add_ok_def add_json_def field_obj exact_keys_obj
        base_members_def, auto intro!: exI[of _ "base_operation.truncate x"] simp: base_operation.defs base_ok_def)

section \<open>Stored payments, orders and cash-outs\<close>

text \<open>
  For each of the larger records its object, the conditions of a stored one, and that exactly the
  records that satisfy them read back from their objects. \<open>..._copy\<close> compares a record with the one
  that its stored object gives: only the form of the proofs' amounts can differ.
\<close>

lemma whenSome_Inr [result_simps]: "whenSome v f = Inr () \<longleftrightarrow> opt_ok (\<lambda>x. f x = Inr ()) v"
  by (cases v) (simp_all add: whenSome_def)

subsection \<open>Payments\<close>

definition payment_json :: "attendee_payment \<Rightarrow> json" where
  "payment_json p = obj
     [(''id'', JStr (pay_id p)), (''kind'', JStr ''event_payment''), (''orderId'', JStr (pay_orderId p)),
      (''state'', JStr (payment_state_text (pay_state p))), (''amount'', number_json (pay_amount p)),
      (''fee'', number_json (pay_fee p)), (''unit'', JStr (pay_unit p)), (''mintUrl'', JStr (pay_mintUrl p)),
      (''vendorName'', JStr (pay_vendorName p)), (''description'', JStr (pay_description p)),
      (''request'', opt_json JStr (pay_request p)), (''deliveryUrl'', opt_json JStr (pay_deliveryUrl p)),
      (''payloadJson'', opt_json JStr (pay_payloadJson p)), (''token'', opt_json JStr (pay_token p)),
      (''swap'', opt_json swap_json (pay_swap p)), (''deliveryRetryable'', opt_json JBool (pay_retryable p)),
      (''deliveredAt'', opt_json JInt (pay_deliveredAt p)),
      (''proofStateCheckedAt'', opt_json JInt (pay_checkedAt p)),
      (''createdAt'', JInt (pay_createdAt p)), (''updatedAt'', JInt (pay_updatedAt p)),
      (''error'', opt_json JStr (pay_error p))]"

definition payment_ok :: "platform \<Rightarrow> event_manifest \<Rightarrow> attendee_payment \<Rightarrow> bool" where
  "payment_ok P m p \<longleftrightarrow>
     pay_id p \<noteq> [] \<and> pay_orderId p \<noteq> [] \<and> (\<exists>a. pay_amount p = Some a \<and> is_safe a \<and> 1 \<le> a) \<and>
     (\<exists>f. pay_fee p = Some f \<and> is_safe f \<and> 0 \<le> f) \<and>
     is_safe (pay_createdAt p) \<and> 0 \<le> pay_createdAt p \<and> is_safe (pay_updatedAt p) \<and> 0 \<le> pay_updatedAt p \<and>
     sameMint (new_url P) (pay_mintUrl p) (em_mintUrl m) = Inr True \<and> pay_unit p = em_unit m \<and>
     pay_vendorName p \<noteq> [] \<and> pay_description p \<noteq> [] \<and>
     opt_ok (\<lambda>s. s \<noteq> [] \<and> is_request_text s) (pay_request p) \<and>
     opt_ok (\<lambda>s. s \<noteq> [] \<and> assertDeliveryUrl P m ''attendee payment delivery URL'' s = Inr ()) (pay_deliveryUrl p) \<and>
     opt_ok (\<lambda>s. s \<noteq> [] \<and> validatePayloadJson P m (pay_orderId p) s = Inr ()) (pay_payloadJson p) \<and>
     opt_ok (\<lambda>s. s \<noteq> [] \<and> is_token_text s) (pay_token p) \<and> opt_ok (swap_ok P) (pay_swap p) \<and>
     opt_ok (\<lambda>i. is_safe i \<and> 1 \<le> i) (pay_deliveredAt p) \<and> opt_ok (\<lambda>i. is_safe i \<and> 0 \<le> i) (pay_checkedAt p) \<and>
     opt_ok (\<lambda>s. s \<noteq> []) (pay_error p) \<and> payment_rules p"

lemma opt_ok_conj: "opt_ok (\<lambda>x. p x \<and> q x) v \<longleftrightarrow> opt_ok p v \<and> opt_ok q v"
  by (cases v) auto

lemma normalizePayment_ok:
  assumes "package_laws (package P)"
  shows "normalizePayment P m v = Inr p \<Longrightarrow> payment_ok P m p"
  unfolding normalizePayment_def Let_def bindR_Inr
  by (elim exE conjE, simp only: sum.inject, hypsubst)
     (auto simp: result_simps payment_ok_def base_ok_def opt_ok_conj dest: optional_swap_ok[OF assms])

lemma normalizePayment_back: "payment_ok P m p \<Longrightarrow> normalizePayment P m (payment_json p) = Inr p"
  by (cases p)
     (simp add: normalizePayment_def Let_def result_simps payment_ok_def payment_json_def field_obj exact_keys_obj
        optional_swap_back opt_ok_conj,
      intro exI[of _ "\<lparr>op_id = pay_id p, op_amount = pay_amount p, op_createdAt = pay_createdAt p,
        op_updatedAt = pay_updatedAt p, op_mintUrl = pay_mintUrl p, op_unit = pay_unit p, op_note = None,
        op_error = pay_error p\<rparr>"], auto simp: base_ok_def)

subsection \<open>Orders\<close>

definition item_json :: "order_item \<Rightarrow> json" where
  "item_json x = obj [(''itemId'', JStr (oi_itemId x)), (''label'', JStr (oi_label x)),
     (''quantity'', JInt (oi_quantity x)), (''unitPrice'', JInt (oi_unitPrice x))]"

definition item_ok :: "order_item \<Rightarrow> bool" where
  "item_ok x \<longleftrightarrow> oi_itemId x \<noteq> [] \<and> oi_label x \<noteq> [] \<and> is_safe (oi_quantity x) \<and> 1 \<le> oi_quantity x \<and>
     is_safe (oi_unitPrice x) \<and> 1 \<le> oi_unitPrice x"

lemma normalizeItem_ok: "normalizeItem label i v = Inr x \<Longrightarrow> item_ok x"
  by (auto simp: normalizeItem_def Let_def result_simps item_ok_def)

lemma normalizeItem_back: "item_ok x \<Longrightarrow> normalizeItem label i (item_json x) = Inr x"
  by (cases x) (auto simp: normalizeItem_def Let_def result_simps item_ok_def item_json_def field_obj exact_keys_obj)

definition items_ok :: "order_item list \<Rightarrow> bool" where
  "items_ok xs \<longleftrightarrow> xs \<noteq> [] \<and> list_all item_ok xs"

lemma normalizeItems_ok: "normalizeItems label v = Inr xs \<Longrightarrow> items_ok xs"
proof -
  assume "normalizeItems label v = Inr xs"
  then obtain vs where vs: "mapR (\<lambda>(i, x). normalizeItem label i x) (enumerate 0 vs) = Inr xs" and "xs \<noteq> []"
    by (auto simp: normalizeItems_def result_simps)
  moreover have "item_ok y" if y: "y \<in> set xs" for y
    using mapR_Inr_set[OF vs y] by (auto intro: normalizeItem_ok)
  ultimately show ?thesis by (simp add: items_ok_def list_all_iff)
qed

lemma normalizeItems_back: "items_ok xs \<Longrightarrow> normalizeItems label (JArr (map item_json xs)) = Inr xs"
proof -
  assume ok: "items_ok xs"
  have "mapR (\<lambda>(i, x). normalizeItem label i x) (enumerate n (map item_json xs)) = Inr xs" for n
  proof -
    have "list_all item_ok xs" using ok by (simp add: items_ok_def)
    then show ?thesis by (induction xs arbitrary: n) (auto simp: normalizeItem_back)
  qed
  with ok show ?thesis by (simp add: normalizeItems_def result_simps items_ok_def)
qed

text \<open>The stored total of an order is exact: no step of the sum was rounded.\<close>

definition order_total :: "order_item list \<Rightarrow> int" where
  "order_total xs = sum_list (map (\<lambda>x. oi_quantity x * oi_unitPrice x) xs)"

lemma items_total_exact:
  "items_total label t xs = Inr r \<longleftrightarrow>
     r = t + order_total xs \<and>
     (\<forall>i < length xs. is_safe (oi_quantity (xs ! i) * oi_unitPrice (xs ! i)) \<and>
        is_safe (t + order_total (take (Suc i) xs)))"
proof (induction xs arbitrary: t)
  case Nil
  then show ?case by (auto simp: order_total_def)
next
  case (Cons x xs)
  let ?s = "oi_quantity x * oi_unitPrice x"
  have step: "items_total label t (x # xs) = Inr r \<longleftrightarrow>
      is_safe ?s \<and> is_safe (t + ?s) \<and> items_total label (t + ?s) xs = Inr r"
    by (auto simp: Let_def result_simps is_safe_js_mul is_safe_js_add js_mul_exact js_add_exact)
  show ?case
    unfolding step Cons.IH
    by (auto simp: order_total_def add.assoc less_Suc_eq_0_disj)
qed

definition order_json :: "vendor_order \<Rightarrow> json" where
  "order_json x = obj
     [(''id'', JStr (ord_id x)), (''kind'', JStr ''vendor_order''), (''state'', JStr (order_state_text (ord_state x))),
      (''eventId'', JStr (ord_eventId x)), (''vendorId'', JStr (ord_vendorId x)),
      (''items'', JArr (map item_json (ord_items x))), (''amount'', JInt (ord_amount x)),
      (''unit'', JStr (ord_unit x)), (''mintUrl'', JStr (ord_mintUrl x)),
      (''description'', JStr (ord_description x)), (''expiresAt'', JInt (ord_expiresAt x)),
      (''request'', opt_json JStr (ord_request x)), (''requestDigest'', opt_json JStr (ord_requestDigest x)),
      (''deliveryUrl'', opt_json JStr (ord_deliveryUrl x)),
      (''readCapability'', opt_json JStr (ord_readCapability x)),
      (''writeCapability'', opt_json JStr (ord_writeCapability x)),
      (''privateKey'', opt_json JStr (ord_privateKey x)), (''publicKey'', opt_json JStr (ord_publicKey x)),
      (''incomingToken'', opt_json JStr (ord_incomingToken x)),
      (''incomingSwap'', opt_json swap_json (ord_incomingSwap x)),
      (''relayRegistered'', opt_json JBool (ord_relayRegistered x)),
      (''relayAcknowledged'', opt_json JBool (ord_relayAcknowledged x)),
      (''createdAt'', JInt (ord_createdAt x)), (''updatedAt'', JInt (ord_updatedAt x)),
      (''error'', opt_json JStr (ord_error x))]"

definition order_ok :: "platform \<Rightarrow> event_manifest \<Rightarrow> vendor_order \<Rightarrow> bool" where
  "order_ok P m x \<longleftrightarrow>
     ord_id x \<noteq> [] \<and> ord_eventId x = em_id m \<and> ord_vendorId x \<in> vm_id ` set (em_vendors m) \<and>
     items_ok (ord_items x) \<and> ord_amount x = order_total (ord_items x) \<and>
     items_total ''vendor order total'' 0 (ord_items x) = Inr (ord_amount x) \<and>
     is_safe (ord_amount x) \<and> 1 \<le> ord_amount x \<and>
     is_safe (ord_createdAt x) \<and> 0 \<le> ord_createdAt x \<and> is_safe (ord_updatedAt x) \<and> 0 \<le> ord_updatedAt x \<and>
     sameMint (new_url P) (ord_mintUrl x) (em_mintUrl m) = Inr True \<and> ord_unit x = em_unit m \<and>
     ord_description x \<noteq> [] \<and> is_safe (ord_expiresAt x) \<and> 1 \<le> ord_expiresAt x \<and>
     opt_ok (\<lambda>s. s \<noteq> [] \<and> is_request_text s) (ord_request x) \<and>
     opt_ok (\<lambda>s. s \<noteq> [] \<and> is_order_digest s) (ord_requestDigest x) \<and>
     opt_ok (\<lambda>s. s \<noteq> [] \<and> assertDeliveryUrl P m ''vendor order delivery URL'' s = Inr ()) (ord_deliveryUrl x) \<and>
     opt_ok (\<lambda>s. s \<noteq> [] \<and> is_inbox_capability s) (ord_readCapability x) \<and>
     opt_ok (\<lambda>s. s \<noteq> [] \<and> is_inbox_capability s) (ord_writeCapability x) \<and>
     opt_ok (\<lambda>s. s \<noteq> [] \<and> is_private_key s) (ord_privateKey x) \<and>
     opt_ok (\<lambda>s. s \<noteq> [] \<and> is_public_key s) (ord_publicKey x) \<and>
     opt_ok (\<lambda>s. s \<noteq> [] \<and> is_token_text s) (ord_incomingToken x) \<and> opt_ok (swap_ok P) (ord_incomingSwap x) \<and>
     opt_ok (\<lambda>s. s \<noteq> []) (ord_error x) \<and> order_rules x"

lemma items_total_amount: "items_total label t xs = Inr r \<Longrightarrow> r = t + order_total xs"
  by (simp add: items_total_exact)

lemma items_total_label: "items_total l t xs = Inr r \<longleftrightarrow> items_total l' t xs = Inr r"
  by (simp add: items_total_exact)

lemma normalizeOrder_ok:
  assumes "package_laws (package P)"
  shows "normalizeOrder P m v = Inr x \<Longrightarrow> order_ok P m x"
  unfolding normalizeOrder_def Let_def bindR_Inr
  by (elim exE conjE, simp only: sum.inject, hypsubst)
     (auto simp: result_simps order_ok_def base_ok_def opt_ok_conj list_ex_iff image_iff
       dest: optional_swap_ok[OF assms] normalizeItems_ok items_total_amount)

lemma normalizeOrder_back: "order_ok P m x \<Longrightarrow> normalizeOrder P m (order_json x) = Inr x"
  by (cases x)
     (simp add: normalizeOrder_def Let_def result_simps order_ok_def order_json_def field_obj exact_keys_obj
        optional_swap_back opt_ok_conj normalizeItems_back list_ex_iff image_iff,
      intro exI[of _ "\<lparr>op_id = ord_id x, op_amount = Some (ord_amount x), op_createdAt = ord_createdAt x,
        op_updatedAt = ord_updatedAt x, op_mintUrl = ord_mintUrl x, op_unit = ord_unit x, op_note = None,
        op_error = ord_error x\<rparr>"], auto simp: base_ok_def)

end
