(* ===== verification/Market_Load.thy ===== *)
theory Market_Load
  imports Market_Storage_Facts
begin

section \<open>Loading and saving the snapshot\<close>

text \<open>
  The browser's storage is a map from keys to texts. Loading parses and checks the text of the key;
  saving checks the snapshot with the same rules and stores the text of the checked one, so that
  what was stored can be loaded (\<open>load_saved\<close>).
\<close>

subsection \<open>Cash-outs\<close>

definition quote_json :: "stored_melt_quote \<Rightarrow> json" where
  "quote_json x = obj
     [(''quote'', JStr (smq_quote x)), (''amount'', number_json (smq_amount x)),
      (''feeReserve'', number_json (smq_feeReserve x)), (''unit'', JStr (smq_unit x)),
      (''state'', JStr (quote_state_text (smq_state x))), (''expiry'', JInt (smq_expiry x)),
      (''request'', JStr (smq_request x))]"

definition quote_ok :: "event_manifest \<Rightarrow> stored_melt_quote \<Rightarrow> bool" where
  "quote_ok m x \<longleftrightarrow> smq_quote x \<noteq> [] \<and> (\<exists>a. smq_amount x = Some a \<and> is_safe a \<and> 1 \<le> a) \<and>
     (\<exists>f. smq_feeReserve x = Some f \<and> is_safe f \<and> 0 \<le> f) \<and> smq_unit x = em_unit m \<and>
     is_safe (smq_expiry x) \<and> 1 \<le> smq_expiry x \<and> smq_request x \<noteq> []"

lemma normalizeQuote_ok: "normalizeQuote m v = Inr x \<Longrightarrow> quote_ok m x"
  by (auto simp: normalizeQuote_def Let_def result_simps quote_ok_def)

lemma normalizeQuote_back: "quote_ok m x \<Longrightarrow> normalizeQuote m (quote_json x) = Inr x"
  by (cases x) (auto simp: normalizeQuote_def Let_def result_simps quote_ok_def quote_json_def field_obj exact_keys_obj)

definition cash_out_json :: "cash_out_operation \<Rightarrow> json" where
  "cash_out_json x = obj (base_members ''cashout'' (cash_out_state_text (co_state x)) x @
     [(''invoice'', JStr (co_invoice x)), (''quote'', quote_json (co_quote x)),
      (''cashuFee'', opt_json number_json (co_cashuFee x)), (''reservedProofs'', opt_json JArr (co_reserved x)),
      (''outputData'', opt_json JArr (co_outputData x)), (''keysetId'', opt_json JStr (co_keysetId x)),
      (''recoverySwap'', opt_json swap_json (co_recoverySwap x))])"

definition cash_out_ok :: "platform \<Rightarrow> event_manifest \<Rightarrow> cash_out_operation \<Rightarrow> bool" where
  "cash_out_ok P m x \<longleftrightarrow>
     base_ok P m x \<and> quote_ok m (co_quote x) \<and> co_invoice x \<noteq> [] \<and> smq_request (co_quote x) = co_invoice x \<and>
     smq_amount (co_quote x) = op_amount x \<and>
     opt_ok (\<lambda>f. \<exists>i. f = Some i \<and> is_safe i \<and> 0 \<le> i) (co_cashuFee x) \<and> opt_ok (proofs_ok P) (co_reserved x) \<and>
     opt_ok (list_all (output_valid (package P))) (co_outputData x) \<and> opt_ok (\<lambda>s. s \<noteq> []) (co_keysetId x) \<and>
     opt_ok (swap_ok P) (co_recoverySwap x)"

lemma opt_ok_map [simp]: "opt_ok p (map_option Some y) \<longleftrightarrow> opt_ok (\<lambda>x. p (Some x)) y"
  by (cases y) auto

lemma normalizeCashOut_ok:
  assumes "package_laws (package P)"
  shows "normalizeCashOut P m v = Inr x \<Longrightarrow> cash_out_ok P m x"
  unfolding normalizeCashOut_def Let_def bindR_Inr
  by (elim exE conjE, simp only: sum.inject, hypsubst)
     (auto simp: result_simps cash_out_ok_def base_ok_def
       dest: optional_swap_ok[OF assms] optional_proofs_ok[OF assms] normalizeQuote_ok)

lemma opt_fee_json: "opt_ok (\<lambda>f. \<exists>i. f = Some i \<and> is_safe i \<and> 0 \<le> i) v \<Longrightarrow>
   \<exists>y. v = map_option Some y \<and> opt_ok (\<lambda>i. is_safe i \<and> 0 \<le> i) y"
  by (cases v) (auto intro: exI[of _ None] exI[of _ "Some _"])

lemma quote_json_defined [simp]: "quote_json x \<noteq> JUndef"
  by (simp add: quote_json_def obj_def)

lemma opt_json_map [simp]: "opt_json number_json (map_option Some y) = opt_json JInt y"
  by (cases y) auto

lemma normalizeCashOut_back: "cash_out_ok P m x \<Longrightarrow> normalizeCashOut P m (cash_out_json x) = Inr x"
proof -
  assume ok: "cash_out_ok P m x"
  then obtain fee where "co_cashuFee x = map_option Some fee" "opt_ok (\<lambda>i. is_safe i \<and> 0 \<le> i) fee"
    unfolding cash_out_ok_def using opt_fee_json by blast
  with ok show ?thesis
    by (cases x)
       (simp add: normalizeCashOut_def Let_def result_simps cash_out_ok_def cash_out_json_def field_obj
          exact_keys_obj base_members_def optional_swap_back optional_proofs_back normalizeQuote_back,
        intro exI[of _ "base_operation.truncate x"] exI[of _ fee], auto simp: base_operation.defs base_ok_def)
qed

subsection \<open>The snapshot\<close>

definition snapshot_json :: "market_snapshot \<Rightarrow> json" where
  "snapshot_json s = obj
     [(''version'', JInt 1), (''eventId'', JStr (sn_eventId s)), (''role'', JStr (role_text (sn_role s))),
      (''mintUrl'', JStr (sn_mintUrl s)), (''unit'', JStr (sn_unit s)), (''proofs'', JArr (sn_proofs s)),
      (''addCash'', JArr (map add_json (sn_addCash s))), (''payments'', JArr (map payment_json (sn_payments s))),
      (''orders'', JArr (map order_json (sn_orders s))), (''cashOut'', JArr (map cash_out_json (sn_cashOut s)))]"

definition snapshot_ok :: "platform \<Rightarrow> event_manifest \<Rightarrow> market_role \<Rightarrow> market_snapshot \<Rightarrow> bool" where
  "snapshot_ok P m role s \<longleftrightarrow>
     sn_eventId s = em_id m \<and> sn_role s = role \<and> sn_mintUrl s = em_mintUrl m \<and> sn_unit s = em_unit m \<and>
     sameMint (new_url P) (em_mintUrl m) (em_mintUrl m) = Inr True \<and>
     proofs_ok P (sn_proofs s) \<and>
     list_all (add_ok P m) (sn_addCash s) \<and> distinct (map op_id (sn_addCash s)) \<and>
     list_all (payment_ok P m) (sn_payments s) \<and> distinct (map pay_id (sn_payments s)) \<and>
     list_all (order_ok P m) (sn_orders s) \<and> distinct (map ord_id (sn_orders s)) \<and>
     list_all (cash_out_ok P m) (sn_cashOut s) \<and> distinct (map op_id (sn_cashOut s)) \<and>
     (role = Attendee \<longrightarrow> sn_orders s = []) \<and> (role = Vendor \<longrightarrow> sn_payments s = []) \<and>
     (\<forall>p \<in> set (sn_proofs s). \<forall>q \<in> set (reserved_proofs s). field p ''secret'' \<noteq> field q ''secret'')"

lemma uniqueIds_Inr [result_simps]:
  "uniqueIds label seen is = Inr () \<longleftrightarrow> distinct is \<and> set is \<inter> set seen = {}"
  by (induction "is" arbitrary: seen) (auto simp: result_simps)

lemma spendable_Inr [result_simps]:
  "assertSpendableProofsAreNotReserved s = Inr () \<longleftrightarrow>
     (\<forall>p \<in> set (sn_proofs s). \<forall>q \<in> set (reserved_proofs s). field p ''secret'' \<noteq> field q ''secret'')"
  by (simp add: assertSpendableProofsAreNotReserved_def Let_def result_simps list_ex_iff image_iff) metis

lemma mapR_all: "mapR f xs = Inr ys \<Longrightarrow> (\<And>x y. f x = Inr y \<Longrightarrow> p y) \<Longrightarrow> list_all p ys"
  by (induction xs arbitrary: ys) (auto simp: result_simps)

lemma mapR_back: "list_all p ys \<Longrightarrow> (\<And>y. p y \<Longrightarrow> f (g y) = Inr y) \<Longrightarrow> mapR f (map g ys) = Inr ys"
  by (induction ys) auto

lemma sameMint_refl: "sameMint U a b = Inr True \<Longrightarrow> sameMint U b b = Inr True"
  by (auto simp: sameMint_def result_simps)

lemma normalizeSnapshot_ok:
  assumes laws: "package_laws (package P)" and n: "normalizeSnapshot P m role v = Inr s"
  shows "snapshot_ok P m role s"
proof -
  note all = mapR_all[where p = "add_ok P m", OF _ normalizeAdd_ok]
    mapR_all[where p = "payment_ok P m", OF _ normalizePayment_ok[OF laws]]
    mapR_all[where p = "order_ok P m", OF _ normalizeOrder_ok[OF laws]]
    mapR_all[where p = "cash_out_ok P m", OF _ normalizeCashOut_ok[OF laws]]
  show ?thesis
    using n unfolding normalizeSnapshot_def Let_def bindR_Inr
    by (elim exE conjE, simp only: sum.inject, hypsubst)
       (auto simp: result_simps snapshot_ok_def dest: all storedProofs_ok[OF laws] sameMint_refl)
qed

lemma normalizeSnapshot_back:
  assumes "snapshot_ok P m role s"
  shows "normalizeSnapshot P m role (snapshot_json s) = Inr s"
proof -
  note returns = mapR_back[where p = "add_ok P m" and g = add_json, OF _ normalizeAdd_back]
    mapR_back[where p = "payment_ok P m" and g = payment_json, OF _ normalizePayment_back]
    mapR_back[where p = "order_ok P m" and g = order_json, OF _ normalizeOrder_back]
    mapR_back[where p = "cash_out_ok P m" and g = cash_out_json, OF _ normalizeCashOut_back]
  show ?thesis
    using assms
    by (cases s)
       (auto simp: normalizeSnapshot_def Let_def result_simps snapshot_ok_def snapshot_json_def field_obj
          exact_keys_obj returns storedProofs_back)
qed

subsection \<open>The browser's storage\<close>

type_synonym local_storage = "string \<Rightarrow> string option"

definition marketStorageKey :: "platform \<Rightarrow> event_manifest \<Rightarrow> market_role \<Rightarrow> failure + string" where
  "marketStorageKey P m role =
     bindR (normalizeMintUrl (new_url P) (em_mintUrl m)) (\<lambda>mint.
     Inr (''fibernuts:market:v1:'' @ em_id m @ '':'' @ role_text role @ '':'' @ mint))"

definition emptyMarketSnapshot :: "event_manifest \<Rightarrow> market_role \<Rightarrow> market_snapshot" where
  "emptyMarketSnapshot m role =
     \<lparr>sn_eventId = em_id m, sn_role = role, sn_mintUrl = em_mintUrl m, sn_unit = em_unit m, sn_proofs = [],
      sn_addCash = [], sn_payments = [], sn_orders = [], sn_cashOut = []\<rparr>"

text \<open>An error of the storage module passes through, any other is replaced.\<close>

fun storage_error :: "string \<Rightarrow> failure + 'a \<Rightarrow> failure + 'a" where
  "storage_error text (Inl (Storage_failure t)) = Inl (Storage_failure t)"
| "storage_error text (Inl e) = Inl (Storage_failure text)"
| "storage_error text (Inr x) = Inr x"

lemma storage_error_Inr [result_simps]: "storage_error text r = Inr x \<longleftrightarrow> r = Inr x"
  by (cases "(text, r)" rule: storage_error.cases) auto

lemma storage_error_Inl: "storage_error text r = Inl e \<Longrightarrow> \<exists>t. e = Storage_failure t"
  by (cases "(text, r)" rule: storage_error.cases) auto

definition loadMarketSnapshot ::
  "platform \<Rightarrow> event_manifest \<Rightarrow> market_role \<Rightarrow> local_storage \<Rightarrow> failure + market_snapshot" where
  "loadMarketSnapshot P m role store =
     bindR (marketStorageKey P m role) (\<lambda>key.
     if truthy_text (store key) then
       storage_error ''Stored market data could not be read. Value-moving actions are disabled.''
         (case json_parse P (text_or [] (store key)) of
            None \<Rightarrow> Inl Thrown_value
          | Some v \<Rightarrow> normalizeSnapshot P m role v)
     else Inr (emptyMarketSnapshot m role))"

text \<open>\<open>room key text\<close> says whether the browser lets the text be stored.\<close>

definition saveMarketSnapshot ::
  "platform \<Rightarrow> event_manifest \<Rightarrow> (string \<Rightarrow> string \<Rightarrow> bool) \<Rightarrow> market_snapshot \<Rightarrow>
   (local_storage, failure, unit) effect" where
  "saveMarketSnapshot P m room s store =
     (case storage_error ''Refusing to store malformed market data.''
             (normalizeSnapshot P m (sn_role s) (snapshot_json s)) of
        Inl e \<Rightarrow> (Inl e, store)
      | Inr n \<Rightarrow>
          (let text = json_stringify P (snapshot_json n);
               refused = Storage_failure
                 ''The operation could not be persisted. Stop and keep this tab open; do not repeat it.'' in
           case marketStorageKey P m (sn_role n) of
             Inl e \<Rightarrow> (Inl refused, store)
           | Inr key \<Rightarrow>
               if room key text then (Inr (), store(key \<mapsto> text)) else (Inl refused, store)))"

subsection \<open>What was stored can be loaded\<close>

lemma plain_text [simp]: "opt_json JStr y = JUndef \<or> json_plain (opt_json JStr y)"
  by (cases y) auto

lemma plain_int [simp]: "opt_json JInt y = JUndef \<or> json_plain (opt_json JInt y)"
  by (cases y) auto

lemma plain_bool [simp]: "opt_json JBool y = JUndef \<or> json_plain (opt_json JBool y)"
  by (cases y) auto

lemma plain_fee: "opt_ok (\<lambda>f. \<exists>i. f = Some i \<and> is_safe i \<and> 0 \<le> i) y \<Longrightarrow>
   opt_json number_json y = JUndef \<or> json_plain (opt_json number_json y)"
  by (cases y) auto

lemma quote_plain: "quote_ok m x \<Longrightarrow> json_plain (quote_json x)"
  unfolding quote_json_def quote_ok_def by (intro json_plain_obj) auto

lemma base_members_plain:
  "base_ok P m b \<Longrightarrow> list_all (\<lambda>(k, v). v = JUndef \<or> json_plain v) (base_members kind state b)"
  by (auto simp: base_members_def base_ok_def)

lemma plain_proofs: "package_laws (package P) \<Longrightarrow> proofs_ok P ps \<Longrightarrow> list_all json_plain ps"
  by (auto simp: package_laws_def proofs_ok_def)

lemma plain_outputs: "package_laws (package P) \<Longrightarrow> list_all (output_valid (package P)) vs \<Longrightarrow> list_all json_plain vs"
  by (auto simp: package_laws_def list_all_iff)

lemma plain_arr:
  "opt_ok (list_all json_plain) y \<Longrightarrow> opt_json JArr y = JUndef \<or> json_plain (opt_json JArr y)"
  by (cases y) auto

lemma opt_ok_mono: "opt_ok p y \<Longrightarrow> (\<And>x. p x \<Longrightarrow> q x) \<Longrightarrow> opt_ok q y"
  by (cases y) auto

lemma swap_plain: "package_laws (package P) \<Longrightarrow> swap_ok P x \<Longrightarrow> json_plain (swap_json x)"
  unfolding swap_json_def swap_ok_def
  by (intro json_plain_obj)
     (auto simp: plain_proofs intro!: plain_arr intro: opt_ok_mono[OF _ plain_outputs] opt_ok_mono[OF _ plain_proofs])

lemma add_plain: "package_laws (package P) \<Longrightarrow> add_ok P m x \<Longrightarrow> json_plain (add_json x)"
  unfolding add_json_def add_ok_def
  by (intro json_plain_obj)
     (simp add: base_members_def, auto simp: base_members_plain intro!: plain_arr intro: opt_ok_mono[OF _ plain_outputs])

lemma plain_swap: "package_laws (package P) \<Longrightarrow> opt_ok (swap_ok P) y \<Longrightarrow>
   opt_json swap_json y = JUndef \<or> json_plain (opt_json swap_json y)"
  by (cases y) (auto simp: swap_plain)

lemma payment_plain: "package_laws (package P) \<Longrightarrow> payment_ok P m p \<Longrightarrow> json_plain (payment_json p)"
  unfolding payment_json_def payment_ok_def
  by (intro json_plain_obj) (simp, auto simp: plain_swap)

lemma order_plain: "package_laws (package P) \<Longrightarrow> order_ok P m x \<Longrightarrow> json_plain (order_json x)"
  unfolding order_json_def order_ok_def
  by (intro json_plain_obj)
     (simp, auto simp: plain_swap list_all_iff item_json_def intro!: json_plain_obj)

lemma cash_out_plain: "package_laws (package P) \<Longrightarrow> cash_out_ok P m x \<Longrightarrow> json_plain (cash_out_json x)"
  unfolding cash_out_json_def cash_out_ok_def
  by (intro json_plain_obj)
     (simp add: base_members_def,
      auto simp: base_members_plain plain_swap plain_fee
        intro!: plain_arr quote_plain intro: opt_ok_mono[OF _ plain_outputs] opt_ok_mono[OF _ plain_proofs])

lemma list_all_plain: "list_all p xs \<Longrightarrow> (\<And>x. p x \<Longrightarrow> json_plain (f x)) \<Longrightarrow> list_all json_plain (map f xs)"
  by (induction xs) auto

lemma snapshot_plain:
  assumes "package_laws (package P)" "snapshot_ok P m role s"
  shows "json_plain (snapshot_json s)"
proof -
  note plain = list_all_plain[where p = "add_ok P m", OF _ add_plain[OF assms(1)]]
    list_all_plain[where p = "payment_ok P m", OF _ payment_plain[OF assms(1)]]
    list_all_plain[where p = "order_ok P m", OF _ order_plain[OF assms(1)]]
    list_all_plain[where p = "cash_out_ok P m", OF _ cash_out_plain[OF assms(1)]]
  show ?thesis
    using assms(2) unfolding snapshot_json_def snapshot_ok_def
    by (intro json_plain_obj) (simp, simp add: plain plain_proofs[OF assms(1)])
qed

theorem load_saved:
  assumes laws: "package_laws (package P)" "json_laws P"
    and saved: "saveMarketSnapshot P m room s store = (Inr (), store')"
  shows "\<exists>n. normalizeSnapshot P m (sn_role s) (snapshot_json s) = Inr n \<and> snapshot_ok P m (sn_role s) n \<and>
           loadMarketSnapshot P m (sn_role s) store' = Inr n"
proof -
  obtain n where n: "normalizeSnapshot P m (sn_role s) (snapshot_json s) = Inr n"
    using saved by (auto simp: saveMarketSnapshot_def result_simps split: sum.splits)
  have ok: "snapshot_ok P m (sn_role s) n" by (rule normalizeSnapshot_ok[OF laws(1) n])
  then have role: "sn_role n = sn_role s" by (simp add: snapshot_ok_def)
  have rec: "is_record (snapshot_json n)" by (simp add: snapshot_json_def)
  then have printed: "json_parse P (json_stringify P (snapshot_json n)) = Some (snapshot_json n)"
    "json_stringify P (snapshot_json n) \<noteq> []"
    using laws(2) snapshot_plain[OF laws(1) ok] by (auto simp: json_laws_def json_roundtrip_plain)
  have "loadMarketSnapshot P m (sn_role s) store' = Inr n"
    using saved normalizeSnapshot_back[OF ok] printed
    by (auto simp: saveMarketSnapshot_def n role loadMarketSnapshot_def truthy_text_def text_or_def Let_def
        split: sum.splits if_splits)
  with n ok show ?thesis by blast
qed

lemma save_failed: "saveMarketSnapshot P m room s store = (Inl e, store') \<Longrightarrow> store' = store \<and> (\<exists>t. e = Storage_failure t)"
  by (auto simp: saveMarketSnapshot_def Let_def split: sum.splits if_splits dest: storage_error_Inl)

end
