(* ===== verification/Market_Payment.thy ===== *)
theory Market_Payment
  imports Market_Snapshot Faucet_Upstream
begin

section \<open>Orders as payment requests\<close>

text \<open>
  \<open>market/src/domain/payment.ts\<close>: the vendor's request with its two capabilities, the checks an
  attendee's application makes before it pays, and the payload it delivers. Random bytes and the
  public key of a secret key are arguments; \<open>H\<close> is SHA-256 of a text, in hexadecimal.
\<close>

subsection \<open>Capabilities\<close>

text \<open>\<open>btoa\<close>: the digits of base 64, with padding.\<close>

definition b64_char :: "nat \<Rightarrow> char" where
  "b64_char d =
     char_of (if d < 26 then 65 + d else if d < 52 then 71 + d else if d < 62 then d - 4
              else if d = 62 then 43 else 47)"

definition b64_digits :: "nat \<Rightarrow> nat \<Rightarrow> string" where
  "b64_digits k n = map (\<lambda>i. b64_char (n div 64 ^ (3 - i) mod 64)) [0..<k]"

fun base64 :: "bytes \<Rightarrow> string" where
  "base64 [] = []"
| "base64 [a] = b64_digits 2 (65536 * unat a) @ ''==''"
| "base64 [a, b] = b64_digits 3 (65536 * unat a + 256 * unat b) @ ''=''"
| "base64 (a # b # c # rest) = b64_digits 4 (65536 * unat a + 256 * unat b + unat c) @ base64 rest"

definition url_safe :: "char \<Rightarrow> char" where
  "url_safe c = (if c = CHR ''+'' then CHR ''-'' else if c = CHR ''/'' then CHR ''_'' else c)"

definition randomCapability :: "bytes \<Rightarrow> string" where
  "randomCapability bs =
     rev (dropWhile (\<lambda>c. c = CHR ''='') (rev (map url_safe (base64 bs))))"

definition bytesToHex :: "bytes \<Rightarrow> string" where
  "bytesToHex bs = concat (map byte_hex bs)"

definition requestDigestOf :: "(string \<Rightarrow> string) \<Rightarrow> string \<Rightarrow> string" where
  "requestDigestOf H value = ''sha256:'' @ H value"

subsection \<open>The vendor's request\<close>

record vendor_entropy =
  ve_order :: bytes
  ve_read :: bytes
  ve_write :: bytes
  ve_secret :: bytes

record created_request =
  cr_orderId :: string
  cr_privateKey :: string
  cr_publicKey :: string
  cr_readCapability :: string
  cr_writeCapability :: string
  cr_deliveryUrl :: string
  cr_expiresAt :: int
  cr_request :: decoded_request
  cr_requestDigest :: string

definition createVendorRequest ::
  "platform \<Rightarrow> (string \<Rightarrow> string) \<Rightarrow> (bytes \<Rightarrow> bytes) \<Rightarrow> event_manifest \<Rightarrow> vendor_manifest \<Rightarrow> int \<Rightarrow> string \<Rightarrow>
   int \<Rightarrow> vendor_entropy \<Rightarrow> failure + created_request" where
  "createVendorRequest P H public m vendor amount description now rnd =
     bindR (guardR (is_safe amount \<and> 0 < amount) (Failure ''Order amount must be a positive integer.'')) (\<lambda>_.
     (let orderId = ''order_'' @ take 32 (randomCapability (ve_order rnd));
          readCap = randomCapability (ve_read rnd);
          writeCap = randomCapability (ve_write rnd);
          publicKey = bytesToHex (public (ve_secret rnd));
          expiresAt = now + 300;
          deliveryUrl = em_relayOrigin m @ ''/v1/deliver/'' @ writeCap;
          transport = \<lparr>tp_type = POST, tp_target = deliveryUrl,
            tp_tags = Some [[''event_id'', em_id m], [''vendor_id'', vm_id vendor], [''expires_at'', int_text expiresAt]]\<rparr>
      in bindR (createPaymentRequest (new_url P) (package P) [] amount (em_unit m) (em_mintUrl m) description
             (Some orderId) (Some [transport])
             (Some \<lparr>n10_kind = ''P2PK'', n10_data = publicKey, n10_tags = Some []\<rparr>)) (\<lambda>request.
         Inr \<lparr>cr_orderId = orderId, cr_privateKey = bytesToHex (ve_secret rnd), cr_publicKey = publicKey,
           cr_readCapability = readCap, cr_writeCapability = writeCap, cr_deliveryUrl = deliveryUrl,
           cr_expiresAt = expiresAt, cr_request = request,
           cr_requestDigest = requestDigestOf H (dr_encoded request)\<rparr>)))"

subsection \<open>The attendee's checks\<close>

record validated_request =
  vr_request :: decoded_request
  vr_orderId :: string
  vr_vendor :: vendor_manifest
  vr_expiresAt :: int
  vr_deliveryUrl :: string
  vr_lockPublicKey :: string

text \<open>The loop of \<open>tags\<close>: every tag is a pair, no key twice.\<close>

fun read_tags :: "(string \<times> string) list \<Rightarrow> string list list \<Rightarrow> failure + (string \<times> string) list" where
  "read_tags seen [] = Inr seen"
| "read_tags seen (t # ts) =
     (case t of
        [k, v] \<Rightarrow>
          if k \<in> set (map fst seen) then Inl (Failure ''The payment request contains invalid transport tags.'')
          else read_tags (seen @ [(k, v)]) ts
      | _ \<Rightarrow> Inl (Failure ''The payment request contains invalid transport tags.''))"

definition tags :: "string list list option \<Rightarrow> failure + (string \<times> string) list" where
  "tags ts = read_tags [] (case ts of None \<Rightarrow> [] | Some xs \<Rightarrow> xs)"

text \<open>\<open>Number(metadata.get(key))\<close>: the number of an absent tag is \<open>NaN\<close>.\<close>

definition tag_number :: "platform \<Rightarrow> (string \<times> string) list \<Rightarrow> string \<Rightarrow> json" where
  "tag_number P metadata k =
     (case map_of metadata k of None \<Rightarrow> JReal ''null'' | Some t \<Rightarrow> js_number (text_number P) t)"

definition plain_lock :: "string \<Rightarrow> p2pk_lock option \<Rightarrow> bool" where
  "plain_lock key lock \<longleftrightarrow>
     (case lock of
        None \<Rightarrow> False
      | Some l \<Rightarrow> lk_pubkey l = key \<and> \<not> truthy_int (lk_locktime l) \<and> lk_refundKeys l = [] \<and>
          \<not> truthy_int (lk_signatures l))"

definition vendor_only :: "nut10_option option \<Rightarrow> bool" where
  "vendor_only n \<longleftrightarrow>
     (case n of
        None \<Rightarrow> False
      | Some x \<Rightarrow> n10_kind x = ''P2PK'' \<and> (n10_tags x = None \<or> n10_tags x = Some []) \<and> n10_data x \<noteq> [])"

definition validateEventPaymentRequest ::
  "platform \<Rightarrow> event_manifest \<Rightarrow> string \<Rightarrow> number \<Rightarrow> int \<Rightarrow> failure + validated_request" where
  "validateEventPaymentRequest P m encoded balance now =
     bindR (decodePaymentRequest (new_url P) (package P) encoded) (\<lambda>r.
     bindR (validatePaymentRequest (new_url P) r (em_mintUrl m) (em_unit m) balance) (\<lambda>_.
     bindR (normalizeMintUrl (new_url P) (em_mintUrl m)) (\<lambda>mint.
     bindR (guardR (dr_mints r = [mint]) (Failure ''The event requires exactly one accepted mint.'')) (\<lambda>_.
     bindR (guardR (dr_singleUse r \<and> truthy_text (dr_id r))
       (Failure ''The event requires a single-use order identifier.'')) (\<lambda>_.
     bindR (guardR (length (dr_transport r) = 1)
       (Failure ''The event requires exactly one payment transport.'')) (\<lambda>_.
     case postTransport r of
       None \<Rightarrow> Inl (Failure ''The event requires secure POST delivery.'')
     | Some transport \<Rightarrow>
     (case new_url P (tp_target transport) of
       None \<Rightarrow> Inl (Failure ''Invalid URL'')
     | Some target \<Rightarrow>
     bindR (guardR (url_origin target = em_relayOrigin m \<and> username target = [] \<and> password target = [] \<and>
         search target = [] \<and> hash target = [] \<and> is_delivery_path (pathname target))
       (Failure ''The payment request points to an unapproved delivery service.'')) (\<lambda>_.
     bindR (tags (tp_tags transport)) (\<lambda>metadata.
     bindR (guardR (list_all (\<lambda>(k, v). k \<in> {''event_id'', ''vendor_id'', ''expires_at''}) metadata)
       (Failure ''The payment request contains unsupported transport metadata.'')) (\<lambda>_.
     bindR (guardR (map_of metadata ''event_id'' = Some (em_id m))
       (Failure ''This payment request belongs to another event.'')) (\<lambda>_.
     case find (\<lambda>v. map_of metadata ''vendor_id'' = Some (vm_id v)) (em_vendors m) of
       None \<Rightarrow> Inl (Failure ''This payment request names an unknown vendor.'')
     | Some vendor \<Rightarrow>
     (let late = Failure ''This payment request has expired or has an invalid lifetime.'' in
     bindR (intR late (tag_number P metadata ''expires_at'')) (\<lambda>expiresAt.
     bindR (guardR (now < expiresAt \<and> expiresAt \<le> now + 600) late) (\<lambda>_.
     (let no_lock = Failure ''This payment request does not contain the required vendor-only lock.'' in
     bindR (guardR (vendor_only (dr_nut10 r)) no_lock) (\<lambda>_.
     bindR (paymentRequestLock (package P) r) (\<lambda>lock.
     bindR (guardR (plain_lock (n10_data (the (dr_nut10 r))) lock)
       (Failure ''This payment request contains unsupported lock conditions.'')) (\<lambda>_.
     Inr \<lparr>vr_request = r, vr_orderId = text_or [] (dr_id r), vr_vendor = vendor, vr_expiresAt = expiresAt,
       vr_deliveryUrl = tp_target transport, vr_lockPublicKey = n10_data (the (dr_nut10 r))\<rparr>))))))))))))))))))"

subsection \<open>The payload\<close>

record inspected_token =
  it_amount :: int
  it_mint :: string
  it_unit :: string
  it_proofs :: "cashu_proof list"
  it_memo :: "string option"

text \<open>The payload is built from the inspected token of the active wallet (its mint and its unit).\<close>

definition createPaymentPayload ::
  "platform \<Rightarrow> string \<Rightarrow> string \<Rightarrow> (string \<Rightarrow> failure + inspected_token) \<Rightarrow> string \<Rightarrow> decoded_request \<Rightarrow>
   failure + json" where
  "createPaymentPayload P mintUrl unit inspect token r =
     bindR (guardR (truthy_text (dr_id r)) (Failure ''The payment request has no order identifier.'')) (\<lambda>_.
     bindR (inspect token) (\<lambda>inspected.
     bindR (sameMint (new_url P) (it_mint inspected) mintUrl) (\<lambda>same.
     bindR (guardR (same \<and> it_unit inspected = unit)
       (Failure ''The prepared token does not match the active mint and unit.'')) (\<lambda>_.
     bindR (normalizeMintUrl (new_url P) mintUrl) (\<lambda>mint.
     Inr (JObj [(''id'', JStr (text_or [] (dr_id r))), (''memo'', JStr (dr_description r)), (''unit'', JStr unit),
       (''mint'', JStr mint), (''proofs'', JArr (it_proofs inspected))]))))))"

end
