(* ===== verification/Market_Manifest.thy ===== *)
theory Market_Manifest
  imports Market_Types
begin

section \<open>The event manifest\<close>

text \<open>
  \<open>validateEventManifest\<close> of \<open>market/src/event/manifest.ts\<close>. A regular expression tests the text
  JavaScript gives a value (\<open>js_string\<close>), so that an identifier that is a number can pass; the
  uniqueness tests compare the values themselves, and the record keeps the text.
\<close>

fun js_string :: "json \<Rightarrow> string" where
  "js_string JUndef = ''undefined''"
| "js_string JNull = ''null''"
| "js_string (JBool b) = (if b then ''true'' else ''false'')"
| "js_string (JInt i) = int_text i"
| "js_string (JReal t) = t"
| "js_string (JStr s) = s"
| "js_string (JArr vs) =
     join_with '','' (map (\<lambda>v. if v = JUndef \<or> v = JNull then [] else js_string v) vs)"
| "js_string (JObj fs) = ''[object Object]''"

definition manifest_record :: "json \<Rightarrow> string \<Rightarrow> failure + unit" where
  "manifest_record v label = guardR (is_record v) (Failure (label @ '' must be an object.''))"

definition manifest_keys :: "json \<Rightarrow> string list \<Rightarrow> string \<Rightarrow> failure + unit" where
  "manifest_keys v keys label =
     guardR (exact_keys v keys []) (Failure (label @ '' contains missing or unsupported fields.''))"

definition manifest_url :: "url_parser \<Rightarrow> json \<Rightarrow> string \<Rightarrow> failure + string" where
  "manifest_url U v label =
     (case U (js_string v) of
        None \<Rightarrow> Inl (Failure ''Invalid URL'')
      | Some u \<Rightarrow>
          bindR (guardR (http_or_https u \<and> username u = [] \<and> password u = [] \<and> search u = [] \<and> hash u = [])
            (Failure (label @ '' must be an HTTP(S) URL without credentials, query, or fragment.''))) (\<lambda>_.
          bindR (guardR (protocol u = ''https:'' \<or> hostname u \<in> {''localhost'', ''127.0.0.1''})
            (Failure (label @ '' must use HTTPS outside local development.''))) (\<lambda>_.
          Inr (normal_url_text u))))"

definition no_path :: "url_parser \<Rightarrow> string \<Rightarrow> string \<Rightarrow> failure + unit" where
  "no_path U text label =
     (case U text of
        None \<Rightarrow> Inl (Failure ''Invalid URL'')
      | Some u \<Rightarrow> guardR (pathname u = ''/'') (Failure (label @ '' must not contain a path.'')))"

text \<open>\<open>SLUG = /^[a-z0-9]+(?:-[a-z0-9]+)*$/\<close> and \<open>HEX_32 = /^0x[a-f0-9]{64}$/\<close>.\<close>

definition is_slug :: "string \<Rightarrow> bool" where
  "is_slug s \<longleftrightarrow>
     list_all (\<lambda>p. p \<noteq> [] \<and> list_all (\<lambda>c. code_in c 97 122 \<or> code_in c 48 57) p) (split_on (CHR ''-'') s)"

definition is_hex_32 :: "string \<Rightarrow> bool" where
  "is_hex_32 s \<longleftrightarrow> starts_with ''0x'' s \<and> chars_between is_lower_hex 64 64 (drop 2 s)"

definition is_filled :: "json \<Rightarrow> bool" where
  "is_filled v = str_such (\<lambda>s. trim s \<noteq> []) v"

definition text_of :: "json \<Rightarrow> string" where
  "text_of v = (case str_of v of None \<Rightarrow> js_string v | Some s \<Rightarrow> s)"

definition price_of :: "json \<Rightarrow> item_price option" where
  "price_of v =
     (if v = JStr ''custom'' then Some Custom_price
      else case safe_int_of v of None \<Rightarrow> None | Some i \<Rightarrow> if 0 < i then Some (Price i) else None)"

definition read_item :: "json \<Rightarrow> failure + catalog_item" where
  "read_item v =
     bindR (guardR (is_filled (field v ''label'') \<and> is_filled (field v ''description'') \<and>
         price_of (field v ''price'') \<noteq> None)
       (Failure ''Catalog items require a label and positive integer price.'')) (\<lambda>_.
     Inr \<lparr>ci_id = text_of (field v ''id''), ci_label = text_of (field v ''label''),
       ci_description = text_of (field v ''description''), ci_price = the (price_of (field v ''price''))\<rparr>)"

text \<open>The loops over the items of a catalog and over the vendors, with the identifiers seen so far.\<close>

fun read_items :: "json list \<Rightarrow> json list \<Rightarrow> failure + catalog_item list" where
  "read_items seen [] = Inr []"
| "read_items seen (v # vs) =
     bindR (manifest_record v ''Catalog item'') (\<lambda>_.
     bindR (manifest_keys v [''id'', ''label'', ''description'', ''price''] ''Catalog item'') (\<lambda>_.
     bindR (guardR (is_slug (js_string (field v ''id'')) \<and> field v ''id'' \<notin> set seen)
       (Failure ''Catalog item IDs must be unique lowercase slugs.'')) (\<lambda>_.
     bindR (read_item v) (\<lambda>item.
     bindR (read_items (field v ''id'' # seen) vs) (\<lambda>rest. Inr (item # rest))))))"

fun read_vendors :: "json list \<Rightarrow> json list \<Rightarrow> failure + vendor_manifest list" where
  "read_vendors seen [] = Inr []"
| "read_vendors seen (v # vs) =
     bindR (manifest_record v ''Vendor'') (\<lambda>_.
     bindR (manifest_keys v [''id'', ''name'', ''description'', ''location'', ''catalog''] ''Vendor'') (\<lambda>_.
     bindR (guardR (is_slug (js_string (field v ''id'')) \<and> field v ''id'' \<notin> set seen)
       (Failure ''Vendor IDs must be unique lowercase slugs.'')) (\<lambda>_.
     bindR (guardR (is_filled (field v ''name'') \<and> is_filled (field v ''description'') \<and>
         is_filled (field v ''location'') \<and> arr_of (field v ''catalog'') \<notin> {None, Some []})
       (Failure ''Every vendor needs a name, description, location, and catalog.'')) (\<lambda>_.
     bindR (read_items [] (the (arr_of (field v ''catalog'')))) (\<lambda>items.
     bindR (read_vendors (field v ''id'' # seen) vs) (\<lambda>rest.
     Inr (\<lparr>vm_id = text_of (field v ''id''), vm_name = text_of (field v ''name''),
       vm_description = text_of (field v ''description''), vm_location = text_of (field v ''location''),
       vm_catalog = items\<rparr> # rest)))))))"

definition validateEventManifest :: "url_parser \<Rightarrow> json \<Rightarrow> failure + event_manifest" where
  "validateEventManifest U v =
     bindR (manifest_record v ''Event manifest'') (\<lambda>_.
     bindR (manifest_keys v [''schemaVersion'', ''id'', ''name'', ''description'', ''venue'', ''network'',
         ''networkLabel'', ''unit'', ''mintUrl'', ''assetTypeScript'', ''paymentTransport'', ''faucet'',
         ''vendors''] ''Event manifest'') (\<lambda>_.
     bindR (guardR (list_all (\<lambda>k. is_filled (field v k))
         [''id'', ''name'', ''description'', ''venue'', ''networkLabel'', ''mintUrl''])
       (Failure ''Event identity fields must be non-empty strings.'')) (\<lambda>_.
     bindR (guardR (field v ''schemaVersion'' = JInt 1) (Failure ''Unsupported event manifest version.'')) (\<lambda>_.
     bindR (guardR (is_slug (js_string (field v ''id''))) (Failure ''Event ID must be a stable lowercase slug.'')) (\<lambda>_.
     bindR (guardR (field v ''network'' = JStr ''testnet'' \<and> field v ''unit'' = JStr ''rusd'')
       (Failure ''The first market release supports only CKB testnet RUSD.'')) (\<lambda>_.
     (let asset = field v ''assetTypeScript''; transport = field v ''paymentTransport'';
          faucet = field v ''faucet'' in
     bindR (manifest_record asset ''Asset type script'') (\<lambda>_.
     bindR (manifest_keys asset [''codeHash'', ''hashType'', ''args''] ''Asset type script'') (\<lambda>_.
     bindR (guardR (field asset ''hashType'' = JStr ''type'' \<and> is_hex_32 (js_string (field asset ''codeHash'')) \<and>
         is_hex_32 (js_string (field asset ''args'')))
       (Failure ''The configured RUSD type script is malformed.'')) (\<lambda>_.
     bindR (manifest_record transport ''Payment transport'') (\<lambda>_.
     bindR (manifest_keys transport [''mode'', ''relayOrigin''] ''Payment transport'') (\<lambda>_.
     bindR (guardR (field transport ''mode'' = JStr ''post_p2pk'')
       (Failure ''Unsupported payment transport mode.'')) (\<lambda>_.
     bindR (manifest_url U (field v ''mintUrl'') ''Mint URL'') (\<lambda>mintUrl.
     bindR (manifest_url U (field transport ''relayOrigin'') ''Relay origin'') (\<lambda>relayOrigin.
     bindR (no_path U relayOrigin ''Relay origin'') (\<lambda>_.
     bindR (manifest_record faucet ''Faucet'') (\<lambda>_.
     bindR (manifest_keys faucet [''origin''] ''Faucet'') (\<lambda>_.
     bindR (manifest_url U (field faucet ''origin'') ''Faucet origin'') (\<lambda>faucetOrigin.
     bindR (no_path U faucetOrigin ''Faucet origin'') (\<lambda>_.
     bindR (guardR (arr_of (field v ''vendors'') \<notin> {None, Some []})
       (Failure ''The event must configure at least one vendor.'')) (\<lambda>_.
     bindR (read_vendors [] (the (arr_of (field v ''vendors'')))) (\<lambda>vendors.
     Inr \<lparr>em_id = text_of (field v ''id''), em_name = text_of (field v ''name''),
       em_description = text_of (field v ''description''), em_venue = text_of (field v ''venue''),
       em_networkLabel = text_of (field v ''networkLabel''), em_unit = ''rusd'', em_mintUrl = mintUrl,
       em_codeHash = text_of (field asset ''codeHash''), em_args = text_of (field asset ''args''),
       em_relayOrigin = relayOrigin, em_faucetOrigin = faucetOrigin, em_vendors = vendors\<rparr>))))))))))))))))))))))"

end
