(* ===== verification/Market_Clients.thy ===== *)
theory Market_Clients
  imports Market_Payment Market_Manifest
begin

section \<open>The market's HTTP clients\<close>

text \<open>
  \<open>market/src/domain/relay.ts\<close> and \<open>market/src/domain/faucet.ts\<close>: what is sent to the relay and the
  faucet, and how an answer becomes a result or an error. An answer is an \<open>http_reply\<close>:
  \<open>Unreachable\<close> where \<open>fetch\<close> throws, else the status and the parsed body (\<open>None\<close> where it is not
  JSON).
\<close>

record http_call =
  hc_url :: string
  hc_method :: string
  hc_bearer :: "string option"
  hc_body :: "string option"

definition ok_status :: "nat \<Rightarrow> bool" where
  "ok_status s \<longleftrightarrow> 200 \<le> s \<and> s \<le> 299"

subsection \<open>The relay\<close>

text \<open>A body that has no members to read (\<open>null\<close>) throws inside the \<open>try\<close>.\<close>

definition responseError :: "nat \<Rightarrow> json option \<Rightarrow> string \<Rightarrow> failure" where
  "responseError status body fallback =
     (case body of
        None \<Rightarrow> Relay_failure fallback (Some status) None
      | Some v \<Rightarrow>
          if v = JNull then Relay_failure fallback (Some status) None
          else
            let message = field v ''message'' in
            Relay_failure
              (if js_truthy message then js_string message else fallback)
              (Some status) (str_of (field v ''error'')))"

definition network_failure :: failure where
  "network_failure = Failure ''Failed to fetch''"

definition registration_body :: "event_manifest \<Rightarrow> created_request \<Rightarrow> int \<Rightarrow> json" where
  "registration_body m r amount = JObj
     [(''order_id'', JStr (cr_orderId r)), (''amount'', JInt amount), (''unit'', JStr (em_unit m)),
      (''mint'', JStr (em_mintUrl m)), (''request_digest'', JStr (cr_requestDigest r)),
      (''expires_at'', JInt (cr_expiresAt r)), (''write_capability'', JStr (cr_writeCapability r)),
      (''read_capability'', JStr (cr_readCapability r))]"

definition expect_ok :: "string \<Rightarrow> http_reply \<Rightarrow> failure + unit" where
  "expect_ok fallback reply =
     (case reply of
        Unreachable \<Rightarrow> Inl network_failure
      | Reply status body \<Rightarrow> if ok_status status then Inr () else Inl (responseError status body fallback))"

definition register_call :: "platform \<Rightarrow> event_manifest \<Rightarrow> created_request \<Rightarrow> int \<Rightarrow> http_call" where
  "register_call P m r amount =
     \<lparr>hc_url = em_relayOrigin m @ ''/v1/orders'', hc_method = ''POST'', hc_bearer = None,
      hc_body = Some (json_stringify P (registration_body m r amount))\<rparr>"

definition registerDeliverySlot :: "http_reply \<Rightarrow> failure + unit" where
  "registerDeliverySlot = expect_ok ''The payment request could not be registered.''"

definition deliver_call :: "string \<Rightarrow> string \<Rightarrow> http_call" where
  "deliver_call deliveryUrl payloadJson =
     \<lparr>hc_url = deliveryUrl, hc_method = ''POST'', hc_bearer = None, hc_body = Some payloadJson\<rparr>"

definition deliverPayment :: "http_reply \<Rightarrow> failure + unit" where
  "deliverPayment reply =
     (case reply of
        Unreachable \<Rightarrow> Inl network_failure
      | Reply status body \<Rightarrow>
          if status = 202 then Inr () else Inl (responseError status body ''The payment could not be delivered.''))"

definition read_call :: "string \<Rightarrow> string \<Rightarrow> http_call" where
  "read_call relayOrigin cap =
     \<lparr>hc_url = relayOrigin @ ''/v1/inbox'', hc_method = ''GET'', hc_bearer = Some cap, hc_body = None\<rparr>"

definition readPayment :: "http_reply \<Rightarrow> failure + json option" where
  "readPayment reply =
     (case reply of
        Unreachable \<Rightarrow> Inl network_failure
      | Reply status body \<Rightarrow>
          if status = 204 then Inr None
          else if \<not> ok_status status
          then Inl (responseError status body ''The payment inbox could not be read.'')
          else (case body of None \<Rightarrow> Inl Thrown_value | Some v \<Rightarrow> Inr (Some v)))"

definition inbox_call :: "string \<Rightarrow> string \<Rightarrow> string \<Rightarrow> http_call" where
  "inbox_call relayOrigin cap action =
     \<lparr>hc_url = relayOrigin @ ''/v1/inbox/'' @ action, hc_method = ''POST'', hc_bearer = Some cap, hc_body = None\<rparr>"

definition inboxAction :: "string \<Rightarrow> http_reply \<Rightarrow> failure + unit" where
  "inboxAction action = expect_ok (''The payment inbox could not '' @ action @ ''.'')"

subsection \<open>The faucet\<close>

record faucet_settings =
  fg_enabled :: bool
  fg_amount :: int
  fg_unit :: string
  fg_network :: string
  fg_mint :: string
  fg_cooldownSeconds :: int
  fg_remainingToday :: int

datatype claim_status = Claim_paying | Claim_paid | Claim_issued | Claim_failed | Claim_recoverable

record claim_answer =
  ca_status :: claim_status
  ca_amount :: int
  ca_unit :: string
  ca_message :: string
  ca_retryAfterSeconds :: "int option"

fun claim_status_text :: "claim_status \<Rightarrow> string" where
  "claim_status_text Claim_paying = ''paying''"
| "claim_status_text Claim_paid = ''paid''"
| "claim_status_text Claim_issued = ''issued''"
| "claim_status_text Claim_failed = ''failed''"
| "claim_status_text Claim_recoverable = ''recoverable''"

definition claim_statuses :: "claim_status list" where
  "claim_statuses = [Claim_paying, Claim_paid, Claim_issued, Claim_failed, Claim_recoverable]"

definition faucetInteger :: "int \<Rightarrow> json \<Rightarrow> int option" where
  "faucetInteger minimum v =
     (case safe_int_of v of None \<Rightarrow> None | Some i \<Rightarrow> if minimum \<le> i then Some i else None)"

text \<open>\<open>new URL\<close> throws a type error for a text that is no URL; the search and the hash are cleared.\<close>

definition faucetUrl :: "url_parser \<Rightarrow> string \<Rightarrow> failure + string" where
  "faucetUrl U v =
     (case U v of
        None \<Rightarrow> Inl (Failure ''Invalid URL'')
      | Some u \<Rightarrow> Inr (normal_url_text (u\<lparr>search := [], hash := []\<rparr>)))"

definition invalid_response :: "string \<Rightarrow> failure" where
  "invalid_response text = Faucet_failure ''invalid_response'' text None"

definition faucetJson :: "json option \<Rightarrow> string \<Rightarrow> failure + json" where
  "faucetJson body text =
     (case body of
        None \<Rightarrow> Inl (invalid_response ''The community faucet returned an invalid response.'')
      | Some v \<Rightarrow> if is_record v then Inr v else Inl (invalid_response text))"

definition faucetConfig :: "url_parser \<Rightarrow> http_reply \<Rightarrow> failure + faucet_settings" where
  "faucetConfig U reply =
     (case reply of
        Unreachable \<Rightarrow> Inl (Faucet_failure ''unavailable'' ''The community faucet is not reachable.'' None)
      | Reply status body \<Rightarrow>
          if \<not> ok_status status
          then Inl (Faucet_failure ''unavailable'' ''The community faucet is not available.'' None)
          else
            bindR (faucetJson body ''The community faucet returned invalid settings.'') (\<lambda>raw.
            case (field raw ''enabled'', faucetInteger 1 (field raw ''amount''), field raw ''mint'',
                faucetInteger 60 (field raw ''cooldownSeconds''), faucetInteger 0 (field raw ''remainingToday'')) of
              (JBool enabled, Some amount, JStr mint, Some cooldown, Some remaining) \<Rightarrow>
                bindR (guardR (field raw ''unit'' = JStr ''rusd'' \<and> field raw ''network'' = JStr ''testnet'')
                  (invalid_response ''The community faucet returned invalid settings.'')) (\<lambda>_.
                bindR (faucetUrl U mint) (\<lambda>url.
                Inr \<lparr>fg_enabled = enabled, fg_amount = amount, fg_unit = ''rusd'', fg_network = ''testnet'',
                  fg_mint = url, fg_cooldownSeconds = cooldown, fg_remainingToday = remaining\<rparr>))
            | _ \<Rightarrow> Inl (invalid_response ''The community faucet returned invalid settings.'')))"

text \<open>The status is the text of its value, \<open>String(raw.status)\<close>.\<close>

definition faucetClaim :: "http_reply \<Rightarrow> failure + claim_answer" where
  "faucetClaim reply =
     (case reply of
        Unreachable \<Rightarrow> Inl (Faucet_failure ''unavailable''
          ''The claim result is unknown. Resume this same claim before creating another.'' None)
      | Reply status body \<Rightarrow>
          bindR (faucetJson body ''The community faucet returned an invalid response.'') (\<lambda>raw.
          let retry = faucetInteger 1 (field raw ''retry_after_seconds'') in
          if \<not> ok_status status then
            Inl (Faucet_failure
              (case str_of (field raw ''error'') of None \<Rightarrow> ''request_failed'' | Some t \<Rightarrow> t)
              (case str_of (field raw ''message'') of
                 None \<Rightarrow> ''The community faucet could not fund this claim.'' | Some t \<Rightarrow> t) retry)
          else
            (case (enum_of claim_status_text claim_statuses (js_string (field raw ''status'')),
                 faucetInteger 1 (field raw ''amount''), str_of (field raw ''message'')) of
               (Some state, Some amount, Some message) \<Rightarrow>
                 if field raw ''unit'' = JStr ''rusd''
                 then Inr \<lparr>ca_status = state, ca_amount = amount, ca_unit = ''rusd'', ca_message = message,
                   ca_retryAfterSeconds = retry\<rparr>
                 else Inl (invalid_response ''The community faucet returned an invalid claim status.'')
             | _ \<Rightarrow> Inl (invalid_response ''The community faucet returned an invalid claim status.''))))"

definition claim_body :: "string \<Rightarrow> string \<Rightarrow> json" where
  "claim_body quoteId clientId = JObj [(''quote_id'', JStr quoteId), (''client_id'', JStr clientId)]"

definition config_call :: "string \<Rightarrow> http_call" where
  "config_call origin =
     \<lparr>hc_url = origin @ ''/v1/config'', hc_method = ''GET'', hc_bearer = None, hc_body = None\<rparr>"

definition claim_call :: "platform \<Rightarrow> string \<Rightarrow> string \<Rightarrow> string \<Rightarrow> http_call" where
  "claim_call P origin quoteId clientId =
     \<lparr>hc_url = origin @ ''/v1/claims'', hc_method = ''POST'', hc_bearer = None,
      hc_body = Some (json_stringify P (claim_body quoteId clientId))\<rparr>"

text \<open>The client's identifier is kept in the browser's storage; a new one is 32 random bytes.\<close>

definition faucet_client_key :: "url \<Rightarrow> string" where
  "faucet_client_key u = ''fibernuts:faucet-client:v1:'' @ host u"

definition faucetClientId ::
  "platform \<Rightarrow> (string \<Rightarrow> string \<Rightarrow> bool) \<Rightarrow> string \<Rightarrow> bytes \<Rightarrow> (string \<Rightarrow> string option, failure, string) effect" where
  "faucetClientId P room origin rnd store =
     (case new_url P origin of
        None \<Rightarrow> (Inl (Failure ''Invalid URL''), store)
      | Some u \<Rightarrow>
          let key = faucet_client_key u; current = text_or [] (store key) in
          if chars_between is_b64url 43 64 current then (Inr current, store)
          else
            let created = randomCapability rnd in
            if room key created then (Inr created, store(key \<mapsto> created)) else (Inl Thrown_value, store))"

end
