(* ===== verification/Market_Ports.thy ===== *)
theory Market_Ports
  imports Market_Clients Market_Load
begin

section \<open>What the market runtime calls\<close>

text \<open>
  The interfaces \<open>MarketWallet\<close> and \<open>RelayPort\<close> of \<open>market/src/domain/market-runtime.ts\<close>, the quotes
  and previews of \<open>wallet/src/lib/wallet.ts\<close>, and the session a runtime works on: the snapshot in
  memory, the browser's storage, and the world behind the ports. A port is an effect on the world;
  nothing is assumed of it. \<open>ss_calls\<close> records the calls that move value or secrets, each with the
  proofs it returned (\<open>None\<close> where it threw) and the storage as it was when the call was made;
  \<open>ss_commits\<close> records every commit with the number of calls before it and the snapshots before and after.
  Only theorems read them. The identifiers in use are an argument of the two ports that draw new ones, so
  that their documented uniqueness can be stated (\<open>fresh_for\<close>).
\<close>

subsection \<open>Quotes and previews\<close>

datatype mint_state = Mint_unpaid | Mint_paid | Mint_issued

record mint_quote =
  mtq_quote :: string
  mtq_request :: string
  mtq_amount :: number
  mtq_unit :: string
  mtq_pubkey :: "string option"
  mtq_amount_paid :: "number option"
  mtq_state :: "mint_state option"
  mtq_expiry :: "int option"

record melt_quote =
  mlq_quote :: string
  mlq_amount :: number
  mlq_fee_reserve :: number
  mlq_unit :: string
  mlq_state :: quote_state
  mlq_expiry :: "int option"
  mlq_request :: string
  mlq_change :: "json list option"

record prepared_melt =
  pm_keep :: "cashu_proof list"
  pm_reserved :: "cashu_proof list"
  pm_outputs :: "output_data list"
  pm_keysetId :: string
  pm_inputFee :: number

record prepared_mint =
  pn_outputs :: "output_data list"
  pn_keysetId :: string
  pn_legacySignature :: "string option"
  pn_payloadSignature :: "string option"

record locked_quote =
  lkq_quote :: mint_quote
  lkq_privateKey :: string
  lkq_publicKey :: string

record melt_execution =
  mx_state :: quote_state
  mx_change :: "cashu_proof list"
  mx_outputs :: "output_data list"

datatype prepared_send =
    Offline_send "cashu_proof list" "cashu_proof list" number number
  | Swap_send swap_preview number number

datatype spend_state = Unspent | Pending_spend | Spent | Mixed

definition num_ge :: "number \<Rightarrow> number \<Rightarrow> bool" where
  "num_ge a b = (case (a, b) of (Some i, Some j) \<Rightarrow> j \<le> i | _ \<Rightarrow> False)"

definition mintQuoteIsPaid :: "mint_quote \<Rightarrow> bool" where
  "mintQuoteIsPaid q \<longleftrightarrow>
     mtq_state q = Some Mint_paid \<or> mtq_state q = Some Mint_issued \<or>
     (mtq_state q = None \<and>
      (case mtq_amount_paid q of None \<Rightarrow> False | Some paid \<Rightarrow> num_ge paid (mtq_amount q)))"

subsection \<open>The ports\<close>

record 'w market_wallet =
  mw_mintUrl :: string
  mw_unit :: string
  mw_prepareSend :: "number \<Rightarrow> cashu_proof list \<Rightarrow> p2pk_lock option \<Rightarrow> ('w, failure, prepared_send) effect"
  mw_completePreparedSend :: "swap_preview \<Rightarrow> ('w, failure, string \<times> cashu_proof list) effect"
  mw_inspectToken :: "string \<Rightarrow> failure + inspected_token"
  mw_encodeProofs :: "cashu_proof list \<Rightarrow> failure + string"
  mw_tokenIsLockedTo :: "string \<Rightarrow> string \<Rightarrow> failure + bool"
  mw_prepareReceive :: "string \<Rightarrow> string option \<Rightarrow> ('w, failure, swap_preview) effect"
  mw_completePreparedReceive :: "swap_preview \<Rightarrow> ('w, failure, cashu_proof list) effect"
  mw_checkTokenState :: "string \<Rightarrow> ('w, failure, spend_state) effect"
  mw_requestMint :: "number \<Rightarrow> ('w, failure, mint_quote) effect"
  mw_requestLockedMint :: "number \<Rightarrow> ('w, failure, locked_quote) effect"
  mw_checkMintQuote :: "string \<Rightarrow> ('w, failure, mint_quote) effect"
  mw_prepareMint :: "mint_quote \<Rightarrow> string option \<Rightarrow> ('w, failure, prepared_mint) effect"
  mw_completeMint :: "mint_quote \<Rightarrow> prepared_mint \<Rightarrow> ('w, failure, cashu_proof list) effect"
  mw_requestMelt :: "string \<Rightarrow> ('w, failure, melt_quote) effect"
  mw_checkMeltQuote :: "string \<Rightarrow> ('w, failure, melt_quote) effect"
  mw_prepareMelt :: "melt_quote \<Rightarrow> cashu_proof list \<Rightarrow> ('w, failure, prepared_melt) effect"
  mw_executeMelt :: "melt_quote \<Rightarrow> prepared_melt \<Rightarrow> ('w, failure, melt_execution) effect"
  mw_recoverMeltChange :: "output_data list \<Rightarrow> melt_quote \<Rightarrow> failure + cashu_proof list"
  mw_checkProofsState :: "cashu_proof list \<Rightarrow> ('w, failure, spend_state) effect"

record 'w relay_port =
  rp_register :: "event_manifest \<Rightarrow> created_request \<Rightarrow> int \<Rightarrow> ('w, failure, unit) effect"
  rp_deliver :: "string \<Rightarrow> string \<Rightarrow> ('w, failure, unit) effect"
  rp_read :: "string \<Rightarrow> string \<Rightarrow> ('w, failure, json option) effect"
  rp_acknowledge :: "string \<Rightarrow> string \<Rightarrow> ('w, failure, unit) effect"
  rp_cancel :: "string \<Rightarrow> string \<Rightarrow> ('w, failure, unit) effect"

text \<open>\<open>browserRelay\<close>: the relay port over HTTP.\<close>

definition fetched :: "(http_call \<Rightarrow> 'w \<Rightarrow> http_reply \<times> 'w) \<Rightarrow> http_call \<Rightarrow> (http_reply \<Rightarrow> failure + 'a) \<Rightarrow>
   ('w, failure, 'a) effect" where
  "fetched fetch c f w = (case fetch c w of (reply, w') \<Rightarrow> (f reply, w'))"

definition browserRelay :: "platform \<Rightarrow> (http_call \<Rightarrow> 'w \<Rightarrow> http_reply \<times> 'w) \<Rightarrow> 'w relay_port" where
  "browserRelay P fetch =
     \<lparr>rp_register = (\<lambda>m r amount. fetched fetch (register_call P m r amount) registerDeliverySlot),
      rp_deliver = (\<lambda>url payload. fetched fetch (deliver_call url payload) deliverPayment),
      rp_read = (\<lambda>origin cap. fetched fetch (read_call origin cap) readPayment),
      rp_acknowledge = (\<lambda>origin cap. fetched fetch (inbox_call origin cap ''ack'') (inboxAction ''ack'')),
      rp_cancel = (\<lambda>origin cap. fetched fetch (inbox_call origin cap ''cancel'') (inboxAction ''cancel''))\<rparr>"

record 'w runtime =
  rt_platform :: platform
  rt_hash :: "string \<Rightarrow> string"
  rt_public :: "bytes \<Rightarrow> bytes"
  rt_manifest :: event_manifest
  rt_vendor :: vendor_manifest
  rt_wallet :: "'w market_wallet"
  rt_relay :: "'w relay_port"
  rt_now :: "'w \<Rightarrow> int \<times> 'w"
  rt_operationId :: "string list \<Rightarrow> 'w \<Rightarrow> string \<times> 'w"
  rt_entropy :: "string list \<Rightarrow> 'w \<Rightarrow> vendor_entropy \<times> 'w"
  rt_room :: "'w \<Rightarrow> string \<Rightarrow> string \<Rightarrow> bool"

definition new_order_id :: "vendor_entropy \<Rightarrow> string" where
  "new_order_id e = ''order_'' @ take 32 (randomCapability (ve_order e))"

subsection \<open>The session\<close>

datatype moving_call =
    Complete_send swap_preview
  | Complete_receive swap_preview
  | Complete_mint mint_quote prepared_mint
  | Execute_melt melt_quote prepared_melt
  | Deliver string string
  | Register created_request int
  | Cancel string

record 'w session =
  ss_snapshot :: market_snapshot
  ss_store :: local_storage
  ss_toast :: "string option"
  ss_world :: 'w
  ss_calls :: "(moving_call \<times> cashu_proof list option \<times> local_storage) list"
  ss_commits :: "(nat \<times> market_snapshot \<times> market_snapshot) list"

type_synonym ('w, 'a) market_op = "('w session, failure, 'a) effect"

definition portM :: "('w, failure, 'a) effect \<Rightarrow> ('w, 'a) market_op" where
  "portM f s = (case f (ss_world s) of (r, w) \<Rightarrow> (r, s\<lparr>ss_world := w\<rparr>))"

definition movingM ::
  "moving_call \<Rightarrow> ('a \<Rightarrow> cashu_proof list) \<Rightarrow> ('w, failure, 'a) effect \<Rightarrow> ('w, 'a) market_op" where
  "movingM c proofs f s =
     (case f (ss_world s) of (r, w) \<Rightarrow>
        (r, s\<lparr>ss_world := w,
              ss_calls := ss_calls s @ [(c, case r of Inl _ \<Rightarrow> None | Inr x \<Rightarrow> Some (proofs x), ss_store s)]\<rparr>))"

definition totalM :: "('w \<Rightarrow> 'a \<times> 'w) \<Rightarrow> ('w, failure, 'a) effect" where
  "totalM f w = (case f w of (x, w') \<Rightarrow> (Inr x, w'))"

definition nowM :: "'w runtime \<Rightarrow> ('w, int) market_op" where
  "nowM R = portM (totalM (rt_now R))"

definition notifyM :: "string \<Rightarrow> ('w, unit) market_op" where
  "notifyM t s = (Inr (), s\<lparr>ss_toast := Some t\<rparr>)"

definition operation_ids :: "market_snapshot \<Rightarrow> string list" where
  "operation_ids s = map op_id (sn_addCash s) @ map pay_id (sn_payments s) @ map op_id (sn_cashOut s)"

definition operationIdM :: "'w runtime \<Rightarrow> ('w, string) market_op" where
  "operationIdM R =
     bindM (readM (\<lambda>s. operation_ids (ss_snapshot s))) (\<lambda>used. portM (totalM (rt_operationId R used)))"

definition entropyM :: "'w runtime \<Rightarrow> ('w, vendor_entropy) market_op" where
  "entropyM R =
     bindM (readM (\<lambda>s. map ord_id (sn_orders (ss_snapshot s)))) (\<lambda>used. portM (totalM (rt_entropy R used)))"

text \<open>
  Identifiers are random. The draws that a snapshot is given are new in it: what a collision of two
  random identifiers would do is not modelled.
\<close>

definition fresh_for :: "'w runtime \<Rightarrow> market_snapshot \<Rightarrow> bool" where
  "fresh_for R n \<longleftrightarrow>
     (\<forall>w. fst (rt_operationId R (operation_ids n) w) \<notin> set (operation_ids n)) \<and>
     (\<forall>w. new_order_id (fst (rt_entropy R (map ord_id (sn_orders n)) w)) \<notin> ord_id ` set (sn_orders n))"

text \<open>\<open>commit\<close> of the application: the snapshot in memory changes only after it was stored.\<close>

definition commitM :: "'w runtime \<Rightarrow> market_snapshot \<Rightarrow> ('w, unit) market_op" where
  "commitM R next s =
     (case saveMarketSnapshot (rt_platform R) (rt_manifest R) (rt_room R (ss_world s)) next (ss_store s) of
        (Inl e, store) \<Rightarrow> (Inl e, s\<lparr>ss_store := store\<rparr>)
      | (Inr _, store) \<Rightarrow> (Inr (), s\<lparr>ss_store := store, ss_snapshot := next,
          ss_commits := ss_commits s @ [(length (ss_calls s), ss_snapshot s, next)]\<rparr>))"

end
