(* ===== verification/Market_Runtime.thy ===== *)
theory Market_Runtime
  imports Market_Ports
begin

section \<open>The market runtime: payments\<close>

text \<open>
  \<open>market/src/domain/market-runtime.ts\<close>, method by method. A method is an effect on the session. A
  \<open>try\<close> block whose handler uses a variable that the block assigns is split at the assignments, so
  that each part has the handler with the value the variable has then. \<open>note_text\<close> gives the texts.
\<close>

subsection \<open>Texts\<close>

datatype runtime_note =
    Needs_role market_role | Has_payment | No_lock | Needs_swap | Balance_changed | Preparation_stored
  | Preparation_incomplete | Payload_incomplete | Delivery_retryable | Delivery_rejected | Still_pending
  | Mixed_states | State_unavailable | No_items | Bad_total | Bad_item | Charge_stored
  | Registration_incomplete | No_inbox | Malformed_payload | Other_order | Wrong_mint | Ack_later
  | Settlement_incomplete | Malformed_token | Not_exact | Not_locked | Already_spent | Conflicting
  | Proofs_pending | Wrong_swap | No_settlement | Cleanup_pending | Not_cancellable | Not_faucet
  | Unexpected_lock | Invoice_expired | Issuance_incomplete | Cash_out_changed | Returned_unpaid
  | Change_missing | Reserved_missing | Recovering | Recovery_incomplete | Recovered

definition note_text :: "runtime_note \<Rightarrow> string" where
  "note_text n = (case n of
     Needs_role r \<Rightarrow> ''This action requires the '' @ role_text r @ '' application.''
   | Has_payment \<Rightarrow> ''This single-use order already has a payment. Open Activity to inspect it.''
   | No_lock \<Rightarrow> ''The vendor-only payment lock is unavailable.''
   | Needs_swap \<Rightarrow> ''Locked market payments must use a prepared swap.''
   | Balance_changed \<Rightarrow> ''The ecash balance changed. Review the recalculated debit before paying.''
   | Preparation_stored \<Rightarrow> ''Payment preparation is stored for retry. ''
   | Preparation_incomplete \<Rightarrow> ''Stored payment preparation data is incomplete.''
   | Payload_incomplete \<Rightarrow> ''The stored delivery payload is incomplete.''
   | Delivery_retryable \<Rightarrow> ''The same stored payment can be retried. ''
   | Delivery_rejected \<Rightarrow> ''Delivery was rejected and will not be retried automatically. ''
   | Still_pending \<Rightarrow> ''The mint reports that the payment proofs are pending. No final state is known yet.''
   | Mixed_states \<Rightarrow> ''The payment proofs have mixed states. Keep this record and check again.''
   | State_unavailable \<Rightarrow> ''Proof state is unavailable. ''
   | No_items \<Rightarrow> ''Add at least one item before charging.''
   | Bad_total \<Rightarrow> ''The order total is invalid.''
   | Bad_item \<Rightarrow> ''The order contains an invalid item quantity or price.''
   | Charge_stored \<Rightarrow> ''The charge is stored but not ready to scan. ''
   | Registration_incomplete \<Rightarrow> ''Stored order registration data is incomplete.''
   | No_inbox \<Rightarrow> ''The stored order has no private inbox capability.''
   | Malformed_payload \<Rightarrow> ''The delivery service returned a malformed payment payload.''
   | Other_order \<Rightarrow> ''The delivered payment belongs to another order.''
   | Wrong_mint \<Rightarrow> ''The delivered payment has the wrong mint or unit.''
   | Ack_later \<Rightarrow> ''Payment is stored locally; relay acknowledgement will be retried. ''
   | Settlement_incomplete \<Rightarrow> ''Stored vendor settlement data is incomplete.''
   | Malformed_token \<Rightarrow> ''The delivered token is malformed.''
   | Not_exact \<Rightarrow> ''The delivered token does not match the order amount, mint, and unit exactly.''
   | Not_locked \<Rightarrow> ''The delivered proofs are not locked exclusively to this vendor key.''
   | Already_spent \<Rightarrow> ''The delivered proofs were already spent.''
   | Conflicting \<Rightarrow> ''The delivered proofs have conflicting states.''
   | Proofs_pending \<Rightarrow> ''The mint reports that the delivered proofs are pending.''
   | Wrong_swap \<Rightarrow> ''The prepared settlement amount does not equal the order total.''
   | No_settlement \<Rightarrow> ''Prepared settlement recovery data is unavailable.''
   | Cleanup_pending \<Rightarrow> ''Relay cleanup is pending. ''
   | Not_cancellable \<Rightarrow> ''The stored order cannot be cancelled.''
   | Not_faucet \<Rightarrow> ''This is not a community testnet claim.''
   | Unexpected_lock \<Rightarrow> ''The mint did not return the expected browser lock for this quote.''
   | Invoice_expired \<Rightarrow> ''The Fiber invoice expired before payment was observed.''
   | Issuance_incomplete \<Rightarrow> ''Stored issuance recovery data is incomplete.''
   | Cash_out_changed \<Rightarrow> ''The ecash balance changed. Review the recalculated maximum debit before cashing out.''
   | Returned_unpaid \<Rightarrow> ''The mint returned unpaid; check status before recovering reserved value.''
   | Change_missing \<Rightarrow> ''Stored change recovery outputs are missing.''
   | Reserved_missing \<Rightarrow> ''The payment is unpaid, but its reserved proofs are unavailable.''
   | Recovering \<Rightarrow> ''The mint confirmed the Fiber payment was unpaid. Recovering reserved ecash.''
   | Recovery_incomplete \<Rightarrow> ''Stored cash-out recovery data is incomplete.''
   | Recovered \<Rightarrow> ''The mint confirmed the payment was unpaid. Reserved ecash was recovered.'')"

definition note_error :: "runtime_note \<Rightarrow> failure" where
  "note_error n = Failure (note_text n)"

definition describe :: "failure \<Rightarrow> string" where
  "describe reason = safeErrorMessage reason"

definition described :: "runtime_note \<Rightarrow> failure \<Rightarrow> string option" where
  "described n reason = Some (note_text n @ describe reason)"

definition failure_status :: "failure \<Rightarrow> nat option" where
  "failure_status e = (case e of Relay_failure _ s _ \<Rightarrow> s | _ \<Rightarrow> None)"

definition deliveryCanRetry :: "failure \<Rightarrow> bool" where
  "deliveryCanRetry e =
     (case failure_status e of None \<Rightarrow> True | Some s \<Rightarrow> s = 408 \<or> s = 429 \<or> 500 \<le> s)"

subsection \<open>Identity of the proofs of a review\<close>

fun sort_members :: "(string \<Rightarrow> nat list) \<Rightarrow> json \<Rightarrow> json" where
  "sort_members K (JObj fs) = JObj (sort_key (\<lambda>(k, v). K k) (map (\<lambda>(k, v). (k, sort_members K v)) fs))"
| "sort_members K (JArr vs) = JArr (map (sort_members K) vs)"
| "sort_members K v = v"

definition proofFingerprint :: "platform \<Rightarrow> cashu_proof list \<Rightarrow> string" where
  "proofFingerprint P ps =
     (let identities = map (\<lambda>p. json_stringify P (sort_members (collation P) (normalizeProof p))) ps
      in json_stringify P (JArr (map JStr (sort_key (collation P) identities))))"

subsection \<open>Records by identifier\<close>

definition replacePayment :: "attendee_payment list \<Rightarrow> attendee_payment \<Rightarrow> attendee_payment list" where
  "replacePayment = upsert pay_id"

definition replaceOrder :: "vendor_order list \<Rightarrow> vendor_order \<Rightarrow> vendor_order list" where
  "replaceOrder = upsert ord_id"

definition replaceAdd :: "add_operation list \<Rightarrow> add_operation \<Rightarrow> add_operation list" where
  "replaceAdd = upsert op_id"

definition replaceCashOut :: "cash_out_operation list \<Rightarrow> cash_out_operation \<Rightarrow> cash_out_operation list" where
  "replaceCashOut = upsert op_id"

definition given_or :: "'a list option \<Rightarrow> 'a list \<Rightarrow> 'a list" where
  "given_or v d = (case v of None \<Rightarrow> d | Some xs \<Rightarrow> xs)"

definition commitPayment ::
  "'w runtime \<Rightarrow> attendee_payment \<Rightarrow> cashu_proof list option \<Rightarrow> ('w, attendee_payment) market_op" where
  "commitPayment R p proofs =
     bindM (readM ss_snapshot) (\<lambda>current.
     bindM (commitM R (current\<lparr>sn_proofs := given_or proofs (sn_proofs current),
         sn_payments := replacePayment (sn_payments current) p\<rparr>)) (\<lambda>_.
     returnM p))"

definition commitOrder ::
  "'w runtime \<Rightarrow> vendor_order \<Rightarrow> cashu_proof list option \<Rightarrow> ('w, vendor_order) market_op" where
  "commitOrder R x proofs =
     bindM (readM ss_snapshot) (\<lambda>current.
     bindM (commitM R (current\<lparr>sn_proofs := given_or proofs (sn_proofs current),
         sn_orders := replaceOrder (sn_orders current) x\<rparr>)) (\<lambda>_.
     returnM x))"

definition commitAdd ::
  "'w runtime \<Rightarrow> add_operation \<Rightarrow> cashu_proof list option \<Rightarrow> ('w, add_operation) market_op" where
  "commitAdd R x proofs =
     bindM (readM ss_snapshot) (\<lambda>current.
     bindM (commitM R (current\<lparr>sn_proofs := given_or proofs (sn_proofs current),
         sn_addCash := replaceAdd (sn_addCash current) x\<rparr>)) (\<lambda>_.
     returnM x))"

definition commitCashOut ::
  "'w runtime \<Rightarrow> cash_out_operation \<Rightarrow> cashu_proof list option \<Rightarrow> ('w, cash_out_operation) market_op" where
  "commitCashOut R x proofs =
     bindM (readM ss_snapshot) (\<lambda>current.
     bindM (commitM R (current\<lparr>sn_proofs := given_or proofs (sn_proofs current),
         sn_cashOut := replaceCashOut (sn_cashOut current) x\<rparr>)) (\<lambda>_.
     returnM x))"

definition assertRole :: "market_role \<Rightarrow> ('w, unit) market_op" where
  "assertRole role =
     bindM (readM (\<lambda>s. sn_role (ss_snapshot s))) (\<lambda>current. guardM (current = role) (note_error (Needs_role role)))"

text \<open>\<open>getSnapshot().payments.find((item) => item.id === input.id) ?? input\<close> and the like.\<close>

definition found_or :: "('r \<Rightarrow> string) \<Rightarrow> 'r list \<Rightarrow> 'r \<Rightarrow> 'r" where
  "found_or key rs input = (case find (\<lambda>r. key r = key input) rs of None \<Rightarrow> input | Some r \<Rightarrow> r)"

text \<open>A text that must be there and not be empty.\<close>

definition needText :: "string option \<Rightarrow> runtime_note \<Rightarrow> ('w, string) market_op" where
  "needText v n = (if truthy_text v then returnM (text_or [] v) else throwM (note_error n))"

text \<open>The checks read the clock themselves, in seconds.\<close>

definition checkRequest :: "'w runtime \<Rightarrow> string \<Rightarrow> number \<Rightarrow> ('w, validated_request) market_op" where
  "checkRequest R encoded balance =
     bindM (nowM R) (\<lambda>now.
     liftM (validateEventPaymentRequest (rt_platform R) (rt_manifest R) encoded balance (now div 1000)))"

subsection \<open>Paying\<close>

record payment_review =
  rv_validated :: validated_request
  rv_swap :: swap_preview
  rv_balance :: number
  rv_debit :: number
  rv_fee :: number
  rv_fingerprint :: string

definition has_payment :: "market_snapshot \<Rightarrow> string \<Rightarrow> bool" where
  "has_payment s orderId = list_ex (\<lambda>p. pay_orderId p = orderId) (sn_payments s)"

definition reviewPayment :: "'w runtime \<Rightarrow> string \<Rightarrow> ('w, payment_review) market_op" where
  "reviewPayment R encoded =
     bindM (assertRole Attendee) (\<lambda>_.
     bindM (readM ss_snapshot) (\<lambda>current.
     (let balance = sumProofs (sn_proofs current) in
     bindM (checkRequest R encoded balance) (\<lambda>validated.
     bindM (guardM (\<not> has_payment current (vr_orderId validated)) (note_error Has_payment)) (\<lambda>_.
     bindM (liftM (paymentRequestLock (package (rt_platform R)) (vr_request validated))) (\<lambda>lock.
     bindM (guardM (lock \<noteq> None) (note_error No_lock)) (\<lambda>_.
     bindM (portM (mw_prepareSend (rt_wallet R) (dr_amount (vr_request validated)) (sn_proofs current) lock)) (\<lambda>prepared.
     case prepared of
       Offline_send _ _ _ _ \<Rightarrow> throwM (note_error Needs_swap)
     | Swap_send swap debit fee \<Rightarrow>
         returnM \<lparr>rv_validated = validated, rv_swap = swap, rv_balance = balance, rv_debit = debit, rv_fee = fee,
           rv_fingerprint = proofFingerprint (rt_platform R) (sn_proofs current)\<rparr>))))))))"

definition max_safe_number :: number where
  "max_safe_number = Some max_safe"

definition finishPaymentPreparation :: "'w runtime \<Rightarrow> attendee_payment \<Rightarrow> ('w, attendee_payment) market_op" where
  "finishPaymentPreparation R p =
     bindM (needM (pay_swap p) (note_error Preparation_incomplete)) (\<lambda>swap.
     bindM (needText (pay_request p) Preparation_incomplete) (\<lambda>request.
     bindM (needText (pay_deliveryUrl p) Preparation_incomplete) (\<lambda>_.
     bindM (checkRequest R request max_safe_number) (\<lambda>validated.
     bindM (movingM (Complete_send swap) snd (mw_completePreparedSend (rt_wallet R) swap)) (\<lambda>(token, change).
     bindM (liftM (createPaymentPayload (rt_platform R) (mw_mintUrl (rt_wallet R)) (mw_unit (rt_wallet R))
         (mw_inspectToken (rt_wallet R)) token (vr_request validated))) (\<lambda>payload.
     bindM (nowM R) (\<lambda>now.
     bindM (readM (\<lambda>s. sn_proofs (ss_snapshot s))) (\<lambda>proofs.
     commitPayment R
       (p\<lparr>pay_state := Pay_ready, pay_token := Some token,
          pay_payloadJson := Some (json_stringify (rt_platform R) payload), pay_swap := None,
          pay_updatedAt := now, pay_error := None\<rparr>)
       (Some (proofs @ change))))))))))"

text \<open>The handler of a delivery that failed.\<close>

definition deliveryFailed :: "'w runtime \<Rightarrow> attendee_payment \<Rightarrow> failure \<Rightarrow> ('w, attendee_payment) market_op" where
  "deliveryFailed R p reason =
     bindM (nowM R) (\<lambda>now.
     commitPayment R
       (p\<lparr>pay_state := Pay_recoverable, pay_retryable := Some (deliveryCanRetry reason), pay_updatedAt := now,
          pay_error := described (if deliveryCanRetry reason then Delivery_retryable else Delivery_rejected) reason\<rparr>)
       None)"

definition deliverStoredPayment :: "'w runtime \<Rightarrow> attendee_payment \<Rightarrow> ('w, attendee_payment) market_op" where
  "deliverStoredPayment R input =
     bindM (assertRole Attendee) (\<lambda>_.
     bindM (readM (\<lambda>s. found_or pay_id (sn_payments (ss_snapshot s)) input)) (\<lambda>stored.
     bindM (if pay_swap stored \<noteq> None \<and> \<not> truthy_text (pay_token stored)
            then finishPaymentPreparation R stored else returnM stored) (\<lambda>ready.
     bindM (needText (pay_deliveryUrl ready) Payload_incomplete) (\<lambda>deliveryUrl.
     bindM (needText (pay_payloadJson ready) Payload_incomplete) (\<lambda>payloadJson.
     bindM (needText (pay_token ready) Payload_incomplete) (\<lambda>_.
     bindM (nowM R) (\<lambda>now.
     bindM (commitPayment R
         (ready\<lparr>pay_state := Pay_delivering, pay_retryable := Some True, pay_updatedAt := now, pay_error := None\<rparr>)
         None) (\<lambda>p.
     catchM
       (bindM (movingM (Deliver deliveryUrl payloadJson) (\<lambda>_. []) (rp_deliver (rt_relay R) deliveryUrl payloadJson)) (\<lambda>_.
        bindM (nowM R) (\<lambda>deliveredAt.
        bindM (nowM R) (\<lambda>updatedAt.
        bindM (commitPayment R
            (p\<lparr>pay_state := Pay_delivered, pay_retryable := None, pay_deliveredAt := Some deliveredAt,
               pay_updatedAt := updatedAt, pay_error := None\<rparr>) None) (\<lambda>delivered.
        bindM (notifyM ''Payment delivered to the vendor'') (\<lambda>_.
        returnM delivered))))))
       (deliveryFailed R p)))))))))"

definition confirmPayment :: "'w runtime \<Rightarrow> payment_review \<Rightarrow> ('w, attendee_payment) market_op" where
  "confirmPayment R review =
     bindM (assertRole Attendee) (\<lambda>_.
     bindM (readM ss_snapshot) (\<lambda>current.
     (let validated = rv_validated review; request = vr_request validated in
     bindM (guardM (\<not> has_payment current (vr_orderId validated)) (note_error Has_payment)) (\<lambda>_.
     bindM (guardM (proofFingerprint (rt_platform R) (sn_proofs current) = rv_fingerprint review)
       (note_error Balance_changed)) (\<lambda>_.
     bindM (checkRequest R (dr_encoded request) (sumProofs (sn_proofs current))) (\<lambda>_.
     bindM (nowM R) (\<lambda>timestamp.
     bindM (operationIdM R) (\<lambda>id.
     (let p = \<lparr>pay_id = id, pay_orderId = vr_orderId validated, pay_state = Pay_preparing,
           pay_amount = dr_amount request, pay_fee = rv_fee review, pay_unit = ''rusd'',
           pay_mintUrl = em_mintUrl (rt_manifest R), pay_vendorName = vm_name (vr_vendor validated),
           pay_description = dr_description request, pay_request = Some (dr_encoded request),
           pay_deliveryUrl = Some (vr_deliveryUrl validated), pay_payloadJson = None, pay_token = None,
           pay_swap = Some (rv_swap review), pay_retryable = None, pay_deliveredAt = None, pay_checkedAt = None,
           pay_createdAt = timestamp, pay_updatedAt = timestamp, pay_error = None\<rparr> in
     bindM (commitPayment R p (Some (given_or (sw_unselected (rv_swap review)) []))) (\<lambda>_.
     tryM (finishPaymentPreparation R p)
       (\<lambda>reason. bindM (nowM R) (\<lambda>now.
          commitPayment R
            (p\<lparr>pay_state := Pay_recoverable, pay_updatedAt := now, pay_error := described Preparation_stored reason\<rparr>)
            None))
       (deliverStoredPayment R)))))))))))"

definition checkPayment :: "'w runtime \<Rightarrow> attendee_payment \<Rightarrow> ('w, attendee_payment) market_op" where
  "checkPayment R input =
     bindM (assertRole Attendee) (\<lambda>_.
     bindM (readM (\<lambda>s. found_or pay_id (sn_payments (ss_snapshot s)) input)) (\<lambda>p.
     if \<not> truthy_text (pay_token p) then returnM p else
     catchM
       (bindM (portM (mw_checkTokenState (rt_wallet R) (text_or [] (pay_token p)))) (\<lambda>state.
        bindM (nowM R) (\<lambda>checkedAt.
        bindM (nowM R) (\<lambda>updatedAt.
        (let rejected = (pay_retryable p = Some False \<and> \<not> truthy_int (pay_deliveredAt p));
             seen = p\<lparr>pay_checkedAt := Some checkedAt, pay_updatedAt := updatedAt\<rparr> in
         case state of
           Spent \<Rightarrow>
             commitPayment R
               (seen\<lparr>pay_state := Pay_spent, pay_token := None, pay_payloadJson := None, pay_request := None,
                  pay_deliveryUrl := None, pay_retryable := None, pay_error := None\<rparr>) None
         | Unspent \<Rightarrow>
             if rejected then commitPayment R seen None
             else commitPayment R (seen\<lparr>pay_state := Pay_unspent, pay_error := None\<rparr>) None
         | Pending_spend \<Rightarrow>
             if rejected then commitPayment R seen None
             else commitPayment R (seen\<lparr>pay_state := Pay_pending, pay_error := Some (note_text Still_pending)\<rparr>) None
         | Mixed \<Rightarrow>
             commitPayment R (seen\<lparr>pay_state := Pay_recoverable, pay_error := Some (note_text Mixed_states)\<rparr>) None)))))
       (\<lambda>reason. bindM (nowM R) (\<lambda>now.
          commitPayment R
            (p\<lparr>pay_state := Pay_recoverable, pay_updatedAt := now, pay_error := described State_unavailable reason\<rparr>)
            None))))"

end
