(* ===== verification/Market_Vendor.thy ===== *)
theory Market_Vendor
  imports Market_Runtime
begin

section \<open>The market runtime: orders\<close>

text \<open>
  The vendor's methods of \<open>market/src/domain/market-runtime.ts\<close>. The prices and quantities of an
  item are integers held in doubles; the total is added up with the rounding of doubles.
\<close>

subsection \<open>Charging\<close>

definition orderDescription :: "order_item list \<Rightarrow> string" where
  "orderDescription items =
     take 280 (join_with '', ''
       (map (\<lambda>x. if oi_quantity x = 1 then oi_label x else int_text (oi_quantity x) @ ''x '' @ oi_label x) items))"

definition items_amount :: "order_item list \<Rightarrow> int" where
  "items_amount items = foldl (\<lambda>so_far x. js_add so_far (js_mul (oi_unitPrice x) (oi_quantity x))) 0 items"

definition item_chargeable :: "order_item \<Rightarrow> bool" where
  "item_chargeable x \<longleftrightarrow> is_safe (oi_unitPrice x) \<and> 0 < oi_unitPrice x \<and> is_safe (oi_quantity x) \<and> 0 < oi_quantity x"

definition order_of_request ::
  "'w runtime \<Rightarrow> order_item list \<Rightarrow> int \<Rightarrow> created_request \<Rightarrow> int \<Rightarrow> vendor_order" where
  "order_of_request R items amount request timestamp =
     \<lparr>ord_id = cr_orderId request, ord_state = Ord_registering, ord_eventId = em_id (rt_manifest R),
      ord_vendorId = vm_id (rt_vendor R), ord_items = items, ord_amount = amount, ord_unit = ''rusd'',
      ord_mintUrl = em_mintUrl (rt_manifest R), ord_description = orderDescription items,
      ord_expiresAt = cr_expiresAt request, ord_request = Some (dr_encoded (cr_request request)),
      ord_requestDigest = Some (cr_requestDigest request), ord_deliveryUrl = Some (cr_deliveryUrl request),
      ord_readCapability = Some (cr_readCapability request), ord_writeCapability = Some (cr_writeCapability request),
      ord_privateKey = Some (cr_privateKey request), ord_publicKey = Some (cr_publicKey request),
      ord_incomingToken = None, ord_incomingSwap = None, ord_relayRegistered = Some False,
      ord_relayAcknowledged = None, ord_createdAt = timestamp, ord_updatedAt = timestamp, ord_error = None\<rparr>"

definition orderRecoverable :: "'w runtime \<Rightarrow> vendor_order \<Rightarrow> failure \<Rightarrow> ('w, vendor_order) market_op" where
  "orderRecoverable R x reason =
     bindM (nowM R) (\<lambda>now.
     commitOrder R (x\<lparr>ord_state := Ord_recoverable, ord_updatedAt := now, ord_error := Some (describe reason)\<rparr>) None)"

definition registerOrder :: "'w runtime \<Rightarrow> vendor_order \<Rightarrow> created_request \<Rightarrow> ('w, vendor_order) market_op" where
  "registerOrder R x request =
     bindM (movingM (Register request (ord_amount x)) (\<lambda>_. [])
         (rp_register (rt_relay R) (rt_manifest R) request (ord_amount x))) (\<lambda>_.
     bindM (nowM R) (\<lambda>now.
     commitOrder R (x\<lparr>ord_state := Ord_awaiting, ord_relayRegistered := Some True, ord_updatedAt := now,
       ord_error := None\<rparr>) None))"

definition createOrder :: "'w runtime \<Rightarrow> order_item list \<Rightarrow> ('w, vendor_order) market_op" where
  "createOrder R items =
     bindM (assertRole Vendor) (\<lambda>_.
     bindM (guardM (items \<noteq> []) (note_error No_items)) (\<lambda>_.
     (let amount = items_amount items in
     bindM (guardM (is_safe amount \<and> 0 < amount) (note_error Bad_total)) (\<lambda>_.
     bindM (guardM (list_all item_chargeable items) (note_error Bad_item)) (\<lambda>_.
     bindM (nowM R) (\<lambda>started.
     bindM (entropyM R) (\<lambda>rnd.
     bindM (liftM (createVendorRequest (rt_platform R) (rt_hash R) (rt_public R) (rt_manifest R) (rt_vendor R)
         amount (orderDescription items) (started div 1000) rnd)) (\<lambda>request.
     bindM (nowM R) (\<lambda>timestamp.
     (let x = order_of_request R items amount request timestamp in
     bindM (commitOrder R x None) (\<lambda>_.
     catchM (registerOrder R x request)
       (\<lambda>reason. bindM (nowM R) (\<lambda>now.
          commitOrder R (x\<lparr>ord_state := Ord_recoverable, ord_updatedAt := now,
            ord_error := described Charge_stored reason\<rparr>) None)))))))))))))"

definition storedRequest :: "'w runtime \<Rightarrow> vendor_order \<Rightarrow> ('w, created_request) market_op" where
  "storedRequest R x =
     bindM (needText (ord_request x) Registration_incomplete) (\<lambda>request.
     bindM (needText (ord_requestDigest x) Registration_incomplete) (\<lambda>digest.
     bindM (needText (ord_deliveryUrl x) Registration_incomplete) (\<lambda>deliveryUrl.
     bindM (needText (ord_readCapability x) Registration_incomplete) (\<lambda>readCap.
     bindM (needText (ord_writeCapability x) Registration_incomplete) (\<lambda>writeCap.
     bindM (needText (ord_privateKey x) Registration_incomplete) (\<lambda>privateKey.
     bindM (needText (ord_publicKey x) Registration_incomplete) (\<lambda>publicKey.
     bindM (checkRequest R request max_safe_number) (\<lambda>validated.
     returnM \<lparr>cr_orderId = ord_id x, cr_privateKey = privateKey, cr_publicKey = publicKey,
       cr_readCapability = readCap, cr_writeCapability = writeCap, cr_deliveryUrl = deliveryUrl,
       cr_expiresAt = ord_expiresAt x, cr_request = vr_request validated, cr_requestDigest = digest\<rparr>))))))))"

definition found_order :: "vendor_order \<Rightarrow> ('w, vendor_order) market_op" where
  "found_order input = readM (\<lambda>s. found_or ord_id (sn_orders (ss_snapshot s)) input)"

definition registerStoredOrder :: "'w runtime \<Rightarrow> vendor_order \<Rightarrow> ('w, vendor_order) market_op" where
  "registerStoredOrder R input =
     bindM (assertRole Vendor) (\<lambda>_.
     bindM (found_order input) (\<lambda>x.
     catchM (bindM (storedRequest R x) (registerOrder R x)) (orderRecoverable R x)))"

subsection \<open>Settling\<close>

definition rejectOrder :: "'w runtime \<Rightarrow> vendor_order \<Rightarrow> runtime_note \<Rightarrow> ('w, vendor_order) market_op" where
  "rejectOrder R x n =
     bindM (nowM R) (\<lambda>now.
     commitOrder R (x\<lparr>ord_state := Ord_rejected, ord_updatedAt := now, ord_error := Some (note_text n)\<rparr>) None)"

text \<open>
  The checks of a delivered token and the preparation of its swap: \<open>Inl\<close> is an order that is
  returned as it was committed, \<open>Inr\<close> one whose swap is stored.
\<close>

definition finished :: "('w, vendor_order) market_op \<Rightarrow> ('w, vendor_order + vendor_order) market_op" where
  "finished m = bindM m (\<lambda>x. returnM (Inl x))"

definition checkToken ::
  "'w runtime \<Rightarrow> vendor_order \<Rightarrow> string \<Rightarrow> string \<Rightarrow> string \<Rightarrow> ('w, vendor_order + vendor_order) market_op" where
  "checkToken R x token privateKey publicKey =
     (case mw_inspectToken (rt_wallet R) token of
        Inl _ \<Rightarrow> finished (rejectOrder R x Malformed_token)
      | Inr inspected \<Rightarrow>
     bindM (liftM (sameMint (new_url (rt_platform R)) (it_mint inspected) (em_mintUrl (rt_manifest R)))) (\<lambda>same.
     if \<not> same \<or> to_lower (it_unit inspected) \<noteq> ''rusd'' \<or> it_amount inspected \<noteq> ord_amount x
     then finished (rejectOrder R x Not_exact) else
     bindM (liftM (mw_tokenIsLockedTo (rt_wallet R) token publicKey)) (\<lambda>locked.
     if \<not> locked then finished (rejectOrder R x Not_locked) else
     bindM (portM (mw_checkTokenState (rt_wallet R) token)) (\<lambda>state.
     case state of
       Spent \<Rightarrow> finished (rejectOrder R x Already_spent)
     | Mixed \<Rightarrow> finished (rejectOrder R x Conflicting)
     | Pending_spend \<Rightarrow>
         finished (bindM (nowM R) (\<lambda>now.
           commitOrder R (x\<lparr>ord_state := Ord_recoverable, ord_updatedAt := now,
             ord_error := Some (note_text Proofs_pending)\<rparr>) None))
     | Unspent \<Rightarrow>
         bindM (portM (mw_prepareReceive (rt_wallet R) token (Some privateKey))) (\<lambda>swap.
         if sw_amount swap \<noteq> Some (ord_amount x) then finished (rejectOrder R x Wrong_swap) else
         bindM (nowM R) (\<lambda>now.
         bindM (commitOrder R (x\<lparr>ord_state := Ord_swapping, ord_incomingSwap := Some swap, ord_updatedAt := now,
             ord_error := None\<rparr>) None) (\<lambda>y.
         returnM (Inr y))))))))"

definition completeSettlement :: "'w runtime \<Rightarrow> vendor_order \<Rightarrow> ('w, vendor_order) market_op" where
  "completeSettlement R x =
     bindM (needM (ord_incomingSwap x) (note_error No_settlement)) (\<lambda>swap.
     bindM (movingM (Complete_receive swap) id (mw_completePreparedReceive (rt_wallet R) swap)) (\<lambda>fresh.
     bindM (nowM R) (\<lambda>now.
     bindM (readM (\<lambda>s. sn_proofs (ss_snapshot s))) (\<lambda>proofs.
     bindM (commitOrder R
         (x\<lparr>ord_state := Ord_settled, ord_request := None, ord_requestDigest := None, ord_deliveryUrl := None,
            ord_writeCapability := None,
            ord_readCapability := (if ord_relayAcknowledged x = Some True then None else ord_readCapability x),
            ord_privateKey := None, ord_incomingToken := None, ord_incomingSwap := None, ord_updatedAt := now,
            ord_error := None\<rparr>)
         (Some (proofs @ fresh))) (\<lambda>settled.
     bindM (notifyM (to_upper (mw_unit (rt_wallet R)) @ '' payment settled with fresh proofs'')) (\<lambda>_.
     returnM settled))))))"

definition settleOrder :: "'w runtime \<Rightarrow> vendor_order \<Rightarrow> ('w, vendor_order) market_op" where
  "settleOrder R input =
     bindM (assertRole Vendor) (\<lambda>_.
     bindM (found_order input) (\<lambda>x.
     if ord_incomingSwap x \<noteq> None then catchM (completeSettlement R x) (orderRecoverable R x)
     else
       tryM
         (bindM (needText (ord_incomingToken x) Settlement_incomplete) (\<lambda>token.
          bindM (needText (ord_privateKey x) Settlement_incomplete) (\<lambda>privateKey.
          bindM (needText (ord_publicKey x) Settlement_incomplete) (\<lambda>publicKey.
          bindM (nowM R) (\<lambda>now.
          bindM (commitOrder R (x\<lparr>ord_state := Ord_validating, ord_updatedAt := now, ord_error := None\<rparr>) None) (\<lambda>y.
          returnM (y, token, privateKey, publicKey)))))))
         (orderRecoverable R x)
         (\<lambda>(y, token, privateKey, publicKey).
           tryM (checkToken R y token privateKey publicKey)
             (orderRecoverable R y)
             (\<lambda>r. case r of
                Inl done \<Rightarrow> returnM done
              | Inr z \<Rightarrow> catchM (completeSettlement R z) (orderRecoverable R z)))))"

definition acknowledgeSettledOrder :: "'w runtime \<Rightarrow> vendor_order \<Rightarrow> ('w, vendor_order) market_op" where
  "acknowledgeSettledOrder R x =
     (if \<not> truthy_text (ord_readCapability x) then returnM x else
      catchM
        (bindM (portM (rp_acknowledge (rt_relay R) (em_relayOrigin (rt_manifest R))
            (text_or [] (ord_readCapability x)))) (\<lambda>_.
         bindM (nowM R) (\<lambda>now.
         commitOrder R (x\<lparr>ord_relayAcknowledged := Some True, ord_readCapability := None, ord_updatedAt := now,
           ord_error := None\<rparr>) None)))
        (\<lambda>reason. bindM (nowM R) (\<lambda>now.
           commitOrder R (x\<lparr>ord_updatedAt := now, ord_error := described Cleanup_pending reason\<rparr>) None)))"

definition expireOrder :: "'w runtime \<Rightarrow> vendor_order \<Rightarrow> ('w, vendor_order) market_op" where
  "expireOrder R x =
     bindM (nowM R) (\<lambda>now.
     commitOrder R
       (x\<lparr>ord_state := Ord_expired, ord_request := None, ord_requestDigest := None, ord_deliveryUrl := None,
          ord_readCapability := None, ord_writeCapability := None, ord_privateKey := None, ord_updatedAt := now,
          ord_error := None\<rparr>) None)"

subsection \<open>Polling and cancelling\<close>

text \<open>\<open>paymentPayload\<close>, with the fields it asserts.\<close>

definition paymentPayload :: "json \<Rightarrow> failure + string \<times> string \<times> string \<times> json list" where
  "paymentPayload v =
     (let bad = note_error Malformed_payload in
      bindR (guardR (js_truthy v) bad) (\<lambda>_.
      bindR (strR bad (field v ''id'')) (\<lambda>id.
      bindR (strR bad (field v ''mint'')) (\<lambda>mint.
      bindR (strR bad (field v ''unit'')) (\<lambda>unit.
      bindR (arrR bad (field v ''proofs'')) (\<lambda>proofs.
      bindR (guardR (proofs \<noteq> []) bad) (\<lambda>_. Inr (id, mint, unit, proofs))))))))"

definition expired_by :: "vendor_order \<Rightarrow> int \<Rightarrow> bool" where
  "expired_by x now \<longleftrightarrow> js_mul (ord_expiresAt x) 1000 \<le> now"

text \<open>The handler of \<open>pollOrder\<close>, for the value the order has when the error is thrown.\<close>

definition pollFailed :: "'w runtime \<Rightarrow> vendor_order \<Rightarrow> failure \<Rightarrow> ('w, vendor_order) market_op" where
  "pollFailed R x reason =
     bindM (if failure_status reason \<in> {Some 404, Some 410} then bindM (nowM R) (\<lambda>now. returnM (expired_by x now))
            else returnM False) (\<lambda>gone.
     if gone then expireOrder R x else orderRecoverable R x reason)"

text \<open>Reading the inbox: \<open>Inl\<close> is a final order, \<open>Inr\<close> one whose token is stored.\<close>

definition readInbox :: "'w runtime \<Rightarrow> vendor_order \<Rightarrow> string \<Rightarrow> ('w, vendor_order + vendor_order) market_op" where
  "readInbox R x readCap =
     bindM (portM (rp_read (rt_relay R) (em_relayOrigin (rt_manifest R)) readCap)) (\<lambda>payload.
     if payload = None \<or> \<not> js_truthy (the payload) then
       bindM (nowM R) (\<lambda>now. if expired_by x now then finished (expireOrder R x) else returnM (Inl x))
     else
       bindM (liftM (paymentPayload (the payload))) (\<lambda>(id, mint, unit, proofs).
       if id \<noteq> ord_id x then finished (rejectOrder R x Other_order)
       else if to_lower unit \<noteq> ''rusd'' then finished (rejectOrder R x Wrong_mint)
       else
       bindM (liftM (sameMint (new_url (rt_platform R)) mint (em_mintUrl (rt_manifest R)))) (\<lambda>same.
       if \<not> same then finished (rejectOrder R x Wrong_mint) else
       bindM (liftM (mw_encodeProofs (rt_wallet R) proofs)) (\<lambda>token.
       bindM (nowM R) (\<lambda>now.
       bindM (commitOrder R (x\<lparr>ord_state := Ord_received, ord_incomingToken := Some token, ord_updatedAt := now,
           ord_error := None\<rparr>) None) (\<lambda>y.
       returnM (Inr y)))))))"

definition acknowledgeReceived :: "'w runtime \<Rightarrow> vendor_order \<Rightarrow> string \<Rightarrow> ('w, vendor_order) market_op" where
  "acknowledgeReceived R x readCap =
     catchM
       (bindM (portM (rp_acknowledge (rt_relay R) (em_relayOrigin (rt_manifest R)) readCap)) (\<lambda>_.
        bindM (nowM R) (\<lambda>now.
        commitOrder R (x\<lparr>ord_relayAcknowledged := Some True, ord_updatedAt := now\<rparr>) None)))
       (\<lambda>reason. bindM (nowM R) (\<lambda>now.
          commitOrder R (x\<lparr>ord_relayAcknowledged := Some False, ord_updatedAt := now,
            ord_error := described Ack_later reason\<rparr>) None))"

definition pollOrder :: "'w runtime \<Rightarrow> vendor_order \<Rightarrow> ('w, vendor_order) market_op" where
  "pollOrder R input =
     bindM (assertRole Vendor) (\<lambda>_.
     bindM (found_order input) (\<lambda>x.
     if ord_state x = Ord_settled \<and> ord_relayAcknowledged x \<noteq> Some True \<and> truthy_text (ord_readCapability x)
     then acknowledgeSettledOrder R x
     else if truthy_text (ord_incomingToken x) \<or> ord_incomingSwap x \<noteq> None then settleOrder R x
     else
     bindM (needText (ord_readCapability x) No_inbox) (\<lambda>readCap.
     tryM (readInbox R x readCap) (pollFailed R x)
       (\<lambda>r. case r of
          Inl final \<Rightarrow> returnM final
        | Inr y \<Rightarrow> tryM (acknowledgeReceived R y readCap) (pollFailed R y) (settleOrder R)))))"

definition cancelOrder :: "'w runtime \<Rightarrow> vendor_order \<Rightarrow> ('w, vendor_order) market_op" where
  "cancelOrder R input =
     bindM (assertRole Vendor) (\<lambda>_.
     bindM (found_order input) (\<lambda>x.
     bindM (needText (ord_readCapability x) Not_cancellable) (\<lambda>readCap.
     bindM (nowM R) (\<lambda>now.
     bindM (commitOrder R (x\<lparr>ord_state := Ord_cancelling, ord_updatedAt := now, ord_error := None\<rparr>) None) (\<lambda>y.
     catchM
       (bindM (movingM (Cancel readCap) (\<lambda>_. []) (rp_cancel (rt_relay R) (em_relayOrigin (rt_manifest R)) readCap)) (\<lambda>_.
        bindM (nowM R) (\<lambda>later.
        commitOrder R
          (y\<lparr>ord_state := Ord_cancelled, ord_request := None, ord_requestDigest := None, ord_deliveryUrl := None,
             ord_readCapability := None, ord_writeCapability := None, ord_privateKey := None,
             ord_updatedAt := later\<rparr>) None)))
       (\<lambda>reason.
         if failure_status reason = Some 409 then pollOrder R y else orderRecoverable R y reason))))))"

end
