(* ===== verification/Market_Cash.thy ===== *)
theory Market_Cash
  imports Market_Vendor
begin

section \<open>The market runtime: adding cash and cashing out\<close>

text \<open>
  The methods of \<open>market/src/domain/market-runtime.ts\<close> that both roles have. The variable
  \<open>operation\<close> that a \<open>try\<close> block assigns is treated as in the vendor's methods.
\<close>

subsection \<open>Quotes\<close>

definition asMintQuote :: "add_operation \<Rightarrow> mint_quote \<Rightarrow> mint_quote" where
  "asMintQuote x checked =
     checked\<lparr>mtq_quote := add_quoteId x, mtq_request := add_invoice x, mtq_amount := op_amount x,
       mtq_unit := op_unit x,
       mtq_pubkey := (if truthy_text (add_quotePubkey x) then add_quotePubkey x else mtq_pubkey checked)\<rparr>"

definition storeMeltQuote :: "melt_quote \<Rightarrow> int \<Rightarrow> stored_melt_quote" where
  "storeMeltQuote q now =
     \<lparr>smq_quote = mlq_quote q, smq_amount = mlq_amount q, smq_feeReserve = mlq_fee_reserve q, smq_unit = mlq_unit q,
      smq_state = mlq_state q,
      smq_expiry = (case mlq_expiry q of None \<Rightarrow> now div 1000 + 3600 | Some e \<Rightarrow> e),
      smq_request = mlq_request q\<rparr>"

definition asMeltQuote :: "stored_melt_quote \<Rightarrow> melt_quote \<Rightarrow> melt_quote" where
  "asMeltQuote q checked =
     checked\<lparr>mlq_quote := smq_quote q, mlq_amount := smq_amount q, mlq_fee_reserve := smq_feeReserve q,
       mlq_unit := smq_unit q,
       mlq_expiry := (case mlq_expiry checked of None \<Rightarrow> Some (smq_expiry q) | Some e \<Rightarrow> Some e),
       mlq_request := smq_request q\<rparr>"

subsection \<open>Adding cash\<close>

definition new_add ::
  "'w runtime \<Rightarrow> string \<Rightarrow> number \<Rightarrow> mint_quote \<Rightarrow> int \<Rightarrow> (string \<times> string) option \<Rightarrow> add_operation" where
  "new_add R ident amount q now keys =
     \<lparr>op_id = ident, op_amount = amount, op_createdAt = now, op_updatedAt = now,
      op_mintUrl = em_mintUrl (rt_manifest R), op_unit = ''rusd'', op_note = None, op_error = None,
      add_state = Add_awaiting, add_quoteId = mtq_quote q, add_invoice = mtq_request q, add_expiry = mtq_expiry q,
      add_faucet = (keys \<noteq> None), add_quotePubkey = map_option fst keys, add_quotePrivateKey = map_option snd keys,
      add_outputData = None, add_keysetId = None, add_legacySignature = None, add_payloadSignature = None\<rparr>"

definition requestAddCash :: "'w runtime \<Rightarrow> number \<Rightarrow> ('w, add_operation) market_op" where
  "requestAddCash R amount =
     bindM (portM (mw_requestMint (rt_wallet R) amount)) (\<lambda>quote.
     bindM (nowM R) (\<lambda>now.
     bindM (operationIdM R) (\<lambda>id.
     commitAdd R (new_add R id amount quote now None) None)))"

definition requestTestCash :: "'w runtime \<Rightarrow> number \<Rightarrow> ('w, add_operation) market_op" where
  "requestTestCash R amount =
     bindM (portM (mw_requestLockedMint (rt_wallet R) amount)) (\<lambda>locked.
     bindM (nowM R) (\<lambda>now.
     bindM (operationIdM R) (\<lambda>id.
     commitAdd R (new_add R id amount (lkq_quote locked) now
       (Some (lkq_publicKey locked, lkq_privateKey locked))) None)))"

definition found_add :: "add_operation \<Rightarrow> ('w, add_operation) market_op" where
  "found_add input = readM (\<lambda>s. found_or op_id (sn_addCash (ss_snapshot s)) input)"

definition recordTestCashPayerFailure ::
  "'w runtime \<Rightarrow> add_operation \<Rightarrow> string \<Rightarrow> ('w, add_operation) market_op" where
  "recordTestCashPayerFailure R input message =
     bindM (found_add input) (\<lambda>x.
     bindM (guardM (add_faucet x) (note_error Not_faucet)) (\<lambda>_.
     bindM (nowM R) (\<lambda>now.
     commitAdd R (x\<lparr>add_state := Add_recoverable, op_updatedAt := now, op_error := Some message\<rparr>) None)))"

definition addRecoverable :: "'w runtime \<Rightarrow> add_operation \<Rightarrow> failure \<Rightarrow> ('w, add_operation) market_op" where
  "addRecoverable R x reason =
     bindM (nowM R) (\<lambda>now.
     commitAdd R (x\<lparr>add_state := Add_recoverable, op_updatedAt := now, op_error := Some (describe reason)\<rparr>) None)"

text \<open>Until the payment is observed: \<open>Inl\<close> is an operation that is returned, \<open>Inr\<close> one that goes on.\<close>

definition observeAdd ::
  "'w runtime \<Rightarrow> add_operation \<Rightarrow> ('w, add_operation + add_operation \<times> mint_quote) market_op" where
  "observeAdd R x =
     bindM (portM (mw_checkMintQuote (rt_wallet R) (add_quoteId x))) (\<lambda>checked.
     bindM (guardM (truthy_text (add_quotePubkey x) \<longrightarrow>
         truthy_text (mtq_pubkey checked) \<and>
         to_lower (text_or [] (mtq_pubkey checked)) = to_lower (text_or [] (add_quotePubkey x)))
       (note_error Unexpected_lock)) (\<lambda>_.
     if \<not> mintQuoteIsPaid checked then
       bindM (if truthy_int (add_expiry x) then bindM (nowM R) (\<lambda>now.
           returnM (js_mul (the (add_expiry x)) 1000 \<le> now)) else returnM False) (\<lambda>over.
       if over then
         bindM (nowM R) (\<lambda>now.
         bindM (commitAdd R (x\<lparr>add_state := Add_expired, op_updatedAt := now,
             op_error := Some (note_text Invoice_expired)\<rparr>) None) (\<lambda>y. returnM (Inl y)))
       else returnM (Inl x))
     else
       bindM (nowM R) (\<lambda>now.
       bindM (commitAdd R (x\<lparr>add_state := Add_observed, op_updatedAt := now, op_error := None\<rparr>) None) (\<lambda>y.
       returnM (Inr (y, checked))))))"

definition prepareAdd :: "'w runtime \<Rightarrow> add_operation \<Rightarrow> mint_quote \<Rightarrow> ('w, add_operation) market_op" where
  "prepareAdd R x checked =
     (if add_outputData x = None \<or> \<not> truthy_text (add_keysetId x) then
        bindM (portM (mw_prepareMint (rt_wallet R) (asMintQuote x checked) (add_quotePrivateKey x))) (\<lambda>prepared.
        bindM (nowM R) (\<lambda>now.
        commitAdd R (x\<lparr>add_state := Add_issuing, add_outputData := Some (pn_outputs prepared),
          add_keysetId := Some (pn_keysetId prepared), add_legacySignature := pn_legacySignature prepared,
          add_payloadSignature := pn_payloadSignature prepared, add_quotePrivateKey := None,
          op_updatedAt := now\<rparr>) None))
      else returnM x)"

definition issueAdd :: "'w runtime \<Rightarrow> add_operation \<Rightarrow> mint_quote \<Rightarrow> ('w, add_operation) market_op" where
  "issueAdd R x checked =
     bindM (needM (add_outputData x) (note_error Issuance_incomplete)) (\<lambda>outputs.
     bindM (needText (add_keysetId x) Issuance_incomplete) (\<lambda>keyset.
     (let prepared = \<lparr>pn_outputs = outputs, pn_keysetId = keyset,
            pn_legacySignature = add_legacySignature x, pn_payloadSignature = add_payloadSignature x\<rparr> in
     bindM (movingM (Complete_mint (asMintQuote x checked) prepared) id
         (mw_completeMint (rt_wallet R) (asMintQuote x checked) prepared)) (\<lambda>fresh.
     bindM (nowM R) (\<lambda>now.
     bindM (readM (\<lambda>s. sn_proofs (ss_snapshot s))) (\<lambda>proofs.
     bindM (commitAdd R (x\<lparr>add_state := Add_settled, add_outputData := None, add_keysetId := None,
         add_legacySignature := None, add_payloadSignature := None, op_updatedAt := now, op_error := None\<rparr>)
         (Some (proofs @ fresh))) (\<lambda>settled.
     bindM (notifyM ''RUSD ecash issued and stored'') (\<lambda>_.
     returnM settled))))))))"

definition refreshAddCash :: "'w runtime \<Rightarrow> add_operation \<Rightarrow> ('w, add_operation) market_op" where
  "refreshAddCash R input =
     bindM (found_add input) (\<lambda>x.
     tryM (observeAdd R x) (addRecoverable R x)
       (\<lambda>r. case r of
          Inl final \<Rightarrow> returnM final
        | Inr (y, checked) \<Rightarrow>
            tryM (prepareAdd R y checked) (addRecoverable R y)
              (\<lambda>z. catchM (issueAdd R z checked) (addRecoverable R z))))"

subsection \<open>Cashing out\<close>

record cash_out_review =
  cv_quote :: melt_quote
  cv_prepared :: prepared_melt
  cv_balance :: number
  cv_maximumDebit :: number
  cv_fingerprint :: string

definition quoteCashOut :: "'w runtime \<Rightarrow> string \<Rightarrow> ('w, melt_quote) market_op" where
  "quoteCashOut R invoice = portM (mw_requestMelt (rt_wallet R) invoice)"

definition reviewCashOut :: "'w runtime \<Rightarrow> melt_quote \<Rightarrow> ('w, cash_out_review) market_op" where
  "reviewCashOut R quote =
     bindM (readM ss_snapshot) (\<lambda>current.
     bindM (portM (mw_prepareMelt (rt_wallet R) quote (sn_proofs current))) (\<lambda>prepared.
     returnM \<lparr>cv_quote = quote, cv_prepared = prepared, cv_balance = sumProofs (sn_proofs current),
       cv_maximumDebit = num_add (num_add (mlq_amount quote) (mlq_fee_reserve quote)) (pm_inputFee prepared),
       cv_fingerprint = proofFingerprint (rt_platform R) (sn_proofs current)\<rparr>))"

definition cashOutUnknown :: "'w runtime \<Rightarrow> cash_out_operation \<Rightarrow> failure \<Rightarrow> ('w, cash_out_operation) market_op" where
  "cashOutUnknown R x reason =
     bindM (nowM R) (\<lambda>now.
     commitCashOut R (x\<lparr>co_state := Out_unknown, op_updatedAt := now, op_error := Some (describe reason)\<rparr>) None)"

definition set_quote_state :: "quote_state \<Rightarrow> cash_out_operation \<Rightarrow> cash_out_operation" where
  "set_quote_state q x = x\<lparr>co_quote := (co_quote x)\<lparr>smq_state := q\<rparr>\<rparr>"

definition confirmCashOut :: "'w runtime \<Rightarrow> cash_out_review \<Rightarrow> ('w, cash_out_operation) market_op" where
  "confirmCashOut R review =
     bindM (readM ss_snapshot) (\<lambda>current.
     bindM (guardM (cv_fingerprint review = proofFingerprint (rt_platform R) (sn_proofs current))
       (note_error Cash_out_changed)) (\<lambda>_.
     bindM (nowM R) (\<lambda>timestamp.
     bindM (operationIdM R) (\<lambda>id.
     bindM (if mlq_expiry (cv_quote review) = None then nowM R else returnM timestamp) (\<lambda>quoted.
     (let quote = cv_quote review; prepared = cv_prepared review;
          x = \<lparr>op_id = id, op_amount = mlq_amount quote, op_createdAt = timestamp, op_updatedAt = timestamp,
            op_mintUrl = em_mintUrl (rt_manifest R), op_unit = ''rusd'', op_note = None, op_error = None,
            co_state = Out_dispatching, co_invoice = mlq_request quote, co_quote = storeMeltQuote quote quoted,
            co_cashuFee = Some (pm_inputFee prepared), co_reserved = Some (pm_reserved prepared),
            co_outputData = Some (pm_outputs prepared), co_keysetId = Some (pm_keysetId prepared),
            co_recoverySwap = None\<rparr> in
     bindM (commitCashOut R x (Some (pm_keep prepared))) (\<lambda>_.
     catchM
       (bindM (movingM (Execute_melt quote prepared) mx_change (mw_executeMelt (rt_wallet R) quote prepared)) (\<lambda>result.
        bindM (nowM R) (\<lambda>now.
        if mx_state result = PAID then
          bindM (readM (\<lambda>s. sn_proofs (ss_snapshot s))) (\<lambda>proofs.
          commitCashOut R ((set_quote_state PAID x)\<lparr>co_state := Out_paid, co_reserved := None, co_outputData := None,
              co_keysetId := None, op_updatedAt := now, op_error := None\<rparr>)
            (Some (proofs @ mx_change result)))
        else
          commitCashOut R ((set_quote_state (mx_state result) x)
            \<lparr>co_state := (if mx_state result = PENDING then Out_pending else Out_unknown),
             co_outputData := Some (mx_outputs result), op_updatedAt := now,
             op_error := (if mx_state result = UNPAID then Some (note_text Returned_unpaid) else None)\<rparr>) None)))
       (cashOutUnknown R x))))))))"

definition found_cash_out :: "cash_out_operation \<Rightarrow> ('w, cash_out_operation) market_op" where
  "found_cash_out input = readM (\<lambda>s. found_or op_id (sn_cashOut (ss_snapshot s)) input)"

definition cashOutPaid ::
  "'w runtime \<Rightarrow> cash_out_operation \<Rightarrow> melt_quote \<Rightarrow> ('w, cash_out_operation) market_op" where
  "cashOutPaid R x checked =
     (let outputs = proof_list (co_outputData x) in
     bindM (guardM (\<not> (proof_list (mlq_change checked) \<noteq> [] \<and> outputs = [])) (note_error Change_missing)) (\<lambda>_.
     bindM (if outputs \<noteq> []
            then liftM (mw_recoverMeltChange (rt_wallet R) outputs (asMeltQuote (co_quote x) checked))
            else returnM []) (\<lambda>change.
     bindM (nowM R) (\<lambda>now.
     bindM (readM (\<lambda>s. sn_proofs (ss_snapshot s))) (\<lambda>proofs.
     commitCashOut R ((set_quote_state PAID x)\<lparr>co_state := Out_paid, co_reserved := None, co_outputData := None,
         co_keysetId := None, co_recoverySwap := None, op_updatedAt := now, op_error := None\<rparr>)
       (Some (proofs @ change)))))))"

definition spend_text :: "spend_state \<Rightarrow> string" where
  "spend_text st = (case st of Unspent \<Rightarrow> ''unspent'' | Pending_spend \<Rightarrow> ''pending'' | Spent \<Rightarrow> ''spent'' | Mixed \<Rightarrow> ''mixed'')"

text \<open>Up to the stored recovery swap: \<open>Inl\<close> is an operation that is returned.\<close>

definition prepareRecovery ::
  "'w runtime \<Rightarrow> cash_out_operation \<Rightarrow> ('w, cash_out_operation + cash_out_operation) market_op" where
  "prepareRecovery R x =
     bindM (portM (mw_checkMeltQuote (rt_wallet R) (smq_quote (co_quote x)))) (\<lambda>checked.
     if mlq_state checked = PAID then bindM (cashOutPaid R x checked) (\<lambda>y. returnM (Inl y))
     else if mlq_state checked = PENDING then
       bindM (nowM R) (\<lambda>now.
       bindM (commitCashOut R ((set_quote_state PENDING x)\<lparr>co_state := Out_pending, op_updatedAt := now,
           op_error := None\<rparr>) None) (\<lambda>y. returnM (Inl y)))
     else
       bindM (guardM (proof_list (co_reserved x) \<noteq> []) (note_error Reserved_missing)) (\<lambda>_.
       if co_recoverySwap x \<noteq> None then returnM (Inr x) else
       bindM (portM (mw_checkProofsState (rt_wallet R) (proof_list (co_reserved x)))) (\<lambda>state.
       if state \<noteq> Unspent then
         bindM (nowM R) (\<lambda>now.
         bindM (commitCashOut R (x\<lparr>co_state := Out_unknown, op_updatedAt := now,
             op_error := Some (''Reserved proofs are '' @ spend_text state @ ''.'')\<rparr>) None) (\<lambda>y. returnM (Inl y)))
       else
         bindM (liftM (mw_encodeProofs (rt_wallet R) (proof_list (co_reserved x)))) (\<lambda>token.
         bindM (portM (mw_prepareReceive (rt_wallet R) token None)) (\<lambda>swap.
         bindM (nowM R) (\<lambda>now.
         bindM (commitCashOut R (x\<lparr>co_state := Out_unknown, co_recoverySwap := Some swap, op_updatedAt := now,
             op_error := Some (note_text Recovering)\<rparr>) None) (\<lambda>y.
         returnM (Inr y))))))))"

definition completeRecovery :: "'w runtime \<Rightarrow> cash_out_operation \<Rightarrow> ('w, cash_out_operation) market_op" where
  "completeRecovery R x =
     bindM (needM (co_recoverySwap x) (note_error Recovery_incomplete)) (\<lambda>swap.
     bindM (movingM (Complete_receive swap) id (mw_completePreparedReceive (rt_wallet R) swap)) (\<lambda>recovered.
     bindM (nowM R) (\<lambda>now.
     bindM (readM (\<lambda>s. sn_proofs (ss_snapshot s))) (\<lambda>proofs.
     commitCashOut R ((set_quote_state UNPAID x)\<lparr>co_state := Out_failed, co_reserved := None, co_outputData := None,
         co_keysetId := None, co_recoverySwap := None, op_updatedAt := now,
         op_error := Some (note_text Recovered)\<rparr>)
       (Some (proofs @ recovered))))))"

definition refreshCashOut :: "'w runtime \<Rightarrow> cash_out_operation \<Rightarrow> ('w, cash_out_operation) market_op" where
  "refreshCashOut R input =
     bindM (found_cash_out input) (\<lambda>x.
     tryM (prepareRecovery R x) (cashOutUnknown R x)
       (\<lambda>r. case r of
          Inl final \<Rightarrow> returnM final
        | Inr y \<Rightarrow> catchM (completeRecovery R y) (cashOutUnknown R y)))"

end
