(* ===== verification/Market_App.thy ===== *)
theory Market_App
  imports Market_Cash
begin

section \<open>The market application\<close>

text \<open>
  \<open>market/src/hooks/useMarket.ts\<close>: the state the screens share and the operations they call. The
  session is the snapshot in memory and the browser's storage; the other fields of \<open>app\<close> are the
  connection to the mint and to the faucet. A call takes the exclusive lock of the browser, loads
  the stored snapshot and runs one method of the runtime on it. Calls of several tabs are therefore
  a sequence of such calls, and a tab that takes over is a load of the stored snapshot
  (\<open>initialState\<close>). A call that arrives while another runs is refused before it touches anything.
  The preview mode, which never stores, and the timers that show a toast are left out.
\<close>

datatype connection = Connecting | Online | Offline | Incompatible

datatype faucet_state = Faucet_loading | Faucet_available | Faucet_paused | Faucet_unavailable

record 'w app =
  ap_role :: market_role
  ap_session :: "'w session"
  ap_storageError :: "string option"
  ap_status :: connection
  ap_connectionError :: "string option"
  ap_attempt :: nat
  ap_retry :: "int option"
  ap_faucetConfig :: "faucet_settings option"
  ap_faucetStatus :: faucet_state
  ap_faucetError :: "string option"

text \<open>What the browser gives besides the runtime: HTTP, random bytes, and the lock manager.\<close>

record 'w browser =
  br_fetch :: "http_call \<Rightarrow> 'w \<Rightarrow> http_reply \<times> 'w"
  br_bytes :: "'w \<Rightarrow> bytes \<times> 'w"
  br_locks :: bool
  br_faucetOrigin :: string

subsection \<open>Loading the page\<close>

definition initialState ::
  "'w runtime \<Rightarrow> market_role \<Rightarrow> local_storage \<Rightarrow> market_snapshot \<times> string option" where
  "initialState R role store =
     (case loadMarketSnapshot (rt_platform R) (rt_manifest R) role store of
        Inr n \<Rightarrow> (n, None)
      | Inl e \<Rightarrow> (emptyMarketSnapshot (rt_manifest R) role, Some (describe e)))"

text \<open>The page and its first effects: connecting to the mint and asking the faucet.\<close>

definition connecting :: "'w browser \<Rightarrow> 'w app \<Rightarrow> 'w app" where
  "connecting B app =
     (if br_locks B then app\<lparr>ap_status := Connecting, ap_connectionError := None, ap_retry := None\<rparr>
      else app\<lparr>ap_status := Incompatible, ap_retry := None,
             ap_connectionError := Some (''This browser cannot coordinate payment operations across tabs. '' @
               ''Use a current Chromium browser for this testnet demo.'')\<rparr>)"

definition open_app :: "'w runtime \<Rightarrow> 'w browser \<Rightarrow> 'w app \<Rightarrow> 'w app" where
  "open_app R B app =
     (case initialState R (ap_role app) (ss_store (ap_session app)) of (n, e) \<Rightarrow>
        connecting B (app\<lparr>ap_session := (ap_session app)\<lparr>ss_snapshot := n, ss_toast := None\<rparr>,
          ap_storageError := e, ap_attempt := 0, ap_faucetConfig := None, ap_faucetStatus := Faucet_loading,
          ap_faucetError := None\<rparr>))"

subsection \<open>The connection to the mint\<close>

definition mint_retry_base :: int where "mint_retry_base = 3000"
definition mint_retry_max :: int where "mint_retry_max = 30000"

definition reconnect_delay :: "nat \<Rightarrow> int" where
  "reconnect_delay attempt = min (mint_retry_base * 2 ^ attempt) mint_retry_max"

text \<open>The answer to \<open>nextWallet.load()\<close>: the unit the mint advertises, or an error.\<close>

definition mint_answered :: "'w runtime \<Rightarrow> failure + string \<Rightarrow> 'w app \<Rightarrow> 'w app" where
  "mint_answered R answer app =
     (case answer of
        Inr unit \<Rightarrow>
          if to_lower unit \<noteq> em_unit (rt_manifest R) then
            app\<lparr>ap_attempt := 0, ap_status := Incompatible,
              ap_connectionError := Some (''This mint advertises '' @ to_upper unit @
                '', not RUSD. Stored value was not changed.'')\<rparr>
          else app\<lparr>ap_attempt := 0, ap_status := Online\<rparr>
      | Inl (Incompatible_mint t) \<Rightarrow>
          app\<lparr>ap_attempt := 0, ap_status := Incompatible,
            ap_connectionError := Some (describe (Incompatible_mint t))\<rparr>
      | Inl e \<Rightarrow>
          app\<lparr>ap_attempt := ap_attempt app + 1, ap_status := Offline,
            ap_retry := Some (reconnect_delay (ap_attempt app)), ap_connectionError := Some (describe e)\<rparr>)"

text \<open>The retry button forgets the attempts; the timer, coming online and the focus do not.\<close>

definition retryConnection :: "'w browser \<Rightarrow> 'w app \<Rightarrow> 'w app" where
  "retryConnection B app = connecting B (app\<lparr>ap_attempt := 0\<rparr>)"

definition triggerReconnect :: "'w browser \<Rightarrow> 'w app \<Rightarrow> 'w app" where
  "triggerReconnect B app = (if ap_status app = Offline then connecting B app else app)"

subsection \<open>The faucet's settings\<close>

definition faucet_answered :: "'w runtime \<Rightarrow> failure + faucet_settings \<Rightarrow> 'w app \<Rightarrow> 'w app" where
  "faucet_answered R answer app =
     (let refuse = (\<lambda>e. app\<lparr>ap_faucetStatus := Faucet_unavailable, ap_faucetError := Some (describe e)\<rparr>) in
      case answer of
        Inl e \<Rightarrow> refuse e
      | Inr g \<Rightarrow>
          if fg_mint g \<noteq> em_mintUrl (rt_manifest R) \<or> fg_unit g \<noteq> em_unit (rt_manifest R) \<or>
             fg_network g \<noteq> ''testnet''
          then refuse (Failure ''The community faucet is configured for a different mint, asset, or network.'')
          else app\<lparr>ap_faucetConfig := Some g,
                 ap_faucetStatus := (if fg_enabled g then Faucet_available else Faucet_paused),
                 ap_faucetError := (if fg_enabled g then ap_faucetError app
                   else Some (''Today'' @ [CHR 0x27] @ ''s community claim budget is unavailable.''))\<rparr>)"

definition retryFaucet :: "'w app \<Rightarrow> 'w app" where
  "retryFaucet app = app\<lparr>ap_faucetConfig := None, ap_faucetStatus := Faucet_loading, ap_faucetError := None\<rparr>"

subsection \<open>The stored snapshot\<close>

definition reloadStoredSnapshot :: "'w runtime \<Rightarrow> market_role \<Rightarrow> ('w, unit) market_op" where
  "reloadStoredSnapshot R role s =
     (case loadMarketSnapshot (rt_platform R) (rt_manifest R) role (ss_store s) of
        Inl e \<Rightarrow> (Inl e, s)
      | Inr n \<Rightarrow> (Inr (), s\<lparr>ss_snapshot := n\<rparr>))"

text \<open>Another tab changed the stored text of the key.\<close>

definition storage_changed :: "'w runtime \<Rightarrow> 'w app \<Rightarrow> 'w app" where
  "storage_changed R app =
     (case reloadStoredSnapshot R (ap_role app) (ap_session app) of
        (Inr _, s) \<Rightarrow> app\<lparr>ap_session := s, ap_storageError := None\<rparr>
      | (Inl e, s) \<Rightarrow> app\<lparr>ap_storageError := Some (describe e)\<rparr>)"

subsection \<open>Calls\<close>

definition requireRuntime :: "'w app \<Rightarrow> ('w, unit) market_op" where
  "requireRuntime app =
     bindM (guardM (\<not> truthy_text (ap_storageError app))
       (Storage_failure ''Stored market data must be repaired before moving value.'')) (\<lambda>_.
     guardM (ap_status app = Online) (Failure ''The configured mint is not available.''))"

definition runLocked :: "'w runtime \<Rightarrow> 'w app \<Rightarrow> ('w, 'a) market_op \<Rightarrow> ('w, 'a) market_op" where
  "runLocked R app task =
     bindM (requireRuntime app) (\<lambda>_. bindM (reloadStoredSnapshot R (ap_role app)) (\<lambda>_. task))"

definition call_reviewPayment :: "'w runtime \<Rightarrow> 'w app \<Rightarrow> string \<Rightarrow> ('w, payment_review) market_op" where
  "call_reviewPayment R app encoded =
     bindM (reloadStoredSnapshot R (ap_role app)) (\<lambda>_. bindM (requireRuntime app) (\<lambda>_. reviewPayment R encoded))"

definition call_reviewCashOut :: "'w runtime \<Rightarrow> 'w app \<Rightarrow> melt_quote \<Rightarrow> ('w, cash_out_review) market_op" where
  "call_reviewCashOut R app quote =
     bindM (reloadStoredSnapshot R (ap_role app)) (\<lambda>_. bindM (requireRuntime app) (\<lambda>_. reviewCashOut R quote))"

definition call_pollOrder :: "'w runtime \<Rightarrow> 'w app \<Rightarrow> vendor_order \<Rightarrow> ('w, vendor_order) market_op" where
  "call_pollOrder R app x =
     runLocked R app
       (if ord_state x = Ord_cancelling then cancelOrder R x
        else if ord_relayRegistered x \<noteq> Some True \<and> \<not> truthy_text (ord_incomingToken x) \<and> ord_incomingSwap x = None
        then registerStoredOrder R x
        else pollOrder R x)"

definition call_requestTestCash :: "'w runtime \<Rightarrow> 'w app \<Rightarrow> ('w, add_operation) market_op" where
  "call_requestTestCash R app =
     (case ap_faucetConfig app of
        Some g \<Rightarrow>
          if ap_faucetStatus app = Faucet_available then runLocked R app (requestTestCash R (Some (fg_amount g)))
          else throwM (Failure (text_or ''The community faucet is not available.'' (ap_faucetError app)))
      | None \<Rightarrow> throwM (Failure (text_or ''The community faucet is not available.'' (ap_faucetError app))))"

definition clientIdM :: "'w runtime \<Rightarrow> 'w browser \<Rightarrow> ('w, string) market_op" where
  "clientIdM R B s =
     (case br_bytes B (ss_world s) of (rnd, w) \<Rightarrow>
      case faucetClientId (rt_platform R) (rt_room R w) (br_faucetOrigin B) rnd (ss_store s) of (r, store) \<Rightarrow>
        (r, s\<lparr>ss_world := w, ss_store := store\<rparr>))"

definition claimM :: "'w runtime \<Rightarrow> 'w browser \<Rightarrow> string \<Rightarrow> ('w, claim_answer) market_op" where
  "claimM R B quoteId =
     bindM (clientIdM R B) (\<lambda>client.
     portM (fetched (br_fetch B) (claim_call (rt_platform R) (br_faucetOrigin B) quoteId client) faucetClaim))"

definition fundTestCash ::
  "'w runtime \<Rightarrow> 'w browser \<Rightarrow> 'w app \<Rightarrow> add_operation \<Rightarrow> ('w, claim_answer) market_op" where
  "fundTestCash R B app x =
     bindM (guardM (add_faucet x \<and> op_mintUrl x = em_mintUrl (rt_manifest R) \<and> op_unit x = em_unit (rt_manifest R) \<and>
         (case ap_faucetConfig app of None \<Rightarrow> True | Some g \<Rightarrow> op_amount x = Some (fg_amount g)))
       (Failure ''This stored mint quote does not match the community faucet.'')) (\<lambda>_.
     bindM (readM (\<lambda>s. find (\<lambda>y. op_id y = op_id x) (sn_addCash (ss_snapshot s)))) (\<lambda>found.
     bindM (needM found (Failure ''The stored claim could not be found.'')) (\<lambda>current.
     bindM (guardM (add_quoteId current = add_quoteId x) (Failure ''The stored claim could not be found.'')) (\<lambda>_.
     bindM (claimM R B (add_quoteId current)) (\<lambda>claim.
     bindM (if ca_status claim = Claim_failed
            then bindM (recordTestCashPayerFailure R current (ca_message claim)) (\<lambda>_. returnM ())
            else returnM ()) (\<lambda>_.
     returnM claim))))))"

definition call_fundTestCash ::
  "'w runtime \<Rightarrow> 'w browser \<Rightarrow> 'w app \<Rightarrow> add_operation \<Rightarrow> ('w, claim_answer) market_op" where
  "call_fundTestCash R B app x = runLocked R app (fundTestCash R B app x)"

text \<open>After a claim was settled the faucet is told, and its answer is not waited for.\<close>

definition call_refreshAddCash ::
  "'w runtime \<Rightarrow> 'w browser \<Rightarrow> 'w app \<Rightarrow> add_operation \<Rightarrow> ('w, add_operation) market_op" where
  "call_refreshAddCash R B app x =
     bindM (runLocked R app (refreshAddCash R x)) (\<lambda>refreshed.
     bindM (if add_faucet refreshed \<and> add_state refreshed = Add_settled
            then bindM (clientIdM R B) (\<lambda>client.
              catchM (bindM (portM (fetched (br_fetch B)
                  (claim_call (rt_platform R) (br_faucetOrigin B) (add_quoteId refreshed) client) faucetClaim))
                (\<lambda>_. returnM ())) (\<lambda>_. returnM ()))
            else returnM ()) (\<lambda>_.
     returnM refreshed))"

definition call_quoteCashOut :: "'w runtime \<Rightarrow> 'w app \<Rightarrow> string \<Rightarrow> ('w, melt_quote) market_op" where
  "call_quoteCashOut R app invoice = bindM (requireRuntime app) (\<lambda>_. quoteCashOut R invoice)"

subsection \<open>The calls of the screens and the background\<close>

datatype market_task =
    Review_payment string
  | Confirm_payment payment_review
  | Retry_delivery attendee_payment
  | Check_payment attendee_payment
  | Create_order "order_item list"
  | Poll_order vendor_order
  | Cancel_order vendor_order
  | Request_add_cash number
  | Request_test_cash
  | Fund_test_cash add_operation
  | Refresh_add_cash add_operation
  | Quote_cash_out string
  | Review_cash_out melt_quote
  | Confirm_cash_out cash_out_review
  | Refresh_cash_out cash_out_operation

definition ignored :: "('w, 'a) market_op \<Rightarrow> ('w, unit) market_op" where
  "ignored m = bindM m (\<lambda>_. returnM ())"

definition task_op :: "'w runtime \<Rightarrow> 'w browser \<Rightarrow> 'w app \<Rightarrow> market_task \<Rightarrow> ('w, unit) market_op" where
  "task_op R B app task =
     (case task of
        Review_payment encoded \<Rightarrow> ignored (call_reviewPayment R app encoded)
      | Confirm_payment review \<Rightarrow> ignored (runLocked R app (confirmPayment R review))
      | Retry_delivery p \<Rightarrow> ignored (runLocked R app (deliverStoredPayment R p))
      | Check_payment p \<Rightarrow> ignored (runLocked R app (checkPayment R p))
      | Create_order items \<Rightarrow> ignored (runLocked R app (createOrder R items))
      | Poll_order x \<Rightarrow> ignored (call_pollOrder R app x)
      | Cancel_order x \<Rightarrow> ignored (runLocked R app (cancelOrder R x))
      | Request_add_cash amount \<Rightarrow> ignored (runLocked R app (requestAddCash R amount))
      | Request_test_cash \<Rightarrow> ignored (call_requestTestCash R app)
      | Fund_test_cash x \<Rightarrow> ignored (call_fundTestCash R B app x)
      | Refresh_add_cash x \<Rightarrow> ignored (call_refreshAddCash R B app x)
      | Quote_cash_out invoice \<Rightarrow> ignored (call_quoteCashOut R app invoice)
      | Review_cash_out quote \<Rightarrow> ignored (call_reviewCashOut R app quote)
      | Confirm_cash_out review \<Rightarrow> ignored (runLocked R app (confirmCashOut R review))
      | Refresh_cash_out x \<Rightarrow> ignored (runLocked R app (refreshCashOut R x)))"

definition perform :: "'w runtime \<Rightarrow> 'w browser \<Rightarrow> market_task \<Rightarrow> 'w app \<Rightarrow> 'w app" where
  "perform R B task app = app\<lparr>ap_session := snd (task_op R B app task (ap_session app))\<rparr>"

text \<open>What the background timer takes up: the first open record of the first kind that has one.\<close>

definition order_open :: "vendor_order \<Rightarrow> bool" where
  "order_open x \<longleftrightarrow>
     ord_state x \<in> {Ord_registering, Ord_awaiting, Ord_cancelling, Ord_received, Ord_validating, Ord_swapping,
       Ord_recoverable} \<or>
     (ord_state x = Ord_settled \<and> ord_relayAcknowledged x \<noteq> Some True \<and> truthy_text (ord_readCapability x))"

definition payment_open :: "attendee_payment \<Rightarrow> bool" where
  "payment_open p \<longleftrightarrow> pay_state p \<in> {Pay_delivered, Pay_unspent, Pay_pending}"

definition add_open :: "add_operation \<Rightarrow> bool" where
  "add_open x \<longleftrightarrow> add_state x \<in> {Add_awaiting, Add_observed, Add_issuing, Add_recoverable}"

definition cash_out_open :: "cash_out_operation \<Rightarrow> bool" where
  "cash_out_open x \<longleftrightarrow> co_state x \<in> {Out_dispatching, Out_pending, Out_unknown}"

definition next_task :: "market_role \<Rightarrow> market_snapshot \<Rightarrow> market_task option" where
  "next_task role n =
     (case (role, find order_open (sn_orders n), find payment_open (sn_payments n)) of
        (Vendor, Some x, _) \<Rightarrow> Some (Poll_order x)
      | (Attendee, _, Some p) \<Rightarrow> Some (Check_payment p)
      | _ \<Rightarrow>
          (case find add_open (sn_addCash n) of
             Some x \<Rightarrow> Some (Refresh_add_cash x)
           | None \<Rightarrow> map_option Refresh_cash_out (find cash_out_open (sn_cashOut n))))"

definition resume :: "'w runtime \<Rightarrow> 'w browser \<Rightarrow> 'w app \<Rightarrow> 'w app" where
  "resume R B app =
     (if ap_status app = Online \<and> \<not> truthy_text (ap_storageError app) then
        (case next_task (ap_role app) (ss_snapshot (ap_session app)) of
           None \<Rightarrow> app
         | Some task \<Rightarrow> perform R B task app)
      else app)"

datatype app_event =
    Ev_open
  | Ev_mint "failure + string"
  | Ev_retry
  | Ev_reconnect
  | Ev_faucet "failure + faucet_settings"
  | Ev_retry_faucet
  | Ev_storage
  | Ev_task market_task
  | Ev_resume

definition app_step :: "'w runtime \<Rightarrow> 'w browser \<Rightarrow> app_event \<Rightarrow> 'w app \<Rightarrow> 'w app" where
  "app_step R B ev app =
     (case ev of
        Ev_open \<Rightarrow> open_app R B app
      | Ev_mint answer \<Rightarrow> if ap_status app = Connecting then mint_answered R answer app else app
      | Ev_retry \<Rightarrow> retryConnection B app
      | Ev_reconnect \<Rightarrow> triggerReconnect B app
      | Ev_faucet answer \<Rightarrow> if ap_faucetStatus app = Faucet_loading then faucet_answered R answer app else app
      | Ev_retry_faucet \<Rightarrow> retryFaucet app
      | Ev_storage \<Rightarrow> storage_changed R app
      | Ev_task task \<Rightarrow> perform R B task app
      | Ev_resume \<Rightarrow> resume R B app)"

end
