(* ===== verification/Market_Copy.thy ===== *)
theory Market_Copy
  imports Market_Load
begin

section \<open>What a stored snapshot keeps of the one in memory\<close>

text \<open>
  The snapshot that a save stores is the checked one, and it need not be the one in memory: the
  package may give the proofs another form. Nothing else differs. A stored record is the record in
  memory up to its proof lists, which are the deserialised ones.
\<close>

subsection \<open>Fields\<close>

lemma opt_json_inj_gen: "inj f \<Longrightarrow> (\<And>x. f x \<noteq> JUndef) \<Longrightarrow> opt_json f a = opt_json f b \<longleftrightarrow> a = b"
  by (cases a; cases b) (auto simp: inj_eq, metis)

lemmas opt_json_inj [simp] =
  opt_json_inj_gen[of JStr, OF injI, simplified] opt_json_inj_gen[of JInt, OF injI, simplified]
  opt_json_inj_gen[of JBool, OF injI, simplified] opt_json_inj_gen[of JArr, OF injI, simplified]

lemma opt_fee_inj [simp]: "opt_json number_json a = opt_json JInt b \<longleftrightarrow> a = map_option Some b"
  by (cases a; cases b) auto

lemma int_number_json [simp]: "JInt i = number_json a \<longleftrightarrow> a = Some i"
  using number_json_int[of a i] by metis

lemma number_json_inj [simp]: "number_json a = number_json b \<longleftrightarrow> a = b"
  by (cases a; cases b) (auto simp: number_json_def)

lemma enum_inj:
  "(\<And>x. enum_of txt all (txt x) = Some x) \<Longrightarrow> txt a = txt b \<longleftrightarrow> a = b"
  by (metis option.inject)

lemmas state_inj [simp] =
  enum_inj[OF payment_state_parse] enum_inj[OF order_state_parse] enum_inj[OF add_state_parse]
  enum_inj[OF cash_out_state_parse] enum_inj[OF quote_state_parse]

subsection \<open>Proofs and previews\<close>

definition same_proofs :: "platform \<Rightarrow> cashu_proof list \<Rightarrow> cashu_proof list \<Rightarrow> bool" where
  "same_proofs P a b \<longleftrightarrow> deserialize_proofs (package P) a = Some b"

definition same_swap :: "platform \<Rightarrow> swap_preview \<Rightarrow> swap_preview \<Rightarrow> bool" where
  "same_swap P a b \<longleftrightarrow>
     sw_amount b = sw_amount a \<and> sw_fees b = sw_fees a \<and> sw_keyset b = sw_keyset a \<and> sw_send b = sw_send a \<and>
     sw_keep b = sw_keep a \<and> same_proofs P (sw_inputs a) (sw_inputs b) \<and>
     rel_option (same_proofs P) (sw_unselected a) (sw_unselected b)"

lemma storedProofs_copy: "storedProofs P label (JArr ps) = Inr qs \<Longrightarrow> same_proofs P ps qs"
  by (auto simp: storedProofs_def same_proofs_def result_simps split: option.splits)

lemma optional_proofs_copy:
  "optionalR (storedProofs P label) (opt_json JArr y) = Inr z \<Longrightarrow> rel_option (same_proofs P) y z"
  by (cases y) (auto simp: optionalR_def result_simps dest: storedProofs_copy)

lemma storedSwap_copy: "storedSwap P label (swap_json x) = Inr y \<Longrightarrow> same_swap P x y"
  by (auto simp: storedSwap_def swap_json_def field_obj result_simps same_swap_def
      dest: storedProofs_copy optional_proofs_copy)

lemma optional_swap_copy:
  "optionalR (storedSwap P label) (opt_json swap_json y) = Inr z \<Longrightarrow> rel_option (same_swap P) y z"
  by (cases y) (auto simp: optionalR_def result_simps dest: storedSwap_copy)

subsection \<open>Records\<close>

definition same_payment :: "platform \<Rightarrow> attendee_payment \<Rightarrow> attendee_payment \<Rightarrow> bool" where
  "same_payment P a b \<longleftrightarrow> b\<lparr>pay_swap := pay_swap a\<rparr> = a \<and> rel_option (same_swap P) (pay_swap a) (pay_swap b)"

text \<open>The fields that come through as they are; the preview is read.\<close>

definition payment_fields :: "json \<Rightarrow> attendee_payment \<Rightarrow> bool" where
  "payment_fields v p \<longleftrightarrow>
     field v ''id'' = JStr (pay_id p) \<and>
     field v ''orderId'' = JStr (pay_orderId p) \<and>
     field v ''state'' = JStr (payment_state_text (pay_state p)) \<and>
     field v ''amount'' = number_json (pay_amount p) \<and>
     field v ''fee'' = number_json (pay_fee p) \<and>
     field v ''unit'' = JStr (pay_unit p) \<and>
     field v ''mintUrl'' = JStr (pay_mintUrl p) \<and>
     field v ''vendorName'' = JStr (pay_vendorName p) \<and>
     field v ''description'' = JStr (pay_description p) \<and>
     field v ''createdAt'' = JInt (pay_createdAt p) \<and>
     field v ''updatedAt'' = JInt (pay_updatedAt p) \<and>
     field v ''deliveryRetryable'' = opt_json JBool (pay_retryable p) \<and>
     field v ''deliveredAt'' = opt_json JInt (pay_deliveredAt p) \<and>
     field v ''proofStateCheckedAt'' = opt_json JInt (pay_checkedAt p) \<and>
     field v ''request'' = opt_json JStr (pay_request p) \<and>
     field v ''deliveryUrl'' = opt_json JStr (pay_deliveryUrl p) \<and>
     field v ''payloadJson'' = opt_json JStr (pay_payloadJson p) \<and>
     field v ''token'' = opt_json JStr (pay_token p) \<and>
     field v ''error'' = opt_json JStr (pay_error p)"

lemma payment_json_fields:
  "payment_fields (payment_json p) p" "field (payment_json p) ''swap'' = opt_json swap_json (pay_swap p)"
  by (simp_all add: payment_json_def payment_fields_def field_obj)

lemma normalizePayment_fields:
  assumes "normalizePayment P m v = Inr q"
  shows "payment_fields v q \<and> (\<exists>l. optionalR (storedSwap P l) (field v ''swap'') = Inr (pay_swap q))"
  using assms unfolding normalizePayment_def Let_def bindR_Inr
  by (elim exE conjE, simp only: sum.inject, hypsubst) (auto simp: result_simps payment_fields_def)

lemma payment_fields_same:
  "payment_fields v p \<Longrightarrow> payment_fields v q \<Longrightarrow> q\<lparr>pay_swap := pay_swap p\<rparr> = p"
  unfolding payment_fields_def by (intro attendee_payment.equality) simp_all

lemma normalizePayment_copy:
  assumes "normalizePayment P m (payment_json p) = Inr q"
  shows "same_payment P p q"
  using normalizePayment_fields[OF assms] payment_fields_same[OF payment_json_fields(1), of p q]
  by (auto simp: same_payment_def payment_json_fields dest: optional_swap_copy)

definition same_order :: "platform \<Rightarrow> vendor_order \<Rightarrow> vendor_order \<Rightarrow> bool" where
  "same_order P a b \<longleftrightarrow> b\<lparr>ord_incomingSwap := ord_incomingSwap a\<rparr> = a \<and>
     rel_option (same_swap P) (ord_incomingSwap a) (ord_incomingSwap b)"

lemma normalizeItem_copy: "normalizeItem label i (item_json x) = Inr y \<Longrightarrow> y = x"
  by (cases x) (auto simp: normalizeItem_def Let_def result_simps item_json_def field_obj)

lemma normalizeItems_copy: "normalizeItems label (JArr (map item_json xs)) = Inr ys \<Longrightarrow> ys = xs"
proof -
  have "mapR (\<lambda>(i, x). normalizeItem label i x) (enumerate n (map item_json xs)) = Inr ys \<Longrightarrow> ys = xs" for n
    by (induction xs arbitrary: n ys) (auto simp: result_simps dest: normalizeItem_copy)
  then show "normalizeItems label (JArr (map item_json xs)) = Inr ys \<Longrightarrow> ys = xs"
    by (auto simp: normalizeItems_def result_simps)
qed

text \<open>The fields that come through as they are, and the two that are read.\<close>

definition order_fields :: "json \<Rightarrow> vendor_order \<Rightarrow> bool" where
  "order_fields v x \<longleftrightarrow>
     field v ''id'' = JStr (ord_id x) \<and>
     field v ''state'' = JStr (order_state_text (ord_state x)) \<and>
     field v ''eventId'' = JStr (ord_eventId x) \<and>
     field v ''vendorId'' = JStr (ord_vendorId x) \<and>
     field v ''amount'' = JInt (ord_amount x) \<and>
     field v ''unit'' = JStr (ord_unit x) \<and>
     field v ''mintUrl'' = JStr (ord_mintUrl x) \<and>
     field v ''description'' = JStr (ord_description x) \<and>
     field v ''expiresAt'' = JInt (ord_expiresAt x) \<and>
     field v ''createdAt'' = JInt (ord_createdAt x) \<and>
     field v ''updatedAt'' = JInt (ord_updatedAt x) \<and>
     field v ''relayRegistered'' = opt_json JBool (ord_relayRegistered x) \<and>
     field v ''relayAcknowledged'' = opt_json JBool (ord_relayAcknowledged x) \<and>
     field v ''request'' = opt_json JStr (ord_request x) \<and>
     field v ''requestDigest'' = opt_json JStr (ord_requestDigest x) \<and>
     field v ''deliveryUrl'' = opt_json JStr (ord_deliveryUrl x) \<and>
     field v ''readCapability'' = opt_json JStr (ord_readCapability x) \<and>
     field v ''writeCapability'' = opt_json JStr (ord_writeCapability x) \<and>
     field v ''privateKey'' = opt_json JStr (ord_privateKey x) \<and>
     field v ''publicKey'' = opt_json JStr (ord_publicKey x) \<and>
     field v ''incomingToken'' = opt_json JStr (ord_incomingToken x) \<and>
     field v ''error'' = opt_json JStr (ord_error x)"

lemma order_json_fields:
  "order_fields (order_json x) x" "field (order_json x) ''items'' = JArr (map item_json (ord_items x))"
  "field (order_json x) ''incomingSwap'' = opt_json swap_json (ord_incomingSwap x)"
  by (simp_all add: order_json_def order_fields_def field_obj)

lemma normalizeOrder_fields:
  assumes "normalizeOrder P m v = Inr y"
  shows "order_fields v y \<and> (\<exists>l. normalizeItems l (field v ''items'') = Inr (ord_items y)) \<and>
    (\<exists>l. optionalR (storedSwap P l) (field v ''incomingSwap'') = Inr (ord_incomingSwap y))"
  using assms unfolding normalizeOrder_def Let_def bindR_Inr
  by (elim exE conjE, simp only: sum.inject, hypsubst) (auto simp: result_simps order_fields_def)

lemma order_fields_same:
  "order_fields v x \<Longrightarrow> order_fields v y \<Longrightarrow> ord_items y = ord_items x \<Longrightarrow>
   y\<lparr>ord_incomingSwap := ord_incomingSwap x\<rparr> = x"
  unfolding order_fields_def by (intro vendor_order.equality) simp_all

lemma normalizeOrder_copy:
  assumes "normalizeOrder P m (order_json x) = Inr y"
  shows "same_order P x y"
  using normalizeOrder_fields[OF assms] order_fields_same[OF order_json_fields(1), of x y]
  by (auto simp: same_order_def order_json_fields dest: normalizeItems_copy optional_swap_copy)

definition add_fields :: "json \<Rightarrow> add_operation \<Rightarrow> bool" where
  "add_fields v x \<longleftrightarrow>
     field v ''id'' = JStr (op_id x) \<and>
     field v ''state'' = JStr (add_state_text (add_state x)) \<and>
     field v ''amount'' = number_json (op_amount x) \<and>
     field v ''createdAt'' = JInt (op_createdAt x) \<and>
     field v ''updatedAt'' = JInt (op_updatedAt x) \<and>
     field v ''mintUrl'' = JStr (op_mintUrl x) \<and>
     field v ''unit'' = JStr (op_unit x) \<and>
     field v ''note'' = opt_json JStr (op_note x) \<and>
     field v ''error'' = opt_json JStr (op_error x) \<and>
     field v ''quoteId'' = JStr (add_quoteId x) \<and>
     field v ''invoice'' = JStr (add_invoice x) \<and>
     field v ''expiry'' = opt_json JInt (add_expiry x) \<and>
     field v ''outputData'' = opt_json JArr (add_outputData x) \<and>
     field v ''quotePubkey'' = opt_json JStr (add_quotePubkey x) \<and>
     field v ''quotePrivateKey'' = opt_json JStr (add_quotePrivateKey x) \<and>
     field v ''keysetId'' = opt_json JStr (add_keysetId x) \<and>
     field v ''legacySignature'' = opt_json JStr (add_legacySignature x) \<and>
     field v ''payloadSignature'' = opt_json JStr (add_payloadSignature x) \<and>
     (field v ''fundingSource'' = JStr ''faucet'' \<longleftrightarrow> add_faucet x)"

lemma add_json_fields: "add_fields (add_json x) x"
  by (simp add: add_json_def add_fields_def base_members_def field_obj)

lemma normalizeAdd_fields:
  assumes "normalizeAdd P m v = Inr y"
  shows "add_fields v y"
  using assms unfolding normalizeAdd_def Let_def bindR_Inr
  by (elim exE conjE, simp only: sum.inject, hypsubst) (auto simp: result_simps add_fields_def)

lemma add_fields_same: "add_fields v x \<Longrightarrow> add_fields v y \<Longrightarrow> y = x"
  unfolding add_fields_def by (intro add_operation.equality) simp_all

lemma normalizeAdd_copy: "normalizeAdd P m (add_json x) = Inr y \<Longrightarrow> y = x"
  by (rule add_fields_same[OF add_json_fields normalizeAdd_fields])

definition same_cash_out :: "platform \<Rightarrow> cash_out_operation \<Rightarrow> cash_out_operation \<Rightarrow> bool" where
  "same_cash_out P a b \<longleftrightarrow> b\<lparr>co_reserved := co_reserved a, co_recoverySwap := co_recoverySwap a\<rparr> = a \<and>
     rel_option (same_proofs P) (co_reserved a) (co_reserved b) \<and>
     rel_option (same_swap P) (co_recoverySwap a) (co_recoverySwap b)"

lemma normalizeQuote_copy: "normalizeQuote m (quote_json x) = Inr y \<Longrightarrow> y = x"
  by (cases x) (auto simp: normalizeQuote_def Let_def result_simps quote_json_def field_obj)

lemma normalizeCashOut_copy:
  assumes "normalizeCashOut P m (cash_out_json x) = Inr y"
  shows "same_cash_out P x y"
  using assms
  unfolding normalizeCashOut_def Let_def bindR_Inr
  by (elim exE conjE, simp only: sum.inject, hypsubst)
     (cases x, auto simp: result_simps cash_out_json_def base_members_def field_obj same_cash_out_def
       dest!: optional_swap_copy optional_proofs_copy normalizeQuote_copy)

subsection \<open>The snapshot\<close>

definition same_snapshot :: "platform \<Rightarrow> market_snapshot \<Rightarrow> market_snapshot \<Rightarrow> bool" where
  "same_snapshot P a b \<longleftrightarrow>
     sn_eventId b = sn_eventId a \<and> sn_role b = sn_role a \<and> sn_unit b = sn_unit a \<and>
     same_proofs P (sn_proofs a) (sn_proofs b) \<and> sn_addCash b = sn_addCash a \<and>
     list_all2 (same_payment P) (sn_payments a) (sn_payments b) \<and>
     list_all2 (same_order P) (sn_orders a) (sn_orders b) \<and>
     list_all2 (same_cash_out P) (sn_cashOut a) (sn_cashOut b)"

lemma mapR_copy: "mapR f (map g xs) = Inr ys \<Longrightarrow> (\<And>x y. f (g x) = Inr y \<Longrightarrow> r x y) \<Longrightarrow> list_all2 r xs ys"
  by (induction xs arbitrary: ys) (auto simp: result_simps)

lemma normalizeSnapshot_fields:
  assumes "normalizeSnapshot P m role v = Inr n"
  shows "sn_eventId n = em_id m \<and> sn_role n = role \<and> sn_unit n = em_unit m \<and>
    field v ''eventId'' = JStr (em_id m) \<and> field v ''unit'' = JStr (em_unit m) \<and>
    (\<exists>l. storedProofs P l (field v ''proofs'') = Inr (sn_proofs n)) \<and>
    (\<exists>vs. field v ''addCash'' = JArr vs \<and> mapR (normalizeAdd P m) vs = Inr (sn_addCash n)) \<and>
    (\<exists>vs. field v ''payments'' = JArr vs \<and> mapR (normalizePayment P m) vs = Inr (sn_payments n)) \<and>
    (\<exists>vs. field v ''orders'' = JArr vs \<and> mapR (normalizeOrder P m) vs = Inr (sn_orders n)) \<and>
    (\<exists>vs. field v ''cashOut'' = JArr vs \<and> mapR (normalizeCashOut P m) vs = Inr (sn_cashOut n))"
  using assms unfolding normalizeSnapshot_def Let_def bindR_Inr
  by (elim exE conjE, simp only: sum.inject, hypsubst) (auto simp: result_simps)

lemma snapshot_json_fields:
  "field (snapshot_json s) ''eventId'' = JStr (sn_eventId s)" "field (snapshot_json s) ''unit'' = JStr (sn_unit s)"
  "field (snapshot_json s) ''proofs'' = JArr (sn_proofs s)"
  "field (snapshot_json s) ''addCash'' = JArr (map add_json (sn_addCash s))"
  "field (snapshot_json s) ''payments'' = JArr (map payment_json (sn_payments s))"
  "field (snapshot_json s) ''orders'' = JArr (map order_json (sn_orders s))"
  "field (snapshot_json s) ''cashOut'' = JArr (map cash_out_json (sn_cashOut s))"
  by (simp_all add: snapshot_json_def field_obj)

lemma mapR_same: "mapR f (map g xs) = Inr ys \<Longrightarrow> (\<And>x y. f (g x) = Inr y \<Longrightarrow> y = x) \<Longrightarrow> ys = xs"
  by (induction xs arbitrary: ys) (auto simp: result_simps)

lemma normalizeSnapshot_copy:
  assumes "normalizeSnapshot P m (sn_role s) (snapshot_json s) = Inr n"
  shows "same_snapshot P s n"
proof -
  note f = normalizeSnapshot_fields[OF assms, unfolded snapshot_json_fields json.inject]
  have a: "mapR (normalizeAdd P m) (map add_json (sn_addCash s)) = Inr (sn_addCash n)"
    and p: "mapR (normalizePayment P m) (map payment_json (sn_payments s)) = Inr (sn_payments n)"
    and o: "mapR (normalizeOrder P m) (map order_json (sn_orders s)) = Inr (sn_orders n)"
    and c: "mapR (normalizeCashOut P m) (map cash_out_json (sn_cashOut s)) = Inr (sn_cashOut n)"
    and ps: "\<exists>l. storedProofs P l (JArr (sn_proofs s)) = Inr (sn_proofs n)"
    and base: "sn_eventId n = sn_eventId s" "sn_unit n = sn_unit s" "sn_role n = sn_role s"
    using f by simp_all
  have "same_proofs P (sn_proofs s) (sn_proofs n)" using ps storedProofs_copy by blast
  moreover have "sn_addCash n = sn_addCash s" by (rule mapR_same[OF a]) (rule normalizeAdd_copy)
  moreover have "list_all2 (same_payment P) (sn_payments s) (sn_payments n)"
    by (rule mapR_copy[OF p]) (rule normalizePayment_copy)
  moreover have "list_all2 (same_order P) (sn_orders s) (sn_orders n)"
    by (rule mapR_copy[OF o]) (rule normalizeOrder_copy)
  moreover have "list_all2 (same_cash_out P) (sn_cashOut s) (sn_cashOut n)"
    by (rule mapR_copy[OF c]) (rule normalizeCashOut_copy)
  ultimately show ?thesis using base by (simp add: same_snapshot_def)
qed

end
