(* ===== verification/Market_Moves.thy ===== *)
theory Market_Moves
  imports Market_Cash
begin

section \<open>The market runtime as a system of moves\<close>

text \<open>
  The abstract specification of the runtime. A session changes only by moves: the world goes on, a
  toast is shown, a call that moves value or secrets is made on a record that backs it, or the
  snapshot is committed with one of the changes of \<open>snapshot_change\<close>. The changes say what a record
  may lose and when: recovery data leaves a record only together with the proofs that the call on
  it returned, and the balance only changes with a record that accounts for it.
\<close>

type_synonym call_log = "(moving_call \<times> cashu_proof list option \<times> local_storage) list"

subsection \<open>Calls and the records that back them\<close>

fun backed :: "market_snapshot \<Rightarrow> moving_call \<Rightarrow> bool" where
  "backed n (Complete_send swap) \<longleftrightarrow> (\<exists>p \<in> set (sn_payments n). pay_swap p = Some swap)"
| "backed n (Complete_receive swap) \<longleftrightarrow>
     (\<exists>x \<in> set (sn_orders n). ord_incomingSwap x = Some swap) \<or>
     (\<exists>x \<in> set (sn_cashOut n). co_recoverySwap x = Some swap)"
| "backed n (Complete_mint q prepared) \<longleftrightarrow>
     (\<exists>x \<in> set (sn_addCash n). add_quoteId x = mtq_quote q \<and> add_outputData x = Some (pn_outputs prepared) \<and>
        add_keysetId x = Some (pn_keysetId prepared))"
| "backed n (Execute_melt q prepared) \<longleftrightarrow>
     (\<exists>x \<in> set (sn_cashOut n). co_state x = Out_dispatching \<and> smq_quote (co_quote x) = mlq_quote q \<and>
        co_reserved x = Some (pm_reserved prepared) \<and> co_outputData x = Some (pm_outputs prepared))"
| "backed n (Deliver url payload) \<longleftrightarrow>
     (\<exists>p \<in> set (sn_payments n). pay_state p = Pay_delivering \<and> pay_deliveryUrl p = Some url \<and>
        pay_payloadJson p = Some payload \<and> pay_token p \<noteq> None)"
| "backed n (Register request amount) \<longleftrightarrow>
     (\<exists>x \<in> set (sn_orders n). ord_id x = cr_orderId request \<and> ord_amount x = amount \<and>
        ord_readCapability x = Some (cr_readCapability request) \<and>
        ord_writeCapability x = Some (cr_writeCapability request) \<and>
        ord_privateKey x = Some (cr_privateKey request))"
| "backed n (Cancel cap) \<longleftrightarrow>
     (\<exists>x \<in> set (sn_orders n). ord_state x = Ord_cancelling \<and> ord_readCapability x = Some cap)"

text \<open>What the last call returned.\<close>

definition returned :: "call_log \<Rightarrow> moving_call \<Rightarrow> cashu_proof list \<Rightarrow> bool" where
  "returned calls c ps \<longleftrightarrow> calls \<noteq> [] \<and> fst (last calls) = c \<and> fst (snd (last calls)) = Some ps"

subsection \<open>How a record may change while its value stays where it is\<close>

definition pay_step :: "attendee_payment \<Rightarrow> attendee_payment \<Rightarrow> bool" where
  "pay_step p q \<longleftrightarrow>
     pay_id q = pay_id p \<and> pay_orderId q = pay_orderId p \<and> pay_amount q = pay_amount p \<and> pay_fee q = pay_fee p \<and>
     pay_createdAt q = pay_createdAt p \<and> pay_swap q = pay_swap p \<and>
     (pay_state p = Pay_spent \<longrightarrow> truthy_text (pay_token p)) \<and>
     ((pay_state q = Pay_spent \<and> truthy_text (pay_token p)) \<or>
      (pay_token q = pay_token p \<and> pay_payloadJson q = pay_payloadJson p \<and> pay_deliveryUrl q = pay_deliveryUrl p \<and>
       pay_request q = pay_request p))"

definition ord_step :: "vendor_order \<Rightarrow> vendor_order \<Rightarrow> bool" where
  "ord_step x y \<longleftrightarrow>
     ord_id y = ord_id x \<and> ord_items y = ord_items x \<and> ord_amount y = ord_amount x \<and>
     ord_expiresAt y = ord_expiresAt x \<and> ord_publicKey y = ord_publicKey x \<and> ord_createdAt y = ord_createdAt x \<and>
     ord_state y \<noteq> Ord_settled \<and>
     (ord_incomingSwap y = ord_incomingSwap x \<or>
      (ord_incomingSwap x = None \<and> (\<exists>sw. ord_incomingSwap y = Some sw \<and> sw_amount sw = Some (ord_amount x)))) \<and>
     (ord_incomingToken y = ord_incomingToken x \<or> \<not> truthy_text (ord_incomingToken x)) \<and>
     (ord_privateKey y = ord_privateKey x \<or> ord_state y = Ord_cancelled \<or>
      (ord_state y = Ord_expired \<and> \<not> truthy_text (ord_incomingToken x) \<and> ord_incomingSwap x = None))"

text \<open>An order that is settled only changes its traces of the relay.\<close>

definition ord_cleanup :: "vendor_order \<Rightarrow> vendor_order \<Rightarrow> bool" where
  "ord_cleanup x y \<longleftrightarrow>
     y = x\<lparr>ord_relayAcknowledged := ord_relayAcknowledged y, ord_readCapability := ord_readCapability y,
           ord_updatedAt := ord_updatedAt y, ord_error := ord_error y\<rparr>"

definition add_step :: "add_operation \<Rightarrow> add_operation \<Rightarrow> bool" where
  "add_step x y \<longleftrightarrow>
     op_id y = op_id x \<and> op_amount y = op_amount x \<and> add_quoteId y = add_quoteId x \<and> add_invoice y = add_invoice x \<and>
     op_createdAt y = op_createdAt x \<and> add_faucet y = add_faucet x \<and> add_quotePubkey y = add_quotePubkey x \<and>
     add_state y \<noteq> Add_settled \<and>
     ((add_outputData y = add_outputData x \<and> add_keysetId y = add_keysetId x \<and>
       add_quotePrivateKey y = add_quotePrivateKey x) \<or>
      ((add_outputData x = None \<or> \<not> truthy_text (add_keysetId x)) \<and> add_outputData y \<noteq> None \<and>
       add_quotePrivateKey y = None))"

definition out_step :: "cash_out_operation \<Rightarrow> cash_out_operation \<Rightarrow> bool" where
  "out_step x y \<longleftrightarrow>
     op_id y = op_id x \<and> op_amount y = op_amount x \<and> co_invoice y = co_invoice x \<and> op_createdAt y = op_createdAt x \<and>
     smq_quote (co_quote y) = smq_quote (co_quote x) \<and> co_reserved y = co_reserved x \<and>
     co_state y \<notin> {Out_paid, Out_failed} \<and>
     (co_recoverySwap y = co_recoverySwap x \<or> co_recoverySwap x = None)"

subsection \<open>Changes of the snapshot\<close>

inductive snapshot_change :: "'w runtime \<Rightarrow> call_log \<Rightarrow> market_snapshot \<Rightarrow> market_snapshot \<Rightarrow> bool"
  for R :: "'w runtime" and calls :: call_log and n :: market_snapshot where
  Pay_new: "\<lbrakk>pay_id p \<notin> set (operation_ids n); \<not> has_payment n (pay_orderId p); sn_role n = Attendee;
     pay_state p = Pay_preparing; pay_swap p = Some sw; pay_token p = None; pay_payloadJson p = None\<rbrakk> \<Longrightarrow>
   snapshot_change R calls n
     (n\<lparr>sn_proofs := given_or (sw_unselected sw) [], sn_payments := replacePayment (sn_payments n) p\<rparr>)"
| Pay_update: "\<lbrakk>p \<in> set (sn_payments n); pay_step p q\<rbrakk> \<Longrightarrow>
   snapshot_change R calls n (n\<lparr>sn_payments := replacePayment (sn_payments n) q\<rparr>)"
| Pay_prepared: "\<lbrakk>p \<in> set (sn_payments n); pay_swap p = Some sw; \<not> truthy_text (pay_token p); returned calls (Complete_send sw) change;
     pay_id q = pay_id p; pay_orderId q = pay_orderId p; pay_amount q = pay_amount p; pay_fee q = pay_fee p;
     pay_createdAt q = pay_createdAt p; pay_deliveryUrl q = pay_deliveryUrl p; pay_request q = pay_request p;
     pay_state q = Pay_ready; pay_swap q = None; pay_token q \<noteq> None; pay_payloadJson q \<noteq> None\<rbrakk> \<Longrightarrow>
   snapshot_change R calls n
     (n\<lparr>sn_proofs := sn_proofs n @ change, sn_payments := replacePayment (sn_payments n) q\<rparr>)"
| Ord_new: "\<lbrakk>ord_id x \<notin> ord_id ` set (sn_orders n); sn_role n = Vendor; ord_state x = Ord_registering;
     ord_incomingToken x = None; ord_incomingSwap x = None; ord_privateKey x \<noteq> None\<rbrakk> \<Longrightarrow>
   snapshot_change R calls n (n\<lparr>sn_orders := replaceOrder (sn_orders n) x\<rparr>)"
| Ord_update: "\<lbrakk>x \<in> set (sn_orders n); ord_step x y\<rbrakk> \<Longrightarrow>
   snapshot_change R calls n (n\<lparr>sn_orders := replaceOrder (sn_orders n) y\<rparr>)"
| Ord_cleaned: "\<lbrakk>x \<in> set (sn_orders n); ord_state x = Ord_settled; ord_cleanup x y\<rbrakk> \<Longrightarrow>
   snapshot_change R calls n (n\<lparr>sn_orders := replaceOrder (sn_orders n) y\<rparr>)"
| Ord_settle: "\<lbrakk>x \<in> set (sn_orders n); ord_incomingSwap x = Some sw; returned calls (Complete_receive sw) fresh;
     ord_id y = ord_id x; ord_items y = ord_items x; ord_amount y = ord_amount x; ord_expiresAt y = ord_expiresAt x;
     ord_publicKey y = ord_publicKey x; ord_createdAt y = ord_createdAt x; ord_state y = Ord_settled;
     ord_incomingSwap y = None; ord_incomingToken y = None; ord_privateKey y = None\<rbrakk> \<Longrightarrow>
   snapshot_change R calls n
     (n\<lparr>sn_proofs := sn_proofs n @ fresh, sn_orders := replaceOrder (sn_orders n) y\<rparr>)"
| Add_new: "\<lbrakk>op_id x \<notin> set (operation_ids n); add_state x = Add_awaiting; add_outputData x = None\<rbrakk> \<Longrightarrow>
   snapshot_change R calls n (n\<lparr>sn_addCash := replaceAdd (sn_addCash n) x\<rparr>)"
| Add_update: "\<lbrakk>x \<in> set (sn_addCash n); add_step x y\<rbrakk> \<Longrightarrow>
   snapshot_change R calls n (n\<lparr>sn_addCash := replaceAdd (sn_addCash n) y\<rparr>)"
| Add_settle: "\<lbrakk>x \<in> set (sn_addCash n); mtq_quote q = add_quoteId x; add_outputData x = Some (pn_outputs prepared);
     add_keysetId x = Some (pn_keysetId prepared); returned calls (Complete_mint q prepared) fresh;
     op_id y = op_id x; op_amount y = op_amount x; add_quoteId y = add_quoteId x; add_invoice y = add_invoice x;
     op_createdAt y = op_createdAt x; add_faucet y = add_faucet x; add_quotePubkey y = add_quotePubkey x;
     add_state y = Add_settled; add_outputData y = None\<rbrakk> \<Longrightarrow>
   snapshot_change R calls n
     (n\<lparr>sn_proofs := sn_proofs n @ fresh, sn_addCash := replaceAdd (sn_addCash n) y\<rparr>)"
| Out_new: "\<lbrakk>op_id x \<notin> set (operation_ids n); co_state x = Out_dispatching; co_reserved x = Some (pm_reserved (prepared :: prepared_melt));
     co_outputData x = Some (pm_outputs prepared); co_recoverySwap x = None\<rbrakk> \<Longrightarrow>
   snapshot_change R calls n
     (n\<lparr>sn_proofs := pm_keep prepared, sn_cashOut := replaceCashOut (sn_cashOut n) x\<rparr>)"
| Out_update: "\<lbrakk>x \<in> set (sn_cashOut n); out_step x y\<rbrakk> \<Longrightarrow>
   snapshot_change R calls n (n\<lparr>sn_cashOut := replaceCashOut (sn_cashOut n) y\<rparr>)"
| Out_settle: "\<lbrakk>x \<in> set (sn_cashOut n); op_id y = op_id x; op_amount y = op_amount x; co_invoice y = co_invoice x;
     op_createdAt y = op_createdAt x; smq_quote (co_quote y) = smq_quote (co_quote x);
     co_state y \<in> {Out_paid, Out_failed}; co_reserved y = None; co_recoverySwap y = None;
     (co_state y = Out_paid \<and>
        (\<exists>q prepared. returned calls (Execute_melt q prepared) change \<and> mlq_quote q = smq_quote (co_quote x) \<and>
           co_reserved x = Some (pm_reserved prepared))) \<or>
     (co_state y = Out_paid \<and> proof_list (co_outputData x) = [] \<and> change = []) \<or>
     (co_state y = Out_paid \<and>
        (\<exists>q. mw_recoverMeltChange (rt_wallet R) (proof_list (co_outputData x)) q = Inr change)) \<or>
     (co_state y = Out_failed \<and>
        (\<exists>sw. co_recoverySwap x = Some sw \<and> returned calls (Complete_receive sw) change))\<rbrakk> \<Longrightarrow>
   snapshot_change R calls n
     (n\<lparr>sn_proofs := sn_proofs n @ change, sn_cashOut := replaceCashOut (sn_cashOut n) y\<rparr>)"

subsection \<open>Moves of a session\<close>

definition stores :: "'w runtime \<Rightarrow> 'w session \<Rightarrow> market_snapshot \<Rightarrow> local_storage \<Rightarrow> bool" where
  "stores R s next store' \<longleftrightarrow>
     saveMarketSnapshot (rt_platform R) (rt_manifest R) (rt_room R (ss_world s)) next (ss_store s) = (Inr (), store')"

text \<open>The session after a commit.\<close>

definition committed_as :: "market_snapshot \<Rightarrow> local_storage \<Rightarrow> 'w session \<Rightarrow> 'w session" where
  "committed_as next store' s = s\<lparr>ss_store := store', ss_snapshot := next,
     ss_commits := ss_commits s @ [(length (ss_calls s), ss_snapshot s, next)]\<rparr>"

lemma committed_as_simps [simp]:
  "ss_snapshot (committed_as n store s) = n" "ss_store (committed_as n store s) = store"
  "ss_calls (committed_as n store s) = ss_calls s" "ss_world (committed_as n store s) = ss_world s"
  "ss_toast (committed_as n store s) = ss_toast s"
  "ss_commits (committed_as n store s) = ss_commits s @ [(length (ss_calls s), ss_snapshot s, n)]"
  by (simp_all add: committed_as_def)

inductive market_move :: "'w runtime \<Rightarrow> 'w session \<Rightarrow> 'w session \<Rightarrow> bool" for R :: "'w runtime" where
  Move_world: "market_move R s (s\<lparr>ss_world := w\<rparr>)"
| Move_toast: "market_move R s (s\<lparr>ss_toast := Some t\<rparr>)"
| Move_call: "backed (ss_snapshot s) c \<Longrightarrow>
   market_move R s (s\<lparr>ss_world := w, ss_calls := ss_calls s @ [(c, ps, ss_store s)]\<rparr>)"
| Move_commit: "stores R s next store' \<Longrightarrow> snapshot_change R (ss_calls s) (ss_snapshot s) next \<Longrightarrow>
   market_move R s (committed_as next store' s)"

abbreviation moves :: "'w runtime \<Rightarrow> 'w session \<Rightarrow> 'w session \<Rightarrow> bool" where
  "moves R \<equiv> (market_move R)\<^sup>*\<^sup>*"

lemma moves_step: "moves R s t \<Longrightarrow> market_move R t u \<Longrightarrow> moves R s u"
  by (rule rtranclp.rtrancl_into_rtrancl)

end
