(* ===== verification/Market_Refine.thy ===== *)
theory Market_Refine
  imports Market_Moves
begin

section \<open>Every method of the runtime is a sequence of moves\<close>

text \<open>
  The rules of \<open>vcg\<close> pull a statement about the outcome of a method back through its calls. A rule
  for a call keeps the fact that the session was reached by moves; a rule for a commit adds the move
  and says what the snapshot is afterwards.
\<close>

named_theorems vcg \<open>rules that step through a method\<close>

lemma vcg_bind [vcg]: "outcome m (\<lambda>x. outcome (f x) Q E) E s \<Longrightarrow> outcome (bindM m f) Q E s"
  by (simp add: outcomes)

lemma vcg_catch [vcg]: "outcome m Q (\<lambda>e. outcome (h e) Q E) s \<Longrightarrow> outcome (catchM m h) Q E s"
  by (simp add: outcomes)

lemma vcg_try [vcg]:
  "outcome m (\<lambda>x. outcome (f x) Q E) (\<lambda>e. outcome (h e) Q E) s \<Longrightarrow> outcome (tryM m h f) Q E s"
  by (simp add: outcomes)

lemma vcg_return [vcg]: "Q x s \<Longrightarrow> outcome (returnM x) Q E s"
  by (simp add: outcomes)

lemma vcg_throw [vcg]: "E e s \<Longrightarrow> outcome (throwM e) Q E s"
  by (simp add: outcomes)

lemma vcg_read [vcg]: "Q (f s) s \<Longrightarrow> outcome (readM f) Q E s"
  by (simp add: outcomes)

lemma vcg_guard [vcg]: "(b \<Longrightarrow> Q () s) \<Longrightarrow> (\<not> b \<Longrightarrow> E e s) \<Longrightarrow> outcome (guardM b e) Q E s"
  by (simp add: outcomes)

lemma vcg_lift [vcg]:
  "(\<And>x. r = Inr x \<Longrightarrow> Q x s) \<Longrightarrow> (\<And>e. r = Inl e \<Longrightarrow> E e s) \<Longrightarrow> outcome (liftM r) Q E s"
  by (cases r) (simp_all add: outcomes)

lemma vcg_need [vcg]:
  "(\<And>x. v = Some x \<Longrightarrow> Q x s) \<Longrightarrow> (v = None \<Longrightarrow> E e s) \<Longrightarrow> outcome (needM v e) Q E s"
  by (cases v) (simp_all add: outcomes)

lemma vcg_needText [vcg]:
  "(\<And>x. v = Some x \<Longrightarrow> x \<noteq> [] \<Longrightarrow> Q x s) \<Longrightarrow> E (note_error n) s \<Longrightarrow> outcome (needText v n) Q E s"
  by (cases v) (auto simp: needText_def outcomes truthy_text_def text_or_def)

lemma vcg_if [vcg]:
  "(b \<Longrightarrow> outcome m Q E s) \<Longrightarrow> (\<not> b \<Longrightarrow> outcome n Q E s) \<Longrightarrow> outcome (if b then m else n) Q E s"
  by simp

lemma vcg_sum [vcg]:
  "(\<And>x. v = Inl x \<Longrightarrow> outcome (f x) Q E s) \<Longrightarrow> (\<And>x. v = Inr x \<Longrightarrow> outcome (g x) Q E s) \<Longrightarrow>
   outcome (case v of Inl x \<Rightarrow> f x | Inr x \<Rightarrow> g x) Q E s"
  by (cases v) simp_all

lemma vcg_prod [vcg]:
  "(\<And>x y. v = (x, y) \<Longrightarrow> outcome (f x y) Q E s) \<Longrightarrow> outcome (case v of (x, y) \<Rightarrow> f x y) Q E s"
  by (cases v) simp

lemma vcg_spend [vcg]:
  "(v = Unspent \<Longrightarrow> outcome a Q E s) \<Longrightarrow> (v = Pending_spend \<Longrightarrow> outcome b Q E s) \<Longrightarrow>
   (v = Spent \<Longrightarrow> outcome c Q E s) \<Longrightarrow> (v = Mixed \<Longrightarrow> outcome d Q E s) \<Longrightarrow>
   outcome (case v of Unspent \<Rightarrow> a | Pending_spend \<Rightarrow> b | Spent \<Rightarrow> c | Mixed \<Rightarrow> d) Q E s"
  by (cases v) simp_all

lemma vcg_send [vcg]:
  "(\<And>k p d f. v = Offline_send k p d f \<Longrightarrow> outcome (a k p d f) Q E s) \<Longrightarrow>
   (\<And>w d f. v = Swap_send w d f \<Longrightarrow> outcome (b w d f) Q E s) \<Longrightarrow>
   outcome (case v of Offline_send k p d f \<Rightarrow> a k p d f | Swap_send w d f \<Rightarrow> b w d f) Q E s"
  by (cases v) simp_all

lemma vcg_let [vcg]: "outcome (f x) Q E s \<Longrightarrow> outcome (Let x f) Q E s"
  by simp

subsection \<open>Calls\<close>

lemma vcg_port [vcg]:
  assumes "moves R s0 s"
    and "\<And>x t. moves R s0 t \<Longrightarrow> ss_snapshot t = ss_snapshot s \<Longrightarrow> ss_calls t = ss_calls s \<Longrightarrow> Q x t"
    and "\<And>e t. moves R s0 t \<Longrightarrow> ss_snapshot t = ss_snapshot s \<Longrightarrow> ss_calls t = ss_calls s \<Longrightarrow> E e t"
  shows "outcome (portM f) Q E s"
proof -
  have "moves R s0 (s\<lparr>ss_world := w\<rparr>)" for w
    using assms(1) by (rule moves_step) (rule Move_world)
  with assms(2,3) show ?thesis by (auto simp: outcome_def portM_def split: prod.splits sum.splits)
qed

lemma outcome_total [outcomes]:
  "outcome (portM (totalM f)) Q E s \<longleftrightarrow> (case f (ss_world s) of (x, w) \<Rightarrow> Q x (s\<lparr>ss_world := w\<rparr>))"
  by (simp add: outcome_def portM_def totalM_def split: prod.splits)

lemma vcg_now [vcg]:
  assumes "moves R s0 s"
    and "\<And>x t. moves R s0 t \<Longrightarrow> ss_snapshot t = ss_snapshot s \<Longrightarrow> ss_calls t = ss_calls s \<Longrightarrow> Q x t"
  shows "outcome (nowM R) Q E s"
proof -
  have "moves R s0 (s\<lparr>ss_world := w\<rparr>)" for w
    using assms(1) by (rule moves_step) (rule Move_world)
  with assms(2) show ?thesis by (simp add: nowM_def outcomes split: prod.splits)
qed

lemma vcg_operationId [vcg]:
  assumes "moves R s0 s" "fresh_for R (ss_snapshot s)"
    and "\<And>x t. moves R s0 t \<Longrightarrow> ss_snapshot t = ss_snapshot s \<Longrightarrow> ss_calls t = ss_calls s \<Longrightarrow>
      x \<notin> set (operation_ids (ss_snapshot s)) \<Longrightarrow> Q x t"
  shows "outcome (operationIdM R) Q E s"
proof -
  have "moves R s0 (s\<lparr>ss_world := w\<rparr>)" for w
    using assms(1) by (rule moves_step) (rule Move_world)
  moreover obtain x w where "rt_operationId R (operation_ids (ss_snapshot s)) (ss_world s) = (x, w)"
    by fastforce
  moreover have "x \<notin> set (operation_ids (ss_snapshot s))"
    using assms(2) calculation(2) unfolding fresh_for_def by (metis fst_conv)
  ultimately show ?thesis
    using assms(3)[of "s\<lparr>ss_world := w\<rparr>" x] by (simp add: operationIdM_def outcomes)
qed

lemma vcg_entropy [vcg]:
  assumes "moves R s0 s" "fresh_for R (ss_snapshot s)"
    and "\<And>x t. moves R s0 t \<Longrightarrow> ss_snapshot t = ss_snapshot s \<Longrightarrow> ss_calls t = ss_calls s \<Longrightarrow>
      new_order_id x \<notin> ord_id ` set (sn_orders (ss_snapshot s)) \<Longrightarrow> Q x t"
  shows "outcome (entropyM R) Q E s"
proof -
  have "moves R s0 (s\<lparr>ss_world := w\<rparr>)" for w
    using assms(1) by (rule moves_step) (rule Move_world)
  moreover obtain x w where "rt_entropy R (map ord_id (sn_orders (ss_snapshot s))) (ss_world s) = (x, w)"
    by fastforce
  moreover have "new_order_id x \<notin> ord_id ` set (sn_orders (ss_snapshot s))"
    using assms(2) calculation(2) unfolding fresh_for_def by (metis fst_conv)
  ultimately show ?thesis
    using assms(3)[of "s\<lparr>ss_world := w\<rparr>" x] by (simp add: entropyM_def outcomes)
qed

lemma vcg_moving [vcg]:
  assumes "moves R s0 s" "backed (ss_snapshot s) c"
    and "\<And>x t. moves R s0 t \<Longrightarrow> ss_snapshot t = ss_snapshot s \<Longrightarrow> returned (ss_calls t) c (g x) \<Longrightarrow> Q x t"
    and "\<And>e t. moves R s0 t \<Longrightarrow> ss_snapshot t = ss_snapshot s \<Longrightarrow> E e t"
  shows "outcome (movingM c g f) Q E s"
proof -
  have "moves R s0 (s\<lparr>ss_world := w, ss_calls := ss_calls s @ [(c, ps, ss_store s)]\<rparr>)" for w ps
    using assms(1) by (rule moves_step) (rule Move_call[OF assms(2)])
  with assms(3,4) show ?thesis
    by (auto simp: outcome_def movingM_def returned_def split: prod.splits sum.splits)
qed

lemma vcg_notify [vcg]:
  assumes "moves R s0 s"
    and "\<And>t. moves R s0 t \<Longrightarrow> ss_snapshot t = ss_snapshot s \<Longrightarrow> Q () t"
  shows "outcome (notifyM m) Q E s"
  using assms moves_step[OF assms(1) Move_toast] by (simp add: outcome_def notifyM_def)

lemma vcg_role [vcg]:
  "(sn_role (ss_snapshot s) = r \<Longrightarrow> Q () s) \<Longrightarrow> E (note_error (Needs_role r)) s \<Longrightarrow> outcome (assertRole r) Q E s"
  by (simp add: assertRole_def outcomes)

lemma vcg_check [vcg]:
  assumes "moves R s0 s"
    and "\<And>x t. moves R s0 t \<Longrightarrow> ss_snapshot t = ss_snapshot s \<Longrightarrow> ss_calls t = ss_calls s \<Longrightarrow> Q x t"
    and "\<And>e t. moves R s0 t \<Longrightarrow> ss_snapshot t = ss_snapshot s \<Longrightarrow> ss_calls t = ss_calls s \<Longrightarrow> E e t"
  shows "outcome (checkRequest R enc b) Q E s"
  unfolding checkRequest_def by (rule vcg assms | assumption | erule assms)+ 

lemma backedI:
  "p \<in> set (sn_payments n) \<Longrightarrow> pay_swap p = Some sw \<Longrightarrow> backed n (Complete_send sw)"
  "p \<in> set (sn_payments n) \<Longrightarrow> pay_state p = Pay_delivering \<and> pay_deliveryUrl p = Some url \<and>
     pay_payloadJson p = Some payload \<and> pay_token p \<noteq> None \<Longrightarrow> backed n (Deliver url payload)"
  "x \<in> set (sn_orders n) \<Longrightarrow> ord_incomingSwap x = Some sw \<Longrightarrow> backed n (Complete_receive sw)"
  "z \<in> set (sn_cashOut n) \<Longrightarrow> co_recoverySwap z = Some sw \<Longrightarrow> backed n (Complete_receive sw)"
  "x \<in> set (sn_orders n) \<Longrightarrow> ord_id x = cr_orderId request \<and> ord_amount x = amount \<and>
     ord_readCapability x = Some (cr_readCapability request) \<and>
     ord_writeCapability x = Some (cr_writeCapability request) \<and>
     ord_privateKey x = Some (cr_privateKey request) \<Longrightarrow> backed n (Register request amount)"
  "x \<in> set (sn_orders n) \<Longrightarrow> ord_state x = Ord_cancelling \<and> ord_readCapability x = Some cap \<Longrightarrow> backed n (Cancel cap)"
  "y \<in> set (sn_addCash n) \<Longrightarrow> add_quoteId y = mtq_quote q \<and> add_outputData y = Some (pn_outputs prepared) \<and>
     add_keysetId y = Some (pn_keysetId prepared) \<Longrightarrow> backed n (Complete_mint q prepared)"
  "z \<in> set (sn_cashOut n) \<Longrightarrow> co_state z = Out_dispatching \<and> smq_quote (co_quote z) = mlq_quote mq \<and>
     co_reserved z = Some (pm_reserved pm) \<and> co_outputData z = Some (pm_outputs pm) \<Longrightarrow> backed n (Execute_melt mq pm)"
  by auto

subsection \<open>Commits\<close>

lemma outcome_commit:
  assumes "\<And>store'. stores R s next store' \<Longrightarrow> Q () (committed_as next store' s)"
    and "\<And>m. E (Storage_failure m) s"
  shows "outcome (commitM R next) Q E s"
proof (cases "saveMarketSnapshot (rt_platform R) (rt_manifest R) (rt_room R (ss_world s)) next (ss_store s)")
  case (Pair r store')
  then show ?thesis
    using assms save_failed
    by (cases r) (fastforce simp: outcome_def commitM_def stores_def committed_as_def)+
qed

lemma vcg_commit:
  assumes "moves R s0 s" "snapshot_change R (ss_calls s) (ss_snapshot s) next"
    and "\<And>t. moves R s0 t \<Longrightarrow> ss_snapshot t = next \<Longrightarrow> ss_calls t = ss_calls s \<Longrightarrow> Q () t"
    and "\<And>m. E (Storage_failure m) s"
  shows "outcome (commitM R next) Q E s"
proof (rule outcome_commit)
  fix store' assume "stores R s next store'"
  then have "moves R s0 (committed_as next store' s)"
    by (rule moves_step[OF assms(1) Move_commit[OF _ assms(2)]])
  then show "Q () (committed_as next store' s)"
    by (rule assms(3)) simp_all
qed (rule assms(4))

section \<open>The payment methods as moves\<close>

lemma found_or_stored:
  assumes "\<exists>r \<in> set rs. key r = key input"
  shows "found_or key rs input \<in> set rs" "key (found_or key rs input) = key input"
proof -
  obtain r where "find (\<lambda>r. key r = key input) rs = Some r"
    using assms by (metis (mono_tags, lifting) find_None_iff not_Some_eq)
  then show "found_or key rs input \<in> set rs" "key (found_or key rs input) = key input"
    by (auto simp: found_or_def dest: find_SomeD)
qed

lemma vcg_commitPayment [vcg]:
  assumes "moves R s0 s" "\<exists>p \<in> set (sn_payments (ss_snapshot s)). pay_step p q"
    and "\<And>t. moves R s0 t \<Longrightarrow> q \<in> set (sn_payments (ss_snapshot t)) \<Longrightarrow>
      sn_role (ss_snapshot t) = sn_role (ss_snapshot s) \<Longrightarrow> Q q t"
    and "\<And>m. E (Storage_failure m) s"
  shows "outcome (commitPayment R q None) Q E s"
proof -
  obtain p where p: "p \<in> set (sn_payments (ss_snapshot s))" "pay_step p q" using assms(2) by blast
  show ?thesis
    unfolding commitPayment_def given_or_def
    by (simp add: outcomes)
       (rule vcg_commit[OF assms(1) Pay_update[OF p]]; simp add: outcomes assms(3,4) replacePayment_def)
qed

lemma vcg_commitPayment_prepared [vcg]:
  assumes "moves R s0 s"
    and q: "q = p\<lparr>pay_state := Pay_ready, pay_token := Some token, pay_payloadJson := Some payload, pay_swap := None,
       pay_updatedAt := now, pay_error := None\<rparr>"
    and "p \<in> set (sn_payments (ss_snapshot s))" "pay_swap p = Some sw" "\<not> truthy_text (pay_token p)"
    "returned (ss_calls s) (Complete_send sw) change" "ps = sn_proofs (ss_snapshot s)"
    and "\<And>t. moves R s0 t \<Longrightarrow> q \<in> set (sn_payments (ss_snapshot t)) \<Longrightarrow>
      sn_role (ss_snapshot t) = sn_role (ss_snapshot s) \<Longrightarrow> Q q t"
    and "\<And>m. E (Storage_failure m) s"
  shows "outcome (commitPayment R (p\<lparr>pay_state := Pay_ready, pay_token := Some token,
      pay_payloadJson := Some payload, pay_swap := None, pay_updatedAt := now, pay_error := None\<rparr>)
    (Some (ps @ change))) Q E s"
proof -
  have c: "snapshot_change R (ss_calls s) (ss_snapshot s)
      ((ss_snapshot s)\<lparr>sn_proofs := sn_proofs (ss_snapshot s) @ change,
        sn_payments := replacePayment (sn_payments (ss_snapshot s)) q\<rparr>)"
    by (rule Pay_prepared[OF assms(3,4,5,6)]) (simp_all add: q)
  show ?thesis
    unfolding commitPayment_def given_or_def assms(7) q[symmetric]
    by (simp add: outcomes) (rule vcg_commit[OF assms(1) c]; simp add: outcomes assms(8,9) replacePayment_def)
qed

lemma finish_moves [vcg]:
  assumes "moves R s0 s" "p \<in> set (sn_payments (ss_snapshot s))" "\<not> truthy_text (pay_token p)"
    and "\<And>q t. moves R s0 t \<Longrightarrow> q \<in> set (sn_payments (ss_snapshot t)) \<Longrightarrow> pay_id q = pay_id p \<Longrightarrow>
      sn_role (ss_snapshot t) = sn_role (ss_snapshot s) \<Longrightarrow> Q q t"
    and "\<And>e t. moves R s0 t \<Longrightarrow> p \<in> set (sn_payments (ss_snapshot t)) \<Longrightarrow>
      sn_role (ss_snapshot t) = sn_role (ss_snapshot s) \<Longrightarrow> E e t"
  shows "outcome (finishPaymentPreparation R p) Q E s"
  using assms(1) unfolding finishPaymentPreparation_def
  by - (rule vcg refl | assumption | (auto simp: assms; fail))+

lemma pay_commits:
  assumes "p \<in> set ps" and spent: "pay_state p = Pay_spent \<longrightarrow> truthy_text (pay_token p)"
  shows "\<exists>x \<in> set ps. pay_step x (p\<lparr>pay_state := st, pay_retryable := r, pay_updatedAt := u, pay_error := e\<rparr>)"
    "\<exists>x \<in> set ps. pay_step x (p\<lparr>pay_state := st, pay_retryable := r, pay_deliveredAt := d, pay_updatedAt := u, pay_error := e\<rparr>)"
    "\<exists>x \<in> set ps. pay_step x (p\<lparr>pay_state := st, pay_updatedAt := u, pay_error := e\<rparr>)"
    "\<exists>x \<in> set ps. pay_step x (p\<lparr>pay_checkedAt := c, pay_updatedAt := u\<rparr>)"
    "\<exists>x \<in> set ps. pay_step x (p\<lparr>pay_checkedAt := c, pay_updatedAt := u, pay_state := st, pay_error := e\<rparr>)"
    "truthy_text (pay_token p) \<Longrightarrow>
     \<exists>x \<in> set ps. pay_step x (p\<lparr>pay_checkedAt := c, pay_updatedAt := u, pay_state := Pay_spent, pay_token := tk,
       pay_payloadJson := pl, pay_request := rq, pay_deliveryUrl := du, pay_retryable := r, pay_error := e\<rparr>)"
  by (rule bexI[OF _ assms(1)], insert spent, simp add: pay_step_def)+

lemma deliver_moves:
  assumes "moves R s0 s" "\<exists>p \<in> set (sn_payments (ss_snapshot s)). pay_id p = pay_id input"
  shows "outcome (deliverStoredPayment R input) (\<lambda>_. moves R s0) (\<lambda>_. moves R s0) s"
  using assms(1) found_or_stored[OF assms(2)] unfolding deliverStoredPayment_def deliveryFailed_def
  by - (rule vcg refl | assumption | (rule pay_commits; auto simp: truthy_text_def text_or_def; fail) | (rule backedI, assumption, simp; fail) |
     (auto simp: truthy_text_def; fail))+

lemma vcg_commitPayment_new [vcg]:
  assumes "moves R s0 s"
    and new: "pay_id p \<notin> set (operation_ids (ss_snapshot s))" "\<not> has_payment (ss_snapshot s) (pay_orderId p)"
      "sn_role (ss_snapshot s) = Attendee"
    and p: "pay_state p = Pay_preparing" "pay_swap p = Some sw" "pay_token p = None" "pay_payloadJson p = None"
    and "\<And>t. moves R s0 t \<Longrightarrow> p \<in> set (sn_payments (ss_snapshot t)) \<Longrightarrow>
      sn_role (ss_snapshot t) = sn_role (ss_snapshot s) \<Longrightarrow> Q p t"
    and "\<And>m. E (Storage_failure m) s"
  shows "outcome (commitPayment R p (Some (given_or (sw_unselected sw) []))) Q E s"
  unfolding commitPayment_def given_or_def[of "Some _"]
  by (simp add: outcomes)
     (rule vcg_commit[OF assms(1) Pay_new[OF new p]]; simp add: outcomes assms(9,10) replacePayment_def)

lemma confirm_moves:
  assumes "moves R s0 s" "fresh_for R (ss_snapshot s)"
  shows "outcome (confirmPayment R review) (\<lambda>_. moves R s0) (\<lambda>_. moves R s0) s"
  using assms unfolding confirmPayment_def
  by - (rule vcg refl | assumption | (rule deliver_moves, assumption, blast) | (rule pay_commits; auto simp: truthy_text_def text_or_def; fail) | (auto simp: truthy_text_def; fail))+

lemma check_moves:
  assumes "moves R s0 s" "\<exists>p \<in> set (sn_payments (ss_snapshot s)). pay_id p = pay_id input"
  shows "outcome (checkPayment R input) (\<lambda>_. moves R s0) (\<lambda>_. moves R s0) s"
  using assms(1) found_or_stored[OF assms(2)] unfolding checkPayment_def
  by - (rule vcg refl | assumption | (rule pay_commits; auto simp: truthy_text_def text_or_def; fail) | (auto simp: truthy_text_def; fail))+

lemma review_moves:
  assumes "moves R s0 s"
  shows "outcome (reviewPayment R encoded) (\<lambda>_ t. moves R s0 t \<and> ss_snapshot t = ss_snapshot s)
    (\<lambda>_ t. moves R s0 t \<and> ss_snapshot t = ss_snapshot s) s"
  using assms unfolding reviewPayment_def
  by - (rule vcg refl | assumption | (auto; fail))+

end
