(* ===== verification/Market_Refine_Vendor.thy ===== *)
theory Market_Refine_Vendor
  imports Market_Refine
begin

section \<open>The order methods as moves\<close>

lemma vcg_commitOrder [vcg]:
  assumes "moves R s0 s" "\<exists>x \<in> set (sn_orders (ss_snapshot s)). ord_step x y"
    and "\<And>t. moves R s0 t \<Longrightarrow> y \<in> set (sn_orders (ss_snapshot t)) \<Longrightarrow>
      sn_role (ss_snapshot t) = sn_role (ss_snapshot s) \<Longrightarrow> Q y t"
    and "\<And>m. E (Storage_failure m) s"
  shows "outcome (commitOrder R y None) Q E s"
proof -
  obtain x where x: "x \<in> set (sn_orders (ss_snapshot s))" "ord_step x y" using assms(2) by blast
  show ?thesis
    unfolding commitOrder_def given_or_def
    by (simp add: outcomes)
       (rule vcg_commit[OF assms(1) Ord_update[OF x]]; simp add: outcomes assms(3,4) replaceOrder_def)
qed

lemma commitOrder_cleaned:
  assumes "moves R s0 s" "x \<in> set (sn_orders (ss_snapshot s))" "ord_state x = Ord_settled" "ord_cleanup x y"
    and "\<And>t. moves R s0 t \<Longrightarrow> Q y t" and "\<And>m. E (Storage_failure m) s"
  shows "outcome (commitOrder R y None) Q E s"
  unfolding commitOrder_def given_or_def
  by (simp add: outcomes)
     (rule vcg_commit[OF assms(1) Ord_cleaned[OF assms(2-4)]]; simp add: outcomes assms(5,6) replaceOrder_def)

lemma vcg_commitOrder_new:
  assumes "moves R s0 s" "ord_id x \<notin> ord_id ` set (sn_orders (ss_snapshot s))" "sn_role (ss_snapshot s) = Vendor"
    "ord_state x = Ord_registering" "ord_incomingToken x = None" "ord_incomingSwap x = None" "ord_privateKey x \<noteq> None"
    and "\<And>t. moves R s0 t \<Longrightarrow> x \<in> set (sn_orders (ss_snapshot t)) \<Longrightarrow>
      sn_role (ss_snapshot t) = sn_role (ss_snapshot s) \<Longrightarrow> Q x t"
    and "\<And>m. E (Storage_failure m) s"
  shows "outcome (commitOrder R x None) Q E s"
  unfolding commitOrder_def given_or_def
  by (simp add: outcomes)
     (rule vcg_commit[OF assms(1) Ord_new[OF assms(2-7)]]; simp add: outcomes assms(8,9) replaceOrder_def)

lemma ord_commits:
  assumes "x \<in> set xs"
  shows "st \<noteq> Ord_settled \<Longrightarrow>
      \<exists>z \<in> set xs. ord_step z (x\<lparr>ord_state := st, ord_updatedAt := u, ord_error := e\<rparr>)"
    "st \<noteq> Ord_settled \<Longrightarrow>
      \<exists>z \<in> set xs. ord_step z (x\<lparr>ord_state := st, ord_relayRegistered := r, ord_updatedAt := u, ord_error := e\<rparr>)"
    "st \<noteq> Ord_settled \<Longrightarrow> \<not> truthy_text (ord_incomingToken x) \<Longrightarrow>
      \<exists>z \<in> set xs. ord_step z (x\<lparr>ord_state := st, ord_incomingToken := tk, ord_updatedAt := u, ord_error := e\<rparr>)"
    "st \<noteq> Ord_settled \<Longrightarrow> ord_incomingSwap x = None \<Longrightarrow> sw_amount sw = Some (ord_amount x) \<Longrightarrow>
      \<exists>z \<in> set xs. ord_step z (x\<lparr>ord_state := st, ord_incomingSwap := Some sw, ord_updatedAt := u, ord_error := e\<rparr>)"
    "ord_state x \<noteq> Ord_settled \<Longrightarrow>
      \<exists>z \<in> set xs. ord_step z (x\<lparr>ord_relayAcknowledged := r, ord_updatedAt := u\<rparr>)"
    "ord_state x \<noteq> Ord_settled \<Longrightarrow>
      \<exists>z \<in> set xs. ord_step z (x\<lparr>ord_relayAcknowledged := r, ord_updatedAt := u, ord_error := e\<rparr>)"
    "\<not> truthy_text (ord_incomingToken x) \<Longrightarrow> ord_incomingSwap x = None \<Longrightarrow>
      \<exists>z \<in> set xs. ord_step z (x\<lparr>ord_state := Ord_expired, ord_request := rq, ord_requestDigest := dg,
        ord_deliveryUrl := du, ord_readCapability := rc, ord_writeCapability := wc, ord_privateKey := None,
        ord_updatedAt := u, ord_error := e\<rparr>)"
    "\<exists>z \<in> set xs. ord_step z (x\<lparr>ord_state := Ord_cancelled, ord_request := rq, ord_requestDigest := dg,
        ord_deliveryUrl := du, ord_readCapability := rc, ord_writeCapability := wc, ord_privateKey := None,
        ord_updatedAt := u\<rparr>)"
  by (rule bexI[OF _ assms], simp add: ord_step_def)+

lemma recoverable_moves:
  assumes "moves R s0 s" "x \<in> set (sn_orders (ss_snapshot s))"
  shows "outcome (orderRecoverable R x reason) (\<lambda>_. moves R s0) (\<lambda>_. moves R s0) s"
  using assms unfolding orderRecoverable_def
  by - (rule vcg refl | assumption | (rule ord_commits; auto; fail) | (auto; fail))+

lemma register_order_moves:
  assumes "moves R s0 s" "x \<in> set (sn_orders (ss_snapshot s))" "ord_id x = cr_orderId request"
    "ord_readCapability x = Some (cr_readCapability request)" "ord_writeCapability x = Some (cr_writeCapability request)"
    "ord_privateKey x = Some (cr_privateKey request)"
    and "\<And>y t. moves R s0 t \<Longrightarrow> Q y t"
    and "\<And>e t. moves R s0 t \<Longrightarrow> x \<in> set (sn_orders (ss_snapshot t)) \<Longrightarrow> E e t"
  shows "outcome (registerOrder R x request) Q E s"
  using assms(1-6) unfolding registerOrder_def
  by - (rule vcg refl | assumption | (rule ord_commits; auto; fail) | (rule backedI, assumption, simp; fail) |
     (auto simp: assms(7,8); fail))+

lemma createVendorRequest_facts:
  "createVendorRequest P H public m vendor amount description now rnd = Inr r \<Longrightarrow>
   cr_orderId r = new_order_id rnd \<and> cr_privateKey r = bytesToHex (ve_secret rnd) \<and>
   cr_readCapability r = randomCapability (ve_read rnd) \<and> cr_writeCapability r = randomCapability (ve_write rnd) \<and>
   cr_publicKey r = bytesToHex (public (ve_secret rnd)) \<and> cr_expiresAt r = now + 300 \<and>
   cr_requestDigest r = requestDigestOf H (dr_encoded (cr_request r)) \<and>
   cr_deliveryUrl r = em_relayOrigin m @ ''/v1/deliver/'' @ cr_writeCapability r"
  by (auto simp: createVendorRequest_def Let_def bindR_Inr new_order_id_def)

lemma create_moves:
  assumes "moves R s0 s" "fresh_for R (ss_snapshot s)"
  shows "outcome (createOrder R items) (\<lambda>_. moves R s0) (\<lambda>_. moves R s0) s"
  using assms unfolding createOrder_def
  by - (rule refl | assumption | (rule vcg_commitOrder_new, assumption,
      ((drule createVendorRequest_facts)?, simp add: order_of_request_def; fail)+) |
    (rule register_order_moves, assumption, assumption, (simp add: order_of_request_def; fail)+) | rule vcg |
    (rule ord_commits; auto; fail) | (auto; fail))+

lemma store_request_moves:
  assumes "moves R s0 s" "x \<in> set (sn_orders (ss_snapshot s))"
    and "\<And>r t. moves R s0 t \<Longrightarrow> x \<in> set (sn_orders (ss_snapshot t)) \<Longrightarrow> ord_id x = cr_orderId r \<Longrightarrow>
      ord_readCapability x = Some (cr_readCapability r) \<Longrightarrow> ord_writeCapability x = Some (cr_writeCapability r) \<Longrightarrow>
      ord_privateKey x = Some (cr_privateKey r) \<Longrightarrow> Q r t"
    and "\<And>e t. moves R s0 t \<Longrightarrow> x \<in> set (sn_orders (ss_snapshot t)) \<Longrightarrow> E e t"
  shows "outcome (storedRequest R x) Q E s"
  using assms(1,2) unfolding storedRequest_def
  by - (rule vcg refl | assumption | (auto simp: assms(3,4); fail))+

lemma register_moves:
  assumes "moves R s0 s" "\<exists>x \<in> set (sn_orders (ss_snapshot s)). ord_id x = ord_id input"
  shows "outcome (registerStoredOrder R input) (\<lambda>_. moves R s0) (\<lambda>_. moves R s0) s"
  using assms(1) found_or_stored[OF assms(2)] unfolding registerStoredOrder_def found_order_def
  by - (rule vcg refl | assumption | (rule recoverable_moves store_request_moves) |
     (rule register_order_moves, assumption, assumption) | (auto; fail))+

lemma token_checked_moves:
  assumes "moves R s0 s" "x \<in> set (sn_orders (ss_snapshot s))" "ord_incomingSwap x = None"
    and "\<And>r t. moves R s0 t \<Longrightarrow> (\<And>z. r = Inr z \<Longrightarrow> z \<in> set (sn_orders (ss_snapshot t))) \<Longrightarrow> Q r t"
    and "\<And>e t. moves R s0 t \<Longrightarrow> x \<in> set (sn_orders (ss_snapshot t)) \<Longrightarrow> E e t"
  shows "outcome (checkToken R x token privateKey publicKey) Q E s"
  using assms(1-3) unfolding checkToken_def finished_def rejectOrder_def
  by - (rule vcg refl | assumption | (rule ord_commits; auto; fail) | (rule assms(4); auto; fail) |
      (auto simp: assms(5); fail))+

lemma vcg_commitOrder_settle:
  assumes "moves R s0 s" "x \<in> set (sn_orders (ss_snapshot s))" "ord_incomingSwap x = Some sw"
    "returned (ss_calls s) (Complete_receive sw) fresh" "ps = sn_proofs (ss_snapshot s)"
    "y = x\<lparr>ord_state := Ord_settled, ord_request := None, ord_requestDigest := None, ord_deliveryUrl := None,
            ord_writeCapability := None, ord_readCapability := rc, ord_privateKey := None,
            ord_incomingToken := None, ord_incomingSwap := None, ord_updatedAt := now, ord_error := None\<rparr>"
    and "\<And>t. moves R s0 t \<Longrightarrow> Q y t"
    and "\<And>m. E (Storage_failure m) s"
  shows "outcome (commitOrder R y (Some (ps @ fresh))) Q E s"
proof -
  have c: "snapshot_change R (ss_calls s) (ss_snapshot s)
      ((ss_snapshot s)\<lparr>sn_proofs := sn_proofs (ss_snapshot s) @ fresh,
        sn_orders := replaceOrder (sn_orders (ss_snapshot s)) y\<rparr>)"
    by (rule Ord_settle[OF assms(2,3,4)]) (simp_all add: assms(6))
  show ?thesis
    unfolding commitOrder_def given_or_def assms(5)
    by (simp add: outcomes) (rule vcg_commit[OF assms(1) c]; simp add: outcomes assms(7,8) replaceOrder_def)
qed

lemma complete_moves:
  assumes "moves R s0 s" "x \<in> set (sn_orders (ss_snapshot s))"
    and "\<And>y t. moves R s0 t \<Longrightarrow> Q y t"
    and "\<And>e t. moves R s0 t \<Longrightarrow> x \<in> set (sn_orders (ss_snapshot t)) \<Longrightarrow> E e t"
  shows "outcome (completeSettlement R x) Q E s"
  using assms(1,2) unfolding completeSettlement_def id_def
  by - (rule refl | assumption | (rule vcg_commitOrder_settle[where x = x], assumption, (simp; fail)+) | rule vcg |
     (rule backedI, assumption, simp; fail) | (auto simp: assms(3,4); fail))+

lemma settle_moves:
  assumes "moves R s0 s" "\<exists>x \<in> set (sn_orders (ss_snapshot s)). ord_id x = ord_id input"
  shows "outcome (settleOrder R input) (\<lambda>_. moves R s0) (\<lambda>_. moves R s0) s"
  using assms(1) found_or_stored[OF assms(2)] unfolding settleOrder_def found_order_def
  by - (rule vcg refl | assumption | rule recoverable_moves complete_moves token_checked_moves |
    (rule ord_commits; auto; fail) | (auto; fail))+

lemma acknowledge_settled_moves:
  assumes "moves R s0 s" "x \<in> set (sn_orders (ss_snapshot s))" "ord_state x = Ord_settled"
  shows "outcome (acknowledgeSettledOrder R x) (\<lambda>_. moves R s0) (\<lambda>_. moves R s0) s"
  using assms unfolding acknowledgeSettledOrder_def
  by - (rule refl | assumption | (rule commitOrder_cleaned[where x = x], assumption, (simp add: ord_cleanup_def; fail)+) |
    rule vcg | (auto; fail))+

lemma expire_moves:
  assumes "moves R s0 s" "x \<in> set (sn_orders (ss_snapshot s))" "\<not> truthy_text (ord_incomingToken x)"
    "ord_incomingSwap x = None" and "\<And>y t. moves R s0 t \<Longrightarrow> Q y t"
    and "\<And>e t. moves R s0 t \<Longrightarrow> x \<in> set (sn_orders (ss_snapshot t)) \<Longrightarrow> E e t"
  shows "outcome (expireOrder R x) Q E s"
  using assms(1-4) unfolding expireOrder_def
  by - (rule vcg refl | assumption | (rule ord_commits; auto; fail) | (auto simp: assms(5,6); fail))+

lemma poll_failed_moves:
  assumes "moves R s0 s" "x \<in> set (sn_orders (ss_snapshot s))"
    "failure_status reason \<in> {Some 404, Some 410} \<Longrightarrow> \<not> truthy_text (ord_incomingToken x) \<and> ord_incomingSwap x = None"
  shows "outcome (pollFailed R x reason) (\<lambda>_. moves R s0) (\<lambda>_. moves R s0) s"
  using assms unfolding pollFailed_def
  by - (rule vcg refl | assumption | rule expire_moves recoverable_moves | (auto; fail))+

lemma read_inbox_moves:
  assumes "moves R s0 s" "x \<in> set (sn_orders (ss_snapshot s))" "\<not> truthy_text (ord_incomingToken x)"
    "ord_incomingSwap x = None"
    and "\<And>r t. moves R s0 t \<Longrightarrow>
      (\<And>y. r = Inr y \<Longrightarrow> y \<in> set (sn_orders (ss_snapshot t)) \<and> ord_state y \<noteq> Ord_settled) \<Longrightarrow> Q r t"
    and "\<And>e t. moves R s0 t \<Longrightarrow> x \<in> set (sn_orders (ss_snapshot t)) \<Longrightarrow> E e t"
  shows "outcome (readInbox R x readCap) Q E s"
  using assms(1-4) unfolding readInbox_def finished_def rejectOrder_def
  by - (rule vcg refl | assumption | rule expire_moves | (rule ord_commits; auto; fail) | (rule assms(5); auto; fail) |
     (auto simp: assms(6); fail))+

lemma acknowledge_received_moves:
  assumes "moves R s0 s" "x \<in> set (sn_orders (ss_snapshot s))" "ord_state x \<noteq> Ord_settled"
    and "\<And>y t. moves R s0 t \<Longrightarrow> y \<in> set (sn_orders (ss_snapshot t)) \<Longrightarrow> Q y t"
    and "\<And>m t. moves R s0 t \<Longrightarrow> x \<in> set (sn_orders (ss_snapshot t)) \<Longrightarrow> E (Storage_failure m) t"
  shows "outcome (acknowledgeReceived R x readCap) Q E s"
  using assms(1-3) unfolding acknowledgeReceived_def
  by - (rule vcg refl | assumption | (rule ord_commits; auto; fail) | (auto simp: assms(4,5); fail))+

lemma poll_moves:
  assumes "moves R s0 s" "\<exists>x \<in> set (sn_orders (ss_snapshot s)). ord_id x = ord_id input"
  shows "outcome (pollOrder R input) (\<lambda>_. moves R s0) (\<lambda>_. moves R s0) s"
  using assms(1) found_or_stored[OF assms(2)] unfolding pollOrder_def found_order_def
  by - (rule vcg refl | assumption | rule acknowledge_settled_moves read_inbox_moves poll_failed_moves
      acknowledge_received_moves | (rule settle_moves, assumption, blast) | (auto simp: failure_status_def; fail))+

lemma stored_self: "x \<in> set xs \<Longrightarrow> \<exists>y \<in> set xs. key y = key x"
  by blast

lemma cancel_moves:
  assumes "moves R s0 s" "\<exists>x \<in> set (sn_orders (ss_snapshot s)). ord_id x = ord_id input"
  shows "outcome (cancelOrder R input) (\<lambda>_. moves R s0) (\<lambda>_. moves R s0) s"
  using assms(1) found_or_stored[OF assms(2)] unfolding cancelOrder_def found_order_def
  by - (rule vcg refl | assumption | rule recoverable_moves | (rule poll_moves, assumption, rule stored_self, simp; fail) |
     (rule backedI, assumption, simp; fail) | (rule ord_commits; auto; fail) | (auto; fail))+

end
