(* ===== verification/Market_Refine_Cash.thy ===== *)
theory Market_Refine_Cash
  imports Market_Refine_Vendor
begin

section \<open>The cash methods as moves\<close>

subsection \<open>Adding cash\<close>

lemma vcg_commitAdd:
  assumes "moves R s0 s" "\<exists>x \<in> set (sn_addCash (ss_snapshot s)). add_step x y"
    and "\<And>t. moves R s0 t \<Longrightarrow> y \<in> set (sn_addCash (ss_snapshot t)) \<Longrightarrow> Q y t"
    and "\<And>m. E (Storage_failure m) s"
  shows "outcome (commitAdd R y None) Q E s"
proof -
  obtain x where x: "x \<in> set (sn_addCash (ss_snapshot s))" "add_step x y" using assms(2) by blast
  show ?thesis
    unfolding commitAdd_def given_or_def
    by (simp add: outcomes)
       (rule vcg_commit[OF assms(1) Add_update[OF x]]; simp add: outcomes assms(3,4) replaceAdd_def)
qed

lemma vcg_commitAdd_new:
  assumes "moves R s0 s" "op_id x \<notin> set (operation_ids (ss_snapshot s))" "add_state x = Add_awaiting"
    "add_outputData x = None" and "\<And>t. moves R s0 t \<Longrightarrow> Q x t" and "\<And>m. E (Storage_failure m) s"
  shows "outcome (commitAdd R x None) Q E s"
  unfolding commitAdd_def given_or_def
  by (simp add: outcomes)
     (rule vcg_commit[OF assms(1) Add_new[OF assms(2-4)]]; simp add: outcomes assms(5,6) replaceAdd_def)

lemma vcg_commitAdd_settle:
  assumes "moves R s0 s" and r: "returned (ss_calls s) (Complete_mint q prepared) fresh"
    and x: "x \<in> set (sn_addCash (ss_snapshot s))" "mtq_quote q = add_quoteId x"
    "add_outputData x = Some (pn_outputs prepared)" "add_keysetId x = Some (pn_keysetId prepared)"
    and "ps = sn_proofs (ss_snapshot s)"
    and "\<And>t. moves R s0 t \<Longrightarrow> Q (x\<lparr>add_state := Add_settled, add_outputData := None, add_keysetId := None,
         add_legacySignature := None, add_payloadSignature := None, op_updatedAt := now, op_error := None\<rparr>) t"
    and "\<And>m. E (Storage_failure m) s"
  shows "outcome (commitAdd R (x\<lparr>add_state := Add_settled, add_outputData := None, add_keysetId := None,
         add_legacySignature := None, add_payloadSignature := None, op_updatedAt := now, op_error := None\<rparr>)
    (Some (ps @ fresh))) Q E s" (is "outcome (commitAdd R ?y _) Q E s")
proof -
  have c: "snapshot_change R (ss_calls s) (ss_snapshot s)
      ((ss_snapshot s)\<lparr>sn_proofs := sn_proofs (ss_snapshot s) @ fresh,
        sn_addCash := replaceAdd (sn_addCash (ss_snapshot s)) ?y\<rparr>)"
    by (rule Add_settle[OF x r]) simp_all
  show ?thesis
    unfolding commitAdd_def given_or_def assms(7)
    by (simp add: outcomes) (rule vcg_commit[OF assms(1) c]; simp add: outcomes assms(8,9) replaceAdd_def)
qed

lemma add_commits:
  assumes "x \<in> set xs"
  shows "st \<noteq> Add_settled \<Longrightarrow> \<exists>z \<in> set xs. add_step z (x\<lparr>add_state := st, op_updatedAt := u, op_error := e\<rparr>)"
    "st \<noteq> Add_settled \<Longrightarrow> add_outputData x = None \<or> \<not> truthy_text (add_keysetId x) \<Longrightarrow>
     \<exists>z \<in> set xs. add_step z (x\<lparr>add_state := st, add_outputData := Some os, add_keysetId := k,
       add_legacySignature := l, add_payloadSignature := p, add_quotePrivateKey := None, op_updatedAt := u\<rparr>)"
  by (rule bexI[OF _ assms], simp add: add_step_def)+

lemma request_add_moves:
  assumes "moves R s0 s" "fresh_for R (ss_snapshot s)"
  shows "outcome (requestAddCash R amount) (\<lambda>_. moves R s0) (\<lambda>_. moves R s0) s"
    "outcome (requestTestCash R amount) (\<lambda>_. moves R s0) (\<lambda>_. moves R s0) s"
  using assms unfolding requestAddCash_def requestTestCash_def
  by - (rule vcg refl | assumption | (rule vcg_commitAdd_new, assumption) | (auto simp: new_add_def; fail))+

lemma add_recoverable_moves:
  assumes "moves R s0 s" "x \<in> set (sn_addCash (ss_snapshot s))"
  shows "outcome (addRecoverable R x reason) (\<lambda>_. moves R s0) (\<lambda>_. moves R s0) s"
  using assms unfolding addRecoverable_def
  by - (rule vcg vcg_commitAdd refl | assumption | (rule add_commits; auto; fail) | (auto; fail))+

lemma payer_failure_moves:
  assumes "moves R s0 s" "\<exists>x \<in> set (sn_addCash (ss_snapshot s)). op_id x = op_id input"
  shows "outcome (recordTestCashPayerFailure R input message) (\<lambda>_. moves R s0) (\<lambda>_. moves R s0) s"
  using assms(1) found_or_stored[OF assms(2)] unfolding recordTestCashPayerFailure_def found_add_def
  by - (rule vcg vcg_commitAdd refl | assumption | (rule add_commits; auto; fail) | (auto; fail))+

lemma observe_moves:
  assumes "moves R s0 s" "x \<in> set (sn_addCash (ss_snapshot s))"
    and "\<And>r t. moves R s0 t \<Longrightarrow> (\<And>y q. r = Inr (y, q) \<Longrightarrow> y \<in> set (sn_addCash (ss_snapshot t))) \<Longrightarrow> Q r t"
    and "\<And>e t. moves R s0 t \<Longrightarrow> x \<in> set (sn_addCash (ss_snapshot t)) \<Longrightarrow> E e t"
  shows "outcome (observeAdd R x) Q E s"
  using assms(1,2) unfolding observeAdd_def
  by - (rule vcg vcg_commitAdd refl | assumption | (rule add_commits; auto; fail) | (rule assms(3); auto; fail) |
     (auto simp: assms(4); fail))+

lemma prepare_add_moves:
  assumes "moves R s0 s" "x \<in> set (sn_addCash (ss_snapshot s))"
    and "\<And>y t. moves R s0 t \<Longrightarrow> y \<in> set (sn_addCash (ss_snapshot t)) \<Longrightarrow> Q y t"
    and "\<And>e t. moves R s0 t \<Longrightarrow> x \<in> set (sn_addCash (ss_snapshot t)) \<Longrightarrow> E e t"
  shows "outcome (prepareAdd R x checked) Q E s"
  using assms(1,2) unfolding prepareAdd_def
  by - (rule vcg vcg_commitAdd refl | assumption | (rule add_commits; auto; fail) | (auto simp: assms(3,4); fail))+

lemma issue_moves:
  assumes "moves R s0 s" "x \<in> set (sn_addCash (ss_snapshot s))"
    and "\<And>y t. moves R s0 t \<Longrightarrow> Q y t"
    and "\<And>e t. moves R s0 t \<Longrightarrow> x \<in> set (sn_addCash (ss_snapshot t)) \<Longrightarrow> E e t"
  shows "outcome (issueAdd R x checked) Q E s"
  using assms(1,2) unfolding issueAdd_def id_def
  by - (rule refl | assumption | (rule vcg_commitAdd_settle[where x = x], assumption, simp, simp) | rule vcg |
     (rule backedI, assumption, simp add: asMintQuote_def; fail) | (auto simp: assms(3,4) asMintQuote_def; fail))+

lemma refresh_add_moves:
  assumes "moves R s0 s" "\<exists>x \<in> set (sn_addCash (ss_snapshot s)). op_id x = op_id input"
  shows "outcome (refreshAddCash R input) (\<lambda>_. moves R s0) (\<lambda>_. moves R s0) s"
  using assms(1) found_or_stored[OF assms(2)] unfolding refreshAddCash_def found_add_def
  by - (rule vcg refl | assumption | rule add_recoverable_moves observe_moves prepare_add_moves issue_moves | (auto; fail))+

subsection \<open>Cashing out\<close>

lemma vcg_commitCashOut:
  assumes "moves R s0 s" "\<exists>x \<in> set (sn_cashOut (ss_snapshot s)). out_step x y"
    and "\<And>t. moves R s0 t \<Longrightarrow> y \<in> set (sn_cashOut (ss_snapshot t)) \<Longrightarrow> Q y t"
    and "\<And>m. E (Storage_failure m) s"
  shows "outcome (commitCashOut R y None) Q E s"
proof -
  obtain x where x: "x \<in> set (sn_cashOut (ss_snapshot s))" "out_step x y" using assms(2) by blast
  show ?thesis
    unfolding commitCashOut_def given_or_def
    by (simp add: outcomes)
       (rule vcg_commit[OF assms(1) Out_update[OF x]]; simp add: outcomes assms(3,4) replaceCashOut_def)
qed

lemma vcg_commitCashOut_new:
  assumes "moves R s0 s" "op_id x \<notin> set (operation_ids (ss_snapshot s))" "co_state x = Out_dispatching"
    "co_reserved x = Some (pm_reserved (prepared :: prepared_melt))" "co_outputData x = Some (pm_outputs prepared)"
    "co_recoverySwap x = None"
    and "\<And>t. moves R s0 t \<Longrightarrow> x \<in> set (sn_cashOut (ss_snapshot t)) \<Longrightarrow> Q x t" and "\<And>m. E (Storage_failure m) s"
  shows "outcome (commitCashOut R x (Some (pm_keep prepared))) Q E s"
  unfolding commitCashOut_def given_or_def
  by (simp add: outcomes)
     (rule vcg_commit[OF assms(1) Out_new[OF assms(2-6)]]; simp add: outcomes assms(7,8) replaceCashOut_def)

text \<open>Where the proofs that a finished cash-out brings back come from.\<close>

definition out_change :: "'w runtime \<Rightarrow> call_log \<Rightarrow> cash_out_operation \<Rightarrow> cash_out_state \<Rightarrow> cashu_proof list \<Rightarrow> bool" where
  "out_change R calls x st change \<longleftrightarrow>
     (st = Out_paid \<and>
        (\<exists>q prepared. returned calls (Execute_melt q prepared) change \<and> mlq_quote q = smq_quote (co_quote x) \<and>
           co_reserved x = Some (pm_reserved prepared))) \<or>
     (st = Out_paid \<and> proof_list (co_outputData x) = [] \<and> change = []) \<or>
     (st = Out_paid \<and>
        (\<exists>q. mw_recoverMeltChange (rt_wallet R) (proof_list (co_outputData x)) q = Inr change)) \<or>
     (st = Out_failed \<and>
        (\<exists>sw. co_recoverySwap x = Some sw \<and> returned calls (Complete_receive sw) change))"

lemma vcg_commitCashOut_settle:
  assumes "moves R s0 s" "x \<in> set (sn_cashOut (ss_snapshot s))" "out_change R (ss_calls s) x (co_state y) change"
    "op_id y = op_id x" "op_amount y = op_amount x" "co_invoice y = co_invoice x" "op_createdAt y = op_createdAt x"
    "smq_quote (co_quote y) = smq_quote (co_quote x)" "co_state y \<in> {Out_paid, Out_failed}" "co_reserved y = None"
    "co_recoverySwap y = None" "ps = sn_proofs (ss_snapshot s)"
    and "\<And>t. moves R s0 t \<Longrightarrow> Q y t" and "\<And>m. E (Storage_failure m) s"
  shows "outcome (commitCashOut R y (Some (ps @ change))) Q E s"
proof -
  have c: "snapshot_change R (ss_calls s) (ss_snapshot s)
      ((ss_snapshot s)\<lparr>sn_proofs := sn_proofs (ss_snapshot s) @ change,
        sn_cashOut := replaceCashOut (sn_cashOut (ss_snapshot s)) y\<rparr>)"
    by (rule Out_settle[OF assms(2,4-11) assms(3)[unfolded out_change_def]])
  show ?thesis
    unfolding commitCashOut_def given_or_def assms(12)
    by (simp add: outcomes) (rule vcg_commit[OF assms(1) c]; simp add: outcomes assms(13,14) replaceCashOut_def)
qed

lemma out_commits:
  assumes "x \<in> set xs" and st: "st \<notin> {Out_paid, Out_failed}"
  shows "\<exists>z \<in> set xs. out_step z (x\<lparr>co_state := st, op_updatedAt := u, op_error := e\<rparr>)"
    "\<exists>z \<in> set xs. out_step z ((set_quote_state q x)\<lparr>co_state := st, op_updatedAt := u, op_error := e\<rparr>)"
    "\<exists>z \<in> set xs. out_step z ((set_quote_state q x)\<lparr>co_state := st, co_outputData := os, op_updatedAt := u, op_error := e\<rparr>)"
    "co_recoverySwap x = None \<Longrightarrow>
     \<exists>z \<in> set xs. out_step z (x\<lparr>co_state := st, co_recoverySwap := Some sw, op_updatedAt := u, op_error := e\<rparr>)"
  by (rule bexI[OF _ assms(1)], insert st, simp add: out_step_def set_quote_state_def)+

lemma quote_moves:
  assumes "moves R s0 s"
  shows "outcome (quoteCashOut R invoice) (\<lambda>_ t. moves R s0 t \<and> ss_snapshot t = ss_snapshot s)
      (\<lambda>_ t. moves R s0 t \<and> ss_snapshot t = ss_snapshot s) s"
    "outcome (reviewCashOut R q) (\<lambda>_ t. moves R s0 t \<and> ss_snapshot t = ss_snapshot s)
      (\<lambda>_ t. moves R s0 t \<and> ss_snapshot t = ss_snapshot s) s"
  using assms unfolding quoteCashOut_def reviewCashOut_def
  by - (rule vcg refl | assumption | (auto; fail))+

lemma unknown_moves:
  assumes "moves R s0 s" "x \<in> set (sn_cashOut (ss_snapshot s))"
  shows "outcome (cashOutUnknown R x reason) (\<lambda>_. moves R s0) (\<lambda>_. moves R s0) s"
  using assms unfolding cashOutUnknown_def
  by - (rule vcg vcg_commitCashOut refl | assumption | (rule out_commits; simp; fail) | (auto; fail))+

lemma vcg_commitCashOut_executed:
  assumes "moves R s0 s" and r: "returned (ss_calls s) (Execute_melt quote prepared) (mx_change result)"
    and x: "x \<in> set (sn_cashOut (ss_snapshot s))" "co_quote x = storeMeltQuote quote quoted"
    "co_reserved x = Some (pm_reserved prepared)" "co_recoverySwap x = None" "ps = sn_proofs (ss_snapshot s)"
    and "\<And>y t. moves R s0 t \<Longrightarrow> Q y t" and "\<And>m. E (Storage_failure m) s"
  shows "outcome (commitCashOut R ((set_quote_state PAID x)\<lparr>co_state := Out_paid, co_reserved := None,
      co_outputData := None, co_keysetId := None, op_updatedAt := now, op_error := None\<rparr>)
    (Some (ps @ mx_change result))) Q E s"
proof -
  have "out_change R (ss_calls s) x Out_paid (mx_change result)"
    using r x(2,3) by (auto simp: out_change_def storeMeltQuote_def)
  then show ?thesis
    by (rule_tac vcg_commitCashOut_settle[where x = x, OF assms(1) x(1)]) (auto simp: set_quote_state_def x assms)
qed

lemma confirm_cash_out_moves:
  assumes "moves R s0 s" "fresh_for R (ss_snapshot s)"
  shows "outcome (confirmCashOut R review) (\<lambda>_. moves R s0) (\<lambda>_. moves R s0) s"
  using assms unfolding confirmCashOut_def
  by - (rule refl unknown_moves | assumption | (rule vcg_commitCashOut_new, assumption, (auto; fail)+) |
    (rule vcg_commitCashOut_executed, assumption, simp, simp, simp) |
    rule vcg vcg_commitCashOut | (rule backedI, assumption, simp add: storeMeltQuote_def; fail) |
    (rule out_commits; simp; fail) | (auto; fail))+

lemma paid_moves:
  assumes "moves R s0 s" "x \<in> set (sn_cashOut (ss_snapshot s))"
    and "\<And>y t. moves R s0 t \<Longrightarrow> Q y t"
    and "\<And>e t. moves R s0 t \<Longrightarrow> x \<in> set (sn_cashOut (ss_snapshot t)) \<Longrightarrow> E e t"
  shows "outcome (cashOutPaid R x checked) Q E s"
  using assms(1,2) unfolding cashOutPaid_def
  by - (rule refl | assumption | (rule vcg_commitCashOut_settle[where x = x], assumption, simp,
     (auto simp: out_change_def set_quote_state_def; fail)+) | rule vcg | (auto simp: assms(3,4); fail))+

lemma prepare_recovery_moves:
  assumes "moves R s0 s" "x \<in> set (sn_cashOut (ss_snapshot s))"
    and "\<And>r t. moves R s0 t \<Longrightarrow> (\<And>y. r = Inr y \<Longrightarrow> y \<in> set (sn_cashOut (ss_snapshot t))) \<Longrightarrow> Q r t"
    and "\<And>e t. moves R s0 t \<Longrightarrow> x \<in> set (sn_cashOut (ss_snapshot t)) \<Longrightarrow> E e t"
  shows "outcome (prepareRecovery R x) Q E s"
  using assms(1,2) unfolding prepareRecovery_def
  by - (rule vcg vcg_commitCashOut paid_moves refl | assumption | (rule out_commits; simp; fail) |
    (rule assms(3); auto; fail) | (auto simp: assms(4); fail))+

lemma complete_recovery_moves:
  assumes "moves R s0 s" "x \<in> set (sn_cashOut (ss_snapshot s))"
    and "\<And>y t. moves R s0 t \<Longrightarrow> Q y t"
    and "\<And>e t. moves R s0 t \<Longrightarrow> x \<in> set (sn_cashOut (ss_snapshot t)) \<Longrightarrow> E e t"
  shows "outcome (completeRecovery R x) Q E s"
  using assms(1,2) unfolding completeRecovery_def id_def
  by - (rule refl | assumption | (rule vcg_commitCashOut_settle[where x = x], assumption, simp,
     (auto simp: out_change_def set_quote_state_def; fail)+) | rule vcg | (rule backedI, assumption, simp; fail) |
     (auto simp: assms(3,4); fail))+

lemma refresh_cash_out_moves:
  assumes "moves R s0 s" "\<exists>x \<in> set (sn_cashOut (ss_snapshot s)). op_id x = op_id input"
  shows "outcome (refreshCashOut R input) (\<lambda>_. moves R s0) (\<lambda>_. moves R s0) s"
  using assms(1) found_or_stored[OF assms(2)] unfolding refreshCashOut_def found_cash_out_def
  by - (rule vcg refl | assumption | rule unknown_moves prepare_recovery_moves complete_recovery_moves | (auto; fail))+

end
