(* ===== verification/Market_System.thy ===== *)
theory Market_System
  imports Market_App Market_Copy Market_Refine_Cash
begin

section \<open>The market over many sessions\<close>

text \<open>
  What happens to the stored snapshot over any number of calls, tabs, reloads and crashes. A step is
  a move of the runtime, a load of the stored snapshot (a call that takes the lock, a tab that
  opens, a restart after a crash between any two moves), or a write to another key of the browser's
  storage. \<open>market_runs\<close> are the sequences of steps.
\<close>

inductive market_step :: "'w runtime \<Rightarrow> market_role \<Rightarrow> 'w session \<Rightarrow> 'w session \<Rightarrow> bool"
  for R :: "'w runtime" and role :: market_role where
  Step_move: "market_move R s t \<Longrightarrow> market_step R role s t"
| Step_load: "loadMarketSnapshot (rt_platform R) (rt_manifest R) role (ss_store s) = Inr n \<Longrightarrow>
   market_step R role s (s\<lparr>ss_snapshot := n, ss_toast := toast\<rparr>)"
| Step_other: "marketStorageKey (rt_platform R) (rt_manifest R) role \<noteq> Inr key \<Longrightarrow>
   market_step R role s (s\<lparr>ss_world := w, ss_store := (ss_store s)(key \<mapsto> v)\<rparr>)"

abbreviation market_runs :: "'w runtime \<Rightarrow> market_role \<Rightarrow> 'w session \<Rightarrow> 'w session \<Rightarrow> bool" where
  "market_runs R role \<equiv> (market_step R role)\<^sup>*\<^sup>*"

text \<open>A browser that has not stored anything yet.\<close>

definition fresh_session :: "'w runtime \<Rightarrow> market_role \<Rightarrow> 'w session \<Rightarrow> bool" where
  "fresh_session R role s \<longleftrightarrow>
     ss_store s = Map.empty \<and> ss_snapshot s = emptyMarketSnapshot (rt_manifest R) role \<and> ss_calls s = [] \<and> ss_commits s = []"

definition market_ready :: "'w runtime \<Rightarrow> bool" where
  "market_ready R \<longleftrightarrow> package_laws (package (rt_platform R)) \<and> json_laws (rt_platform R) \<and>
     (\<exists>mint. normalizeMintUrl (new_url (rt_platform R)) (em_mintUrl (rt_manifest R)) = Inr mint)"

subsection \<open>Memory and storage\<close>

text \<open>What is stored is the checked form of what is in memory.\<close>

definition synced :: "'w runtime \<Rightarrow> market_role \<Rightarrow> 'w session \<Rightarrow> market_snapshot \<Rightarrow> bool" where
  "synced R role s n \<longleftrightarrow>
     sn_role (ss_snapshot s) = role \<and>
     normalizeSnapshot (rt_platform R) (rt_manifest R) role (snapshot_json (ss_snapshot s)) = Inr n \<and>
     loadMarketSnapshot (rt_platform R) (rt_manifest R) role (ss_store s) = Inr n"

lemma synced_ok: "market_ready R \<Longrightarrow> synced R role s n \<Longrightarrow> snapshot_ok (rt_platform R) (rt_manifest R) role n"
  unfolding synced_def market_ready_def by (auto intro: normalizeSnapshot_ok)

lemma synced_same: "synced R role s n \<Longrightarrow> same_snapshot (rt_platform R) (ss_snapshot s) n"
  unfolding synced_def by (auto intro: normalizeSnapshot_copy)

lemma change_role: "snapshot_change R calls n n' \<Longrightarrow> sn_role n' = sn_role n"
  by (cases rule: snapshot_change.cases) auto

lemma load_other_key:
  "marketStorageKey P m role \<noteq> Inr key \<Longrightarrow> loadMarketSnapshot P m role (store(key \<mapsto> v)) = loadMarketSnapshot P m role store"
  by (cases "marketStorageKey P m role") (auto simp: loadMarketSnapshot_def)

lemma load_ok:
  assumes "market_ready R" "loadMarketSnapshot (rt_platform R) (rt_manifest R) role store = Inr n"
  shows "snapshot_ok (rt_platform R) (rt_manifest R) role n \<or> n = emptyMarketSnapshot (rt_manifest R) role"
  using assms normalizeSnapshot_ok[of "rt_platform R" "rt_manifest R" role]
  by (auto simp: loadMarketSnapshot_def market_ready_def result_simps split: if_splits option.splits)

lemma empty_ok:
  assumes "market_ready R"
  shows "snapshot_ok (rt_platform R) (rt_manifest R) role (emptyMarketSnapshot (rt_manifest R) role)"
  using assms by (auto simp: market_ready_def package_laws_def emptyMarketSnapshot_def snapshot_ok_def proofs_ok_def
      sameMint_def reserved_proofs_def)

lemma snapshot_ok_role: "snapshot_ok P m role n \<Longrightarrow> sn_role n = role"
  by (simp add: snapshot_ok_def)

lemma synced_start:
  assumes "market_ready R" "fresh_session R role s"
  shows "synced R role s (emptyMarketSnapshot (rt_manifest R) role)"
proof -
  have "loadMarketSnapshot (rt_platform R) (rt_manifest R) role (ss_store s) =
      Inr (emptyMarketSnapshot (rt_manifest R) role)"
    using assms by (auto simp: fresh_session_def market_ready_def loadMarketSnapshot_def marketStorageKey_def truthy_text_def)
  then show ?thesis
    using assms normalizeSnapshot_back[OF empty_ok[OF assms(1), of role]]
    by (simp add: synced_def fresh_session_def emptyMarketSnapshot_def)
qed

lemma synced_step:
  assumes "market_ready R" "synced R role s n" "market_step R role s t"
  shows "\<exists>n'. synced R role t n'"
  using assms(3)
proof cases
  case Step_move
  then show ?thesis
  proof cases
    case (Move_commit "next" store')
    then have role: "sn_role next = role"
      using assms(2) change_role by (auto simp: synced_def)
    obtain n' where "normalizeSnapshot (rt_platform R) (rt_manifest R) role (snapshot_json next) = Inr n'"
        "loadMarketSnapshot (rt_platform R) (rt_manifest R) role store' = Inr n'"
      using load_saved[of "rt_platform R" "rt_manifest R" _ "next" "ss_store s" store'] Move_commit(2) assms(1) role
      unfolding stores_def market_ready_def by blast
    with role Move_commit(1) show ?thesis by (auto simp: synced_def)
  qed (use assms(2) in \<open>auto simp: synced_def\<close>)
next
  case (Step_load n' toast)
  then have "snapshot_ok (rt_platform R) (rt_manifest R) role n'"
    using load_ok[OF assms(1)] empty_ok[OF assms(1)] by blast
  with Step_load show ?thesis
    using normalizeSnapshot_back snapshot_ok_role by (auto simp: synced_def)
next
  case (Step_other key v w)
  with assms(2) show ?thesis by (auto simp: synced_def load_other_key)
qed

lemma synced_runs:
  assumes "market_runs R role s t" "market_ready R" "\<exists>n. synced R role s n"
  shows "\<exists>n. synced R role t n"
  using assms by (induction rule: rtranclp_induct) (blast intro: synced_step)+

subsection \<open>The stored record of a call\<close>

text \<open>A stored snapshot from which the call can be repeated or its result be claimed.\<close>

fun kept :: "platform \<Rightarrow> market_snapshot \<Rightarrow> moving_call \<Rightarrow> bool" where
  "kept P n (Complete_send swap) \<longleftrightarrow>
     (\<exists>p \<in> set (sn_payments n). \<exists>stored. pay_swap p = Some stored \<and> same_swap P swap stored)"
| "kept P n (Complete_receive swap) \<longleftrightarrow>
     (\<exists>x \<in> set (sn_orders n). \<exists>stored. ord_incomingSwap x = Some stored \<and> same_swap P swap stored) \<or>
     (\<exists>x \<in> set (sn_cashOut n). \<exists>stored. co_recoverySwap x = Some stored \<and> same_swap P swap stored)"
| "kept P n (Complete_mint q prepared) \<longleftrightarrow>
     (\<exists>x \<in> set (sn_addCash n). add_quoteId x = mtq_quote q \<and> add_outputData x = Some (pn_outputs prepared) \<and>
        add_keysetId x = Some (pn_keysetId prepared))"
| "kept P n (Execute_melt q prepared) \<longleftrightarrow>
     (\<exists>x \<in> set (sn_cashOut n). co_state x = Out_dispatching \<and> smq_quote (co_quote x) = mlq_quote q \<and>
        co_outputData x = Some (pm_outputs prepared) \<and>
        (\<exists>stored. co_reserved x = Some stored \<and> same_proofs P (pm_reserved prepared) stored))"
| "kept P n (Deliver url payload) \<longleftrightarrow>
     (\<exists>p \<in> set (sn_payments n). pay_state p = Pay_delivering \<and> pay_deliveryUrl p = Some url \<and>
        pay_payloadJson p = Some payload \<and> pay_token p \<noteq> None)"
| "kept P n (Register request amount) \<longleftrightarrow>
     (\<exists>x \<in> set (sn_orders n). ord_id x = cr_orderId request \<and> ord_amount x = amount \<and>
        ord_readCapability x = Some (cr_readCapability request) \<and>
        ord_writeCapability x = Some (cr_writeCapability request) \<and>
        ord_privateKey x = Some (cr_privateKey request))"
| "kept P n (Cancel cap) \<longleftrightarrow>
     (\<exists>x \<in> set (sn_orders n). ord_state x = Ord_cancelling \<and> ord_readCapability x = Some cap)"

lemma list_all2_ex: "list_all2 r xs ys \<Longrightarrow> x \<in> set xs \<Longrightarrow> \<exists>y \<in> set ys. r x y"
  by (metis in_set_conv_nth list_all2_conv_all_nth)

lemma list_all2_ex': "list_all2 r xs ys \<Longrightarrow> y \<in> set ys \<Longrightarrow> \<exists>x \<in> set xs. r x y"
  by (metis in_set_conv_nth list_all2_conv_all_nth)

lemma same_payment_fields:
  assumes "same_payment P p q"
  shows "pay_id q = pay_id p" "pay_orderId q = pay_orderId p" "pay_state q = pay_state p" "pay_token q = pay_token p"
    "pay_amount q = pay_amount p" "pay_payloadJson q = pay_payloadJson p" "pay_deliveryUrl q = pay_deliveryUrl p"
    "rel_option (same_swap P) (pay_swap p) (pay_swap q)"
  using assms by (cases p; cases q; auto simp: same_payment_def)+

lemma same_order_fields:
  assumes "same_order P x y"
  shows "ord_id y = ord_id x" "ord_state y = ord_state x" "ord_amount y = ord_amount x"
    "ord_readCapability y = ord_readCapability x" "ord_writeCapability y = ord_writeCapability x"
    "ord_privateKey y = ord_privateKey x" "ord_incomingToken y = ord_incomingToken x"
    "rel_option (same_swap P) (ord_incomingSwap x) (ord_incomingSwap y)"
  using assms by (cases x; cases y; auto simp: same_order_def)+

lemma same_cash_out_fields:
  assumes "same_cash_out P x y"
  shows "op_id y = op_id x" "co_state y = co_state x" "co_quote y = co_quote x" "co_outputData y = co_outputData x"
    "rel_option (same_proofs P) (co_reserved x) (co_reserved y)"
    "rel_option (same_swap P) (co_recoverySwap x) (co_recoverySwap y)"
  using assms by (cases x; cases y; auto simp: same_cash_out_def)+

lemma backed_kept:
  assumes "same_snapshot P a n" "backed a c"
  shows "kept P n c"
proof -
  note same = assms(1)[unfolded same_snapshot_def]
  note pays = list_all2_ex[of "same_payment P" "sn_payments a" "sn_payments n"]
    and ords = list_all2_ex[of "same_order P" "sn_orders a" "sn_orders n"]
    and outs = list_all2_ex[of "same_cash_out P" "sn_cashOut a" "sn_cashOut n"]
  show ?thesis
  proof (cases c)
    case (Complete_send swap)
    with assms(2) obtain p where "p \<in> set (sn_payments a)" "pay_swap p = Some swap" by auto
    then show ?thesis
      using same pays[of p] same_payment_fields(8)[of P p] unfolding Complete_send kept.simps
      by (metis option_rel_Some1)
  next
    case (Complete_receive swap)
    with assms(2) consider x where "x \<in> set (sn_orders a)" "ord_incomingSwap x = Some swap"
      | x where "x \<in> set (sn_cashOut a)" "co_recoverySwap x = Some swap" by auto
    then show ?thesis
      using same ords outs same_order_fields(8)[of P] same_cash_out_fields(6)[of P]
      unfolding Complete_receive kept.simps by cases (metis option_rel_Some1)+
  next
    case (Execute_melt q prepared)
    with assms(2) obtain x where "x \<in> set (sn_cashOut a)" "co_state x = Out_dispatching"
        "smq_quote (co_quote x) = mlq_quote q" "co_reserved x = Some (pm_reserved prepared)"
        "co_outputData x = Some (pm_outputs prepared)" by auto
    then show ?thesis
      using same outs[of x] same_cash_out_fields[of P x] unfolding Execute_melt kept.simps
      by (metis option_rel_Some1)
  next
    case (Deliver url payload)
    with assms(2) show ?thesis
      using same pays same_payment_fields[of P] by simp metis
  next
    case (Register request amount)
    with assms(2) show ?thesis
      using same ords same_order_fields[of P] by simp metis
  next
    case (Cancel cap)
    with assms(2) show ?thesis
      using same ords same_order_fields[of P] by simp metis
  next
    case (Complete_mint q prepared)
    with assms(2) show ?thesis using same by simp
  qed
qed

definition calls_kept :: "'w runtime \<Rightarrow> market_role \<Rightarrow> 'w session \<Rightarrow> bool" where
  "calls_kept R role s \<longleftrightarrow>
     (\<forall>(c, ps, store) \<in> set (ss_calls s).
        \<exists>n. loadMarketSnapshot (rt_platform R) (rt_manifest R) role store = Inr n \<and> kept (rt_platform R) n c)"

lemma calls_kept_step:
  assumes "synced R role s n" "calls_kept R role s" "market_step R role s t"
  shows "calls_kept R role t"
  using assms(3)
proof cases
  case Step_move
  then show ?thesis
  proof cases
    case (Move_call c w ps)
    moreover have "loadMarketSnapshot (rt_platform R) (rt_manifest R) role (ss_store s) = Inr n"
      using assms(1) by (simp add: synced_def)
    moreover have "kept (rt_platform R) n c" by (rule backed_kept[OF synced_same[OF assms(1)] Move_call(2)])
    ultimately show ?thesis using assms(2) by (auto simp: calls_kept_def)
  qed (use assms(2) in \<open>auto simp: calls_kept_def\<close>)
qed (use assms(2) in \<open>auto simp: calls_kept_def\<close>)

lemma calls_kept_runs:
  assumes "market_runs R role s t" "market_ready R" "fresh_session R role s"
  shows "calls_kept R role t"
  using assms(1)
proof (induction rule: rtranclp_induct)
  case base
  with assms(3) show ?case by (simp add: calls_kept_def fresh_session_def)
next
  case (step t u)
  obtain n where "synced R role t n"
    using synced_runs[OF step(1) assms(2)] synced_start[OF assms(2,3)] by blast
  then show ?case by (rule calls_kept_step[OF _ step(3,2)])
qed

end
