(* ===== verification/Market_App_Refine.thy ===== *)
theory Market_App_Refine
  imports Market_System
begin

section \<open>Every event of the application is a run of the market\<close>

text \<open>
  The calls of the screens and of the background timer are loads of the stored snapshot followed by
  moves of the runtime. A screen passes a record that it shows, so its identifier is in the snapshot.
\<close>

fun task_known :: "market_snapshot \<Rightarrow> market_task \<Rightarrow> bool" where
  "task_known n (Retry_delivery p) \<longleftrightarrow> (\<exists>q \<in> set (sn_payments n). pay_id q = pay_id p)"
| "task_known n (Check_payment p) \<longleftrightarrow> (\<exists>q \<in> set (sn_payments n). pay_id q = pay_id p)"
| "task_known n (Poll_order x) \<longleftrightarrow> (\<exists>y \<in> set (sn_orders n). ord_id y = ord_id x)"
| "task_known n (Cancel_order x) \<longleftrightarrow> (\<exists>y \<in> set (sn_orders n). ord_id y = ord_id x)"
| "task_known n (Refresh_add_cash x) \<longleftrightarrow> (\<exists>y \<in> set (sn_addCash n). op_id y = op_id x)"
| "task_known n (Refresh_cash_out x) \<longleftrightarrow> (\<exists>y \<in> set (sn_cashOut n). op_id y = op_id x)"
| "task_known n _ \<longleftrightarrow> True"

inductive app_reaches :: "'w runtime \<Rightarrow> 'w browser \<Rightarrow> 'w app \<Rightarrow> 'w app \<Rightarrow> bool"
  for R :: "'w runtime" and B :: "'w browser" and start :: "'w app" where
  Reach_start: "app_reaches R B start start"
| Reach_event: "app_reaches R B start app \<Longrightarrow> fresh_for R (ss_snapshot (ap_session app)) \<Longrightarrow>
   (\<And>task. ev = Ev_task task \<Longrightarrow> task_known (ss_snapshot (ap_session app)) task) \<Longrightarrow>
   app_reaches R B start (app_step R B ev app)"

subsection \<open>Calls\<close>

lemma moves_runs: "moves R s t \<Longrightarrow> market_runs R role s t"
  by (induction rule: rtranclp_induct) (auto intro: rtranclp.rtrancl_into_rtrancl Step_move)

lemma moves_outcome:
  "outcome m (\<lambda>_. moves R s) (\<lambda>_. moves R s) s \<Longrightarrow> outcome m (\<lambda>_. market_runs R role s) (\<lambda>_. market_runs R role s) s"
  by (erule outcome_mono) (rule moves_runs, assumption)+

lemma outcome_ignored:
  "outcome (ignored m) (\<lambda>_. P) (\<lambda>_. P) s \<longleftrightarrow> outcome m (\<lambda>_. P) (\<lambda>_. P) s"
  by (auto simp: outcome_def ignored_def bindM_def returnM_def split: prod.splits sum.splits)

definition loaded :: "'w runtime \<Rightarrow> market_role \<Rightarrow> 'w session \<Rightarrow> market_snapshot \<Rightarrow> bool" where
  "loaded R role t n \<longleftrightarrow> synced R role t n \<and> ss_snapshot t = n"

lemma synced_load:
  assumes "market_ready R" "synced R role s n"
  shows "loaded R role (s\<lparr>ss_snapshot := n\<rparr>) n" "market_runs R role s (s\<lparr>ss_snapshot := n\<rparr>)"
proof -
  have load: "loadMarketSnapshot (rt_platform R) (rt_manifest R) role (ss_store s) = Inr n"
    using assms(2) by (simp add: synced_def)
  show "loaded R role (s\<lparr>ss_snapshot := n\<rparr>) n"
    using normalizeSnapshot_back[OF synced_ok[OF assms]] snapshot_ok_role[OF synced_ok[OF assms]] load
    by (simp add: loaded_def synced_def)
  show "market_runs R role s (s\<lparr>ss_snapshot := n\<rparr>)"
    using Step_load[OF load, of "ss_toast s"] by (simp add: r_into_rtranclp)
qed

lemma reload_outcome:
  assumes "market_ready R" "synced R role s n"
    and "\<And>t. loaded R role t n \<Longrightarrow> market_runs R role s t \<Longrightarrow> Q () t"
  shows "outcome (reloadStoredSnapshot R role) Q E s"
  using assms(2) assms(3)[OF synced_load[OF assms(1,2)]]
  by (simp add: outcome_def reloadStoredSnapshot_def synced_def)

lemma require_outcome: "Q () s \<Longrightarrow> (\<And>e. E e s) \<Longrightarrow> outcome (requireRuntime app) Q E s"
  by (simp add: requireRuntime_def outcomes)

lemma runLocked_runs:
  assumes "market_ready R" "synced R (ap_role app) s n"
    and "\<And>t. loaded R (ap_role app) t n \<Longrightarrow>
      outcome m (\<lambda>_. market_runs R (ap_role app) t) (\<lambda>_. market_runs R (ap_role app) t) t"
  shows "outcome (runLocked R app m) (\<lambda>_. market_runs R (ap_role app) s) (\<lambda>_. market_runs R (ap_role app) s) s"
proof -
  have "outcome m (\<lambda>_. market_runs R (ap_role app) s) (\<lambda>_. market_runs R (ap_role app) s) t"
    if "loaded R (ap_role app) t n" "market_runs R (ap_role app) s t" for t
    by (rule outcome_mono[OF assms(3)[OF that(1)]]) (rule rtranclp_trans[OF that(2)], assumption)+
  then show ?thesis
    unfolding runLocked_def outcome_bind
    by (intro require_outcome reload_outcome[OF assms(1,2)]) auto
qed

lemma map_same: "list_all2 r xs ys \<Longrightarrow> (\<And>x y. r x y \<Longrightarrow> k y = k x) \<Longrightarrow> map k ys = map k xs"
  by (induction rule: list_all2_induct) auto

lemma reloaded_runs:
  assumes "market_ready R" "synced R (ap_role app) s n"
    and "\<And>t. outcome m (\<lambda>_. market_runs R (ap_role app) t) (\<lambda>_. market_runs R (ap_role app) t) t"
  shows "outcome (bindM (reloadStoredSnapshot R (ap_role app)) (\<lambda>_. bindM (requireRuntime app) (\<lambda>_. m)))
    (\<lambda>_. market_runs R (ap_role app) s) (\<lambda>_. market_runs R (ap_role app) s) s"
proof -
  have "outcome m (\<lambda>_. market_runs R (ap_role app) s) (\<lambda>_. market_runs R (ap_role app) s) t"
    if "market_runs R (ap_role app) s t" for t
    by (rule outcome_mono[OF assms(3)]) (rule rtranclp_trans[OF that], assumption)+
  then show ?thesis
    unfolding outcome_bind by (intro reload_outcome[OF assms(1,2)] require_outcome) auto
qed

text \<open>The identifiers of the records in memory are those of the stored ones.\<close>

lemma synced_ids:
  assumes "synced R role s n"
  shows "map pay_id (sn_payments n) = map pay_id (sn_payments (ss_snapshot s))"
    "map ord_id (sn_orders n) = map ord_id (sn_orders (ss_snapshot s))"
    "map op_id (sn_addCash n) = map op_id (sn_addCash (ss_snapshot s))"
    "map op_id (sn_cashOut n) = map op_id (sn_cashOut (ss_snapshot s))"
proof -
  note same = synced_same[OF assms, unfolded same_snapshot_def]
  show "map pay_id (sn_payments n) = map pay_id (sn_payments (ss_snapshot s))"
    using same by (intro map_same[of "same_payment (rt_platform R)"]) (auto dest: same_payment_fields)
  show "map ord_id (sn_orders n) = map ord_id (sn_orders (ss_snapshot s))"
    using same by (intro map_same[of "same_order (rt_platform R)"]) (auto dest: same_order_fields)
  show "map op_id (sn_cashOut n) = map op_id (sn_cashOut (ss_snapshot s))"
    using same by (intro map_same[of "same_cash_out (rt_platform R)"]) (auto dest: same_cash_out_fields)
  show "map op_id (sn_addCash n) = map op_id (sn_addCash (ss_snapshot s))" using same by simp
qed

lemma loaded_known:
  assumes "synced R role s n" "loaded R role t n" "task_known (ss_snapshot s) task"
  shows "task_known (ss_snapshot t) task"
proof -
  note ids = synced_ids[OF assms(1), THEN arg_cong[where f = set], unfolded set_map]
  show ?thesis
    using assms(2,3) ids by (cases task) (auto simp: loaded_def image_iff, (metis image_iff imageI)+)
qed

lemma loaded_fresh:
  assumes "synced R role s n" "loaded R role t n" "fresh_for R (ss_snapshot s)"
  shows "fresh_for R (ss_snapshot t)"
proof -
  have "operation_ids n = operation_ids (ss_snapshot s)" "map ord_id (sn_orders n) = map ord_id (sn_orders (ss_snapshot s))"
    using synced_ids[OF assms(1)] by (simp_all add: operation_ids_def)
  then show ?thesis
    using assms(2,3) unfolding fresh_for_def loaded_def by (metis set_map)
qed

subsection \<open>The calls that reach the faucet\<close>

lemma faucet_key_other: "marketStorageKey P m role \<noteq> Inr (faucet_client_key u)"
  by (auto simp: marketStorageKey_def faucet_client_key_def result_simps)

definition same_run :: "'w runtime \<Rightarrow> market_role \<Rightarrow> 'w session \<Rightarrow> 'w session \<Rightarrow> bool" where
  "same_run R role s t \<longleftrightarrow> market_runs R role s t \<and> ss_snapshot t = ss_snapshot s"

lemma same_run_trans: "same_run R role s t \<Longrightarrow> same_run R role t u \<Longrightarrow> same_run R role s u"
  unfolding same_run_def by (auto intro: rtranclp_trans)

lemma world_run: "same_run R role s (s\<lparr>ss_world := w\<rparr>)"
  by (auto simp: same_run_def intro: r_into_rtranclp Step_move Move_world)

lemma client_runs:
  "outcome (clientIdM R B) (\<lambda>_. same_run R role s) (\<lambda>_. same_run R role s) s"
proof -
  have "same_run R role s (s\<lparr>ss_world := w, ss_store := (ss_store s)(faucet_client_key u \<mapsto> v)\<rparr>)" for u v w
    by (auto simp: same_run_def intro!: r_into_rtranclp Step_other faucet_key_other)
  with world_run[of R role s] show ?thesis
    by (auto simp: outcome_def clientIdM_def faucetClientId_def Let_def split: prod.splits sum.splits option.splits)
qed

lemma port_runs: "outcome (portM f) (\<lambda>_. same_run R role s) (\<lambda>_. same_run R role s) s"
  by (auto simp: outcome_def portM_def world_run split: prod.splits sum.splits)

lemma outcome_chain:
  assumes "outcome m (\<lambda>_. same_run R role s) (\<lambda>_. same_run R role s) s"
    and "\<And>x t. same_run R role s t \<Longrightarrow> Q x t" "\<And>e t. same_run R role s t \<Longrightarrow> E e t"
  shows "outcome m Q E s"
  by (rule outcome_mono[OF assms(1)]) (auto intro: assms)

lemma claim_runs: "outcome (claimM R B q) (\<lambda>_. same_run R role s) (\<lambda>_. same_run R role s) s"
  unfolding claimM_def outcome_bind
  by (rule outcome_chain[OF client_runs]) (auto intro: outcome_chain[OF port_runs] same_run_trans)

lemma fund_runs:
  "outcome (fundTestCash R B app x) (\<lambda>_. market_runs R role t) (\<lambda>_. market_runs R role t) t"
proof -
  have fail: "outcome (recordTestCashPayerFailure R y msg) Q E u"
    if y: "y \<in> set (sn_addCash (ss_snapshot t))" and u: "same_run R role t u"
      and Q: "\<And>x v. market_runs R role t v \<Longrightarrow> Q x v" and E: "\<And>e v. market_runs R role t v \<Longrightarrow> E e v"
    for y msg u Q E
  proof -
    have "outcome (recordTestCashPayerFailure R y msg) (\<lambda>_. market_runs R role u) (\<lambda>_. market_runs R role u) u"
      using y u by (intro moves_outcome payer_failure_moves) (auto simp: same_run_def)
    then show ?thesis
      by (rule outcome_mono) (use u in \<open>auto simp: same_run_def intro: Q E\<close>)
  qed
  have same: "market_runs R role t t" "\<And>u. same_run R role t u \<Longrightarrow> market_runs R role t u"
    by (simp_all add: same_run_def)
  show ?thesis
    unfolding fundTestCash_def
    by (rule vcg outcome_chain[OF claim_runs[where role = role]] fail | assumption |
       (auto simp: same dest: find_SomeD; fail))+
qed

lemma refresh_claim_runs:
  assumes "ap_role app = role" "outcome (runLocked R app (refreshAddCash R x)) (\<lambda>_. market_runs R role s) (\<lambda>_. market_runs R role s) s"
  shows "outcome (call_refreshAddCash R B app x) (\<lambda>_. market_runs R role s) (\<lambda>_. market_runs R role s) s"
proof -
  have on: "same_run R role t u \<Longrightarrow> market_runs R role s t \<Longrightarrow> market_runs R role s u" for t u
    by (auto simp: same_run_def)
  show ?thesis
    unfolding call_refreshAddCash_def outcome_bind
    by (rule outcome_mono[OF assms(2)])
       (rule vcg outcome_chain[OF client_runs[where role = role]]
         outcome_chain[OF port_runs[where role = role]] | assumption | (auto intro: on; fail))+
qed

subsection \<open>Events\<close>

lemma task_runs:
  assumes ready: "market_ready R" "fresh_for R (ss_snapshot s)" and sync: "synced R (ap_role app) s n"
    and known: "task_known (ss_snapshot s) task"
  shows "outcome (task_op R B app task) (\<lambda>_. market_runs R (ap_role app) s) (\<lambda>_. market_runs R (ap_role app) s) s"
proof -
  note locked = runLocked_runs[OF ready(1) sync]
  note known' = loaded_known[OF sync _ known]
  note fresh' = loaded_fresh[OF sync _ ready(2)]
  note as_run = moves_outcome[where role = "ap_role app"]
  note reloaded = reloaded_runs[OF ready(1) sync]
  have start: "moves R t t" for t by simp
  show ?thesis
  proof (cases task)
    case (Poll_order x)
    have "outcome (if ord_state x = Ord_cancelling then cancelOrder R x
        else if ord_relayRegistered x \<noteq> Some True \<and> \<not> truthy_text (ord_incomingToken x) \<and> ord_incomingSwap x = None
        then registerStoredOrder R x
        else pollOrder R x) (\<lambda>_. moves R t) (\<lambda>_. moves R t) t" if "loaded R (ap_role app) t n" for t
      using known'[OF that] cancel_moves[OF start] register_moves[OF start] poll_moves[OF start]
      by (simp add: Poll_order)
    then show ?thesis
      unfolding Poll_order task_op_def market_task.case outcome_ignored call_pollOrder_def
      by (intro locked as_run)
  next
    case (Fund_test_cash x)
    then show ?thesis
      unfolding Fund_test_cash task_op_def market_task.case outcome_ignored call_fundTestCash_def
      by (intro locked fund_runs)
  next
    case (Refresh_add_cash x)
    have "outcome (refreshAddCash R x) (\<lambda>_. moves R t) (\<lambda>_. moves R t) t" if "loaded R (ap_role app) t n" for t
      using known'[OF that] refresh_add_moves[OF start] by (simp add: Refresh_add_cash)
    then show ?thesis
      unfolding Refresh_add_cash task_op_def market_task.case outcome_ignored
      by (intro refresh_claim_runs locked as_run) simp_all
  next
    case (Retry_delivery p)
    have "outcome (deliverStoredPayment R p) (\<lambda>_. moves R t) (\<lambda>_. moves R t) t" if "loaded R (ap_role app) t n" for t
      using known'[OF that] deliver_moves[OF start] by (simp add: Retry_delivery)
    then show ?thesis
      unfolding Retry_delivery task_op_def market_task.case outcome_ignored by (intro locked as_run)
  next
    case (Check_payment p)
    have "outcome (checkPayment R p) (\<lambda>_. moves R t) (\<lambda>_. moves R t) t" if "loaded R (ap_role app) t n" for t
      using known'[OF that] check_moves[OF start] by (simp add: Check_payment)
    then show ?thesis
      unfolding Check_payment task_op_def market_task.case outcome_ignored by (intro locked as_run)
  next
    case (Cancel_order x)
    have "outcome (cancelOrder R x) (\<lambda>_. moves R t) (\<lambda>_. moves R t) t" if "loaded R (ap_role app) t n" for t
      using known'[OF that] cancel_moves[OF start] by (simp add: Cancel_order)
    then show ?thesis
      unfolding Cancel_order task_op_def market_task.case outcome_ignored by (intro locked as_run)
  next
    case (Refresh_cash_out x)
    have "outcome (refreshCashOut R x) (\<lambda>_. moves R t) (\<lambda>_. moves R t) t" if "loaded R (ap_role app) t n" for t
      using known'[OF that] refresh_cash_out_moves[OF start] by (simp add: Refresh_cash_out)
    then show ?thesis
      unfolding Refresh_cash_out task_op_def market_task.case outcome_ignored by (intro locked as_run)
  next
    case (Confirm_payment review)
    then show ?thesis
      unfolding Confirm_payment task_op_def market_task.case outcome_ignored
      by (intro locked as_run confirm_moves[OF start fresh'])
  next
    case (Create_order items)
    then show ?thesis
      unfolding Create_order task_op_def market_task.case outcome_ignored
      by (intro locked as_run create_moves[OF start fresh'])
  next
    case (Request_add_cash amount)
    then show ?thesis
      unfolding Request_add_cash task_op_def market_task.case outcome_ignored
      by (intro locked as_run request_add_moves[OF start fresh'])
  next
    case (Confirm_cash_out review)
    then show ?thesis
      unfolding Confirm_cash_out task_op_def market_task.case outcome_ignored
      by (intro locked as_run confirm_cash_out_moves[OF start fresh'])
  next
    case Request_test_cash
    have "outcome (runLocked R app (requestTestCash R a)) (\<lambda>_. market_runs R (ap_role app) s)
        (\<lambda>_. market_runs R (ap_role app) s) s" for a
      by (intro locked as_run request_add_moves[OF start fresh'])
    then show ?thesis
      unfolding Request_test_cash task_op_def market_task.case outcome_ignored call_requestTestCash_def
      by (simp add: outcomes split: option.splits)
  next
    case (Review_payment encoded)
    have "outcome (reviewPayment R encoded) (\<lambda>_. moves R t) (\<lambda>_. moves R t) t" for t
      by (rule outcome_mono[OF review_moves[OF start]]) auto
    then show ?thesis
      unfolding Review_payment task_op_def market_task.case outcome_ignored call_reviewPayment_def
      by (intro reloaded as_run)
  next
    case (Quote_cash_out invoice)
    have "outcome (quoteCashOut R invoice) (\<lambda>_. moves R t) (\<lambda>_. moves R t) t" for t
      by (rule outcome_mono[OF quote_moves(1)[OF start]]) auto
    then show ?thesis
      unfolding Quote_cash_out task_op_def market_task.case outcome_ignored call_quoteCashOut_def outcome_bind
      by (intro require_outcome as_run) simp_all
  next
    case (Review_cash_out quote)
    have "outcome (reviewCashOut R quote) (\<lambda>_. moves R t) (\<lambda>_. moves R t) t" for t
      by (rule outcome_mono[OF quote_moves(2)[OF start]]) auto
    then show ?thesis
      unfolding Review_cash_out task_op_def market_task.case outcome_ignored call_reviewCashOut_def
      by (intro reloaded as_run)
  qed
qed

lemma open_runs:
  assumes "market_ready R" "synced R (ap_role app) (ap_session app) n"
  shows "market_runs R (ap_role app) (ap_session app) (ap_session (open_app R B app))" "ap_role (open_app R B app) = ap_role app"
proof -
  have load: "loadMarketSnapshot (rt_platform R) (rt_manifest R) (ap_role app) (ss_store (ap_session app)) = Inr n"
    using assms(2) by (simp add: synced_def)
  then have "ap_session (open_app R B app) = (ap_session app)\<lparr>ss_snapshot := n, ss_toast := None\<rparr>"
    by (simp add: open_app_def initialState_def connecting_def)
  then show "market_runs R (ap_role app) (ap_session app) (ap_session (open_app R B app))"
    using Step_load[OF load] by (simp add: r_into_rtranclp)
  show "ap_role (open_app R B app) = ap_role app"
    by (simp add: open_app_def connecting_def split: prod.splits)
qed

lemma storage_runs:
  assumes "market_ready R" "synced R (ap_role app) (ap_session app) n"
  shows "market_runs R (ap_role app) (ap_session app) (ap_session (storage_changed R app))"
    "ap_role (storage_changed R app) = ap_role app"
  using synced_load(2)[OF assms] assms(2)
  by (simp_all add: storage_changed_def reloadStoredSnapshot_def synced_def)

lemma perform_runs:
  assumes "market_ready R" "fresh_for R (ss_snapshot (ap_session app))" "synced R (ap_role app) (ap_session app) n"
    "task_known (ss_snapshot (ap_session app)) task"
  shows "market_runs R (ap_role app) (ap_session app) (ap_session (perform R B task app))"
    "ap_role (perform R B task app) = ap_role app"
  using task_runs[OF assms, of B] by (simp_all add: perform_def outcome_snd)

lemma next_known: "next_task role n = Some task \<Longrightarrow> task_known n task"
  by (auto simp: next_task_def dest!: find_SomeD split: prod.splits market_role.splits option.splits)

lemma resume_runs:
  assumes "market_ready R" "fresh_for R (ss_snapshot (ap_session app))" "synced R (ap_role app) (ap_session app) n"
  shows "market_runs R (ap_role app) (ap_session app) (ap_session (resume R B app)) \<and>
    ap_role (resume R B app) = ap_role app"
  using perform_runs[OF assms] next_known by (auto simp: resume_def split: option.splits)

lemma event_runs:
  assumes "market_ready R" "fresh_for R (ss_snapshot (ap_session app))" "synced R (ap_role app) (ap_session app) n"
    and "\<And>task. ev = Ev_task task \<Longrightarrow> task_known (ss_snapshot (ap_session app)) task"
  shows "market_runs R (ap_role app) (ap_session app) (ap_session (app_step R B ev app)) \<and>
    ap_role (app_step R B ev app) = ap_role app"
  using open_runs[OF assms(1,3)] storage_runs[OF assms(1,3)] perform_runs[OF assms(1-3)] resume_runs[OF assms(1-3)]
    assms(4)
  by (cases ev)
     (auto simp: app_step_def mint_answered_def retryConnection_def triggerReconnect_def connecting_def
        faucet_answered_def retryFaucet_def Let_def split: sum.splits failure.splits)

theorem app_runs:
  assumes "app_reaches R B start app" "market_ready R" "fresh_session R (ap_role start) (ap_session start)"
  shows "market_runs R (ap_role start) (ap_session start) (ap_session app) \<and> ap_role app = ap_role start"
  using assms(1)
proof induction
  case Reach_start
  then show ?case by simp
next
  case (Reach_event app ev)
  obtain n where "synced R (ap_role app) (ap_session app) n"
    using synced_runs[of R "ap_role start"] Reach_event.IH synced_start[OF assms(2,3)] assms(2) by metis
  from event_runs[OF assms(2) Reach_event(2) this Reach_event(3)] Reach_event.IH show ?case
    by (auto intro: rtranclp_trans)
qed

end
