(* ===== verification/Market_Safety.thy ===== *)
theory Market_Safety
  imports Market_App_Refine
begin

section \<open>Value is never lost or counted twice\<close>

text \<open>
  What one commit does to each record. A stored record stays; its recovery data leaves it only in the
  commit that credits what the mint returned for it (\<open>payment_kept\<close>, \<open>order_kept\<close>, \<open>add_kept\<close>,
  \<open>cash_out_kept\<close>), and \<open>commit_history\<close> says so of every commit of a run. An order has at most one payment,
  and a settled order was settled by a swap of exactly its amount (\<open>market_inv\<close>).
\<close>

lemma upsert_map_same:
  assumes "distinct (map key xs)" "p \<in> set xs" "key q = key p" "f q = f p"
  shows "map f (upsert key xs q) = map f xs"
proof -
  have "f (if key x = key q then q else x) = f x" if "x \<in> set xs" for x
    using assms that by (auto simp: distinct_map dest: inj_onD)
  then show ?thesis using assms(2,3) by (auto simp: upsert_def)
qed

lemma upsert_map_new: "key q \<notin> key ` set xs \<Longrightarrow> map f (upsert key xs q) = f q # map f xs"
  by (auto simp: upsert_def image_iff)

text \<open>A record in a list with one record replaced or added: itself, or the replacement of its key.\<close>

lemma upsert_follow:
  assumes "x \<in> set xs" "key x = key q \<Longrightarrow> P x q" "P x x" "\<And>y. P x y \<Longrightarrow> y \<in> set (upsert key xs q) \<Longrightarrow> thesis"
  shows thesis
  using assms by (cases "key x = key q") (auto simp: set_upsert)

subsection \<open>The records in memory obey the rules of the stored ones\<close>

lemma memory_payments:
  assumes "market_ready R" "synced R role s n"
  shows "distinct (map pay_id (sn_payments (ss_snapshot s)))"
    "p \<in> set (sn_payments (ss_snapshot s)) \<Longrightarrow> payment_rules p"
proof -
  note ok = synced_ok[OF assms, unfolded snapshot_ok_def]
  note same = synced_same[OF assms(2), unfolded same_snapshot_def]
  show "distinct (map pay_id (sn_payments (ss_snapshot s)))"
    using ok synced_ids(1)[OF assms(2)] by simp
  assume "p \<in> set (sn_payments (ss_snapshot s))"
  then obtain q where q: "q \<in> set (sn_payments n)" "same_payment (rt_platform R) p q"
    using same list_all2_ex by metis
  then have "payment_rules q" using ok by (auto simp: list_all_iff payment_ok_def)
  moreover have "pay_swap p = None \<longleftrightarrow> pay_swap q = None"
    using same_payment_fields(8)[OF q(2)] by (cases "pay_swap p"; cases "pay_swap q") auto
  then have "payment_rules (q\<lparr>pay_swap := pay_swap p\<rparr>) = payment_rules q"
    by (simp add: payment_rules_def complete_delivery_def)
  ultimately show "payment_rules p" using q(2) by (simp add: same_payment_def)
qed

lemma memory_orders:
  assumes "market_ready R" "synced R role s n"
  shows "distinct (map ord_id (sn_orders (ss_snapshot s)))"
    "x \<in> set (sn_orders (ss_snapshot s)) \<Longrightarrow> order_rules x"
proof -
  note ok = synced_ok[OF assms, unfolded snapshot_ok_def]
  note same = synced_same[OF assms(2), unfolded same_snapshot_def]
  show "distinct (map ord_id (sn_orders (ss_snapshot s)))"
    using ok synced_ids(2)[OF assms(2)] by simp
  assume "x \<in> set (sn_orders (ss_snapshot s))"
  then obtain y where y: "y \<in> set (sn_orders n)" "same_order (rt_platform R) x y"
    using same list_all2_ex by metis
  then have "order_rules y" using ok by (auto simp: list_all_iff order_ok_def)
  moreover have "ord_incomingSwap x = None \<longleftrightarrow> ord_incomingSwap y = None"
    using same_order_fields(8)[OF y(2)] by (cases "ord_incomingSwap x"; cases "ord_incomingSwap y") auto
  then have "order_rules (y\<lparr>ord_incomingSwap := ord_incomingSwap x\<rparr>) = order_rules y"
    by (simp add: order_rules_def order_registration_def)
  ultimately show "order_rules x" using y(2) by (simp add: same_order_def)
qed

lemma memory_cash:
  assumes "market_ready R" "synced R role s n"
  shows "distinct (map op_id (sn_addCash (ss_snapshot s)))" "distinct (map op_id (sn_cashOut (ss_snapshot s)))"
  using synced_ok[OF assms, unfolded snapshot_ok_def] synced_ids(3,4)[OF assms(2)] by simp_all

subsection \<open>Records through a commit\<close>

text \<open>What a commit from \<open>n\<close> to \<open>n'\<close> may do to a record, when the calls before it were \<open>calls\<close>.\<close>

definition payment_kept :: "call_log \<Rightarrow> market_snapshot \<Rightarrow> market_snapshot \<Rightarrow> attendee_payment \<Rightarrow> attendee_payment \<Rightarrow> bool" where
  "payment_kept calls n n' p q \<longleftrightarrow>
     pay_id q = pay_id p \<and> pay_orderId q = pay_orderId p \<and> pay_amount q = pay_amount p \<and>
     ((pay_token q = pay_token p \<and> pay_payloadJson q = pay_payloadJson p \<and> pay_swap q = pay_swap p) \<or>
      (\<exists>sw change. pay_swap p = Some sw \<and> returned calls (Complete_send sw) change \<and>
         sn_proofs n' = sn_proofs n @ change \<and>
         pay_state q = Pay_ready \<and> pay_token q \<noteq> None \<and> pay_payloadJson q \<noteq> None) \<or>
      (pay_state p \<noteq> Pay_spent \<and> truthy_text (pay_token p) \<and> pay_state q = Pay_spent))"

definition order_kept :: "call_log \<Rightarrow> market_snapshot \<Rightarrow> market_snapshot \<Rightarrow> vendor_order \<Rightarrow> vendor_order \<Rightarrow> bool" where
  "order_kept calls n n' x y \<longleftrightarrow>
     ord_id y = ord_id x \<and> ord_amount y = ord_amount x \<and> ord_items y = ord_items x \<and>
     ((ord_incomingToken y = ord_incomingToken x \<or> \<not> truthy_text (ord_incomingToken x)) \<and>
      (ord_incomingSwap y = ord_incomingSwap x \<or> ord_incomingSwap x = None) \<and>
      (ord_privateKey y = ord_privateKey x \<or> (\<not> truthy_text (ord_incomingToken x) \<and> ord_incomingSwap x = None)) \<or>
      (\<exists>sw fresh. ord_incomingSwap x = Some sw \<and> sw_amount sw = Some (ord_amount x) \<and>
         returned calls (Complete_receive sw) fresh \<and>
         sn_proofs n' = sn_proofs n @ fresh \<and> ord_state y = Ord_settled))"

definition add_kept :: "call_log \<Rightarrow> market_snapshot \<Rightarrow> market_snapshot \<Rightarrow> add_operation \<Rightarrow> add_operation \<Rightarrow> bool" where
  "add_kept calls n n' x y \<longleftrightarrow>
     op_id y = op_id x \<and> op_amount y = op_amount x \<and> add_quoteId y = add_quoteId x \<and> add_invoice y = add_invoice x \<and>
     ((add_outputData y = add_outputData x \<and> add_keysetId y = add_keysetId x \<and>
       add_quotePrivateKey y = add_quotePrivateKey x) \<or>
      ((add_outputData x = None \<or> \<not> truthy_text (add_keysetId x)) \<and> add_outputData y \<noteq> None) \<or>
      (\<exists>q prepared fresh. mtq_quote q = add_quoteId x \<and> add_outputData x = Some (pn_outputs prepared) \<and>
         add_keysetId x = Some (pn_keysetId prepared) \<and> returned calls (Complete_mint q prepared) fresh \<and>
         sn_proofs n' = sn_proofs n @ fresh \<and> add_state y = Add_settled))"

definition cash_out_kept ::
  "'w runtime \<Rightarrow> call_log \<Rightarrow> market_snapshot \<Rightarrow> market_snapshot \<Rightarrow> cash_out_operation \<Rightarrow> cash_out_operation \<Rightarrow> bool" where
  "cash_out_kept R calls n n' x y \<longleftrightarrow>
     op_id y = op_id x \<and> op_amount y = op_amount x \<and> co_invoice y = co_invoice x \<and>
     smq_quote (co_quote y) = smq_quote (co_quote x) \<and>
     ((co_reserved y = co_reserved x \<and> (co_recoverySwap y = co_recoverySwap x \<or> co_recoverySwap x = None)) \<or>
      (\<exists>change. sn_proofs n' = sn_proofs n @ change \<and>
         co_state y \<in> {Out_paid, Out_failed} \<and> out_change R calls x (co_state y) change))"

definition records_kept :: "'w runtime \<Rightarrow> call_log \<Rightarrow> market_snapshot \<Rightarrow> market_snapshot \<Rightarrow> bool" where
  "records_kept R calls n n' \<longleftrightarrow>
     (\<forall>p \<in> set (sn_payments n). \<exists>q \<in> set (sn_payments n'). payment_kept calls n n' p q) \<and>
     (\<forall>x \<in> set (sn_orders n). \<exists>y \<in> set (sn_orders n'). order_kept calls n n' x y) \<and>
     (\<forall>x \<in> set (sn_addCash n). \<exists>y \<in> set (sn_addCash n'). add_kept calls n n' x y) \<and>
     (\<forall>x \<in> set (sn_cashOut n). \<exists>y \<in> set (sn_cashOut n'). cash_out_kept R calls n n' x y)"

lemma kept_refl [simp]:
  "payment_kept calls n n' p p" "order_kept calls n n' x x" "add_kept calls n n' y y" "cash_out_kept R calls n n' z z"
  by (simp_all add: payment_kept_def order_kept_def add_kept_def cash_out_kept_def)

lemma same_key: "distinct (map key xs) \<Longrightarrow> x \<in> set xs \<Longrightarrow> y \<in> set xs \<Longrightarrow> key x = key y \<Longrightarrow> x = y"
  by (auto simp: distinct_map dest: inj_onD)

lemma commit_payments:
  assumes change: "snapshot_change R calls n n'"
    and ids: "distinct (map pay_id (sn_payments n))"
    and rules: "\<And>p. p \<in> set (sn_payments n) \<Longrightarrow> payment_rules p"
    and p: "p \<in> set (sn_payments n)"
  shows "\<exists>q \<in> set (sn_payments n'). payment_kept calls n n' p q"
  using change
proof cases
  case (Pay_new p' sw)
  then have "pay_id p \<noteq> pay_id p'" using p by (auto simp: operation_ids_def image_iff)
  with Pay_new(1) p show ?thesis
    by (auto simp: replacePayment_def set_upsert intro!: bexI[of _ p])
next
  case (Pay_update p' q')
  have "payment_kept calls n n' p q'" if "pay_id p = pay_id q'"
  proof -
    have "p = p'" using same_key[OF ids p Pay_update(2)] that Pay_update(3) by (simp add: pay_step_def)
    moreover have "pay_state p' \<noteq> Pay_spent"
      using rules[OF Pay_update(2)] Pay_update(3) by (auto simp: payment_rules_def pay_step_def truthy_text_def text_or_def)
    ultimately show ?thesis using Pay_update(3) by (auto simp: payment_kept_def pay_step_def)
  qed
  then show ?thesis
    using upsert_follow[of p _ pay_id q' "payment_kept calls n n'"] p Pay_update(1) unfolding replacePayment_def
    by (auto simp: set_upsert)
next
  case (Pay_prepared p' sw change q')
  have "payment_kept calls n n' p q'" if "pay_id p = pay_id q'"
  proof -
    have "p = p'" using same_key[OF ids p Pay_prepared(2)] that Pay_prepared by simp
    then show ?thesis using Pay_prepared by (auto simp: payment_kept_def)
  qed
  then show ?thesis
    using p Pay_prepared(1) by (cases "pay_id p = pay_id q'") (auto simp: replacePayment_def set_upsert)
qed (use p in \<open>auto intro: bexI kept_refl(1)\<close>)

lemma ord_cleanup_fields:
  assumes "ord_cleanup x y"
  shows "ord_id y = ord_id x" "ord_amount y = ord_amount x" "ord_items y = ord_items x" "ord_state y = ord_state x"
    "ord_incomingToken y = ord_incomingToken x" "ord_incomingSwap y = ord_incomingSwap x"
    "ord_privateKey y = ord_privateKey x"
  using assms by (cases x; cases y; simp add: ord_cleanup_def)+

text \<open>The commit that takes an order's token away is the one that credits its proofs.\<close>

lemma commit_orders:
  assumes change: "snapshot_change R calls n n'"
    and ids: "distinct (map ord_id (sn_orders n))"
    and rules: "\<And>x. x \<in> set (sn_orders n) \<or> x \<in> set (sn_orders n') \<Longrightarrow> order_rules x"
    and swaps: "\<And>x sw. x \<in> set (sn_orders n) \<Longrightarrow> ord_incomingSwap x = Some sw \<Longrightarrow>
      sw_amount sw = Some (ord_amount x)"
    and x: "x \<in> set (sn_orders n)"
  shows "\<exists>y \<in> set (sn_orders n'). order_kept calls n n' x y"
  using change
proof cases
  case (Ord_new y)
  then have "ord_id x \<noteq> ord_id y" using x by (auto simp: image_iff)
  with Ord_new(1) x show ?thesis by (auto simp: replaceOrder_def set_upsert intro!: bexI[of _ x])
next
  case (Ord_update x' y)
  have mem: "y \<in> set (sn_orders n')" using Ord_update(1) by (simp add: replaceOrder_def)
  have "order_kept calls n n' x y" if "ord_id x = ord_id y"
  proof -
    have "x = x'" using same_key[OF ids x Ord_update(2)] that Ord_update(3) by (simp add: ord_step_def)
    moreover have "ord_state y = Ord_cancelled \<Longrightarrow> ord_incomingToken y = None \<and> ord_incomingSwap y = None"
      using rules[of y] mem by (auto simp: order_rules_def)
    ultimately show ?thesis
      using Ord_update(3) by (auto simp: order_kept_def ord_step_def truthy_text_def text_or_def)
  qed
  then show ?thesis
    using x Ord_update(1) by (cases "ord_id x = ord_id y") (auto simp: replaceOrder_def set_upsert)
next
  case (Ord_cleaned x' y)
  have "order_kept calls n n' x y" if "ord_id x = ord_id y"
  proof -
    have "x = x'" using same_key[OF ids x Ord_cleaned(2)] that ord_cleanup_fields(1)[OF Ord_cleaned(4)] by simp
    then show ?thesis using ord_cleanup_fields[OF Ord_cleaned(4)] by (simp add: order_kept_def)
  qed
  then show ?thesis
    using x Ord_cleaned(1) by (cases "ord_id x = ord_id y") (auto simp: replaceOrder_def set_upsert)
next
  case (Ord_settle x' sw fresh y)
  have "order_kept calls n n' x y" if "ord_id x = ord_id y"
  proof -
    have "x = x'" using same_key[OF ids x Ord_settle(2)] that Ord_settle by simp
    then show ?thesis using Ord_settle swaps[OF x] by (auto simp: order_kept_def)
  qed
  then show ?thesis
    using x Ord_settle(1) by (cases "ord_id x = ord_id y") (auto simp: replaceOrder_def set_upsert)
qed (use x in \<open>auto intro: bexI kept_refl(2)\<close>)

lemma commit_adds:
  assumes change: "snapshot_change R calls n n'"
    and ids: "distinct (map op_id (sn_addCash n))"
    and x: "x \<in> set (sn_addCash n)"
  shows "\<exists>y \<in> set (sn_addCash n'). add_kept calls n n' x y"
  using change
proof cases
  case (Add_new y)
  then have "op_id x \<noteq> op_id y" using x by (auto simp: operation_ids_def image_iff)
  with Add_new(1) x show ?thesis by (auto simp: replaceAdd_def set_upsert intro!: bexI[of _ x])
next
  case (Add_update x' y)
  have "add_kept calls n n' x y" if "op_id x = op_id y"
    using same_key[OF ids x Add_update(2)] that Add_update(3) by (auto simp: add_kept_def add_step_def)
  then show ?thesis
    using x Add_update(1) by (cases "op_id x = op_id y") (auto simp: replaceAdd_def set_upsert)
next
  case (Add_settle x' q prepared fresh y)
  have "add_kept calls n n' x y" if "op_id x = op_id y"
  proof -
    have "x = x'" using same_key[OF ids x Add_settle(2)] that Add_settle by simp
    then show ?thesis using Add_settle by (simp add: add_kept_def) blast
  qed
  then show ?thesis
    using x Add_settle(1) by (cases "op_id x = op_id y") (auto simp: replaceAdd_def set_upsert)
qed (use x in \<open>auto intro: bexI kept_refl(3)\<close>)

lemma commit_cash_outs:
  assumes change: "snapshot_change R calls n n'"
    and ids: "distinct (map op_id (sn_cashOut n))"
    and x: "x \<in> set (sn_cashOut n)"
  shows "\<exists>y \<in> set (sn_cashOut n'). cash_out_kept R calls n n' x y"
  using change
proof cases
  case (Out_new y prepared)
  then have "op_id x \<noteq> op_id y" using x by (auto simp: operation_ids_def image_iff)
  with Out_new(1) x show ?thesis by (auto simp: replaceCashOut_def set_upsert intro!: bexI[of _ x])
next
  case (Out_update x' y)
  have "cash_out_kept R calls n n' x y" if "op_id x = op_id y"
    using same_key[OF ids x Out_update(2)] that Out_update(3) by (auto simp: cash_out_kept_def out_step_def)
  then show ?thesis
    using x Out_update(1) by (cases "op_id x = op_id y") (auto simp: replaceCashOut_def set_upsert)
next
  case (Out_settle x' y change)
  have "cash_out_kept R calls n n' x y" if "op_id x = op_id y"
  proof -
    have eq: "x = x'" using same_key[OF ids x Out_settle(2)] that Out_settle by simp
    have "out_change R calls x (co_state y) change"
      using Out_settle(11) unfolding eq out_change_def .
    then show ?thesis using Out_settle eq by (auto simp: cash_out_kept_def)
  qed
  then show ?thesis
    using x Out_settle(1) by (cases "op_id x = op_id y") (auto simp: replaceCashOut_def set_upsert)
qed (use x in \<open>auto intro: bexI kept_refl(4)\<close>)

subsection \<open>The invariant of the runs\<close>

definition settled_by :: "call_log \<Rightarrow> vendor_order \<Rightarrow> bool" where
  "settled_by calls x \<longleftrightarrow>
     (\<exists>sw fresh store. (Complete_receive sw, Some fresh, store) \<in> set calls \<and> sw_amount sw = Some (ord_amount x))"

definition order_inv :: "call_log \<Rightarrow> vendor_order \<Rightarrow> bool" where
  "order_inv calls x \<longleftrightarrow>
     (\<forall>sw. ord_incomingSwap x = Some sw \<longrightarrow> sw_amount sw = Some (ord_amount x)) \<and>
     (ord_state x = Ord_settled \<longrightarrow> settled_by calls x)"

lemma returned_mem: "returned calls c ps \<Longrightarrow> \<exists>store. (c, Some ps, store) \<in> set calls"
  unfolding returned_def by (metis last_in_set prod.collapse)

lemma order_inv_more: "order_inv calls x \<Longrightarrow> order_inv (calls @ later) x"
  by (auto simp: order_inv_def settled_by_def)

lemma change_single:
  assumes "snapshot_change R calls n n'" "distinct (map pay_id (sn_payments n))" "distinct (map pay_orderId (sn_payments n))"
  shows "distinct (map pay_orderId (sn_payments n'))"
  using assms(1)
proof cases
  case (Pay_new p sw)
  then have new: "pay_id p \<notin> pay_id ` set (sn_payments n)" "pay_orderId p \<notin> pay_orderId ` set (sn_payments n)"
    by (auto simp: operation_ids_def has_payment_def list_ex_iff)
  show ?thesis using Pay_new(1) assms(3) new by (simp add: replacePayment_def upsert_map_new[OF new(1)])
next
  case (Pay_update p q)
  then have "pay_id q = pay_id p" "pay_orderId q = pay_orderId p" by (auto simp: pay_step_def)
  from upsert_map_same[OF assms(2) Pay_update(2) this] Pay_update(1) assms(3) show ?thesis
    by (simp add: replacePayment_def)
next
  case (Pay_prepared p sw change q)
  from upsert_map_same[OF assms(2) Pay_prepared(2), of q pay_orderId] Pay_prepared assms(3) show ?thesis
    by (simp add: replacePayment_def)
qed (use assms(3) in simp_all)

lemma change_order_inv:
  assumes "snapshot_change R calls n n'" "\<forall>x \<in> set (sn_orders n). order_inv calls x"
  shows "\<forall>x \<in> set (sn_orders n'). order_inv calls x"
  using assms(1)
proof cases
  case (Ord_new y)
  with assms(2) show ?thesis by (auto simp: replaceOrder_def set_upsert order_inv_def)
next
  case (Ord_update x y)
  then have "order_inv calls y" using assms(2) by (auto simp: order_inv_def ord_step_def)
  with Ord_update(1) assms(2) show ?thesis by (auto simp: replaceOrder_def set_upsert)
next
  case (Ord_cleaned x y)
  then have "order_inv calls y"
    using assms(2) ord_cleanup_fields[OF Ord_cleaned(4)] by (auto simp: order_inv_def settled_by_def)
  with Ord_cleaned(1) assms(2) show ?thesis by (auto simp: replaceOrder_def set_upsert)
next
  case (Ord_settle x sw fresh y)
  then have "sw_amount sw = Some (ord_amount y)" using assms(2) by (auto simp: order_inv_def)
  then have "order_inv calls y"
    using Ord_settle returned_mem[OF Ord_settle(4)] by (auto simp: order_inv_def settled_by_def)
  with Ord_settle(1) assms(2) show ?thesis by (auto simp: replaceOrder_def set_upsert)
qed (use assms(2) in simp_all)

lemma same_order_inv: "same_order P x y \<Longrightarrow> order_inv calls x \<Longrightarrow> order_inv calls y"
  using same_order_fields[of P x y]
  by (auto simp: order_inv_def settled_by_def option_rel_Some2 same_swap_def)

lemma same_snapshot_inv:
  assumes "same_snapshot P a b"
  shows "distinct (map pay_orderId (sn_payments a)) \<Longrightarrow> distinct (map pay_orderId (sn_payments b))"
    "\<forall>x \<in> set (sn_orders a). order_inv calls x \<Longrightarrow> \<forall>x \<in> set (sn_orders b). order_inv calls x"
proof -
  have "map pay_orderId (sn_payments b) = map pay_orderId (sn_payments a)"
    using assms by (intro map_same[of "same_payment P"]) (auto simp: same_snapshot_def dest: same_payment_fields)
  then show "distinct (map pay_orderId (sn_payments a)) \<Longrightarrow> distinct (map pay_orderId (sn_payments b))" by simp
  show "\<forall>x \<in> set (sn_orders a). order_inv calls x \<Longrightarrow> \<forall>x \<in> set (sn_orders b). order_inv calls x"
    using assms list_all2_ex'[of "same_order P" "sn_orders a" "sn_orders b"] same_order_inv
    unfolding same_snapshot_def by metis
qed

text \<open>Every commit since the empty snapshot, in order; between two of them the stored snapshot may have been loaded.\<close>

definition follows :: "'w runtime \<Rightarrow> market_role \<Rightarrow> market_snapshot \<Rightarrow> market_snapshot \<Rightarrow> bool" where
  "follows R role n m \<longleftrightarrow>
     m = n \<or> normalizeSnapshot (rt_platform R) (rt_manifest R) role (snapshot_json n) = Inr m"

fun commit_history ::
  "'w runtime \<Rightarrow> market_role \<Rightarrow> call_log \<Rightarrow> market_snapshot \<Rightarrow> (nat \<times> market_snapshot \<times> market_snapshot) list \<Rightarrow>
   market_snapshot \<Rightarrow> bool" where
  "commit_history R role calls n [] m \<longleftrightarrow> follows R role n m"
| "commit_history R role calls n ((k, a, b) # rest) m \<longleftrightarrow>
     follows R role n a \<and> k \<le> length calls \<and> records_kept R (take k calls) a b \<and> commit_history R role calls b rest m"

lemma history_more: "commit_history R role calls n cs m \<Longrightarrow> commit_history R role (calls @ later) n cs m"
  by (induction cs arbitrary: n) auto

lemma history_end:
  "commit_history R role calls n cs m \<Longrightarrow> (\<And>x. follows R role x m \<Longrightarrow> follows R role x m') \<Longrightarrow>
   commit_history R role calls n cs m'"
  by (induction cs arbitrary: n) auto

lemma history_commit:
  "commit_history R role calls n cs a \<Longrightarrow> records_kept R calls a b \<Longrightarrow>
   commit_history R role calls n (cs @ [(length calls, a, b)]) b"
  by (induction cs arbitrary: n) (auto simp: follows_def)

definition market_inv :: "'w runtime \<Rightarrow> market_role \<Rightarrow> 'w session \<Rightarrow> bool" where
  "market_inv R role s \<longleftrightarrow>
     (\<exists>n. synced R role s n) \<and> distinct (map pay_orderId (sn_payments (ss_snapshot s))) \<and>
     (\<forall>x \<in> set (sn_orders (ss_snapshot s)). order_inv (ss_calls s) x) \<and>
     commit_history R role (ss_calls s) (emptyMarketSnapshot (rt_manifest R) role) (ss_commits s) (ss_snapshot s)"

lemma commit_keeps:
  assumes ready: "market_ready R" and sync: "synced R role s n" and sync': "synced R role t n'"
    and change: "snapshot_change R (ss_calls s) (ss_snapshot s) (ss_snapshot t)"
    and inv: "\<forall>x \<in> set (sn_orders (ss_snapshot s)). order_inv (ss_calls s) x"
  shows "records_kept R (ss_calls s) (ss_snapshot s) (ss_snapshot t)"
  unfolding records_kept_def
proof (intro conjI ballI)
  fix x assume x: "x \<in> set (sn_orders (ss_snapshot s))"
  show "\<exists>y \<in> set (sn_orders (ss_snapshot t)). order_kept (ss_calls s) (ss_snapshot s) (ss_snapshot t) x y"
    by (rule commit_orders[OF change memory_orders(1)[OF ready sync] _ _ x])
       (use memory_orders(2)[OF ready sync] memory_orders(2)[OF ready sync'] inv in \<open>auto simp: order_inv_def\<close>)
qed (use commit_payments[OF change memory_payments[OF ready sync]]
    commit_adds[OF change memory_cash(1)[OF ready sync]]
    commit_cash_outs[OF change memory_cash(2)[OF ready sync]] in auto)

lemma load_history:
  assumes "market_ready R" "synced R role s m" "commit_history R role calls n cs (ss_snapshot s)"
  shows "commit_history R role calls n cs m"
proof (rule history_end[OF assms(3)])
  fix x assume "follows R role x (ss_snapshot s)"
  moreover have "normalizeSnapshot (rt_platform R) (rt_manifest R) role (snapshot_json (ss_snapshot s)) = Inr m"
    using assms(2) by (simp add: synced_def)
  moreover have "ss_snapshot s = m"
    if "normalizeSnapshot (rt_platform R) (rt_manifest R) role (snapshot_json x) = Inr (ss_snapshot s)"
    using normalizeSnapshot_back[OF normalizeSnapshot_ok[OF _ that]] assms(1) calculation(2)
    by (simp add: market_ready_def)
  ultimately show "follows R role x m" by (auto simp: follows_def)
qed

lemma market_inv_step:
  assumes "market_ready R" "market_inv R role s" "market_step R role s t"
  shows "market_inv R role t"
proof -
  obtain n where sync: "synced R role s n" using assms(2) by (auto simp: market_inv_def)
  obtain n' where sync': "synced R role t n'" using synced_step[OF assms(1) sync assms(3)] by blast
  note inv = assms(2)[unfolded market_inv_def]
  show ?thesis
    using assms(3)
  proof cases
    case Step_move
    then show ?thesis
    proof cases
      case (Move_commit "next" store')
      then have change: "snapshot_change R (ss_calls s) (ss_snapshot s) (ss_snapshot t)" by simp
      have "records_kept R (ss_calls s) (ss_snapshot s) (ss_snapshot t)"
        using commit_keeps[OF assms(1) sync sync' change] inv by blast
      then show ?thesis
        using sync' change_single[OF change memory_payments(1)[OF assms(1) sync]] change_order_inv[OF change] inv Move_commit(1)
        by (auto simp: market_inv_def intro: history_commit)
    qed (use sync' inv in \<open>auto simp: market_inv_def intro: order_inv_more history_more\<close>)
  next
    case (Step_load m toast)
    then have loaded: "ss_snapshot t = n" "ss_calls t = ss_calls s" "ss_commits t = ss_commits s"
      using sync by (simp_all add: synced_def)
    have "commit_history R role (ss_calls s) (emptyMarketSnapshot (rt_manifest R) role) (ss_commits s) n"
      using load_history[OF assms(1) sync] inv by blast
    then show ?thesis
      using same_snapshot_inv[OF synced_same[OF sync]] inv sync' loaded unfolding market_inv_def by fastforce
  next
    case (Step_other key v w)
    then show ?thesis using sync' inv by (auto simp: market_inv_def)
  qed
qed

lemma market_inv_runs:
  assumes "market_runs R role s0 s" "market_ready R" "fresh_session R role s0"
  shows "market_inv R role s"
  using assms(1)
proof (induction rule: rtranclp_induct)
  case base
  show ?case
    using synced_start[OF assms(2,3)] assms(3)
    by (auto simp: market_inv_def fresh_session_def emptyMarketSnapshot_def follows_def)
next
  case (step t u)
  then show ?case using market_inv_step[OF assms(2)] by blast
qed

end
