(* ===== verification/Market_Demo.thy ===== *)
theory Market_Demo
  imports Market_Load Market_Safety
begin

section \<open>A concrete text for JSON values\<close>

text \<open>
  The witnesses of the market need a platform that obeys \<open>json_laws\<close>. Values are printed here in
  postfix form and read back by a stack machine: a text is opened by a backquote, each of its
  characters follows a quote, and a letter says what the text was; brackets and braces mark where a
  list or an object begins and collect what was pushed since.
\<close>

datatype item = Mark | Val json | Key string | Chars string

definition print_chars :: "string \<Rightarrow> string" where
  "print_chars s = CHR 0x60 # concat (map (\<lambda>c. [CHR 0x27, c]) s)"

fun print_json :: "json \<Rightarrow> string" where
  "print_json JUndef = ''u''"
| "print_json JNull = ''n''"
| "print_json (JBool b) = (if b then ''t'' else ''f'')"
| "print_json (JInt i) = print_chars (nat_text (nat \<bar>i\<bar>)) @ (if i < 0 then ''m'' else ''i'')"
| "print_json (JReal t) = print_chars t @ ''r''"
| "print_json (JStr t) = print_chars t @ ''s''"
| "print_json (JArr vs) = ''['' @ concat (map print_json vs) @ '']''"
| "print_json (JObj fs) = ''{'' @ concat (map (\<lambda>(k, v). print_chars k @ ''k'' @ print_json v) fs) @ ''}''"

fun pop_values :: "json list \<Rightarrow> item list \<Rightarrow> (json list \<times> item list) option" where
  "pop_values vs (Val v # st) = pop_values (v # vs) st"
| "pop_values vs (Mark # st) = Some (vs, st)"
| "pop_values vs _ = None"

fun pop_members :: "fields \<Rightarrow> item list \<Rightarrow> (fields \<times> item list) option" where
  "pop_members fs (Val v # Key k # st) = pop_members ((k, v) # fs) st"
| "pop_members fs (Mark # st) = Some (fs, st)"
| "pop_members fs _ = None"

text \<open>What one character does to the stack.\<close>

definition read_char :: "char \<Rightarrow> item list \<Rightarrow> item list option" where
  "read_char c st =
     (if c = CHR 0x60 then Some (Chars [] # st)
      else if c = CHR ''u'' then Some (Val JUndef # st)
      else if c = CHR ''n'' then Some (Val JNull # st)
      else if c = CHR ''t'' then Some (Val (JBool True) # st)
      else if c = CHR ''f'' then Some (Val (JBool False) # st)
      else if c = CHR ''['' \<or> c = CHR ''{'' then Some (Mark # st)
      else if c = CHR '']'' then map_option (\<lambda>(vs, st'). Val (JArr vs) # st') (pop_values [] st)
      else if c = CHR ''}'' then map_option (\<lambda>(fs, st'). Val (JObj fs) # st') (pop_members [] st)
      else (case st of
              Chars t # st' \<Rightarrow>
                if c = CHR ''k'' then Some (Key (rev t) # st')
                else if c = CHR ''s'' then Some (Val (JStr (rev t)) # st')
                else if c = CHR ''r'' then Some (Val (JReal (rev t)) # st')
                else if c = CHR ''i'' then Some (Val (JInt (int (digits_value (rev t)))) # st')
                else if c = CHR ''m'' then Some (Val (JInt (- int (digits_value (rev t)))) # st')
                else None
            | _ \<Rightarrow> None))"

fun read_stack :: "string \<Rightarrow> item list \<Rightarrow> item list option" where
  "read_stack [] st = Some st"
| "read_stack (c # s) st =
     (if c = CHR 0x27 then
        (case (s, st) of
           (d # s', Chars t # st') \<Rightarrow> read_stack s' (Chars (d # t) # st')
         | _ \<Rightarrow> None)
      else (case read_char c st of None \<Rightarrow> None | Some st' \<Rightarrow> read_stack s st'))"

definition read_json :: "string \<Rightarrow> json option" where
  "read_json s = (case read_stack s [] of Some [Val v] \<Rightarrow> Some v | _ \<Rightarrow> None)"

lemma read_chars: "read_stack (print_chars s @ r) st = read_stack r (Chars (rev s) # st)"
proof -
  have "read_stack (concat (map (\<lambda>c. [CHR 0x27, c]) s) @ r) (Chars t # st) = read_stack r (Chars (rev s @ t) # st)" for t
    by (induction s arbitrary: t) simp_all
  then show ?thesis by (simp add: print_chars_def read_char_def)
qed

lemma pop_values_rev: "pop_values vs (rev (map Val ws) @ Mark # st) = Some (ws @ vs, st)"
  by (induction ws arbitrary: vs rule: rev_induct) simp_all

lemma pop_members_rev:
  "pop_members fs (concat (map (\<lambda>(k, v). [Val v, Key k]) (rev gs)) @ Mark # st) = Some (gs @ fs, st)"
  by (induction gs arbitrary: fs rule: rev_induct) auto

lemma read_value: "read_stack (print_json v @ r) st = read_stack r (Val v # st)"
proof (induction v arbitrary: r st rule: print_json.induct)
  case (7 vs)
  have "read_stack (concat (map print_json us) @ r) st' = read_stack r (rev (map Val us) @ st')"
    if "set us \<subseteq> set vs" for us st' r
    using that "7.IH" by (induction us arbitrary: st') simp_all
  from this[OF subset_refl] show ?case
    using pop_values_rev[of "[]" vs] by (simp add: read_char_def)
next
  case (8 fs)
  have "read_stack (concat (map (\<lambda>(k, v). print_chars k @ ''k'' @ print_json v) gs) @ r) st' =
      read_stack r (concat (map (\<lambda>(k, v). [Val v, Key k]) (rev gs)) @ st')" if "set gs \<subseteq> set fs" for gs st' r
    using that
  proof (induction gs arbitrary: st')
    case (Cons g gs)
    obtain k v where g: "g = (k, v)" by (cases g)
    with Cons.prems have "(k, v) \<in> set fs" by simp
    from "8.IH"[OF this refl] Cons.IH[of "Val v # Key k # st'"] Cons.prems show ?case
      by (simp add: g read_chars read_char_def)
  qed simp
  from this[OF subset_refl] show ?case
    using pop_members_rev[of "[]" fs] by (simp add: read_char_def)
qed (auto simp: read_char_def read_chars)

lemma json_text: "read_json (print_json v) = Some v" "print_json v \<noteq> []"
  using read_value[of v "[]" "[]"] by (simp_all add: read_json_def) (cases v; simp add: print_chars_def)

section \<open>Market: a concrete event, wallet and relay\<close>

text \<open>
  The values the witnesses of the market run on: an event with one vendor, a platform whose JSON text
  is the one above and whose package accepts every plain proof, a wallet that answers every
  call, a relay that accepts every request, and the records of an order that is paid with one proof
  of ten units. The world is the time of the clock.
\<close>

subsection \<open>The event and the platform\<close>

definition demo_cap :: string where "demo_cap = replicate 43 (CHR ''A'')"
definition demo_pub :: string where "demo_pub = ''02'' @ replicate 64 (CHR ''a'')"
definition demo_hex :: string where "demo_hex = replicate 64 (CHR ''0'')"
definition demo_order_id :: string where "demo_order_id = ''order_'' @ replicate 32 (CHR ''A'')"
definition demo_path :: string where "demo_path = ''/v1/deliver/'' @ demo_cap"
definition demo_delivery :: string where "demo_delivery = ''https://r'' @ demo_path"
definition demo_digest :: string where "demo_digest = ''sha256:'' @ replicate 64 (CHR ''a'')"

definition demo_vendor :: vendor_manifest where
  "demo_vendor =
     \<lparr>vm_id = ''v'', vm_name = ''Vendor'', vm_description = ''Sells'', vm_location = ''Hall'',
      vm_catalog = [\<lparr>ci_id = ''i'', ci_label = ''Item'', ci_description = ''An item'', ci_price = Price 10\<rparr>]\<rparr>"

definition demo_event :: event_manifest where
  "demo_event =
     \<lparr>em_id = ''e'', em_name = ''Event'', em_description = ''An event'', em_venue = ''Hall'',
      em_networkLabel = ''Testnet'', em_unit = ''rusd'', em_mintUrl = ''https://m'',
      em_codeHash = ''0x'' @ demo_hex, em_args = ''0x'' @ demo_hex, em_relayOrigin = ''https://r'',
      em_faucetOrigin = ''https://f'', em_vendors = [demo_vendor]\<rparr>"

definition demo_url :: url_parser where
  "demo_url s =
     (if s = ''https://m'' then
        Some \<lparr>protocol = ''https:'', username = [], password = [], host = ''m'', hostname = ''m'',
          pathname = ''/'', search = [], hash = []\<rparr>
      else if s = demo_delivery then
        Some \<lparr>protocol = ''https:'', username = [], password = [], host = ''r'', hostname = ''r'',
          pathname = demo_path, search = [], hash = []\<rparr>
      else None)"

definition demo_tags :: "string list list" where
  "demo_tags = [[''event_id'', ''e''], [''vendor_id'', ''v''], [''expires_at'', ''1300'']]"

definition demo_raw :: raw_request where
  "demo_raw =
     \<lparr>rr_transport = Some [\<lparr>tp_type = POST, tp_target = demo_delivery, tp_tags = Some demo_tags\<rparr>],
      rr_id = Some demo_order_id, rr_amount = Some (Some 10), rr_unit = Some ''rusd'',
      rr_mints = Some [''https://m''], rr_description = Some ''Item'', rr_singleUse = True,
      rr_nut10 = Some \<lparr>n10_kind = ''P2PK'', n10_data = demo_pub, n10_tags = Some []\<rparr>\<rparr>"

definition demo_cashu :: cashu where
  "demo_cashu =
     \<lparr>decode_request = (\<lambda>s. if s = ''creqA'' then Some demo_raw else None), encode_request = (\<lambda>_. ''creqA''),
      lock_options = (\<lambda>q. Inr (map_option (\<lambda>n. \<lparr>lk_pubkey = n10_data n, lk_locktime = None, lk_refundKeys = [],
        lk_signatures = None\<rparr>) (rr_nut10 q))),
      deserialize_proofs = (\<lambda>vs. if list_all json_plain vs then Some vs else None), output_valid = json_plain\<rparr>"

definition demo_platform :: platform where
  "demo_platform =
     \<lparr>new_url = demo_url, json_parse = read_json, json_stringify = (\<lambda>v. print_json (json_roundtrip v)),
      text_number = (\<lambda>_. JNull), collation = map of_char, package = demo_cashu\<rparr>"

subsection \<open>The wallet, the relay and the runtime\<close>

definition demo_proof :: cashu_proof where
  "demo_proof = JObj [(''id'', JStr ''k''), (''amount'', JInt 10), (''secret'', JStr ''s''), (''C'', JStr ''c'')]"

definition demo_output :: output_data where
  "demo_output = JObj [(''secret'', JStr ''o'')]"

definition demo_swap :: swap_preview where
  "demo_swap =
     \<lparr>sw_amount = Some 10, sw_fees = Some 0, sw_keyset = ''k'', sw_inputs = [demo_proof], sw_send = None,
      sw_keep = Some [demo_output], sw_unselected = Some []\<rparr>"

definition demo_fresh :: cashu_proof where
  "demo_fresh = JObj [(''id'', JStr ''k''), (''amount'', JInt 10), (''secret'', JStr ''t''), (''C'', JStr ''d'')]"

definition demo_mint_quote :: mint_quote where
  "demo_mint_quote =
     \<lparr>mtq_quote = ''q'', mtq_request = ''lnbc'', mtq_amount = Some 10, mtq_unit = ''rusd'', mtq_pubkey = None,
      mtq_amount_paid = None, mtq_state = Some Mint_paid, mtq_expiry = None\<rparr>"

definition demo_melt_quote :: melt_quote where
  "demo_melt_quote =
     \<lparr>mlq_quote = ''w'', mlq_amount = Some 10, mlq_fee_reserve = Some 0, mlq_unit = ''rusd'', mlq_state = UNPAID,
      mlq_expiry = None, mlq_request = ''fibt'', mlq_change = None\<rparr>"

definition demo_prepared :: prepared_mint where
  "demo_prepared =
     \<lparr>pn_outputs = [demo_output], pn_keysetId = ''k'', pn_legacySignature = None, pn_payloadSignature = None\<rparr>"

definition demo_token :: inspected_token where
  "demo_token =
     \<lparr>it_amount = 10, it_mint = ''https://m'', it_unit = ''rusd'', it_proofs = [demo_proof], it_memo = None\<rparr>"

definition demo_wallet :: "int market_wallet" where
  "demo_wallet =
     \<lparr>mw_mintUrl = ''https://m'', mw_unit = ''rusd'',
      mw_prepareSend = (\<lambda>amount ps lock w. (Inr (Swap_send demo_swap amount (Some 0)), w)),
      mw_completePreparedSend = (\<lambda>swap w. (Inr (''cashuAx'', []), w)),
      mw_inspectToken = (\<lambda>t. if t = ''cashuAx'' then Inr demo_token else Inl Thrown_value),
      mw_encodeProofs = (\<lambda>ps. Inr ''cashuAx''),
      mw_tokenIsLockedTo = (\<lambda>t key. Inr (key = demo_pub)),
      mw_prepareReceive = (\<lambda>t key w. (Inr demo_swap, w)),
      mw_completePreparedReceive = (\<lambda>swap w. (Inr [demo_fresh], w)),
      mw_checkTokenState = (\<lambda>t w. (Inr Unspent, w)),
      mw_requestMint = (\<lambda>a w. (Inr (demo_mint_quote\<lparr>mtq_amount := a\<rparr>), w)),
      mw_requestLockedMint = (\<lambda>a w. (Inl Thrown_value, w)),
      mw_checkMintQuote = (\<lambda>q w. (Inr demo_mint_quote, w)),
      mw_prepareMint = (\<lambda>q key w. (Inr demo_prepared, w)),
      mw_completeMint = (\<lambda>q p w. (Inr [demo_proof], w)),
      mw_requestMelt = (\<lambda>invoice w. (Inr demo_melt_quote, w)),
      mw_checkMeltQuote = (\<lambda>q w. (Inr demo_melt_quote, w)),
      mw_prepareMelt = (\<lambda>q ps w. (Inl Thrown_value, w)),
      mw_executeMelt = (\<lambda>q p w. (Inl Thrown_value, w)),
      mw_recoverMeltChange = (\<lambda>outs q. Inl Thrown_value),
      mw_checkProofsState = (\<lambda>ps w. (Inr Unspent, w))\<rparr>"

definition demo_relay :: "int relay_port" where
  "demo_relay =
     \<lparr>rp_register = (\<lambda>m request amount w. (Inr (), w)), rp_deliver = (\<lambda>url payload w. (Inr (), w)),
      rp_read = (\<lambda>origin cap w. (Inr None, w)), rp_acknowledge = (\<lambda>origin cap w. (Inr (), w)),
      rp_cancel = (\<lambda>origin cap w. (Inr (), w))\<rparr>"

definition demo_entropy :: vendor_entropy where
  "demo_entropy = \<lparr>ve_order = replicate 24 0, ve_read = replicate 32 0, ve_write = replicate 32 0, ve_secret = replicate 32 0\<rparr>"

text \<open>The clock; and an identifier that is longer than every identifier in use together.\<close>

definition demo_clock :: "int \<Rightarrow> int" where "demo_clock w = (if 1 \<le> w \<and> w \<le> 2000000 then w else 1)"

definition demo_market :: "int runtime" where
  "demo_market =
     \<lparr>rt_platform = demo_platform, rt_hash = (\<lambda>_. replicate 64 (CHR ''a'')),
      rt_public = (\<lambda>_. 2 # replicate 32 0xaa), rt_manifest = demo_event, rt_vendor = demo_vendor,
      rt_wallet = demo_wallet, rt_relay = demo_relay, rt_now = (\<lambda>w. (demo_clock w, w)),
      rt_operationId = (\<lambda>used w. (CHR ''a'' # concat used, w)), rt_entropy = (\<lambda>used w. (demo_entropy, w)),
      rt_room = (\<lambda>w key text. True)\<rparr>"

definition demo_session :: "market_role \<Rightarrow> int session" where
  "demo_session role =
     \<lparr>ss_snapshot = emptyMarketSnapshot demo_event role, ss_store = Map.empty, ss_toast = None,
      ss_world = 1000000, ss_calls = [], ss_commits = []\<rparr>"

lemma demo_mint: "normalizeMintUrl demo_url ''https://m'' = Inr ''https://m''"
  by (simp add: normalizeMintUrl_def demo_url_def) code_simp

lemma demo_same: "sameMint demo_url ''https://m'' ''https://m'' = Inr True"
  by (simp add: sameMint_def demo_mint)

lemma demo_runtime:
  "rt_platform demo_market = demo_platform" "rt_manifest demo_market = demo_event"
  "rt_wallet demo_market = demo_wallet" "rt_room demo_market = (\<lambda>w key text. True)"
  "new_url demo_platform = demo_url" "package demo_platform = demo_cashu"
  "em_id demo_event = ''e''" "em_unit demo_event = ''rusd''" "em_mintUrl demo_event = ''https://m''"
  "em_vendors demo_event = [demo_vendor]" "em_relayOrigin demo_event = ''https://r''" "vm_id demo_vendor = ''v''"
  by (simp_all add: demo_market_def demo_platform_def demo_event_def demo_vendor_def)

lemma demo_ports:
  "rt_now demo_market = (\<lambda>w. (demo_clock w, w))" "rt_operationId demo_market = (\<lambda>used w. (CHR ''a'' # concat used, w))"
  "mw_requestMint demo_wallet = (\<lambda>a w. (Inr (demo_mint_quote\<lparr>mtq_amount := a\<rparr>), w))"
  by (simp_all add: demo_market_def demo_wallet_def)

lemma demo_ready: "market_ready demo_market"
  unfolding market_ready_def package_laws_def json_laws_def
  by (auto simp: demo_runtime demo_cashu_def demo_platform_def json_text demo_mint)

lemma demo_start: "fresh_session demo_market role (demo_session role)"
  by (simp add: fresh_session_def demo_session_def demo_runtime)

subsection \<open>Storing a snapshot\<close>

definition demo_key :: "market_role \<Rightarrow> string" where
  "demo_key role = ''fibernuts:market:v1:e:'' @ role_text role @ '':https://m''"

definition demo_text :: "market_snapshot \<Rightarrow> string" where
  "demo_text n = json_stringify demo_platform (snapshot_json n)"

lemma demo_save:
  assumes "snapshot_ok demo_platform demo_event (sn_role n) n"
  shows "saveMarketSnapshot demo_platform demo_event (\<lambda>key text. True) n store =
    (Inr (), store(demo_key (sn_role n) \<mapsto> demo_text n))"
  using normalizeSnapshot_back[OF assms]
  by (simp add: saveMarketSnapshot_def Let_def marketStorageKey_def demo_runtime demo_mint demo_key_def demo_text_def)

lemma stores_ok:
  "snapshot_ok demo_platform demo_event (sn_role n) n \<Longrightarrow> \<exists>store. stores demo_market s n store"
  by (auto simp: stores_def demo_runtime demo_save)

subsection \<open>An order that is paid\<close>

definition demo_items :: "order_item list" where
  "demo_items = [\<lparr>oi_itemId = ''i'', oi_label = ''Item'', oi_quantity = 1, oi_unitPrice = 10\<rparr>]"

definition demo_order :: vendor_order where
  "demo_order =
     \<lparr>ord_id = demo_order_id, ord_state = Ord_registering, ord_eventId = ''e'', ord_vendorId = ''v'',
      ord_items = demo_items,
      ord_amount = 10, ord_unit = ''rusd'', ord_mintUrl = ''https://m'', ord_description = ''Item'',
      ord_expiresAt = 1300, ord_request = Some ''creqA'', ord_requestDigest = Some demo_digest,
      ord_deliveryUrl = Some demo_delivery, ord_readCapability = Some demo_cap, ord_writeCapability = Some demo_cap,
      ord_privateKey = Some demo_hex, ord_publicKey = Some demo_pub, ord_incomingToken = None,
      ord_incomingSwap = None, ord_relayRegistered = Some False, ord_relayAcknowledged = None,
      ord_createdAt = 1000000, ord_updatedAt = 1000000, ord_error = None\<rparr>"

definition demo_awaiting :: vendor_order where
  "demo_awaiting = demo_order\<lparr>ord_state := Ord_awaiting, ord_relayRegistered := Some True\<rparr>"

definition demo_received :: vendor_order where
  "demo_received = demo_awaiting\<lparr>ord_state := Ord_received, ord_incomingToken := Some ''cashuAx''\<rparr>"

definition demo_swapping :: vendor_order where
  "demo_swapping = demo_received\<lparr>ord_state := Ord_swapping, ord_incomingSwap := Some demo_swap\<rparr>"

definition demo_settled :: vendor_order where
  "demo_settled = demo_swapping\<lparr>ord_state := Ord_settled, ord_request := None, ord_requestDigest := None,
     ord_deliveryUrl := None, ord_writeCapability := None, ord_privateKey := None, ord_incomingToken := None,
     ord_incomingSwap := None\<rparr>"

definition demo_vendor_snapshot :: "cashu_proof list \<Rightarrow> vendor_order list \<Rightarrow> market_snapshot" where
  "demo_vendor_snapshot ps xs = (emptyMarketSnapshot demo_event Vendor)\<lparr>sn_proofs := ps, sn_orders := xs\<rparr>"

lemma demo_texts:
  "is_inbox_capability demo_cap" "is_public_key demo_pub" "is_private_key demo_hex" "is_delivery_path demo_path"
  "is_order_digest demo_digest" "is_request_text ''creqA''" "is_token_text ''cashuAx''"
  "demo_cap \<noteq> []" "demo_pub \<noteq> []" "demo_hex \<noteq> []" "demo_delivery \<noteq> []" "demo_digest \<noteq> []" "demo_order_id \<noteq> []"
  by code_simp+

lemma demo_deliver_url:
  "demo_url demo_delivery = Some \<lparr>protocol = ''https:'', username = [], password = [], host = ''r'', hostname = ''r'',
     pathname = demo_path, search = [], hash = []\<rparr>"
  by (simp add: demo_url_def demo_delivery_def)

lemma demo_delivery_ok: "assertDeliveryUrl demo_platform demo_event label demo_delivery = Inr ()"
  by (simp add: assertDeliveryUrl_def demo_runtime demo_deliver_url demo_texts url_origin_def)

lemma small_safe: "0 \<le> i \<Longrightarrow> i \<le> 1000000 \<Longrightarrow> is_safe i"
  by (simp add: is_safe_def max_safe_def)

lemma demo_proofs_ok: "proofs_ok demo_platform []" "proofs_ok demo_platform [demo_proof]" "proofs_ok demo_platform [demo_fresh]"
  by (simp_all add: proofs_ok_def demo_runtime demo_cashu_def demo_proof_def demo_fresh_def proof_ok_def proof_units_def
      field_def small_safe)

lemma demo_swap_ok: "swap_ok demo_platform demo_swap"
  using demo_proofs_ok by (simp add: swap_ok_def demo_swap_def demo_output_def small_safe demo_runtime demo_cashu_def)

lemma demo_items_ok:
  "items_ok demo_items" "order_total demo_items = 10" "items_total label 0 demo_items = Inr 10" "demo_items \<noteq> []"
  by (simp_all add: demo_items_def items_ok_def item_ok_def order_total_def small_safe js_mul_def js_add_def js_round_exact
      Let_def is_safe_def max_safe_def)

lemmas demo_order_defs = demo_order_def demo_awaiting_def demo_received_def demo_swapping_def demo_settled_def

lemma demo_orders_ok:
  assumes "x \<in> {demo_order, demo_awaiting, demo_received, demo_swapping, demo_settled}"
  shows "order_ok demo_platform demo_event x"
  using assms
  by (elim insertE emptyE)
     (simp_all add: order_ok_def demo_order_defs demo_runtime demo_same demo_texts demo_delivery_ok demo_swap_ok
       demo_items_ok small_safe order_rules_def order_registration_def)

lemma demo_vendor_ok:
  assumes "x \<in> {demo_order, demo_awaiting, demo_received, demo_swapping, demo_settled}"
    "ps = [] \<or> ps = [demo_fresh]"
  shows "snapshot_ok demo_platform demo_event Vendor (demo_vendor_snapshot ps [x])"
  using demo_orders_ok[OF assms(1)] assms(2) demo_proofs_ok
  by (auto simp: snapshot_ok_def demo_vendor_snapshot_def emptyMarketSnapshot_def demo_runtime demo_same reserved_proofs_def)

end
