(* ===== verification/Market_Progress.thy ===== *)
theory Market_Progress
  imports Market_App_Refine
begin

section \<open>What the runtime achieves\<close>

text \<open>
  Total correctness of single methods: with room in the browser's storage and a clock that gives
  times, a method returns, and what it returns and leaves stored is stated for every answer of the
  relay and the mint. \<open>outcome m Q (\<lambda>_ _. False) s\<close> says that \<open>m\<close> does not throw.
\<close>

lemma outcome_returns: "outcome m Q (\<lambda>_ _. False) s \<longleftrightarrow> (\<exists>x t. m s = (Inr x, t) \<and> Q x t)"
  by (auto simp: outcome_def split: prod.splits sum.splits)

definition roomy :: "'w runtime \<Rightarrow> bool" where
  "roomy R \<longleftrightarrow> (\<forall>w key text. rt_room R w key text)"

definition clock_ok :: "'w runtime \<Rightarrow> bool" where
  "clock_ok R \<longleftrightarrow> (\<forall>w. is_safe (fst (rt_now R w)) \<and> 1 \<le> fst (rt_now R w))"

text \<open>Memory and storage hold the same checked snapshot, as after \<open>reloadStoredSnapshot\<close>.\<close>

definition settled_session :: "'w runtime \<Rightarrow> market_role \<Rightarrow> 'w session \<Rightarrow> bool" where
  "settled_session R role s \<longleftrightarrow>
     snapshot_ok (rt_platform R) (rt_manifest R) role (ss_snapshot s) \<and>
     loadMarketSnapshot (rt_platform R) (rt_manifest R) role (ss_store s) = Inr (ss_snapshot s)"

lemma commit_total:
  assumes "market_ready R" "roomy R" "snapshot_ok (rt_platform R) (rt_manifest R) role next"
    and "\<And>t. settled_session R role t \<Longrightarrow> ss_snapshot t = next \<Longrightarrow> ss_world t = ss_world s \<Longrightarrow> ss_calls t = ss_calls s \<Longrightarrow>
      ss_toast t = ss_toast s \<Longrightarrow> Q () t"
  shows "outcome (commitM R next) Q E s"
proof -
  have role: "sn_role next = role" by (rule snapshot_ok_role[OF assms(3)])
  obtain mint where "normalizeMintUrl (new_url (rt_platform R)) (em_mintUrl (rt_manifest R)) = Inr mint"
    using assms(1) by (auto simp: market_ready_def)
  then obtain store where saved: "saveMarketSnapshot (rt_platform R) (rt_manifest R) (rt_room R (ss_world s)) next (ss_store s) = (Inr (), store)"
    using normalizeSnapshot_back[OF assms(3)] assms(2)
    by (simp add: saveMarketSnapshot_def role Let_def marketStorageKey_def roomy_def)
  have "loadMarketSnapshot (rt_platform R) (rt_manifest R) role store = Inr next"
    using load_saved[OF _ _ saved] assms(1) normalizeSnapshot_back[OF assms(3)] by (auto simp: market_ready_def role)
  with saved show ?thesis
    using assms(3) by (auto simp: outcome_def commitM_def settled_session_def intro!: assms(4))
qed

lemma now_total:
  assumes "clock_ok R"
    and "\<And>i w. rt_now R (ss_world s) = (i, w) \<Longrightarrow> is_safe i \<Longrightarrow> 1 \<le> i \<Longrightarrow> Q i (s\<lparr>ss_world := w\<rparr>)"
  shows "outcome (nowM R) Q E s"
  using assms by (auto simp: clock_ok_def nowM_def outcomes split: prod.splits) (metis fst_conv)+

lemma settled_world [simp]:
  "settled_session R role (s\<lparr>ss_world := w\<rparr>) = settled_session R role s"
  "settled_session R role (s\<lparr>ss_world := w, ss_calls := c\<rparr>) = settled_session R role s"
  "settled_session R role (s\<lparr>ss_calls := c\<rparr>) = settled_session R role s"
  "settled_session R role (s\<lparr>ss_toast := m\<rparr>) = settled_session R role s"
  by (simp_all add: settled_session_def)

lemma list_all_upsert: "list_all P xs \<Longrightarrow> P x \<Longrightarrow> list_all P (upsert key xs x)"
  by (auto simp: list_all_iff set_upsert)

lemma reserved_subset:
  assumes "p \<in> set (sn_payments n)" "pay_id q = pay_id p" "set (swap_inputs (pay_swap q)) \<subseteq> set (swap_inputs (pay_swap p))"
  shows "set (reserved_proofs (n\<lparr>sn_payments := replacePayment (sn_payments n) q\<rparr>)) \<subseteq> set (reserved_proofs n)"
  using assms by (auto simp: reserved_proofs_def replacePayment_def set_upsert)

lemma payment_replaced_ok:
  assumes "snapshot_ok P m role n" "payment_ok P m q" "p \<in> set (sn_payments n)" "pay_id q = pay_id p" "pay_swap q = pay_swap p"
  shows "snapshot_ok P m role (n\<lparr>sn_payments := replacePayment (sn_payments n) q\<rparr>)"
proof -
  have "set (reserved_proofs (n\<lparr>sn_payments := replacePayment (sn_payments n) q\<rparr>)) \<subseteq> set (reserved_proofs n)"
    by (rule reserved_subset[OF assms(3,4)]) (simp add: assms(5))
  then show ?thesis
    using assms(1,2,3) unfolding snapshot_ok_def
    by (auto simp: replacePayment_def list_all_upsert upsert_distinct)
qed

lemma commitPayment_total:
  assumes "market_ready R" "roomy R" "settled_session R role s" "p \<in> set (sn_payments (ss_snapshot s))"
    "payment_ok (rt_platform R) (rt_manifest R) q" "pay_id q = pay_id p" "pay_swap q = pay_swap p"
    and "\<And>t. settled_session R role t \<Longrightarrow> q \<in> set (sn_payments (ss_snapshot t)) \<Longrightarrow> ss_world t = ss_world s \<Longrightarrow>
      ss_calls t = ss_calls s \<Longrightarrow> sn_role (ss_snapshot t) = sn_role (ss_snapshot s) \<Longrightarrow>
      sn_proofs (ss_snapshot t) = sn_proofs (ss_snapshot s) \<Longrightarrow> Q q t"
  shows "outcome (commitPayment R q None) Q E s"
  unfolding commitPayment_def given_or_def
  by (simp add: outcomes)
     (rule commit_total[where role = role], use assms payment_replaced_ok in
       \<open>auto simp: settled_session_def replacePayment_def outcomes\<close>)


text \<open>A call that answers, and the values a method needs.\<close>

lemma port_total:
  assumes "\<forall>w. fst (f w) = Inr x" "\<And>w. Q x (s\<lparr>ss_world := w\<rparr>)"
  shows "outcome (portM f) Q E s"
  using assms by (cases "f (ss_world s)") (auto simp: outcome_def portM_def, metis fst_conv sum.sel(2) sum.case(2))

lemma moving_total:
  assumes "\<forall>w. fst (f w) = Inr x" "\<And>w c. Q x (s\<lparr>ss_world := w, ss_calls := c\<rparr>)"
  shows "outcome (movingM c g f) Q E s"
  using assms by (cases "f (ss_world s)") (auto simp: outcome_def movingM_def, metis fst_conv sum.sel(2) sum.case(2))

lemma need_total: "v = Some x \<Longrightarrow> Q x s \<Longrightarrow> outcome (needM v e) Q E s"
  by (simp add: outcomes)

lemma needText_total: "v = Some x \<Longrightarrow> x \<noteq> [] \<Longrightarrow> Q x s \<Longrightarrow> outcome (needText v n) Q E s"
  by (simp add: needText_def truthy_text_def text_or_def outcomes)

lemma notify_total: "Q () (s\<lparr>ss_toast := Some m\<rparr>) \<Longrightarrow> outcome (notifyM m) Q E s"
  by (simp add: outcome_def notifyM_def)

lemmas total_rules = vcg_bind vcg_catch vcg_try vcg_return vcg_read vcg_let

subsection \<open>Delivering a payment\<close>

lemma movingM_outcome:
  "outcome (movingM c proofs f) Q E s \<longleftrightarrow>
     (case f (ss_world s) of (r, w) \<Rightarrow>
        (case r of
           Inl e \<Rightarrow> E e (s\<lparr>ss_world := w, ss_calls := ss_calls s @ [(c, None, ss_store s)]\<rparr>)
         | Inr x \<Rightarrow> Q x (s\<lparr>ss_world := w, ss_calls := ss_calls s @ [(c, Some (proofs x), ss_store s)]\<rparr>)))"
  by (simp add: outcome_def movingM_def split: prod.splits sum.splits)

text \<open>A payment whose token and payload are stored.\<close>

definition deliverable :: "attendee_payment \<Rightarrow> string \<Rightarrow> string \<Rightarrow> bool" where
  "deliverable p url payload \<longleftrightarrow>
     pay_swap p = None \<and> truthy_text (pay_token p) \<and> pay_payloadJson p = Some payload \<and> payload \<noteq> [] \<and>
     pay_deliveryUrl p = Some url \<and> url \<noteq> []"

lemma found_self:
  assumes "p \<in> set rs" "distinct (map key rs)"
  shows "found_or key rs p = p"
  using found_or_stored[of rs key p] assms by (metis distinct_map inj_onD)

definition payment_after_delivery :: "'w runtime \<Rightarrow> attendee_payment \<Rightarrow> failure + unit \<Rightarrow> attendee_payment \<Rightarrow> bool" where
  "payment_after_delivery R p answer q \<longleftrightarrow>
     pay_id q = pay_id p \<and> pay_token q = pay_token p \<and> pay_payloadJson q = pay_payloadJson p \<and>
     pay_deliveryUrl q = pay_deliveryUrl p \<and>
     (case answer of
        Inr _ \<Rightarrow> pay_state q = Pay_delivered \<and> pay_deliveredAt q \<noteq> None \<and> pay_retryable q = None
      | Inl e \<Rightarrow> pay_state q = Pay_recoverable \<and> pay_retryable q = Some (deliveryCanRetry e))"

lemma described_ok: "described n e = Some (note_text n @ describe e)" "describe e \<noteq> []"
  using safeErrorMessage_nonempty by (simp_all add: described_def describe_def)

definition stays_deliverable :: "'w runtime \<Rightarrow> 'w session \<Rightarrow> attendee_payment \<Rightarrow> bool" where
  "stays_deliverable R s p \<longleftrightarrow>
     settled_session R Attendee s \<and> p \<in> set (sn_payments (ss_snapshot s)) \<and>
     payment_ok (rt_platform R) (rt_manifest R) p \<and> complete_delivery p"

lemma delivery_failed_total:
  assumes "market_ready R" "roomy R" "clock_ok R" "stays_deliverable R s p"
  shows "outcome (deliveryFailed R p e)
    (\<lambda>q t. settled_session R Attendee t \<and> q \<in> set (sn_payments (ss_snapshot t)) \<and>
       sn_proofs (ss_snapshot t) = sn_proofs (ss_snapshot s) \<and> payment_after_delivery R p (Inl e) q)
    (\<lambda>_ _. False) s"
proof -
  have ok: "payment_ok (rt_platform R) (rt_manifest R)
      (p\<lparr>pay_state := Pay_recoverable, pay_retryable := Some b, pay_updatedAt := i, pay_error := described n e\<rparr>)"
    if "is_safe i" "1 \<le> i" for i b n
    using assms(4) that described_ok(1)[of n e] described_ok(2)[of e]
    by (auto simp: stays_deliverable_def payment_ok_def payment_rules_def complete_delivery_def)
  show ?thesis
    unfolding deliveryFailed_def
    by (rule vcg_bind, rule now_total[OF assms(3)], rule commitPayment_total[OF assms(1,2), where role = Attendee and p = p])
       (use assms(4) ok in \<open>auto simp: stays_deliverable_def payment_after_delivery_def\<close>)
qed

lemma delivered_total:
  assumes "market_ready R" "roomy R" "clock_ok R" "stays_deliverable R s p"
  shows "outcome (bindM (nowM R) (\<lambda>deliveredAt. bindM (nowM R) (\<lambda>updatedAt.
      bindM (commitPayment R
          (p\<lparr>pay_state := Pay_delivered, pay_retryable := None, pay_deliveredAt := Some deliveredAt,
             pay_updatedAt := updatedAt, pay_error := None\<rparr>) None) (\<lambda>delivered.
      bindM (notifyM ''Payment delivered to the vendor'') (\<lambda>_. returnM delivered)))))
    (\<lambda>q t. settled_session R Attendee t \<and> q \<in> set (sn_payments (ss_snapshot t)) \<and>
       sn_proofs (ss_snapshot t) = sn_proofs (ss_snapshot s) \<and> payment_after_delivery R p (Inr ()) q)
    E s"
proof -
  have ok: "payment_ok (rt_platform R) (rt_manifest R)
      (p\<lparr>pay_state := Pay_delivered, pay_retryable := None, pay_deliveredAt := Some j, pay_updatedAt := i, pay_error := None\<rparr>)"
    if "is_safe i" "1 \<le> i" "is_safe j" "1 \<le> j" for i j
    using assms(4) that by (auto simp: stays_deliverable_def payment_ok_def payment_rules_def complete_delivery_def)
  show ?thesis
    by (rule vcg_bind, rule now_total[OF assms(3)], rule vcg_bind, rule now_total[OF assms(3)], rule vcg_bind,
        rule commitPayment_total[OF assms(1,2), where role = Attendee and p = p])
       (use assms(4) ok in \<open>auto simp: stays_deliverable_def payment_after_delivery_def outcomes notifyM_def outcome_def bindM_def returnM_def\<close>)
qed

lemma deliver_total:
  assumes ready: "market_ready R" "roomy R" "clock_ok R" and s: "settled_session R Attendee s"
    and p: "p \<in> set (sn_payments (ss_snapshot s))" "deliverable p url payload"
  shows "outcome (deliverStoredPayment R p)
    (\<lambda>q t. settled_session R Attendee t \<and> q \<in> set (sn_payments (ss_snapshot t)) \<and>
       sn_proofs (ss_snapshot t) = sn_proofs (ss_snapshot s) \<and>
       payment_after_delivery R p (fst (rp_deliver (rt_relay R) url payload (snd (rt_now R (ss_world s))))) q)
    (\<lambda>_ _. False) s"
proof -
  note ok = s[unfolded settled_session_def snapshot_ok_def]
  have pok: "payment_ok (rt_platform R) (rt_manifest R) p" using ok p(1) by (auto simp: list_all_iff)
  have self: "found_or pay_id (sn_payments (ss_snapshot s)) p = p" using ok p(1) by (intro found_self) simp_all
  have full: "complete_delivery p" using p(2) by (auto simp: deliverable_def complete_delivery_def truthy_text_def split: option.splits)
  define q where "q i = p\<lparr>pay_state := Pay_delivering, pay_retryable := Some True, pay_updatedAt := i, pay_error := None\<rparr>" for i
  have q: "payment_ok (rt_platform R) (rt_manifest R) (q i)" "complete_delivery (q i)" if "is_safe i" "1 \<le> i" for i
    using pok full that p(2) by (auto simp: q_def payment_ok_def payment_rules_def complete_delivery_def)
  have same: "payment_after_delivery R (q i) = payment_after_delivery R p" for i
    by (auto simp: payment_after_delivery_def q_def fun_eq_iff)
  note total = commitPayment_total[OF ready(1,2)]
  show ?thesis
    using p(2) ok unfolding deliverStoredPayment_def
    apply (simp add: outcomes assertRole_def self deliverable_def needText_def text_or_def truthy_text_def)
    apply (rule now_total[OF ready(3)])
    apply (fold q_def)
    apply (rule vcg_bind)
    apply (rule total[where role = Attendee and p = p])
    apply (use s in simp)
    apply (use p in simp)
    apply (rule q; assumption)
    apply (simp add: q_def)
    apply (simp add: q_def)
    apply (rule vcg_catch, rule vcg_bind)
    subgoal for i w t
      using q[of i] delivered_total[OF ready, where s = "t\<lparr>ss_world := u, ss_calls := c\<rparr>" and p = "q i" for u c]
        delivery_failed_total[OF ready, where s = "t\<lparr>ss_world := u, ss_calls := c\<rparr>" and p = "q i" for u c]
      by (auto simp: movingM_outcome same stays_deliverable_def split: prod.split sum.split)
    done
qed


subsection \<open>Checking a payment\<close>

definition check_result :: "attendee_payment \<Rightarrow> failure + spend_state \<Rightarrow> attendee_payment \<Rightarrow> bool" where
  "check_result p answer q \<longleftrightarrow>
     pay_id q = pay_id p \<and> pay_amount q = pay_amount p \<and>
     (if answer = Inr Spent
      then pay_state q = Pay_spent \<and> pay_token q = None \<and> pay_payloadJson q = None
      else pay_token q = pay_token p \<and> pay_payloadJson q = pay_payloadJson p \<and> pay_deliveryUrl q = pay_deliveryUrl p \<and>
        pay_state q =
          (case answer of
             Inr Unspent \<Rightarrow> if pay_retryable p = Some False then pay_state p else Pay_unspent
           | Inr Pending_spend \<Rightarrow> if pay_retryable p = Some False then pay_state p else Pay_pending
           | _ \<Rightarrow> Pay_recoverable))"

definition checked_payment :: "attendee_payment \<Rightarrow> spend_state \<Rightarrow> int \<Rightarrow> int \<Rightarrow> attendee_payment" where
  "checked_payment p state i j =
     (let seen = p\<lparr>pay_checkedAt := Some i, pay_updatedAt := j\<rparr>; rejected = (pay_retryable p = Some False) in
      case state of
        Spent \<Rightarrow>
          seen\<lparr>pay_state := Pay_spent, pay_token := None, pay_payloadJson := None, pay_request := None,
            pay_deliveryUrl := None, pay_retryable := None, pay_error := None\<rparr>
      | Unspent \<Rightarrow> if rejected then seen else seen\<lparr>pay_state := Pay_unspent, pay_error := None\<rparr>
      | Pending_spend \<Rightarrow>
          if rejected then seen else seen\<lparr>pay_state := Pay_pending, pay_error := Some (note_text Still_pending)\<rparr>
      | Mixed \<Rightarrow> seen\<lparr>pay_state := Pay_recoverable, pay_error := Some (note_text Mixed_states)\<rparr>)"

lemma port_each:
  assumes "\<And>x w. fst (f (ss_world s)) = Inr x \<Longrightarrow> Q x (s\<lparr>ss_world := w\<rparr>)"
    "\<And>e w. fst (f (ss_world s)) = Inl e \<Longrightarrow> E e (s\<lparr>ss_world := w\<rparr>)"
  shows "outcome (portM f) Q E s"
  using assms by (auto simp: outcome_def portM_def split: prod.split sum.split)

lemma check_total:
  assumes ready: "market_ready R" "roomy R" "clock_ok R" and s: "settled_session R Attendee s"
    and p: "p \<in> set (sn_payments (ss_snapshot s))" "deliverable p url payload"
      "pay_retryable p = Some False \<Longrightarrow> \<not> truthy_int (pay_deliveredAt p)"
  shows "outcome (checkPayment R p)
    (\<lambda>q t. settled_session R Attendee t \<and> q \<in> set (sn_payments (ss_snapshot t)) \<and>
       sn_proofs (ss_snapshot t) = sn_proofs (ss_snapshot s) \<and>
       check_result p (fst (mw_checkTokenState (rt_wallet R) (text_or [] (pay_token p)) (ss_world s))) q)
    (\<lambda>_ _. False) s"
proof -
  note ok = s[unfolded settled_session_def snapshot_ok_def]
  have pok: "payment_ok (rt_platform R) (rt_manifest R) p" using ok p(1) by (auto simp: list_all_iff)
  have self: "found_or pay_id (sn_payments (ss_snapshot s)) p = p" using ok p(1) by (intro found_self) simp_all
  have full: "complete_delivery p" "pay_swap p = None" "truthy_text (pay_token p)"
    using p(2) by (auto simp: deliverable_def complete_delivery_def truthy_text_def split: option.splits)
  have texts: "note_text Still_pending \<noteq> []" "note_text Mixed_states \<noteq> []" by (simp_all add: note_text_def)
  have rejected: "(pay_retryable p = Some False \<and> \<not> truthy_int (pay_deliveredAt p)) = (pay_retryable p = Some False)"
    using p(3) by auto
  have q: "payment_ok (rt_platform R) (rt_manifest R) (checked_payment p state i j)" "pay_id (checked_payment p state i j) = pay_id p"
    "pay_swap (checked_payment p state i j) = pay_swap p" "check_result p (Inr state) (checked_payment p state i j)"
    if "is_safe i" "1 \<le> i" "is_safe j" "1 \<le> j" for state i j
    using pok full that texts
    by (cases state; auto simp: checked_payment_def Let_def payment_ok_def payment_rules_def complete_delivery_def check_result_def)+
  have failed: "payment_ok (rt_platform R) (rt_manifest R)
      (p\<lparr>pay_state := Pay_recoverable, pay_updatedAt := i, pay_error := described n e\<rparr>)" if "is_safe i" "1 \<le> i" for i n e
    using pok full that described_ok(1)[of n e] described_ok(2)[of e]
    by (auto simp: payment_ok_def payment_rules_def complete_delivery_def)
  have commits: "(case state of
           Spent \<Rightarrow>
             commitPayment R
               ((p\<lparr>pay_checkedAt := Some i, pay_updatedAt := j\<rparr>)\<lparr>pay_state := Pay_spent, pay_token := None, pay_payloadJson := None, pay_request := None,
                  pay_deliveryUrl := None, pay_retryable := None, pay_error := None\<rparr>) None
         | Unspent \<Rightarrow>
             if pay_retryable p = Some False then commitPayment R (p\<lparr>pay_checkedAt := Some i, pay_updatedAt := j\<rparr>) None
             else commitPayment R ((p\<lparr>pay_checkedAt := Some i, pay_updatedAt := j\<rparr>)\<lparr>pay_state := Pay_unspent, pay_error := None\<rparr>) None
         | Pending_spend \<Rightarrow>
             if pay_retryable p = Some False then commitPayment R (p\<lparr>pay_checkedAt := Some i, pay_updatedAt := j\<rparr>) None
             else commitPayment R ((p\<lparr>pay_checkedAt := Some i, pay_updatedAt := j\<rparr>)\<lparr>pay_state := Pay_pending, pay_error := Some (note_text Still_pending)\<rparr>) None
         | Mixed \<Rightarrow>
             commitPayment R ((p\<lparr>pay_checkedAt := Some i, pay_updatedAt := j\<rparr>)\<lparr>pay_state := Pay_recoverable, pay_error := Some (note_text Mixed_states)\<rparr>) None)
      = commitPayment R (checked_payment p state i j) None" for state i j
    by (cases state) (simp_all add: checked_payment_def Let_def)
  show ?thesis
    unfolding checkPayment_def
    apply (simp only: Let_def rejected commits outcome_bind assertRole_def outcome_read self full(3) simp_thms if_False not_True_eq_False
        outcome_guard)
    apply (simp only: ok simp_thms if_True)
    apply (rule vcg_catch, rule vcg_bind, rule port_each)
    subgoal by (rule total_rules now_total[OF ready(3)]
        commitPayment_total[OF ready(1,2), rotated -1, where role = Attendee and p = p])+
       (use s p q failed in \<open>auto simp: check_result_def\<close>)
    subgoal by (rule total_rules now_total[OF ready(3)]
        commitPayment_total[OF ready(1,2), rotated -1, where role = Attendee and p = p])+
       (use s p q failed in \<open>auto simp: check_result_def\<close>)
    done
qed

subsection \<open>Settling an order\<close>

lemma order_replaced_ok:
  assumes "snapshot_ok P m role n" "order_ok P m y" "x \<in> set (sn_orders n)" "ord_id y = ord_id x"
    "proofs_ok P ps" "\<forall>p \<in> set ps. \<forall>q \<in> set (reserved_proofs n). field p ''secret'' \<noteq> field q ''secret''"
  shows "snapshot_ok P m role (n\<lparr>sn_proofs := ps, sn_orders := replaceOrder (sn_orders n) y\<rparr>)"
  using assms unfolding snapshot_ok_def
  by (auto simp: replaceOrder_def list_all_upsert upsert_distinct reserved_proofs_def)

lemma commitOrder_total:
  assumes "market_ready R" "roomy R" "settled_session R role s" "x \<in> set (sn_orders (ss_snapshot s))"
    "order_ok (rt_platform R) (rt_manifest R) y" "ord_id y = ord_id x"
    "proofs_ok (rt_platform R) (given_or ps (sn_proofs (ss_snapshot s)))"
    "\<forall>p \<in> set (given_or ps (sn_proofs (ss_snapshot s))). \<forall>q \<in> set (reserved_proofs (ss_snapshot s)).
       field p ''secret'' \<noteq> field q ''secret''"
    and "\<And>t. settled_session R role t \<Longrightarrow>
      ss_snapshot t = (ss_snapshot s)\<lparr>sn_proofs := given_or ps (sn_proofs (ss_snapshot s)),
        sn_orders := replaceOrder (sn_orders (ss_snapshot s)) y\<rparr> \<Longrightarrow> ss_world t = ss_world s \<Longrightarrow> Q y t"
  shows "outcome (commitOrder R y ps) Q E s"
proof -
  have "snapshot_ok (rt_platform R) (rt_manifest R) role
      ((ss_snapshot s)\<lparr>sn_proofs := given_or ps (sn_proofs (ss_snapshot s)), sn_orders := replaceOrder (sn_orders (ss_snapshot s)) y\<rparr>)"
    by (rule order_replaced_ok) (use assms in \<open>simp_all add: settled_session_def\<close>)
  then show ?thesis
    unfolding commitOrder_def
    by (simp add: outcomes) (rule commit_total[where role = role], use assms in \<open>simp_all add: outcomes\<close>)
qed

text \<open>The answers of a mint that lets the order be settled.\<close>

definition settles_with :: "'w runtime \<Rightarrow> market_snapshot \<Rightarrow> vendor_order \<Rightarrow> swap_preview \<Rightarrow> cashu_proof list \<Rightarrow> bool" where
  "settles_with R n x swap fresh \<longleftrightarrow>
     (\<forall>w. fst (mw_completePreparedReceive (rt_wallet R) swap w) = Inr fresh) \<and>
     proofs_ok (rt_platform R) (sn_proofs n @ fresh) \<and>
     (\<forall>p \<in> set fresh. \<forall>q \<in> set (reserved_proofs n). field p ''secret'' \<noteq> field q ''secret'')"

definition token_fits :: "'w runtime \<Rightarrow> vendor_order \<Rightarrow> string \<Rightarrow> string \<Rightarrow> string \<Rightarrow> swap_preview \<Rightarrow> bool" where
  "token_fits R x token privateKey publicKey swap \<longleftrightarrow>
     (\<exists>it. mw_inspectToken (rt_wallet R) token = Inr it \<and>
        sameMint (new_url (rt_platform R)) (it_mint it) (em_mintUrl (rt_manifest R)) = Inr True \<and>
        to_lower (it_unit it) = ''rusd'' \<and> it_amount it = ord_amount x) \<and>
     mw_tokenIsLockedTo (rt_wallet R) token publicKey = Inr True \<and>
     (\<forall>w. fst (mw_checkTokenState (rt_wallet R) token w) = Inr Unspent) \<and>
     (\<forall>w. fst (mw_prepareReceive (rt_wallet R) token (Some privateKey) w) = Inr swap) \<and>
     sw_amount swap = Some (ord_amount x) \<and> swap_ok (rt_platform R) swap"

definition settlement_result :: "'w runtime \<Rightarrow> 'w session \<Rightarrow> vendor_order \<Rightarrow> cashu_proof list \<Rightarrow> vendor_order \<Rightarrow> 'w session \<Rightarrow> bool" where
  "settlement_result R s x fresh y t \<longleftrightarrow>
     settled_session R Vendor t \<and> y \<in> set (sn_orders (ss_snapshot t)) \<and> ord_id y = ord_id x \<and>
     ord_state y = Ord_settled \<and> ord_incomingToken y = None \<and> ord_incomingSwap y = None \<and> ord_privateKey y = None \<and>
     sn_proofs (ss_snapshot t) = sn_proofs (ss_snapshot s) @ fresh"

lemma complete_total:
  assumes ready: "market_ready R" "roomy R" "clock_ok R" and s: "settled_session R Vendor s"
    and x: "x \<in> set (sn_orders (ss_snapshot s))" "ord_incomingSwap x = Some swap"
    and mint: "settles_with R (ss_snapshot s) x swap fresh"
  shows "outcome (completeSettlement R x) (settlement_result R s x fresh) (\<lambda>_ _. False) s"
proof -
  define y where "y now = x\<lparr>ord_state := Ord_settled, ord_request := None, ord_requestDigest := None, ord_deliveryUrl := None,
      ord_writeCapability := None,
      ord_readCapability := (if ord_relayAcknowledged x = Some True then None else ord_readCapability x),
      ord_privateKey := None, ord_incomingToken := None, ord_incomingSwap := None, ord_updatedAt := now, ord_error := None\<rparr>" for now
  have "order_ok (rt_platform R) (rt_manifest R) x"
    using s x(1) by (auto simp: settled_session_def snapshot_ok_def list_all_iff)
  then have ok: "order_ok (rt_platform R) (rt_manifest R) (y i)" if "is_safe i" "1 \<le> i" for i
    using that unfolding order_ok_def by (elim conjE, intro conjI) (simp_all add: y_def order_rules_def)
  have apart: "\<forall>p \<in> set (sn_proofs (ss_snapshot s)). \<forall>q \<in> set (reserved_proofs (ss_snapshot s)). field p ''secret'' \<noteq> field q ''secret''"
    using s by (auto simp: settled_session_def snapshot_ok_def)
  show ?thesis
    unfolding completeSettlement_def y_def[symmetric]
    by (rule total_rules need_total[OF x(2)] moving_total[OF mint[unfolded settles_with_def, THEN conjunct1]]
        now_total[OF ready(3)] notify_total commitOrder_total[OF ready(1,2), rotated -1, where role = Vendor and x = x])+
       (use s x ok mint apart in
         \<open>auto simp: y_def given_or_def settles_with_def settlement_result_def replaceOrder_def\<close>)
qed

text \<open>The swap of a token that fits is stored before it is completed.\<close>

lemma check_token_total:
  assumes ready: "market_ready R" "roomy R" "clock_ok R" and s: "settled_session R Vendor s"
    and x: "x \<in> set (sn_orders (ss_snapshot s))" "ord_privateKey x \<noteq> None" "ord_publicKey x \<noteq> None"
    and fits: "token_fits R x token privateKey publicKey swap"
    and Q: "\<And>y t. settled_session R Vendor t \<Longrightarrow> y \<in> set (sn_orders (ss_snapshot t)) \<Longrightarrow>
      sn_proofs (ss_snapshot t) = sn_proofs (ss_snapshot s) \<Longrightarrow>
      reserved_proofs (ss_snapshot t) = reserved_proofs (ss_snapshot s) \<Longrightarrow> ord_id y = ord_id x \<Longrightarrow>
      ord_amount y = ord_amount x \<Longrightarrow> ord_incomingSwap y = Some swap \<Longrightarrow> Q (Inr y) t"
  shows "outcome (checkToken R x token privateKey publicKey) Q E s"
proof -
  define y where "y now = x\<lparr>ord_state := Ord_swapping, ord_incomingSwap := Some swap, ord_updatedAt := now, ord_error := None\<rparr>" for now
  have "order_ok (rt_platform R) (rt_manifest R) x"
    using s x(1) by (auto simp: settled_session_def snapshot_ok_def list_all_iff)
  then have ok: "order_ok (rt_platform R) (rt_manifest R) (y i)" if "is_safe i" "1 \<le> i" for i
    using that fits x(2,3) unfolding order_ok_def token_fits_def
    by (elim conjE, intro conjI) (simp_all add: y_def order_rules_def)
  have snap: "proofs_ok (rt_platform R) (sn_proofs (ss_snapshot s))"
    "\<forall>p \<in> set (sn_proofs (ss_snapshot s)). \<forall>q \<in> set (reserved_proofs (ss_snapshot s)). field p ''secret'' \<noteq> field q ''secret''"
    using s by (auto simp: settled_session_def snapshot_ok_def)
  obtain it where token: "mw_inspectToken (rt_wallet R) token = Inr it"
      "sameMint (new_url (rt_platform R)) (it_mint it) (em_mintUrl (rt_manifest R)) = Inr True"
      "to_lower (it_unit it) = ''rusd''" "it_amount it = ord_amount x"
      "mw_tokenIsLockedTo (rt_wallet R) token publicKey = Inr True"
    and unspent: "\<forall>w. fst (mw_checkTokenState (rt_wallet R) token w) = Inr Unspent"
    and prepared: "\<forall>w. fst (mw_prepareReceive (rt_wallet R) token (Some privateKey) w) = Inr swap"
    and amount: "sw_amount swap = Some (ord_amount x)"
    using fits by (auto simp: token_fits_def)
  have same: "reserved_proofs (n\<lparr>sn_proofs := ps, sn_orders := xs\<rparr>) = reserved_proofs n"
    "reserved_proofs (n\<lparr>sn_orders := xs\<rparr>) = reserved_proofs n" for n ps xs
    by (simp_all add: reserved_proofs_def)
  show ?thesis
    unfolding checkToken_def token outcome_bind outcome_lift
    apply (simp only: sum.case token simp_thms if_False not_True_eq_False outcome_lift outcome_bind)
    apply (rule port_total[OF unspent])
    apply (simp only: spend_state.case outcome_bind)
    apply (rule port_total[OF prepared])
    apply (simp only: amount simp_thms if_False not_True_eq_False)
    apply (fold y_def)
    by (rule total_rules now_total[OF ready(3)] commitOrder_total[OF ready(1,2), rotated -1, where role = Vendor and x = x])+
      (use s x ok snap in \<open>auto simp: y_def given_or_def replaceOrder_def same intro!: Q\<close>)
qed

lemma settle_total:
  assumes ready: "market_ready R" "roomy R" "clock_ok R" and s: "settled_session R Vendor s"
    and x: "x \<in> set (sn_orders (ss_snapshot s))"
    and mint: "settles_with R (ss_snapshot s) x swap fresh"
    and stored: "ord_incomingSwap x = Some swap \<or>
      ord_incomingSwap x = None \<and>
      (\<exists>token privateKey publicKey. ord_incomingToken x = Some token \<and> token \<noteq> [] \<and>
         ord_privateKey x = Some privateKey \<and> privateKey \<noteq> [] \<and> ord_publicKey x = Some publicKey \<and> publicKey \<noteq> [] \<and>
         token_fits R x token privateKey publicKey swap)"
  shows "outcome (settleOrder R x) (settlement_result R s x fresh) (\<lambda>_ _. False) s"
proof -
  note ok = s[unfolded settled_session_def snapshot_ok_def]
  have self: "found_or ord_id (sn_orders (ss_snapshot s)) x = x" using ok x by (intro found_self) simp_all
  have role: "sn_role (ss_snapshot s) = Vendor" using ok by simp
  show ?thesis
    using stored
  proof
    assume swap: "ord_incomingSwap x = Some swap"
    have "outcome (completeSettlement R x) (settlement_result R s x fresh)
        (\<lambda>e. outcome (orderRecoverable R x e) (settlement_result R s x fresh) (\<lambda>_ _. False)) s"
      by (rule outcome_mono[OF complete_total[OF ready s x swap mint]]) simp_all
    then show ?thesis
      unfolding settleOrder_def by (simp add: outcomes assertRole_def found_order_def self role swap)
  next
    assume "ord_incomingSwap x = None \<and>
      (\<exists>token privateKey publicKey. ord_incomingToken x = Some token \<and> token \<noteq> [] \<and>
         ord_privateKey x = Some privateKey \<and> privateKey \<noteq> [] \<and> ord_publicKey x = Some publicKey \<and> publicKey \<noteq> [] \<and>
         token_fits R x token privateKey publicKey swap)"
    then obtain token privateKey publicKey where swap: "ord_incomingSwap x = None" and
      parts: "ord_incomingToken x = Some token" "token \<noteq> []" "ord_privateKey x = Some privateKey" "privateKey \<noteq> []"
        "ord_publicKey x = Some publicKey" "publicKey \<noteq> []" "token_fits R x token privateKey publicKey swap" by blast
    define v where "v now = x\<lparr>ord_state := Ord_validating, ord_updatedAt := now, ord_error := None\<rparr>" for now
    have "order_ok (rt_platform R) (rt_manifest R) x"
      using ok x(1) by (auto simp: list_all_iff)
    then have v_ok: "order_ok (rt_platform R) (rt_manifest R) (v i)" if "is_safe i" "1 \<le> i" for i
      using that parts swap unfolding order_ok_def by (elim conjE, intro conjI) (simp_all add: v_def order_rules_def)
    have fits: "token_fits R (v i) token privateKey publicKey swap" for i
      using parts(7) by (simp add: token_fits_def v_def)
    show ?thesis
      unfolding settleOrder_def
      apply (simp add: outcomes assertRole_def found_order_def self role swap)
      apply (fold v_def)
      apply (rule total_rules needText_total[OF parts(1,2)] needText_total[OF parts(3,4)] needText_total[OF parts(5,6)]
        now_total[OF ready(3)] commitOrder_total[OF ready(1,2), rotated -1, where role = Vendor and x = x])+
      subgoal for i w t
        apply (simp only: prod.case)
        apply (rule vcg_try)
        apply (rule check_token_total[OF ready _ _ _ _ fits[of i]])
        apply assumption
        apply (simp add: replaceOrder_def)
        apply (simp add: v_def parts)
        apply (simp add: v_def parts)
        apply (simp only: sum.case)
        apply (rule vcg_catch)
        subgoal for y u
          using complete_total[OF ready, of u y swap fresh] mint
          apply (auto simp: settles_with_def settlement_result_def v_def given_or_def reserved_proofs_def intro: outcome_mono)
          done
        done
      by (use s x v_ok ok in \<open>auto simp: given_or_def v_def\<close>)
  qed
qed

end
