(* ===== verification/Market_Background.thy ===== *)
theory Market_Background
  imports Market_Progress Market_Safety
begin

section \<open>What the background timer gets done\<close>

text \<open>
  The timer takes up the first open record of the first kind that has one. An order whose registration
  was never confirmed and whose request has expired stays open for ever: registering it again checks
  the request and fails. While such an order is the first open one, the timer polls nothing else.
\<close>

definition hopeless :: "'w runtime \<Rightarrow> vendor_order \<Rightarrow> bool" where
  "hopeless R x \<longleftrightarrow>
     ord_state x \<in> {Ord_registering, Ord_recoverable} \<and> ord_relayRegistered x \<noteq> Some True \<and>
     \<not> truthy_text (ord_incomingToken x) \<and> ord_incomingSwap x = None \<and>
     (\<exists>request. ord_request x = Some request \<and>
        (\<forall>w. \<exists>e. validateEventPaymentRequest (rt_platform R) (rt_manifest R) request max_safe_number
           (fst (rt_now R w) div 1000) = Inl e))"

definition blocked_by :: "'w runtime \<Rightarrow> string \<Rightarrow> 'w session \<Rightarrow> bool" where
  "blocked_by R i s \<longleftrightarrow>
     (\<exists>n. synced R Vendor s n) \<and>
     (\<exists>x. find order_open (sn_orders (ss_snapshot s)) = Some x \<and> ord_id x = i \<and> hopeless R x)"

lemma hopeless_open: "hopeless R x \<Longrightarrow> order_open x"
  by (auto simp: hopeless_def order_open_def)

lemma hopeless_same: "same_order P x y \<Longrightarrow> hopeless R y = hopeless R x \<and> order_open y = order_open x \<and> ord_id y = ord_id x"
  by (cases x; cases y) (auto simp: same_order_def hopeless_def order_open_def)

lemma find_all2:
  "list_all2 r xs ys \<Longrightarrow> (\<And>x y. r x y \<Longrightarrow> P y = P x) \<Longrightarrow> rel_option r (find P xs) (find P ys)"
  by (induction rule: list_all2_induct) auto

lemma find_upsert_first:
  assumes "find P xs = Some x" "distinct (map key xs)" "key y = key x" "P y"
  shows "find P (upsert key xs y) = Some y"
proof -
  have "find P (map (\<lambda>r. if key r = key y then y else r) xs) = Some y"
    using assms
  proof (induction xs)
    case (Cons a xs)
    show ?case
    proof (cases "P a")
      case False
      with Cons.prems have "find P xs = Some x" by simp
      then have "x \<in> set xs" by (auto dest: find_SomeD)
      with Cons.prems have "key a \<noteq> key y" by auto
      with False Cons show ?thesis by simp
    qed (use Cons.prems in simp)
  qed simp
  moreover have "\<exists>r \<in> set xs. key r = key y" using assms(1,3) by (auto dest: find_SomeD)
  ultimately show ?thesis by (simp add: upsert_def)
qed

lemma blocked_world [simp]: "blocked_by R i (s\<lparr>ss_world := w\<rparr>) = blocked_by R i s"
  by (simp add: blocked_by_def synced_def)

text \<open>Loading the stored snapshot does not change which order comes first.\<close>

lemma blocked_loaded:
  assumes "market_ready R" "blocked_by R i s" "synced R Vendor s n"
  shows "blocked_by R i (s\<lparr>ss_snapshot := n\<rparr>)"
proof -
  obtain x where x: "find order_open (sn_orders (ss_snapshot s)) = Some x" "ord_id x = i" "hopeless R x"
    using assms(2) by (auto simp: blocked_by_def)
  have "rel_option (same_order (rt_platform R)) (find order_open (sn_orders (ss_snapshot s))) (find order_open (sn_orders n))"
    using synced_same[OF assms(3)] by (intro find_all2) (auto simp: same_snapshot_def dest: hopeless_same)
  then obtain y where "find order_open (sn_orders n) = Some y" "same_order (rt_platform R) x y"
    using x(1) by (auto simp: option_rel_Some1)
  moreover have "\<exists>n'. synced R Vendor (s\<lparr>ss_snapshot := n\<rparr>) n'"
    using synced_load(1)[OF assms(1,3)] by (auto simp: loaded_def)
  ultimately show ?thesis using x hopeless_same by (fastforce simp: blocked_by_def)
qed

text \<open>Registering it again fails and stores a record of the same kind.\<close>

lemma blocked_register:
  assumes ready: "market_ready R" and s: "blocked_by R i s" and x: "ord_id x = i"
    and log: "ss_calls s = calls"
  shows "outcome (registerStoredOrder R x) (\<lambda>_ t. blocked_by R i t \<and> ss_calls t = calls)
    (\<lambda>_ t. blocked_by R i t \<and> ss_calls t = calls) s"
proof -
  obtain n y where sync: "synced R Vendor s n" and y: "find order_open (sn_orders (ss_snapshot s)) = Some y"
      "ord_id y = i" "hopeless R y"
    using s by (auto simp: blocked_by_def)
  have ids: "distinct (map ord_id (sn_orders (ss_snapshot s)))" by (rule memory_orders(1)[OF ready sync])
  have mem: "y \<in> set (sn_orders (ss_snapshot s))" using y(1) by (auto dest: find_SomeD)
  have role: "sn_role (ss_snapshot s) = Vendor" using sync by (simp add: synced_def)
  have self: "found_or ord_id (sn_orders (ss_snapshot s)) x = y"
    using found_or_stored[of "sn_orders (ss_snapshot s)" ord_id x] mem ids x y(2) by (metis distinct_map inj_onD)
  have request: "outcome (storedRequest R y) (\<lambda>_ _. False) (\<lambda>_ t. \<exists>w. t = s\<lparr>ss_world := w\<rparr>) s"
  proof -
    have same: "\<exists>w. s = s\<lparr>ss_world := w\<rparr>" by (rule exI[of _ "ss_world s"]) simp
    have "outcome (checkRequest R request max_safe_number) (\<lambda>_ _. False) (\<lambda>_ t. \<exists>w. t = s\<lparr>ss_world := w\<rparr>) s"
      if "ord_request y = Some request" for request
    proof -
      have "\<exists>e. validateEventPaymentRequest (rt_platform R) (rt_manifest R) request max_safe_number
          (fst (rt_now R (ss_world s)) div 1000) = Inl e"
        using y(3) that by (auto simp: hopeless_def)
      then show ?thesis by (auto simp: checkRequest_def nowM_def outcomes split: prod.splits)
    qed
    then show ?thesis
      unfolding storedRequest_def using same
      by - (rule vcg_bind vcg_needText | assumption | simp add: outcome_mono)+
  qed
  have again: "outcome (orderRecoverable R y e) (\<lambda>_ t. blocked_by R i t \<and> ss_calls t = calls)
      (\<lambda>_ t. blocked_by R i t \<and> ss_calls t = calls) (s\<lparr>ss_world := w\<rparr>)" for e w
  proof -
    define z where "z now = y\<lparr>ord_state := Ord_recoverable, ord_updatedAt := now, ord_error := Some (describe e)\<rparr>" for now
    have commit: "blocked_by R i (committed_as ((ss_snapshot s)\<lparr>sn_orders := replaceOrder (sn_orders (ss_snapshot s)) (z now)\<rparr>) store u)"
      if u: "u = s\<lparr>ss_world := v\<rparr>" and st: "stores R u ((ss_snapshot s)\<lparr>sn_orders := replaceOrder (sn_orders (ss_snapshot s)) (z now)\<rparr>) store"
      for u v now store
    proof -
      have "ord_step y (z now)" using y(3) by (auto simp: ord_step_def z_def hopeless_def)
      then have "snapshot_change R (ss_calls u) (ss_snapshot u) ((ss_snapshot s)\<lparr>sn_orders := replaceOrder (sn_orders (ss_snapshot s)) (z now)\<rparr>)"
        using Ord_update[of y "ss_snapshot u"] mem by (simp add: u)
      then have step: "market_step R Vendor u (committed_as ((ss_snapshot s)\<lparr>sn_orders := replaceOrder (sn_orders (ss_snapshot s)) (z now)\<rparr>) store u)"
        by (intro Step_move Move_commit[OF st])
      have "synced R Vendor u n" using sync by (simp add: u synced_def)
      from synced_step[OF ready this step] have "\<exists>n'. synced R Vendor (committed_as ((ss_snapshot s)\<lparr>sn_orders := replaceOrder (sn_orders (ss_snapshot s)) (z now)\<rparr>) store u) n'" .
      moreover have "hopeless R (z now)" using y(3) by (simp add: hopeless_def z_def)
      moreover have "find order_open (replaceOrder (sn_orders (ss_snapshot s)) (z now)) = Some (z now)"
        unfolding replaceOrder_def using y ids hopeless_open[OF calculation(2)]
        by (intro find_upsert_first[of _ _ y]) (simp_all add: z_def)
      ultimately show ?thesis using y(2) by (simp add: blocked_by_def z_def)
    qed
    show ?thesis
      unfolding orderRecoverable_def commitOrder_def z_def[symmetric] nowM_def given_or_def
      by (simp add: outcomes split: prod.split)
         (intro allI impI, rule outcome_commit, use s log commit in \<open>auto simp: outcomes\<close>)
  qed
  show ?thesis
    unfolding registerStoredOrder_def assertRole_def found_order_def
    by (simp add: outcomes role self, rule outcome_mono[OF request]) (use again in auto)
qed

text \<open>An application whose timer runs.\<close>

definition runs_background :: "'w app \<Rightarrow> bool" where
  "runs_background app \<longleftrightarrow> ap_role app = Vendor \<and> ap_status app = Online \<and> \<not> truthy_text (ap_storageError app)"

lemma blocked_poll:
  assumes ready: "market_ready R" and app: "runs_background app" and s: "blocked_by R i s"
    and x: "ord_id x = i" "hopeless R x" and log: "ss_calls s = calls"
  shows "outcome (call_pollOrder R app x) (\<lambda>_ t. blocked_by R i t \<and> ss_calls t = calls)
    (\<lambda>_ t. blocked_by R i t \<and> ss_calls t = calls) s"
proof -
  obtain n where sync: "synced R Vendor s n" using s by (auto simp: blocked_by_def)
  have register: "(if ord_state x = Ord_cancelling then cancelOrder R x
        else if ord_relayRegistered x \<noteq> Some True \<and> \<not> truthy_text (ord_incomingToken x) \<and> ord_incomingSwap x = None
        then registerStoredOrder R x else pollOrder R x) = registerStoredOrder R x"
    using x(2) by (auto simp: hopeless_def)
  have load: "reloadStoredSnapshot R Vendor s = (Inr (), s\<lparr>ss_snapshot := n\<rparr>)"
    using sync by (simp add: reloadStoredSnapshot_def synced_def)
  have "outcome (registerStoredOrder R x) (\<lambda>_ t. blocked_by R i t \<and> ss_calls t = calls)
      (\<lambda>_ t. blocked_by R i t \<and> ss_calls t = calls) (s\<lparr>ss_snapshot := n\<rparr>)"
    by (rule blocked_register[OF ready blocked_loaded[OF ready s sync] x(1)]) (simp add: log)
  then show ?thesis
    using app unfolding call_pollOrder_def register runLocked_def requireRuntime_def
    by (simp add: outcomes runs_background_def) (simp add: outcome_def load)
qed

lemma blocked_resume:
  assumes ready: "market_ready R" and app: "runs_background app" and s: "blocked_by R i (ap_session app)"
  shows "runs_background (resume R B app)" "blocked_by R i (ap_session (resume R B app))"
    "ss_calls (ap_session (resume R B app)) = ss_calls (ap_session app)"
    "\<exists>x. next_task Vendor (ss_snapshot (ap_session app)) = Some (Poll_order x) \<and> ord_id x = i"
proof -
  obtain x where x: "find order_open (sn_orders (ss_snapshot (ap_session app))) = Some x" "ord_id x = i" "hopeless R x"
    using s by (auto simp: blocked_by_def)
  then have "next_task Vendor (ss_snapshot (ap_session app)) = Some (Poll_order x)"
    by (simp add: next_task_def split: option.splits)
  then have step: "resume R B app = perform R B (Poll_order x) app"
    and "\<exists>x. next_task Vendor (ss_snapshot (ap_session app)) = Some (Poll_order x) \<and> ord_id x = i"
    using app x(2) by (auto simp: resume_def runs_background_def)
  then show "\<exists>x. next_task Vendor (ss_snapshot (ap_session app)) = Some (Poll_order x) \<and> ord_id x = i" by simp
  have "outcome (task_op R B app (Poll_order x)) (\<lambda>_ t. blocked_by R i t \<and> ss_calls t = ss_calls (ap_session app))
      (\<lambda>_ t. blocked_by R i t \<and> ss_calls t = ss_calls (ap_session app)) (ap_session app)"
    using blocked_poll[OF ready app s x(2,3) refl]
    by (simp add: task_op_def outcome_ignored)
  then show "blocked_by R i (ap_session (resume R B app))" "ss_calls (ap_session (resume R B app)) = ss_calls (ap_session app)"
    by (simp_all add: step perform_def outcome_snd)
  show "runs_background (resume R B app)" using app by (simp add: step perform_def runs_background_def)
qed

lemma blocked_forever:
  assumes "market_ready R" "runs_background app" "blocked_by R i (ap_session app)"
  shows "runs_background ((resume R B ^^ k) app) \<and> blocked_by R i (ap_session ((resume R B ^^ k) app)) \<and>
    ss_calls (ap_session ((resume R B ^^ k) app)) = ss_calls (ap_session app)"
  using assms by (induction k) (simp_all add: blocked_resume(1-3)[where i = i])

end
