(* ===== verification/Market_Requests.thy ===== *)
theory Market_Requests
  imports Market_Background Relay_Protocol
begin

section \<open>Charges across the vendor, the attendee and the relay\<close>

text \<open>
  The amount of an order is the exact sum of its items. What a vendor creates is accepted by the
  attendee's checks while it has not expired, and its registration by the relay's parser.
\<close>

subsection \<open>Amounts\<close>

lemma items_fold:
  assumes "list_all item_chargeable xs" "0 \<le> a"
    "is_safe (foldl (\<lambda>so_far x. js_add so_far (js_mul (oi_unitPrice x) (oi_quantity x))) a xs)"
  shows "foldl (\<lambda>so_far x. js_add so_far (js_mul (oi_unitPrice x) (oi_quantity x))) a xs = a + order_total xs"
    and "is_safe a"
proof -
  have "is_safe a \<and> foldl (\<lambda>so_far x. js_add so_far (js_mul (oi_unitPrice x) (oi_quantity x))) a xs = a + order_total xs"
    using assms
  proof (induction xs arbitrary: a)
    case (Cons x xs)
    let ?m = "js_mul (oi_unitPrice x) (oi_quantity x)"
    have pos: "0 \<le> oi_unitPrice x * oi_quantity x" using Cons.prems(1) by (simp add: item_chargeable_def)
    then have m: "0 \<le> ?m" by (simp add: js_mul_def js_round_nonneg)
    have next_pos: "0 \<le> js_add a ?m" using m Cons.prems(2) by (simp add: js_add_def js_round_nonneg)
    have IH: "is_safe (js_add a ?m)" "foldl (\<lambda>so_far x. js_add so_far (js_mul (oi_unitPrice x) (oi_quantity x))) (js_add a ?m) xs =
        js_add a ?m + order_total xs"
      using Cons.IH[OF _ next_pos] Cons.prems by simp_all
    from IH(1) have sum: "is_safe (a + ?m)" by (simp add: is_safe_js_add)
    then have "is_safe a" "is_safe ?m" using m Cons.prems(2) by (auto intro: is_safe_mono)
    moreover from this(2) have "?m = oi_unitPrice x * oi_quantity x" by (simp add: is_safe_js_mul js_mul_exact)
    ultimately show ?case
      using IH(2) sum by (simp add: js_add_exact order_total_def mult.commute)
  qed (simp add: order_total_def)
  then show "foldl (\<lambda>so_far x. js_add so_far (js_mul (oi_unitPrice x) (oi_quantity x))) a xs = a + order_total xs" "is_safe a"
    by simp_all
qed

lemma items_amount_exact:
  "list_all item_chargeable xs \<Longrightarrow> is_safe (items_amount xs) \<Longrightarrow> items_amount xs = order_total xs"
  using items_fold(1)[of xs 0] by (simp add: items_amount_def)

text \<open>The other way: a sum that fits is computed.\<close>

lemma items_amount_complete:
  assumes "list_all item_chargeable xs" "is_safe (order_total xs)"
  shows "items_amount xs = order_total xs"
proof -
  have "foldl (\<lambda>so_far x. js_add so_far (js_mul (oi_unitPrice x) (oi_quantity x))) a xs = a + order_total xs"
    if "0 \<le> a" "is_safe (a + order_total xs)" for a
    using assms(1) that
  proof (induction xs arbitrary: a)
    case (Cons x xs)
    let ?p = "oi_quantity x * oi_unitPrice x"
    have pos: "0 \<le> ?p" using Cons.prems(1) by (simp add: item_chargeable_def)
    have rest: "0 \<le> order_total xs"
      using Cons.prems(1) by (fastforce simp: order_total_def list_all_iff item_chargeable_def intro!: sum_list_nonneg)
    have total: "is_safe (a + ?p + order_total xs)" using Cons.prems(3) by (simp add: order_total_def add.assoc)
    then have "is_safe ?p" "is_safe (a + ?p)" using pos rest Cons.prems(2) by (auto intro: is_safe_mono)
    then have "js_add a (js_mul (oi_unitPrice x) (oi_quantity x)) = a + ?p"
      by (simp add: js_mul_exact js_add_exact mult.commute)
    with Cons.IH[of "a + ?p"] Cons.prems(1,2) pos total show ?case by (simp add: order_total_def)
  qed (simp add: order_total_def)
  from this[of 0] assms(2) show ?thesis by (simp add: items_amount_def)
qed

lemma outcome_any: "(\<And>x t. Q x t) \<Longrightarrow> (\<And>e t. E e t) \<Longrightarrow> outcome m Q E s"
  by (auto simp: outcome_def split: prod.splits sum.splits)

lemma commitOrder_returns: "outcome (commitOrder R x ps) (\<lambda>y _. y = x) (\<lambda>_ _. True) s"
  by (auto simp: commitOrder_def outcomes intro: outcome_any)

lemma create_order_amount:
  "outcome (createOrder R items)
     (\<lambda>x _. ord_items x = items \<and> ord_amount x = order_total items \<and> 0 < ord_amount x \<and> is_safe (ord_amount x)) (\<lambda>_ _. True) s"
proof -
  note calls = outcome_any[where m = "nowM R"] outcome_any[where m = "entropyM R"]
    outcome_any[where m = "movingM c g f" for c g f] outcome_mono[OF commitOrder_returns]
  show ?thesis
    unfolding createOrder_def registerOrder_def assertRole_def
    by (rule vcg_bind vcg_catch vcg_guard vcg_lift vcg_let vcg_read calls TrueI |
        (auto simp: order_of_request_def items_amount_exact[symmetric]; fail))+
qed

subsection \<open>Capabilities\<close>

lemma char_code: "c = d \<longleftrightarrow> (of_char c :: nat) = of_char d"
  by simp

lemma b64_char_code:
  assumes "d < 64"
  shows "of_char (b64_char d) =
    (if d < 26 then 65 + d else if d < 52 then 71 + d else if d < 62 then d - 4 else if d = 62 then 43 else 47 :: nat)"
  using assms by (auto simp: b64_char_def)

lemma url_safe_code:
  "of_char (url_safe c) = (if of_char c = (43 :: nat) then 45 else if of_char c = (47 :: nat) then 95 else of_char c :: nat)"
proof -
  have "(of_char CHR ''+'' :: nat) = 43" "(of_char CHR ''/'' :: nat) = 47" "(of_char CHR ''-'' :: nat) = 45"
    "(of_char CHR ''_'' :: nat) = 95" by simp_all
  then show ?thesis unfolding url_safe_def char_code by auto
qed

lemma b64_char_safe: "d < 64 \<Longrightarrow> is_b64url (url_safe (b64_char d)) \<and> b64_char d \<noteq> CHR ''=''"
proof -
  assume d: "d < 64"
  have "(of_char CHR ''='' :: nat) = 61" by simp
  then show ?thesis
    unfolding is_b64url_def url_safe_code char_code b64_char_code[OF d] using d by auto
qed

lemma b64_digits_safe:
  "length (b64_digits k n) = k" "c \<in> set (b64_digits k n) \<Longrightarrow> is_b64url (url_safe c) \<and> c \<noteq> CHR ''=''"
  using b64_char_safe by (auto simp: b64_digits_def)

lemma base64_two_left:
  "length bs mod 3 = 2 \<Longrightarrow> \<exists>body. base64 bs = body @ ''='' \<and> length body = 4 * (length bs div 3) + 3 \<and>
     (\<forall>c \<in> set body. is_b64url (url_safe c) \<and> c \<noteq> CHR ''='')"
proof (induction bs rule: base64.induct)
  case (3 a b)
  show ?case using b64_digits_safe by (intro exI[of _ "b64_digits 3 (65536 * unat a + 256 * unat b)"]) auto
next
  case (4 a b c rest)
  have "length rest mod 3 = 2" using "4.prems" by (simp add: mod_Suc split: if_splits)
  with "4.IH" obtain body where body: "base64 rest = body @ ''=''" "length body = 4 * (length rest div 3) + 3"
      "\<forall>c \<in> set body. is_b64url (url_safe c) \<and> c \<noteq> CHR ''=''" by blast
  have len: "length (a # b # c # rest) div 3 = Suc (length rest div 3)" by simp
  define block where "block = b64_digits 4 (65536 * unat a + 256 * unat b + unat c)"
  have block: "length block = 4" "\<forall>c \<in> set block. is_b64url (url_safe c) \<and> c \<noteq> CHR ''=''"
    using b64_digits_safe by (simp_all only: block_def, blast)
  have "base64 (a # b # c # rest) = (block @ body) @ ''=''"
    by (simp only: base64.simps body(1) block_def append_assoc)
  moreover have "length (block @ body) = 4 * (length (a # b # c # rest) div 3) + 3"
    by (simp only: len length_append block(1) body(2)) simp
  moreover have "\<forall>c \<in> set (block @ body). is_b64url (url_safe c) \<and> c \<noteq> CHR ''=''"
    using block(2) body(3) by (simp only: set_append ball_Un simp_thms)
  ultimately show ?case by blast
qed simp_all

lemma randomCapability_body:
  assumes "length bs = 32"
  shows "randomCapability bs = take 43 (map url_safe (base64 bs)) \<and> chars_between is_b64url 43 43 (randomCapability bs)"
proof -
  obtain body where body: "base64 bs = body @ ''=''" "length body = 43"
      "\<forall>c \<in> set body. is_b64url (url_safe c) \<and> c \<noteq> CHR ''=''"
    using base64_two_left[of bs] assms by auto
  have "url_safe c \<noteq> CHR ''=''" if "c \<in> set body" for c
    using body(3) that by (auto simp: url_safe_def split: if_splits)
  then have "dropWhile (\<lambda>c. c = CHR ''='') (rev (map url_safe body)) = rev (map url_safe body)"
    using body(2) by (cases "rev body") (auto simp: rev_map dropWhile_eq_self_iff)
  then have "randomCapability bs = map url_safe body"
    using body(1) by (simp add: randomCapability_def url_safe_def)
  with body show ?thesis by (auto simp: chars_between_def list_all_iff)
qed

lemmas randomCapability_chars = randomCapability_body[THEN conjunct2]

lemma randomCapability_first:
  assumes "length bs = 32" "bs = a # b # c # rest"
  shows "\<exists>cs. randomCapability bs = url_safe (b64_char ((65536 * unat a + 256 * unat b + unat c) div 262144 mod 64)) # cs"
proof -
  have first: "b64_digits 4 n = b64_char (n div 262144 mod 64) # map (\<lambda>i. b64_char (n div 64 ^ (3 - i) mod 64)) [1..<4]" for n
    unfolding b64_digits_def by (subst upt_conv_Cons) simp_all
  have taken: "\<exists>cs. take 43 (map f (x # xs)) = f x # cs" for f :: "char \<Rightarrow> char" and x xs
    by (simp add: take_Cons')
  show ?thesis
    using randomCapability_body[OF assms(1)] taken
    unfolding assms(2) base64.simps first append_Cons by metis
qed

lemma capability_texts:
  assumes "length bs = 32"
  shows "is_capability (randomCapability bs)" "is_order_id (''order_'' @ take 32 (randomCapability bs))"
    "is_delivery_path (''/v1/deliver/'' @ randomCapability bs)" "length (randomCapability bs) = 43"
  using randomCapability_chars[OF assms]
  by (auto simp: is_capability_def is_order_id_def is_delivery_path_def starts_with_def chars_between_def list_all_iff
      dest: in_set_takeD)
     (simp_all add: is_b64url_def char_simps)

subsection \<open>A charge, read by the attendee\<close>

lemma expiry_number: "0 \<le> i \<Longrightarrow> is_safe i \<Longrightarrow> js_number N (int_text i) = JInt i"
  by (simp add: js_number_def int_text_def number_of_digits_def is_digit_text_def nat_text_nonempty nat_text_digits
      js_round_exact)

text \<open>What the code relies on of the package: a request reads back from its text, and its lock is that of its \<open>nut10\<close> part.\<close>

definition request_codec :: "cashu \<Rightarrow> bool" where
  "request_codec C \<longleftrightarrow>
     (\<forall>q. decode_request C (encode_request C q) = Some q \<and> is_request_text (encode_request C q) \<and>
        trim (encode_request C q) = encode_request C q) \<and>
     (\<forall>q n. rr_nut10 q = Some n \<longrightarrow> n10_kind n = ''P2PK'' \<longrightarrow> n10_tags n = Some [] \<longrightarrow>
        lock_options C q = Inr (Some \<lparr>lk_pubkey = n10_data n, lk_locktime = None, lk_refundKeys = [], lk_signatures = None\<rparr>))"

text \<open>What it relies on of \<open>new URL\<close>: an origin and a path that are written together are read apart, and a
  normal form is its own normal form.\<close>

definition url_laws :: "url_parser \<Rightarrow> string \<Rightarrow> bool" where
  "url_laws U base \<longleftrightarrow>
     (\<forall>path. is_delivery_path path \<longrightarrow>
        (\<exists>u. U (base @ path) = Some u \<and> url_origin u = base \<and> pathname u = path \<and> username u = [] \<and> password u = [] \<and>
           search u = [] \<and> hash u = [])) \<and>
     (\<forall>v t. normalizeMintUrl U v = Inr t \<longrightarrow> normalizeMintUrl U t = Inr t)"

lemma validate_created:
  assumes made: "createVendorRequest P H public m vendor amount description now rnd = Inr c"
    and bytes: "length (ve_order rnd) = 32" "length (ve_write rnd) = 32" "public (ve_secret rnd) \<noteq> []"
    and laws: "request_codec (package P)" "url_laws (new_url P) (em_relayOrigin m)"
    and vendor: "vendor \<in> set (em_vendors m)" "distinct (map vm_id (em_vendors m))" and unit: "em_unit m \<noteq> []" "to_lower (em_unit m) = em_unit m"
    and desc: "trim description = description" "description \<noteq> []"
    and time: "0 \<le> now" "is_safe (now + 300)" "t < now + 300" "now \<le> t + 300"
    and funds: "\<not> num_less balance (Some amount)"
  shows "\<exists>v. validateEventPaymentRequest P m (dr_encoded (cr_request c)) balance t = Inr v \<and> vr_request v = cr_request c \<and>
    vr_orderId v = cr_orderId c \<and> vr_vendor v = vendor \<and> vr_expiresAt v = cr_expiresAt c \<and>
    vr_deliveryUrl v = cr_deliveryUrl c \<and> vr_lockPublicKey v = cr_publicKey c \<and> dr_amount (vr_request v) = Some amount"
proof -
  define given where "given = ''order_'' @ take 32 (randomCapability (ve_order rnd))"
  define url where "url = em_relayOrigin m @ ''/v1/deliver/'' @ randomCapability (ve_write rnd)"
  define pkey where "pkey = bytesToHex (public (ve_secret rnd))"
  define transport where "transport = \<lparr>tp_type = POST, tp_target = url,
     tp_tags = Some [[''event_id'', em_id m], [''vendor_id'', vm_id vendor], [''expires_at'', int_text (now + 300)]]\<rparr>"
  obtain request where safe: "is_safe amount" "0 < amount"
    and made': "createPaymentRequest (new_url P) (package P) [] amount (em_unit m) (em_mintUrl m) description
       (Some given) (Some [transport]) (Some \<lparr>n10_kind = ''P2PK'', n10_data = pkey, n10_tags = Some []\<rparr>) = Inr request"
    and c: "cr_orderId c = given" "cr_deliveryUrl c = url" "cr_expiresAt c = now + 300" "cr_publicKey c = pkey"
      "cr_request c = request"
    using made unfolding createVendorRequest_def Let_def bindR_Inr guardR_Inr given_def[symmetric] url_def[symmetric]
      pkey_def[symmetric] transport_def[symmetric]
    by (elim exE conjE, simp only: sum.inject, hypsubst) simp
  obtain mint where mint: "normalizeMintUrl (new_url P) (em_mintUrl m) = Inr mint"
    using made' unfolding createPaymentRequest_def Let_def bindR_Inr by (elim exE conjE)
  note codec = laws(1)[unfolded request_codec_def]
  have order: "cr_orderId c \<noteq> []" and key: "cr_publicKey c \<noteq> []"
    using bytes(3) by (auto simp: c given_def pkey_def bytesToHex_def byte_hex_def neq_Nil_conv)
  have decoded: "decodePaymentRequest (new_url P) (package P) (dr_encoded (cr_request c)) = Inr (cr_request c)"
    unfolding c(5) by (rule decode_created[OF made'])
       (use codec laws(2) safe unit desc \<open>cr_orderId c \<noteq> []\<close> c(1) in \<open>auto simp: url_laws_def\<close>)
  define q where "q = cr_request c"
  define raw where "raw = \<lparr>rr_transport = Some [transport], rr_id = Some (cr_orderId c), rr_amount = Some (Some amount),
             rr_unit = Some (em_unit m), rr_mints = Some [mint], rr_description = Some description, rr_singleUse = True,
             rr_nut10 = Some \<lparr>n10_kind = ''P2PK'', n10_data = cr_publicKey c, n10_tags = Some []\<rparr>\<rparr>"
  have q: "cr_request c = \<lparr>dr_id = Some (cr_orderId c), dr_amount = Some amount, dr_unit = em_unit m, dr_mints = [mint],
            dr_description = description, dr_singleUse = True, dr_transport = [transport],
            dr_nut10 = rr_nut10 raw, dr_encoded = encode_request (package P) raw\<rparr>"
    using made' by (simp add: createPaymentRequest_def Let_def mint unit(2) raw_def c)
  have fields: "dr_id q = Some (cr_orderId c)" "dr_amount q = Some amount" "dr_unit q = em_unit m" "dr_mints q = [mint]"
    "dr_singleUse q" "dr_transport q = [transport]"
    "dr_nut10 q = Some \<lparr>n10_kind = ''P2PK'', n10_data = cr_publicKey c, n10_tags = Some []\<rparr>"
    and lock: "paymentRequestLock (package P) q = Inr (Some \<lparr>lk_pubkey = cr_publicKey c, lk_locktime = None, lk_refundKeys = [], lk_signatures = None\<rparr>)"
    unfolding q_def q by (simp_all add: paymentRequestLock_def codec raw_def)
  define path where "path = ''/v1/deliver/'' @ randomCapability (ve_write rnd)"
  have path: "is_delivery_path path" unfolding path_def by (rule capability_texts(3)[OF bytes(2)])
  obtain u where u: "new_url P (em_relayOrigin m @ path) = Some u" "url_origin u = em_relayOrigin m" "pathname u = path"
      "username u = []" "password u = []" "search u = []" "hash u = []"
    using laws(2) path unfolding url_laws_def by blast
  have sent: "cr_deliveryUrl c = em_relayOrigin m @ path" by (simp only: c(2) url_def path_def append.assoc)
  have first: "find (\<lambda>v. vm_id vendor = vm_id v) (em_vendors m) = Some vendor"
    using find_key_unique[OF vendor(2,1)] by (simp add: eq_commute)
  define exp where "exp = now + 300"
  have metadata: "tags (tp_tags transport) = Inr [(''event_id'', em_id m), (''vendor_id'', vm_id vendor), (''expires_at'', int_text exp)]"
    by (simp add: tags_def transport_def exp_def)
  have valid: "validatePaymentRequest (new_url P) q (em_mintUrl m) (em_unit m) balance = Inr ()"
    using safe funds by (simp add: validatePaymentRequest_def fields unit num_safe_def mint)
  have number: "intR late (tag_number P [(''event_id'', em_id m), (''vendor_id'', vm_id vendor), (''expires_at'', int_text exp)] ''expires_at'') = Inr exp" for late
    using expiry_number[of exp] time by (simp add: tag_number_def exp_def)
  have post: "postTransport q = Some transport"
    by (simp add: postTransport_def fields transport_def)
  have target: "tp_target transport = cr_deliveryUrl c" by (simp add: transport_def c)
  have keys: "map_of [(''event_id'', e), (''vendor_id'', v), (''expires_at'', x)] ''event_id'' = Some e"
    "map_of [(''event_id'', e), (''vendor_id'', v), (''expires_at'', x)] ''vendor_id'' = Some v" for e v x :: string
    by simp_all
  show ?thesis
    unfolding q_def[symmetric] validateEventPaymentRequest_def Let_def
    using decoded[folded q_def]
    by (simp only: bindR.simps valid mint post target sent u metadata number first option.case)
       (use order key time(3,4) in \<open>simp add: fields keys[simplified] guardR_def truthy_text_def text_or_def vendor_only_def
         plain_lock_def lock path truthy_int_def c exp_def sent[symmetric] first\<close>)
qed

subsection \<open>A charge, read by the relay\<close>

lemma createVendorRequest_fields:
  assumes "createVendorRequest P H public m vendor amount description now rnd = Inr c"
  shows "is_safe amount" "0 < amount" "cr_orderId c = ''order_'' @ take 32 (randomCapability (ve_order rnd))"
    "cr_readCapability c = randomCapability (ve_read rnd)" "cr_writeCapability c = randomCapability (ve_write rnd)"
    "cr_expiresAt c = now + 300" "cr_requestDigest c = requestDigestOf H (dr_encoded (cr_request c))"
    "\<exists>mint. normalizeMintUrl (new_url P) (em_mintUrl m) = Inr mint \<and> dr_mints (cr_request c) = [mint]"
  using assms
  by (auto simp: createVendorRequest_def Let_def bindR_Inr guardR_Inr createPaymentRequest_def)

lemma relay_reads_mint:
  "normalizeMintUrl U v = Inr t \<Longrightarrow> normalizedMint U (JStr v) = Inr t"
  by (auto simp: normalizeMintUrl_Inr normalizedMint_def strR_def plain_http_url_def)

lemma digest_read:
  "chars_between is_lower_hex 64 64 (H x) \<Longrightarrow> is_request_digest (requestDigestOf H x)"
  by (simp add: is_request_digest_def requestDigestOf_def starts_with_def)

lemma register_created:
  assumes made: "createVendorRequest P H public m vendor amount description now rnd = Inr c"
    and bytes: "length (ve_order rnd) = 32" "length (ve_write rnd) = 32" "length (ve_read rnd) = 32"
    and fresh: "randomCapability (ve_read rnd) \<noteq> randomCapability (ve_write rnd)"
    and hex: "chars_between is_lower_hex 64 64 (H (dr_encoded (cr_request c)))"
    and unit: "em_unit m = ''rusd''"
    and time: "t < now + 300" "now + 300 \<le> js_add t ttl" "is_safe (now + 300)"
  shows "\<exists>mint. normalizeMintUrl (new_url P) (em_mintUrl m) = Inr mint \<and>
    parseRegistration (new_url P) (registration_body m c amount) t ttl =
      Inr \<lparr>ri_orderId = cr_orderId c, ri_amount = amount, ri_unit = em_unit m, ri_mint = mint,
        ri_requestDigest = cr_requestDigest c, ri_expiresAt = cr_expiresAt c,
        ri_writeCapability = cr_writeCapability c, ri_readCapability = cr_readCapability c\<rparr>"
proof -
  note made_facts = createVendorRequest_fields[OF made]
  obtain mint where mint: "normalizeMintUrl (new_url P) (em_mintUrl m) = Inr mint" using made_facts(8) by blast
  have order: "is_order_id (cr_orderId c)" unfolding made_facts(3) by (rule capability_texts(2)[OF bytes(1)])
  have caps: "is_capability (cr_writeCapability c)" "is_capability (cr_readCapability c)"
    "cr_writeCapability c \<noteq> cr_readCapability c"
    using capability_texts(1)[OF bytes(2)] capability_texts(1)[OF bytes(3)] fresh unfolding made_facts(4,5) by auto
  have digest: "is_request_digest (cr_requestDigest c)" unfolding made_facts(7) by (rule digest_read, rule hex)
  show ?thesis
    by (rule exI[of _ mint])
       (use time made_facts(2) in \<open>simp add: has_key_def parseRegistration_def registration_body_def mint
         relay_reads_mint[OF mint] exactKeys_def exact_keys_def field_def guardR_def strR_def intR_def capability_def
         positiveInteger_def order caps digest unit made_facts(1,6)\<close>)
qed

end
