(* ===== verification/Market_Charge_Demo.thy ===== *)
theory Market_Charge_Demo
  imports Market_Demo Market_Requests
begin

section \<open>Market: a package that keeps its laws on every request\<close>

text \<open>
  \<open>request_codec\<close> and \<open>url_laws\<close> speak of every request and every delivery path. A payment request is
  written here through its JSON value, and the URL parser knows one mint and every delivery path of one
  relay.
\<close>

subsection \<open>Requests as texts\<close>

definition list_json :: "('a \<Rightarrow> json) \<Rightarrow> 'a option \<Rightarrow> json" where
  "list_json f v = JArr (case v of None \<Rightarrow> [] | Some x \<Rightarrow> [f x])"

definition elements :: "json \<Rightarrow> json list" where
  "elements v = (case v of JArr vs \<Rightarrow> vs | _ \<Rightarrow> [])"

definition element :: "(json \<Rightarrow> 'a) \<Rightarrow> json \<Rightarrow> 'a option" where
  "element f v = (case elements v of [] \<Rightarrow> None | x # _ \<Rightarrow> Some (f x))"

definition text_of :: "json \<Rightarrow> string" where
  "text_of v = (case v of JStr s \<Rightarrow> s | _ \<Rightarrow> [])"

definition texts_json :: "string list \<Rightarrow> json" where "texts_json ts = JArr (map JStr ts)"
definition json_texts :: "json \<Rightarrow> string list" where "json_texts v = map text_of (elements v)"
definition tags_json :: "string list list \<Rightarrow> json" where "tags_json ts = JArr (map texts_json ts)"
definition json_tags :: "json \<Rightarrow> string list list" where "json_tags v = map json_texts (elements v)"

lemma elements_simps [simp]: "elements (JArr vs) = vs" "text_of (JStr s) = s"
  by (simp_all add: elements_def text_of_def)

lemma element_list: "(\<And>x. g (f x) = x) \<Longrightarrow> element g (list_json f v) = v"
  by (cases v) (simp_all add: element_def list_json_def)

lemma texts_back [simp]: "json_texts (texts_json ts) = ts" "json_tags (tags_json tss) = tss"
  by (simp_all add: json_texts_def texts_json_def json_tags_def tags_json_def comp_def)

definition transport_json :: "request_transport \<Rightarrow> json" where
  "transport_json t = JArr [JBool (tp_type t = POST), JStr (tp_target t), list_json tags_json (tp_tags t)]"

definition json_transport :: "json \<Rightarrow> request_transport" where
  "json_transport v =
     \<lparr>tp_type = (if elements v ! 0 = JBool True then POST else NOSTR), tp_target = text_of (elements v ! 1),
      tp_tags = element json_tags (elements v ! 2)\<rparr>"

definition nut10_json :: "nut10_option \<Rightarrow> json" where
  "nut10_json n = JArr [JStr (n10_kind n), JStr (n10_data n), list_json tags_json (n10_tags n)]"

definition json_nut10 :: "json \<Rightarrow> nut10_option" where
  "json_nut10 v =
     \<lparr>n10_kind = text_of (elements v ! 0), n10_data = text_of (elements v ! 1),
      n10_tags = element json_tags (elements v ! 2)\<rparr>"

lemma parts_back [simp]: "json_transport (transport_json t) = t" "json_nut10 (nut10_json n) = n"
  by (cases t; cases "tp_type t") (simp_all add: json_transport_def transport_json_def element_list json_nut10_def nut10_json_def)

definition amount_json :: "number \<Rightarrow> json" where
  "amount_json a = (case a of None \<Rightarrow> JNull | Some i \<Rightarrow> JInt i)"

definition json_amount :: "json \<Rightarrow> number" where
  "json_amount v = (case v of JInt i \<Rightarrow> Some i | _ \<Rightarrow> None)"

definition request_json :: "raw_request \<Rightarrow> json" where
  "request_json q = JArr
     [list_json (\<lambda>ts. JArr (map transport_json ts)) (rr_transport q), list_json JStr (rr_id q),
      list_json amount_json (rr_amount q), list_json JStr (rr_unit q), list_json texts_json (rr_mints q),
      list_json JStr (rr_description q), JBool (rr_singleUse q), list_json nut10_json (rr_nut10 q)]"

definition json_request :: "json \<Rightarrow> raw_request" where
  "json_request v =
     (let f = elements v in
      \<lparr>rr_transport = element (\<lambda>w. map json_transport (elements w)) (f ! 0), rr_id = element text_of (f ! 1),
       rr_amount = element json_amount (f ! 2), rr_unit = element text_of (f ! 3), rr_mints = element json_texts (f ! 4),
       rr_description = element text_of (f ! 5), rr_singleUse = (f ! 6 = JBool True),
       rr_nut10 = element json_nut10 (f ! 7)\<rparr>)"

lemma amount_back: "json_amount (amount_json a) = a"
  by (cases a) (simp_all add: json_amount_def amount_json_def)

lemma request_back: "json_request (request_json q) = q"
  by (cases q) (simp add: json_request_def request_json_def Let_def element_list amount_back comp_def)

definition charge_encode :: "raw_request \<Rightarrow> string" where
  "charge_encode q = ''creqA'' @ print_json (request_json q)"

definition charge_decode :: "string \<Rightarrow> raw_request option" where
  "charge_decode s = (if take 5 s = ''creqA'' then map_option json_request (read_json (drop 5 s)) else None)"

definition charge_cashu :: cashu where
  "charge_cashu = demo_cashu\<lparr>decode_request := charge_decode, encode_request := charge_encode\<rparr>"

lemma charge_codec: "request_codec charge_cashu"
proof -
  have "trim (charge_encode q) = charge_encode q" for q
  proof -
    obtain t where t: "charge_encode q = CHR ''c'' # t @ [CHR '']'']"
      by (simp add: charge_encode_def request_json_def)
    have "\<not> is_space CHR ''c''" "\<not> is_space CHR '']''" by code_simp+
    then show ?thesis by (simp add: trim_def t)
  qed
  moreover have "is_request_text (charge_encode q)" for q
    unfolding is_request_text_def charge_encode_def by simp code_simp
  moreover have "charge_decode (charge_encode q) = Some q" for q
    by (simp add: charge_decode_def charge_encode_def json_text request_back)
  ultimately show ?thesis
    by (simp add: request_codec_def charge_cashu_def demo_cashu_def)
qed

end
