(* ===== verification/Market_Properties.thy ===== *)
theory Market_Properties
  imports Market_Demo Market_Progress
begin

section \<open>Market: the properties\<close>

text \<open>
  C22. Refinement: whatever the market application does - loading the page, other tabs' writes, the
  screens' calls, the background timer, answers of the mint, the faucet and the relay in any order,
  failing or not - its session goes only through the steps of \<open>market_step\<close>: loads of the stored
  snapshot, writes to other keys, and the moves of \<open>market_move\<close>, where a call that moves value is made on a
  record that backs it and a commit is one of the listed changes of the snapshot.
\<close>

theorem application_refines_market:
  assumes "app_reaches R B start app" "market_ready R" "fresh_session R (ap_role start) (ap_session start)"
  shows "market_runs R (ap_role start) (ap_session start) (ap_session app) \<and> ap_role app = ap_role start"
  by (rule app_runs[OF assms])

definition demo_browser :: "int browser" where
  "demo_browser = \<lparr>br_fetch = (\<lambda>c w. (Unreachable, w)), br_bytes = (\<lambda>w. ([], w)), br_locks = True,
     br_faucetOrigin = ''https://f''\<rparr>"

definition demo_app :: "int app" where
  "demo_app =
     \<lparr>ap_role = Attendee, ap_session = demo_session Attendee, ap_storageError = None, ap_status = Connecting,
      ap_connectionError = None, ap_attempt = 0, ap_retry = None, ap_faucetConfig = None,
      ap_faucetStatus = Faucet_loading, ap_faucetError = None\<rparr>"

definition demo_add :: add_operation where
  "demo_add = new_add demo_market ''a'' (Some 10) (demo_mint_quote\<lparr>mtq_amount := Some 10\<rparr>) 1000000 None"

text \<open>The mint answers, and a screen asks for an invoice.\<close>

definition demo_online :: "int app" where
  "demo_online = app_step demo_market demo_browser (Ev_mint (Inr ''rusd'')) demo_app"

definition demo_requested :: "int app" where
  "demo_requested = app_step demo_market demo_browser (Ev_task (Request_add_cash (Some 10))) demo_online"

lemma demo_online_is: "demo_online = demo_app\<lparr>ap_status := Online\<rparr>"
  by (simp add: demo_online_def app_step_def demo_app_def mint_answered_def demo_runtime) code_simp

lemma demo_add_ok: "snapshot_ok demo_platform demo_event Attendee
    ((emptyMarketSnapshot demo_event Attendee)\<lparr>sn_addCash := [demo_add]\<rparr>)"
  by (simp add: snapshot_ok_def emptyMarketSnapshot_def demo_add_def new_add_def demo_mint_quote_def demo_runtime demo_same
      demo_proofs_ok reserved_proofs_def add_ok_def base_ok_def small_safe demo_market_def)

definition attendee_snapshot :: "cashu_proof list \<Rightarrow> add_operation list \<Rightarrow> market_snapshot" where
  "attendee_snapshot ps xs = (emptyMarketSnapshot demo_event Attendee)\<lparr>sn_proofs := ps, sn_addCash := xs\<rparr>"

lemma attendee_sel [simp]: "sn_proofs (attendee_snapshot ps xs) = ps" "sn_addCash (attendee_snapshot ps xs) = xs"
  by (simp_all add: attendee_snapshot_def)

lemma demo_requested_is:
  "\<exists>store. demo_requested = demo_online\<lparr>ap_session := committed_as (attendee_snapshot [] [demo_add]) store (demo_session Attendee)\<rparr>"
  using demo_save[of "(emptyMarketSnapshot demo_event Attendee)\<lparr>sn_addCash := [demo_add]\<rparr>"] demo_add_ok
  by (simp add: demo_requested_def demo_online_is app_step_def perform_def task_op_def ignored_def runLocked_def
      requireRuntime_def reloadStoredSnapshot_def bindM_def returnM_def guardM_def readM_def portM_def totalM_def
      requestAddCash_def nowM_def operationIdM_def operation_ids_def commitAdd_def commitM_def given_or_def
      replaceAdd_def upsert_def demo_app_def demo_session_def demo_runtime loadMarketSnapshot_def marketStorageKey_def
      demo_mint truthy_text_def demo_ports demo_clock_def emptyMarketSnapshot_def demo_add_def attendee_snapshot_def
      committed_as_def)

lemma demo_requested_sel:
  "ss_snapshot (ap_session demo_requested) = attendee_snapshot [] [demo_add]" "ss_world (ap_session demo_requested) = 1000000"
  "ss_calls (ap_session demo_requested) = []" "ap_status demo_requested = Online" "ap_role demo_requested = Attendee"
  "ap_storageError demo_requested = None" "length (ss_commits (ap_session demo_requested)) = 1"
proof -
  obtain store where eq: "demo_requested = demo_online\<lparr>ap_session := committed_as (attendee_snapshot [] [demo_add]) store (demo_session Attendee)\<rparr>"
    using demo_requested_is by blast
  show "ss_snapshot (ap_session demo_requested) = attendee_snapshot [] [demo_add]" "ss_world (ap_session demo_requested) = 1000000"
    "ss_calls (ap_session demo_requested) = []" "ap_status demo_requested = Online" "ap_role demo_requested = Attendee"
    "ap_storageError demo_requested = None" "length (ss_commits (ap_session demo_requested)) = 1"
    unfolding eq by (simp_all add: demo_online_is demo_app_def demo_session_def)
qed

lemma demo_app_reaches: "app_reaches demo_market demo_browser demo_app demo_requested"
proof -
  have fresh: "fresh_for demo_market (emptyMarketSnapshot demo_event Attendee)"
    by (simp add: fresh_for_def emptyMarketSnapshot_def operation_ids_def)
  then have "app_reaches demo_market demo_browser demo_app demo_online"
    unfolding demo_online_def by (intro Reach_event Reach_start) (simp_all add: demo_app_def demo_session_def)
  with fresh show ?thesis
    unfolding demo_requested_def
    by (intro Reach_event[of _ _ _ demo_online]) (auto simp: demo_online_is demo_app_def demo_session_def)
qed

theorem application_refines_market_witness:
  "ss_snapshot (ap_session demo_requested) = attendee_snapshot [] [demo_add] \<and>
   market_runs demo_market Attendee (demo_session Attendee) (ap_session demo_requested)"
  using application_refines_market[OF demo_app_reaches demo_ready] demo_start[of Attendee] demo_requested_sel(1)
  by (simp add: demo_app_def)

subsection \<open>A payment that is issued\<close>

text \<open>The screen asks again when the invoice was paid: the mint issues, and the proofs are stored.\<close>

definition demo_issued :: "int app" where
  "demo_issued = app_step demo_market demo_browser (Ev_task (Refresh_add_cash demo_add)) demo_requested"

definition demo_issuing :: add_operation where
  "demo_issuing = demo_add\<lparr>add_state := Add_issuing, add_outputData := Some [demo_output], add_keysetId := Some ''k''\<rparr>"

lemma attendee_ok:
  assumes "add_ok demo_platform demo_event x" "ps = [] \<or> ps = [demo_proof]"
  shows "snapshot_ok demo_platform demo_event Attendee (attendee_snapshot ps [x])"
  using assms demo_proofs_ok
  by (auto simp: snapshot_ok_def attendee_snapshot_def emptyMarketSnapshot_def demo_runtime demo_same reserved_proofs_def)

lemma demo_add_kinds:
  "add_ok demo_platform demo_event demo_add"
  "add_ok demo_platform demo_event (demo_add\<lparr>add_state := st\<rparr>)"
  "add_ok demo_platform demo_event demo_issuing"
  by (simp_all add: demo_issuing_def demo_add_def new_add_def demo_mint_quote_def demo_runtime demo_same add_ok_def base_ok_def
      small_safe demo_market_def demo_output_def demo_cashu_def)

lemma demo_commit:
  assumes "snapshot_ok demo_platform demo_event (sn_role n) n"
  shows "commitM demo_market n s = (Inr (), committed_as n ((ss_store s)(demo_key (sn_role n) \<mapsto> demo_text n)) s)"
  using demo_save[OF assms] by (simp add: commitM_def demo_runtime committed_as_def)

lemma demo_commitAdd:
  assumes s: "ss_snapshot s = attendee_snapshot ps [x]" and y: "op_id y = op_id x" "add_ok demo_platform demo_event y"
    and ps: "qs = given_or fresh ps" "qs = [] \<or> qs = [demo_proof]"
  shows "\<exists>store. commitAdd demo_market y fresh s = (Inr y, committed_as (attendee_snapshot qs [y]) store s)"
proof -
  have "sn_role (attendee_snapshot qs [y]) = Attendee" by (simp add: attendee_snapshot_def emptyMarketSnapshot_def)
  then have "commitM demo_market (attendee_snapshot qs [y]) s =
      (Inr (), committed_as (attendee_snapshot qs [y]) ((ss_store s)(demo_key Attendee \<mapsto> demo_text (attendee_snapshot qs [y]))) s)"
    using demo_commit[of "attendee_snapshot qs [y]" s] attendee_ok[OF y(2) ps(2)] by simp
  moreover have "(ss_snapshot s)\<lparr>sn_proofs := given_or fresh (sn_proofs (ss_snapshot s)),
      sn_addCash := replaceAdd (sn_addCash (ss_snapshot s)) y\<rparr> = attendee_snapshot qs [y]"
    by (simp add: s ps(1) y(1) attendee_snapshot_def replaceAdd_def upsert_def)
  ultimately show ?thesis by (auto simp: commitAdd_def bindM_def readM_def returnM_def)
qed

text \<open>The three commits of a refresh, and the call between the last two.\<close>

lemma demo_refresh:
  assumes s: "ss_snapshot s = attendee_snapshot [] [demo_add]" "ss_world s = 1000000"
  shows "\<exists>y t store. refreshAddCash demo_market demo_add s = (Inr y, t) \<and>
    ss_snapshot t = attendee_snapshot [demo_proof] [y] \<and> add_state y = Add_settled \<and> \<not> add_faucet y \<and>
    length (ss_commits t) = length (ss_commits s) + 3 \<and>
    ss_calls t = ss_calls s @ [(Complete_mint (asMintQuote demo_issuing demo_mint_quote) demo_prepared, Some [demo_proof], store)]"
proof -
  have now: "nowM demo_market u = (Inr 1000000, u)" if "ss_world u = 1000000" for u
    using that by (simp add: nowM_def portM_def totalM_def demo_ports demo_clock_def)
  have ports: "portM (mw_checkMintQuote demo_wallet q) u = (Inr demo_mint_quote, u)"
      "portM (mw_prepareMint demo_wallet q' key) u = (Inr demo_prepared, u)" for q q' key u
    by (simp_all add: portM_def demo_wallet_def)
  let ?x1 = "demo_add\<lparr>add_state := Add_observed, op_updatedAt := 1000000, op_error := None\<rparr>"
  let ?x2 = "?x1\<lparr>add_state := Add_issuing, add_outputData := Some [demo_output], add_keysetId := Some ''k'',
    add_legacySignature := None, add_payloadSignature := None, add_quotePrivateKey := None, op_updatedAt := 1000000\<rparr>"
  let ?x3 = "?x2\<lparr>add_state := Add_settled, add_outputData := None, add_keysetId := None, add_legacySignature := None,
    add_payloadSignature := None, op_updatedAt := 1000000, op_error := None\<rparr>"
  have x: "?x1 = demo_add\<lparr>add_state := Add_observed\<rparr>" "?x2 = demo_issuing" "?x3 = demo_add\<lparr>add_state := Add_settled\<rparr>"
      "op_id demo_issuing = op_id demo_add" "truthy_text (add_quotePubkey demo_add) = False" "add_outputData demo_add = None" "\<not> add_faucet demo_issuing"
    by (simp_all add: demo_issuing_def demo_add_def new_add_def truthy_text_def)
  have ok: "add_ok demo_platform demo_event ?x1" "add_ok demo_platform demo_event ?x2" "add_ok demo_platform demo_event ?x3"
    by (subst x(1), rule demo_add_kinds(2), subst x(2), rule demo_add_kinds(3), subst x(3), rule demo_add_kinds(2))
  obtain st1 where c1: "commitAdd demo_market ?x1 None s = (Inr ?x1, committed_as (attendee_snapshot [] [?x1]) st1 s)"
    by (rule exE[OF demo_commitAdd[OF s(1) _ ok(1), of "[]" None]]) (simp_all add: given_or_def)
  let ?s1 = "committed_as (attendee_snapshot [] [?x1]) st1 s"
  obtain st2 where c2: "commitAdd demo_market ?x2 None ?s1 = (Inr ?x2, committed_as (attendee_snapshot [] [?x2]) st2 ?s1)"
    by (rule exE[OF demo_commitAdd[OF committed_as_simps(1) _ ok(2), of ?x1 "[]" None "[]" st1 s]]) (simp_all add: given_or_def)
  let ?s2 = "committed_as (attendee_snapshot [] [?x2]) st2 ?s1"
  let ?call = "(Complete_mint (asMintQuote ?x2 demo_mint_quote) demo_prepared, Some [demo_proof], ss_store ?s2)"
  let ?s3 = "?s2\<lparr>ss_calls := ss_calls ?s2 @ [?call]\<rparr>"
  have s3: "ss_snapshot ?s3 = attendee_snapshot [] [?x2]" by simp
  obtain st3 where c3: "commitAdd demo_market ?x3 (Some [demo_proof]) ?s3 =
      (Inr ?x3, committed_as (attendee_snapshot [demo_proof] [?x3]) st3 ?s3)"
    by (rule exE[OF demo_commitAdd[OF s3 _ ok(3), of "[demo_proof]" "Some [demo_proof]"]]) (simp_all add: given_or_def)
  let ?s4 = "committed_as (attendee_snapshot [demo_proof] [?x3]) st3 ?s3"
  have observe: "observeAdd demo_market demo_add s = (Inr (Inr (?x1, demo_mint_quote)), ?s1)"
    using c1 by (simp add: observeAdd_def bindM_def returnM_def guardM_def ports now s(2) x(5) demo_runtime mintQuoteIsPaid_def
        demo_mint_quote_def[THEN arg_cong[where f = mtq_state]])
  have prepare: "prepareAdd demo_market ?x1 demo_mint_quote ?s1 = (Inr ?x2, ?s2)"
    using c2 by (simp add: prepareAdd_def bindM_def ports now s(2) x(6) demo_runtime demo_prepared_def)
  have moving: "movingM (Complete_mint q p) id (mw_completeMint demo_wallet q p) u =
      (Inr [demo_proof], u\<lparr>ss_calls := ss_calls u @ [(Complete_mint q p, Some [demo_proof], ss_store u)]\<rparr>)" for q p and u :: "int session"
    by (cases u) (simp add: movingM_def demo_wallet_def)
  have prepared: "\<lparr>pn_outputs = [demo_output], pn_keysetId = ''k'', pn_legacySignature = None, pn_payloadSignature = None\<rparr> = demo_prepared"
    by (simp add: demo_prepared_def)
  have ready: "add_outputData ?x2 = Some [demo_output]" "add_keysetId ?x2 = Some ''k''" "add_legacySignature ?x2 = None"
      "add_payloadSignature ?x2 = None" "ss_world ?s3 = 1000000" "sn_proofs (ss_snapshot ?s3) = []"
    using s(2) by simp_all
  have issue: "issueAdd demo_market ?x2 demo_mint_quote ?s2 = (Inr ?x3, ?s4\<lparr>ss_toast := Some ''RUSD ecash issued and stored''\<rparr>)"
    unfolding issueAdd_def ready(1-4) Let_def bindM_def needM_def needText_def truthy_text_def text_or_def
    by (simp only: option.case sum.case prod.case prepared moving demo_runtime returnM_def readM_def now[OF ready(5)] ready(6) c3
        append_Nil notifyM_def if_True list.distinct simp_thms)
  have found: "found_or op_id (sn_addCash (ss_snapshot s)) demo_add = demo_add" by (simp add: s(1) found_or_def)
  have "refreshAddCash demo_market demo_add s = (Inr ?x3, ?s4\<lparr>ss_toast := Some ''RUSD ecash issued and stored''\<rparr>)"
    unfolding refreshAddCash_def bindM_def tryM_def catchM_def found_add_def readM_def
    by (simp only: sum.case prod.case found observe prepare issue)
  then show ?thesis
    by (intro exI[of _ ?x3] exI[of _ "?s4\<lparr>ss_toast := Some ''RUSD ecash issued and stored''\<rparr>"] exI[of _ "ss_store ?s2"])
       (simp add: x(2)[simplified] x(7))
qed

lemma demo_requested_fresh: "fresh_for demo_market (ss_snapshot (ap_session demo_requested))"
  by (simp add: demo_requested_sel fresh_for_def operation_ids_def attendee_snapshot_def emptyMarketSnapshot_def demo_ports)

lemma demo_issued_reached: "app_reaches demo_market demo_browser demo_app demo_issued"
  unfolding demo_issued_def
  by (rule Reach_event[OF demo_app_reaches demo_requested_fresh]) (auto simp: demo_requested_sel)

lemma demo_issued_is:
  obtains y store where "ss_snapshot (ap_session demo_issued) = attendee_snapshot [demo_proof] [y]" "add_state y = Add_settled"
    "length (ss_commits (ap_session demo_issued)) = 4"
    "ss_calls (ap_session demo_issued) = [(Complete_mint (asMintQuote demo_issuing demo_mint_quote) demo_prepared, Some [demo_proof], store)]"
proof -
  obtain n where n: "synced demo_market Attendee (ap_session demo_requested) n"
    using synced_runs[of demo_market Attendee "demo_session Attendee" "ap_session demo_requested"] demo_ready
      app_runs[OF demo_app_reaches demo_ready] demo_start[of Attendee] synced_start[OF demo_ready demo_start[of Attendee]]
    by (auto simp: demo_app_def)
  have "snapshot_ok demo_platform demo_event Attendee (attendee_snapshot [] [demo_add])"
    by (rule attendee_ok[OF demo_add_kinds(1)]) simp
  from normalizeSnapshot_back[OF this] n have "n = attendee_snapshot [] [demo_add]"
    by (simp add: synced_def demo_requested_sel demo_runtime)
  with n have load: "reloadStoredSnapshot demo_market Attendee (ap_session demo_requested) = (Inr (), ap_session demo_requested)"
    by (simp add: reloadStoredSnapshot_def synced_def demo_requested_sel[symmetric])
  obtain y t store where run: "refreshAddCash demo_market demo_add (ap_session demo_requested) = (Inr y, t)"
      "ss_snapshot t = attendee_snapshot [demo_proof] [y]" "add_state y = Add_settled" "length (ss_commits t) = 4"
      "ss_calls t = [(Complete_mint (asMintQuote demo_issuing demo_mint_quote) demo_prepared, Some [demo_proof], store)]"
    and y: "\<not> add_faucet y"
    using demo_refresh[OF demo_requested_sel(1,2)] unfolding demo_requested_sel(3,7) append_Nil by auto
  have "ap_session demo_issued = t"
    unfolding demo_issued_def
    by (simp add: app_step_def perform_def task_op_def ignored_def call_refreshAddCash_def runLocked_def requireRuntime_def
        bindM_def guardM_def demo_requested_sel truthy_text_def load run(1) y returnM_def)
  with run(2-5) show thesis by (intro that) simp_all
qed

lemma demo_history: "app_reaches demo_market demo_browser demo_app demo_issued" "market_ready demo_market"
  "fresh_session demo_market (ap_role demo_app) (ap_session demo_app)"
  using demo_issued_reached demo_ready demo_start by (simp_all add: demo_app_def)

subsection \<open>Calls, payments and records\<close>

text \<open>
  C23. Write-ahead. Take any state that the application reaches from a browser that has stored nothing, by
  any events and with any answers. Whenever a call that moves value or hands out a secret was made -
  completing a send or a receive, issuing, melting, delivering a payment, registering or cancelling an
  order - the browser's storage at that moment loads, by the application's own loader, to a snapshot that
  holds the record needed to repeat the call or to claim its result.
\<close>

theorem calls_are_written_ahead:
  assumes "app_reaches R B start app" "market_ready R" "fresh_session R (ap_role start) (ap_session start)"
    and "(c, result, store) \<in> set (ss_calls (ap_session app))"
  shows "\<exists>n. loadMarketSnapshot (rt_platform R) (rt_manifest R) (ap_role start) store = Inr n \<and> kept (rt_platform R) n c"
  using calls_kept_runs[OF _ assms(2,3)] app_runs[OF assms(1-3)] assms(4) by (fastforce simp: calls_kept_def)

theorem calls_are_written_ahead_witness:
  "\<exists>store n. ss_calls (ap_session demo_issued) =
       [(Complete_mint (asMintQuote demo_issuing demo_mint_quote) demo_prepared, Some [demo_proof], store)] \<and>
     loadMarketSnapshot demo_platform demo_event Attendee store = Inr n \<and>
     (\<exists>x \<in> set (sn_addCash n). add_outputData x = Some [demo_output])"
proof -
  obtain store where log: "ss_calls (ap_session demo_issued) =
      [(Complete_mint (asMintQuote demo_issuing demo_mint_quote) demo_prepared, Some [demo_proof], store)]"
    by (rule demo_issued_is)
  then have "(Complete_mint (asMintQuote demo_issuing demo_mint_quote) demo_prepared, Some [demo_proof], store) \<in>
      set (ss_calls (ap_session demo_issued))" by simp
  from calls_are_written_ahead[OF demo_history this] log show ?thesis
    by (auto simp: demo_runtime demo_app_def demo_prepared_def)
qed

text \<open>
  C24. In every state that the application reaches from a browser that has stored nothing: no two payments are
  for the same order; a swap that is stored with an order is over exactly the order's amount; an order is
  settled only after the mint completed a swap of exactly its amount; and the storage loads what is in
  memory.
\<close>

theorem one_payment_and_exact_settlement:
  assumes "app_reaches R B start app" "market_ready R" "fresh_session R (ap_role start) (ap_session start)"
    and "s = ap_session app"
  shows "distinct (map pay_orderId (sn_payments (ss_snapshot s))) \<and>
    (\<forall>x \<in> set (sn_orders (ss_snapshot s)).
       (\<forall>sw. ord_incomingSwap x = Some sw \<longrightarrow> sw_amount sw = Some (ord_amount x)) \<and>
       (ord_state x = Ord_settled \<longrightarrow>
          (\<exists>sw fresh store. (Complete_receive sw, Some fresh, store) \<in> set (ss_calls s) \<and>
             sw_amount sw = Some (ord_amount x)))) \<and>
    (\<exists>n. normalizeSnapshot (rt_platform R) (rt_manifest R) (ap_role start) (snapshot_json (ss_snapshot s)) = Inr n \<and>
       loadMarketSnapshot (rt_platform R) (rt_manifest R) (ap_role start) (ss_store s) = Inr n)"
proof -
  have "market_inv R (ap_role start) s"
    using market_inv_runs[OF _ assms(2,3)] app_runs[OF assms(1-3)] assms(4) by simp
  then show ?thesis by (auto simp: market_inv_def order_inv_def settled_by_def synced_def)
qed

theorem one_payment_and_exact_settlement_witness:
  "\<exists>n. loadMarketSnapshot demo_platform demo_event Attendee (ss_store (ap_session demo_issued)) = Inr n \<and>
     normalizeSnapshot demo_platform demo_event Attendee (snapshot_json (ss_snapshot (ap_session demo_issued))) = Inr n \<and>
     sn_proofs (ss_snapshot (ap_session demo_issued)) = [demo_proof]"
  using one_payment_and_exact_settlement[OF demo_history refl] demo_issued_is
  by (metis attendee_sel(1) demo_app_def app.select_convs(1) demo_runtime(1,2))



end
