(* ===== verification/Market_Promises.thy ===== *)
theory Market_Promises
  imports Market_Charge_Demo Market_Properties
begin

section \<open>Market: what the operations promise\<close>

subsection \<open>Storage\<close>

text \<open>
  C26. Round trip of the browser's storage: after a snapshot was saved without an error, loading it gives the
  snapshot again - every payment, order, claim and cash-out with all its fields, only the package's
  opaque proofs and outputs rebuilt by the package - and what is loaded is well formed.
\<close>

theorem saved_snapshot_loads:
  assumes "saveMarketSnapshot P m room s store = (Inr (), store')" "package_laws (package P)" "json_laws P"
  shows "\<exists>n. loadMarketSnapshot P m (sn_role s) store' = Inr n \<and> same_snapshot P s n \<and> snapshot_ok P m (sn_role s) n"
proof -
  obtain n where "normalizeSnapshot P m (sn_role s) (snapshot_json s) = Inr n" "snapshot_ok P m (sn_role s) n"
      "loadMarketSnapshot P m (sn_role s) store' = Inr n"
    using load_saved[OF assms(2,3,1)] by blast
  then show ?thesis using normalizeSnapshot_copy by blast
qed

lemma demo_laws: "package_laws (package demo_platform)" "json_laws demo_platform"
  using demo_ready by (simp_all add: market_ready_def demo_runtime)

theorem saved_snapshot_loads_witness:
  "\<exists>store n. saveMarketSnapshot demo_platform demo_event (\<lambda>key text. True) (demo_vendor_snapshot [demo_fresh] [demo_settled]) Map.empty =
       (Inr (), store) \<and>
     loadMarketSnapshot demo_platform demo_event Vendor store = Inr n \<and> sn_orders n = [demo_settled]"
proof -
  let ?n = "demo_vendor_snapshot [demo_fresh] [demo_settled]"
  have ok: "snapshot_ok demo_platform demo_event Vendor ?n" by (rule demo_vendor_ok) simp_all
  then have role: "sn_role ?n = Vendor" by (rule snapshot_ok_role)
  from demo_save[of ?n Map.empty] ok role have saved: "saveMarketSnapshot demo_platform demo_event (\<lambda>key text. True) ?n Map.empty =
      (Inr (), Map.empty(demo_key Vendor \<mapsto> demo_text ?n))" by simp
  from saved_snapshot_loads[OF this demo_laws] obtain n where
    n: "loadMarketSnapshot demo_platform demo_event Vendor (Map.empty(demo_key Vendor \<mapsto> demo_text ?n)) = Inr n"
      "same_snapshot demo_platform ?n n" by (auto simp: role)
  have "list_all2 (same_order demo_platform) [demo_settled] (sn_orders n)"
    using n(2) by (simp add: same_snapshot_def demo_vendor_snapshot_def)
  then obtain z where z: "sn_orders n = [z]" "same_order demo_platform demo_settled z" by (auto simp: list_all2_Cons1)
  then have "z = demo_settled" by (cases z) (simp add: same_order_def demo_order_defs)
  with n saved z show ?thesis by blast
qed

text \<open>
  C27. The type of what is loaded: whatever text the browser's storage holds under the market's key, loading
  gives either a snapshot of this event, this role and this mint that is well formed - unique
  identifiers and orders, positive amounts, the recovery data that each state needs, no spendable
  proof reserved by a cash-out - or a storage error, and no other failure.
\<close>

theorem loaded_snapshot_is_well_formed:
  assumes "package_laws (package P)" "normalizeMintUrl (new_url P) (em_mintUrl m) = Inr mint"
  shows "case loadMarketSnapshot P m role store of
           Inl e \<Rightarrow> \<exists>t. e = Storage_failure t
         | Inr n \<Rightarrow> snapshot_ok P m role n"
proof (cases "loadMarketSnapshot P m role store")
  case (Inl e)
  then show ?thesis
    using assms(2) by (auto simp: loadMarketSnapshot_def result_simps marketStorageKey_def split: if_splits dest: storage_error_Inl)
next
  case (Inr n)
  have "snapshot_ok P m role (emptyMarketSnapshot m role)"
    using assms by (simp add: snapshot_ok_def emptyMarketSnapshot_def sameMint_def proofs_ok_def reserved_proofs_def package_laws_def)
  then show ?thesis
    using Inr normalizeSnapshot_ok[OF assms(1)]
    by (auto simp: loadMarketSnapshot_def result_simps split: if_splits option.splits)
qed

theorem loaded_snapshot_is_well_formed_witness:
  "case loadMarketSnapshot demo_platform demo_event Vendor (Map.empty(demo_key Vendor \<mapsto> ''?'')) of
     Inl e \<Rightarrow> \<exists>t. e = Storage_failure t
   | Inr n \<Rightarrow> snapshot_ok demo_platform demo_event Vendor n"
  using loaded_snapshot_is_well_formed[OF demo_laws(1), of demo_event "''https://m''" Vendor "Map.empty(demo_key Vendor \<mapsto> ''?'')"]
  by (simp add: demo_runtime demo_mint)

subsection \<open>Payments\<close>

text \<open>A session whose storage holds what its memory holds, and a payment that is ready to be delivered.\<close>

definition stored_session :: "market_snapshot \<Rightarrow> int session" where
  "stored_session n =
     \<lparr>ss_snapshot = n, ss_store = Map.empty(demo_key (sn_role n) \<mapsto> demo_text n), ss_toast = None,
      ss_world = 1000000, ss_calls = [], ss_commits = []\<rparr>"

lemma stored_settled:
  assumes "snapshot_ok demo_platform demo_event role n"
  shows "settled_session demo_market role (stored_session n)"
proof -
  have role: "sn_role n = role" by (rule snapshot_ok_role[OF assms])
  with demo_save[of n Map.empty] assms have
    "saveMarketSnapshot demo_platform demo_event (\<lambda>key text. True) n Map.empty = (Inr (), ss_store (stored_session n))"
    by (simp add: stored_session_def)
  from load_saved[OF demo_laws this] normalizeSnapshot_back[OF assms] role assms show ?thesis
    by (simp add: settled_session_def demo_runtime stored_session_def)
qed

definition demo_payload :: json where
  "demo_payload = JObj [(''id'', JStr demo_order_id), (''unit'', JStr ''rusd''), (''mint'', JStr ''https://m''),
     (''proofs'', JArr [demo_proof])]"

definition demo_payment :: attendee_payment where
  "demo_payment =
     \<lparr>pay_id = ''p'', pay_orderId = demo_order_id, pay_state = Pay_ready, pay_amount = Some 10, pay_fee = Some 0,
      pay_unit = ''rusd'', pay_mintUrl = ''https://m'', pay_vendorName = ''Vendor'', pay_description = ''Item'',
      pay_request = Some ''creqA'', pay_deliveryUrl = Some demo_delivery, pay_payloadJson = Some (print_json demo_payload),
      pay_token = Some ''cashuAx'', pay_swap = None, pay_retryable = Some True, pay_deliveredAt = None,
      pay_checkedAt = None, pay_createdAt = 1000000, pay_updatedAt = 1000000, pay_error = None\<rparr>"

definition demo_paying :: market_snapshot where
  "demo_paying = (emptyMarketSnapshot demo_event Attendee)\<lparr>sn_payments := [demo_payment]\<rparr>"

lemma demo_payload_ok:
  "validatePayloadJson demo_platform demo_event demo_order_id (print_json demo_payload) = Inr ()"
  using storedProofs_back[OF demo_proofs_ok(2)] json_text(1)[of demo_payload]
  by (simp add: validatePayloadJson_def demo_platform_def demo_payload_def storedRecord_def storedKeys_def exact_keys_def
      has_key_def field_def guardR_def strR_def demo_runtime optionalR_def demo_same)

lemma demo_paying_ok: "snapshot_ok demo_platform demo_event Attendee demo_paying"
  by (simp add: snapshot_ok_def demo_paying_def emptyMarketSnapshot_def demo_runtime demo_same demo_proofs_ok
      reserved_proofs_def payment_ok_def demo_payment_def small_safe demo_payload_ok demo_delivery_ok demo_texts
      payment_rules_def complete_delivery_def json_text)

lemma demo_deliverable: "deliverable demo_payment demo_delivery (print_json demo_payload)"
  unfolding deliverable_def demo_payment_def
  by (intro conjI Market_Demo.json_text(2)) (simp_all add: truthy_text_def demo_texts)

lemma demo_roomy: "roomy demo_market" "clock_ok demo_market"
  by (simp_all add: roomy_def clock_ok_def demo_runtime demo_ports demo_clock_def small_safe is_safe_def max_safe_def)

lemmas demo_works = demo_ready demo_roomy

text \<open>
  C28. Delivering a payment, completely: while the storage has room (\<open>roomy\<close>) and the clock gives times
  (\<open>clock_ok\<close>), and memory is what the storage holds, \<open>deliverStoredPayment\<close> of a stored payment whose token,
  payload and address are there and that has no pending swap (\<open>deliverable\<close>) returns, whatever the relay answers and even when it cannot be reached.
  The payment stays stored with its token, payload and address; it is delivered exactly when the relay
  accepted it, and otherwise recoverable, with a retry offered exactly for the answers that allow one.
\<close>

theorem delivery_is_total:
  assumes "market_ready R" "roomy R" "clock_ok R" "settled_session R Attendee s"
    and "p \<in> set (sn_payments (ss_snapshot s))" "deliverable p url payload"
  shows "\<exists>q t. deliverStoredPayment R p s = (Inr q, t) \<and>
    settled_session R Attendee t \<and> q \<in> set (sn_payments (ss_snapshot t)) \<and>
    sn_proofs (ss_snapshot t) = sn_proofs (ss_snapshot s) \<and>
    pay_id q = pay_id p \<and> pay_token q = pay_token p \<and> pay_payloadJson q = pay_payloadJson p \<and>
    (case fst (rp_deliver (rt_relay R) url payload (snd (rt_now R (ss_world s)))) of
       Inr _ \<Rightarrow> pay_state q = Pay_delivered
     | Inl e \<Rightarrow> pay_state q = Pay_recoverable \<and> pay_retryable q = Some (deliveryCanRetry e))"
proof -
  obtain q t where "deliverStoredPayment R p s = (Inr q, t)" "settled_session R Attendee t"
      "q \<in> set (sn_payments (ss_snapshot t))" "sn_proofs (ss_snapshot t) = sn_proofs (ss_snapshot s)"
      "payment_after_delivery R p (fst (rp_deliver (rt_relay R) url payload (snd (rt_now R (ss_world s))))) q"
    using deliver_total[OF assms] unfolding outcome_returns by blast
  then show ?thesis by (intro exI[of _ q] exI[of _ t]) (auto simp: payment_after_delivery_def split: sum.splits)
qed

theorem delivery_is_total_witness:
  "\<exists>q t. deliverStoredPayment demo_market demo_payment (stored_session demo_paying) = (Inr q, t) \<and> pay_state q = Pay_delivered"
proof -
  have "demo_payment \<in> set (sn_payments (ss_snapshot (stored_session demo_paying)))"
    by (simp add: stored_session_def demo_paying_def)
  from delivery_is_total[OF demo_works stored_settled[OF demo_paying_ok] this demo_deliverable] show ?thesis
    by (auto simp: demo_market_def demo_relay_def)
qed

text \<open>
  Checking a payment, completely: under the same conditions \<open>checkPayment\<close> returns for every answer of the mint, also when it
  cannot be reached. Only an answer that all proofs of the token are spent ends the payment and erases
  the token; after any other answer the token, the payload and the address are still stored, and the
  state is that of the answer - unless the relay had refused the payment for good, which stays on
  record.
\<close>

theorem check_is_total:
  assumes "market_ready R" "roomy R" "clock_ok R" "settled_session R Attendee s"
    and "p \<in> set (sn_payments (ss_snapshot s))" "deliverable p url payload"
    and "pay_retryable p = Some False \<Longrightarrow> \<not> truthy_int (pay_deliveredAt p)"
  shows "\<exists>q t. checkPayment R p s = (Inr q, t) \<and>
    settled_session R Attendee t \<and> q \<in> set (sn_payments (ss_snapshot t)) \<and>
    sn_proofs (ss_snapshot t) = sn_proofs (ss_snapshot s) \<and>
    check_result p (fst (mw_checkTokenState (rt_wallet R) (text_or [] (pay_token p)) (ss_world s))) q"
  using check_total[OF assms] unfolding outcome_returns by blast

theorem check_is_total_witness:
  "\<exists>q t. checkPayment demo_market demo_payment (stored_session demo_paying) = (Inr q, t) \<and> pay_state q = Pay_unspent \<and>
     pay_token q = Some ''cashuAx''"
proof -
  have "demo_payment \<in> set (sn_payments (ss_snapshot (stored_session demo_paying)))"
    by (simp add: stored_session_def demo_paying_def)
  from check_is_total[OF demo_works stored_settled[OF demo_paying_ok] this demo_deliverable] show ?thesis
    by (auto simp: demo_market_def demo_wallet_def check_result_def demo_payment_def)
qed

subsection \<open>Orders\<close>

lemma stored_order:
  assumes "x \<in> {demo_order, demo_awaiting, demo_received, demo_swapping, demo_settled}"
  shows "settled_session demo_market Vendor (stored_session (demo_vendor_snapshot [] [x]))"
    "x \<in> set (sn_orders (ss_snapshot (stored_session (demo_vendor_snapshot [] [x]))))"
  using stored_settled[OF demo_vendor_ok[of x "[]"]] assms
  by (simp_all add: stored_session_def demo_vendor_snapshot_def)

lemma demo_settles:
  "settles_with demo_market (ss_snapshot (stored_session (demo_vendor_snapshot [] [demo_received]))) demo_received demo_swap [demo_fresh]"
  using demo_proofs_ok
  by (simp add: settles_with_def stored_session_def demo_vendor_snapshot_def emptyMarketSnapshot_def demo_runtime
      reserved_proofs_def) (simp add: demo_market_def demo_wallet_def)

lemma demo_fits: "token_fits demo_market demo_received ''cashuAx'' demo_hex demo_pub demo_swap"
proof -
  have "to_lower ''rusd'' = ''rusd''" by code_simp
  then show ?thesis
    using demo_swap_ok demo_same
    by (simp add: token_fits_def demo_runtime demo_wallet_def demo_token_def demo_order_defs demo_swap_def)
qed

text \<open>
  C29. Liveness of settlement: while the storage has room and the clock gives times, and memory is what the
  storage holds, an order whose token was received - and whose swap may already be prepared - is settled
  by one call of \<open>settleOrder\<close> when the token is the one that the request asked for and the mint answers. The call returns, the order is settled and no longer holds its token, swap or private key, and
  the balance is the old one followed by exactly the proofs that the mint returned.
\<close>

theorem received_order_settles:
  assumes "market_ready R" "roomy R" "clock_ok R" "settled_session R Vendor s"
    and "x \<in> set (sn_orders (ss_snapshot s))" "settles_with R (ss_snapshot s) x swap fresh"
    and "ord_incomingSwap x = Some swap \<or>
      ord_incomingSwap x = None \<and>
      (\<exists>token privateKey publicKey. ord_incomingToken x = Some token \<and> token \<noteq> [] \<and>
         ord_privateKey x = Some privateKey \<and> privateKey \<noteq> [] \<and> ord_publicKey x = Some publicKey \<and> publicKey \<noteq> [] \<and>
         token_fits R x token privateKey publicKey swap)"
  shows "\<exists>y t. settleOrder R x s = (Inr y, t) \<and>
    settled_session R Vendor t \<and> y \<in> set (sn_orders (ss_snapshot t)) \<and> ord_id y = ord_id x \<and>
    ord_state y = Ord_settled \<and> ord_incomingToken y = None \<and> ord_incomingSwap y = None \<and> ord_privateKey y = None \<and>
    sn_proofs (ss_snapshot t) = sn_proofs (ss_snapshot s) @ fresh"
  using settle_total[OF assms] unfolding outcome_returns settlement_result_def by blast

theorem received_order_settles_witness:
  "\<exists>y t. settleOrder demo_market demo_received (stored_session (demo_vendor_snapshot [] [demo_received])) = (Inr y, t) \<and>
     ord_state y = Ord_settled \<and> sn_proofs (ss_snapshot t) = [demo_fresh]"
proof -
  have stored: "ord_incomingSwap demo_received = Some demo_swap \<or>
      ord_incomingSwap demo_received = None \<and>
      (\<exists>token privateKey publicKey. ord_incomingToken demo_received = Some token \<and> token \<noteq> [] \<and>
         ord_privateKey demo_received = Some privateKey \<and> privateKey \<noteq> [] \<and>
         ord_publicKey demo_received = Some publicKey \<and> publicKey \<noteq> [] \<and>
         token_fits demo_market demo_received token privateKey publicKey demo_swap)"
    using demo_fits demo_texts by (simp add: demo_order_defs)
  from received_order_settles[OF demo_works stored_order[of demo_received] demo_settles stored] show ?thesis
    by (auto simp: stored_session_def demo_vendor_snapshot_def emptyMarketSnapshot_def)
qed

text \<open>
  C30. The background timer can starve: while the first open order of a vendor was never registered and its
  request has expired, every run of the timer takes up this order again, fails, and polls nothing else -
  no other order is read from the relay, no payment settled and no mint asked, however often it runs,
  and whatever the relay, the mint and the clock answer.
\<close>

theorem timer_starves:
  assumes "market_ready R" "runs_background app" "blocked_by R i (ap_session app)"
  shows "\<exists>x. next_task Vendor (ss_snapshot (ap_session ((resume R B ^^ k) app))) = Some (Poll_order x) \<and> ord_id x = i \<and>
      ss_calls (ap_session ((resume R B ^^ k) app)) = ss_calls (ap_session app)"
  using blocked_forever[OF assms, of k B] blocked_resume(4)[OF assms(1)] by blast

definition late_market :: "int runtime" where
  "late_market = demo_market\<lparr>rt_now := (\<lambda>w. (2000000, w))\<rparr>"

definition late_app :: "int app" where
  "late_app = demo_app\<lparr>ap_role := Vendor, ap_status := Online, ap_session := stored_session (demo_vendor_snapshot [] [demo_order])\<rparr>"

lemma demo_request_read: "decodePaymentRequest demo_url demo_cashu ''creqA'' = Inr
      \<lparr>dr_id = Some demo_order_id, dr_amount = Some 10, dr_unit = ''rusd'', dr_mints = [''https://m''], dr_description = ''Item'',
        dr_singleUse = True, dr_transport = [\<lparr>tp_type = POST, tp_target = demo_delivery, tp_tags = Some demo_tags\<rparr>],
        dr_nut10 = rr_nut10 demo_raw, dr_encoded = ''creqA''\<rparr>"
proof -
  have "trim ''creqA'' = ''creqA''" "is_request_text ''creqA''" "trim ''Item'' = ''Item''" "to_lower ''rusd'' = ''rusd''"
    by code_simp+
  then show ?thesis
    by (simp add: decodePaymentRequest_def demo_cashu_def demo_raw_def demo_mint guardR_def truthy_text_def text_or_def
        demo_texts num_safe_def small_safe)
qed

text \<open>What the attendee's checks say of the demonstration's request, at every time.\<close>

lemma demo_read:
  assumes "\<not> num_less balance (Some 10)"
  shows "if t < 1300 \<and> 1300 \<le> t + 600
    then \<exists>v. validateEventPaymentRequest demo_platform demo_event ''creqA'' balance t = Inr v
    else \<exists>e. validateEventPaymentRequest demo_platform demo_event ''creqA'' balance t = Inl e"
proof -
  have "to_lower ''rusd'' = ''rusd''" "int_text 1300 = ''1300''" by code_simp+
  moreover from this(2) have "js_number N ''1300'' = JInt 1300" for N
    using expiry_number[of 1300 N] by (simp add: small_safe)
  moreover have "paymentRequestLock demo_cashu r = Inr (Some \<lparr>lk_pubkey = demo_pub, lk_locktime = None, lk_refundKeys = [], lk_signatures = None\<rparr>)"
    if "dr_encoded r = ''creqA''" for r
    using that by (simp add: paymentRequestLock_def demo_cashu_def demo_raw_def)
  ultimately show ?thesis
    using assms
    by (simp add: validateEventPaymentRequest_def demo_runtime demo_request_read validatePaymentRequest_def num_safe_def small_safe
        guardR_def demo_mint truthy_text_def demo_texts postTransport_def demo_deliver_url
        url_origin_def tags_def demo_tags_def demo_event_def tag_number_def intR_def vendor_only_def demo_raw_def plain_lock_def
        truthy_int_def)
qed

lemma late_hopeless: "hopeless late_market demo_order"
  using demo_read[of max_safe_number 2000]
  by (simp add: hopeless_def demo_order_def late_market_def demo_runtime truthy_text_def num_less_def max_safe_number_def max_safe_def)

lemma late_blocked: "blocked_by late_market demo_order_id (ap_session late_app)"
  using late_hopeless stored_order(1)[of demo_order]
    normalizeSnapshot_back[OF demo_vendor_ok[of demo_order "[]"]]
  by (auto simp: blocked_by_def synced_def late_market_def late_app_def demo_runtime settled_session_def
      stored_session_def demo_vendor_snapshot_def emptyMarketSnapshot_def hopeless_open demo_order_def[THEN arg_cong[where f = ord_id], simplified])

theorem timer_starves_witness:
  "ss_calls (ap_session ((resume late_market demo_browser ^^ 1000) late_app)) = []"
proof -
  have ready: "market_ready late_market" using demo_ready by (simp add: market_ready_def late_market_def)
  have "runs_background late_app" by (simp add: runs_background_def late_app_def demo_app_def truthy_text_def)
  moreover have "ss_calls (ap_session late_app) = []" by (simp add: late_app_def stored_session_def)
  ultimately show ?thesis
    using timer_starves[OF ready _ late_blocked, of 1000 demo_browser] by (simp only:) blast
qed

subsection \<open>Charges\<close>

text \<open>
  C31. The amount of a charge: an order that \<open>createOrder\<close> returns is over the exact sum of quantity times price
  of its items, computed without rounding by the code's floating-point sum, and the sum is positive and
  safe.
\<close>

theorem order_amount_is_exact_sum:
  "case createOrder R items s of
     (Inr x, t) \<Rightarrow> ord_items x = items \<and> ord_amount x = (\<Sum>i \<leftarrow> items. oi_quantity i * oi_unitPrice i) \<and>
       0 < ord_amount x \<and> is_safe (ord_amount x)
   | (Inl e, t) \<Rightarrow> True"
  using create_order_amount[of R items s] by (auto simp: outcome_def order_total_def split: prod.splits sum.splits)

lemma text_or_truthy: "truthy_text t \<Longrightarrow> t = Some (text_or d t) \<and> text_or d t \<noteq> []"
  by (auto simp: truthy_text_def text_or_def split: option.splits)

text \<open>
  C32. What an attendee may be asked to pay: when \<open>validateEventPaymentRequest\<close> accepts a text - any text - with
  a balance of \<open>b\<close> at second \<open>t\<close>, the request is for a positive amount within the balance, in the event's
  unit and from exactly the event's mint, for one order; it has one POST transport, to a delivery path of
  the event's relay without credentials, query or fragment; it names a vendor of the event, expires after
  \<open>t\<close> and within ten minutes, and locks the payment to the one key it names, without refund keys, lock
  time or further signatures.
\<close>

theorem accepted_requests_are_safe:
  assumes "validateEventPaymentRequest P m encoded (Some b) t = Inr v"
  shows "\<exists>a mint tr u lock.
    decodePaymentRequest (new_url P) (package P) encoded = Inr (vr_request v) \<and>
    dr_amount (vr_request v) = Some a \<and> 0 < a \<and> a \<le> b \<and> is_safe a \<and>
    dr_unit (vr_request v) = to_lower (em_unit m) \<and>
    normalizeMintUrl (new_url P) (em_mintUrl m) = Inr mint \<and> dr_mints (vr_request v) = [mint] \<and>
    dr_singleUse (vr_request v) \<and> dr_id (vr_request v) = Some (vr_orderId v) \<and> vr_orderId v \<noteq> [] \<and>
    dr_transport (vr_request v) = [tr] \<and> tp_type tr = POST \<and> tp_target tr = vr_deliveryUrl v \<and>
    new_url P (vr_deliveryUrl v) = Some u \<and> url_origin u = em_relayOrigin m \<and> is_delivery_path (pathname u) \<and>
    username u = [] \<and> password u = [] \<and> search u = [] \<and> hash u = [] \<and>
    vr_vendor v \<in> set (em_vendors m) \<and> t < vr_expiresAt v \<and> vr_expiresAt v \<le> t + 600 \<and>
    paymentRequestLock (package P) (vr_request v) = Inr (Some lock) \<and> lk_pubkey lock = vr_lockPublicKey v \<and>
    lk_refundKeys lock = [] \<and> \<not> truthy_int (lk_locktime lock) \<and> \<not> truthy_int (lk_signatures lock)"
proof -
  obtain r mint tr u where r: "decodePaymentRequest (new_url P) (package P) encoded = Inr r"
      "validatePaymentRequest (new_url P) r (em_mintUrl m) (em_unit m) (Some b) = Inr ()"
    and mint: "normalizeMintUrl (new_url P) (em_mintUrl m) = Inr mint" "dr_mints r = [mint]"
    and one: "dr_singleUse r" "truthy_text (dr_id r)" "length (dr_transport r) = 1" "postTransport r = Some tr"
    and u: "new_url P (tp_target tr) = Some u" "url_origin u = em_relayOrigin m" "username u = []" "password u = []"
      "search u = []" "hash u = []" "is_delivery_path (pathname u)"
    using assms unfolding validateEventPaymentRequest_def Let_def bindR_Inr guardR_Inr
    by (elim exE conjE) (auto simp: bindR_Inr guardR_Inr split: option.splits)
  obtain metadata lock where rest: "find (\<lambda>v. map_of metadata ''vendor_id'' = Some (vm_id v)) (em_vendors m) = Some (vr_vendor v)"
      "t < vr_expiresAt v" "vr_expiresAt v \<le> t + 600" "vendor_only (dr_nut10 r)" "paymentRequestLock (package P) r = Inr lock"
      "plain_lock (n10_data (the (dr_nut10 r))) lock" "vr_request v = r" "vr_orderId v = text_or [] (dr_id r)"
      "vr_deliveryUrl v = tp_target tr" "vr_lockPublicKey v = n10_data (the (dr_nut10 r))"
    using assms unfolding validateEventPaymentRequest_def Let_def
    by (simp add: r mint one u bindR_Inr guardR_Inr) (auto simp: bindR_Inr guardR_Inr split: option.splits)
  have "dr_transport r = [tr]" "tp_type tr = POST"
    using one(3,4) by (auto simp: postTransport_def length_Suc_conv split: if_splits)
  moreover obtain a where "dr_amount r = Some a" "is_safe a" "0 < a" "a \<le> b" "dr_unit r = to_lower (em_unit m)"
    using r(2) decodePaymentRequest_facts(1)[OF r(1)]
    by (auto simp: validatePaymentRequest_def bindR_Inr guardR_Inr num_less_def)
  moreover obtain l where "lock = Some l" "lk_pubkey l = vr_lockPublicKey v" "lk_refundKeys l = []"
      "\<not> truthy_int (lk_locktime l)" "\<not> truthy_int (lk_signatures l)"
    using rest(6,10) by (auto simp: plain_lock_def split: option.splits)
  moreover have "vr_vendor v \<in> set (em_vendors m)" using rest(1) by (auto dest: find_SomeD)
  ultimately show ?thesis
    using r(1) mint one u rest text_or_truthy[OF one(2), of "[]"] by simp
qed

theorem accepted_requests_are_safe_witness:
  "\<exists>v a. validateEventPaymentRequest demo_platform demo_event ''creqA'' (Some 10) 1000 = Inr v \<and>
     dr_amount (vr_request v) = Some a \<and> a \<le> 10 \<and> vr_expiresAt v \<le> 1600"
proof -
  obtain v where v: "validateEventPaymentRequest demo_platform demo_event ''creqA'' (Some 10) 1000 = Inr v"
    using demo_read[of "Some 10" 1000] by (auto simp: num_less_def)
  from accepted_requests_are_safe[OF this] v show ?thesis by auto
qed







end
