(* ===== verification/Wallet_Amounts.thy ===== *)
theory Wallet_Amounts
  imports Market_Ports
begin

section \<open>Amounts on the screen\<close>

text \<open>
  \<open>fmt\<close>, \<open>parseAmount\<close> and \<open>explainMeltError\<close> of \<open>wallet/src/lib/wallet.ts\<close>: how an amount of ecash units
  is shown with two decimals and read back from what the user typed. (The dash in the last text is a
  hyphen here.)
\<close>

text \<open>\<open>value.padStart(2, "0")\<close> and \<open>value.padEnd(2, "0")\<close>.\<close>

definition pad_start2 :: "string \<Rightarrow> string" where
  "pad_start2 s = replicate (2 - length s) (CHR ''0'') @ s"

definition pad_end2 :: "string \<Rightarrow> string" where
  "pad_end2 s = s @ replicate (2 - length s) (CHR ''0'')"

text \<open>
  \<open>Math.floor(abs / 100)\<close> of a safe integer is the integer quotient: the spacing of the doubles below
  \<open>2 ^ 53 / 100\<close> is at most \<open>1 / 64\<close>, so a quotient \<open>k - 1 / 100\<close> is not rounded up to \<open>k\<close>.
\<close>

definition fmt :: "int \<Rightarrow> string" where
  "fmt v =
     (if v < 0 then ''-'' else []) @ int_text (\<bar>v\<bar> div 100) @ ''.'' @ pad_start2 (int_text (\<bar>v\<bar> mod 100))"

text \<open>\<open>/^\d+(\.\d{1,2})?$/\<close>, split at the point: the digits before it and those after it.\<close>

definition amount_parts :: "string \<Rightarrow> (string \<times> string) option" where
  "amount_parts s =
     (let whole = takeWhile is_digit s; rest = dropWhile is_digit s in
      if whole = [] then None
      else case rest of
        [] \<Rightarrow> Some (whole, [])
      | c # cents \<Rightarrow>
          if c = CHR ''.'' \<and> list_all is_digit cents \<and> 1 \<le> length cents \<and> length cents \<le> 2 then Some (whole, cents)
          else None)"

definition parseAmount :: "string \<Rightarrow> int option" where
  "parseAmount input =
     (let t = trim input; trimmed = (if t \<noteq> [] \<and> hd t = CHR ''$'' then tl t else t) in
      case amount_parts trimmed of
        None \<Rightarrow> None
      | Some (whole, cents) \<Rightarrow>
          (let v = js_add (js_mul (number_of_digits whole) 100) (number_of_digits (pad_end2 cents))
           in if is_safe v \<and> 0 < v then Some v else None))"

definition explainMeltError :: "string \<Rightarrow> string" where
  "explainMeltError message =
     (let m = to_lower message in
      if contains_text ''unit unsupported'' m \<or> contains_text ''could not get quote'' m \<or> contains_text ''11013'' m
      then ''The mint could not route a payment to this invoice. Melt pays an external Fiber invoice - you cannot melt an invoice issued by this mint (that would be the mint paying itself). Use an invoice from a different node that the mint can reach, in the same unit.''
      else message)"

subsection \<open>Reading back what is shown\<close>

lemma parseAmount_facts: "parseAmount s = Some v \<Longrightarrow> is_safe v \<and> 0 < v"
  by (auto simp: parseAmount_def Let_def split: option.splits if_splits)

lemma digits_value_append: "digits_value (s @ t) = digits_value s * 10 ^ length t + digits_value t"
proof (induction t rule: rev_induct)
  case (snoc c t)
  then show ?case
    by (simp add: digits_value_snoc append_assoc[symmetric] algebra_simps del: append_assoc)
qed (simp add: digits_value_def)

lemma digits_value_zeros [simp]: "digits_value (replicate n (CHR ''0'')) = 0"
proof (induction n)
  case (Suc n)
  have "digits_value ''0'' = 0" by code_simp
  with Suc digits_value_append[of "''0''" "replicate n (CHR ''0'')"] show ?case by simp
qed (simp add: digits_value_def)

lemma two_digits:
  assumes "n < 100"
  shows "length (pad_start2 (nat_text n)) = 2" "list_all is_digit (pad_start2 (nat_text n))"
    "digits_value (pad_start2 (nat_text n)) = n"
proof -
  have zero: "is_digit CHR ''0''" by code_simp
  have "length (nat_text n) = (if n < 10 then 1 else 2)"
    using assms by (subst nat_text.simps, subst nat_text.simps) auto
  then show "length (pad_start2 (nat_text n)) = 2" by (simp add: pad_start2_def)
  show "list_all is_digit (pad_start2 (nat_text n))"
    using nat_text_digits[of n] zero by (auto simp: pad_start2_def list_all_iff)
  show "digits_value (pad_start2 (nat_text n)) = n"
    by (simp add: pad_start2_def digits_value_append)
qed

lemma no_space: "list_all (\<lambda>c. \<not> is_space c) s \<Longrightarrow> trim s = s"
proof -
  assume s: "list_all (\<lambda>c. \<not> is_space c) s"
  then have "dropWhile is_space s = s" "dropWhile is_space (rev s) = rev s"
    using hd_in_set[of s] hd_in_set[of "rev s"] by (auto simp: dropWhile_eq_self_iff list_all_iff)
  then show ?thesis by (simp add: trim_def)
qed

lemma digit_no_space: "is_digit c \<Longrightarrow> \<not> is_space c \<and> c \<noteq> CHR ''$'' \<and> c \<noteq> CHR ''.''"
  by (auto simp: is_digit_def is_space_def)

lemma parse_shown:
  assumes "is_safe v" "0 < v"
  shows "parseAmount (fmt v) = Some v"
proof -
  define w where "w = nat (v div 100)"
  define c where "c = nat (v mod 100)"
  have v: "v = 100 * int w + int c" "c < 100" using assms(2) by (auto simp: w_def c_def)
  define cents where "cents = pad_start2 (nat_text c)"
  note cents = two_digits[OF v(2), folded cents_def]
  have shown: "fmt v = nat_text w @ CHR ''.'' # cents"
    using assms(2) pos_imp_zdiv_nonneg_iff[of 100 v] pos_mod_sign[of 100 v, THEN leD]
    by (simp add: fmt_def int_text_def w_def c_def cents_def)
  have "list_all (\<lambda>c. \<not> is_space c) (fmt v)"
  proof -
    have "\<not> is_space CHR ''.''" by code_simp
    then show ?thesis
      using nat_text_digits[of w] cents(2) digit_no_space by (auto simp: shown list_all_iff)
  qed
  then have trimmed: "trim (fmt v) = fmt v" by (rule no_space)
  have first: "hd (fmt v) \<noteq> CHR ''$''" "fmt v \<noteq> []"
    using nat_text_digits[of w] digit_no_space nat_text_nonempty[of w]
    by (cases "nat_text w"; auto simp: shown)+
  have point: "\<not> is_digit CHR ''.''" by code_simp
  have parts: "takeWhile is_digit (fmt v) = nat_text w" "dropWhile is_digit (fmt v) = CHR ''.'' # cents"
    using nat_text_digits[of w] point unfolding shown
    by (simp_all add: takeWhile_append dropWhile_append list_all_iff)
  have "is_safe (int w)" "is_safe (100 * int w)" "is_safe (int c)"
    using assms v by (auto simp: is_safe_def)
  then have "js_add (js_mul (number_of_digits (nat_text w)) 100) (number_of_digits (pad_end2 cents)) = v"
    using assms(1) v(1) cents by (simp add: number_of_digits_def pad_end2_def js_round_exact js_mul_def js_add_def mult.commute)
  then show ?thesis
    using assms first cents by (simp add: parseAmount_def trimmed amount_parts_def parts)
qed

end
