(* ===== verification/Wallet_Task.thy ===== *)
theory Wallet_Task
  imports Market_Errors Effects
begin

section \<open>Asynchronous handlers\<close>

text \<open>
  An \<open>async\<close> function of the wallet's application runs from one \<open>await\<close> to the next; between them other
  handlers run on the same state. A \<open>task\<close> is such a function, taken up to its next wait: \<open>Done s r\<close> has
  ended in state \<open>s\<close> with result \<open>r\<close>; \<open>Await s c k\<close> has left state \<open>s\<close>, has made the call \<open>c\<close>, and
  goes on with \<open>k\<close> from the answer and the state it then finds. A \<open>throw\<close> is the result \<open>Inl e\<close>.
\<close>

datatype ('s, 'c, 'r, 'a) task =
    Done 's "failure + 'a"
  | Await 's 'c "failure + 'r \<Rightarrow> 's \<Rightarrow> ('s, 'c, 'r, 'a) task"

type_synonym ('s, 'c, 'r, 'a) async = "'s \<Rightarrow> ('s, 'c, 'r, 'a) task"

lemma task_induct [case_names Done Await, induct type]:
  assumes "\<And>s r. P (Done s r)" "\<And>s c k. (\<And>r s'. P (k r s')) \<Longrightarrow> P (Await s c k)"
  shows "P t"
  by (rule task.induct) (use assms in \<open>meson rangeI\<close>)+

fun left_state :: "('s, 'c, 'r, 'a) task \<Rightarrow> 's" where
  "left_state (Done s r) = s"
| "left_state (Await s c k) = s"

primrec chain :: "('s, 'c, 'r, 'a) task \<Rightarrow> (failure + 'a \<Rightarrow> ('s, 'c, 'r, 'b) async) \<Rightarrow> ('s, 'c, 'r, 'b) task" where
  "chain (Done s r) f = f r s"
| "chain (Await s c k) f = Await s c (\<lambda>r s'. chain (k r s') f)"

text \<open>A stretch without a wait, and one call with what is read of its answer.\<close>

definition syncA :: "('s, failure, 'a) effect \<Rightarrow> ('s, 'c, 'r, 'a) async" where
  "syncA m s = (case m s of (r, s') \<Rightarrow> Done s' r)"

definition returnA :: "'a \<Rightarrow> ('s, 'c, 'r, 'a) async" where
  "returnA x s = Done s (Inr x)"

definition throwA :: "failure \<Rightarrow> ('s, 'c, 'r, 'a) async" where
  "throwA e s = Done s (Inl e)"

definition askA :: "'c \<Rightarrow> ('r \<Rightarrow> 'a option) \<Rightarrow> ('s, 'c, 'r, 'a) async" where
  "askA c read s =
     Await s c (\<lambda>r s'. Done s'
       (case r of Inl e \<Rightarrow> Inl e
        | Inr x \<Rightarrow> (case read x of None \<Rightarrow> Inl Thrown_value | Some y \<Rightarrow> Inr y)))"

text \<open>Sequence, \<open>try\<close> with the rest of the function after it, \<open>try { p } catch (e) { h }\<close>, and \<open>finally\<close>.\<close>

definition bindA :: "('s, 'c, 'r, 'a) async \<Rightarrow> ('a \<Rightarrow> ('s, 'c, 'r, 'b) async) \<Rightarrow> ('s, 'c, 'r, 'b) async" where
  "bindA p f s = chain (p s) (\<lambda>r s'. case r of Inl e \<Rightarrow> Done s' (Inl e) | Inr x \<Rightarrow> f x s')"

definition tryA ::
  "('s, 'c, 'r, 'a) async \<Rightarrow> (failure \<Rightarrow> ('s, 'c, 'r, 'b) async) \<Rightarrow> ('a \<Rightarrow> ('s, 'c, 'r, 'b) async) \<Rightarrow>
   ('s, 'c, 'r, 'b) async" where
  "tryA p h f s = chain (p s) (\<lambda>r s'. case r of Inl e \<Rightarrow> h e s' | Inr x \<Rightarrow> f x s')"

definition catchA ::
  "('s, 'c, 'r, 'a) async \<Rightarrow> (failure \<Rightarrow> ('s, 'c, 'r, 'a) async) \<Rightarrow> ('s, 'c, 'r, 'a) async" where
  "catchA p h = tryA p h returnA"

definition finallyA :: "('s, 'c, 'r, 'a) async \<Rightarrow> ('s \<Rightarrow> 's) \<Rightarrow> ('s, 'c, 'r, 'a) async" where
  "finallyA p f s = chain (p s) (\<lambda>r s'. Done (f s') r)"

abbreviation ifA :: "bool \<Rightarrow> ('s, 'c, 'r, unit) async \<Rightarrow> ('s, 'c, 'r, unit) async" where
  "ifA b p \<equiv> (if b then p else returnA ())"

text \<open>\<open>await p;\<close> where the value is not used.\<close>

definition awaited :: "('s, 'c, 'r, 'a) async \<Rightarrow> ('s, 'c, 'r, unit) async" where
  "awaited p = bindA p (\<lambda>_. returnA ())"

text \<open>The result is dropped: \<open>void p.catch(() => undefined)\<close> keeps only the state.\<close>

definition voidA :: "('s, 'c, 'r, 'a) async \<Rightarrow> ('s, 'c, 'r, unit) async" where
  "voidA p s = chain (p s) (\<lambda>r s'. Done s' (Inr ()))"

subsection \<open>Contracts of a task\<close>

text \<open>
  \<open>meets R G C F Q t\<close>: whatever the other handlers do to the state within \<open>R\<close> while the task waits, and
  whatever answers it gets within \<open>F\<close>, each of its stretches changes the state within \<open>G\<close>, each call is
  made in a state where \<open>C\<close> allows it, and \<open>Q\<close> holds of the result. \<open>G\<close> is told what started the stretch:
  nothing at the start of the handler, otherwise the call with its answer.
\<close>

primrec meets ::
  "('s \<Rightarrow> 's \<Rightarrow> bool) \<Rightarrow> (('c \<times> (failure + 'r)) option \<Rightarrow> 's \<Rightarrow> 's \<Rightarrow> bool) \<Rightarrow> ('c \<Rightarrow> 's \<Rightarrow> bool) \<Rightarrow>
   ('c \<Rightarrow> failure + 'r \<Rightarrow> bool) \<Rightarrow> (('c \<times> (failure + 'r)) option \<Rightarrow> 's \<Rightarrow> failure + 'a \<Rightarrow> 's \<Rightarrow> bool) \<Rightarrow>
   ('s, 'c, 'r, 'a) task \<Rightarrow> ('c \<times> (failure + 'r)) option \<Rightarrow> 's \<Rightarrow> bool" where
  "meets R G C F Q (Done s r) ev s0 = Q ev s0 r s"
| "meets R G C F Q (Await s c k) ev s0 =
     (G ev s0 s \<and> C c s \<and> (\<forall>r s'. R s s' \<longrightarrow> F c r \<longrightarrow> meets R G C F Q (k r s') (Some (c, r)) s'))"

lemma meets_mono:
  "meets R G C F Q t ev s0 \<Longrightarrow> (\<And>ev s0 r s. Q ev s0 r s \<Longrightarrow> Q' ev s0 r s) \<Longrightarrow> meets R G C F Q' t ev s0"
  by (induction t arbitrary: ev s0) auto

text \<open>A chained task: the first part ends inside a stretch, and the second part goes on with that stretch.\<close>

lemma meets_chain:
  "meets R G C F Q (chain t f) ev s0 \<longleftrightarrow> meets R G C F (\<lambda>ev s0 r s. meets R G C F Q (f r s) ev s0) t ev s0"
  by (induction t arbitrary: ev s0) auto

text \<open>The rules go backwards through a handler, from a statement about its end to one about its parts.\<close>

named_theorems contracts \<open>parts of a handler that meets a contract\<close>

lemma meets_sync:
  "Q ev s0 (fst (m s)) (snd (m s)) \<Longrightarrow> meets R G C F Q (syncA m s) ev s0"
  by (auto simp: syncA_def split: prod.splits)

lemma meets_return [contracts]: "Q ev s0 (Inr x) s \<Longrightarrow> meets R G C F Q (returnA x s) ev s0"
  by (simp add: returnA_def)

lemma meets_throw [contracts]: "Q ev s0 (Inl e) s \<Longrightarrow> meets R G C F Q (throwA e s) ev s0"
  by (simp add: throwA_def)

lemma meets_ask:
  assumes "G ev s0 s" "C c s"
    and "\<And>e s'. R s s' \<Longrightarrow> F c (Inl e) \<Longrightarrow> Q (Some (c, Inl e)) s' (Inl e) s'"
    and "\<And>x s'. R s s' \<Longrightarrow> F c (Inr x) \<Longrightarrow>
      Q (Some (c, Inr x)) s' (case read x of None \<Rightarrow> Inl Thrown_value | Some y \<Rightarrow> Inr y) s'"
  shows "meets R G C F Q (askA c read s) ev s0"
  using assms by (auto simp: askA_def split: sum.splits)

lemma meets_bind [contracts]:
  "meets R G C F (\<lambda>ev s0 r s. case r of Inl e \<Rightarrow> Q ev s0 (Inl e) s | Inr x \<Rightarrow> meets R G C F Q (f x s) ev s0) (p s) ev s0 \<Longrightarrow>
   meets R G C F Q (bindA p f s) ev s0"
  unfolding bindA_def meets_chain by (erule meets_mono) (auto split: sum.splits)

lemma meets_try [contracts]:
  "meets R G C F (\<lambda>ev s0 r s. case r of Inl e \<Rightarrow> meets R G C F Q (h e s) ev s0
      | Inr x \<Rightarrow> meets R G C F Q (f x s) ev s0) (p s) ev s0 \<Longrightarrow>
   meets R G C F Q (tryA p h f s) ev s0"
  unfolding tryA_def meets_chain by (erule meets_mono) (auto split: sum.splits)

lemma meets_catch [contracts]:
  "meets R G C F (\<lambda>ev s0 r s. case r of Inl e \<Rightarrow> meets R G C F Q (h e s) ev s0
      | Inr x \<Rightarrow> Q ev s0 (Inr x) s) (p s) ev s0 \<Longrightarrow>
   meets R G C F Q (catchA p h s) ev s0"
  unfolding catchA_def by (rule meets_try, erule meets_mono) (auto simp: returnA_def split: sum.splits)

lemma meets_finally:
  "meets R G C F (\<lambda>ev s0 r s. Q ev s0 r (f s)) (p s) ev s0 \<Longrightarrow> meets R G C F Q (finallyA p f s) ev s0"
  unfolding finallyA_def meets_chain by simp

lemma meets_void:
  "meets R G C F (\<lambda>ev s0 r s. Q ev s0 (Inr ()) s) (p s) ev s0 \<Longrightarrow> meets R G C F Q (voidA p s) ev s0"
  unfolding voidA_def meets_chain by simp

lemma meets_awaited [contracts]:
  "meets R G C F (\<lambda>ev s0 r s. Q ev s0 (case r of Inl e \<Rightarrow> Inl e | Inr _ \<Rightarrow> Inr ()) s) (p s) ev s0 \<Longrightarrow>
   meets R G C F Q (awaited p s) ev s0"
  unfolding awaited_def by (rule meets_bind, erule meets_mono) (auto simp: returnA_def split: sum.splits)

subsection \<open>Handlers that run side by side\<close>

text \<open>A waiting handler in a state \<open>s\<close> that the others may have changed since it called.\<close>

definition waiting ::
  "('s \<Rightarrow> 's \<Rightarrow> bool) \<Rightarrow> (('c \<times> (failure + 'r)) option \<Rightarrow> 's \<Rightarrow> 's \<Rightarrow> bool) \<Rightarrow> ('c \<Rightarrow> 's \<Rightarrow> bool) \<Rightarrow>
   ('c \<Rightarrow> failure + 'r \<Rightarrow> bool) \<Rightarrow> ('s, 'c, 'r, 'a) task \<Rightarrow> 's \<Rightarrow> bool" where
  "waiting R G C F t s =
     (case t of
        Done s' r \<Rightarrow> False
      | Await s' c k \<Rightarrow> C c s \<and>
          (\<forall>r s'. R s s' \<longrightarrow> F c r \<longrightarrow> meets R G C F (\<lambda>ev s0 x s. G ev s0 s) (k r s') (Some (c, r)) s'))"

text \<open>
  The interface between handlers: each has a part \<open>p\<close> to play; what one part guarantees, every part
  apart from it may rely on, and what allowed a call keeps allowing it.
\<close>

locale interference =
  fixes rely :: "'p \<Rightarrow> 's \<Rightarrow> 's \<Rightarrow> bool"
    and guarantee :: "'p \<Rightarrow> ('c \<times> (failure + 'r)) option \<Rightarrow> 's \<Rightarrow> 's \<Rightarrow> bool"
    and allowed :: "'p \<Rightarrow> 'c \<Rightarrow> 's \<Rightarrow> bool"
    and apart :: "'p \<Rightarrow> 'p \<Rightarrow> bool"
  assumes rely_refl: "rely p s s"
    and rely_trans: "rely p s t \<Longrightarrow> rely p t u \<Longrightarrow> rely p s u"
    and guarantee_rely: "apart p q \<Longrightarrow> guarantee p ev s t \<Longrightarrow> rely q s t"
    and allowed_stable: "allowed p c s \<Longrightarrow> rely p s t \<Longrightarrow> allowed p c t"
begin

lemma waiting_starts:
  "meets (rely p) (guarantee p) (allowed p) F (\<lambda>ev s0 x s. guarantee p ev s0 s) (Await s c k) ev s0 \<Longrightarrow>
     guarantee p ev s0 s \<and> waiting (rely p) (guarantee p) (allowed p) F (Await s c k) s"
  by (simp add: waiting_def)

lemma waiting_stable:
  assumes "waiting (rely p) (guarantee p) (allowed p) F t s" and "rely p s s'"
  shows "waiting (rely p) (guarantee p) (allowed p) F t s'"
  using assms by (auto simp: waiting_def intro: allowed_stable dest: rely_trans split: task.splits)

lemma waiting_apart:
  assumes "waiting (rely q) (guarantee q) (allowed q) F t s" and "apart p q" and "guarantee p ev s s'"
  shows "waiting (rely q) (guarantee q) (allowed q) F t s'"
  using assms by (blast intro: waiting_stable guarantee_rely)

lemma waiting_answered:
  assumes "waiting (rely p) (guarantee p) (allowed p) F (Await s0 c k) s" and "F c r"
  shows "meets (rely p) (guarantee p) (allowed p) F (\<lambda>ev s0 x s. guarantee p ev s0 s) (k r s) (Some (c, r)) s"
  using assms by (simp add: waiting_def rely_refl)

lemma waiting_allowed:
  "waiting (rely p) (guarantee p) (allowed p) F (Await s0 c k) s \<Longrightarrow> allowed p c s"
  by (simp add: waiting_def)

end

end
