(* ===== verification/Market_Screens.thy ===== *)
theory Market_Screens
  imports Market_App Wallet_Amounts Wallet_Task "HOL-Library.Product_Lexorder"
begin

section \<open>The screens of the market\<close>

text \<open>
  What the screens of \<open>market/src/screens\<close> compute from the snapshot and offer as actions: the cart of the
  vendor, the presentation of orders, payments and cash operations, the order of the lists, and the buttons.
  Markup and dates are left out. An action of a screen is a task over the state of the screen: its calls are
  the \<open>market_task\<close>s of \<open>Market_App\<close>, and each answer is what the call returned or threw, at any later time.
\<close>

datatype tone = Neutral | Pending_tone | Settled_tone | Failed_tone | Recoverable_tone

text \<open>\<open>replaceAll("_", " ")\<close>\<close>

definition spaced :: "string \<Rightarrow> string" where
  "spaced = map (\<lambda>c. if c = CHR ''_'' then CHR '' '' else c)"

text \<open>Value moves only online, with readable storage and outside the preview.\<close>

definition can_move_value :: "'w app \<Rightarrow> bool" where
  "can_move_value app \<longleftrightarrow> ap_status app = Online \<and> \<not> truthy_text (ap_storageError app)"

subsection \<open>Selling\<close>

record cart =
  ct_quantities :: "string \<Rightarrow> int option"
  ct_tip :: string
  ct_reviewing :: bool

definition empty_cart :: cart where
  "empty_cart = \<lparr>ct_quantities = Map.empty, ct_tip = [], ct_reviewing = False\<rparr>"

definition quantity_of :: "cart \<Rightarrow> string \<Rightarrow> int" where
  "quantity_of c ident = (case ct_quantities c ident of None \<Rightarrow> 0 | Some q \<Rightarrow> q)"

definition adjust :: "string \<Rightarrow> int \<Rightarrow> cart \<Rightarrow> cart" where
  "adjust ident amount c =
     c\<lparr>ct_reviewing := False, ct_quantities := (ct_quantities c)(ident \<mapsto> max 0 (min 20 (quantity_of c ident + amount)))\<rparr>"

definition set_tip :: "string \<Rightarrow> cart \<Rightarrow> cart" where
  "set_tip v c = c\<lparr>ct_tip := v, ct_reviewing := False\<rparr>"

definition clear_cart :: "cart \<Rightarrow> cart" where
  "clear_cart c = c\<lparr>ct_quantities := Map.empty, ct_tip := []\<rparr>"

definition cart_item :: "cart \<Rightarrow> catalog_item \<Rightarrow> order_item list" where
  "cart_item c x =
     (case ci_price x of
        Custom_price \<Rightarrow>
          (case parseAmount (ct_tip c) of
             None \<Rightarrow> []
           | Some parsed \<Rightarrow> [\<lparr>oi_itemId = ci_id x, oi_label = ci_label x, oi_quantity = 1, oi_unitPrice = parsed\<rparr>])
      | Price p \<Rightarrow>
          if 0 < quantity_of c (ci_id x)
          then [\<lparr>oi_itemId = ci_id x, oi_label = ci_label x, oi_quantity = quantity_of c (ci_id x), oi_unitPrice = p\<rparr>]
          else [])"

definition cart_items :: "vendor_manifest \<Rightarrow> cart \<Rightarrow> order_item list" where
  "cart_items vendor c = concat (map (cart_item c) (vm_catalog vendor))"

definition cart_total :: "vendor_manifest \<Rightarrow> cart \<Rightarrow> int" where
  "cart_total vendor c =
     foldl (\<lambda>so_far x. js_add so_far (js_mul (oi_quantity x) (oi_unitPrice x))) 0 (cart_items vendor c)"

definition review_offered :: "vendor_manifest \<Rightarrow> 'w app \<Rightarrow> cart \<Rightarrow> bool" where
  "review_offered vendor app c \<longleftrightarrow> 0 < cart_total vendor c \<and> can_move_value app"

subsection \<open>Orders\<close>

definition orderPresentation :: "vendor_order \<Rightarrow> string \<times> tone \<times> string" where
  "orderPresentation x =
     (case ord_state x of
        Ord_registering \<Rightarrow> (''Registering'', Pending_tone, ''Creating a durable delivery slot.'')
      | Ord_awaiting \<Rightarrow> (''Ready to scan'', Pending_tone, ''Waiting for the attendee payment.'')
      | Ord_cancelling \<Rightarrow> (''Cancelling'', Pending_tone, ''Resolving whether delivery already won.'')
      | Ord_received \<Rightarrow> (''Token received'', Pending_tone, ''Stored locally before relay acknowledgement.'')
      | Ord_validating \<Rightarrow> (''Checking issuer'', Pending_tone, ''Verifying amount, mint, lock, and proof state.'')
      | Ord_swapping \<Rightarrow> (''Securing payment'', Pending_tone, ''Asking the mint for fresh vendor proofs.'')
      | Ord_settled \<Rightarrow> (''Paid'', Settled_tone, ''Fresh proofs are persisted in the vendor balance.'')
      | Ord_cancelled \<Rightarrow> (''Cancelled'', Neutral, ''The delivery slot closed before a payload arrived.'')
      | Ord_expired \<Rightarrow> (''Expired'', Failed_tone, ''No delivered payload was found before expiry.'')
      | Ord_rejected \<Rightarrow> (''Rejected'', Failed_tone, text_or ''The delivered token failed validation.'' (ord_error x))
      | Ord_recoverable \<Rightarrow> (''Recovery required'', Recoverable_tone, text_or ''Stored state can be checked again.'' (ord_error x)))"

definition order_terminal :: "vendor_order \<Rightarrow> bool" where
  "order_terminal x \<longleftrightarrow> ord_state x \<in> {Ord_settled, Ord_cancelled, Ord_expired, Ord_rejected}"

definition order_can_cancel :: "vendor_order \<Rightarrow> bool" where
  "order_can_cancel x \<longleftrightarrow> ord_state x = Ord_awaiting"

definition order_can_check :: "vendor_order \<Rightarrow> bool" where
  "order_can_check x \<longleftrightarrow> \<not> order_terminal x \<or> (ord_state x = Ord_settled \<and> ord_relayAcknowledged x \<noteq> Some True)"

definition seconds_left :: "vendor_order \<Rightarrow> int \<Rightarrow> int" where
  "seconds_left x now = max 0 (ord_expiresAt x - now div 1000)"

text \<open>The order on the screen: the chosen one, or else the newest; \<open>sort\<close> keeps the order of equals.\<close>

definition newest_first :: "vendor_order list \<Rightarrow> vendor_order list" where
  "newest_first = sort_key (\<lambda>x. - ord_createdAt x)"

definition shown_order :: "string option \<Rightarrow> vendor_order list \<Rightarrow> vendor_order option" where
  "shown_order chosen orders =
     (if truthy_text chosen then find (\<lambda>x. Some (ord_id x) = chosen) orders
      else (case newest_first orders of [] \<Rightarrow> None | x # _ \<Rightarrow> Some x))"

definition listed_orders :: "vendor_order list \<Rightarrow> vendor_order list" where
  "listed_orders = sort_key (\<lambda>x. (order_terminal x, - ord_createdAt x))"

definition order_tone :: "vendor_order \<Rightarrow> tone" where
  "order_tone x =
     (if ord_state x = Ord_settled then Settled_tone
      else if ord_state x \<in> {Ord_cancelled, Ord_expired, Ord_rejected} then Failed_tone
      else if ord_state x = Ord_recoverable then Recoverable_tone else Pending_tone)"

definition order_label :: "vendor_order \<Rightarrow> string" where
  "order_label x = (if ord_state x = Ord_settled then ''Paid'' else spaced (order_state_text (ord_state x)))"


subsection \<open>Payments and cash\<close>

definition paymentTone :: "attendee_payment \<Rightarrow> tone" where
  "paymentTone p = (if pay_state p = Pay_spent then Settled_tone else if pay_state p = Pay_recoverable then Recoverable_tone
     else Pending_tone)"

definition paymentLabel :: "attendee_payment \<Rightarrow> string" where
  "paymentLabel p =
     (case pay_state p of
        Pay_spent \<Rightarrow> ''Vendor-key spend observed''
      | Pay_unspent \<Rightarrow> ''Waiting for vendor''
      | Pay_pending \<Rightarrow> ''Issuer check pending''
      | Pay_recoverable \<Rightarrow> ''Action required''
      | Pay_delivered \<Rightarrow> ''Delivered''
      | _ \<Rightarrow> ''Preparing delivery'')"

text \<open>Which button a payment has: \<open>Some True\<close> resumes its delivery, \<open>Some False\<close> checks its proofs.\<close>

definition payment_offer :: "attendee_payment \<Rightarrow> bool option" where
  "payment_offer p = (if paymentCanRetry p then Some True else if paymentCanCheck p then Some False else None)"

type_synonym cash_operation = "add_operation + cash_out_operation"

definition cashTone :: "cash_operation \<Rightarrow> tone" where
  "cashTone x =
     (case x of
        Inl a \<Rightarrow> (case add_state a of Add_settled \<Rightarrow> Settled_tone | Add_expired \<Rightarrow> Failed_tone | Add_failed \<Rightarrow> Failed_tone
          | Add_recoverable \<Rightarrow> Recoverable_tone | _ \<Rightarrow> Pending_tone)
      | Inr c \<Rightarrow> (case co_state c of Out_paid \<Rightarrow> Settled_tone | Out_failed \<Rightarrow> Failed_tone | Out_unknown \<Rightarrow> Recoverable_tone
          | _ \<Rightarrow> Pending_tone))"

definition cashLabel :: "cash_operation \<Rightarrow> string" where
  "cashLabel x =
     (case x of
        Inl a \<Rightarrow> (case add_state a of Add_settled \<Rightarrow> ''Added'' | Add_awaiting \<Rightarrow> ''Awaiting Fiber payment''
          | Add_observed \<Rightarrow> ''Payment observed'' | Add_issuing \<Rightarrow> ''Issuing ecash'' | Add_expired \<Rightarrow> ''expired''
          | Add_recoverable \<Rightarrow> ''recoverable'' | Add_failed \<Rightarrow> ''failed'')
      | Inr c \<Rightarrow> (case co_state c of Out_paid \<Rightarrow> ''Paid'' | Out_dispatching \<Rightarrow> ''Dispatching'' | Out_pending \<Rightarrow> ''pending''
          | Out_failed \<Rightarrow> ''failed'' | Out_unknown \<Rightarrow> ''unknown''))"

definition cash_created :: "cash_operation \<Rightarrow> int" where
  "cash_created x = (case x of Inl a \<Rightarrow> op_createdAt a | Inr c \<Rightarrow> op_createdAt c)"

definition cash_activity :: "market_snapshot \<Rightarrow> cash_operation list" where
  "cash_activity n = sort_key (\<lambda>x. - cash_created x) (map Inl (sn_addCash n) @ map Inr (sn_cashOut n))"

text \<open>The steps of a claim: label, complete, current, recoverable.\<close>

definition claim_steps :: "add_operation \<Rightarrow> (string \<times> bool \<times> bool \<times> bool) list" where
  "claim_steps x =
     (let issuing = add_state x \<in> {Add_observed, Add_issuing, Add_settled} \<or> add_outputData x \<noteq> None;
          settled = (add_state x = Add_settled);
          stopped = add_state x \<in> {Add_expired, Add_failed};
          recovering = (add_state x = Add_recoverable)
      in
      [(''Quote locked to this browser'', True, False, False),
       (if stopped then ''Fiber payment not completed'' else if recovering \<and> \<not> issuing then ''Fiber payment needs attention''
        else ''Faucet paying through Fiber'', issuing, \<not> issuing \<and> \<not> stopped, recovering \<and> \<not> issuing),
       (if recovering \<and> issuing then ''Mint issuance needs attention'' else ''Mint issuing fresh ecash'',
        settled, issuing \<and> \<not> settled, recovering \<and> issuing)])"

definition claim_offered :: "'w app \<Rightarrow> bool" where
  "claim_offered app \<longleftrightarrow> ap_role app = Attendee \<and> can_move_value app \<and> ap_faucetStatus app = Faucet_available"

definition cash_out_offered :: "'w app \<Rightarrow> bool" where
  "cash_out_offered app \<longleftrightarrow> can_move_value app \<and> sumProofs (sn_proofs (ss_snapshot (ap_session app))) \<noteq> Some 0"

definition pay_offered :: "'w app \<Rightarrow> bool" where
  "pay_offered app \<longleftrightarrow> can_move_value app \<and>
     (case sumProofs (sn_proofs (ss_snapshot (ap_session app))) of None \<Rightarrow> False | Some b \<Rightarrow> 0 < b)"


subsection \<open>Actions\<close>

datatype screen_answer =
    Is_review payment_review
  | Is_payment attendee_payment
  | Is_order vendor_order
  | Is_addition add_operation
  | Is_claim claim_answer
  | Is_quote melt_quote
  | Is_cash_review cash_out_review
  | Is_cash_out cash_out_operation

type_synonym ('x, 'a) screen_action = "('x, market_task, screen_answer, 'a) async"

definition setS :: "('x \<Rightarrow> 'x) \<Rightarrow> ('x, unit) screen_action" where
  "setS f x = Done (f x) (Inr ())"

fun as_review :: "screen_answer \<Rightarrow> payment_review option" where
  "as_review (Is_review r) = Some r"
| "as_review _ = None"

fun as_payment :: "screen_answer \<Rightarrow> attendee_payment option" where
  "as_payment (Is_payment p) = Some p"
| "as_payment _ = None"

fun as_order :: "screen_answer \<Rightarrow> vendor_order option" where
  "as_order (Is_order x) = Some x"
| "as_order _ = None"

fun as_addition :: "screen_answer \<Rightarrow> add_operation option" where
  "as_addition (Is_addition x) = Some x"
| "as_addition _ = None"

fun as_claim :: "screen_answer \<Rightarrow> claim_answer option" where
  "as_claim (Is_claim c) = Some c"
| "as_claim _ = None"

fun as_quote :: "screen_answer \<Rightarrow> melt_quote option" where
  "as_quote (Is_quote q) = Some q"
| "as_quote _ = None"

fun as_cash_review :: "screen_answer \<Rightarrow> cash_out_review option" where
  "as_cash_review (Is_cash_review r) = Some r"
| "as_cash_review _ = None"

fun as_cash_out :: "screen_answer \<Rightarrow> cash_out_operation option" where
  "as_cash_out (Is_cash_out x) = Some x"
| "as_cash_out _ = None"

text \<open>\<open>safeErrorMessage(reason, fallback)\<close>\<close>

definition shown_error :: "string \<Rightarrow> failure \<Rightarrow> string" where
  "shown_error fallback reason =
     safeErrorMessage (Failure (case failure_text reason of None \<Rightarrow> fallback | Some t \<Rightarrow> if t = [] then fallback else t))"

text \<open>An action that only shows what its call throws.\<close>

definition attempt :: "('x \<Rightarrow> 'x) \<Rightarrow> ('x, unit) screen_action \<Rightarrow> (string \<Rightarrow> 'x \<Rightarrow> 'x) \<Rightarrow> string \<Rightarrow> ('x, unit) screen_action" where
  "attempt clear p report fallback =
     bindA (setS clear) (\<lambda>_. catchA p (\<lambda>reason. setS (report (shown_error fallback reason))))"

text \<open>\<open>AttendeePay\<close>\<close>

datatype attend_view = View_scan | View_review | View_processing | View_result

record attend_screen =
  pv_view :: attend_view
  pv_encoded :: string
  pv_shown :: "payment_review option"
  pv_paymentId :: "string option"
  pv_error :: "string option"
  pv_busy :: bool

definition attend_read :: "(attend_screen, unit) screen_action" where
  "attend_read x =
     (if trim (pv_encoded x) = [] then setS (\<lambda>x. x\<lparr>pv_error := Some ''Paste or scan a vendor payment request first.''\<rparr>) x
      else
        bindA (setS (\<lambda>x. x\<lparr>pv_busy := True, pv_error := None\<rparr>)) (\<lambda>_.
        finallyA
          (catchA
            (bindA (askA (Review_payment (trim (pv_encoded x))) as_review) (\<lambda>next_review.
             setS (\<lambda>x. x\<lparr>pv_shown := Some next_review, pv_view := View_review\<rparr>)))
            (\<lambda>reason. setS (\<lambda>x. x\<lparr>pv_error := Some (shown_error ''The payment request could not be read.'' reason)\<rparr>)))
          (\<lambda>x. x\<lparr>pv_busy := False\<rparr>)) x)"

definition attend_confirm :: "(attend_screen, unit) screen_action" where
  "attend_confirm x =
     (case pv_shown x of
        None \<Rightarrow> returnA () x
      | Some review \<Rightarrow>
          bindA (setS (\<lambda>x. x\<lparr>pv_view := View_processing, pv_error := None\<rparr>)) (\<lambda>_.
          catchA
            (bindA (askA (Confirm_payment review) as_payment) (\<lambda>created.
             setS (\<lambda>x. x\<lparr>pv_paymentId := Some (pay_id created), pv_view := View_result\<rparr>)))
            (\<lambda>reason. setS (\<lambda>x. x\<lparr>pv_error := Some (shown_error ''The payment could not be prepared.'' reason),
               pv_view := View_review\<rparr>))) x)"

definition attend_back :: "attend_screen \<Rightarrow> attend_screen" where
  "attend_back x = x\<lparr>pv_view := View_scan, pv_shown := None\<rparr>"

definition attend_recover :: "attendee_payment \<Rightarrow> (attend_screen, unit) screen_action" where
  "attend_recover p =
     (let report = (\<lambda>t x. x\<lparr>pv_error := Some t\<rparr>); clear = (\<lambda>x. x\<lparr>pv_error := None\<rparr>) in
      case payment_offer p of
        None \<Rightarrow> returnA ()
      | Some True \<Rightarrow> attempt clear (awaited (askA (Retry_delivery p) as_payment)) report
          ''The stored payment could not be delivered.''
      | Some False \<Rightarrow> attempt clear (awaited (askA (Check_payment p) as_payment)) report
          ''The proof state could not be checked.'')"

text \<open>\<open>VendorSell\<close> and \<open>VendorOrder\<close>: \<open>onOrder\<close> is the order the screen goes to.\<close>

record order_screen =
  os_order :: "vendor_order option"
  os_error :: "string option"

definition sell_create :: "order_item list \<Rightarrow> (order_screen, unit) screen_action" where
  "sell_create items =
     attempt (\<lambda>x. x\<lparr>os_error := None\<rparr>)
       (bindA (askA (Create_order items) as_order) (\<lambda>created. setS (\<lambda>x. x\<lparr>os_order := Some created\<rparr>)))
       (\<lambda>t x. x\<lparr>os_error := Some t\<rparr>) ''The order could not be created.''"

definition order_check :: "vendor_order \<Rightarrow> (order_screen, unit) screen_action" where
  "order_check x =
     attempt (\<lambda>x. x\<lparr>os_error := None\<rparr>) (awaited (askA (Poll_order x) as_order)) (\<lambda>t x. x\<lparr>os_error := Some t\<rparr>)
       ''The order could not be checked.''"

definition order_cancel :: "vendor_order \<Rightarrow> (order_screen, unit) screen_action" where
  "order_cancel x =
     attempt (\<lambda>x. x\<lparr>os_error := None\<rparr>) (awaited (askA (Cancel_order x) as_order)) (\<lambda>t x. x\<lparr>os_error := Some t\<rparr>)
       ''The order could not be cancelled.''"


text \<open>\<open>CashScreen\<close>: the claim, adding cash and cashing out share one state here.\<close>

record cash_screen =
  ch_amount :: string
  ch_invoice :: string
  ch_quote :: "melt_quote option"
  ch_review :: "cash_out_review option"
  ch_operationId :: "string option"
  ch_error :: "string option"
  ch_message :: "string option"

definition claim_run :: "add_operation \<Rightarrow> (cash_screen, unit) screen_action" where
  "claim_run x =
     bindA (askA (Fund_test_cash x) as_claim) (\<lambda>status.
     bindA (setS (\<lambda>y. y\<lparr>ch_message := (if ca_status status = Claim_failed then None else Some (ca_message status))\<rparr>)) (\<lambda>_.
     awaited (askA (Refresh_add_cash x) as_addition)))"

definition claim_begin :: "(cash_screen, unit) screen_action" where
  "claim_begin =
     attempt (\<lambda>y. y\<lparr>ch_error := None, ch_message := None\<rparr>)
       (bindA (askA Request_test_cash as_addition) (\<lambda>created.
        bindA (setS (\<lambda>y. y\<lparr>ch_operationId := Some (op_id created)\<rparr>)) (\<lambda>_. claim_run created)))
       (\<lambda>t y. y\<lparr>ch_error := Some t\<rparr>) ''The testnet claim could not be started.''"

definition claim_resume :: "add_operation option \<Rightarrow> (cash_screen, unit) screen_action" where
  "claim_resume shown =
     (case shown of
        None \<Rightarrow> returnA ()
      | Some x \<Rightarrow> attempt (\<lambda>y. y\<lparr>ch_error := None\<rparr>) (claim_run x) (\<lambda>t y. y\<lparr>ch_error := Some t\<rparr>)
          ''The claim result could not be checked.'')"

definition cash_request :: "(cash_screen, unit) screen_action" where
  "cash_request y =
     (case parseAmount (ch_amount y) of
        None \<Rightarrow> setS (\<lambda>y. y\<lparr>ch_error := Some ''Enter a positive amount with no more than two decimal places.''\<rparr>) y
      | Some parsed \<Rightarrow>
          attempt (\<lambda>y. y\<lparr>ch_error := None\<rparr>)
            (bindA (askA (Request_add_cash (Some parsed)) as_addition) (\<lambda>created.
             setS (\<lambda>y. y\<lparr>ch_operationId := Some (op_id created)\<rparr>)))
            (\<lambda>t y. y\<lparr>ch_error := Some t\<rparr>) ''The Fiber invoice could not be created.'' y)"

definition cash_refresh :: "add_operation option \<Rightarrow> (cash_screen, unit) screen_action" where
  "cash_refresh shown =
     (case shown of
        None \<Rightarrow> returnA ()
      | Some x \<Rightarrow> attempt (\<lambda>y. y\<lparr>ch_error := None\<rparr>) (awaited (askA (Refresh_add_cash x) as_addition))
          (\<lambda>t y. y\<lparr>ch_error := Some t\<rparr>) ''The quote could not be checked.'')"

definition out_price :: "(cash_screen, unit) screen_action" where
  "out_price y =
     (if trim (ch_invoice y) = [] then setS (\<lambda>y. y\<lparr>ch_error := Some ''Paste or scan an external Fiber invoice first.''\<rparr>) y
      else
        bindA (setS (\<lambda>y. y\<lparr>ch_error := None\<rparr>)) (\<lambda>_.
        catchA
          (bindA (askA (Quote_cash_out (trim (ch_invoice y))) as_quote) (\<lambda>quote.
           bindA (setS (\<lambda>y. y\<lparr>ch_quote := Some quote\<rparr>)) (\<lambda>_.
           bindA (askA (Review_cash_out quote) as_cash_review) (\<lambda>review.
           setS (\<lambda>y. y\<lparr>ch_review := Some review\<rparr>)))))
          (\<lambda>reason. setS (\<lambda>y. y\<lparr>ch_error :=
             Some (explainMeltError (shown_error ''The invoice could not be quoted.'' reason))\<rparr>))) y)"

definition out_confirm :: "(cash_screen, unit) screen_action" where
  "out_confirm y =
     (case ch_review y of
        None \<Rightarrow> returnA () y
      | Some review \<Rightarrow>
          attempt (\<lambda>y. y\<lparr>ch_error := None\<rparr>)
            (bindA (askA (Confirm_cash_out review) as_cash_out) (\<lambda>created.
             setS (\<lambda>y. y\<lparr>ch_operationId := Some (op_id created)\<rparr>)))
            (\<lambda>t y. y\<lparr>ch_error := Some t\<rparr>) ''The cash-out could not be prepared.'' y)"

definition out_refresh :: "cash_out_operation \<Rightarrow> (cash_screen, unit) screen_action" where
  "out_refresh x =
     attempt (\<lambda>y. y\<lparr>ch_error := None\<rparr>) (awaited (askA (Refresh_cash_out x) as_cash_out))
       (\<lambda>t y. y\<lparr>ch_error := Some t\<rparr>) ''The final state could not be checked.''"

text \<open>Confirming is offered while the maximum debit is within the balance of the review.\<close>

definition out_confirm_offered :: "cash_out_review \<Rightarrow> bool" where
  "out_confirm_offered r \<longleftrightarrow> \<not> num_less (cv_balance r) (cv_maximumDebit r)"

subsection \<open>Between the screens\<close>

datatype attendee_place = Place_event | Place_pay | Place_cash | Place_activity
datatype vendor_place = Place_sell | Place_order | Place_orders | Place_vendor_cash
datatype cash_mode = Mode_overview | Mode_claim | Mode_add | Mode_cashout

record market_places =
  mp_attendee :: attendee_place
  mp_vendor :: vendor_place
  mp_selectedOrder :: "string option"
  mp_cash :: cash_mode
  mp_cashKey :: nat

definition places_opened :: market_places where
  "places_opened = \<lparr>mp_attendee = Place_event, mp_vendor = Place_sell, mp_selectedOrder = None, mp_cash = Mode_overview,
     mp_cashKey = 0\<rparr>"

definition openCash :: "market_role \<Rightarrow> cash_mode \<Rightarrow> market_places \<Rightarrow> market_places" where
  "openCash role mode p =
     (let q = p\<lparr>mp_cash := mode, mp_cashKey := Suc (mp_cashKey p)\<rparr> in
      case role of Attendee \<Rightarrow> q\<lparr>mp_attendee := Place_cash\<rparr> | Vendor \<Rightarrow> q\<lparr>mp_vendor := Place_vendor_cash\<rparr>)"

text \<open>The screen asked for: \<open>Inl\<close> one of the attendee, \<open>Inr\<close> one of the vendor; both have \<open>cash\<close>.\<close>

definition navigate :: "market_role \<Rightarrow> attendee_place + vendor_place \<Rightarrow> market_places \<Rightarrow> market_places" where
  "navigate role place p =
     (if place = Inl Place_cash \<or> place = Inr Place_vendor_cash then openCash role Mode_overview p
      else (case (role, place) of
        (Attendee, Inl a) \<Rightarrow> p\<lparr>mp_attendee := a\<rparr>
      | (Vendor, Inr v) \<Rightarrow> p\<lparr>mp_vendor := v\<rparr>
      | _ \<Rightarrow> p))"

definition order_opened :: "vendor_order \<Rightarrow> market_places \<Rightarrow> market_places" where
  "order_opened x p = navigate Vendor (Inr Place_order) (p\<lparr>mp_selectedOrder := Some (ord_id x)\<rparr>)"

definition balance_claim_offered :: "'w app \<Rightarrow> bool" where
  "balance_claim_offered app \<longleftrightarrow>
     ap_role app = Attendee \<and> sumProofs (sn_proofs (ss_snapshot (ap_session app))) = Some 0 \<and>
     ap_faucetStatus app = Faucet_available \<and> can_move_value app"


subsection \<open>The preview\<close>

definition syntheticProof :: "int \<Rightarrow> market_role \<Rightarrow> cashu_proof" where
  "syntheticProof amount role = JObj
     [(''amount'', JInt amount), (''id'', JStr ''preview_keyset''),
      (''secret'', JStr (''synthetic-preview-'' @ role_text role @ ''-proof'')),
      (''C'', JStr (''02'' @ concat (replicate 32 ''11'')))]"

definition preview_order :: "event_manifest \<Rightarrow> int \<Rightarrow> vendor_order" where
  "preview_order m now =
     \<lparr>ord_id = ''preview-settled-order'', ord_state = Ord_settled, ord_eventId = em_id m,
      ord_vendorId = vm_id (hd (em_vendors m)),
      ord_items = [\<lparr>oi_itemId = ''event-sticker'', oi_label = ''Event sticker'', oi_quantity = 1, oi_unitPrice = 100\<rparr>],
      ord_amount = 100, ord_unit = ''rusd'', ord_mintUrl = em_mintUrl m, ord_description = ''Event sticker'',
      ord_expiresAt = 0, ord_request = None, ord_requestDigest = None, ord_deliveryUrl = None,
      ord_readCapability = None, ord_writeCapability = None, ord_privateKey = None, ord_publicKey = None,
      ord_incomingToken = None, ord_incomingSwap = None, ord_relayRegistered = Some True,
      ord_relayAcknowledged = Some True, ord_createdAt = now - 420000, ord_updatedAt = now - 410000, ord_error = None\<rparr>"

definition previewSnapshot :: "event_manifest \<Rightarrow> market_role \<Rightarrow> int \<Rightarrow> market_snapshot" where
  "previewSnapshot m role now =
     (emptyMarketSnapshot m role)
       \<lparr>sn_proofs := [syntheticProof (case role of Attendee \<Rightarrow> 1000 | Vendor \<Rightarrow> 450) role],
        sn_orders := (case role of Vendor \<Rightarrow> [preview_order m now] | Attendee \<Rightarrow> [])\<rparr>"

end
