(* ===== verification/Market_Cart.thy ===== *)
theory Market_Cart
  imports Market_Screens Market_Requests
begin

section \<open>The market's screens and the runtime\<close>

text \<open>
  The cart: whatever is tapped, its items are those that \<open>createOrder\<close> accepts, and what the vendor reviews is
  what the order charges. The lists keep every record; what the timer takes up the screens offer too; the
  screens leave their waiting views.
\<close>

subsection \<open>Prices of a manifest\<close>

definition priced :: "catalog_item \<Rightarrow> bool" where
  "priced x \<longleftrightarrow> (case ci_price x of Custom_price \<Rightarrow> True | Price p \<Rightarrow> is_safe p \<and> 0 < p)"

lemma read_item_priced: "read_item v = Inr x \<Longrightarrow> priced x"
  by (auto simp: read_item_def priced_def price_of_def result_simps split: if_splits option.splits)

lemma read_items_priced: "read_items seen vs = Inr xs \<Longrightarrow> list_all priced xs"
  by (induction seen vs arbitrary: xs rule: read_items.induct) (auto simp: result_simps dest: read_item_priced)

lemma read_vendors_priced: "read_vendors seen vs = Inr xs \<Longrightarrow> list_all (\<lambda>v. list_all priced (vm_catalog v)) xs"
  by (induction seen vs arbitrary: xs rule: read_vendors.induct) (auto simp: result_simps dest: read_items_priced)

subsection \<open>The cart\<close>

inductive tapped :: "cart \<Rightarrow> bool" where
  tapped_empty: "tapped empty_cart"
| tapped_adjust: "tapped c \<Longrightarrow> tapped (adjust ident amount c)"
| tapped_tip: "tapped c \<Longrightarrow> tapped (set_tip v c)"
| tapped_clear: "tapped c \<Longrightarrow> tapped (clear_cart c)"
| tapped_review: "tapped c \<Longrightarrow> tapped (c\<lparr>ct_reviewing := b\<rparr>)"

lemma tapped_quantities: "tapped c \<Longrightarrow> 0 \<le> quantity_of c i \<and> quantity_of c i \<le> 20"
  by (induction rule: tapped.induct) (auto simp: empty_cart_def adjust_def set_tip_def clear_cart_def quantity_of_def)

lemma cart_item_chargeable: "tapped c \<Longrightarrow> priced x \<Longrightarrow> y \<in> set (cart_item c x) \<Longrightarrow> item_chargeable y \<and> oi_quantity y \<le> 20"
  using tapped_quantities[of c "ci_id x"] parseAmount_facts[of "ct_tip c"]
  by (auto simp: cart_item_def priced_def item_chargeable_def is_safe_def max_safe_def split: item_price.splits option.splits if_splits)

lemma cart_items_chargeable:
  assumes "tapped c" "list_all priced (vm_catalog vendor)"
  shows "list_all item_chargeable (cart_items vendor c)"
  using assms cart_item_chargeable[OF assms(1)] by (fastforce simp: cart_items_def list_all_iff)

lemma cart_total_amount: "cart_total vendor c = items_amount (cart_items vendor c)"
  by (simp add: cart_total_def items_amount_def js_mul_def mult.commute)

text \<open>What is offered for review passes the checks of \<open>createOrder\<close>, but for a sum that is not safe.\<close>

lemma review_chargeable:
  assumes "tapped c" "list_all priced (vm_catalog vendor)" "review_offered vendor app c"
  shows "cart_items vendor c \<noteq> [] \<and> list_all item_chargeable (cart_items vendor c) \<and> 0 < items_amount (cart_items vendor c)"
  using assms cart_items_chargeable[OF assms(1,2)] by (auto simp: review_offered_def cart_total_amount items_amount_def)

lemma reviewed_is_charged:
  assumes "tapped c" "list_all priced (vm_catalog vendor)" "createOrder R (cart_items vendor c) s = (Inr x, t)"
  shows "ord_items x = cart_items vendor c \<and> ord_amount x = cart_total vendor c"
  using create_order_amount[of R "cart_items vendor c" s] items_amount_complete[OF cart_items_chargeable[OF assms(1,2)]] assms(3)
  by (auto simp: outcome_def cart_total_amount)


text \<open>Every vendor of a manifest that loads has prices that can be charged.\<close>

lemma manifest_priced:
  assumes "validateEventManifest U doc = Inr m" "vendor \<in> set (em_vendors m)"
  shows "list_all priced (vm_catalog vendor)"
proof -
  from assms(1) obtain vs where "read_vendors [] vs = Inr (em_vendors m)"
    by (auto simp: validateEventManifest_def result_simps Let_def split: option.splits if_splits)
  from read_vendors_priced[OF this] assms(2) show ?thesis by (simp add: list_all_iff)
qed

subsection \<open>Lists and offers\<close>

lemma newest_is_newest:
  assumes "shown_order None orders = Some x" "y \<in> set orders"
  shows "x \<in> set orders \<and> ord_createdAt y \<le> ord_createdAt x"
proof -
  have "sorted (map (\<lambda>x. - ord_createdAt x) (newest_first orders))" "set (newest_first orders) = set orders"
    by (simp_all add: newest_first_def)
  moreover from assms(1) obtain xs where "newest_first orders = x # xs"
    by (auto simp: shown_order_def truthy_text_def split: list.splits)
  ultimately show ?thesis using assms(2) by (auto simp: newest_first_def[symmetric])
qed

lemma listed_orders_unresolved_first:
  assumes "i < j" "j < length orders" "order_terminal (listed_orders orders ! i)"
  shows "order_terminal (listed_orders orders ! j)"
proof -
  have "sorted (map (\<lambda>x. (order_terminal x, - ord_createdAt x)) (listed_orders orders))"
    by (simp add: listed_orders_def)
  from sorted_nth_mono[OF this, of i j] assms show ?thesis
    by (auto simp: listed_orders_def less_eq_prod_def)
qed

lemma listed_orders_all: "mset (listed_orders orders) = mset orders" "mset (cash_activity n) = mset (map Inl (sn_addCash n) @ map Inr (sn_cashOut n))"
  by (simp_all add: listed_orders_def cash_activity_def)

text \<open>What the timer takes up, the screen offers to check; a token that was delivered is never cancelled.\<close>

lemma open_order_checkable: "order_open x \<Longrightarrow> order_can_check x"
  by (auto simp: order_open_def order_can_check_def order_terminal_def)

lemma open_payment_offered: "payment_open p \<Longrightarrow> truthy_text (pay_token p) \<Longrightarrow> payment_offer p = Some False"
  by (auto simp: payment_open_def payment_offer_def paymentCanRetry_def paymentCanCheck_def)

lemma cancel_before_delivery: "order_can_cancel x \<Longrightarrow> order_open x \<and> \<not> order_terminal x"
  by (simp add: order_can_cancel_def order_open_def order_terminal_def)

text \<open>A claim has at most one current step, and a settled claim has completed all of them.\<close>

lemma claim_steps_order:
  "length (filter (\<lambda>(_, _, present, _). present) (claim_steps x)) \<le> 1"
  "add_state x = Add_settled \<Longrightarrow> list_all (\<lambda>(_, complete, _, _). complete) (claim_steps x)"
  by (auto simp: claim_steps_def Let_def)

subsection \<open>Actions come back\<close>

text \<open>The review that was shown is the one confirmed, and whatever the answer the screen leaves its waiting view.\<close>

lemma attend_confirm_once:
  assumes "pv_shown x = Some review"
  shows "\<exists>y k. attend_confirm x = Await y (Confirm_payment review) k \<and> pv_view y = View_processing \<and>
    (\<forall>r z. \<exists>z'. k r z = Done z' (Inr ()) \<and> (pv_view z' = View_result \<or> pv_view z' = View_review \<and> pv_error z' \<noteq> None))"
  using assms by (auto simp: attend_confirm_def bindA_def catchA_def tryA_def setS_def askA_def returnA_def
      split: sum.splits option.splits)

subsection \<open>The preview\<close>

text \<open>The timer finds nothing to do in the preview, whose only order is settled and acknowledged.\<close>

lemma preview_is_idle: "next_task role (previewSnapshot m role now) = None"
  by (cases role) (simp_all add: next_task_def previewSnapshot_def emptyMarketSnapshot_def preview_order_def order_open_def)

lemma preview_balance: "sumProofs (sn_proofs (previewSnapshot m role now)) = Some (case role of Attendee \<Rightarrow> 1000 | Vendor \<Rightarrow> 450)"
  by (cases role) (simp_all add: previewSnapshot_def syntheticProof_def sumProofs_def num_add_def proof_units_def field_def
      js_add_exact is_safe_def max_safe_def)

end
