(* ===== verification/Wallet_Restore.thy ===== *)
theory Wallet_Restore
  imports Market_Ports
begin

section \<open>Signatures that the mint restores\<close>

text \<open>
  \<open>matchRestoredSignatures\<close> of \<open>wallet/src/lib/wallet.ts\<close>: a mint that is asked to restore outputs
  (NUT-09) answers with two parallel lists, the outputs it has signed and their signatures, in its own
  order; they are matched to the outputs that are stored. Outputs and signatures are JSON objects of the
  protocol; identifiers and blinded points are compared with \<open>===\<close>, amounts as \<open>units\<close> reads them.
\<close>

text \<open>\<open>a !== b\<close> for numbers; \<open>NaN\<close> differs from everything.\<close>

definition num_differs :: "number \<Rightarrow> number \<Rightarrow> bool" where
  "num_differs a b \<longleftrightarrow> a = None \<or> a \<noteq> b"

definition blinded_point :: "json \<Rightarrow> json" where "blinded_point output = field output ''B_''"

definition blinded_message :: "output_data \<Rightarrow> json" where
  "blinded_message out = field out ''blindedMessage''"

text \<open>The signature belongs to the output: the same keyset and the same amount.\<close>

definition signs :: "json \<Rightarrow> json \<Rightarrow> bool" where
  "signs output signature \<longleftrightarrow>
     field output ''id'' = field signature ''id'' \<and>
     \<not> num_differs (units (field output ''amount'')) (units (field signature ''amount''))"

text \<open>The first loop: the answer as a map from blinded points to signatures.\<close>

fun index_signatures :: "(json \<times> json) list \<Rightarrow> (json \<rightharpoonup> json) \<Rightarrow> (json \<rightharpoonup> json) option" where
  "index_signatures [] found = Some found"
| "index_signatures ((output, signature) # rest) found =
     (if \<not> js_truthy signature \<or> found (blinded_point output) \<noteq> None \<or> \<not> signs output signature then None
      else index_signatures rest (found(blinded_point output \<mapsto> signature)))"

text \<open>The second loop: one signature for every stored output, no point twice.\<close>

fun match_outputs :: "output_data list \<Rightarrow> json list \<Rightarrow> (json \<rightharpoonup> json) \<Rightarrow> json list option" where
  "match_outputs [] seen found = Some []"
| "match_outputs (out # outs) seen found =
     (let message = blinded_message out; point = blinded_point message in
      if point \<in> set seen then None
      else case found point of
        None \<Rightarrow> None
      | Some signature \<Rightarrow>
          if \<not> js_truthy signature \<or> \<not> signs message signature then None
          else map_option (\<lambda>rest. signature # rest) (match_outputs outs (point # seen) found))"

definition matchRestoredSignatures :: "output_data list \<Rightarrow> json list \<Rightarrow> json list \<Rightarrow> json list option" where
  "matchRestoredSignatures expected outputs signatures =
     (if length outputs \<noteq> length expected \<or> length signatures \<noteq> length expected then None
      else case index_signatures (zip outputs signatures) Map.empty of
        None \<Rightarrow> None
      | Some found \<Rightarrow> match_outputs expected [] found)"

subsection \<open>What a match is\<close>

definition pointed :: "json \<times> json \<Rightarrow> json \<times> json" where
  "pointed p = (blinded_point (fst p), snd p)"

lemma index_signatures_Some:
  "index_signatures ps found = Some found' \<longleftrightarrow>
     (\<forall>p \<in> set ps. js_truthy (snd p) \<and> signs (fst p) (snd p)) \<and> distinct (map fst (map pointed ps)) \<and>
     set (map fst (map pointed ps)) \<inter> dom found = {} \<and> found' = found ++ map_of (map pointed ps)"
proof (induction ps arbitrary: found)
  case (Cons p ps)
  obtain o' s where p: "p = (o', s)" by (cases p)
  define b where "b = blinded_point o'"
  have point: "pointed p = (b, s)" by (simp add: p pointed_def b_def)
  define points where "points = set (map fst (map pointed ps))"
  have upd: "found(b \<mapsto> s) ++ map_of (map pointed ps) = found ++ (map_of (map pointed ps))(b \<mapsto> s)" if "b \<notin> points"
    using that by (subst map_add_upd_left) (simp_all add: points_def dom_map_of_conv_image_fst image_image)
  have "index_signatures (p # ps) found = Some found' \<longleftrightarrow>
      js_truthy s \<and> found b = None \<and> signs o' s \<and> index_signatures ps (found(b \<mapsto> s)) = Some found'"
    by (auto simp: p b_def)
  also have "\<dots> \<longleftrightarrow> js_truthy s \<and> found b = None \<and> signs o' s \<and>
      (\<forall>p \<in> set ps. js_truthy (snd p) \<and> signs (fst p) (snd p)) \<and> distinct (map fst (map pointed ps)) \<and>
      points \<inter> insert b (dom found) = {} \<and> found' = found(b \<mapsto> s) ++ map_of (map pointed ps)"
    by (simp only: Cons.IH points_def dom_fun_upd option.distinct if_False)
  also have "\<dots> \<longleftrightarrow> (\<forall>p \<in> set (p # ps). js_truthy (snd p) \<and> signs (fst p) (snd p)) \<and>
      distinct (map fst (map pointed (p # ps))) \<and>
      set (map fst (map pointed (p # ps))) \<inter> dom found = {} \<and> found' = found ++ map_of (map pointed (p # ps))"
  proof -
    have parts: "set (map fst (map pointed (p # ps))) = insert b points"
      "distinct (map fst (map pointed (p # ps))) \<longleftrightarrow> b \<notin> points \<and> distinct (map fst (map pointed ps))"
      "map_of (map pointed (p # ps)) = (map_of (map pointed ps))(b \<mapsto> s)"
      by (simp_all add: point points_def)
    show ?thesis unfolding parts using upd by (auto simp: p domIff)
  qed
  finally show ?case .
qed auto

lemma match_outputs_Some:
  "match_outputs outs seen found = Some ms \<longleftrightarrow>
     length ms = length outs \<and> distinct (map (blinded_point \<circ> blinded_message) outs) \<and>
     (blinded_point \<circ> blinded_message) ` set outs \<inter> set seen = {} \<and>
     list_all2 (\<lambda>out s. found (blinded_point (blinded_message out)) = Some s \<and> js_truthy s \<and> signs (blinded_message out) s) outs ms"
proof (induction outs arbitrary: seen ms)
  case (Cons out outs)
  then show ?case
    by (cases ms) (auto simp: Let_def split: option.splits if_splits)
qed auto

text \<open>
  \<open>ms\<close> answers the stored outputs \<open>expected\<close>: the answer's pairs belong together and no point occurs twice, on
  either side; and each signature is that of the pair with the point of the stored output, and signs it.
\<close>

definition restores :: "output_data list \<Rightarrow> json list \<Rightarrow> json list \<Rightarrow> json list \<Rightarrow> bool" where
  "restores expected outputs signatures ms \<longleftrightarrow>
     length outputs = length expected \<and> length signatures = length expected \<and> length ms = length expected \<and>
     distinct (map blinded_point outputs) \<and> distinct (map (\<lambda>out. blinded_point (blinded_message out)) expected) \<and>
     (\<forall>j < length outputs. js_truthy (signatures ! j) \<and> signs (outputs ! j) (signatures ! j)) \<and>
     (\<forall>i < length expected. \<exists>j < length outputs.
        blinded_point (outputs ! j) = blinded_point (blinded_message (expected ! i)) \<and> ms ! i = signatures ! j \<and>
        signs (blinded_message (expected ! i)) (ms ! i))"

lemma match_restores: "matchRestoredSignatures expected outputs signatures = Some ms \<longleftrightarrow> restores expected outputs signatures ms"
proof (cases "length outputs = length expected \<and> length signatures = length expected")
  case True
  define ps where "ps = zip outputs signatures"
  define found where "found = map_of (map pointed ps)"
  have len: "length ps = length expected" using True by (simp add: ps_def)
  have points: "map fst (map pointed ps) = map blinded_point outputs"
    using True by (auto simp: ps_def pointed_def intro!: nth_equalityI)
  have ok: "(\<forall>p \<in> set ps. js_truthy (snd p) \<and> signs (fst p) (snd p)) \<longleftrightarrow>
      (\<forall>j < length outputs. js_truthy (signatures ! j) \<and> signs (outputs ! j) (signatures ! j))"
    using True by (auto simp: ps_def all_set_conv_all_nth)
  have look: "found b = Some s \<longleftrightarrow> (\<exists>j < length outputs. blinded_point (outputs ! j) = b \<and> s = signatures ! j)"
    if "distinct (map blinded_point outputs)" for b s
  proof -
    have "found b = Some s \<longleftrightarrow> (b, s) \<in> set (map pointed ps)"
      using that points unfolding found_def by (intro map_of_eq_Some_iff) simp
    also have "\<dots> \<longleftrightarrow> (\<exists>j < length outputs. blinded_point (outputs ! j) = b \<and> s = signatures ! j)"
    proof
      assume "(b, s) \<in> set (map pointed ps)"
      then obtain j where "j < length ps" "pointed (ps ! j) = (b, s)" by (auto simp: in_set_conv_nth)
      then show "\<exists>j < length outputs. blinded_point (outputs ! j) = b \<and> s = signatures ! j"
        using True by (intro exI[of _ j]) (auto simp: ps_def pointed_def)
    next
      assume "\<exists>j < length outputs. blinded_point (outputs ! j) = b \<and> s = signatures ! j"
      then obtain j where "j < length ps" "pointed (ps ! j) = (b, s)" using True by (auto simp: ps_def pointed_def)
      then show "(b, s) \<in> set (map pointed ps)" by (metis length_map nth_map nth_mem)
    qed
    finally show ?thesis .
  qed
  have indexed: "index_signatures ps Map.empty = Some found' \<longleftrightarrow>
      (\<forall>j < length outputs. js_truthy (signatures ! j) \<and> signs (outputs ! j) (signatures ! j)) \<and>
      distinct (map blinded_point outputs) \<and> found' = found" for found'
    unfolding index_signatures_Some ok points found_def by simp
  have "matchRestoredSignatures expected outputs signatures = Some ms \<longleftrightarrow>
      (\<forall>j < length outputs. js_truthy (signatures ! j) \<and> signs (outputs ! j) (signatures ! j)) \<and>
      distinct (map blinded_point outputs) \<and> match_outputs expected [] found = Some ms"
  proof (cases "index_signatures ps Map.empty")
    case None
    with True indexed[of found] show ?thesis by (auto simp: matchRestoredSignatures_def ps_def[symmetric])
  next
    case (Some a)
    with True indexed[of a] show ?thesis by (simp add: matchRestoredSignatures_def ps_def[symmetric])
  qed
  also have "\<dots> \<longleftrightarrow> restores expected outputs signatures ms"
  proof (cases "distinct (map blinded_point outputs) \<and>
      (\<forall>j < length outputs. js_truthy (signatures ! j) \<and> signs (outputs ! j) (signatures ! j))")
    case ok: True
    have each: "found b = Some s \<and> js_truthy s \<and> signs m s \<longleftrightarrow>
        (\<exists>j < length outputs. blinded_point (outputs ! j) = b \<and> s = signatures ! j \<and> signs m s)" for b s m
      using ok look by auto
    show ?thesis
      unfolding match_outputs_Some restores_def list_all2_conv_all_nth each using ok True by (auto simp: comp_def)
  qed (auto simp: restores_def)
  finally show ?thesis .
qed (auto simp: matchRestoredSignatures_def restores_def)

text \<open>Then the result is the mint's list of signatures in the order of the stored outputs.\<close>

lemma restores_perm:
  assumes "restores expected outputs signatures ms"
  shows "mset ms = mset signatures"
proof -
  define n where "n = length expected"
  have len: "length outputs = n" "length signatures = n" "length ms = n" using assms by (simp_all add: restores_def n_def)
  have "\<forall>i. \<exists>j. i < n \<longrightarrow> j < n \<and> blinded_point (outputs ! j) = blinded_point (blinded_message (expected ! i)) \<and> ms ! i = signatures ! j"
    using assms len by (auto simp: restores_def n_def)
  then obtain f where f: "i < n \<Longrightarrow> f i < n" "i < n \<Longrightarrow> blinded_point (outputs ! f i) = blinded_point (blinded_message (expected ! i))"
      "i < n \<Longrightarrow> ms ! i = signatures ! f i" for i by metis
  have inj: "inj_on f {..<n}"
  proof (rule inj_onI)
    fix i k assume "i \<in> {..<n}" "k \<in> {..<n}" "f i = f k"
    then have "map (\<lambda>out. blinded_point (blinded_message out)) expected ! i = map (\<lambda>out. blinded_point (blinded_message out)) expected ! k"
      using f(2)[of i] f(2)[of k] by (simp add: n_def)
    moreover have "distinct (map (\<lambda>out. blinded_point (blinded_message out)) expected)" using assms by (simp add: restores_def)
    ultimately show "i = k"
      using \<open>i \<in> _\<close> \<open>k \<in> _\<close> nth_eq_iff_index_eq[of "map (\<lambda>out. blinded_point (blinded_message out)) expected" i k]
      by (simp add: n_def del: nth_map)
  qed
  have onto: "f ` {..<n} = {..<n}" using f(1) inj by (intro endo_inj_surj) auto
  have "mset ms = image_mset (\<lambda>i. ms ! i) (mset_set {..<n})"
    by (metis len(3) map_nth mset_map mset_upt atLeast0LessThan)
  also have "\<dots> = image_mset (\<lambda>i. signatures ! f i) (mset_set {..<n})" using f(3) by (intro image_mset_cong) simp
  also have "\<dots> = image_mset (\<lambda>j. signatures ! j) (image_mset f (mset_set {..<n}))" by (simp add: multiset.map_comp comp_def)
  also have "image_mset f (mset_set {..<n}) = mset_set {..<n}" using image_mset_mset_set[OF inj] onto by simp
  also have "image_mset (\<lambda>j. signatures ! j) (mset_set {..<n}) = mset signatures"
    by (metis len(2) map_nth mset_map mset_upt atLeast0LessThan)
  finally show ?thesis .
qed

end
