(* ===== verification/Wallet_Library.thy ===== *)
theory Wallet_Library
  imports Wallet_Restore
begin

section \<open>The wallet library\<close>

text \<open>
  The class \<open>FibernutsWallet\<close> of \<open>wallet/src/lib/wallet.ts\<close>: every call of the package's \<open>Wallet\<close> with the
  checks made on its answers, and the recovery of a completed request whose answer was lost. The package's
  objects - proofs, outputs, signatures - are JSON values here; what the package does with them is the
  record \<open>cashu_wallet\<close>, a parameter: effects on the world for the calls that reach the mint, and results
  that may be errors for the others. \<open>fibernuts_wallet\<close> collects the methods as the market's port.
\<close>

subsection \<open>What the package gives\<close>

text \<open>The parts of the mint's answer to \<open>GET /v1/info\<close> that the class reads.\<close>

record nut_methods =
  nm_disabled :: bool
  nm_methods :: "(string \<times> string) list option"

record mint_info =
  mi_name :: string
  mi_description :: "string option"
  mi_version :: string
  mi_pubkey :: string
  mi_contact :: json
  mi_nuts :: "string list"
  mi_nut4 :: "nut_methods option"
  mi_nut5 :: "nut_methods option"
  mi_nut9 :: bool
  mi_nut12 :: bool
  mi_nut19 :: "(string \<times> string) list option"

record live_swap =
  lv_amount :: json
  lv_fees :: json
  lv_keyset :: string
  lv_inputs :: "cashu_proof list"
  lv_send :: "json list option"
  lv_keep :: "json list option"
  lv_unselected :: "cashu_proof list option"

record mint_preview =
  mv_quote :: mint_quote
  mv_payload_quote :: string
  mv_payload_outputs :: "json list"
  mv_payload_signature :: "string option"
  mv_outputs :: "json list"
  mv_keysetId :: string
  mv_legacySignature :: "string option"

record melt_preview =
  ev_quote :: melt_quote
  ev_inputs :: "cashu_proof list"
  ev_outputs :: "json list"
  ev_keysetId :: string

record decoded_token =
  dt_mint :: string
  dt_unit :: "string option"
  dt_proofs :: "cashu_proof list"
  dt_memo :: "string option"

datatype receivable = Token_text string | Token_proofs "cashu_proof list"

record 'w cashu_wallet =
  cw_loadMint :: "('w, failure, unit) effect"
  cw_info :: "'w \<Rightarrow> failure + mint_info"
  cw_createMintQuote :: "number \<Rightarrow> string \<Rightarrow> string option \<Rightarrow> ('w, failure, mint_quote) effect"
  cw_checkMintQuote :: "string \<Rightarrow> ('w, failure, mint_quote) effect"
  cw_prepareMint :: "mint_quote \<Rightarrow> string option \<Rightarrow> ('w, failure, mint_preview) effect"
  cw_completeMint :: "mint_preview \<Rightarrow> ('w, failure, cashu_proof list) effect"
  cw_createMeltQuote :: "string \<Rightarrow> string \<Rightarrow> ('w, failure, melt_quote) effect"
  cw_checkMeltQuote :: "string \<Rightarrow> ('w, failure, melt_quote) effect"
  cw_select :: "cashu_proof list \<Rightarrow> number \<Rightarrow> failure + cashu_proof list \<times> cashu_proof list"
  cw_prepareMelt :: "melt_quote \<Rightarrow> cashu_proof list \<Rightarrow> ('w, failure, melt_preview) effect"
  cw_completeMelt :: "melt_preview \<Rightarrow> ('w, failure, quote_state \<times> cashu_proof list \<times> json list) effect"
  cw_meltChange :: "json list \<Rightarrow> json list \<Rightarrow> failure + cashu_proof list"
  cw_fees :: "cashu_proof list \<Rightarrow> failure + number"
  cw_sendOffline :: "number \<Rightarrow> cashu_proof list \<Rightarrow> failure + cashu_proof list \<times> cashu_proof list"
  cw_swapToSend :: "number \<Rightarrow> cashu_proof list \<Rightarrow> p2pk_lock option \<Rightarrow> ('w, failure, live_swap) effect"
  cw_swapToReceive :: "receivable \<Rightarrow> ('w, failure, live_swap) effect"
  cw_completeSwap :: "live_swap \<Rightarrow> ('w, failure, cashu_proof list \<times> cashu_proof list) effect"
  cw_sign :: "cashu_proof list \<Rightarrow> string \<Rightarrow> failure + cashu_proof list"
  cw_parseSecret :: "json \<Rightarrow> (string \<times> string \<times> string list list option) option"
  cw_encodeToken :: "string \<Rightarrow> cashu_proof list \<Rightarrow> string \<Rightarrow> failure + string"
  cw_decodeToken :: "string \<Rightarrow> failure + decoded_token"
  cw_checkStates :: "cashu_proof list \<Rightarrow> ('w, failure, string list) effect"
  cw_restore :: "json list \<Rightarrow> ('w, failure, json list \<times> json list) effect"
  cw_serialize :: "json \<Rightarrow> output_data"
  cw_deserialize :: "output_data \<Rightarrow> failure + json"
  cw_message :: "json \<Rightarrow> json"
  cw_toProof :: "json \<Rightarrow> json \<Rightarrow> failure + cashu_proof"
  cw_validDleq :: "cashu_proof \<Rightarrow> json \<Rightarrow> bool"

text \<open>An effect on the world inside one on a larger state, and a result inside an effect, as in \<open>Effects\<close>.\<close>

definition always :: "('w, 'e, 'a) effect \<Rightarrow> ('e \<Rightarrow> 'a) \<Rightarrow> ('w, 'e, 'a) effect" where
  "always m f = catchM m (\<lambda>e. returnM (f e))"

subsection \<open>The mint and its unit\<close>

definition METHOD :: string where "METHOD = ''fiber''"
definition DEFAULT_UNIT :: string where "DEFAULT_UNIT = ''rusd''"

record mint_profile =
  mp_name :: string
  mp_description :: "string option"
  mp_version :: string
  mp_pubkey :: string
  mp_contact :: json
  mp_supportedNuts :: "int list"
  mp_unit :: string
  mp_fiberMint :: bool
  mp_fiberMelt :: bool
  mp_restore :: bool
  mp_safeMint :: bool
  mp_safeSwap :: bool

definition supports :: "string \<Rightarrow> nut_methods option \<Rightarrow> bool" where
  "supports unit entry =
     (case entry of
        None \<Rightarrow> False
      | Some e \<Rightarrow> \<not> nm_disabled e \<and>
          (case nm_methods e of
             None \<Rightarrow> False
           | Some ms \<Rightarrow> list_ex (\<lambda>(m, u). to_lower m = METHOD \<and> to_lower u = to_lower unit) ms))"

definition caches :: "(string \<times> string) list option \<Rightarrow> string \<Rightarrow> bool" where
  "caches endpoints path =
     list_ex (\<lambda>(m, p). m = ''POST'' \<and> strip_slash p = path) (case endpoints of None \<Rightarrow> [] | Some es \<Rightarrow> es)"

definition mintProfile :: "string \<Rightarrow> mint_info \<Rightarrow> mint_profile" where
  "mintProfile unit info =
     \<lparr>mp_name = mi_name info, mp_description = mi_description info, mp_version = mi_version info,
      mp_pubkey = mi_pubkey info, mp_contact = mi_contact info,
      mp_supportedNuts = sort (map number_of_digits (filter is_digit_text (mi_nuts info))), mp_unit = unit,
      mp_fiberMint = supports unit (mi_nut4 info), mp_fiberMelt = supports unit (mi_nut5 info),
      mp_restore = mi_nut9 info, mp_safeMint = caches (mi_nut19 info) (''/v1/mint/'' @ METHOD),
      mp_safeSwap = caches (mi_nut19 info) ''/v1/swap''\<rparr>"

text \<open>
  \<open>keysets?.find(...)\<close>: the unit of the first keyset that fits; \<open>None\<close> when the callback throws, as it does
  on an absent keyset.
\<close>

fun find_unit :: "bool \<Rightarrow> json list \<Rightarrow> json option option" where
  "find_unit active [] = Some None"
| "find_unit active (k # ks) =
     (if k = JNull \<or> k = JUndef then None
      else if (active \<longrightarrow> js_truthy (field k ''active'')) \<and> js_truthy (field k ''unit'') then Some (Some (field k ''unit''))
      else find_unit active ks)"

definition keyset_unit :: "json \<Rightarrow> json option" where
  "keyset_unit body =
     (case field body ''keysets'' of
        JArr ks \<Rightarrow>
          (case find_unit True ks of
             None \<Rightarrow> None
           | Some (Some u) \<Rightarrow> Some u
           | Some None \<Rightarrow> (case find_unit False ks of Some (Some u) \<Rightarrow> Some u | _ \<Rightarrow> None))
      | _ \<Rightarrow> None)"

definition keysets_call :: "string \<Rightarrow> http_call" where
  "keysets_call mintUrl =
     \<lparr>hc_url = strip_slash mintUrl @ ''/v1/keysets'', hc_method = ''GET'', hc_bearer = None, hc_body = None\<rparr>"

definition detectUnit :: "http_reply \<Rightarrow> json option" where
  "detectUnit reply =
     (case reply of
        Unreachable \<Rightarrow> None
      | Reply status body \<Rightarrow>
          if \<not> ok_status status then None else (case body of None \<Rightarrow> None | Some v \<Rightarrow> keyset_unit v))"

text \<open>
  The class's own state: its unit, with the world. \<open>new_wallet unit\<close> is the package's wallet on the mint
  in that unit, which the class replaces when the mint advertises another one.
\<close>

record 'w fibernuts =
  fw_unit :: string
  fw_world :: 'w

definition worldM :: "('w, failure, 'a) effect \<Rightarrow> ('w fibernuts, failure, 'a) effect" where
  "worldM m s = (case m (fw_world s) of (r, w) \<Rightarrow> (r, s\<lparr>fw_world := w\<rparr>))"

definition incompatible_text :: "mint_profile \<Rightarrow> string" where
  "incompatible_text p =
     ''This server does not advertise '' @
     join_with '' and ''
       ((if mp_fiberMint p then [] else [''mint/'' @ METHOD]) @ (if mp_fiberMelt p then [] else [''melt/'' @ METHOD]) @
        (if mp_restore p then [] else [''NUT-09 proof restoration''])) @
     '' for unit '' @ to_upper (mp_unit p) @ ''. No wallet operation is available.''"

definition load_wallet ::
  "(http_call \<Rightarrow> 'w \<Rightarrow> http_reply \<times> 'w) \<Rightarrow> (string \<Rightarrow> 'w cashu_wallet) \<Rightarrow> string \<Rightarrow> ('w fibernuts, failure, mint_profile) effect" where
  "load_wallet fetch new_wallet mintUrl =
     bindM (worldM (\<lambda>w. case fetch (keysets_call mintUrl) w of (reply, w') \<Rightarrow> (Inr (detectUnit reply), w'))) (\<lambda>detected.
     bindM (\<lambda>s.
       case detected of
         None \<Rightarrow> (Inr (), s)
       | Some (JStr u) \<Rightarrow> (Inr (), if u = fw_unit s then s else s\<lparr>fw_unit := to_lower u\<rparr>)
       | Some _ \<Rightarrow> (Inl (Failure ''detected.toLowerCase is not a function''), s)) (\<lambda>_.
     bindM (readM fw_unit) (\<lambda>unit.
     bindM (worldM (cw_loadMint (new_wallet unit))) (\<lambda>_.
     bindM (worldM (\<lambda>w. (cw_info (new_wallet unit) w, w))) (\<lambda>info.
     let p = mintProfile unit info in
     bindM (guardM (mp_fiberMint p \<and> mp_fiberMelt p \<and> mp_restore p) (Incompatible_mint (incompatible_text p))) (\<lambda>_.
     returnM p))))))"

subsection \<open>Asking for cash\<close>

definition createMintQuote ::
  "'w cashu_wallet \<Rightarrow> string \<Rightarrow> number \<Rightarrow> string option \<Rightarrow> ('w, failure, mint_quote) effect" where
  "createMintQuote W unit amount pubkey =
     bindM (guardM (num_safe amount \<and> num_less (Some 0) amount) (Failure ''Add-cash amount must be a positive integer.'')) (\<lambda>_.
     bindM (cw_createMintQuote W amount unit (if truthy_text pubkey then pubkey else None)) (\<lambda>quote.
     bindM (guardM (to_lower (mtq_unit quote) = unit \<and> \<not> num_differs (mtq_amount quote) amount)
       (Failure ''The mint returned a quote for a different amount or unit.'')) (\<lambda>_.
     bindM (guardM (mtq_quote quote \<noteq> [] \<and> mtq_request quote \<noteq> [])
       (Failure ''The mint returned an incomplete add-cash quote.'')) (\<lambda>_.
     returnM quote))))"

text \<open>The loop of \<open>createQuoteKeyPair\<close>: \<open>public\<close> is \<open>None\<close> where the package rejects the secret.\<close>

fun createQuoteKeyPair ::
  "('w \<Rightarrow> bytes \<times> 'w) \<Rightarrow> (bytes \<Rightarrow> bytes option) \<Rightarrow> nat \<Rightarrow> ('w, failure, string \<times> string) effect" where
  "createQuoteKeyPair random public 0 w = (Inl (Failure ''A one-time quote key could not be generated.''), w)"
| "createQuoteKeyPair random public (Suc n) w =
     (case random w of (secret, w') \<Rightarrow>
        (case public secret of
           Some key \<Rightarrow> (Inr (bytesToHex secret, bytesToHex key), w')
         | None \<Rightarrow> createQuoteKeyPair random public n w'))"

definition requestLockedMint ::
  "('w \<Rightarrow> bytes \<times> 'w) \<Rightarrow> (bytes \<Rightarrow> bytes option) \<Rightarrow> 'w cashu_wallet \<Rightarrow> string \<Rightarrow> number \<Rightarrow> ('w, failure, locked_quote) effect" where
  "requestLockedMint random public W unit amount =
     bindM (createQuoteKeyPair random public 16) (\<lambda>(privateKey, publicKey).
     bindM (createMintQuote W unit amount (Some publicKey)) (\<lambda>quote.
     bindM (guardM (case mtq_pubkey quote of None \<Rightarrow> False | Some k \<Rightarrow> to_lower k = publicKey)
       (Failure ''The mint did not lock the quote to this browser.'')) (\<lambda>_.
     returnM \<lparr>lkq_quote = quote, lkq_privateKey = privateKey, lkq_publicKey = publicKey\<rparr>)))"

definition prepareMint ::
  "'w cashu_wallet \<Rightarrow> mint_quote \<Rightarrow> string option \<Rightarrow> ('w, failure, prepared_mint) effect" where
  "prepareMint W quote key =
     bindM (guardM (\<not> (truthy_text (mtq_pubkey quote) \<and> \<not> truthy_text key))
       (Failure ''The locked mint quote is missing its browser recovery key.'')) (\<lambda>_.
     bindM (cw_prepareMint W quote (if truthy_text key then key else None)) (\<lambda>preview.
     returnM \<lparr>pn_outputs = map (cw_serialize W) (mv_outputs preview), pn_keysetId = mv_keysetId preview,
       pn_legacySignature = mv_legacySignature preview, pn_payloadSignature = mv_payload_signature preview\<rparr>))"

subsection \<open>Recovery of outputs\<close>

text \<open>The loop of \<open>tryRestoreOutputs\<close>: \<open>None\<close> where a proof lacks the evidence of the mint's key.\<close>

fun restored_proofs :: "'w cashu_wallet \<Rightarrow> bool \<Rightarrow> (json \<times> json) list \<Rightarrow> failure + cashu_proof list option" where
  "restored_proofs W dleq [] = Inr (Some [])"
| "restored_proofs W dleq ((output, signature) # rest) =
     bindR (cw_toProof W output signature) (\<lambda>proof.
     if dleq \<and> \<not> cw_validDleq W proof signature then Inr None
     else bindR (restored_proofs W dleq rest) (\<lambda>r. Inr (map_option (\<lambda>ps. normalizeProof proof # ps) r)))"

definition tryRestoreOutputs :: "'w cashu_wallet \<Rightarrow> output_data list \<Rightarrow> ('w, failure, cashu_proof list option) effect" where
  "tryRestoreOutputs W serialized =
     (if serialized = [] then returnM (Some [])
      else always
        (bindM (liftM (mapR (cw_deserialize W) serialized)) (\<lambda>outputs.
         bindM (cw_restore W (map (cw_message W) outputs)) (\<lambda>(answered, signatures).
         case matchRestoredSignatures serialized answered signatures of
           None \<Rightarrow> returnM None
         | Some matched \<Rightarrow>
             bindM (\<lambda>w. (cw_info W w, w)) (\<lambda>info.
             liftM (restored_proofs W (mi_nut12 info) (zip outputs matched)))))) (\<lambda>_. None))"

definition completeMint ::
  "'w cashu_wallet \<Rightarrow> mint_quote \<Rightarrow> prepared_mint \<Rightarrow> ('w, failure, cashu_proof list) effect" where
  "completeMint W quote prepared =
     bindM (liftM (mapR (cw_deserialize W) (pn_outputs prepared))) (\<lambda>outputs.
     let preview = \<lparr>mv_quote = quote, mv_payload_quote = mtq_quote quote, mv_payload_outputs = map (cw_message W) outputs,
           mv_payload_signature = pn_payloadSignature prepared, mv_outputs = outputs, mv_keysetId = pn_keysetId prepared,
           mv_legacySignature = pn_legacySignature prepared\<rparr> in
     tryM (cw_completeMint W preview)
       (\<lambda>reason. bindM (tryRestoreOutputs W (pn_outputs prepared)) (\<lambda>restored.
          case restored of Some ps \<Rightarrow> returnM ps | None \<Rightarrow> throwM reason))
       (\<lambda>ps. returnM (map normalizeProof ps)))"

definition list_or_nil :: "'a list option \<Rightarrow> 'a list" where
  "list_or_nil v = (case v of None \<Rightarrow> [] | Some xs \<Rightarrow> xs)"

definition tryRestoreSwap ::
  "'w cashu_wallet \<Rightarrow> swap_preview \<Rightarrow> ('w, failure, (cashu_proof list \<times> cashu_proof list) option) effect" where
  "tryRestoreSwap W swap =
     (let keep = list_or_nil (sw_keep swap); send = list_or_nil (sw_send swap) in
      bindM (tryRestoreOutputs W (keep @ send)) (\<lambda>restored.
      returnM (case restored of
        None \<Rightarrow> None
      | Some ps \<Rightarrow>
          Some (take (length keep) ps @ map normalizeProof (list_or_nil (sw_unselected swap)), drop (length keep) ps))))"

subsection \<open>Cashing out\<close>

definition requestMelt :: "'w cashu_wallet \<Rightarrow> string \<Rightarrow> string \<Rightarrow> ('w, failure, melt_quote) effect" where
  "requestMelt W unit invoice =
     bindM (cw_createMeltQuote W invoice unit) (\<lambda>quote.
     bindM (guardM
       (to_lower (mlq_unit quote) = unit \<and> mlq_request quote = invoice \<and>
        num_safe (mlq_amount quote) \<and> num_less (Some 0) (mlq_amount quote) \<and>
        num_safe (mlq_fee_reserve quote) \<and> \<not> num_less (mlq_fee_reserve quote) (Some 0) \<and>
        mlq_state quote = UNPAID \<and> mlq_quote quote \<noteq> [])
       (Failure ''The mint returned an invalid or mismatched cash-out quote.'')) (\<lambda>_.
     returnM quote))"

definition prepareMelt ::
  "('w \<Rightarrow> int \<times> 'w) \<Rightarrow> 'w cashu_wallet \<Rightarrow> melt_quote \<Rightarrow> cashu_proof list \<Rightarrow> ('w, failure, prepared_melt) effect" where
  "prepareMelt clock W quote proofs =
     bindM (\<lambda>w. case clock w of (now, w') \<Rightarrow>
         ((case mlq_expiry quote of
             Some expiry \<Rightarrow>
               if expiry \<noteq> 0 \<and> js_mul expiry 1000 \<le> now
               then Inl (Failure ''This cash-out quote has expired. Request a new quote before reserving proofs.'')
               else Inr ()
           | None \<Rightarrow> Inr ()), w')) (\<lambda>_.
     bindM (liftM (cw_select W proofs (num_add (mlq_amount quote) (mlq_fee_reserve quote)))) (\<lambda>(send, keep).
     bindM (cw_prepareMelt W quote send) (\<lambda>preview.
     bindM (liftM (cw_fees W send)) (\<lambda>fee.
     returnM \<lparr>pm_keep = map normalizeProof keep, pm_reserved = map normalizeProof send,
       pm_outputs = map (cw_serialize W) (ev_outputs preview), pm_keysetId = ev_keysetId preview, pm_inputFee = fee\<rparr>))))"

definition executeMelt :: "'w cashu_wallet \<Rightarrow> melt_quote \<Rightarrow> prepared_melt \<Rightarrow> ('w, failure, melt_execution) effect" where
  "executeMelt W quote prepared =
     bindM (liftM (mapR (cw_deserialize W) (pm_outputs prepared))) (\<lambda>outputs.
     bindM (cw_completeMelt W
       \<lparr>ev_quote = quote, ev_inputs = pm_reserved prepared, ev_outputs = outputs, ev_keysetId = pm_keysetId prepared\<rparr>)
       (\<lambda>(state, change, outs).
     returnM \<lparr>mx_state = state, mx_change = map normalizeProof change, mx_outputs = map (cw_serialize W) outs\<rparr>))"

definition recoverMeltChange :: "'w cashu_wallet \<Rightarrow> output_data list \<Rightarrow> melt_quote \<Rightarrow> failure + cashu_proof list" where
  "recoverMeltChange W outputs quote =
     (case mlq_change quote of
        None \<Rightarrow> Inr []
      | Some [] \<Rightarrow> Inr []
      | Some change \<Rightarrow>
          bindR (mapR (cw_deserialize W) outputs) (\<lambda>outs.
          bindR (cw_meltChange W outs change) (\<lambda>ps. Inr (map normalizeProof ps))))"

subsection \<open>Swaps\<close>

definition serializeSwapPreview :: "'w cashu_wallet \<Rightarrow> live_swap \<Rightarrow> swap_preview" where
  "serializeSwapPreview W v =
     \<lparr>sw_amount = units (lv_amount v), sw_fees = units (lv_fees v), sw_keyset = lv_keyset v,
      sw_inputs = map normalizeProof (lv_inputs v), sw_send = map_option (map (cw_serialize W)) (lv_send v),
      sw_keep = map_option (map (cw_serialize W)) (lv_keep v),
      sw_unselected = map_option (map normalizeProof) (lv_unselected v)\<rparr>"

definition optional_outputs :: "'w cashu_wallet \<Rightarrow> output_data list option \<Rightarrow> failure + json list option" where
  "optional_outputs W v =
     (case v of None \<Rightarrow> Inr None | Some outs \<Rightarrow> bindR (mapR (cw_deserialize W) outs) (\<lambda>os. Inr (Some os)))"

definition deserializeSwapPreview :: "'w cashu_wallet \<Rightarrow> swap_preview \<Rightarrow> failure + live_swap" where
  "deserializeSwapPreview W swap =
     bindR (optional_outputs W (sw_send swap)) (\<lambda>send.
     bindR (optional_outputs W (sw_keep swap)) (\<lambda>keep.
     Inr \<lparr>lv_amount = number_json (sw_amount swap), lv_fees = number_json (sw_fees swap), lv_keyset = sw_keyset swap,
       lv_inputs = sw_inputs swap, lv_send = send, lv_keep = keep, lv_unselected = sw_unselected swap\<rparr>))"

definition sumStoredOutputs :: "output_data list option \<Rightarrow> number" where
  "sumStoredOutputs outs =
     foldl (\<lambda>total out. num_add total (units (field (blinded_message out) ''amount''))) (Some 0) (list_or_nil outs)"

definition num_minus :: "number \<Rightarrow> number \<Rightarrow> number" where
  "num_minus a b = (case (a, b) of (Some i, Some j) \<Rightarrow> Some (js_add i (- j)) | _ \<Rightarrow> None)"

text \<open>\<open>prepareSend\<close> through the mint: with a lock, and as the fallback without one.\<close>

definition swap_send ::
  "'w cashu_wallet \<Rightarrow> number \<Rightarrow> cashu_proof list \<Rightarrow> p2pk_lock option \<Rightarrow> ('w, failure, prepared_send) effect" where
  "swap_send W amount proofs lock =
     bindM (cw_swapToSend W amount proofs lock) (\<lambda>preview.
     let swap = serializeSwapPreview W preview; debit = num_add (sumStoredOutputs (sw_send swap)) (sw_fees swap)
     in returnM (Swap_send swap debit (num_minus debit amount)))"

definition offline_send :: "'w cashu_wallet \<Rightarrow> number \<Rightarrow> cashu_proof list \<Rightarrow> failure + prepared_send" where
  "offline_send W amount proofs =
     bindR (cw_sendOffline W amount proofs) (\<lambda>(send, keep).
     let debit = sumProofs send in
     bindR (cw_fees W send) (\<lambda>fee.
     bindR (guardR (\<not> num_differs debit (num_add amount fee))
       (Failure ''Offline selection did not cover the recipient's proof fee.'')) (\<lambda>_.
     Inr (Offline_send (map normalizeProof keep) (map normalizeProof send) debit fee))))"

definition prepareSend ::
  "'w cashu_wallet \<Rightarrow> number \<Rightarrow> cashu_proof list \<Rightarrow> p2pk_lock option \<Rightarrow> ('w, failure, prepared_send) effect" where
  "prepareSend W amount proofs lock =
     (case lock of
        Some l \<Rightarrow> swap_send W amount proofs (Some l)
      | None \<Rightarrow> catchM (liftM (offline_send W amount proofs)) (\<lambda>_. swap_send W amount proofs None))"

definition encodeProofs :: "'w cashu_wallet \<Rightarrow> string \<Rightarrow> string \<Rightarrow> cashu_proof list \<Rightarrow> failure + string" where
  "encodeProofs W mintUrl unit proofs = cw_encodeToken W mintUrl proofs unit"

definition completePreparedSend ::
  "'w cashu_wallet \<Rightarrow> string \<Rightarrow> string \<Rightarrow> swap_preview \<Rightarrow> ('w, failure, string \<times> cashu_proof list) effect" where
  "completePreparedSend W mintUrl unit swap =
     (let fresh = length (list_or_nil (sw_keep swap)) in
      catchM
        (bindM (liftM (deserializeSwapPreview W swap)) (\<lambda>live.
         bindM (cw_completeSwap W live) (\<lambda>(keep, send).
         bindM (liftM (encodeProofs W mintUrl unit (map normalizeProof send))) (\<lambda>token.
         returnM (token, map normalizeProof (take fresh keep))))))
        (\<lambda>reason. bindM (tryRestoreSwap W swap) (\<lambda>restored.
           case restored of
             Some (keep, send) \<Rightarrow>
               bindM (liftM (encodeProofs W mintUrl unit send)) (\<lambda>token. returnM (token, take fresh keep))
           | None \<Rightarrow> throwM reason)))"

definition completePreparedReceive :: "'w cashu_wallet \<Rightarrow> swap_preview \<Rightarrow> ('w, failure, cashu_proof list) effect" where
  "completePreparedReceive W swap =
     catchM
       (bindM (liftM (deserializeSwapPreview W swap)) (\<lambda>live.
        bindM (cw_completeSwap W live) (\<lambda>(keep, send). returnM (map normalizeProof keep))))
       (\<lambda>reason. bindM (tryRestoreSwap W swap) (\<lambda>restored.
          case restored of Some (keep, send) \<Rightarrow> returnM keep | None \<Rightarrow> throwM reason))"

subsection \<open>Tokens\<close>

definition normalizeUrl :: "url_parser \<Rightarrow> string \<Rightarrow> string" where
  "normalizeUrl U v =
     (case U v of
        Some u \<Rightarrow> strip_slash (url_text (strip_path (u\<lparr>hash := [], search := []\<rparr>)))
      | None \<Rightarrow> strip_slashes v)"

definition inspectToken :: "url_parser \<Rightarrow> 'w cashu_wallet \<Rightarrow> string \<Rightarrow> string \<Rightarrow> failure + inspected_token" where
  "inspectToken U W unit token =
     bindR (cw_decodeToken W token) (\<lambda>decoded.
     case sumProofs (dt_proofs decoded) of
       None \<Rightarrow> Inl (Failure ''This token does not contain a valid positive amount.'')
     | Some amount \<Rightarrow>
         bindR (guardR (is_safe amount \<and> 0 < amount \<and> dt_proofs decoded \<noteq> [])
           (Failure ''This token does not contain a valid positive amount.'')) (\<lambda>_.
         Inr \<lparr>it_amount = amount, it_mint = normalizeUrl U (dt_mint decoded),
           it_unit = to_lower (case dt_unit decoded of None \<Rightarrow> unit | Some u \<Rightarrow> u),
           it_proofs = map normalizeProof (dt_proofs decoded), it_memo = dt_memo decoded\<rparr>))"

definition prepareReceive ::
  "url_parser \<Rightarrow> 'w cashu_wallet \<Rightarrow> string \<Rightarrow> string \<Rightarrow> string option \<Rightarrow> ('w, failure, swap_preview) effect" where
  "prepareReceive U W unit token key =
     (case key of
        Some (c # cs) \<Rightarrow>
          bindM (liftM (inspectToken U W unit token)) (\<lambda>inspected.
          bindM (liftM (cw_sign W (it_proofs inspected) (c # cs))) (\<lambda>signed.
          bindM (cw_swapToReceive W (Token_proofs signed)) (\<lambda>v. returnM (serializeSwapPreview W v))))
      | _ \<Rightarrow> bindM (cw_swapToReceive W (Token_text token)) (\<lambda>v. returnM (serializeSwapPreview W v)))"

definition locked_only_to :: "'w cashu_wallet \<Rightarrow> string \<Rightarrow> cashu_proof \<Rightarrow> bool" where
  "locked_only_to W expected p =
     (case cw_parseSecret W (field p ''secret'') of
        None \<Rightarrow> False
      | Some (kind, data, conditions) \<Rightarrow> kind = ''P2PK'' \<and> to_lower data = expected \<and> list_or_nil conditions = [])"

definition tokenIsLockedTo :: "url_parser \<Rightarrow> 'w cashu_wallet \<Rightarrow> string \<Rightarrow> string \<Rightarrow> string \<Rightarrow> failure + bool" where
  "tokenIsLockedTo U W unit token publicKey =
     bindR (inspectToken U W unit token) (\<lambda>inspected.
     Inr (list_all (locked_only_to W (to_lower publicKey)) (it_proofs inspected)))"

definition spend_state_of :: "string list \<Rightarrow> spend_state" where
  "spend_state_of states =
     (case remdups states of
        [s] \<Rightarrow> (if s = ''SPENT'' then Spent else if s = ''PENDING'' then Pending_spend
                else if s = ''UNSPENT'' then Unspent else Mixed)
      | _ \<Rightarrow> Mixed)"

definition checkProofsState :: "'w cashu_wallet \<Rightarrow> cashu_proof list \<Rightarrow> ('w, failure, spend_state) effect" where
  "checkProofsState W proofs =
     bindM (guardM (proofs \<noteq> []) (Failure ''A token with no proofs has no spend state.'')) (\<lambda>_.
     bindM (cw_checkStates W proofs) (\<lambda>states. returnM (spend_state_of states)))"

definition checkTokenState :: "url_parser \<Rightarrow> 'w cashu_wallet \<Rightarrow> string \<Rightarrow> string \<Rightarrow> ('w, failure, spend_state) effect" where
  "checkTokenState U W unit token =
     bindM (liftM (inspectToken U W unit token)) (\<lambda>inspected. checkProofsState W (it_proofs inspected))"

subsection \<open>The class as the market's port\<close>

definition fibernuts_wallet ::
  "url_parser \<Rightarrow> ('w \<Rightarrow> int \<times> 'w) \<Rightarrow> ('w \<Rightarrow> bytes \<times> 'w) \<Rightarrow> (bytes \<Rightarrow> bytes option) \<Rightarrow> string \<Rightarrow> string \<Rightarrow>
   'w cashu_wallet \<Rightarrow> 'w market_wallet" where
  "fibernuts_wallet U clock random public mintUrl unit W =
     \<lparr>mw_mintUrl = mintUrl, mw_unit = unit, mw_prepareSend = prepareSend W,
      mw_completePreparedSend = completePreparedSend W mintUrl unit, mw_inspectToken = inspectToken U W unit,
      mw_encodeProofs = encodeProofs W mintUrl unit, mw_tokenIsLockedTo = tokenIsLockedTo U W unit,
      mw_prepareReceive = prepareReceive U W unit, mw_completePreparedReceive = completePreparedReceive W,
      mw_checkTokenState = checkTokenState U W unit, mw_requestMint = (\<lambda>amount. createMintQuote W unit amount None),
      mw_requestLockedMint = requestLockedMint random public W unit, mw_checkMintQuote = cw_checkMintQuote W,
      mw_prepareMint = prepareMint W, mw_completeMint = completeMint W, mw_requestMelt = requestMelt W unit,
      mw_checkMeltQuote = cw_checkMeltQuote W, mw_prepareMelt = prepareMelt clock W, mw_executeMelt = executeMelt W,
      mw_recoverMeltChange = recoverMeltChange W, mw_checkProofsState = checkProofsState W\<rparr>"

end
