(* ===== verification/Wallet_Storage.thy ===== *)
theory Wallet_Storage
  imports Market_Load
begin

section \<open>The wallet's stored snapshot\<close>

text \<open>
  \<open>wallet/src/lib/storage.ts\<close>. Unlike the market's, this loader never fails: a document, a list or an
  operation that it cannot read is dropped. An operation stays the stored object, with some members
  replaced, so it is a JSON value here; \<open>P\<close> is the platform with the package's \<open>deserializeProofs\<close>.
\<close>

definition STATE_VERSION :: int where "STATE_VERSION = 2"
definition ACTIVE_MINT_KEY :: string where "ACTIVE_MINT_KEY = ''fibernuts:active-mint''"

record wallet_document =
  wd_unit :: "string option"
  wd_proofs :: "cashu_proof list"
  wd_operations :: "json list"
  wd_openRequest :: "json option"

definition stateKey :: "string \<Rightarrow> string" where
  "stateKey mintUrl = ''fibernuts:wallet:v'' @ int_text STATE_VERSION @ '':'' @ mintUrl"

definition legacyProofKey :: "string \<Rightarrow> string" where
  "legacyProofKey mintUrl = ''fibernuts:proofs:'' @ mintUrl"

definition normalizeProofs :: "platform \<Rightarrow> json \<Rightarrow> cashu_proof list" where
  "normalizeProofs P v =
     (case v of JArr vs \<Rightarrow> (case deserialize_proofs (package P) vs of Some ps \<Rightarrow> ps | None \<Rightarrow> []) | _ \<Rightarrow> [])"

text \<open>\<open>Number.isFinite\<close>, \<open>typeof v === "string"\<close>, and \<open>Number.isSafeInteger(v) && v >= low\<close>, else \<open>undefined\<close>.\<close>

definition finite_number :: "json \<Rightarrow> bool" where
  "finite_number v = (case v of JInt _ \<Rightarrow> True | JReal t \<Rightarrow> t \<noteq> ''null'' | _ \<Rightarrow> False)"

definition is_text :: "json \<Rightarrow> bool" where "is_text v = (str_of v \<noteq> None)"

definition safe_from :: "int \<Rightarrow> json \<Rightarrow> bool" where
  "safe_from low v = (case safe_int_of v of None \<Rightarrow> False | Some i \<Rightarrow> low \<le> i)"

definition or_undefined :: "bool \<Rightarrow> json \<Rightarrow> json" where
  "or_undefined b v = (if b then v else JUndef)"

definition text_in :: "string list \<Rightarrow> json \<Rightarrow> bool" where
  "text_in all v = (case v of JStr s \<Rightarrow> s \<in> set all | _ \<Rightarrow> False)"

definition is_list :: "json \<Rightarrow> bool" where "is_list v = (arr_of v \<noteq> None)"

definition walletSwap :: "platform \<Rightarrow> json \<Rightarrow> json" where
  "walletSwap P v =
     (if safe_int_of (field v ''amount'') = None \<or> safe_int_of (field v ''fees'') = None \<or>
         \<not> is_text (field v ''keysetId'') \<or> \<not> is_list (field v ''inputs'') then JUndef
      else JObj [(''amount'', field v ''amount''), (''fees'', field v ''fees''), (''keysetId'', field v ''keysetId''),
        (''inputs'', JArr (normalizeProofs P (field v ''inputs''))),
        (''sendOutputs'', or_undefined (is_list (field v ''sendOutputs'')) (field v ''sendOutputs'')),
        (''keepOutputs'', or_undefined (is_list (field v ''keepOutputs'')) (field v ''keepOutputs'')),
        (''unselectedProofs'', JArr (normalizeProofs P (field v ''unselectedProofs'')))])"

text \<open>The test that every operation passes first.\<close>

definition base_readable :: "json \<Rightarrow> bool" where
  "base_readable v \<longleftrightarrow>
     is_record v \<and> is_text (field v ''id'') \<and> text_in [''add'', ''send'', ''receive'', ''cashout''] (field v ''kind'') \<and>
     is_text (field v ''mintUrl'') \<and> is_text (field v ''unit'') \<and> safe_from 0 (field v ''amount'') \<and>
     finite_number (field v ''createdAt'') \<and> finite_number (field v ''updatedAt'')"

text \<open>\<open>{...operation, k1: v1, ...}\<close>\<close>

definition spread :: "json \<Rightarrow> fields \<Rightarrow> json" where
  "spread v fs = foldl (\<lambda>w (k, x). set_field k x w) v fs"

definition is_quote_pubkey :: "string \<Rightarrow> bool" where
  "is_quote_pubkey s \<longleftrightarrow> (starts_with ''02'' s \<or> starts_with ''03'' s) \<and> length s = 66 \<and> list_all is_lower_hex (drop 2 s)"

definition is_quote_key :: "string \<Rightarrow> bool" where
  "is_quote_key s \<longleftrightarrow> length s = 64 \<and> list_all is_lower_hex s"

definition read_add :: "json \<Rightarrow> json option" where
  "read_add v =
     (let source = or_undefined (field v ''fundingSource'' = JStr ''faucet'') (JStr ''faucet'');
          pubkey = or_undefined (str_such is_quote_pubkey (field v ''quotePubkey'')) (field v ''quotePubkey'');
          privkey = or_undefined (str_such is_quote_key (field v ''quotePrivateKey'')) (field v ''quotePrivateKey'') in
      if \<not> text_in (map add_state_text add_states) (field v ''state'') \<or> \<not> is_text (field v ''quoteId'') \<or>
         \<not> is_text (field v ''invoice'') \<or> (source \<noteq> JUndef \<and> pubkey = JUndef) then None
      else Some (spread v [(''fundingSource'', source), (''quotePubkey'', pubkey), (''quotePrivateKey'', privkey)]))"

definition read_send :: "platform \<Rightarrow> json \<Rightarrow> json option" where
  "read_send P v =
     (if \<not> text_in (map send_state_text send_states) (field v ''state'') then None
      else Some (spread v
        [(''fee'', or_undefined (safe_from 0 (field v ''fee'')) (field v ''fee'')),
         (''token'', or_undefined (is_text (field v ''token'')) (field v ''token'')),
         (''swap'', walletSwap P (field v ''swap''))]))"

definition read_receive :: "platform \<Rightarrow> json \<Rightarrow> json option" where
  "read_receive P v =
     (if \<not> text_in (map receive_state_text receive_states) (field v ''state'') then None
      else Some (spread v
        [(''requestId'', or_undefined (is_text (field v ''requestId'')) (field v ''requestId'')),
         (''requestedAmount'', or_undefined (safe_from 1 (field v ''requestedAmount'')) (field v ''requestedAmount'')),
         (''token'', or_undefined (is_text (field v ''token'')) (field v ''token'')),
         (''swap'', walletSwap P (field v ''swap''))]))"

definition read_cash_out :: "platform \<Rightarrow> json \<Rightarrow> json option" where
  "read_cash_out P v =
     (let quote = field v ''quote'' in
      if \<not> text_in (map cash_out_state_text cash_out_states) (field v ''state'') \<or> \<not> is_text (field v ''invoice'') \<or>
         \<not> is_text (field quote ''quote'') \<or> safe_int_of (field quote ''amount'') = None \<or>
         safe_int_of (field quote ''feeReserve'') = None \<or> \<not> is_text (field quote ''unit'') \<or>
         \<not> is_text (field quote ''request'') then None
      else Some (spread v
        [(''cashuFee'', or_undefined (safe_from 0 (field v ''cashuFee'')) (field v ''cashuFee'')),
         (''reservedProofs'', JArr (normalizeProofs P (field v ''reservedProofs''))),
         (''recoverySwap'', walletSwap P (field v ''recoverySwap''))]))"

definition read_operation :: "platform \<Rightarrow> json \<Rightarrow> json option" where
  "read_operation P v =
     (if \<not> base_readable v then None
      else if field v ''kind'' = JStr ''add'' then read_add v
      else if field v ''kind'' = JStr ''send'' then read_send P v
      else if field v ''kind'' = JStr ''receive'' then read_receive P v
      else read_cash_out P v)"

definition normalizeOperations :: "platform \<Rightarrow> json \<Rightarrow> json list" where
  "normalizeOperations P v = (case v of JArr vs \<Rightarrow> List.map_filter (read_operation P) vs | _ \<Rightarrow> [])"

definition normalizeOpenRequest :: "json \<Rightarrow> json option" where
  "normalizeOpenRequest v =
     (if safe_from 1 (field v ''amount'') \<and> is_text (field v ''unit'') \<and>
         (case field v ''mints'' of JArr ms \<Rightarrow> list_all is_text ms | _ \<Rightarrow> False) \<and>
         is_text (field v ''description'') \<and> (\<exists>b \<in> {True, False}. field v ''singleUse'' = JBool b) \<and>
         str_such is_request_text (field v ''encoded'')
      then Some v else None)"

definition is_unit_char :: "char \<Rightarrow> bool" where
  "is_unit_char c \<longleftrightarrow> code_in c 97 122 \<or> code_in c 48 57 \<or> c = CHR ''_'' \<or> c = CHR ''-''"

definition normalizeUnit :: "json \<Rightarrow> string option" where
  "normalizeUnit v =
     (case v of
        JStr s \<Rightarrow> (let unit = to_lower (trim s) in if chars_between is_unit_char 1 24 unit then Some unit else None)
      | _ \<Rightarrow> None)"

definition emptyWalletSnapshot :: wallet_document where
  "emptyWalletSnapshot = \<lparr>wd_unit = None, wd_proofs = [], wd_operations = [], wd_openRequest = None\<rparr>"

text \<open>\<open>value.unit.toLowerCase()\<close> of a value whose unit is known to be a text.\<close>

definition lower_unit :: "json \<Rightarrow> string" where
  "lower_unit v = (case field v ''unit'' of JStr s \<Rightarrow> to_lower s | _ \<Rightarrow> [])"

definition read_document :: "platform \<Rightarrow> json \<Rightarrow> wallet_document" where
  "read_document P parsed =
     (let operations = normalizeOperations P (field parsed ''operations'');
          unit = (case normalizeUnit (field parsed ''unit'') of
                    Some u \<Rightarrow> Some u
                  | None \<Rightarrow> (case remdups (map lower_unit operations) of [u] \<Rightarrow> normalizeUnit (JStr u) | _ \<Rightarrow> None))
      in \<lparr>wd_unit = unit, wd_proofs = normalizeProofs P (field parsed ''proofs''),
          wd_operations = (case unit of None \<Rightarrow> operations | Some u \<Rightarrow> filter (\<lambda>v. lower_unit v = u) operations),
          wd_openRequest =
            (case normalizeOpenRequest (field parsed ''openRequest'') of
               None \<Rightarrow> None
             | Some request \<Rightarrow> if unit = None \<or> unit = Some (lower_unit request) then Some request else None)\<rparr>)"

definition document_json :: "wallet_document \<Rightarrow> json" where
  "document_json d = JObj
     [(''version'', JInt STATE_VERSION),
      (''unit'', case (case wd_unit d of None \<Rightarrow> None | Some u \<Rightarrow> normalizeUnit (JStr u)) of None \<Rightarrow> JUndef | Some u \<Rightarrow> JStr u),
      (''proofs'', JArr (wd_proofs d)), (''operations'', JArr (wd_operations d)),
      (''openRequest'', case wd_openRequest d of None \<Rightarrow> JUndef | Some v \<Rightarrow> v)]"

text \<open>\<open>room key text\<close>: the browser lets the text be stored; otherwise \<open>setItem\<close> throws.\<close>

definition saveWalletSnapshot ::
  "platform \<Rightarrow> (string \<Rightarrow> string \<Rightarrow> bool) \<Rightarrow> string \<Rightarrow> wallet_document \<Rightarrow> (local_storage, failure, unit) effect" where
  "saveWalletSnapshot P room mintUrl d store =
     (let key = stateKey mintUrl; text = json_stringify P (document_json d) in
      if room key text then (Inr (), store(key \<mapsto> text)) else (Inl (Failure ''QuotaExceededError''), store))"

definition loadWalletSnapshot ::
  "platform \<Rightarrow> (string \<Rightarrow> string \<Rightarrow> bool) \<Rightarrow> string \<Rightarrow> local_storage \<Rightarrow> wallet_document \<times> local_storage" where
  "loadWalletSnapshot P room mintUrl store =
     (if truthy_text (store (stateKey mintUrl)) then
        (case json_parse P (text_or [] (store (stateKey mintUrl))) of
           None \<Rightarrow> (emptyWalletSnapshot, store)
         | Some JNull \<Rightarrow> (emptyWalletSnapshot, store)
         | Some parsed \<Rightarrow> (read_document P parsed, store))
      else if \<not> truthy_text (store (legacyProofKey mintUrl)) then (emptyWalletSnapshot, store)
      else case json_parse P (text_or [] (store (legacyProofKey mintUrl))) of
        None \<Rightarrow> (emptyWalletSnapshot, store)
      | Some v \<Rightarrow>
          (let migrated = emptyWalletSnapshot\<lparr>wd_proofs := normalizeProofs P v\<rparr> in
           case saveWalletSnapshot P room mintUrl migrated store of
             (Inr _, store') \<Rightarrow> (migrated, store')
           | (Inl _, store') \<Rightarrow> (emptyWalletSnapshot, store')))"

definition loadActiveMint :: "url_parser \<Rightarrow> string \<Rightarrow> local_storage \<Rightarrow> failure + string" where
  "loadActiveMint U fallback store =
     (let value = (if truthy_text (store ACTIVE_MINT_KEY) then text_or [] (store ACTIVE_MINT_KEY) else fallback) in
      case normalizeMintUrl U value of Inr t \<Rightarrow> Inr t | Inl _ \<Rightarrow> normalizeMintUrl U fallback)"

definition saveActiveMint ::
  "url_parser \<Rightarrow> (string \<Rightarrow> string \<Rightarrow> bool) \<Rightarrow> string \<Rightarrow> (local_storage, failure, unit) effect" where
  "saveActiveMint U room mintUrl store =
     (case normalizeMintUrl U mintUrl of
        Inl e \<Rightarrow> (Inl e, store)
      | Inr t \<Rightarrow>
          if room ACTIVE_MINT_KEY t then (Inr (), store(ACTIVE_MINT_KEY \<mapsto> t))
          else (Inl (Failure ''QuotaExceededError''), store))"

end
