(* ===== verification/Wallet_App.thy ===== *)
theory Wallet_App
  imports Wallet_Task Wallet_Library Wallet_Storage
begin

section \<open>The wallet's application\<close>

text \<open>
  The handlers of \<open>wallet/src/App.tsx\<close>. An operation is the stored object, changed by spreading new
  members over it. The state of a session is \<open>snapshotRef\<close> and \<open>inFlightRef\<close> with the browser's storage;
  \<open>se_now\<close> and \<open>se_room\<close> are the clock and the room left in the storage during the current stretch. A
  handler keeps the mint and the wallet of the render that made it: the view \<open>V\<close>. What it calls of the
  wallet library without a wait is in \<open>E\<close>, a parameter, with the platform and the random identifiers.
\<close>

subsection \<open>Calls and answers\<close>

datatype wallet_call =
    PrepareSend number "cashu_proof list"
  | CompletePreparedSend json
  | PrepareReceive string
  | CompletePreparedReceive json
  | CheckTokenState string
  | CheckProofsState "cashu_proof list"
  | RequestMint int
  | CheckMintQuote string
  | PrepareMint mint_quote
  | CompleteMint mint_quote json
  | RequestMelt string
  | CheckMeltQuote string
  | PrepareMelt melt_quote "cashu_proof list"
  | ExecuteMelt melt_quote prepared_melt

datatype wallet_answer =
    Is_send prepared_send
  | Is_token string "cashu_proof list"
  | Is_swap swap_preview
  | Is_proofs "cashu_proof list"
  | Is_state spend_state
  | Is_mint_quote mint_quote
  | Is_mint prepared_mint
  | Is_melt_quote melt_quote
  | Is_melt prepared_melt
  | Is_execution melt_execution

text \<open>Every call returns a value of its type or throws.\<close>

fun fits :: "wallet_call \<Rightarrow> failure + wallet_answer \<Rightarrow> bool" where
  "fits c (Inl e) = True"
| "fits (PrepareSend _ _) (Inr a) = (case a of Is_send _ \<Rightarrow> True | _ \<Rightarrow> False)"
| "fits (CompletePreparedSend _) (Inr a) = (case a of Is_token _ _ \<Rightarrow> True | _ \<Rightarrow> False)"
| "fits (PrepareReceive _) (Inr a) = (case a of Is_swap _ \<Rightarrow> True | _ \<Rightarrow> False)"
| "fits (CompletePreparedReceive _) (Inr a) = (case a of Is_proofs _ \<Rightarrow> True | _ \<Rightarrow> False)"
| "fits (CheckTokenState _) (Inr a) = (case a of Is_state _ \<Rightarrow> True | _ \<Rightarrow> False)"
| "fits (CheckProofsState _) (Inr a) = (case a of Is_state _ \<Rightarrow> True | _ \<Rightarrow> False)"
| "fits (RequestMint _) (Inr a) = (case a of Is_mint_quote _ \<Rightarrow> True | _ \<Rightarrow> False)"
| "fits (CheckMintQuote _) (Inr a) = (case a of Is_mint_quote _ \<Rightarrow> True | _ \<Rightarrow> False)"
| "fits (PrepareMint _) (Inr a) = (case a of Is_mint _ \<Rightarrow> True | _ \<Rightarrow> False)"
| "fits (CompleteMint _ _) (Inr a) = (case a of Is_proofs _ \<Rightarrow> True | _ \<Rightarrow> False)"
| "fits (RequestMelt _) (Inr a) = (case a of Is_melt_quote _ \<Rightarrow> True | _ \<Rightarrow> False)"
| "fits (CheckMeltQuote _) (Inr a) = (case a of Is_melt_quote _ \<Rightarrow> True | _ \<Rightarrow> False)"
| "fits (PrepareMelt _ _) (Inr a) = (case a of Is_melt _ \<Rightarrow> True | _ \<Rightarrow> False)"
| "fits (ExecuteMelt _ _) (Inr a) = (case a of Is_execution _ \<Rightarrow> True | _ \<Rightarrow> False)"

fun as_send :: "wallet_answer \<Rightarrow> prepared_send option" where
  "as_send (Is_send p) = Some p"
| "as_send _ = None"

fun as_token :: "wallet_answer \<Rightarrow> (string \<times> cashu_proof list) option" where
  "as_token (Is_token t ps) = Some (t, ps)"
| "as_token _ = None"

fun as_swap :: "wallet_answer \<Rightarrow> swap_preview option" where
  "as_swap (Is_swap v) = Some v"
| "as_swap _ = None"

fun as_proofs :: "wallet_answer \<Rightarrow> cashu_proof list option" where
  "as_proofs (Is_proofs ps) = Some ps"
| "as_proofs _ = None"

fun as_state :: "wallet_answer \<Rightarrow> spend_state option" where
  "as_state (Is_state st) = Some st"
| "as_state _ = None"

fun as_mint_quote :: "wallet_answer \<Rightarrow> mint_quote option" where
  "as_mint_quote (Is_mint_quote q) = Some q"
| "as_mint_quote _ = None"

fun as_mint :: "wallet_answer \<Rightarrow> prepared_mint option" where
  "as_mint (Is_mint p) = Some p"
| "as_mint _ = None"

fun as_melt_quote :: "wallet_answer \<Rightarrow> melt_quote option" where
  "as_melt_quote (Is_melt_quote q) = Some q"
| "as_melt_quote _ = None"

fun as_melt :: "wallet_answer \<Rightarrow> prepared_melt option" where
  "as_melt (Is_melt p) = Some p"
| "as_melt _ = None"

fun as_execution :: "wallet_answer \<Rightarrow> melt_execution option" where
  "as_execution (Is_execution x) = Some x"
| "as_execution _ = None"

subsection \<open>The session and the view\<close>

record wallet_env =
  we_platform :: platform
  we_id :: "string list \<Rightarrow> nat \<Rightarrow> string"
  we_inspect :: "string \<Rightarrow> string \<Rightarrow> failure + inspected_token"
  we_encode :: "string \<Rightarrow> string \<Rightarrow> cashu_proof list \<Rightarrow> failure + string"
  we_change :: "json \<Rightarrow> melt_quote \<Rightarrow> failure + cashu_proof list"

record wallet_session =
  se_store :: local_storage
  se_memory :: wallet_document
  se_inflight :: "string set"
  se_toast :: "string option"
  se_draws :: nat
  se_now :: int
  se_room :: "string \<Rightarrow> string \<Rightarrow> bool"

record wallet_view =
  vw_mintUrl :: string
  vw_wallet :: "string option"

type_synonym 'a handler = "(wallet_session, wallet_call, wallet_answer, 'a) async"
type_synonym 'a stretch = "(wallet_session, failure, 'a) effect"

definition describe :: "failure \<Rightarrow> string" where
  "describe e = (case failure_text e of Some t \<Rightarrow> t | None \<Rightarrow> ''[object Object]'')"

definition safeHost :: "url_parser \<Rightarrow> string \<Rightarrow> string" where
  "safeHost U v = (case U v of Some u \<Rightarrow> host u | None \<Rightarrow> v)"

text \<open>A member that is a text, for the members the loader checks or the handler has written itself.\<close>

definition text_at :: "string \<Rightarrow> json \<Rightarrow> string" where
  "text_at k v = (case field v k of JStr s \<Rightarrow> s | _ \<Rightarrow> [])"

definition truthy_at :: "string \<Rightarrow> json \<Rightarrow> bool" where
  "truthy_at k v = js_truthy (field v k)"

definition number_text :: "number \<Rightarrow> string" where
  "number_text a = (case a of None \<Rightarrow> ''NaN'' | Some i \<Rightarrow> int_text i)"

text \<open>\<open>v?.length\<close> as a condition.\<close>

fun has_items :: "json \<Rightarrow> bool" where
  "has_items (JArr vs) = (vs \<noteq> [])"
| "has_items (JStr s) = (s \<noteq> [])"
| "has_items v = truthy_at ''length'' v"

definition items_at :: "string \<Rightarrow> json \<Rightarrow> json list" where
  "items_at k v = (case field v k of JArr vs \<Rightarrow> vs | _ \<Rightarrow> [])"

definition or_undef :: "string option \<Rightarrow> json" where
  "or_undef v = (case v of None \<Rightarrow> JUndef | Some s \<Rightarrow> JStr s)"

definition op_key :: "json \<Rightarrow> json" where
  "op_key v = field v ''id''"

definition replaceOperation :: "json list \<Rightarrow> json \<Rightarrow> json list" where
  "replaceOperation = upsert op_key"

definition proofIdentity :: "cashu_proof \<Rightarrow> json" where
  "proofIdentity p = JArr [field p ''id'', field p ''secret'', number_json (proof_units p)]"

definition walletFingerprint :: "platform \<Rightarrow> cashu_proof list \<Rightarrow> string" where
  "walletFingerprint P ps =
     json_stringify P (JArr (sort_key (\<lambda>v. collation P (json_stringify P v)) (map proofIdentity ps)))"

definition assertSingleUseRequestAvailable :: "decoded_request \<Rightarrow> json list \<Rightarrow> failure + unit" where
  "assertSingleUseRequestAvailable r ops =
     guardR (\<not> dr_singleUse r \<or> \<not> truthy_text (dr_id r) \<or>
        \<not> list_ex (\<lambda>v. field v ''kind'' = JStr ''send'' \<and> field v ''requestId'' = or_undef (dr_id r) \<and>
            field v ''state'' \<noteq> JStr ''reclaimed'') ops)
       (Failure ''This single-use request already has a payment operation. Open Activity to check or recover it.'')"

text \<open>\<open>asMintQuote\<close>, \<open>storeMeltQuote\<close> and \<open>asMeltQuote\<close>.\<close>

definition quote_of_add :: "json \<Rightarrow> mint_quote \<Rightarrow> mint_quote" where
  "quote_of_add v checked =
     checked\<lparr>mtq_quote := text_at ''quoteId'' v, mtq_request := text_at ''invoice'' v,
       mtq_amount := units (field v ''amount''), mtq_unit := text_at ''unit'' v\<rparr>"

definition melt_quote_json :: "int \<Rightarrow> melt_quote \<Rightarrow> json" where
  "melt_quote_json now q = JObj
     [(''quote'', JStr (mlq_quote q)), (''amount'', number_json (mlq_amount q)),
      (''feeReserve'', number_json (mlq_fee_reserve q)), (''unit'', JStr (mlq_unit q)),
      (''state'', JStr (quote_state_text (mlq_state q))),
      (''expiry'', JInt (case mlq_expiry q of None \<Rightarrow> now div 1000 + 3600 | Some t \<Rightarrow> t)),
      (''request'', JStr (mlq_request q))]"

definition melt_quote_of :: "json \<Rightarrow> melt_quote \<Rightarrow> melt_quote" where
  "melt_quote_of stored checked =
     checked\<lparr>mlq_quote := text_at ''quote'' stored, mlq_amount := units (field stored ''amount''),
       mlq_fee_reserve := units (field stored ''feeReserve''), mlq_unit := text_at ''unit'' stored,
       mlq_expiry := (case mlq_expiry checked of
          Some t \<Rightarrow> Some t
        | None \<Rightarrow> (case field stored ''expiry'' of JInt t \<Rightarrow> Some t | _ \<Rightarrow> None)),
       mlq_request := text_at ''request'' stored\<rparr>"

subsection \<open>Committing\<close>

definition commitSnapshot :: "wallet_env \<Rightarrow> wallet_view \<Rightarrow> wallet_document \<Rightarrow> unit stretch" where
  "commitSnapshot E V next s =
     (case saveWalletSnapshot (we_platform E) (se_room s) (vw_mintUrl V) next (se_store s) of
        (Inl e, store) \<Rightarrow> (Inl e, s\<lparr>se_store := store\<rparr>)
      | (Inr _, store) \<Rightarrow> (Inr (), s\<lparr>se_store := store, se_memory := next\<rparr>))"

text \<open>\<open>added\<close>: the proofs put behind the current ones.\<close>

definition with_operation :: "json \<Rightarrow> cashu_proof list option \<Rightarrow> bool \<Rightarrow> wallet_document \<Rightarrow> wallet_document" where
  "with_operation v proofs clear d =
     d\<lparr>wd_proofs := (case proofs of None \<Rightarrow> wd_proofs d | Some ps \<Rightarrow> ps),
       wd_operations := replaceOperation (wd_operations d) v,
       wd_openRequest :=
         (if clear \<and> field v ''kind'' = JStr ''receive'' \<and>
             field v ''requestId'' = (case wd_openRequest d of None \<Rightarrow> JUndef | Some r \<Rightarrow> field r ''id'')
          then None else wd_openRequest d)\<rparr>"

definition persistOperation ::
  "wallet_env \<Rightarrow> wallet_view \<Rightarrow> json \<Rightarrow> cashu_proof list option \<Rightarrow> bool \<Rightarrow> json stretch" where
  "persistOperation E V v proofs clear =
     bindM (readM se_memory) (\<lambda>current.
     bindM (commitSnapshot E V (with_operation v proofs clear current)) (\<lambda>_. returnM v))"

definition saveCurrent :: "wallet_env \<Rightarrow> wallet_view \<Rightarrow> unit stretch" where
  "saveCurrent E V s =
     (case saveWalletSnapshot (we_platform E) (se_room s) (vw_mintUrl V) (se_memory s) (se_store s) of
        (r, store) \<Rightarrow> (r, s\<lparr>se_store := store\<rparr>))"

text \<open>\<open>{...operation, state, updatedAt: Date.now(), ...}\<close>, and the commit of it with the proofs in \<open>added\<close>.\<close>

definition moved :: "json \<Rightarrow> string \<Rightarrow> fields \<Rightarrow> wallet_session \<Rightarrow> json" where
  "moved v state fs s = spread v ([(''state'', JStr state), (''updatedAt'', JInt (se_now s))] @ fs)"

definition advance ::
  "wallet_env \<Rightarrow> wallet_view \<Rightarrow> json \<Rightarrow> string \<Rightarrow> fields \<Rightarrow> cashu_proof list option \<Rightarrow> bool \<Rightarrow> json stretch" where
  "advance E V v state fs added clear =
     bindM (readM (\<lambda>s. (moved v state fs s, map_option (\<lambda>ps. wd_proofs (se_memory s) @ ps) added))) (\<lambda>(v', proofs).
     persistOperation E V v' proofs clear)"

definition toast :: "string \<Rightarrow> unit stretch" where
  "toast t s = (Inr (), s\<lparr>se_toast := Some t\<rparr>)"

definition createOperationId :: "wallet_env \<Rightarrow> string stretch" where
  "createOperationId E s =
     (Inr (we_id E (map (text_at ''id'') (wd_operations (se_memory s))) (se_draws s)), s\<lparr>se_draws := Suc (se_draws s)\<rparr>)"

definition new_operation :: "wallet_view \<Rightarrow> string \<Rightarrow> string \<Rightarrow> string \<Rightarrow> number \<Rightarrow> int \<Rightarrow> string \<Rightarrow> fields \<Rightarrow> json" where
  "new_operation V ident kind state amount now unit rest = JObj
     ([(''id'', JStr ident), (''kind'', JStr kind), (''state'', JStr state), (''amount'', number_json amount),
       (''createdAt'', JInt now), (''updatedAt'', JInt now), (''mintUrl'', JStr (vw_mintUrl V)), (''unit'', JStr unit)] @ rest)"

definition unreachable :: failure where
  "unreachable = Failure ''The mint is not reachable.''"

definition runLocked :: "string \<Rightarrow> 'a handler \<Rightarrow> 'a option handler" where
  "runLocked ident p s =
     (if ident \<in> se_inflight s then Done s (Inr None)
      else finallyA (bindA p (\<lambda>x. returnA (Some x))) (\<lambda>t. t\<lparr>se_inflight := se_inflight t - {ident}\<rparr>)
             (s\<lparr>se_inflight := insert ident (se_inflight s)\<rparr>))"

end
