(* ===== verification/Wallet_Handlers.thy ===== *)
theory Wallet_Handlers
  imports Wallet_App
begin

section \<open>The handlers of the wallet's application\<close>

text \<open>
  The callbacks of \<open>App\<close> in \<open>wallet/src/App.tsx\<close>. A local variable that a \<open>catch\<close> block reads, like
  \<open>latest\<close>, is the argument of the handler of that stretch of the \<open>try\<close> block. The texts are the code's.
\<close>

subsection \<open>Paying\<close>

record outgoing_preparation =
  og_request :: string
  og_prepared :: prepared_send
  og_balance :: number
  og_debit :: number
  og_fee :: number
  og_fingerprint :: string

fun send_debit :: "prepared_send \<Rightarrow> number" where
  "send_debit (Offline_send keep send debit fee) = debit"
| "send_debit (Swap_send swap debit fee) = debit"

fun send_fee :: "prepared_send \<Rightarrow> number" where
  "send_fee (Offline_send keep send debit fee) = fee"
| "send_fee (Swap_send swap debit fee) = fee"

text \<open>The checks that both \<open>prepareOutgoing\<close> and \<open>createOutgoing\<close> make, with the proofs they read.\<close>

definition payable :: "wallet_env \<Rightarrow> wallet_view \<Rightarrow> string \<Rightarrow> decoded_request \<Rightarrow> cashu_proof list stretch" where
  "payable E V unit request =
     bindM (readM se_memory) (\<lambda>d.
     bindM (liftM (assertSingleUseRequestAvailable request (wd_operations d))) (\<lambda>_.
     bindM (liftM (validatePaymentRequest (new_url (we_platform E)) request (vw_mintUrl V) (to_upper unit)
       (sumProofs (wd_proofs d)))) (\<lambda>_. returnM (wd_proofs d))))"

definition wallet_prepareOutgoing :: "wallet_env \<Rightarrow> wallet_view \<Rightarrow> decoded_request \<Rightarrow> outgoing_preparation handler" where
  "wallet_prepareOutgoing E V request =
     bindA (syncA (needM (vw_wallet V) unreachable)) (\<lambda>unit.
     bindA (syncA (payable E V unit request)) (\<lambda>proofs.
     bindA (askA (PrepareSend (dr_amount request) proofs) as_send) (\<lambda>prepared.
     returnA \<lparr>og_request = dr_encoded request, og_prepared = prepared, og_balance = sumProofs proofs,
       og_debit = send_debit prepared, og_fee = send_fee prepared,
       og_fingerprint = walletFingerprint (we_platform E) proofs\<rparr>)))"

definition new_send ::
  "wallet_view \<Rightarrow> string \<Rightarrow> string \<Rightarrow> string \<Rightarrow> decoded_request \<Rightarrow> int \<Rightarrow> fields \<Rightarrow> json" where
  "new_send V unit ident state request now rest =
     new_operation V ident ''send'' state (dr_amount request) now unit
       ([(''note'', JStr (dr_description request)), (''requestId'', or_undef (dr_id request))] @ rest)"

definition completeOutgoing :: "wallet_env \<Rightarrow> wallet_view \<Rightarrow> swap_preview \<Rightarrow> json \<Rightarrow> json handler" where
  "completeOutgoing E V swap preparing =
     catchA
       (bindA (syncA (saveCurrent E V)) (\<lambda>_.
        bindA (askA (CompletePreparedSend (swap_json swap)) as_token) (\<lambda>(token, change).
        syncA (advance E V preparing ''awaiting_acceptance'' [(''token'', JStr token), (''swap'', JUndef)]
          (Some change) False))))
       (\<lambda>reason. syncA (advance E V preparing ''recovery_required''
          [(''error'', JStr (''Token preparation is stored for retry. '' @ describe reason))] None False))"

definition wallet_createOutgoing ::
  "wallet_env \<Rightarrow> wallet_view \<Rightarrow> decoded_request \<Rightarrow> outgoing_preparation \<Rightarrow> json handler" where
  "wallet_createOutgoing E V request preparation =
     bindA (syncA (needM (vw_wallet V) unreachable)) (\<lambda>unit.
     bindA (syncA (payable E V unit request)) (\<lambda>proofs.
     bindA (syncA (guardM
       (og_request preparation = dr_encoded request \<and>
        og_fingerprint preparation = walletFingerprint (we_platform E) proofs)
       (Failure ''The wallet balance changed. Review the recalculated amount before paying.''))) (\<lambda>_.
     bindA (syncA (saveCurrent E V)) (\<lambda>_.
     bindA (syncA (bindM (readM se_now) (\<lambda>now. bindM (createOperationId E) (\<lambda>ident. returnM (now, ident))))) (\<lambda>(now, ident).
     case og_prepared preparation of
       Offline_send keep send debit fee \<Rightarrow>
         bindA (syncA (liftM (we_encode E (vw_mintUrl V) unit send))) (\<lambda>token.
         syncA (persistOperation E V
           (new_send V unit ident ''awaiting_acceptance'' request now
             [(''token'', JStr token), (''fee'', number_json fee)]) (Some keep) False))
     | Swap_send swap debit fee \<Rightarrow>
         bindA (syncA (persistOperation E V
           (new_send V unit ident ''preparing'' request now
             [(''swap'', swap_json swap), (''fee'', number_json fee)]) (Some (list_or_nil (sw_unselected swap))) False))
         (completeOutgoing E V swap))))))"

subsection \<open>Receiving\<close>

definition completeReceive :: "wallet_env \<Rightarrow> wallet_view \<Rightarrow> string \<Rightarrow> json \<Rightarrow> json handler" where
  "completeReceive E V unit latest =
     bindA (syncA (guardM (truthy_at ''swap'' latest) (Failure ''Prepared receive recovery data is unavailable.''))) (\<lambda>_.
     bindA (syncA (saveCurrent E V)) (\<lambda>_.
     bindA (askA (CompletePreparedReceive (field latest ''swap'')) as_proofs) (\<lambda>received.
     bindA (syncA (advance E V latest ''settled''
       [(''token'', JUndef), (''swap'', JUndef), (''error'', JUndef)] (Some received) True)) (\<lambda>settled.
     bindA (syncA (toast (nat_text (length received) @ '' fresh '' @ to_upper unit @ '' proofs stored''))) (\<lambda>_.
     returnA settled)))))"

definition receiveCaught :: "wallet_env \<Rightarrow> wallet_view \<Rightarrow> json \<Rightarrow> failure \<Rightarrow> json handler" where
  "receiveCaught E V latest reason =
     bindA
       (if \<not> truthy_at ''swap'' latest \<and> truthy_at ''token'' latest
        then catchA
          (bindA (askA (CheckTokenState (text_at ''token'' latest)) as_state) (\<lambda>st.
             returnA (if st = Spent then ''failed'' else ''recoverable'')))
          (\<lambda>_. returnA ''recoverable'')
        else returnA ''recoverable'')
       (\<lambda>state. syncA (advance E V latest state [(''error'', JStr (describe reason))] None False))"

text \<open>The part of \<open>settleReceive\<close> between the states \<open>checking\<close> and \<open>securing\<close>: \<open>Inl\<close> where it returns.\<close>

definition checkReceive :: "wallet_env \<Rightarrow> wallet_view \<Rightarrow> string \<Rightarrow> json \<Rightarrow> (json + json) handler" where
  "checkReceive E V unit checking =
     (let failed = (\<lambda>state fs. bindA (syncA (advance E V checking state fs None False)) (\<lambda>v. returnA (Inl v)));
          token = text_at ''token'' checking
      in
      tryA (askA (PrepareReceive token) as_swap)
        (\<lambda>reason. failed ''failed'' [(''error'', JStr (''Token validation failed. '' @ describe reason))])
        (\<lambda>swap.
           if field checking ''requestedAmount'' \<noteq> JUndef \<and> number_json (sw_amount swap) \<noteq> field checking ''requestedAmount''
           then failed ''failed'' [(''amount'', number_json (sw_amount swap)),
             (''error'', JStr (''The token settles to '' @ to_upper unit @ '' '' @ number_text (sw_amount swap) @
               '' units, but the open request requires '' @ number_text (units (field checking ''requestedAmount'')) @
               ''. It was not claimed.''))]
           else
             bindA (askA (CheckTokenState token) as_state) (\<lambda>st.
             if st = Spent then failed ''failed''
               [(''error'', JStr ''These bearer proofs were already spent. No value was added to this wallet.'')]
             else if st = Mixed then failed ''failed''
               [(''error'', JStr ''The token contains conflicting proof states. It cannot be settled as one payment.'')]
             else if st = Pending_spend then failed ''recoverable''
               [(''error'', JStr ''These proofs are pending at the mint. The token is stored and will be checked again.'')]
             else bindA (syncA (readM (moved checking ''securing''
               [(''amount'', number_json (sw_amount swap)), (''swap'', swap_json swap)]))) (\<lambda>v. returnA (Inr v)))))"

definition settleReceive :: "wallet_env \<Rightarrow> wallet_view \<Rightarrow> json \<Rightarrow> json handler" where
  "settleReceive E V operation =
     bindA (syncA (needM (vw_wallet V) unreachable)) (\<lambda>unit.
     if truthy_at ''swap'' operation
     then catchA (completeReceive E V unit operation) (receiveCaught E V operation)
     else
       tryA
         (syncA (bindM (guardM (truthy_at ''token'' operation) (Failure ''The stored token is not available for recovery.'')) (\<lambda>_.
            advance E V operation ''checking'' [(''error'', JUndef)] None False)))
         (receiveCaught E V operation)
         (\<lambda>checking.
            tryA (checkReceive E V unit checking) (receiveCaught E V checking)
              (\<lambda>r. case r of
                 Inl failed \<Rightarrow> returnA failed
               | Inr securing \<Rightarrow>
                   catchA
                     (bindA (syncA (persistOperation E V securing None False)) (\<lambda>_. completeReceive E V unit securing))
                     (receiveCaught E V securing))))"

definition receiveToken :: "wallet_env \<Rightarrow> wallet_view \<Rightarrow> string \<Rightarrow> string \<Rightarrow> json handler" where
  "receiveToken E V token note =
     bindA (syncA (
       bindM (needM (vw_wallet V) unreachable) (\<lambda>unit.
       bindM (liftM (we_inspect E unit token)) (\<lambda>inspected.
       bindM (liftM (sameMint (new_url (we_platform E)) (it_mint inspected) (vw_mintUrl V))) (\<lambda>same.
       bindM (guardM same (Failure (''This token was issued by '' @
         safeHost (new_url (we_platform E)) (it_mint inspected) @ '', not the active mint.''))) (\<lambda>_.
       bindM (guardM (it_unit inspected = to_lower unit) (Failure (''This token is denominated in '' @
         to_upper (it_unit inspected) @ '', not '' @ to_upper unit @ ''.''))) (\<lambda>_.
       bindM (saveCurrent E V) (\<lambda>_.
       bindM (readM se_now) (\<lambda>now.
       bindM (readM (\<lambda>s. wd_openRequest (se_memory s))) (\<lambda>request.
       bindM (createOperationId E) (\<lambda>ident.
       persistOperation E V
         (new_operation V ident ''receive'' ''detected'' (Some (it_amount inspected)) now unit
           [(''note'', JStr note),
            (''requestId'', case request of None \<Rightarrow> JUndef | Some r \<Rightarrow> field r ''id''),
            (''requestedAmount'', case request of None \<Rightarrow> JUndef | Some r \<Rightarrow> field r ''amount''),
            (''token'', JStr (trim token))]) None False)))))))))))
       (\<lambda>operation.
        bindA (runLocked (text_at ''id'' operation) (settleReceive E V operation)) (\<lambda>r.
        returnA (case r of None \<Rightarrow> operation | Some v \<Rightarrow> v)))"

definition discardStored :: "wallet_env \<Rightarrow> wallet_view \<Rightarrow> json \<Rightarrow> json stretch" where
  "discardStored E V operation =
     bindM (readM (\<lambda>s. find (\<lambda>v. op_key v = op_key operation) (wd_operations (se_memory s)))) (\<lambda>latest.
     bindM (needM
       (case latest of None \<Rightarrow> None
        | Some v \<Rightarrow> if field v ''kind'' = JStr ''receive'' \<and> truthy_at ''token'' v then Some v else None)
       (Failure ''The stored incoming token is no longer available.'')) (\<lambda>v.
     bindM (guardM (\<not> truthy_at ''swap'' v)
       (Failure ''Recovery has already started. Keep the stored outputs until the mint returns a definitive result.'')) (\<lambda>_.
     advance E V v ''failed''
       [(''token'', JUndef),
        (''error'', JStr ''The bearer token was removed from this device before settlement. No value was added to the balance.'')]
       None False)))"

definition discardIncomingToken :: "wallet_env \<Rightarrow> wallet_view \<Rightarrow> json \<Rightarrow> unit handler" where
  "discardIncomingToken E V operation =
     bindA (runLocked (text_at ''id'' operation) (syncA (discardStored E V operation))) (\<lambda>discarded.
     syncA (guardM (discarded \<noteq> None)
       (Failure ''This operation is being checked. Try removal again after the check finishes.'')))"

subsection \<open>Adding cash\<close>

definition wallet_requestAdd :: "wallet_env \<Rightarrow> wallet_view \<Rightarrow> int \<Rightarrow> json handler" where
  "wallet_requestAdd E V amount =
     bindA (syncA (needM (vw_wallet V) unreachable)) (\<lambda>unit.
     bindA (askA (RequestMint amount) as_mint_quote) (\<lambda>quote.
     syncA (
       bindM (readM se_now) (\<lambda>now.
       bindM (createOperationId E) (\<lambda>ident.
       persistOperation E V
         (new_operation V ident ''add'' ''awaiting_payment'' (Some amount) now unit
           [(''quoteId'', JStr (mtq_quote quote)), (''invoice'', JStr (mtq_request quote)),
            (''expiry'', case mtq_expiry quote of None \<Rightarrow> JUndef | Some t \<Rightarrow> JInt t)]) None False)))))"

definition addCaught :: "wallet_env \<Rightarrow> wallet_view \<Rightarrow> json \<Rightarrow> failure \<Rightarrow> unit handler" where
  "addCaught E V latest reason =
     bindA (syncA (advance E V latest ''recoverable'' [(''error'', JStr (describe reason))] None False)) (\<lambda>_.
     throwA reason)"

definition add_expired :: "json \<Rightarrow> int \<Rightarrow> bool" where
  "add_expired v now = (case field v ''expiry'' of JInt t \<Rightarrow> t \<noteq> 0 \<and> js_mul t 1000 < now | _ \<Rightarrow> False)"

definition expireAdd :: "wallet_env \<Rightarrow> wallet_view \<Rightarrow> json \<Rightarrow> unit handler" where
  "expireAdd E V operation =
     bindA (syncA (readM (\<lambda>s. add_expired operation (se_now s)))) (\<lambda>expired.
     if expired then
       bindA (syncA (advance E V operation ''expired''
         [(''error'', JStr ''The Fiber invoice expired before payment was observed.'')] None False)) (\<lambda>_. returnA ())
     else returnA ())"

definition prepared_of_add :: "json \<Rightarrow> json" where
  "prepared_of_add v = JObj
     [(''outputData'', field v ''outputData''), (''keysetId'', field v ''keysetId''),
      (''legacySignature'', field v ''legacySignature''), (''payloadSignature'', field v ''payloadSignature'')]"

definition issueAdd :: "wallet_env \<Rightarrow> wallet_view \<Rightarrow> string \<Rightarrow> mint_quote \<Rightarrow> json \<Rightarrow> unit handler" where
  "issueAdd E V unit checked issuing =
     bindA (syncA (bindM
       (guardM (truthy_at ''outputData'' issuing \<and> truthy_at ''keysetId'' issuing)
         (Failure ''Prepared mint recovery data was not available after persistence.'')) (\<lambda>_. saveCurrent E V))) (\<lambda>_.
     bindA (askA (CompleteMint (quote_of_add issuing checked) (prepared_of_add issuing)) as_proofs) (\<lambda>proofs.
     bindA (syncA (advance E V issuing ''settled''
       [(''outputData'', JUndef), (''keysetId'', JUndef), (''legacySignature'', JUndef), (''payloadSignature'', JUndef),
        (''error'', JUndef)] (Some proofs) False)) (\<lambda>_.
     syncA (toast (to_upper unit @ '' ecash issued and stored'')))))"

definition payAdd :: "wallet_env \<Rightarrow> wallet_view \<Rightarrow> string \<Rightarrow> mint_quote \<Rightarrow> json \<Rightarrow> unit handler" where
  "payAdd E V unit checked issuing =
     (let finish = (\<lambda>v. catchA (issueAdd E V unit checked v) (addCaught E V v)) in
      if truthy_at ''outputData'' issuing \<and> truthy_at ''keysetId'' issuing then finish issuing
      else
        tryA
          (bindA (askA (PrepareMint (quote_of_add issuing checked)) as_mint) (\<lambda>prepared.
           syncA (advance E V issuing ''issuing''
             [(''outputData'', JArr (pn_outputs prepared)), (''keysetId'', JStr (pn_keysetId prepared)),
              (''legacySignature'', or_undef (pn_legacySignature prepared)),
              (''payloadSignature'', or_undef (pn_payloadSignature prepared))] None False)))
          (addCaught E V issuing) finish)"

text \<open>The function that \<open>refreshAdd\<close> runs under the lock; so for the other refreshes below.\<close>

definition observeAdd :: "wallet_env \<Rightarrow> wallet_view \<Rightarrow> string \<Rightarrow> json \<Rightarrow> unit handler" where
  "observeAdd E V unit operation =
     tryA (askA (CheckMintQuote (text_at ''quoteId'' operation)) as_mint_quote) (addCaught E V operation)
       (\<lambda>checked.
          if \<not> mintQuoteIsPaid checked then catchA (expireAdd E V operation) (addCaught E V operation)
          else
            tryA (syncA (advance E V operation ''payment_observed'' [(''error'', JUndef)] None False))
              (addCaught E V operation) (payAdd E V unit checked))"

definition wallet_refreshAdd :: "wallet_env \<Rightarrow> wallet_view \<Rightarrow> json \<Rightarrow> unit handler" where
  "wallet_refreshAdd E V operation =
     bindA (syncA (needM (vw_wallet V) unreachable)) (\<lambda>unit.
     awaited (runLocked (text_at ''id'' operation) (observeAdd E V unit operation)))"

subsection \<open>Cashing out\<close>

definition wallet_quoteCashOut :: "wallet_view \<Rightarrow> string \<Rightarrow> melt_quote handler" where
  "wallet_quoteCashOut V invoice =
     bindA (syncA (needM (vw_wallet V) unreachable)) (\<lambda>_. askA (RequestMelt invoice) as_melt_quote)"

record cash_out_preparation =
  cp_quote :: melt_quote
  cp_prepared :: prepared_melt
  cp_balance :: number
  cp_maximumDebit :: number
  cp_fingerprint :: string

definition wallet_prepareCashOut :: "wallet_env \<Rightarrow> wallet_view \<Rightarrow> melt_quote \<Rightarrow> cash_out_preparation handler" where
  "wallet_prepareCashOut E V quote =
     bindA (syncA (needM (vw_wallet V) unreachable)) (\<lambda>_.
     bindA (syncA (readM (\<lambda>s. wd_proofs (se_memory s)))) (\<lambda>proofs.
     bindA (askA (PrepareMelt quote proofs) as_melt) (\<lambda>prepared.
     returnA \<lparr>cp_quote = quote, cp_prepared = prepared, cp_balance = sumProofs proofs,
       cp_maximumDebit = num_add (num_add (mlq_amount quote) (mlq_fee_reserve quote)) (pm_inputFee prepared),
       cp_fingerprint = walletFingerprint (we_platform E) proofs\<rparr>)))"

definition quote_state_of :: "json \<Rightarrow> quote_state \<Rightarrow> json" where
  "quote_state_of v state = spread (field v ''quote'') [(''state'', JStr (quote_state_text state))]"

definition out_erased :: fields where
  "out_erased = [(''reservedProofs'', JUndef), (''outputData'', JUndef), (''keysetId'', JUndef)]"

definition outCaught :: "wallet_env \<Rightarrow> wallet_view \<Rightarrow> json \<Rightarrow> failure \<Rightarrow> unit handler" where
  "outCaught E V latest reason =
     bindA (syncA (advance E V latest ''unknown'' [(''error'', JStr (describe reason))] None False)) (\<lambda>_.
     throwA reason)"

definition paidOut :: "wallet_env \<Rightarrow> wallet_view \<Rightarrow> melt_quote \<Rightarrow> json \<Rightarrow> unit handler" where
  "paidOut E V checked latest =
     (let outputs = field latest ''outputData''; returned = (case mlq_change checked of Some (_ # _) \<Rightarrow> True | _ \<Rightarrow> False) in
      syncA (
        bindM (guardM (\<not> (returned \<and> \<not> has_items outputs))
          (Failure ''The mint returned change, but its stored recovery outputs are missing.'')) (\<lambda>_.
        bindM (liftM (if has_items outputs then we_change E outputs (melt_quote_of (field latest ''quote'') checked)
                      else Inr [])) (\<lambda>change.
        bindM (advance E V latest ''paid''
          ([(''quote'', quote_state_of latest PAID)] @ out_erased @ [(''recoverySwap'', JUndef), (''error'', JUndef)])
          (Some change) False) (\<lambda>_.
        toast ''Fiber invoice reported paid'')))))"

definition pendingOut :: "wallet_env \<Rightarrow> wallet_view \<Rightarrow> json \<Rightarrow> unit handler" where
  "pendingOut E V latest =
     bindA (syncA (advance E V latest ''pending''
       [(''quote'', quote_state_of latest PENDING), (''error'', JUndef)] None False)) (\<lambda>_. returnA ())"

fun spend_state_text :: "spend_state \<Rightarrow> string" where
  "spend_state_text Unspent = ''unspent''"
| "spend_state_text Pending_spend = ''pending''"
| "spend_state_text Spent = ''spent''"
| "spend_state_text Mixed = ''mixed''"

definition recoverOut :: "wallet_env \<Rightarrow> wallet_view \<Rightarrow> json \<Rightarrow> unit handler" where
  "recoverOut E V latest =
     bindA (syncA (bindM (guardM (truthy_at ''recoverySwap'' latest)
       (Failure ''Prepared cash-out recovery data is unavailable.'')) (\<lambda>_. saveCurrent E V))) (\<lambda>_.
     bindA (askA (CompletePreparedReceive (field latest ''recoverySwap'')) as_proofs) (\<lambda>recovered.
     bindA (syncA (advance E V latest ''failed''
       ([(''quote'', quote_state_of latest UNPAID)] @ out_erased @
        [(''recoverySwap'', JUndef),
         (''error'', JStr ''The mint confirmed the payment was unpaid. Reserved value was recovered.'')])
       (Some recovered) False)) (\<lambda>_. returnA ())))"

text \<open>The preparation of the recovery: \<open>None\<close> where the handler returns.\<close>

definition prepareRecovery :: "wallet_env \<Rightarrow> wallet_view \<Rightarrow> string \<Rightarrow> json \<Rightarrow> json option handler" where
  "prepareRecovery E V unit latest =
     (let reserved = items_at ''reservedProofs'' latest in
      bindA (askA (CheckProofsState reserved) as_state) (\<lambda>st.
      if st \<noteq> Unspent then
        bindA (syncA (advance E V latest ''unknown''
          [(''error'', JStr (''The quote is unpaid, but its reserved proofs are '' @ spend_state_text st @ ''.''))]
          None False)) (\<lambda>_. returnA None)
      else
        bindA (syncA (liftM (we_encode E (vw_mintUrl V) unit reserved))) (\<lambda>token.
        bindA (askA (PrepareReceive token) as_swap) (\<lambda>swap.
        syncA (readM (\<lambda>s. Some (moved latest ''unknown''
          [(''recoverySwap'', swap_json swap),
           (''error'', JStr ''The mint confirmed the payment was unpaid. Recovering the reserved proofs.'')] s)))))))"

definition unpaidOut :: "wallet_env \<Rightarrow> wallet_view \<Rightarrow> string \<Rightarrow> json \<Rightarrow> unit handler" where
  "unpaidOut E V unit operation =
     (if \<not> has_items (field operation ''reservedProofs'')
      then outCaught E V operation (Failure ''The payment is unpaid, but no reserved proofs are available for recovery.'')
      else if truthy_at ''recoverySwap'' operation
      then catchA (recoverOut E V operation) (outCaught E V operation)
      else
        tryA (prepareRecovery E V unit operation) (outCaught E V operation)
          (\<lambda>r. case r of
             None \<Rightarrow> returnA ()
           | Some latest \<Rightarrow>
               catchA (bindA (syncA (persistOperation E V latest None False)) (\<lambda>_. recoverOut E V latest))
                 (outCaught E V latest)))"

definition observeCashOut :: "wallet_env \<Rightarrow> wallet_view \<Rightarrow> string \<Rightarrow> json \<Rightarrow> unit handler" where
  "observeCashOut E V unit operation =
     tryA (askA (CheckMeltQuote (text_at ''quote'' (field operation ''quote''))) as_melt_quote) (outCaught E V operation)
       (\<lambda>checked.
          if mlq_state checked = PAID then catchA (paidOut E V checked operation) (outCaught E V operation)
          else if mlq_state checked = PENDING then catchA (pendingOut E V operation) (outCaught E V operation)
          else unpaidOut E V unit operation)"

definition wallet_refreshCashOut :: "wallet_env \<Rightarrow> wallet_view \<Rightarrow> json \<Rightarrow> unit handler" where
  "wallet_refreshCashOut E V operation =
     bindA (syncA (needM (vw_wallet V) unreachable)) (\<lambda>unit.
     awaited (runLocked (text_at ''id'' operation) (observeCashOut E V unit operation)))"

definition executeCashOut :: "wallet_env \<Rightarrow> wallet_view \<Rightarrow> cash_out_preparation \<Rightarrow> json \<Rightarrow> json handler" where
  "executeCashOut E V preparation operation =
     catchA
       (bindA (askA (ExecuteMelt (cp_quote preparation) (cp_prepared preparation)) as_execution) (\<lambda>result.
        if mx_state result = PAID then
          syncA (advance E V operation ''paid'' ([(''quote'', quote_state_of operation PAID)] @ out_erased)
            (Some (mx_change result)) False)
        else
          syncA (advance E V operation (if mx_state result = PENDING then ''pending'' else ''unknown'')
            [(''quote'', quote_state_of operation (mx_state result)), (''outputData'', JArr (mx_outputs result)),
             (''error'', if mx_state result = UNPAID
                then JStr ''The mint returned unpaid; check status to recover reserved value.'' else JUndef)]
            None False)))
       (\<lambda>reason. syncA (advance E V operation ''unknown'' [(''error'', JStr (describe reason))] None False))"

definition new_cash_out ::
  "wallet_view \<Rightarrow> string \<Rightarrow> string \<Rightarrow> int \<Rightarrow> cash_out_preparation \<Rightarrow> json" where
  "new_cash_out V unit ident now preparation =
     (let quote = cp_quote preparation; prepared = cp_prepared preparation in
      new_operation V ident ''cashout'' ''dispatching'' (mlq_amount quote) now unit
        [(''invoice'', JStr (mlq_request quote)), (''quote'', melt_quote_json now quote),
         (''cashuFee'', number_json (pm_inputFee prepared)), (''reservedProofs'', JArr (pm_reserved prepared)),
         (''outputData'', JArr (pm_outputs prepared)), (''keysetId'', JStr (pm_keysetId prepared))])"

definition wallet_confirmCashOut :: "wallet_env \<Rightarrow> wallet_view \<Rightarrow> cash_out_preparation \<Rightarrow> json handler" where
  "wallet_confirmCashOut E V preparation =
     bindA (syncA (
       bindM (needM (vw_wallet V) unreachable) (\<lambda>unit.
       bindM (readM (\<lambda>s. wd_proofs (se_memory s))) (\<lambda>proofs.
       bindM (guardM (cp_fingerprint preparation = walletFingerprint (we_platform E) proofs)
         (Failure ''The wallet balance changed. Review the recalculated maximum debit before cashing out.'')) (\<lambda>_.
       bindM (saveCurrent E V) (\<lambda>_.
       bindM (readM se_now) (\<lambda>now.
       bindM (createOperationId E) (\<lambda>ident.
       persistOperation E V (new_cash_out V unit ident now preparation)
         (Some (pm_keep (cp_prepared preparation))) False))))))))
     (executeCashOut E V preparation)"

subsection \<open>Sent tokens\<close>

definition sendCaught :: "wallet_env \<Rightarrow> wallet_view \<Rightarrow> json \<Rightarrow> failure \<Rightarrow> unit handler" where
  "sendCaught E V latest reason =
     bindA (syncA (advance E V latest ''recovery_required'' [(''error'', JStr (describe reason))] None False)) (\<lambda>_.
     throwA reason)"

definition send_erased :: fields where
  "send_erased = [(''token'', JUndef), (''swap'', JUndef), (''error'', JUndef)]"

definition reclaimSwap :: "wallet_env \<Rightarrow> wallet_view \<Rightarrow> json \<Rightarrow> json \<Rightarrow> unit handler" where
  "reclaimSwap E V latest swap =
     bindA (syncA (saveCurrent E V)) (\<lambda>_.
     bindA (askA (CompletePreparedReceive swap) as_proofs) (\<lambda>proofs.
     bindA (syncA (advance E V latest ''reclaimed'' send_erased (Some proofs) False)) (\<lambda>_.
     syncA (toast ''Unaccepted token reclaimed''))))"

definition resumeSend :: "wallet_env \<Rightarrow> wallet_view \<Rightarrow> json \<Rightarrow> unit handler" where
  "resumeSend E V operation =
     bindA (syncA (saveCurrent E V)) (\<lambda>_.
     bindA (askA (CompletePreparedSend (field operation ''swap'')) as_token) (\<lambda>(token, change).
     bindA (syncA (advance E V operation ''awaiting_acceptance''
       [(''token'', JStr token), (''swap'', JUndef), (''error'', JUndef)] (Some change) False)) (\<lambda>_.
     syncA (toast ''Outgoing token prepared''))))"

definition acceptedSend :: "wallet_env \<Rightarrow> wallet_view \<Rightarrow> json \<Rightarrow> unit handler" where
  "acceptedSend E V operation =
     bindA (syncA (advance E V operation ''accepted'' [(''token'', JUndef), (''error'', JUndef)] None False)) (\<lambda>_.
     returnA ())"

definition observeSend :: "wallet_env \<Rightarrow> wallet_view \<Rightarrow> json \<Rightarrow> unit handler" where
  "observeSend E V operation =
     (if truthy_at ''swap'' operation then
        catchA
          (if truthy_at ''token'' operation then reclaimSwap E V operation (field operation ''swap'')
           else resumeSend E V operation)
          (sendCaught E V operation)
      else if truthy_at ''token'' operation then
        bindA (askA (CheckTokenState (text_at ''token'' operation)) as_state) (\<lambda>st.
        if st = Spent then acceptedSend E V operation
        else if st = Mixed then
          bindA (syncA (advance E V operation ''recovery_required''
            [(''error'', JStr ''The token's proofs do not share one spend state.'')] None False)) (\<lambda>_. returnA ())
        else returnA ())
      else returnA ())"

definition wallet_refreshSend :: "wallet_env \<Rightarrow> wallet_view \<Rightarrow> json \<Rightarrow> unit handler" where
  "wallet_refreshSend E V operation =
     (if vw_wallet V = None then returnA () else
      awaited (runLocked (text_at ''id'' operation) (observeSend E V operation)))"

definition reclaimToken :: "wallet_env \<Rightarrow> wallet_view \<Rightarrow> json \<Rightarrow> unit handler" where
  "reclaimToken E V operation =
     bindA (askA (CheckTokenState (text_at ''token'' operation)) as_state) (\<lambda>st.
     if st = Spent then acceptedSend E V operation
     else if st \<noteq> Unspent then throwA (Failure ''The token is not safely reclaimable yet.'')
     else
       bindA (syncA (readM (moved operation ''reclaiming'' [(''error'', JUndef)]))) (\<lambda>reclaiming.
       tryA (askA (PrepareReceive (text_at ''token'' operation)) as_swap) (sendCaught E V reclaiming)
         (\<lambda>swap.
            let latest = spread reclaiming [(''swap'', swap_json swap)] in
            catchA
              (bindA (syncA (persistOperation E V latest None False)) (\<lambda>_.
               reclaimSwap E V latest (swap_json swap)))
              (sendCaught E V latest))))"

definition wallet_reclaimSend :: "wallet_env \<Rightarrow> wallet_view \<Rightarrow> json \<Rightarrow> unit handler" where
  "wallet_reclaimSend E V operation =
     bindA (syncA (guardM (vw_wallet V \<noteq> None \<and> truthy_at ''token'' operation)
       (Failure ''The stored bearer token is unavailable.''))) (\<lambda>_.
     awaited (runLocked (text_at ''id'' operation) (reclaimToken E V operation)))"

subsection \<open>Any operation\<close>

definition operationNeedsAttention :: "json \<Rightarrow> bool" where
  "operationNeedsAttention v =
     (if field v ''kind'' = JStr ''add''
      then text_in [''awaiting_payment'', ''payment_observed'', ''issuing'', ''recoverable''] (field v ''state'')
      else if field v ''kind'' = JStr ''send''
      then text_in [''preparing'', ''awaiting_acceptance'', ''reclaiming'', ''recovery_required''] (field v ''state'')
      else if field v ''kind'' = JStr ''receive''
      then text_in [''detected'', ''checking'', ''securing'', ''recoverable''] (field v ''state'')
      else text_in [''dispatching'', ''pending'', ''unknown''] (field v ''state''))"

definition wallet_refreshOperation :: "wallet_env \<Rightarrow> wallet_view \<Rightarrow> json \<Rightarrow> unit handler" where
  "wallet_refreshOperation E V operation =
     (if field operation ''kind'' = JStr ''add'' then wallet_refreshAdd E V operation
      else if field operation ''kind'' = JStr ''send'' then wallet_refreshSend E V operation
      else if field operation ''kind'' = JStr ''receive''
      then awaited (runLocked (text_at ''id'' operation) (settleReceive E V operation))
      else wallet_refreshCashOut E V operation)"

definition wallet_reclaimOperation :: "wallet_env \<Rightarrow> wallet_view \<Rightarrow> json \<Rightarrow> unit handler" where
  "wallet_reclaimOperation E V operation =
     bindA (syncA (guardM (field operation ''kind'' = JStr ''send'')
       (Failure ''Only an unaccepted outgoing token can be reclaimed here.''))) (\<lambda>_.
     wallet_reclaimSend E V operation)"

definition saveOpenRequest :: "wallet_env \<Rightarrow> wallet_view \<Rightarrow> json \<Rightarrow> unit stretch" where
  "saveOpenRequest E V request =
     bindM (readM se_memory) (\<lambda>current. commitSnapshot E V (current\<lparr>wd_openRequest := Some request\<rparr>))"

definition clearOpenRequest :: "wallet_env \<Rightarrow> wallet_view \<Rightarrow> unit stretch" where
  "clearOpenRequest E V =
     bindM (readM se_memory) (\<lambda>current. commitSnapshot E V (current\<lparr>wd_openRequest := None\<rparr>))"

end
