(* ===== verification/Wallet_Present.thy ===== *)
theory Wallet_Present
  imports Wallet_Handlers
begin

section \<open>What the screens show of an operation and offer for it\<close>

text \<open>
  The presentation of an operation of \<open>wallet/src/domain/operations.ts\<close>, and the actions that
  \<open>ActivityScreen.tsx\<close> offers for it. They read the stored object; the lemmas say that what the loader accepts
  is presented, that what needs attention can be refreshed, and that what is offered is not refused.
\<close>

record operation_presentation =
  pz_title :: string
  pz_stateLabel :: string
  pz_stateShort :: string
  pz_tone :: string

definition presented :: "string \<Rightarrow> string \<Rightarrow> string \<Rightarrow> string \<Rightarrow> operation_presentation" where
  "presented title label short tone =
     \<lparr>pz_title = title, pz_stateLabel = label, pz_stateShort = short, pz_tone = tone\<rparr>"

definition PRESENTATION :: "(string \<times> (string \<times> operation_presentation) list) list" where
  "PRESENTATION =
     [(''add'',
       [(''awaiting_payment'', presented ''Added cash'' ''Awaiting Fiber payment'' ''Awaiting'' ''pending''),
        (''payment_observed'', presented ''Added cash'' ''Payment observed'' ''Observed'' ''pending''),
        (''issuing'', presented ''Added cash'' ''Issuing ecash'' ''Issuing'' ''pending''),
        (''settled'', presented ''Added cash'' ''Added'' ''Added'' ''settled''),
        (''expired'', presented ''Added cash'' ''Invoice expired'' ''Expired'' ''failed''),
        (''recoverable'', presented ''Added cash'' ''Recovery required'' ''Recoverable'' ''recoverable''),
        (''failed'', presented ''Added cash'' ''Not added'' ''Failed'' ''failed'')]),
      (''send'',
       [(''preparing'', presented ''Sent payment'' ''Preparing token'' ''Preparing'' ''pending''),
        (''awaiting_acceptance'', presented ''Sent payment'' ''Awaiting acceptance'' ''Awaiting'' ''pending''),
        (''accepted'', presented ''Sent payment'' ''Accepted'' ''Accepted'' ''settled''),
        (''reclaiming'', presented ''Sent payment'' ''Reclaiming'' ''Reclaiming'' ''pending''),
        (''reclaimed'', presented ''Sent payment'' ''Reclaimed'' ''Reclaimed'' ''recoverable''),
        (''recovery_required'', presented ''Sent payment'' ''Recovery required'' ''Recoverable'' ''recoverable'')]),
      (''receive'',
       [(''detected'', presented ''Received payment'' ''Token detected'' ''Detected'' ''neutral''),
        (''checking'', presented ''Received payment'' ''Checking issuer'' ''Checking'' ''pending''),
        (''securing'', presented ''Received payment'' ''Securing payment'' ''Securing'' ''pending''),
        (''settled'', presented ''Received payment'' ''Settled'' ''Settled'' ''settled''),
        (''recoverable'', presented ''Received payment'' ''Token stored'' ''Recoverable'' ''recoverable''),
        (''failed'', presented ''Received payment'' ''Not settled'' ''Failed'' ''failed'')]),
      (''cashout'',
       [(''dispatching'', presented ''Cashed out'' ''Dispatching payment'' ''Dispatching'' ''pending''),
        (''pending'', presented ''Cashed out'' ''Pending'' ''Pending'' ''pending''),
        (''paid'', presented ''Cashed out'' ''Paid'' ''Paid'' ''settled''),
        (''failed'', presented ''Cashed out'' ''Authoritatively failed'' ''Failed'' ''failed''),
        (''unknown'', presented ''Cashed out'' ''Status unknown'' ''Unknown'' ''recoverable'')])]"

text \<open>The presentation, \<open>None\<close> for a state that the table does not have, and whether the direction is \<open>in\<close>.\<close>

definition presentOperation :: "json \<Rightarrow> operation_presentation option \<times> bool" where
  "presentOperation v =
     ((case map_of PRESENTATION (text_at ''kind'' v) of None \<Rightarrow> None | Some states \<Rightarrow> map_of states (text_at ''state'' v)),
      text_in [''add'', ''receive''] (field v ''kind''))"

definition operationHasBearerSecret :: "json \<Rightarrow> bool" where
  "operationHasBearerSecret v \<longleftrightarrow> text_in [''send'', ''receive''] (field v ''kind'') \<and> truthy_at ''token'' v"

subsection \<open>Offers\<close>

definition is_kind :: "string \<Rightarrow> json \<Rightarrow> bool" where
  "is_kind k v \<longleftrightarrow> field v ''kind'' = JStr k"

definition canRefresh :: "json \<Rightarrow> bool" where
  "canRefresh v \<longleftrightarrow>
     is_kind ''add'' v \<and> \<not> text_in [''settled'', ''failed'', ''expired''] (field v ''state'') \<or>
     is_kind ''send'' v \<and> \<not> text_in [''accepted'', ''reclaimed''] (field v ''state'') \<or>
     is_kind ''receive'' v \<and> field v ''state'' \<noteq> JStr ''settled'' \<and> field v ''state'' \<noteq> JStr ''failed'' \<or>
     is_kind ''cashout'' v \<and> \<not> text_in [''paid'', ''failed''] (field v ''state'')"

definition canReclaim :: "json \<Rightarrow> bool" where
  "canReclaim v \<longleftrightarrow> is_kind ''send'' v \<and> truthy_at ''token'' v \<and> \<not> truthy_at ''swap'' v \<and>
     text_in [''awaiting_acceptance'', ''recovery_required''] (field v ''state'')"

definition canDiscard :: "json \<Rightarrow> bool" where
  "canDiscard v \<longleftrightarrow> is_kind ''receive'' v \<and> truthy_at ''token'' v \<and> \<not> truthy_at ''swap'' v \<and>
     field v ''state'' \<noteq> JStr ''settled''"

definition operationDescription :: "json \<Rightarrow> string" where
  "operationDescription v =
     (let st = (\<lambda>s. field v ''state'' = JStr s) in
      if is_kind ''add'' v then
        (if st ''settled'' then ''The Fiber payment was observed and fresh proofs were issued into this wallet.''
         else if st ''recoverable'' then ''The quote is stored, but proof issuance did not finish. Check the same quote again.''
         else if st ''expired'' \<or> st ''failed'' then ''This quote did not add any proofs to the wallet.''
         else ''The mint quote is stored while payment and issuance complete.'')
      else if is_kind ''send'' v then
        (if st ''accepted'' then ''The recipient spent the outgoing proofs. The bearer token is no longer reusable.''
         else if st ''reclaimed'' then ''The token was still unspent and its value was swapped back into this wallet.''
         else if truthy_at ''swap'' v \<and> \<not> truthy_at ''token'' v
         then ''The selected inputs and output secrets are stored, but the outgoing bearer token has not been produced yet.''
         else if truthy_at ''swap'' v then ''The reclaim swap is stored and can be replayed without choosing new outputs.''
         else ''The bearer token is stored, but acceptance has not been proven. Keep it private or check before reclaiming.'')
      else if is_kind ''receive'' v then
        (if st ''settled'' then ''The incoming bearer token was swapped for fresh proofs and is included in the balance.''
         else if st ''failed'' then ''The incoming token did not settle and is not included in the balance.''
         else ''The incoming token is retained for recovery but is not included in the balance until a swap succeeds.'')
      else if st ''paid'' then ''The mint reports the external Fiber invoice paid. Returned change was stored with the result.''
      else if st ''failed'' then ''The mint reported failure and the reserved value was recovered into fresh proofs.''
      else ''The payment does not have a definitive result. Reserved proofs remain attached to this operation.'')"

subsection \<open>Facts\<close>

lemma text_in_iff: "text_in xs v \<longleftrightarrow> (\<exists>s \<in> set xs. v = JStr s)"
  by (auto simp: text_in_def split: json.splits)

text \<open>Whatever needs attention can be refreshed.\<close>

lemma attention_refreshes:
  assumes "text_in [''add'', ''send'', ''receive'', ''cashout''] (field v ''kind'')" "operationNeedsAttention v"
  shows "canRefresh v"
  using assms by (auto simp: text_in_iff operationNeedsAttention_def canRefresh_def is_kind_def)

text \<open>An offered reclaim passes the checks of its handler, and so does an offered removal of a stored record.\<close>

lemma reclaim_accepted:
  "canReclaim v \<Longrightarrow> wallet_reclaimOperation E V v = wallet_reclaimSend E V v"
  by (rule ext) (simp add: canReclaim_def is_kind_def wallet_reclaimOperation_def bindA_def syncA_def guardM_def)

lemma discard_accepted:
  assumes "canDiscard v" "find (\<lambda>w. op_key w = op_key v) (wd_operations (se_memory s)) = Some v"
  shows "discardStored E V v s = advance E V v ''failed''
    [(''token'', JUndef),
     (''error'', JStr ''The bearer token was removed from this device before settlement. No value was added to the balance.'')]
    None False s"
  using assms by (simp add: canDiscard_def is_kind_def discardStored_def bindM_def readM_def needM_def guardM_def)

end
