(* ===== verification/Wallet_System.thy ===== *)
theory Wallet_System
  imports Wallet_Handlers
begin

section \<open>The application as a whole\<close>

text \<open>
  \<open>App\<close> of \<open>wallet/src/App.tsx\<close>: the session, the view that new handlers are made for, the state of the
  connection, and the handlers that wait for an answer. One move is one event of the browser: the user
  starts an action, the timer or the focus of the window refreshes, an answer arrives, the user changes or
  retries the mint, the connection is made. Each move comes with the time and the room of the storage.
  The owner of a waiting handler, the identifier of its operation, and whether \<open>runLocked\<close> holds its
  identifier, are for the theorems only.
\<close>

datatype wallet_connection = Mint_connecting | Mint_online | Mint_offline | Mint_incompatible

record pending =
  pd_owner :: "string option"
  pd_locked :: bool
  pd_task :: "(wallet_session, wallet_call, wallet_answer, unit) task"

record wallet_app =
  wp_session :: wallet_session
  wp_view :: wallet_view
  wp_status :: wallet_connection
  wp_error :: "string option"
  wp_loading :: bool
  wp_pool :: "pending list"

datatype wallet_action =
    Prepare_outgoing decoded_request
  | Create_outgoing decoded_request outgoing_preparation
  | Receive_token string string
  | Request_add int
  | Quote_cash_out string
  | Prepare_cash_out melt_quote
  | Confirm_cash_out cash_out_preparation
  | Refresh_operation json
  | Reclaim_operation json
  | Discard_token json
  | Save_request json
  | Clear_request

fun handler_of :: "wallet_env \<Rightarrow> wallet_view \<Rightarrow> wallet_action \<Rightarrow> unit handler" where
  "handler_of E V (Prepare_outgoing r) = voidA (wallet_prepareOutgoing E V r)"
| "handler_of E V (Create_outgoing r p) = voidA (wallet_createOutgoing E V r p)"
| "handler_of E V (Receive_token t note) = voidA (receiveToken E V t note)"
| "handler_of E V (Request_add amount) = voidA (wallet_requestAdd E V amount)"
| "handler_of E V (Quote_cash_out invoice) = voidA (wallet_quoteCashOut V invoice)"
| "handler_of E V (Prepare_cash_out q) = voidA (wallet_prepareCashOut E V q)"
| "handler_of E V (Confirm_cash_out p) = voidA (wallet_confirmCashOut E V p)"
| "handler_of E V (Refresh_operation v) = voidA (wallet_refreshOperation E V v)"
| "handler_of E V (Reclaim_operation v) = voidA (wallet_reclaimOperation E V v)"
| "handler_of E V (Discard_token v) = voidA (discardIncomingToken E V v)"
| "handler_of E V (Save_request r) = voidA (syncA (saveOpenRequest E V r))"
| "handler_of E V Clear_request = voidA (syncA (clearOpenRequest E V))"

definition next_id :: "wallet_env \<Rightarrow> wallet_session \<Rightarrow> string" where
  "next_id E s = we_id E (map (text_at ''id'') (wd_operations (se_memory s))) (se_draws s)"

fun owner_of :: "wallet_env \<Rightarrow> wallet_session \<Rightarrow> wallet_action \<Rightarrow> string option" where
  "owner_of E s (Create_outgoing r p) = Some (next_id E s)"
| "owner_of E s (Receive_token t note) = Some (next_id E s)"
| "owner_of E s (Confirm_cash_out p) = Some (next_id E s)"
| "owner_of E s (Refresh_operation v) = Some (text_at ''id'' v)"
| "owner_of E s (Reclaim_operation v) = Some (text_at ''id'' v)"
| "owner_of E s (Discard_token v) = Some (text_at ''id'' v)"
| "owner_of E s _ = None"

fun holds_lock :: "wallet_action \<Rightarrow> bool" where
  "holds_lock (Receive_token t note) = True"
| "holds_lock (Refresh_operation v) = True"
| "holds_lock (Reclaim_operation v) = True"
| "holds_lock (Discard_token v) = True"
| "holds_lock _ = False"

subsection \<open>Moves\<close>

definition start :: "wallet_env \<Rightarrow> wallet_action \<Rightarrow> wallet_app \<Rightarrow> wallet_app" where
  "start E act a =
     (case handler_of E (wp_view a) act (wp_session a) of
        Done s r \<Rightarrow> a\<lparr>wp_session := s\<rparr>
      | Await s c k \<Rightarrow>
          a\<lparr>wp_session := s, wp_pool := wp_pool a @
             [\<lparr>pd_owner = owner_of E (wp_session a) act, pd_locked = holds_lock act, pd_task = Await s c k\<rparr>]\<rparr>)"

definition drop_nth :: "nat \<Rightarrow> 'a list \<Rightarrow> 'a list" where
  "drop_nth i xs = take i xs @ drop (Suc i) xs"

definition answer :: "nat \<Rightarrow> failure + wallet_answer \<Rightarrow> wallet_app \<Rightarrow> wallet_app" where
  "answer i r a =
     (if i < length (wp_pool a) then
        (case pd_task (wp_pool a ! i) of
           Done s0 r0 \<Rightarrow> a
         | Await s0 c k \<Rightarrow>
             if \<not> fits c r then a
             else (case k r (wp_session a) of
                     Done s r' \<Rightarrow> a\<lparr>wp_session := s, wp_pool := drop_nth i (wp_pool a)\<rparr>
                   | Await s c' k' \<Rightarrow>
                       a\<lparr>wp_session := s, wp_pool := (wp_pool a)[i := (wp_pool a ! i)\<lparr>pd_task := Await s c' k'\<rparr>]\<rparr>))
      else a)"

text \<open>The effect that runs when the mint or \<open>reloadKey\<close> changes; \<open>setWallet(null)\<close> ends the old view.\<close>

definition connect :: "wallet_env \<Rightarrow> string \<Rightarrow> wallet_app \<Rightarrow> wallet_app" where
  "connect E mintUrl a =
     (let s = wp_session a in
      case loadWalletSnapshot (we_platform E) (se_room s) mintUrl (se_store s) of (stored, store) \<Rightarrow>
        a\<lparr>wp_session := s\<lparr>se_store := store, se_memory := stored\<rparr>,
          wp_view := \<lparr>vw_mintUrl = mintUrl, vw_wallet = None\<rparr>, wp_status := Mint_connecting, wp_error := None,
          wp_loading := True\<rparr>)"

definition change_mint :: "wallet_env \<Rightarrow> string \<Rightarrow> wallet_app \<Rightarrow> wallet_app" where
  "change_mint E mintUrl a =
     (let s = wp_session a in
      case saveActiveMint (new_url (we_platform E)) (se_room s) mintUrl (se_store s) of
        (Inl e, store) \<Rightarrow> a
      | (Inr _, store) \<Rightarrow>
          (let a' = a\<lparr>wp_session := s\<lparr>se_store := store\<rparr>\<rparr> in
           if mintUrl = vw_mintUrl (wp_view a) then a' else connect E mintUrl a'))"

definition bound_to :: "string \<Rightarrow> wallet_document \<Rightarrow> wallet_document" where
  "bound_to unit d =
     d\<lparr>wd_unit := Some unit, wd_operations := filter (\<lambda>v. lower_unit v = unit) (wd_operations d),
       wd_openRequest := (case wd_openRequest d of
          None \<Rightarrow> None
        | Some r \<Rightarrow> if lower_unit r = unit then Some r else None)\<rparr>"

text \<open>
  What follows \<open>nextWallet.load()\<close>: \<open>Inr\<close> with the unit of the mint. The answer of an earlier connection
  is dropped by its flag \<open>cancelled\<close>, so only the last one is awaited.
\<close>

definition loaded :: "wallet_env \<Rightarrow> failure + string \<Rightarrow> wallet_app \<Rightarrow> wallet_app" where
  "loaded E r a =
     (let s = wp_session a; d = se_memory s;
          online = (\<lambda>unit. a\<lparr>wp_view := (wp_view a)\<lparr>vw_wallet := Some unit\<rparr>, wp_status := Mint_online, wp_loading := False\<rparr>)
      in
      if \<not> wp_loading a then a
      else (case r of
        Inl e \<Rightarrow>
          a\<lparr>wp_status := (case e of Incompatible_mint _ \<Rightarrow> Mint_incompatible | _ \<Rightarrow> Mint_offline), wp_error := Some (describe e),
            wp_loading := False\<rparr>
      | Inr unit \<Rightarrow>
          if truthy_text (wd_unit d) then
            (if wd_unit d = Some unit then online unit
             else a\<lparr>wp_status := Mint_incompatible,
               wp_error := Some (''Stored wallet value is bound to '' @ to_upper (text_or [] (wd_unit d)) @
                 '', but this mint now advertises '' @ to_upper unit @ ''. No proofs or operations were changed.''),
               wp_loading := False\<rparr>)
          else (case saveWalletSnapshot (we_platform E) (se_room s) (vw_mintUrl (wp_view a)) (bound_to unit d) (se_store s) of
            (Inl e, store) \<Rightarrow> a\<lparr>wp_status := Mint_offline, wp_error := Some (describe e), wp_loading := False\<rparr>
          | (Inr _, store) \<Rightarrow>
              (online unit)\<lparr>wp_session := s\<lparr>se_store := store, se_memory := bound_to unit d\<rparr>\<rparr>)))"

text \<open>\<open>refreshUnresolved\<close>: the list is read once, then each handler runs to its first wait.\<close>

fun start_all :: "wallet_env \<Rightarrow> json list \<Rightarrow> wallet_app \<Rightarrow> wallet_app" where
  "start_all E [] a = a"
| "start_all E (v # vs) a = start_all E vs (start E (Refresh_operation v) a)"

definition unresolved :: "wallet_app \<Rightarrow> json list" where
  "unresolved a =
     (if wp_status a = Mint_online \<and> vw_wallet (wp_view a) \<noteq> None
      then filter operationNeedsAttention (wd_operations (se_memory (wp_session a))) else [])"

datatype wallet_move =
    Start wallet_action
  | Refresh_unresolved
  | Answer nat "failure + wallet_answer"
  | Change_mint string
  | Retry_mint
  | Loaded "failure + string"

fun app_move :: "wallet_env \<Rightarrow> wallet_move \<Rightarrow> wallet_app \<Rightarrow> wallet_app" where
  "app_move E (Start act) a = start E act a"
| "app_move E Refresh_unresolved a = start_all E (unresolved a) a"
| "app_move E (Answer i r) a = answer i r a"
| "app_move E (Change_mint mintUrl) a = change_mint E mintUrl a"
| "app_move E Retry_mint a = connect E (vw_mintUrl (wp_view a)) a"
| "app_move E (Loaded r) a = loaded E r a"

definition at_moment :: "int \<Rightarrow> (string \<Rightarrow> string \<Rightarrow> bool) \<Rightarrow> wallet_app \<Rightarrow> wallet_app" where
  "at_moment now room a = a\<lparr>wp_session := (wp_session a)\<lparr>se_now := now, se_room := room\<rparr>\<rparr>"

text \<open>The first render: \<open>useState\<close> with the stored mint and its document, then the effect.\<close>

definition opened :: "wallet_env \<Rightarrow> string \<Rightarrow> wallet_session \<Rightarrow> failure + wallet_app" where
  "opened E fallback s =
     bindR (loadActiveMint (new_url (we_platform E)) fallback (se_store s)) (\<lambda>mintUrl.
     Inr (connect E mintUrl
       \<lparr>wp_session = s, wp_view = \<lparr>vw_mintUrl = mintUrl, vw_wallet = None\<rparr>, wp_status = Mint_connecting, wp_error = None,
        wp_loading = False, wp_pool = []\<rparr>))"

inductive app_step :: "wallet_env \<Rightarrow> wallet_app \<Rightarrow> wallet_app \<Rightarrow> bool" for E where
  app_stepI: "app_step E a (app_move E mv (at_moment now room a))"

subsection \<open>Orderly runs\<close>

text \<open>
  In an orderly run a handler gets the current record of its operation, it is not started while the
  handler that creates the operation still waits, and a mint is loaded only while no handler waits.
\<close>

definition creating :: "wallet_app \<Rightarrow> string set" where
  "creating a = {i. \<exists>p \<in> set (wp_pool a). pd_owner p = Some i \<and> \<not> pd_locked p}"

definition current :: "wallet_app \<Rightarrow> json \<Rightarrow> bool" where
  "current a v \<longleftrightarrow> filter (\<lambda>w. op_key w = op_key v) (wd_operations (se_memory (wp_session a))) = [v] \<and>
     op_key v = JStr (text_at ''id'' v) \<and> text_at ''id'' v \<notin> creating a"

fun orderly_start :: "wallet_app \<Rightarrow> wallet_action \<Rightarrow> bool" where
  "orderly_start a (Refresh_operation v) = current a v"
| "orderly_start a (Reclaim_operation v) = current a v"
| "orderly_start a (Discard_token v) = current a v"
| "orderly_start a _ = True"

fun orderly_all :: "wallet_env \<Rightarrow> json list \<Rightarrow> wallet_app \<Rightarrow> bool" where
  "orderly_all E [] a = True"
| "orderly_all E (v # vs) a = (current a v \<and> orderly_all E vs (start E (Refresh_operation v) a))"

fun orderly :: "wallet_env \<Rightarrow> wallet_app \<Rightarrow> wallet_move \<Rightarrow> bool" where
  "orderly E a (Start act) = orderly_start a act"
| "orderly E a Refresh_unresolved = orderly_all E (unresolved a) a"
| "orderly E a (Change_mint mintUrl) = (wp_pool a = [])"
| "orderly E a Retry_mint = (wp_pool a = [])"
| "orderly E a _ = True"

inductive orderly_run :: "wallet_env \<Rightarrow> wallet_app \<Rightarrow> wallet_app \<Rightarrow> bool" for E where
  orderly_opened: "opened E fallback s = Inr a \<Longrightarrow> se_inflight s = {} \<Longrightarrow> orderly_run E a a"
| orderly_move: "orderly_run E a0 a \<Longrightarrow> orderly E (at_moment now room a) mv \<Longrightarrow>
    orderly_run E a0 (app_move E mv (at_moment now room a))"

end
