(* ===== verification/Wallet_Screens.thy ===== *)
theory Wallet_Screens
  imports Wallet_Present Wallet_System Wallet_Amounts
begin

section \<open>The screens of the wallet\<close>

text \<open>
  The screens of \<open>wallet/src/screens\<close>: what each keeps in its state and what its actions do. An action runs
  beside the session: \<open>calls\<close> runs a handler of the application with the screen beside it, \<open>setA\<close> sets the
  screen. An action reads the state of the render it belongs to; a screen offers no second action while the
  first one waits, except through the refs that are modelled. Markup, the scanner and the clipboard are not.
\<close>

primrec beside :: "'x \<Rightarrow> ('s, 'c, 'r, 'a) task \<Rightarrow> ('x \<times> 's, 'c, 'r, 'a) task" where
  "beside x (Done s r) = Done (x, s) r"
| "beside x (Await s c k) = Await (x, s) c (\<lambda>r xs. beside (fst xs) (k r (snd xs)))"

type_synonym ('x, 'a) action = "('x \<times> wallet_session, wallet_call, wallet_answer, 'a) async"

definition calls :: "'a handler \<Rightarrow> ('x, 'a) action" where
  "calls p xs = beside (fst xs) (p (snd xs))"

definition setA :: "('x \<Rightarrow> 'x) \<Rightarrow> ('x, unit) action" where
  "setA f xs = Done (f (fst xs), snd xs) (Inr ())"

definition finallySet :: "('x, unit) action \<Rightarrow> ('x \<Rightarrow> 'x) \<Rightarrow> ('x, unit) action" where
  "finallySet p f = finallyA p (\<lambda>xs. (f (fst xs), snd xs))"

text \<open>\<open>reason instanceof Error ? reason.message : fallback\<close>\<close>

definition message_or :: "string \<Rightarrow> failure \<Rightarrow> string" where
  "message_or fallback e =
     (case e of Thrown_text t \<Rightarrow> fallback | _ \<Rightarrow> (case failure_text e of None \<Rightarrow> fallback | Some t \<Rightarrow> t))"

text \<open>The operation of a kind with the identifier that the screen remembers.\<close>

definition shown_operation :: "string \<Rightarrow> json option \<Rightarrow> wallet_session \<Rightarrow> json option" where
  "shown_operation kind ident s =
     (case ident of
        None \<Rightarrow> None
      | Some i \<Rightarrow> find (\<lambda>v. is_kind kind v \<and> op_key v = i) (wd_operations (se_memory s)))"

subsection \<open>Paying\<close>

datatype pay_view = Pay_scan | Pay_checking | Pay_review | Pay_building | Pay_token

record pay_screen =
  py_view :: pay_view
  py_pasted :: string
  py_request :: "decoded_request option"
  py_preparation :: "outgoing_preparation option"
  py_operationId :: "json option"
  py_error :: "string option"
  py_confirming :: bool

definition pay_opened :: pay_screen where
  "pay_opened = \<lparr>py_view = Pay_scan, py_pasted = [], py_request = None, py_preparation = None, py_operationId = None,
     py_error = None, py_confirming = False\<rparr>"

definition pay_read :: "wallet_env \<Rightarrow> wallet_view \<Rightarrow> string \<Rightarrow> (pay_screen, unit) action" where
  "pay_read E V v =
     catchA
       (bindA (calls (syncA (liftM (decodePaymentRequest (new_url (we_platform E)) (package (we_platform E)) v)))) (\<lambda>decoded.
        bindA (setA (\<lambda>x. x\<lparr>py_request := Some decoded, py_pasted := [], py_error := None, py_view := Pay_checking\<rparr>)) (\<lambda>_.
        bindA (calls (wallet_prepareOutgoing E V decoded)) (\<lambda>preparation.
        setA (\<lambda>x. x\<lparr>py_preparation := Some preparation, py_view := Pay_review\<rparr>)))))
       (\<lambda>reason. setA (\<lambda>x. x\<lparr>py_error := Some (message_or ''The payment request could not be read.'' reason),
          py_preparation := None, py_view := Pay_scan\<rparr>))"

definition pay_submit :: "wallet_env \<Rightarrow> wallet_view \<Rightarrow> (pay_screen, unit) action" where
  "pay_submit E V xs =
     (if trim (py_pasted (fst xs)) = [] then setA (\<lambda>x. x\<lparr>py_error := Some ''Paste a Cashu payment request first.''\<rparr>) xs
      else pay_read E V (py_pasted (fst xs)) xs)"

definition pay_changed :: "outgoing_preparation \<Rightarrow> outgoing_preparation \<Rightarrow> bool" where
  "pay_changed latest shown \<longleftrightarrow>
     num_differs (og_balance latest) (og_balance shown) \<or> num_differs (og_debit latest) (og_debit shown) \<or>
     num_differs (og_fee latest) (og_fee shown)"

definition pay_spend ::
  "wallet_env \<Rightarrow> wallet_view \<Rightarrow> decoded_request \<Rightarrow> outgoing_preparation \<Rightarrow> (pay_screen, unit) action" where
  "pay_spend E V request seen =
     bindA (calls (wallet_prepareOutgoing E V request)) (\<lambda>latest.
     if pay_changed latest seen
     then setA (\<lambda>x. x\<lparr>py_preparation := Some latest, py_view := Pay_review, py_error := Some
       ''Your spendable balance changed. Review the updated debit before confirming again.''\<rparr>)
     else
       bindA (calls (wallet_createOutgoing E V request latest)) (\<lambda>created.
       setA (\<lambda>x. x\<lparr>py_operationId := Some (op_key created), py_view := Pay_token\<rparr>)))"

definition pay_run ::
  "wallet_env \<Rightarrow> wallet_view \<Rightarrow> decoded_request \<Rightarrow> outgoing_preparation \<Rightarrow> (pay_screen, unit) action" where
  "pay_run E V request seen =
     bindA (setA (\<lambda>x. x\<lparr>py_confirming := True, py_view := Pay_building, py_error := None\<rparr>)) (\<lambda>_.
     finallySet
       (catchA (pay_spend E V request seen)
         (\<lambda>reason. setA (\<lambda>x. x\<lparr>py_error := Some (message_or ''The payment token could not be created.'' reason),
            py_view := Pay_review\<rparr>)))
       (\<lambda>x. x\<lparr>py_confirming := False\<rparr>))"

definition pay_confirm :: "wallet_env \<Rightarrow> wallet_view \<Rightarrow> (pay_screen, unit) action" where
  "pay_confirm E V xs =
     (case (py_request (fst xs), py_preparation (fst xs)) of
        (Some request, Some seen) \<Rightarrow> if py_confirming (fst xs) then returnA () xs else pay_run E V request seen xs
      | _ \<Rightarrow> returnA () xs)"

definition pay_restart :: "pay_screen \<Rightarrow> pay_screen" where
  "pay_restart x = x\<lparr>py_view := Pay_scan, py_pasted := [], py_request := None, py_preparation := None,
     py_operationId := None, py_error := None\<rparr>"

text \<open>The figures of the review: the amount, the fee, the debit and the balance after it.\<close>

definition pay_figures :: "pay_screen \<Rightarrow> (number \<times> number \<times> number \<times> number) option" where
  "pay_figures x =
     (case (py_view x, py_request x, py_preparation x) of
        (Pay_review, Some r, Some p) \<Rightarrow> Some (dr_amount r, og_fee p, og_debit p, num_minus (og_balance p) (og_debit p))
      | _ \<Rightarrow> None)"

subsection \<open>Cashing out\<close>

datatype cash_out_view = Cash_invoice | Cash_review | Cash_dispatching | Cash_status

record cash_out_screen =
  cs_view :: cash_out_view
  cs_invoice :: string
  cs_quote :: "melt_quote option"
  cs_preparation :: "cash_out_preparation option"
  cs_operationId :: "json option"
  cs_busy :: bool
  cs_error :: "string option"

definition cash_out_opened :: cash_out_screen where
  "cash_out_opened = \<lparr>cs_view = Cash_invoice, cs_invoice = [], cs_quote = None, cs_preparation = None,
     cs_operationId = None, cs_busy = False, cs_error = None\<rparr>"

definition cash_out_price :: "wallet_env \<Rightarrow> wallet_view \<Rightarrow> (cash_out_screen, unit) action" where
  "cash_out_price E V xs =
     (let invoice = trim (cs_invoice (fst xs)) in
      if invoice = [] then setA (\<lambda>x. x\<lparr>cs_error := Some ''Paste a Fiber invoice first.''\<rparr>) xs
      else
        bindA (setA (\<lambda>x. x\<lparr>cs_busy := True, cs_error := None\<rparr>)) (\<lambda>_.
        finallySet
          (catchA
            (bindA (calls (wallet_quoteCashOut V invoice)) (\<lambda>quote.
             bindA (calls (wallet_prepareCashOut E V quote)) (\<lambda>preparation.
             setA (\<lambda>x. x\<lparr>cs_quote := Some quote, cs_preparation := Some preparation, cs_view := Cash_review\<rparr>))))
            (\<lambda>reason. setA (\<lambda>x. x\<lparr>cs_error :=
               Some (explainMeltError (message_or ''The invoice could not be quoted.'' reason))\<rparr>)))
          (\<lambda>x. x\<lparr>cs_busy := False\<rparr>)) xs)"

definition cash_out_changed :: "cash_out_preparation \<Rightarrow> cash_out_preparation \<Rightarrow> bool" where
  "cash_out_changed latest seen \<longleftrightarrow>
     num_differs (cp_balance latest) (cp_balance seen) \<or> num_differs (cp_maximumDebit latest) (cp_maximumDebit seen)"

definition cash_out_spend ::
  "wallet_env \<Rightarrow> wallet_view \<Rightarrow> melt_quote \<Rightarrow> cash_out_preparation \<Rightarrow> (cash_out_screen, unit) action" where
  "cash_out_spend E V quote seen =
     bindA (calls (wallet_prepareCashOut E V quote)) (\<lambda>latest.
     if cash_out_changed latest seen
     then setA (\<lambda>x. x\<lparr>cs_preparation := Some latest, cs_error := Some
       ''Your spendable balance changed. Review the updated maximum debit before confirming again.'',
       cs_view := Cash_review\<rparr>)
     else
       bindA (calls (wallet_confirmCashOut E V latest)) (\<lambda>created.
       setA (\<lambda>x. x\<lparr>cs_operationId := Some (op_key created), cs_view := Cash_status\<rparr>)))"

definition cash_out_confirm :: "wallet_env \<Rightarrow> wallet_view \<Rightarrow> (cash_out_screen, unit) action" where
  "cash_out_confirm E V xs =
     (case (cs_quote (fst xs), cs_preparation (fst xs)) of
        (Some quote, Some seen) \<Rightarrow>
          bindA (setA (\<lambda>x. x\<lparr>cs_view := Cash_dispatching, cs_error := None\<rparr>)) (\<lambda>_.
          catchA (cash_out_spend E V quote seen)
            (\<lambda>reason. setA (\<lambda>x. x\<lparr>cs_error := Some (message_or ''The payment could not be prepared.'' reason),
               cs_view := Cash_review\<rparr>))) xs
      | _ \<Rightarrow> returnA () xs)"

definition cash_out_refresh :: "wallet_env \<Rightarrow> wallet_view \<Rightarrow> (cash_out_screen, unit) action" where
  "cash_out_refresh E V xs =
     (case shown_operation ''cashout'' (cs_operationId (fst xs)) (snd xs) of
        None \<Rightarrow> returnA () xs
      | Some v \<Rightarrow>
          bindA (setA (\<lambda>x. x\<lparr>cs_busy := True, cs_error := None\<rparr>)) (\<lambda>_.
          finallySet
            (catchA (calls (wallet_refreshCashOut E V v))
              (\<lambda>reason. setA (\<lambda>x. x\<lparr>cs_error := Some (message_or ''The payment status could not be checked.'' reason)\<rparr>)))
            (\<lambda>x. x\<lparr>cs_busy := False\<rparr>)) xs)"

definition cash_out_cancel :: "cash_out_screen \<Rightarrow> cash_out_screen" where
  "cash_out_cancel x = x\<lparr>cs_view := Cash_invoice, cs_quote := None, cs_preparation := None\<rparr>"

definition cash_out_insufficient :: "number \<Rightarrow> cash_out_preparation \<Rightarrow> bool" where
  "cash_out_insufficient balance p =
     (case (cp_maximumDebit p, balance) of (Some debit, Some b) \<Rightarrow> b < debit | _ \<Rightarrow> False)"

subsection \<open>Adding cash\<close>

record add_screen =
  ad_amount :: string
  ad_operationId :: "json option"
  ad_busy :: bool
  ad_error :: "string option"

definition add_opened :: add_screen where
  "add_opened = \<lparr>ad_amount = ''10.00'', ad_operationId = None, ad_busy = False, ad_error = None\<rparr>"

definition add_request :: "wallet_env \<Rightarrow> wallet_view \<Rightarrow> (add_screen, unit) action" where
  "add_request E V xs =
     (case parseAmount (ad_amount (fst xs)) of
        None \<Rightarrow> setA (\<lambda>x. x\<lparr>ad_error := Some ''Enter an amount with no more than two decimal places.''\<rparr>) xs
      | Some amount \<Rightarrow>
          bindA (setA (\<lambda>x. x\<lparr>ad_busy := True, ad_error := None\<rparr>)) (\<lambda>_.
          finallySet
            (catchA
              (bindA (calls (wallet_requestAdd E V amount)) (\<lambda>created.
               setA (\<lambda>x. x\<lparr>ad_operationId := Some (op_key created)\<rparr>)))
              (\<lambda>reason. setA (\<lambda>x. x\<lparr>ad_error := Some (message_or ''The mint invoice could not be created.'' reason)\<rparr>)))
            (\<lambda>x. x\<lparr>ad_busy := False\<rparr>)) xs)"

definition add_refresh :: "wallet_env \<Rightarrow> wallet_view \<Rightarrow> (add_screen, unit) action" where
  "add_refresh E V xs =
     (case shown_operation ''add'' (ad_operationId (fst xs)) (snd xs) of
        None \<Rightarrow> returnA () xs
      | Some v \<Rightarrow>
          bindA (setA (\<lambda>x. x\<lparr>ad_busy := True, ad_error := None\<rparr>)) (\<lambda>_.
          finallySet
            (catchA (calls (wallet_refreshAdd E V v))
              (\<lambda>reason. setA (\<lambda>x. x\<lparr>ad_error := Some (message_or ''The quote could not be checked.'' reason)\<rparr>)))
            (\<lambda>x. x\<lparr>ad_busy := False\<rparr>)) xs)"

definition add_restart :: "add_screen \<Rightarrow> add_screen" where
  "add_restart x = x\<lparr>ad_operationId := None, ad_error := None\<rparr>"

subsection \<open>Requesting\<close>

text \<open>A request as the object that \<open>createPaymentRequest\<close> returns and \<open>openRequest\<close> stores.\<close>

definition request_object :: "decoded_request \<Rightarrow> json" where
  "request_object r = JObj
     [(''id'', or_undef (dr_id r)), (''amount'', number_json (dr_amount r)), (''unit'', JStr (dr_unit r)),
      (''mints'', JArr (map JStr (dr_mints r))), (''description'', JStr (dr_description r)),
      (''singleUse'', JBool (dr_singleUse r)), (''transport'', JArr []), (''nut10'', JUndef),
      (''encoded'', JStr (dr_encoded r))]"

datatype request_view = Req_create | Req_present | Req_receiving | Req_result

record request_screen =
  rq_view :: request_view
  rq_amount :: string
  rq_note :: string
  rq_request :: "json option"
  rq_token :: string
  rq_operationId :: "json option"
  rq_error :: "string option"
  rq_receiving :: bool

definition request_opened :: "json option \<Rightarrow> request_screen" where
  "request_opened saved =
     \<lparr>rq_view = (if saved = None then Req_create else Req_present),
      rq_amount = (case saved of None \<Rightarrow> ''5.00''
        | Some r \<Rightarrow> (case units (field r ''amount'') of Some a \<Rightarrow> fmt a | None \<Rightarrow> ''NaN.NaN'')),
      rq_note = (case saved of None \<Rightarrow> [] | Some r \<Rightarrow> text_at ''description'' r),
      rq_request = saved, rq_token = [], rq_operationId = None, rq_error = None, rq_receiving = False\<rparr>"

text \<open>\<open>fresh\<close> is the identifier that \<open>requestId\<close> draws, \<open>ticker\<close> the unit in capitals.\<close>

definition request_build ::
  "wallet_env \<Rightarrow> wallet_view \<Rightarrow> string \<Rightarrow> string \<Rightarrow> (request_screen, unit) action" where
  "request_build E V fresh ticker xs =
     (case parseAmount (rq_amount (fst xs)) of
        None \<Rightarrow> setA (\<lambda>x. x\<lparr>rq_error := Some ''Enter an amount with no more than two decimal places.''\<rparr>) xs
      | Some amount \<Rightarrow>
          (let note = trim (rq_note (fst xs)); description = (if note = [] then ''FiberNuts payment'' else note) in
           catchA
             (bindA (calls (syncA (liftM (createPaymentRequest (new_url (we_platform E)) (package (we_platform E)) fresh
                amount ticker (vw_mintUrl V) description None None None)))) (\<lambda>created.
              bindA (calls (syncA (saveOpenRequest E V (request_object created)))) (\<lambda>_.
              setA (\<lambda>x. x\<lparr>rq_request := Some (request_object created), rq_error := None, rq_view := Req_present\<rparr>))))
             (\<lambda>reason. setA (\<lambda>x. x\<lparr>rq_error := Some (message_or ''The request could not be created.'' reason)\<rparr>)) xs))"

definition request_receive ::
  "wallet_env \<Rightarrow> wallet_view \<Rightarrow> bool \<Rightarrow> string \<Rightarrow> (request_screen, unit) action" where
  "request_receive E V online v xs =
     (if rq_receiving (fst xs) then returnA () xs
      else if \<not> online
      then setA (\<lambda>x. x\<lparr>rq_error := Some ''The mint must be reachable to secure an incoming token.''\<rparr>) xs
      else
        (let note = (case rq_request (fst xs) of None \<Rightarrow> ''Requested payment'' | Some r \<Rightarrow> text_at ''description'' r) in
         bindA (setA (\<lambda>x. x\<lparr>rq_receiving := True, rq_view := Req_receiving, rq_error := None\<rparr>)) (\<lambda>_.
         finallySet
           (catchA
             (bindA (calls (receiveToken E V (trim v) note)) (\<lambda>settled.
              setA (\<lambda>x. x\<lparr>rq_operationId := Some (op_key settled), rq_token := [], rq_view := Req_result\<rparr>)))
             (\<lambda>reason. setA (\<lambda>x. x\<lparr>rq_error := Some (message_or ''The token could not be secured.'' reason),
                rq_view := Req_present\<rparr>)))
           (\<lambda>x. x\<lparr>rq_receiving := False\<rparr>)) xs))"

definition request_submit :: "wallet_env \<Rightarrow> wallet_view \<Rightarrow> bool \<Rightarrow> (request_screen, unit) action" where
  "request_submit E V online xs =
     (if trim (rq_token (fst xs)) = []
      then setA (\<lambda>x. x\<lparr>rq_error := Some ''Paste the sender's Cashu token first.''\<rparr>) xs
      else request_receive E V online (rq_token (fst xs)) xs)"

definition request_restart :: "wallet_env \<Rightarrow> wallet_view \<Rightarrow> (request_screen, unit) action" where
  "request_restart E V =
     bindA (setA (\<lambda>x. x\<lparr>rq_view := Req_create, rq_request := None, rq_token := [], rq_operationId := None,
       rq_error := None\<rparr>)) (\<lambda>_. calls (syncA (clearOpenRequest E V)))"

subsection \<open>One operation, and the mint\<close>

datatype detail_action = Check_status | Reclaim_token | Remove_token

record detail_screen =
  dt_busy :: bool
  dt_error :: "string option"

fun detail_handler :: "wallet_env \<Rightarrow> wallet_view \<Rightarrow> json \<Rightarrow> detail_action \<Rightarrow> unit handler" where
  "detail_handler E V v Check_status = wallet_refreshOperation E V v"
| "detail_handler E V v Reclaim_token = wallet_reclaimOperation E V v"
| "detail_handler E V v Remove_token = discardIncomingToken E V v"

definition detail_run :: "wallet_env \<Rightarrow> wallet_view \<Rightarrow> json \<Rightarrow> detail_action \<Rightarrow> (detail_screen, unit) action" where
  "detail_run E V v act =
     bindA (setA (\<lambda>x. x\<lparr>dt_busy := True, dt_error := None\<rparr>)) (\<lambda>_.
     finallySet
       (catchA (calls (detail_handler E V v act))
         (\<lambda>reason. setA (\<lambda>x. x\<lparr>dt_error := Some (message_or ''The operation could not be updated.'' reason)\<rparr>)))
       (\<lambda>x. x\<lparr>dt_busy := False\<rparr>))"

record mint_screen =
  mn_draft :: string
  mn_error :: "string option"

definition http_prefix :: "string \<Rightarrow> bool" where
  "http_prefix t \<longleftrightarrow> take 7 t = ''http://'' \<or> take 8 t = ''https://''"

definition mint_submit :: "wallet_env \<Rightarrow> mint_screen \<Rightarrow> wallet_app \<Rightarrow> mint_screen \<times> wallet_app" where
  "mint_submit E x a =
     (let U = new_url (we_platform E); s = wp_session a in
      case bindR (normalizeMintUrl U (trim (mn_draft x))) (\<lambda>normalized.
           bindR (guardR (http_prefix normalized) (Failure ''Enter a complete http or https mint URL.'')) (\<lambda>_.
           bindR (fst (saveActiveMint U (se_room s) normalized (se_store s))) (\<lambda>_. Inr normalized))) of
        Inl reason \<Rightarrow> (x\<lparr>mn_error := Some (message_or ''The mint URL is invalid.'' reason)\<rparr>, a)
      | Inr normalized \<Rightarrow> (x\<lparr>mn_error := None\<rparr>, change_mint E normalized a))"


subsection \<open>Between the screens\<close>

datatype wallet_place =
  At_home | At_pay | At_request | At_activity | At_add | At_cashout | At_mint | At_operation

fun SCREEN_TITLES :: "wallet_place \<Rightarrow> string" where
  "SCREEN_TITLES At_home = ''Wallet''"
| "SCREEN_TITLES At_pay = ''Pay''"
| "SCREEN_TITLES At_request = ''Request''"
| "SCREEN_TITLES At_activity = ''Activity''"
| "SCREEN_TITLES At_add = ''Add cash''"
| "SCREEN_TITLES At_cashout = ''Cash out''"
| "SCREEN_TITLES At_mint = ''Mint details''"
| "SCREEN_TITLES At_operation = ''Operation''"

definition primaryScreen :: "wallet_place \<Rightarrow> wallet_place" where
  "primaryScreen p =
     (if p \<in> {At_pay, At_request, At_activity} then p else if p = At_operation then At_activity else At_home)"

record wallet_places =
  wl_screen :: wallet_place
  wl_selected :: "json option"

definition wallet_navigate :: "wallet_place \<Rightarrow> wallet_places \<Rightarrow> wallet_places" where
  "wallet_navigate p w =
     \<lparr>wl_screen = p, wl_selected = (if p \<noteq> At_operation then None else wl_selected w)\<rparr>"

definition openOperation :: "json \<Rightarrow> wallet_places \<Rightarrow> wallet_places" where
  "openOperation v w = \<lparr>wl_screen = At_operation, wl_selected = Some (op_key v)\<rparr>"

definition go_back :: "wallet_places \<Rightarrow> wallet_places" where
  "go_back w = wallet_navigate (if wl_screen w = At_operation then At_activity else At_home) w"

definition selected_operation :: "wallet_places \<Rightarrow> wallet_session \<Rightarrow> json option" where
  "selected_operation w s =
     (case wl_selected w of None \<Rightarrow> None | Some i \<Rightarrow> find (\<lambda>v. op_key v = i) (wd_operations (se_memory s)))"

text \<open>The screen that is rendered: an operation that is gone shows the list.\<close>

definition rendered :: "wallet_places \<Rightarrow> wallet_session \<Rightarrow> wallet_place" where
  "rendered w s =
     (if wl_screen w = At_operation \<and> selected_operation w s = None then At_activity else wl_screen w)"

text \<open>\<open>createdAt\<close> is an integer in every operation that the application makes.\<close>

definition created_at :: "json \<Rightarrow> int" where
  "created_at v = (case field v ''createdAt'' of JInt t \<Rightarrow> t | _ \<Rightarrow> 0)"

definition ordered_operations :: "wallet_session \<Rightarrow> json list" where
  "ordered_operations s = sort_key (\<lambda>v. - created_at v) (wd_operations (se_memory s))"

definition home_attention :: "json list \<Rightarrow> json list" where
  "home_attention = filter operationNeedsAttention"

definition home_recent :: "json list \<Rightarrow> json list" where
  "home_recent = take 3"

end
