(* ===== verification/Wallet_Contract.thy ===== *)
theory Wallet_Contract
  imports Wallet_System
begin

section \<open>What a handler promises and relies on\<close>

text \<open>
  A handler plays a part: its owner, the operation it works on, and whether it holds the lock of that
  operation. It relies on the others leaving its operation and its lock alone; it guarantees that it
  changes no other operation and no other lock, and that the balance changes only by the proofs that an
  answer brings, in the commit that also removes the recovery data of the call from its operation, or by
  setting proofs aside for the operation it creates. A call that completes a prepared request is made only
  while the stored document holds an operation with the data to repeat it.
\<close>

type_synonym part = "string option \<times> bool"

definition op_at :: "wallet_session \<Rightarrow> string \<Rightarrow> json list" where
  "op_at s i = filter (\<lambda>v. op_key v = JStr i) (wd_operations (se_memory s))"

text \<open>The storage has the document in memory.\<close>

definition synced :: "wallet_env \<Rightarrow> string \<Rightarrow> wallet_session \<Rightarrow> bool" where
  "synced E mintUrl s \<longleftrightarrow>
     se_store s (stateKey mintUrl) = Some (json_stringify (we_platform E) (document_json (se_memory s)))"

fun completes :: "wallet_call \<Rightarrow> bool" where
  "completes (CompletePreparedSend _) = True"
| "completes (CompletePreparedReceive _) = True"
| "completes (CompleteMint _ _) = True"
| "completes (ExecuteMelt _ _) = True"
| "completes _ = False"

definition swap_member :: "json \<Rightarrow> string" where
  "swap_member v = (if field v ''kind'' \<in> {JStr ''send'', JStr ''receive''} then ''swap'' else ''recoverySwap'')"

text \<open>The operation has the data from which the call can be repeated or its outcome be recovered.\<close>

fun holds :: "wallet_call \<Rightarrow> json \<Rightarrow> bool" where
  "holds (CompletePreparedSend swap) v = (field v ''swap'' = swap)"
| "holds (CompletePreparedReceive swap) v = (field v (swap_member v) = swap)"
| "holds (CompleteMint q prepared) v = (prepared_of_add v = prepared)"
| "holds (ExecuteMelt q prepared) v =
     (field v ''reservedProofs'' = JArr (pm_reserved prepared) \<and> field v ''outputData'' = JArr (pm_outputs prepared))"
| "holds _ v = True"

text \<open>The proofs that an answer adds to the balance, and an operation that has nothing left to complete.\<close>

fun credit :: "wallet_env \<Rightarrow> json \<Rightarrow> wallet_call \<Rightarrow> wallet_answer \<Rightarrow> cashu_proof list option" where
  "credit E v (CompletePreparedSend _) (Is_token t ps) = Some ps"
| "credit E v (CompletePreparedReceive _) (Is_proofs ps) = Some ps"
| "credit E v (CompleteMint _ _) (Is_proofs ps) = Some ps"
| "credit E v (ExecuteMelt _ _) (Is_execution x) = (if mx_state x = PAID then Some (mx_change x) else None)"
| "credit E v (CheckMeltQuote _) (Is_melt_quote q) =
     (if mlq_state q \<noteq> PAID then None
      else if has_items (field v ''outputData'')
      then (case we_change E (field v ''outputData'') (melt_quote_of (field v ''quote'') q) of
              Inl _ \<Rightarrow> None | Inr ps \<Rightarrow> Some ps)
      else Some [])"
| "credit E v _ _ = None"

fun completed :: "wallet_call \<Rightarrow> json \<Rightarrow> bool" where
  "completed (CompletePreparedSend _) v = (field v ''swap'' = JUndef)"
| "completed (CompletePreparedReceive _) v = (field v (swap_member v) = JUndef)"
| "completed (CompleteMint _ _) v = (field v ''outputData'' = JUndef \<and> field v ''keysetId'' = JUndef)"
| "completed _ v = (field v ''reservedProofs'' = JUndef \<and> field v ''outputData'' = JUndef)"

definition credited ::
  "wallet_env \<Rightarrow> string option \<Rightarrow> (wallet_call \<times> (failure + wallet_answer)) option \<Rightarrow> wallet_session \<Rightarrow>
   wallet_session \<Rightarrow> bool" where
  "credited E owner ev s s' \<longleftrightarrow>
     (\<exists>i v v' c x ps. owner = Some i \<and> ev = Some (c, Inr x) \<and> op_at s i = [v] \<and> op_at s' i = [v'] \<and>
        credit E v c x = Some ps \<and> wd_proofs (se_memory s') = wd_proofs (se_memory s) @ ps \<and> completed c v')"

definition set_aside ::
  "string option \<Rightarrow> (wallet_call \<times> (failure + wallet_answer)) option \<Rightarrow> wallet_session \<Rightarrow> wallet_session \<Rightarrow> bool" where
  "set_aside owner ev s s' \<longleftrightarrow> ev = None \<and> (\<exists>i v. owner = Some i \<and> op_at s i = [] \<and> op_at s' i = [v])"

definition allowed_call :: "wallet_env \<Rightarrow> string \<Rightarrow> part \<Rightarrow> wallet_call \<Rightarrow> wallet_session \<Rightarrow> bool" where
  "allowed_call E m p c s \<longleftrightarrow>
     (\<forall>i. fst p = Some i \<longrightarrow> (\<exists>v. op_at s i = [v]) \<and> (snd p \<longrightarrow> i \<in> se_inflight s)) \<and>
     (completes c \<longrightarrow> synced E m s \<and> (\<exists>i v. fst p = Some i \<and> op_at s i = [v] \<and> holds c v))"

definition part_relies :: "wallet_env \<Rightarrow> string \<Rightarrow> part \<Rightarrow> wallet_session \<Rightarrow> wallet_session \<Rightarrow> bool" where
  "part_relies E m p s s' \<longleftrightarrow>
     (synced E m s \<longrightarrow> synced E m s') \<and>
     (\<forall>i. fst p = Some i \<and> op_at s i \<noteq> [] \<longrightarrow>
        op_at s' i = op_at s i \<and> (i \<in> se_inflight s' \<longleftrightarrow> i \<in> se_inflight s))"

definition part_keeps ::
  "wallet_env \<Rightarrow> string \<Rightarrow> part \<Rightarrow> (wallet_call \<times> (failure + wallet_answer)) option \<Rightarrow> wallet_session \<Rightarrow> wallet_session \<Rightarrow> bool" where
  "part_keeps E m p ev s s' \<longleftrightarrow>
     (synced E m s \<longrightarrow> synced E m s') \<and>
     (\<forall>j. fst p \<noteq> Some j \<and> op_at s j \<noteq> [] \<longrightarrow>
        op_at s' j = op_at s j \<and> (j \<in> se_inflight s' \<longleftrightarrow> j \<in> se_inflight s)) \<and>
     (wd_proofs (se_memory s') = wd_proofs (se_memory s) \<or>
      synced E m s' \<and> (credited E (fst p) ev s s' \<or> set_aside (fst p) ev s s'))"

definition parts_apart :: "part \<Rightarrow> part \<Rightarrow> bool" where
  "parts_apart p q \<longleftrightarrow> fst q = None \<or> fst p \<noteq> fst q"

interpretation parts: interference "part_relies E m" "part_keeps E m" "allowed_call E m" parts_apart
proof unfold_locales
  fix p ev s t q
  assume "parts_apart p q" "part_keeps E m p ev s t"
  then show "part_relies E m q s t"
    by (auto simp: parts_apart_def part_keeps_def part_relies_def)
next
  fix p c s t
  assume "allowed_call E m p c s" "part_relies E m p s t"
  then show "allowed_call E m p c t"
    by (fastforce simp: allowed_call_def part_relies_def)
qed (auto simp: part_relies_def)

subsection \<open>Commits\<close>

lemma filter_upsert:
  "filter (\<lambda>r. key r = k) (upsert key rs x) =
     (if key x = k
      then (if filter (\<lambda>r. key r = k) rs = [] then [x] else map (\<lambda>_. x) (filter (\<lambda>r. key r = k) rs))
      else filter (\<lambda>r. key r = k) rs)"
proof (cases "\<exists>r \<in> set rs. key r = key x")
  case True
  have "filter (\<lambda>r. key r = k) (map (\<lambda>r. if key r = key x then x else r) rs) =
      map (\<lambda>r. if key r = key x then x else r) (filter (\<lambda>r. key r = k) rs)"
    by (induction rs) auto
  moreover have "key x = k \<Longrightarrow> map (\<lambda>r. if key r = key x then x else r) (filter (\<lambda>r. key r = k) rs) =
      map (\<lambda>_. x) (filter (\<lambda>r. key r = k) rs)"
    by (induction rs) auto
  moreover have "key x \<noteq> k \<Longrightarrow> map (\<lambda>r. if key r = key x then x else r) (filter (\<lambda>r. key r = k) rs) =
      filter (\<lambda>r. key r = k) rs"
    by (induction rs) auto
  ultimately show ?thesis using True by (auto simp: upsert_def filter_empty_conv)
qed (auto simp: upsert_def filter_empty_conv)

text \<open>What a successful commit leaves.\<close>

definition committed :: "wallet_env \<Rightarrow> string \<Rightarrow> wallet_document \<Rightarrow> wallet_session \<Rightarrow> wallet_session" where
  "committed E m d s =
     s\<lparr>se_store := (se_store s)(stateKey m \<mapsto> json_stringify (we_platform E) (document_json d)), se_memory := d\<rparr>"

lemma committed_sel [simp]:
  "se_memory (committed E m d s) = d" "se_inflight (committed E m d s) = se_inflight s"
  "synced E m (committed E m d s)" "op_at (committed E m d s) i = filter (\<lambda>v. op_key v = JStr i) (wd_operations d)"
  by (simp_all add: committed_def synced_def op_at_def)

lemma commitSnapshot_cases:
  "commitSnapshot E V d s = (Inr (), committed E (vw_mintUrl V) d s) \<or>
   commitSnapshot E V d s = (Inl (Failure ''QuotaExceededError''), s)"
  by (simp add: commitSnapshot_def saveWalletSnapshot_def committed_def Let_def)

lemma persistOperation_cases:
  "persistOperation E V v ps cl s = (Inr v, committed E (vw_mintUrl V) (with_operation v ps cl (se_memory s)) s) \<or>
   persistOperation E V v ps cl s = (Inl (Failure ''QuotaExceededError''), s)"
  using commitSnapshot_cases[of E V "with_operation v ps cl (se_memory s)" s]
  by (auto simp: persistOperation_def bindM_def readM_def returnM_def)

lemma saveCurrent_cases:
  "saveCurrent E V s = (Inr (), committed E (vw_mintUrl V) (se_memory s) s) \<or>
   saveCurrent E V s = (Inl (Failure ''QuotaExceededError''), s)"
  by (simp add: saveCurrent_def saveWalletSnapshot_def committed_def Let_def)

lemma advance_persist:
  "advance E V v st fs added cl s =
     persistOperation E V (moved v st fs s) (map_option (\<lambda>ps. wd_proofs (se_memory s) @ ps) added) cl s"
  by (simp add: advance_def bindM_def readM_def)

lemma with_operation_sel [simp]:
  "wd_operations (with_operation v ps cl d) = replaceOperation (wd_operations d) v"
  "wd_proofs (with_operation v ps cl d) = (case ps of None \<Rightarrow> wd_proofs d | Some qs \<Rightarrow> qs)"
  by (simp_all add: with_operation_def)

lemma op_at_committed:
  "op_key v = JStr i \<Longrightarrow>
   op_at (committed E m (with_operation v ps cl (se_memory s)) s) j =
     (if j = i then (if op_at s i = [] then [v] else map (\<lambda>_. v) (op_at s i)) else op_at s j)"
  by (auto simp: replaceOperation_def filter_upsert op_at_def)

text \<open>Spreading members over an operation.\<close>

lemma field_set_field: "field (set_field k x v) l = (if l = k then x else field v l)"
  by (auto simp: field_def set_field_def update_conv' split: option.splits)

lemma field_spread: "field (spread v fs) k = (case map_of (rev fs) k of None \<Rightarrow> field v k | Some x \<Rightarrow> x)"
  unfolding spread_def
  by (induction fs rule: rev_induct) (auto simp: field_set_field split: option.splits)

lemma field_moved:
  "field (moved v st fs s) k =
     (case map_of (rev fs) k of
        Some x \<Rightarrow> x
      | None \<Rightarrow> if k = ''updatedAt'' then JInt (se_now s) else if k = ''state'' then JStr st else field v k)"
  by (auto simp: moved_def field_spread map_of_append map_add_def split: option.splits)

lemma op_key_moved: "''id'' \<notin> fst ` set fs \<Longrightarrow> op_key (moved v st fs s) = op_key v"
  by (auto simp: op_key_def field_moved split: option.splits dest!: map_of_SomeD) force

lemma kind_moved: "''kind'' \<notin> fst ` set fs \<Longrightarrow> field (moved v st fs s) ''kind'' = field v ''kind''"
  by (auto simp: field_moved split: option.splits dest!: map_of_SomeD) force

lemma op_key_new [simp]: "op_key (new_operation V ident kind st a now u rest) = JStr ident"
  by (simp add: op_key_def new_operation_def field_def)

lemma text_at_new [simp]: "text_at ''id'' (new_operation V ident kind st a now u rest) = ident"
  by (simp add: text_at_def new_operation_def field_def)

subsection \<open>Rules for a handler that owns an operation\<close>

definition steady ::
  "wallet_env \<Rightarrow> string \<Rightarrow> string \<Rightarrow> bool \<Rightarrow> (wallet_call \<times> (failure + wallet_answer)) option \<Rightarrow> wallet_session \<Rightarrow>
   wallet_session \<Rightarrow> bool" where
  "steady E m i lk ev s0 s \<longleftrightarrow>
     (synced E m s0 \<longrightarrow> synced E m s) \<and>
     (\<forall>j. j \<noteq> i \<and> op_at s0 j \<noteq> [] \<longrightarrow> op_at s j = op_at s0 j \<and> (j \<in> se_inflight s \<longleftrightarrow> j \<in> se_inflight s0)) \<and>
     (wd_proofs (se_memory s) = wd_proofs (se_memory s0) \<or> synced E m s \<and> set_aside (Some i) ev s0 s) \<and>
     (\<exists>v. op_at s i = [v]) \<and> (lk \<longrightarrow> i \<in> se_inflight s)"

abbreviation own_meets ::
  "wallet_env \<Rightarrow> string \<Rightarrow> string \<Rightarrow> bool \<Rightarrow>
   ((wallet_call \<times> (failure + wallet_answer)) option \<Rightarrow> wallet_session \<Rightarrow> failure + 'a \<Rightarrow> wallet_session \<Rightarrow> bool) \<Rightarrow>
   (wallet_session, wallet_call, wallet_answer, 'a) task \<Rightarrow> (wallet_call \<times> (failure + wallet_answer)) option \<Rightarrow>
   wallet_session \<Rightarrow> bool" where
  "own_meets E m i lk \<equiv>
     meets (part_relies E m (Some i, lk)) (part_keeps E m (Some i, lk)) (allowed_call E m (Some i, lk)) fits"

lemma steady_keeps: "steady E m i lk ev s0 s \<Longrightarrow> part_keeps E m (Some i, lk) ev s0 s"
  by (auto simp: steady_def part_keeps_def)

lemma steady_refl: "op_at s i = [v] \<Longrightarrow> (lk \<Longrightarrow> i \<in> se_inflight s) \<Longrightarrow> steady E m i lk ev s s"
  by (auto simp: steady_def)

lemma steady_commit:
  assumes "steady E m i lk ev s0 s" "op_key v = JStr i"
  shows "steady E m i lk ev s0 (committed E m (with_operation v None cl (se_memory s)) s)"
  using assms by (auto simp: steady_def op_at_committed set_aside_def simp del: committed_sel(4))

lemma steady_save:
  assumes "steady E m i lk ev s0 s"
  shows "steady E m i lk ev s0 (committed E m (se_memory s) s)"
proof -
  have "op_at (committed E m (se_memory s) s) = op_at s"
    by (auto simp: op_at_def)
  with assms show ?thesis by (auto simp: steady_def set_aside_def simp del: committed_sel(4))
qed

lemma own_sync:
  assumes "m1 s = (Inr x, s1) \<Longrightarrow> Q ev s0 (Inr x) s1" "\<And>e. m1 s = (Inl e, s) \<Longrightarrow> Q ev s0 (Inl e) s"
    and "m1 s = (Inr x, s1) \<or> (\<exists>e. m1 s = (Inl e, s))"
  shows "meets R G C F Q (syncA m1 s) ev s0"
  by (rule meets_sync) (use assms in auto)

lemma own_persist:
  assumes "steady E m i lk ev s0 s" "vw_mintUrl V = m" "op_key v = JStr i"
    and "\<And>s'. steady E m i lk ev s0 s' \<Longrightarrow> synced E m s' \<Longrightarrow> op_at s' i = [v] \<Longrightarrow> Q ev s0 (Inr v) s'"
    and "\<And>e. steady E m i lk ev s0 s \<Longrightarrow> Q ev s0 (Inl e) s"
  shows "own_meets E m i lk Q (syncA (persistOperation E V v None cl) s) ev s0"
proof (rule own_sync[where x = v and ?s1.0 = "committed E m (with_operation v None cl (se_memory s)) s"])
  have "op_at (committed E m (with_operation v None cl (se_memory s)) s) i = [v]"
    using assms(1,3) by (auto simp: steady_def op_at_committed simp del: committed_sel(4))
  then show "Q ev s0 (Inr v) (committed E m (with_operation v None cl (se_memory s)) s)"
    using assms(1,3) by (intro assms(4)) (simp_all add: steady_commit)
qed (use persistOperation_cases[of E V v None cl s] assms in auto)

lemma own_advance:
  assumes "steady E m i lk ev s0 s" "vw_mintUrl V = m" "op_key v = JStr i" "''id'' \<notin> fst ` set fs"
    and "\<And>s'. steady E m i lk ev s0 s' \<Longrightarrow> synced E m s' \<Longrightarrow> op_at s' i = [moved v st fs s] \<Longrightarrow>
      Q ev s0 (Inr (moved v st fs s)) s'"
    and "\<And>e. steady E m i lk ev s0 s \<Longrightarrow> Q ev s0 (Inl e) s"
  shows "own_meets E m i lk Q (syncA (advance E V v st fs None cl) s) ev s0"
proof -
  have "syncA (advance E V v st fs None cl) s =
      (syncA (persistOperation E V (moved v st fs s) None cl) s :: (_, wallet_call, wallet_answer, _) task)"
    by (simp add: syncA_def advance_persist)
  then show ?thesis using assms by (simp add: own_persist op_key_moved)
qed

lemma own_credit:
  assumes "op_at s i = [w]" "lk \<Longrightarrow> i \<in> se_inflight s" "vw_mintUrl V = m" "op_key v = JStr i" "''id'' \<notin> fst ` set fs"
    and "ev = Some (c, Inr x)" "credit E w c x = Some ps" "completed c (moved v st fs s)"
    and "\<And>s'. part_keeps E m (Some i, lk) ev s s' \<Longrightarrow> Q ev s (Inr (moved v st fs s)) s'"
    and "\<And>e. steady E m i lk ev s s \<Longrightarrow> Q ev s (Inl e) s"
  shows "own_meets E m i lk Q (syncA (advance E V v st fs (Some ps) cl) s) ev s"
proof (rule own_sync[where x = "moved v st fs s" and
      ?s1.0 = "committed E m (with_operation (moved v st fs s) (Some (wd_proofs (se_memory s) @ ps)) cl (se_memory s)) s"])
  have k: "op_key (moved v st fs s) = JStr i" using assms(4,5) by (simp add: op_key_moved)
  show "Q ev s (Inr (moved v st fs s))
      (committed E m (with_operation (moved v st fs s) (Some (wd_proofs (se_memory s) @ ps)) cl (se_memory s)) s)"
    by (rule assms(9))
       (use assms(1,6-8) in \<open>auto simp: part_keeps_def credited_def op_at_committed[OF k] simp del: committed_sel(4)\<close>)
  show "Q ev s (Inl e) s" for e by (rule assms(10)) (use assms(1,2) in \<open>auto intro: steady_refl\<close>)
qed (use persistOperation_cases[of E V "moved v st fs s" "Some (wd_proofs (se_memory s) @ ps)" cl s] assms(3)
     in \<open>auto simp: advance_persist\<close>)

lemma own_save:
  assumes "steady E m i lk ev s0 s" "vw_mintUrl V = m"
    and "\<And>s'. steady E m i lk ev s0 s' \<Longrightarrow> synced E m s' \<Longrightarrow> op_at s' i = op_at s i \<Longrightarrow> Q ev s0 (Inr ()) s'"
    and "\<And>e. steady E m i lk ev s0 s \<Longrightarrow> Q ev s0 (Inl e) s"
  shows "own_meets E m i lk Q (syncA (saveCurrent E V) s) ev s0"
proof (rule own_sync[where x = "()" and ?s1.0 = "committed E m (se_memory s) s"])
  show "Q ev s0 (Inr ()) (committed E m (se_memory s) s)"
    by (rule assms(3)) (use assms(1) in \<open>auto simp: steady_save op_at_def\<close>)
qed (use saveCurrent_cases[of E V s] assms in auto)

text \<open>The answers of a call are those of one constructor, which the handler reads.\<close>

definition shaped :: "wallet_call \<Rightarrow> ('a \<Rightarrow> wallet_answer) \<Rightarrow> (wallet_answer \<Rightarrow> 'a option) \<Rightarrow> bool" where
  "shaped c K rd \<longleftrightarrow> (\<forall>x. fits c (Inr x) \<longrightarrow> (\<exists>y. x = K y \<and> rd x = Some y))"

lemma own_ask:
  assumes "steady E m i lk ev s0 s" "shaped c K rd" "\<not> completes c"
    and "\<And>y s'. steady E m i lk (Some (c, Inr (K y))) s' s' \<Longrightarrow> op_at s' i = op_at s i \<Longrightarrow>
      Q (Some (c, Inr (K y))) s' (Inr y) s'"
    and "\<And>e s'. steady E m i lk (Some (c, Inl e)) s' s' \<Longrightarrow> op_at s' i = op_at s i \<Longrightarrow> Q (Some (c, Inl e)) s' (Inl e) s'"
  shows "own_meets E m i lk Q (askA c rd s) ev s0"
proof (rule meets_ask)
  show "part_keeps E m (Some i, lk) ev s0 s" by (rule steady_keeps) fact
  show "allowed_call E m (Some i, lk) c s" using assms(1,3) by (auto simp: allowed_call_def steady_def)
  have *: "steady E m i lk ev' s' s' \<and> op_at s' i = op_at s i" if "part_relies E m (Some i, lk) s s'" for ev' s'
    using that assms(1) by (auto simp: part_relies_def steady_def)
  show "Q (Some (c, Inl e)) s' (Inl e) s'" if "part_relies E m (Some i, lk) s s'" for e s'
    using *[OF that] assms(5) by blast
  show "Q (Some (c, Inr x)) s' (case rd x of None \<Rightarrow> Inl Thrown_value | Some y \<Rightarrow> Inr y) s'"
    if "part_relies E m (Some i, lk) s s'" "fits c (Inr x)" for x s'
    using *[OF that(1)] assms(2)[unfolded shaped_def] that(2) assms(4) by force
qed

lemma own_complete:
  assumes "steady E m i lk ev s0 s" "shaped c K rd"
    and "synced E m s" "op_at s i = [v]" "holds c v"
    and "\<And>y s'. steady E m i lk (Some (c, Inr (K y))) s' s' \<Longrightarrow> op_at s' i = [v] \<Longrightarrow> Q (Some (c, Inr (K y))) s' (Inr y) s'"
    and "\<And>e s'. steady E m i lk (Some (c, Inl e)) s' s' \<Longrightarrow> op_at s' i = [v] \<Longrightarrow> Q (Some (c, Inl e)) s' (Inl e) s'"
  shows "own_meets E m i lk Q (askA c rd s) ev s0"
proof (rule meets_ask)
  show "part_keeps E m (Some i, lk) ev s0 s" by (rule steady_keeps) fact
  show "allowed_call E m (Some i, lk) c s" using assms(1,3-5) by (auto simp: allowed_call_def steady_def)
  have *: "steady E m i lk ev' s' s' \<and> op_at s' i = [v]" if "part_relies E m (Some i, lk) s s'" for ev' s'
    using that assms(1,4) by (auto simp: part_relies_def steady_def)
  show "Q (Some (c, Inl e)) s' (Inl e) s'" if "part_relies E m (Some i, lk) s s'" for e s'
    using *[OF that] assms(7) by blast
  show "Q (Some (c, Inr x)) s' (case rd x of None \<Rightarrow> Inl Thrown_value | Some y \<Rightarrow> Inr y) s'"
    if "part_relies E m (Some i, lk) s s'" "fits c (Inr x)" for x s'
    using *[OF that(1)] assms(2)[unfolded shaped_def] that(2) assms(6) by force
qed

lemma shapes:
  "shaped (PrepareReceive t) Is_swap as_swap"
  "shaped (CheckTokenState t) Is_state as_state"
  "shaped (CheckProofsState ps) Is_state as_state"
  "shaped (CheckMintQuote q) Is_mint_quote as_mint_quote"
  "shaped (PrepareMint mq) Is_mint as_mint"
  "shaped (CheckMeltQuote q) Is_melt_quote as_melt_quote"
  "shaped (CompletePreparedReceive v) Is_proofs as_proofs"
  "shaped (CompleteMint mq v) Is_proofs as_proofs"
  "shaped (CompletePreparedSend v) (case_prod Is_token) as_token"
  "shaped (ExecuteMelt lq p) Is_execution as_execution"
  "shaped (PrepareSend a ps) Is_send as_send"
  "shaped (RequestMint n) Is_mint_quote as_mint_quote"
  "shaped (RequestMelt t) Is_melt_quote as_melt_quote"
  "shaped (PrepareMelt lq ps) Is_melt as_melt"
  by (auto simp: shaped_def split: wallet_answer.splits)

end
