(* ===== verification/Wallet_Ends.thy ===== *)
theory Wallet_Ends
  imports Wallet_System
begin

section \<open>Every handler ends\<close>

text \<open>
  \<open>ends_within t n\<close>: whatever the answers are and whatever states the task finds, it ends after at most \<open>n\<close>
  answers. \<open>costs p n\<close> says so of a handler from every state; the costs of the parts of a handler add up.
\<close>

primrec ends_within :: "('s, 'c, 'r, 'a) task \<Rightarrow> nat \<Rightarrow> bool" where
  "ends_within (Done s r) n = True"
| "ends_within (Await s c k) n = (0 < n \<and> (\<forall>r s'. ends_within (k r s') (n - 1)))"

text \<open>A task that gets the given answers, each with the state that the task then finds.\<close>

fun answered :: "('s, 'c, 'r, 'a) task \<Rightarrow> ((failure + 'r) \<times> 's) list \<Rightarrow> ('s, 'c, 'r, 'a) task" where
  "answered (Await s c k) ((r, s') # rest) = answered (k r s') rest"
| "answered t _ = t"

lemma ends_within_answered:
  "ends_within t n \<Longrightarrow> n \<le> length rs \<Longrightarrow> \<exists>s r. answered t rs = Done s r"
proof (induction t arbitrary: n rs)
  case (Await s c k)
  then obtain r s' rest where rs: "rs = (r, s') # rest" by (cases rs) auto
  show ?case using Await.IH[of r s' "n - 1" rest] Await.prems by (simp add: rs)
qed simp

definition costs :: "('s, 'c, 'r, 'a) async \<Rightarrow> nat \<Rightarrow> bool" where
  "costs p n \<longleftrightarrow> (\<forall>s. ends_within (p s) n)"

lemma ends_more: "ends_within t j \<Longrightarrow> j \<le> k \<Longrightarrow> ends_within t k"
proof (induction t arbitrary: j k)
  case (Await s c g)
  then have "ends_within (g r s') (k - 1)" for r s'
    using Await.IH[of r s' "j - 1" "k - 1"] by simp
  with Await.prems show ?case by simp
qed simp

lemma ends_chain:
  "ends_within t j \<Longrightarrow> (\<And>r s. ends_within (f r s) k) \<Longrightarrow> ends_within (chain t f) (j + k)"
proof (induction t arbitrary: j)
  case (Await s c g)
  have "ends_within (chain (g r s') f) (j - 1 + k)" for r s'
    using Await.IH[of r s' "j - 1"] Await.prems by simp
  moreover have "j - 1 + k = j + k - 1" "0 < j" using Await.prems(1) by auto
  ultimately show ?case using Await.prems(1) by auto
qed (auto intro: ends_more[of _ k])

lemma ends_chain_free:
  "ends_within t j \<Longrightarrow> (\<And>r s. ends_within (f r s) 0) \<Longrightarrow> ends_within (chain t f) j"
  using ends_chain[of t j f 0] by simp

lemma costs_more: "costs p j \<Longrightarrow> j \<le> k \<Longrightarrow> costs p k"
  unfolding costs_def by (intro allI, rule ends_more[of _ j]) auto

named_theorems cost \<open>costs of the parts of a handler\<close>

lemma cost_sync [cost]: "costs (syncA m) 0"
  by (simp add: costs_def syncA_def split: prod.splits)

lemma cost_ask [cost]: "costs (askA c rd) 1"
  by (simp add: costs_def askA_def)

lemma cost_return [cost]: "costs (returnA x) 0"
  by (simp add: costs_def returnA_def)

lemma cost_throw [cost]: "costs (throwA e) 0"
  by (simp add: costs_def throwA_def)

lemma cost_bind [cost]: "costs p j \<Longrightarrow> (\<And>x. costs (f x) k) \<Longrightarrow> costs (bindA p f) (j + k)"
  unfolding costs_def bindA_def by (auto intro!: ends_chain split: sum.splits)

lemma cost_bind_free: "costs p j \<Longrightarrow> (\<And>x. costs (f x) 0) \<Longrightarrow> costs (bindA p f) j"
  using cost_bind[of p j f 0] by simp

lemma cost_try [cost]:
  "costs p j \<Longrightarrow> (\<And>e. costs (h e) k) \<Longrightarrow> (\<And>x. costs (f x) k) \<Longrightarrow> costs (tryA p h f) (j + k)"
  unfolding costs_def tryA_def by (auto intro!: ends_chain split: sum.splits)

lemma cost_catch [cost]: "costs p j \<Longrightarrow> (\<And>e. costs (h e) k) \<Longrightarrow> costs (catchA p h) (j + k)"
  unfolding catchA_def by (rule cost_try) (auto intro: costs_more[OF cost_return])

lemma cost_void [cost]: "costs p j \<Longrightarrow> costs (voidA p) j"
  unfolding costs_def voidA_def by (auto intro!: ends_chain_free)

lemma cost_awaited [cost]: "costs p j \<Longrightarrow> costs (awaited p) j"
  unfolding awaited_def by (rule cost_bind_free[OF _ cost_return])

lemma cost_locked [cost]: assumes "costs p j" shows "costs (runLocked i p) j"
proof -
  have "costs (bindA p (\<lambda>x. returnA (Some x))) j" by (rule cost_bind_free[OF assms cost_return])
  then show ?thesis unfolding costs_def runLocked_def finallyA_def by (auto intro!: ends_chain_free)
qed

lemma cost_if: "costs p n \<Longrightarrow> costs q n \<Longrightarrow> costs (if b then p else q) n"
  by simp

lemma cost_sum: "(\<And>x. costs (p x) n) \<Longrightarrow> (\<And>y. costs (q y) n) \<Longrightarrow> costs (case r of Inl x \<Rightarrow> p x | Inr y \<Rightarrow> q y) n"
  by (cases r) auto

lemma cost_option: "costs p n \<Longrightarrow> (\<And>y. costs (q y) n) \<Longrightarrow> costs (case r of None \<Rightarrow> p | Some y \<Rightarrow> q y) n"
  by (cases r) auto

lemma cost_pair: "(\<And>x y. costs (p x y) n) \<Longrightarrow> costs (case r of (x, y) \<Rightarrow> p x y) n"
  by (cases r) auto

text \<open>The cost of a part in a place where there is room for \<open>n\<close> answers.\<close>

lemma cost_zero: "costs (syncA m) n" "costs (returnA x) n" "costs (throwA e) n"
  by (rule costs_more[OF cost_sync] costs_more[OF cost_return] costs_more[OF cost_throw], simp)+

lemma cost_bind_sync: "(\<And>x. costs (f x) n) \<Longrightarrow> costs (bindA (syncA m) f) n"
  using cost_bind[OF cost_sync, of f n] by simp

lemma cost_bind_ask: "(\<And>x. costs (f x) n) \<Longrightarrow> costs (bindA (askA c rd) f) (Suc n)"
  using cost_bind[OF cost_ask, of f n] by simp

lemma cost_try_sync: "(\<And>e. costs (h e) n) \<Longrightarrow> (\<And>x. costs (f x) n) \<Longrightarrow> costs (tryA (syncA m) h f) n"
  using cost_try[OF cost_sync, of h n f] by simp

lemma cost_try_ask: "(\<And>e. costs (h e) n) \<Longrightarrow> (\<And>x. costs (f x) n) \<Longrightarrow> costs (tryA (askA c rd) h f) (Suc n)"
  using cost_try[OF cost_ask, of h n f] by simp

lemma cost_catch_free: "costs p n \<Longrightarrow> (\<And>e. costs (h e) 0) \<Longrightarrow> costs (catchA p h) n"
  using cost_catch[of p n h 0] by simp

lemma cost_ask_more: "costs (askA c rd) (Suc n)"
  by (rule costs_more[OF cost_ask]) simp

lemmas cost_steps = cost_zero cost_bind_sync cost_bind_ask cost_try_sync cost_try_ask cost_ask_more
  cost_if cost_sum cost_option cost_pair cost_void cost_awaited cost_locked

subsection \<open>The parts\<close>

lemma cost_caught: "costs (addCaught E V v e) n" "costs (outCaught E V v e) n" "costs (sendCaught E V v e) n"
  unfolding addCaught_def outCaught_def sendCaught_def by (rule cost_steps)+

lemma cost_receiveCaught: "costs (receiveCaught E V v e) (Suc n)"
proof -
  have ask: "costs (catchA (bindA (askA (CheckTokenState t) as_state) (\<lambda>st. returnA (g st))) (\<lambda>_. returnA d)) 1" for t g d
    using cost_catch[OF cost_bind[OF cost_ask cost_return] cost_return] by simp
  have "costs (receiveCaught E V v e) (1 + 0)"
    unfolding receiveCaught_def by (rule cost_bind[OF cost_if[OF ask cost_zero(2)] cost_sync])
  then show ?thesis by (rule costs_more) simp
qed

lemma cost_single: "costs (completeReceive E V u v) 1" "costs (issueAdd E V u q v) 1" "costs (recoverOut E V v) 1"
  "costs (reclaimSwap E V v w) 1" "costs (resumeSend E V v) 1"
  unfolding completeReceive_def issueAdd_def recoverOut_def reclaimSwap_def resumeSend_def One_nat_def
  by (rule cost_steps)+

lemma cost_free: "costs (expireAdd E V v) n" "costs (paidOut E V q v) n" "costs (pendingOut E V v) n" "costs (acceptedSend E V v) n"
  unfolding expireAdd_def paidOut_def pendingOut_def acceptedSend_def Let_def by (rule cost_steps)+

lemma cost_checkReceive: "costs (checkReceive E V u v) 2"
  unfolding checkReceive_def Let_def numeral_2_eq_2 by (rule cost_steps)+

lemma cost_settleReceive: "costs (settleReceive E V v) 4"
proof -
  have finish: "costs (catchA (completeReceive E V u w) (receiveCaught E V w)) (1 + 1)" for u w
    by (rule cost_catch[OF cost_single(1)]) (use cost_receiveCaught[where n = 0] in simp)
  have secure: "costs (catchA (bindA (syncA m) (\<lambda>_. completeReceive E V u w)) (receiveCaught E V w)) (1 + 1)" for u w m
    by (rule cost_catch) (use cost_bind_sync[OF cost_single(1)] cost_receiveCaught[where n = 0] in auto)
  have check: "costs (tryA (checkReceive E V u c) (receiveCaught E V c)
      (\<lambda>r. case r of Inl f \<Rightarrow> returnA f
        | Inr w \<Rightarrow> catchA (bindA (syncA (persistOperation E V w None False)) (\<lambda>_. completeReceive E V u w)) (receiveCaught E V w)))
      (2 + 2)" for u c
    by (rule cost_try[OF cost_checkReceive])
       (use cost_receiveCaught[where n = 1] secure in \<open>auto intro!: cost_sum cost_zero simp: numeral_2_eq_2\<close>)
  have rest: "costs (tryA (syncA m) (receiveCaught E V v) (\<lambda>c. tryA (checkReceive E V u c) (receiveCaught E V c)
      (\<lambda>r. case r of Inl f \<Rightarrow> returnA f
        | Inr w \<Rightarrow> catchA (bindA (syncA (persistOperation E V w None False)) (\<lambda>_. completeReceive E V u w)) (receiveCaught E V w)))) 4"
    for u m
    by (rule cost_try_sync) (use check costs_more[OF cost_receiveCaught[where n = 0], of 4] in auto)
  show ?thesis
    unfolding settleReceive_def
    by (rule cost_bind_sync, rule cost_if) (use costs_more[OF finish, of 4] rest in auto)
qed

lemma cost_payAdd: "costs (payAdd E V u q v) 2"
proof -
  have finish: "costs (catchA (issueAdd E V u q w) (addCaught E V w)) 1" for w
    by (rule cost_catch_free[OF cost_single(2) cost_caught(1)])
  have prepare: "costs (bindA (askA c rd) (\<lambda>x. syncA (f x))) 1" for c rd and f :: "'x \<Rightarrow> 'y stretch"
    by (rule cost_bind_free[OF cost_ask cost_sync])
  show ?thesis
    unfolding payAdd_def Let_def
    by (rule cost_if, rule costs_more[OF finish], simp)
       (use cost_try[OF prepare cost_caught(1)[where n = 1] finish] in \<open>simp add: numeral_2_eq_2\<close>)
qed

lemma cost_unpaidOut: "costs (unpaidOut E V u v) 3"
proof -
  have recover: "costs (catchA (recoverOut E V w) (outCaught E V w)) 1" for w
    by (rule cost_catch_free[OF cost_single(3) cost_caught(2)])
  have stored: "costs (catchA (bindA (syncA m) (\<lambda>_. recoverOut E V w)) (outCaught E V w)) 1" for w m
    by (rule cost_catch_free, rule cost_bind_sync, rule cost_single, rule cost_caught)
  have prepare: "costs (prepareRecovery E V u v) 2"
    unfolding prepareRecovery_def Let_def numeral_2_eq_2 by (rule cost_steps)+
  have "costs (tryA (prepareRecovery E V u v) (outCaught E V v)
      (\<lambda>r. case r of None \<Rightarrow> returnA ()
        | Some w \<Rightarrow> catchA (bindA (syncA (persistOperation E V w None False)) (\<lambda>_. recoverOut E V w)) (outCaught E V w))) (2 + 1)"
    by (rule cost_try[OF prepare cost_caught(2)]) (rule cost_option, rule cost_zero, rule stored)
  then show ?thesis
    unfolding unpaidOut_def
    by (intro cost_if) (use cost_caught(2) costs_more[OF recover, of 3] in \<open>auto simp: numeral_3_eq_3\<close>)
qed

lemma cost_observed: "costs (observeAdd E V u v) 3" "costs (observeCashOut E V u v) 4" "costs (observeSend E V v) 1"
  "costs (reclaimToken E V v) 3"
proof -
  show "costs (observeAdd E V u v) 3"
    unfolding observeAdd_def numeral_3_eq_3
    by (rule cost_try_ask cost_caught cost_if cost_try_sync cost_catch_free cost_free
        | (use cost_payAdd in \<open>simp add: numeral_2_eq_2\<close>; fail))+
  have four: "(4 :: nat) = Suc 3" by simp
  show "costs (observeCashOut E V u v) 4"
    unfolding observeCashOut_def four
    by (rule cost_try_ask cost_caught cost_if cost_catch_free cost_free cost_unpaidOut)+
  show "costs (observeSend E V v) 1"
    unfolding observeSend_def
    by (rule cost_if cost_catch_free cost_single cost_caught cost_zero cost_bind_ask[where n = 0, folded One_nat_def]
        cost_free cost_bind_sync)+
  have two: "(3 :: nat) = Suc (Suc 1)" by simp
  show "costs (reclaimToken E V v) 3"
    unfolding reclaimToken_def two Let_def
    by (rule cost_bind_ask cost_if cost_free cost_zero cost_bind_sync cost_try_ask cost_caught cost_catch_free cost_single)+
qed

lemma cost_created: "costs (completeOutgoing E V w v) 1" "costs (executeCashOut E V p v) 1"
proof -
  show "costs (completeOutgoing E V w v) 1"
    unfolding completeOutgoing_def by (rule cost_catch_free, unfold One_nat_def) (rule cost_steps)+
  show "costs (executeCashOut E V p v) 1"
    unfolding executeCashOut_def by (rule cost_catch_free, unfold One_nat_def) (rule cost_steps)+
qed

subsection \<open>The handlers\<close>

lemma cost_send_case:
  "(\<And>k s d f. costs (p k s d f) n) \<Longrightarrow> (\<And>s d f. costs (q s d f) n) \<Longrightarrow>
   costs (case r of Offline_send k s d f \<Rightarrow> p k s d f | Swap_send s d f \<Rightarrow> q s d f) n"
  by (cases r) auto

lemma cost_send: "costs (wallet_prepareOutgoing E V r) (Suc n)" "costs (wallet_createOutgoing E V r p) (Suc n)"
proof -
  show "costs (wallet_prepareOutgoing E V r) (Suc n)"
    unfolding wallet_prepareOutgoing_def by (rule cost_steps)+
  show "costs (wallet_createOutgoing E V r p) (Suc n)"
    unfolding wallet_createOutgoing_def
    by (rule cost_steps cost_send_case costs_more[OF cost_created(1)] | (simp; fail))+
qed

lemma cost_quotes: "costs (wallet_requestAdd E V a) (Suc n)" "costs (wallet_quoteCashOut V i) (Suc n)"
  "costs (wallet_prepareCashOut E V q) (Suc n)"
  unfolding wallet_requestAdd_def wallet_quoteCashOut_def wallet_prepareCashOut_def by (rule cost_steps)+

lemma cost_refresh: "costs (wallet_refreshOperation E V v) 4"
  unfolding wallet_refreshOperation_def wallet_refreshAdd_def wallet_refreshSend_def wallet_refreshCashOut_def
  by (rule cost_steps cost_settleReceive cost_observed costs_more[OF cost_observed(1)] costs_more[OF cost_observed(3)]
      | (simp; fail))+

lemma cost_reclaim: "costs (wallet_reclaimOperation E V v) 4"
  unfolding wallet_reclaimOperation_def wallet_reclaimSend_def
  by (rule cost_steps costs_more[OF cost_observed(4)] | (simp; fail))+

lemma cost_confirm: "costs (wallet_confirmCashOut E V p) 4"
  unfolding wallet_confirmCashOut_def by (rule cost_steps costs_more[OF cost_created(2)] | (simp; fail))+

lemma cost_receive: "costs (receiveToken E V t n) 4"
proof -
  have settle: "costs (bindA (runLocked i (settleReceive E V v)) g) 4" if "\<And>x. costs (g x) 0" for i v g
    by (rule cost_bind_free[OF cost_locked[OF cost_settleReceive]]) (rule that)
  show ?thesis unfolding receiveToken_def by (rule cost_bind_sync, rule settle) (rule cost_steps)+
qed

lemma cost_discard: "costs (discardIncomingToken E V v) n"
  unfolding discardIncomingToken_def by (rule cost_bind_free[OF cost_locked]) (rule cost_zero)+

lemma handlers_end: "costs (handler_of E V act) 4"
proof -
  have four: "(4 :: nat) = Suc 3" by simp
  show ?thesis
    by (cases act, simp_all only: handler_of.simps)
       (rule cost_void cost_refresh cost_reclaim cost_confirm cost_receive cost_discard
         cost_send[where n = 3, folded four] cost_quotes[where n = 3, folded four] cost_zero)+
qed

end
