(* ===== verification/Wallet_Shown.thy ===== *)
theory Wallet_Shown
  imports Wallet_Screens Wallet_Contract Wallet_Ends
begin

section \<open>What the screens show and what they do\<close>

text \<open>
  A screen's action beside the session: it asks the same questions as the handlers it calls, ends as they do,
  and comes back from its waiting view. What a confirmation spends is what the review showed.
\<close>

subsection \<open>Beside the session\<close>

lemma beside_chain:
  "beside x (chain t f) = chain (beside x t) (\<lambda>r xs. beside (fst xs) (f r (snd xs)))"
  by (induction t arbitrary: x) simp_all

lemma left_beside [simp]: "left_state (beside x t) = (x, left_state t)"
  by (cases t) simp_all

lemma ends_beside: "ends_within t n \<Longrightarrow> ends_within (beside x t) n"
  by (induction t arbitrary: n x) auto

lemma cost_calls [cost]: "costs p n \<Longrightarrow> costs (calls p) n"
  by (simp add: costs_def calls_def ends_beside)

lemma cost_setA [cost]: "costs (setA f) n"
  by (simp add: costs_def setA_def)

lemma cost_finallySet: "costs p n \<Longrightarrow> costs (finallySet p f) n"
  by (auto simp: costs_def finallySet_def finallyA_def intro: ends_chain_free)

text \<open>\<open>ends_with Q t\<close>: whatever happens, where the task ends \<open>Q\<close> holds.\<close>

primrec ends_with :: "('s \<Rightarrow> failure + 'a \<Rightarrow> bool) \<Rightarrow> ('s, 'c, 'r, 'a) task \<Rightarrow> bool" where
  "ends_with Q (Done s r) = Q s r"
| "ends_with Q (Await s c k) = (\<forall>r s'. ends_with Q (k r s'))"

lemma ends_with_mono: "ends_with Q t \<Longrightarrow> (\<And>s r. Q s r \<Longrightarrow> Q' s r) \<Longrightarrow> ends_with Q' t"
  by (induction t) auto

lemma ends_with_chain: "ends_with Q (chain t f) \<longleftrightarrow> ends_with (\<lambda>s r. ends_with Q (f r s)) t"
  by (induction t) auto

lemma ends_with_true: "ends_with (\<lambda>s r. True) t"
  by (induction t) auto

lemma ends_with_answered:
  "ends_within t n \<Longrightarrow> ends_with Q t \<Longrightarrow> n \<le> length rs \<Longrightarrow> \<exists>s r. answered t rs = Done s r \<and> Q s r"
proof (induction t arbitrary: n rs)
  case (Await s c k)
  then obtain r s' rest where rs: "rs = (r, s') # rest" by (cases rs) auto
  show ?case using Await.IH[of r s' "n - 1" rest] Await.prems by (simp add: rs)
qed simp

text \<open>
  An action comes back: started in a screen with \<open>P\<close>, after \<open>n\<close> answers at most it has ended without a throw,
  with \<open>Q\<close> of the screen.
\<close>

definition comes_back :: "nat \<Rightarrow> ('x \<Rightarrow> bool) \<Rightarrow> ('x \<Rightarrow> bool) \<Rightarrow> ('x, unit) action \<Rightarrow> bool" where
  "comes_back n P Q p \<longleftrightarrow>
     (\<forall>xs rs. P (fst xs) \<longrightarrow> n \<le> length rs \<longrightarrow> (\<exists>ys. answered (p xs) rs = Done ys (Inr ()) \<and> Q (fst ys)))"

definition leaves_screen :: "('x \<Rightarrow> bool) \<Rightarrow> ('x, unit) action \<Rightarrow> bool" where
  "leaves_screen Q p \<longleftrightarrow> (\<forall>xs. ends_with (\<lambda>ys r. r = Inr () \<and> Q (fst ys)) (p xs))"

lemma comes_backI:
  fixes p :: "('x, unit) action"
  assumes "costs p n" "leaves_screen Q p" "n \<le> m"
  shows "comes_back m P Q p"
  unfolding comes_back_def
proof (intro allI impI)
  fix xs and rs :: "((failure + wallet_answer) \<times> 'x \<times> wallet_session) list"
  assume "m \<le> length rs"
  then show "\<exists>ys. answered (p xs) rs = Done ys (Inr ()) \<and> Q (fst ys)"
    using ends_with_answered[of "p xs" n "\<lambda>ys r. r = Inr () \<and> Q (fst ys)" rs] assms
    by (auto simp: costs_def leaves_screen_def simp del: split_paired_All)
qed

lemma comes_back_at:
  fixes p :: "('x, unit) action"
  assumes "\<And>xs. P (fst xs) \<Longrightarrow> \<exists>q. p xs = q xs \<and> comes_back n P Q q"
  shows "comes_back n P Q p"
  unfolding comes_back_def
proof (intro allI impI)
  fix xs :: "'x \<times> wallet_session" and rs :: "((failure + wallet_answer) \<times> 'x \<times> wallet_session) list"
  assume "P (fst xs)" "n \<le> length rs"
  then show "\<exists>ys. answered (p xs) rs = Done ys (Inr ()) \<and> Q (fst ys)"
    using assms[of xs] by (auto simp: comes_back_def simp del: split_paired_All)
qed

lemma comes_back_this: "comes_back n P Q q \<Longrightarrow> \<exists>q'. q xs = q' xs \<and> comes_back n P Q q'"
  by auto

lemma comes_back_return: "(\<And>x. P x \<Longrightarrow> Q x) \<Longrightarrow> comes_back n P Q (returnA ())"
  by (auto simp: comes_back_def returnA_def)

lemma comes_back_set: "(\<And>x. P x \<Longrightarrow> Q (f x)) \<Longrightarrow> comes_back n P Q (setA f)"
  by (auto simp: comes_back_def setA_def)

named_theorems screens \<open>actions that leave the screen in a given state\<close>

lemma screen_set [screens]: "(\<And>x. Q (f x)) \<Longrightarrow> leaves_screen Q (setA f)"
  by (simp add: leaves_screen_def setA_def)

lemma screen_bind [screens]: "(\<And>y. leaves_screen Q (g y)) \<Longrightarrow> leaves_screen Q (bindA (setA f) g)"
  by (simp add: leaves_screen_def bindA_def setA_def)

text \<open>A \<open>try\<close> block whose returns leave \<open>Q\<close>, and whose throws are all caught.\<close>

definition tries_screen :: "('x \<Rightarrow> bool) \<Rightarrow> ('x, unit) action \<Rightarrow> bool" where
  "tries_screen Q p \<longleftrightarrow> (\<forall>xs. ends_with (\<lambda>ys r. r = Inr () \<longrightarrow> Q (fst ys)) (p xs))"

lemma tries_bind [screens]:
  assumes "\<And>y. tries_screen Q (g y)" shows "tries_screen Q (bindA (calls p) g)"
  unfolding tries_screen_def bindA_def ends_with_chain
proof (rule allI, rule ends_with_mono[OF ends_with_true])
  fix xs s r
  show "ends_with (\<lambda>ys r. r = Inr () \<longrightarrow> Q (fst ys)) (case r of Inl e \<Rightarrow> Done s (Inl e) | Inr x \<Rightarrow> g x s)"
    using assms by (cases r) (simp_all add: tries_screen_def del: split_paired_All)
qed

lemma tries_set [screens]: "leaves_screen Q (setA f) \<Longrightarrow> tries_screen Q (setA f)"
  by (simp add: tries_screen_def leaves_screen_def setA_def)

lemma tries_bind_set [screens]: "(\<And>y. tries_screen Q (g y)) \<Longrightarrow> tries_screen Q (bindA (setA f) g)"
  by (simp add: tries_screen_def bindA_def setA_def)

lemma tries_if [screens]: "tries_screen Q p \<Longrightarrow> tries_screen Q q \<Longrightarrow> tries_screen Q (if b then p else q)"
  by simp

lemma tries_any: "tries_screen (\<lambda>x. True) p"
  by (simp add: tries_screen_def ends_with_true)

lemma screen_catch [screens]:
  assumes "tries_screen Q p" "\<And>e. leaves_screen Q (h e)"
  shows "leaves_screen Q (catchA p h)"
  unfolding leaves_screen_def catchA_def tryA_def ends_with_chain
  using assms by (auto simp: tries_screen_def leaves_screen_def returnA_def simp del: split_paired_All split: sum.splits
      intro: ends_with_mono[where Q = "\<lambda>ys r. r = Inr () \<longrightarrow> Q (fst ys)"])

lemma screen_finally:
  assumes "leaves_screen P p" "\<And>x. P x \<Longrightarrow> Q (f x)"
  shows "leaves_screen Q (finallySet p f)"
  unfolding leaves_screen_def finallySet_def finallyA_def ends_with_chain
  using assms by (auto simp: leaves_screen_def simp del: split_paired_All intro: ends_with_mono[where Q = "\<lambda>ys r. r = Inr () \<and> P (fst ys)"])


subsection \<open>Every action comes back\<close>

lemma cost_action:
  "costs p n \<Longrightarrow> (\<And>e. costs (h e) 0) \<Longrightarrow> costs (bindA (setA f) (\<lambda>_. finallySet (catchA p h) g)) n"
  using cost_bind[OF cost_setA[of f 0], of "\<lambda>_. finallySet (catchA p h) g" n]
  by (simp add: cost_finallySet cost_catch_free)

lemma cost_call_set: "costs p n \<Longrightarrow> costs (bindA (calls p) (\<lambda>y. setA (f y))) n"
  by (rule cost_bind_free[OF cost_calls cost_setA])

lemma pay_read_back: "comes_back 5 (\<lambda>x. True) (\<lambda>x. py_view x = Pay_scan \<or> py_view x = Pay_review) (pay_read E V v)"
proof (rule comes_backI)
  show "costs (pay_read E V v) (0 + (0 + (1 + 0)))"
    unfolding pay_read_def
    by (rule cost_catch_free cost_bind cost_setA cost_calls cost_sync cost_send(1)[where n = 0, folded One_nat_def])+
  show "leaves_screen (\<lambda>x. py_view x = Pay_scan \<or> py_view x = Pay_review) (pay_read E V v)"
    unfolding pay_read_def by (rule screens | simp; fail)+
qed simp


lemma pay_submit_back: "comes_back 5 (\<lambda>x. py_view x = Pay_scan) (\<lambda>x. py_view x = Pay_scan \<or> py_view x = Pay_review) (pay_submit E V)"
proof (rule comes_back_at)
  fix xs :: "pay_screen \<times> wallet_session"
  let ?P = "\<lambda>x. py_view x = Pay_scan" and ?Q = "\<lambda>x. py_view x = Pay_scan \<or> py_view x = Pay_review"
  have "comes_back 5 ?P ?Q (pay_read E V v)" for v
    using pay_read_back[of E V v] by (simp add: comes_back_def)
  moreover have "comes_back 5 ?P ?Q (setA (\<lambda>x. x\<lparr>py_error := e\<rparr>))" for e
    by (rule comes_back_set) simp
  ultimately show "\<exists>q. pay_submit E V xs = q xs \<and> comes_back 5 ?P ?Q q"
    unfolding pay_submit_def by (cases "trim (py_pasted (fst xs)) = []") auto
qed

text \<open>The screens of a confirmation before it and after it.\<close>

definition pay_reviewing :: "pay_screen \<Rightarrow> bool" where
  "pay_reviewing x \<longleftrightarrow> py_view x = Pay_review \<and> \<not> py_confirming x"

definition pay_answered :: "pay_screen \<Rightarrow> bool" where
  "pay_answered x \<longleftrightarrow> (py_view x = Pay_review \<or> py_view x = Pay_token) \<and> \<not> py_confirming x"

lemma pay_confirm_cases: "pay_confirm E V xs = returnA () xs \<or> (\<exists>r seen. pay_confirm E V xs = pay_run E V r seen xs)"
  by (cases "py_request (fst xs)"; cases "py_preparation (fst xs)") (auto simp: pay_confirm_def)

lemma pay_confirm_back: "comes_back 5 pay_reviewing pay_answered (pay_confirm E V)"
proof (rule comes_back_at)
  fix xs :: "pay_screen \<times> wallet_session"
  have "costs (pay_spend E V r seen) (1 + 1)" for r seen
    unfolding pay_spend_def
    by (rule cost_bind[OF cost_calls[OF cost_send(1)[where n = 0, folded One_nat_def]]], rule cost_if, rule cost_setA)
       (rule cost_call_set[OF cost_send(2)[where n = 0, folded One_nat_def]])
  then have cost: "costs (pay_run E V r seen) (1 + 1)" for r seen
    unfolding pay_run_def by (rule cost_action) (rule cost_setA)
  have "leaves_screen pay_answered (pay_run E V r seen)" for r seen
    unfolding pay_run_def pay_spend_def
    by (rule screens, rule screen_finally[where P = "\<lambda>x. py_view x = Pay_review \<or> py_view x = Pay_token"])
       (rule screens | simp add: pay_answered_def; fail)+
  with cost have "comes_back 5 pay_reviewing pay_answered (pay_run E V r seen)" for r seen
    by (rule comes_backI) simp
  moreover have "comes_back 5 pay_reviewing pay_answered (returnA ())"
    by (rule comes_back_return) (simp add: pay_reviewing_def pay_answered_def)
  ultimately show "\<exists>q. pay_confirm E V xs = q xs \<and> comes_back 5 pay_reviewing pay_answered q"
    using pay_confirm_cases[of E V xs] by blast
qed


text \<open>The same shape in the other screens: set the flag, try, catch, reset the flag.\<close>

lemma flag_back:
  assumes "costs p n" "n \<le> m" "\<And>x. Q (g x)"
  shows "comes_back m P Q (bindA (setA f) (\<lambda>_. finallySet (catchA p (\<lambda>e. setA (h e))) g))"
proof (rule comes_backI[OF cost_action[OF assms(1)]])
  show "leaves_screen Q (bindA (setA f) (\<lambda>_. finallySet (catchA p (\<lambda>e. setA (h e))) g))"
    by (rule screens, rule screen_finally[where P = "\<lambda>x. True"], rule screen_catch, rule tries_any, rule screen_set)
       (simp_all add: assms(3))
qed (rule cost_setA, rule assms(2))

lemma cash_out_price_back: "comes_back 5 (\<lambda>x. \<not> cs_busy x) (\<lambda>x. \<not> cs_busy x) (cash_out_price E V)"
proof (rule comes_back_at)
  fix xs :: "cash_out_screen \<times> wallet_session"
  have "costs (bindA (calls (wallet_quoteCashOut V i)) (\<lambda>q. bindA (calls (wallet_prepareCashOut E V q)) (\<lambda>p. setA (f q p)))) (1 + 1)"
    for i and f :: "melt_quote \<Rightarrow> cash_out_preparation \<Rightarrow> cash_out_screen \<Rightarrow> cash_out_screen"
    by (rule cost_bind[OF cost_calls[OF cost_quotes(2)[where n = 0, folded One_nat_def]]])
       (rule cost_call_set[OF cost_quotes(3)[where n = 0, folded One_nat_def]])
  from flag_back[OF this, of 5 "\<lambda>x. \<not> cs_busy x" "\<lambda>x. x\<lparr>cs_busy := False\<rparr>"]
  show "\<exists>q. cash_out_price E V xs = q xs \<and> comes_back 5 (\<lambda>x. \<not> cs_busy x) (\<lambda>x. \<not> cs_busy x) q"
    unfolding cash_out_price_def Let_def
    by (cases "trim (cs_invoice (fst xs)) = []") (auto intro!: comes_back_set)
qed

definition cash_out_answered :: "cash_out_screen \<Rightarrow> bool" where
  "cash_out_answered x \<longleftrightarrow> cs_view x = Cash_review \<or> cs_view x = Cash_status"

lemma cash_out_confirm_back: "comes_back 5 (\<lambda>x. cs_view x = Cash_review) cash_out_answered (cash_out_confirm E V)"
proof (rule comes_back_at)
  fix xs :: "cash_out_screen \<times> wallet_session"
  assume review: "cs_view (fst xs) = Cash_review"
  let ?run = "\<lambda>q p. bindA (setA (\<lambda>x. x\<lparr>cs_view := Cash_dispatching, cs_error := None\<rparr>)) (\<lambda>_.
      catchA (cash_out_spend E V q p) (\<lambda>reason. setA (\<lambda>x. x\<lparr>cs_error :=
        Some (message_or ''The payment could not be prepared.'' reason), cs_view := Cash_review\<rparr>)))"
  have cost: "costs (cash_out_spend E V q p) (1 + 4)" for q p
    unfolding cash_out_spend_def
    by (rule cost_bind[OF cost_calls[OF cost_quotes(3)[where n = 0, folded One_nat_def]]], rule cost_if, rule cost_setA)
       (rule cost_call_set[OF cost_confirm])
  have "costs (?run q p) (0 + (1 + 4))" for q p
    by (rule cost_bind[OF cost_setA cost_catch_free[OF cost cost_setA]])
  moreover have "leaves_screen cash_out_answered (?run q p)" for q p
    unfolding cash_out_spend_def by (rule screens | simp add: cash_out_answered_def; fail)+
  ultimately have "comes_back 5 (\<lambda>x. cs_view x = Cash_review) cash_out_answered (?run q p)" for q p
    by (rule comes_backI) simp
  moreover have "cash_out_confirm E V xs = returnA () xs \<or> (\<exists>q p. cash_out_confirm E V xs = ?run q p xs)"
    by (cases "cs_quote (fst xs)"; cases "cs_preparation (fst xs)") (auto simp: cash_out_confirm_def)
  moreover have "comes_back 5 (\<lambda>x. cs_view x = Cash_review) cash_out_answered (returnA ())"
    by (rule comes_back_return) (simp add: cash_out_answered_def)
  ultimately show "\<exists>q. cash_out_confirm E V xs = q xs \<and> comes_back 5 (\<lambda>x. cs_view x = Cash_review) cash_out_answered q"
    by blast
qed


lemma cost_refreshed: "costs (wallet_refreshAdd E V v) 4" "costs (wallet_refreshCashOut E V v) 4"
  unfolding wallet_refreshAdd_def wallet_refreshCashOut_def
  by (rule cost_steps cost_observed costs_more[OF cost_observed(1)] | (simp; fail))+

lemma cash_out_refresh_back: "comes_back 5 (\<lambda>x. \<not> cs_busy x) (\<lambda>x. \<not> cs_busy x) (cash_out_refresh E V)"
proof (rule comes_back_at)
  fix xs :: "cash_out_screen \<times> wallet_session"
  show "\<exists>q. cash_out_refresh E V xs = q xs \<and> comes_back 5 (\<lambda>x. \<not> cs_busy x) (\<lambda>x. \<not> cs_busy x) q"
  proof (cases "shown_operation ''cashout'' (cs_operationId (fst xs)) (snd xs)")
    case None
    then show ?thesis by (simp only: cash_out_refresh_def option.case) (rule comes_back_this[OF comes_back_return])
  next
    case (Some v)
    then show ?thesis
      by (simp only: cash_out_refresh_def option.case)
         (rule comes_back_this[OF flag_back[OF cost_calls[OF cost_refreshed(2)]]], simp_all)
  qed
qed

lemma add_refresh_back: "comes_back 5 (\<lambda>x. \<not> ad_busy x) (\<lambda>x. \<not> ad_busy x) (add_refresh E V)"
proof (rule comes_back_at)
  fix xs :: "add_screen \<times> wallet_session"
  show "\<exists>q. add_refresh E V xs = q xs \<and> comes_back 5 (\<lambda>x. \<not> ad_busy x) (\<lambda>x. \<not> ad_busy x) q"
  proof (cases "shown_operation ''add'' (ad_operationId (fst xs)) (snd xs)")
    case None
    then show ?thesis by (simp only: add_refresh_def option.case) (rule comes_back_this[OF comes_back_return])
  next
    case (Some v)
    then show ?thesis
      by (simp only: add_refresh_def option.case)
         (rule comes_back_this[OF flag_back[OF cost_calls[OF cost_refreshed(1)]]], simp_all)
  qed
qed

lemma add_request_back: "comes_back 5 (\<lambda>x. \<not> ad_busy x) (\<lambda>x. \<not> ad_busy x) (add_request E V)"
proof (rule comes_back_at)
  fix xs :: "add_screen \<times> wallet_session"
  assume idle: "\<not> ad_busy (fst xs)"
  show "\<exists>q. add_request E V xs = q xs \<and> comes_back 5 (\<lambda>x. \<not> ad_busy x) (\<lambda>x. \<not> ad_busy x) q"
  proof (cases "parseAmount (ad_amount (fst xs))")
    case None
    then show ?thesis by (simp only: add_request_def option.case) (rule comes_back_this[OF comes_back_set], simp)
  next
    case (Some a)
    then show ?thesis
      by (simp only: add_request_def option.case)
         (rule comes_back_this[OF flag_back[OF cost_call_set[OF cost_quotes(1)[where n = 0]]]], simp_all)
  qed
qed

lemma detail_run_back: "comes_back 5 (\<lambda>x. \<not> dt_busy x) (\<lambda>x. \<not> dt_busy x) (detail_run E V v act)"
proof -
  have "costs (detail_handler E V v act) 4"
    by (cases act) (simp_all add: cost_refresh cost_reclaim cost_discard)
  from flag_back[OF cost_calls[OF this], of 5 "\<lambda>x. \<not> dt_busy x" "\<lambda>x. x\<lparr>dt_busy := False\<rparr>"]
  show ?thesis unfolding detail_run_def by simp
qed

definition request_idle :: "request_screen \<Rightarrow> bool" where
  "request_idle x \<longleftrightarrow> \<not> rq_receiving x \<and> rq_view x \<noteq> Req_receiving"

lemma request_receive_back: "comes_back 5 request_idle request_idle (request_receive E V online v)"
proof (rule comes_back_at)
  fix xs :: "request_screen \<times> wallet_session"
  let ?spend = "\<lambda>memo. bindA (calls (receiveToken E V (trim v) memo)) (\<lambda>settled.
      setA (\<lambda>x. x\<lparr>rq_operationId := Some (op_key settled), rq_token := [], rq_view := Req_result\<rparr>))"
  let ?run = "\<lambda>memo. bindA (setA (\<lambda>x. x\<lparr>rq_receiving := True, rq_view := Req_receiving, rq_error := None\<rparr>)) (\<lambda>_.
      finallySet (catchA (?spend memo) (\<lambda>reason. setA (\<lambda>x. x\<lparr>rq_error :=
        Some (message_or ''The token could not be secured.'' reason), rq_view := Req_present\<rparr>)))
        (\<lambda>x. x\<lparr>rq_receiving := False\<rparr>))"
  have "costs (?run memo) 4" for memo
    by (rule cost_action[OF cost_call_set[OF cost_receive] cost_setA])
  moreover have "leaves_screen request_idle (?run memo)" for memo
    by (rule screens, rule screen_finally[where P = "\<lambda>x. rq_view x \<noteq> Req_receiving"])
       (rule screens | simp add: request_idle_def; fail)+
  ultimately have run: "comes_back 5 request_idle request_idle (?run memo)" for memo
    by (rule comes_backI) simp
  have rest: "comes_back 5 request_idle request_idle (returnA ())"
    "comes_back 5 request_idle request_idle (setA (\<lambda>x. x\<lparr>rq_error := e\<rparr>))" for e
    by (auto intro: comes_back_return comes_back_set simp: request_idle_def)
  show "\<exists>q. request_receive E V online v xs = q xs \<and> comes_back 5 request_idle request_idle q"
    unfolding request_receive_def Let_def
    using run rest by (cases "rq_receiving (fst xs)"; cases online) (simp_all del: split_paired_All, blast+)
qed


subsection \<open>Between the screens\<close>

lemma back_home: "wl_screen (go_back (go_back w)) = At_home"
  by (simp add: go_back_def wallet_navigate_def)

lemma ordered_all: "mset (ordered_operations s) = mset (wd_operations (se_memory s))"
  by (simp add: ordered_operations_def)

text \<open>An operation opened from a list is shown while the wallet has it.\<close>

lemma opened_is_rendered:
  "v \<in> set (wd_operations (se_memory s)) \<Longrightarrow> rendered (openOperation v w) s = At_operation"
  by (auto simp: rendered_def openOperation_def selected_operation_def find_None_iff)

text \<open>A mint that normalises has an \<open>http\<close> address, so the second check of the form never fails.\<close>

lemma normalized_http: "normalizeMintUrl U v = Inr n \<Longrightarrow> http_prefix n"
  by (auto simp: normalizeMintUrl_Inr http_or_https_def normal_url_text_eq http_prefix_def url_origin_def)

text \<open>What the form of the add screen asks the mint for is a positive safe amount.\<close>

lemma add_request_amount:
  "add_request E V (x, s) = Await xs c k \<Longrightarrow> \<exists>a. c = RequestMint a \<and> is_safe a \<and> 0 < a"
  using parseAmount_facts[of "ad_amount x"]
  by (auto simp: add_request_def setA_def bindA_def finallySet_def finallyA_def catchA_def tryA_def calls_def
      wallet_requestAdd_def syncA_def needM_def askA_def split: option.splits)

end
