(* ===== verification/Wallet_Owned.thy ===== *)
theory Wallet_Owned
  imports Wallet_Contract
begin

section \<open>The handlers meet their contracts\<close>

text \<open>
  Each handler of one operation, from the state in which it starts to its end: it guarantees its part
  whatever the answers are and whatever the other handlers do meanwhile.
\<close>

named_theorems owned \<open>parts of the handler of an operation\<close>

lemma case_InrI: "P x \<Longrightarrow> case Inr x of Inl e \<Rightarrow> A e | Inr y \<Rightarrow> P y"
  by simp

lemma case_InlI: "A e \<Longrightarrow> case Inl e of Inl e' \<Rightarrow> A e' | Inr y \<Rightarrow> P y"
  by simp

lemma case_sumI: "(\<And>e. r = Inl e \<Longrightarrow> A e) \<Longrightarrow> (\<And>x. r = Inr x \<Longrightarrow> P x) \<Longrightarrow> case r of Inl e \<Rightarrow> A e | Inr x \<Rightarrow> P x"
  by (cases r) simp_all

lemma meets_if:
  "(b \<Longrightarrow> meets R G C F Q (p s) ev s0) \<Longrightarrow> (\<not> b \<Longrightarrow> meets R G C F Q (q s) ev s0) \<Longrightarrow>
   meets R G C F Q ((if b then p else q) s) ev s0"
  by simp

lemma meets_cases:
  "meets R G C F Q (p x s) ev s0 \<Longrightarrow> meets R G C F Q ((case Inl x of Inl x \<Rightarrow> p x | Inr y \<Rightarrow> q y) s) ev s0"
  "meets R G C F Q (q y s) ev s0 \<Longrightarrow> meets R G C F Q ((case Inr y of Inl x \<Rightarrow> p x | Inr y \<Rightarrow> q y) s) ev s0"
  "meets R G C F Q (n s) ev s0 \<Longrightarrow> meets R G C F Q ((case None of None \<Rightarrow> n | Some x \<Rightarrow> h x) s) ev s0"
  "meets R G C F Q (h x s) ev s0 \<Longrightarrow> meets R G C F Q ((case Some x of None \<Rightarrow> n | Some x \<Rightarrow> h x) s) ev s0"
  by simp_all

lemma own_guard:
  "(b \<Longrightarrow> Q ev s0 (Inr ()) s) \<Longrightarrow> (\<not> b \<Longrightarrow> Q ev s0 (Inl e) s) \<Longrightarrow> meets R G C F Q (syncA (guardM b e) s) ev s0"
  by (rule meets_sync) (simp add: guardM_def)

lemma own_lift:
  "(\<And>x. r = Inr x \<Longrightarrow> Q ev s0 (Inr x) s) \<Longrightarrow> (\<And>e. r = Inl e \<Longrightarrow> Q ev s0 (Inl e) s) \<Longrightarrow>
   meets R G C F Q (syncA (liftM r) s) ev s0"
  by (rule meets_sync) (cases r; simp add: liftM_def)

lemma own_read: "Q ev s0 (Inr (f s)) s \<Longrightarrow> meets R G C F Q (syncA (readM f) s) ev s0"
  by (rule meets_sync) (simp add: readM_def)

text \<open>A stretch of several parts is the sequence of the parts.\<close>

lemma own_seq:
  "meets R G C F Q (bindA (syncA m1) (\<lambda>x. syncA (f x)) s) ev s0 \<Longrightarrow> meets R G C F Q (syncA (bindM m1 f) s) ev s0"
  by (auto simp: bindA_def syncA_def bindM_def split: prod.splits sum.splits)

lemmas own_asks =
  own_ask[OF _ shapes(1)] own_ask[OF _ shapes(2)] own_ask[OF _ shapes(3)] own_ask[OF _ shapes(4)]
  own_ask[OF _ shapes(5)] own_ask[OF _ shapes(6)]

lemmas own_parts =
  case_InrI case_InlI meets_if meets_cases own_guard own_lift own_read own_seq own_asks own_persist own_advance own_save contracts

lemma own_need:
  "(\<And>x. v = Some x \<Longrightarrow> Q ev s0 (Inr x) s) \<Longrightarrow> (v = None \<Longrightarrow> Q ev s0 (Inl e) s) \<Longrightarrow>
   meets R G C F Q (syncA (needM v e) s) ev s0"
  by (rule meets_sync) (cases v; simp add: needM_def)

lemma own_toast: "Q ev s0 (Inr ()) (s\<lparr>se_toast := Some t\<rparr>) \<Longrightarrow> meets R G C F Q (syncA (toast t) s) ev s0"
  by (rule meets_sync) (simp add: toast_def)

lemma op_at_other [simp]:
  "op_at (s\<lparr>se_toast := t\<rparr>) i = op_at s i" "op_at (s\<lparr>se_inflight := l\<rparr>) i = op_at s i"
  "op_at (s\<lparr>se_draws := n\<rparr>) i = op_at s i"
  "synced E m (s\<lparr>se_toast := t\<rparr>) = synced E m s" "synced E m (s\<lparr>se_inflight := l\<rparr>) = synced E m s"
  "synced E m (s\<lparr>se_draws := n\<rparr>) = synced E m s"
  by (simp_all add: op_at_def synced_def)

lemma part_keeps_toast [simp]: "part_keeps E m p ev s0 (s\<lparr>se_toast := t\<rparr>) = part_keeps E m p ev s0 s"
  by (simp add: part_keeps_def credited_def set_aside_def)

lemma part_keeps_unlock [simp]:
  "part_keeps E m (Some i, lk) ev s0 (s\<lparr>se_inflight := se_inflight s - {i}\<rparr>) = part_keeps E m (Some i, lk) ev s0 s"
  by (auto simp: part_keeps_def credited_def set_aside_def)

lemma steady_lock: "steady E m i lk ev s0 s \<Longrightarrow> lk \<Longrightarrow> i \<in> se_inflight s"
  by (simp add: steady_def)

lemmas own_rules = own_need own_toast own_parts

lemmas own_completes =
  own_complete[OF _ shapes(7)] own_complete[OF _ shapes(8)] own_complete[OF _ shapes(9)] own_complete[OF _ shapes(10)]

text \<open>A handler commits to the document of the mint of its view, whatever the application shows later.\<close>

locale mint_view =
  fixes V :: wallet_view and m :: string
  assumes V: "vw_mintUrl V = m"
begin

text \<open>The receiver of a token.\<close>

lemma own_receiveCaught [owned]:
  assumes "steady E m i lk ev s0 s" "op_key latest = JStr i"
    and "\<And>ev s0 r s. part_keeps E m (Some i, lk) ev s0 s \<Longrightarrow> Q ev s0 r s"
  shows "own_meets E m i lk Q (receiveCaught E V latest e s) ev s0"
  using assms(1) unfolding receiveCaught_def
  by - (rule own_rules assms V | assumption | (simp; fail) | (erule steady_keeps))+

lemma own_completeReceive [owned]:
  assumes "steady E m i lk ev s0 s" "op_key latest = JStr i" "op_at s i = [latest]"
    and kind: "field latest ''kind'' \<in> {JStr ''send'', JStr ''receive''}"
    and "\<And>ev s0 e s. steady E m i lk ev s0 s \<Longrightarrow> Q ev s0 (Inl e) s"
    and "\<And>ev s0 x s. part_keeps E m (Some i, lk) ev s0 s \<Longrightarrow> Q ev s0 (Inr x) s"
  shows "own_meets E m i lk Q (completeReceive E V unit latest s) ev s0"
  using assms(1,3) unfolding completeReceive_def
  by - (rule own_rules own_completes[where v = latest] own_credit[where w = latest] assms V | assumption | erule steady_lock
    | (use kind in \<open>auto simp: swap_member_def field_moved\<close>; fail))+

lemma own_checkReceive [owned]:
  assumes "steady E m i lk ev s0 s" "op_key checking = JStr i"
    and "\<And>ev s0 e s. steady E m i lk ev s0 s \<Longrightarrow> Q ev s0 (Inl e) s"
    and "\<And>ev s0 x s. part_keeps E m (Some i, lk) ev s0 s \<Longrightarrow> Q ev s0 (Inr (Inl x)) s"
    and "\<And>ev s0 s fs. steady E m i lk ev s0 s \<Longrightarrow> ''id'' \<notin> fst ` set fs \<Longrightarrow> ''kind'' \<notin> fst ` set fs \<Longrightarrow>
      Q ev s0 (Inr (Inr (moved checking ''securing'' fs s))) s"
  shows "own_meets E m i lk Q (checkReceive E V unit checking s) ev s0"
  using assms(1) unfolding checkReceive_def Let_def
  by - (rule own_rules assms V | assumption | (simp; fail) | (erule steady_keeps))+

lemma own_settleReceive [owned]:
  assumes "steady E m i lk ev s0 s" "op_key v = JStr i" "op_at s i = [v]"
    and kind: "field v ''kind'' \<in> {JStr ''send'', JStr ''receive''}"
    and "\<And>ev s0 r s. part_keeps E m (Some i, lk) ev s0 s \<Longrightarrow> Q ev s0 r s"
  shows "own_meets E m i lk Q (settleReceive E V v s) ev s0"
  using assms(1,3) unfolding settleReceive_def
  by - (rule own_rules owned assms V | assumption | erule steady_keeps
    | (use kind assms(2) in \<open>simp add: kind_moved op_key_moved\<close>; fail))+

text \<open>Adding cash.\<close>

lemma own_addCaught [owned]:
  assumes "steady E m i lk ev s0 s" "op_key latest = JStr i"
    and "\<And>ev s0 r s. part_keeps E m (Some i, lk) ev s0 s \<Longrightarrow> Q ev s0 r s"
  shows "own_meets E m i lk Q (addCaught E V latest e s) ev s0"
  using assms(1) unfolding addCaught_def
  by - (rule own_rules assms V | assumption | (simp; fail) | (erule steady_keeps))+

lemma own_issueAdd [owned]:
  assumes "steady E m i lk ev s0 s" "op_key issuing = JStr i" "op_at s i = [issuing]"
    and "\<And>ev s0 e s. steady E m i lk ev s0 s \<Longrightarrow> Q ev s0 (Inl e) s"
    and "\<And>ev s0 x s. part_keeps E m (Some i, lk) ev s0 s \<Longrightarrow> Q ev s0 (Inr x) s"
  shows "own_meets E m i lk Q (issueAdd E V unit checked issuing s) ev s0"
  using assms(1,3) unfolding issueAdd_def
  by - (rule own_rules own_completes[where v = issuing] own_credit[where w = issuing] assms V | assumption | erule steady_lock
    | (simp add: field_moved; fail))+

lemma own_payAdd [owned]:
  assumes "steady E m i lk ev s0 s" "op_key issuing = JStr i" "op_at s i = [issuing]"
    and "\<And>ev s0 r s. part_keeps E m (Some i, lk) ev s0 s \<Longrightarrow> Q ev s0 r s"
  shows "own_meets E m i lk Q (payAdd E V unit checked issuing s) ev s0"
  using assms(1,3) unfolding payAdd_def Let_def
  by - (rule own_rules owned assms V | assumption | erule steady_keeps
    | (use assms(2) in \<open>simp add: op_key_moved\<close>; fail))+

text \<open>Cashing out.\<close>

lemma own_outCaught [owned]:
  assumes "steady E m i lk ev s0 s" "op_key latest = JStr i"
    and "\<And>ev s0 r s. part_keeps E m (Some i, lk) ev s0 s \<Longrightarrow> Q ev s0 r s"
  shows "own_meets E m i lk Q (outCaught E V latest e s) ev s0"
  using assms(1) unfolding outCaught_def
  by - (rule own_rules assms V | assumption | (simp; fail) | (erule steady_keeps))+

lemma own_paidOut [owned]:
  assumes "steady E m i lk ev s s" "op_key latest = JStr i" "op_at s i = [latest]"
    and paid: "ev = Some (CheckMeltQuote q, Inr (Is_melt_quote checked))" "mlq_state checked = PAID"
    and "\<And>ev s0 e s. steady E m i lk ev s0 s \<Longrightarrow> Q ev s0 (Inl e) s"
    and "\<And>ev s0 x s. part_keeps E m (Some i, lk) ev s0 s \<Longrightarrow> Q ev s0 (Inr x) s"
  shows "own_meets E m i lk Q (paidOut E V checked latest s) ev s"
  using assms(1,3) unfolding paidOut_def Let_def
  by - (rule own_rules own_credit[where w = latest and c = "CheckMeltQuote q" and x = "Is_melt_quote checked"] assms V
    | assumption | erule steady_lock | (use paid in \<open>simp add: field_moved out_erased_def\<close>; fail)
    | (use paid in \<open>simp split: if_splits sum.splits\<close>; fail))+

lemma own_pendingOut [owned]:
  assumes "steady E m i lk ev s0 s" "op_key latest = JStr i"
    and "\<And>ev s0 e s. steady E m i lk ev s0 s \<Longrightarrow> Q ev s0 (Inl e) s"
    and "\<And>ev s0 x s. part_keeps E m (Some i, lk) ev s0 s \<Longrightarrow> Q ev s0 (Inr x) s"
  shows "own_meets E m i lk Q (pendingOut E V latest s) ev s0"
  using assms(1) unfolding pendingOut_def
  by - (rule own_rules assms V | assumption | (simp; fail) | (erule steady_keeps))+

lemma own_recoverOut [owned]:
  assumes "steady E m i lk ev s0 s" "op_key latest = JStr i" "op_at s i = [latest]"
    and kind: "field latest ''kind'' \<notin> {JStr ''send'', JStr ''receive''}"
    and "\<And>ev s0 e s. steady E m i lk ev s0 s \<Longrightarrow> Q ev s0 (Inl e) s"
    and "\<And>ev s0 x s. part_keeps E m (Some i, lk) ev s0 s \<Longrightarrow> Q ev s0 (Inr x) s"
  shows "own_meets E m i lk Q (recoverOut E V latest s) ev s0"
  using assms(1,3) unfolding recoverOut_def
  by - (rule own_rules own_completes[where v = latest] own_credit[where w = latest] assms V | assumption | erule steady_lock
    | (use kind in \<open>simp add: swap_member_def field_moved out_erased_def\<close>; fail))+

lemma own_prepareRecovery [owned]:
  assumes "steady E m i lk ev s0 s" "op_key latest = JStr i"
    and "\<And>ev s0 e s. steady E m i lk ev s0 s \<Longrightarrow> Q ev s0 (Inl e) s"
    and "\<And>ev s0 x s. part_keeps E m (Some i, lk) ev s0 s \<Longrightarrow> Q ev s0 (Inr None) s"
    and "\<And>ev s0 s fs. steady E m i lk ev s0 s \<Longrightarrow> ''id'' \<notin> fst ` set fs \<Longrightarrow> ''kind'' \<notin> fst ` set fs \<Longrightarrow>
      Q ev s0 (Inr (Some (moved latest ''unknown'' fs s))) s"
  shows "own_meets E m i lk Q (prepareRecovery E V unit latest s) ev s0"
  using assms(1) unfolding prepareRecovery_def Let_def
  by - (rule own_rules assms V | assumption | (simp; fail) | (erule steady_keeps))+

lemma own_unpaidOut [owned]:
  assumes "steady E m i lk ev s0 s" "op_key v = JStr i" "op_at s i = [v]"
    and kind: "field v ''kind'' \<notin> {JStr ''send'', JStr ''receive''}"
    and "\<And>ev s0 r s. part_keeps E m (Some i, lk) ev s0 s \<Longrightarrow> Q ev s0 r s"
  shows "own_meets E m i lk Q (unpaidOut E V unit v s) ev s0"
  using assms(1,3) unfolding unpaidOut_def
  by - (rule own_rules owned assms V | assumption | erule steady_keeps
    | (use kind assms(2) in \<open>simp add: kind_moved op_key_moved\<close>; fail))+

lemma own_executeCashOut [owned]:
  assumes "steady E m i lk ev s0 s" "op_key v = JStr i" "op_at s i = [v]" "synced E m s"
    and held: "holds (ExecuteMelt (cp_quote preparation) (cp_prepared preparation)) v"
    and "\<And>ev s0 r s. part_keeps E m (Some i, lk) ev s0 s \<Longrightarrow> Q ev s0 r s"
  shows "own_meets E m i lk Q (executeCashOut E V preparation v s) ev s0"
  using assms(1,3,4) unfolding executeCashOut_def
  by - (rule own_rules own_completes[where v = v] own_credit[where w = v] assms V | assumption | erule steady_lock
    | erule steady_keeps | (use held in \<open>simp add: field_moved out_erased_def\<close>; fail))+

text \<open>Sent tokens.\<close>

lemma own_sendCaught [owned]:
  assumes "steady E m i lk ev s0 s" "op_key latest = JStr i"
    and "\<And>ev s0 r s. part_keeps E m (Some i, lk) ev s0 s \<Longrightarrow> Q ev s0 r s"
  shows "own_meets E m i lk Q (sendCaught E V latest e s) ev s0"
  using assms(1) unfolding sendCaught_def
  by - (rule own_rules assms V | assumption | (simp; fail) | (erule steady_keeps))+

lemma own_reclaimSwap [owned]:
  assumes "steady E m i lk ev s0 s" "op_key latest = JStr i" "op_at s i = [latest]"
    and held: "field latest ''kind'' = JStr ''send''" "field latest ''swap'' = swap"
    and "\<And>ev s0 e s. steady E m i lk ev s0 s \<Longrightarrow> Q ev s0 (Inl e) s"
    and "\<And>ev s0 x s. part_keeps E m (Some i, lk) ev s0 s \<Longrightarrow> Q ev s0 (Inr x) s"
  shows "own_meets E m i lk Q (reclaimSwap E V latest swap s) ev s0"
  using assms(1,3) unfolding reclaimSwap_def
  by - (rule own_rules own_completes[where v = latest] own_credit[where w = latest] assms V | assumption | erule steady_lock
    | (use held in \<open>simp add: swap_member_def field_moved send_erased_def\<close>; fail))+

lemma own_resumeSend [owned]:
  assumes "steady E m i lk ev s0 s" "op_key v = JStr i" "op_at s i = [v]"
    and "\<And>ev s0 e s. steady E m i lk ev s0 s \<Longrightarrow> Q ev s0 (Inl e) s"
    and "\<And>ev s0 x s. part_keeps E m (Some i, lk) ev s0 s \<Longrightarrow> Q ev s0 (Inr x) s"
  shows "own_meets E m i lk Q (resumeSend E V v s) ev s0"
  using assms(1,3) unfolding resumeSend_def
  by - (rule own_rules own_completes[where v = v] own_credit[where w = v] assms V | assumption | erule steady_lock
    | (simp add: field_moved split_beta; fail) | (simp only: split_beta))+

lemma own_acceptedSend [owned]:
  assumes "steady E m i lk ev s0 s" "op_key v = JStr i"
    and "\<And>ev s0 r s. part_keeps E m (Some i, lk) ev s0 s \<Longrightarrow> Q ev s0 r s"
  shows "own_meets E m i lk Q (acceptedSend E V v s) ev s0"
  using assms(1) unfolding acceptedSend_def
  by - (rule own_rules assms V | assumption | (simp; fail) | (erule steady_keeps))+

lemma own_completeOutgoing [owned]:
  assumes "steady E m i lk ev s0 s" "op_key v = JStr i" "op_at s i = [v]"
    and held: "field v ''swap'' = swap_json swap"
    and "\<And>ev s0 r s. part_keeps E m (Some i, lk) ev s0 s \<Longrightarrow> Q ev s0 r s"
  shows "own_meets E m i lk Q (completeOutgoing E V swap v s) ev s0"
  using assms(1,3) unfolding completeOutgoing_def
  by - (rule own_rules own_completes[where v = v] own_credit[where w = v] assms V | assumption | erule steady_lock
    | erule steady_keeps | (use held in \<open>simp add: field_moved split_beta\<close>; fail) | (simp only: split_beta))+

text \<open>What runs under the lock.\<close>

lemma own_expireAdd [owned]:
  assumes "steady E m i lk ev s0 s" "op_key v = JStr i"
    and "\<And>ev s0 r s. steady E m i lk ev s0 s \<Longrightarrow> Q ev s0 r s"
  shows "own_meets E m i lk Q (expireAdd E V v s) ev s0"
  using assms(1) unfolding expireAdd_def
  by - (rule own_rules assms V | assumption | (simp; fail))+

lemma own_observeAdd [owned]:
  assumes "steady E m i lk ev s0 s" "op_key v = JStr i"
    and "\<And>ev s0 r s. part_keeps E m (Some i, lk) ev s0 s \<Longrightarrow> Q ev s0 r s"
  shows "own_meets E m i lk Q (observeAdd E V unit v s) ev s0"
  using assms(1) unfolding observeAdd_def
  by - (rule own_rules owned assms V | assumption | erule steady_keeps
    | (use assms(2) in \<open>simp add: op_key_moved\<close>; fail) | rule case_sumI)+

lemma own_observeCashOut [owned]:
  assumes "steady E m i lk ev s0 s" "op_key v = JStr i" "op_at s i = [v]"
    and kind: "field v ''kind'' \<notin> {JStr ''send'', JStr ''receive''}"
    and "\<And>ev s0 r s. part_keeps E m (Some i, lk) ev s0 s \<Longrightarrow> Q ev s0 r s"
  shows "own_meets E m i lk Q (observeCashOut E V unit v s) ev s0"
  using assms(1,3) unfolding observeCashOut_def
  by - (rule own_rules owned kind assms V refl | assumption | erule steady_keeps
    | (use assms(2) in \<open>simp add: op_key_moved\<close>; fail))+

lemma own_observeSend [owned]:
  assumes "steady E m i lk ev s0 s" "op_key v = JStr i" "op_at s i = [v]"
    and kind: "field v ''kind'' = JStr ''send''"
    and "\<And>ev s0 r s. part_keeps E m (Some i, lk) ev s0 s \<Longrightarrow> Q ev s0 r s"
  shows "own_meets E m i lk Q (observeSend E V v s) ev s0"
  using assms(1,3) unfolding observeSend_def
  by - (rule own_rules owned kind assms V refl | assumption | erule steady_keeps
    | (use assms(2) in \<open>simp add: op_key_moved\<close>; fail))+

lemma op_key_spread: "''id'' \<notin> fst ` set fs \<Longrightarrow> op_key (spread v fs) = op_key v"
  by (auto simp: op_key_def field_spread split: option.splits dest!: map_of_SomeD) force

lemma own_reclaimToken [owned]:
  assumes "steady E m i lk ev s0 s" "op_key v = JStr i"
    and kind: "field v ''kind'' = JStr ''send''"
    and "\<And>ev s0 r s. part_keeps E m (Some i, lk) ev s0 s \<Longrightarrow> Q ev s0 r s"
  shows "own_meets E m i lk Q (reclaimToken E V v s) ev s0"
  using assms(1) unfolding reclaimToken_def Let_def
  by - (rule own_rules owned assms V refl | assumption | erule steady_keeps
    | (use assms(2) kind in \<open>simp add: op_key_moved op_key_spread kind_moved field_spread\<close>; fail))+

lemma own_discardStored [owned]:
  assumes "steady E m i lk ev s0 s" "op_key v = JStr i"
    and "\<And>ev s0 r s. steady E m i lk ev s0 s \<Longrightarrow> Q ev s0 r s"
  shows "own_meets E m i lk Q (syncA (discardStored E V v) s) ev s0"
  using assms(1) unfolding discardStored_def
  by - (rule own_rules assms V | assumption
    | (use assms(2) in \<open>auto simp: find_Some_iff split: option.splits if_splits\<close>; fail))+

end

interpretation handling: mint_view V "vw_mintUrl V"
  by unfold_locales (rule refl)

end
