(* ===== verification/Wallet_Parts.thy ===== *)
theory Wallet_Parts
  imports Wallet_Owned
begin

section \<open>Every action plays its part\<close>

text \<open>
  From the lock of \<open>runLocked\<close> to the end of the handler, for the actions of one operation, the actions
  that create one, and those that work on none. New identifiers are new in the document, as random ones
  are: \<open>fresh_ids\<close>.
\<close>

definition fresh_ids :: "wallet_env \<Rightarrow> bool" where
  "fresh_ids E \<longleftrightarrow> (\<forall>used n. we_id E used n \<notin> set used)"

lemma op_at_next_id:
  assumes "fresh_ids E"
  shows "op_at s (next_id E s) = []"
proof -
  have "op_key v \<noteq> JStr (next_id E s)" if "v \<in> set (wd_operations (se_memory s))" for v
  proof
    assume "op_key v = JStr (next_id E s)"
    then have "text_at ''id'' v = next_id E s" by (simp add: op_key_def text_at_def)
    with that have "next_id E s \<in> set (map (text_at ''id'') (wd_operations (se_memory s)))"
      by (metis image_eqI list.set_map)
    with assms show False unfolding fresh_ids_def next_id_def by blast
  qed
  then show ?thesis by (simp add: op_at_def filter_empty_conv)
qed

lemma steady_locked:
  "steady E m i lk ev s0 s \<Longrightarrow> steady E m i True ev s0 (s\<lparr>se_inflight := insert i (se_inflight s)\<rparr>)"
  by (auto simp: steady_def set_aside_def)

lemma part_keeps_lock: "part_keeps E m (Some i, lk) = part_keeps E m (Some i, lk')"
  by (intro ext) (simp add: part_keeps_def)

text \<open>The body of a locked handler relies on its lock; what it guarantees does not depend on it.\<close>

lemma own_runLocked:
  assumes "steady E m i lk ev s0 s"
    and "\<And>s. steady E m i True ev s0 s \<Longrightarrow> op_at s i = op_at s' i \<Longrightarrow>
      own_meets E m i True (\<lambda>ev s0 r s. part_keeps E m (Some i, True) ev s0 s) (p s) ev s0"
    and "op_at s i = op_at s' i"
    and "\<And>ev s0 r s. part_keeps E m (Some i, True) ev s0 s \<Longrightarrow> Q ev s0 r s"
  shows "own_meets E m i True Q (runLocked i p s) ev s0"
proof (cases "i \<in> se_inflight s")
  case True
  have "part_keeps E m (Some i, True) ev s0 s"
    using steady_keeps[OF assms(1)] by (simp add: part_keeps_lock[of E m i lk True])
  with True show ?thesis by (simp add: runLocked_def assms(4))
next
  case False
  let ?s = "s\<lparr>se_inflight := insert i (se_inflight s)\<rparr>"
  have "own_meets E m i True (\<lambda>ev s0 r s. part_keeps E m (Some i, True) ev s0 s) (p ?s) ev s0"
    by (rule assms(2)) (use assms(1,3) steady_locked in auto)
  then have "own_meets E m i True Q
      (finallyA (bindA p (\<lambda>x. returnA (Some x))) (\<lambda>t. t\<lparr>se_inflight := se_inflight t - {i}\<rparr>) ?s) ev s0"
    by (intro meets_finally meets_bind, elim meets_mono)
       (auto simp: returnA_def assms(4) split: sum.splits)
  with False show ?thesis by (simp add: runLocked_def)
qed

lemma own_runLocked_at:
  assumes "j = i" "steady E m i lk ev s0 s" "op_at s i = [v]"
    and "\<And>t. steady E m i True ev s0 t \<Longrightarrow> op_at t i = [v] \<Longrightarrow>
      own_meets E m i True (\<lambda>ev s0 r s. part_keeps E m (Some i, True) ev s0 s) (p t) ev s0"
    and "\<And>ev s0 r s. part_keeps E m (Some i, True) ev s0 s \<Longrightarrow> Q ev s0 r s"
  shows "own_meets E m i True Q (runLocked j p s) ev s0"
  unfolding assms(1) by (rule own_runLocked[OF assms(2) _ refl]) (use assms(3-5) in auto)

abbreviation plays ::
  "wallet_env \<Rightarrow> string \<Rightarrow> part \<Rightarrow> (wallet_session, wallet_call, wallet_answer, 'a) task \<Rightarrow>
   (wallet_call \<times> (failure + wallet_answer)) option \<Rightarrow> wallet_session \<Rightarrow> bool" where
  "plays E m p \<equiv>
     meets (part_relies E m p) (part_keeps E m p) (allowed_call E m p) fits (\<lambda>ev s0 r s. part_keeps E m p ev s0 s)"

lemma plays_void: "plays E m p (h s) ev s0 \<Longrightarrow> plays E m p (voidA h s) ev s0"
  by (rule meets_void)

subsection \<open>Actions on an operation\<close>

context mint_view begin

lemma own_start: "op_at s i = [v] \<Longrightarrow> steady E m i False None s s"
  by (rule steady_refl) simp_all

lemma own_start_keeps: "op_at s i = [v] \<Longrightarrow> part_keeps E m (Some i, lk) None s s"
  using steady_keeps[OF own_start] by (simp add: part_keeps_lock[of E m i lk False])

lemma plays_locked:
  assumes "op_at s i = [v]"
    and "\<And>t. steady E m i True None s t \<Longrightarrow> op_at t i = [v] \<Longrightarrow> plays E m (Some i, True) (p t) None s"
    and "\<And>ev s0 r t. part_keeps E m (Some i, True) ev s0 t \<Longrightarrow> Q ev s0 r t"
  shows "own_meets E m i True Q (runLocked i p s) None s"
  by (rule own_runLocked[OF own_start _ refl]) (use assms in auto)

lemma plays_refreshAdd:
  assumes own: "op_at s i = [v]" and key: "op_key v = JStr i" and i: "text_at ''id'' v = i"
  shows "plays E m (Some i, True) (wallet_refreshAdd E V v s) None s"
  unfolding wallet_refreshAdd_def i
  by (rule contracts own_need own_start_keeps[OF own] case_InrI case_InlI plays_locked[OF own] owned key | assumption)+

lemma plays_refreshCashOut:
  assumes own: "op_at s i = [v]" and key: "op_key v = JStr i" and i: "text_at ''id'' v = i" and kind: "field v ''kind'' \<notin> {JStr ''send'', JStr ''receive''}"
  shows "plays E m (Some i, True) (wallet_refreshCashOut E V v s) None s"
  unfolding wallet_refreshCashOut_def i
  by (rule contracts own_need own_start_keeps[OF own] case_InrI case_InlI plays_locked[OF own] owned key kind | assumption)+

lemma plays_refreshSend:
  assumes own: "op_at s i = [v]" and key: "op_key v = JStr i" and i: "text_at ''id'' v = i" and kind: "field v ''kind'' = JStr ''send''"
  shows "plays E m (Some i, True) (wallet_refreshSend E V v s) None s"
  unfolding wallet_refreshSend_def i
  by (rule meets_if contracts own_start_keeps[OF own] case_InrI case_InlI plays_locked[OF own] owned key kind | assumption)+

lemma plays_reclaimSend:
  assumes own: "op_at s i = [v]" and key: "op_key v = JStr i" and i: "text_at ''id'' v = i" and kind: "field v ''kind'' = JStr ''send''"
  shows "plays E m (Some i, True) (wallet_reclaimSend E V v s) None s"
  unfolding wallet_reclaimSend_def i
  by (rule own_guard contracts own_start_keeps[OF own] case_InrI case_InlI plays_locked[OF own] owned key kind | assumption)+

lemma plays_refresh_operation:
  assumes own: "op_at s i = [v]" and key: "op_key v = JStr i" and i: "text_at ''id'' v = i"
  shows "plays E m (Some i, True) (handler_of E V (Refresh_operation v) s) None s"
proof -
  have "plays E m (Some i, True) (wallet_refreshOperation E V v s) None s"
    unfolding wallet_refreshOperation_def
  proof (intro meets_if)
    assume kind: "field v ''kind'' = JStr ''receive''"
    then have kind': "field v ''kind'' \<in> {JStr ''send'', JStr ''receive''}" by simp
    show "plays E m (Some i, True) (awaited (runLocked (text_at ''id'' v) (settleReceive E V v)) s) None s"
      unfolding i
      by (rule contracts own_start_keeps[OF own] case_InrI case_InlI plays_locked[OF own] owned key kind' | assumption)+
  qed (use plays_refreshAdd[OF own key i] plays_refreshSend[OF own key i] plays_refreshCashOut[OF own key i] in auto)
  then show ?thesis by (simp add: plays_void)
qed

lemma plays_reclaim_operation:
  assumes own: "op_at s i = [v]" and key: "op_key v = JStr i" and i: "text_at ''id'' v = i"
  shows "plays E m (Some i, True) (handler_of E V (Reclaim_operation v) s) None s"
  unfolding handler_of.simps wallet_reclaimOperation_def
  by (rule plays_void own_guard contracts own_start_keeps[OF own] case_InrI case_InlI plays_reclaimSend[OF own key i] | assumption)+

lemma plays_discard:
  assumes own: "op_at s i = [v]" and key: "op_key v = JStr i" and i: "text_at ''id'' v = i"
  shows "plays E m (Some i, True) (handler_of E V (Discard_token v) s) None s"
  unfolding handler_of.simps discardIncomingToken_def i
  by (rule plays_void contracts own_guard plays_locked[OF own] own_discardStored key case_sumI | assumption | erule steady_keeps)+

end

subsection \<open>Actions that create an operation\<close>

text \<open>The stretch before the first commit changes nothing that another handler sees.\<close>

definition early :: "wallet_env \<Rightarrow> string \<Rightarrow> wallet_session \<Rightarrow> wallet_session \<Rightarrow> bool" where
  "early E m s0 s \<longleftrightarrow>
     (synced E m s0 \<longrightarrow> synced E m s) \<and> se_memory s = se_memory s0 \<and> se_inflight s = se_inflight s0"

lemma early_refl: "early E m s s"
  by (simp add: early_def)

lemma early_keeps: "early E m s0 s \<Longrightarrow> part_keeps E m p ev s0 s"
  by (auto simp: early_def part_keeps_def op_at_def)

lemma early_save:
  assumes "early E m s0 s" "vw_mintUrl V = m"
    and "\<And>s'. early E m s0 s' \<Longrightarrow> se_draws s' = se_draws s \<Longrightarrow> Q ev s0 (Inr ()) s'"
    and "\<And>e. early E m s0 s \<Longrightarrow> Q ev s0 (Inl e) s"
  shows "meets R G C F Q (syncA (saveCurrent E V) s) ev s0"
proof (rule own_sync[where x = "()" and ?s1.0 = "committed E m (se_memory s) s"])
  have "se_draws (committed E m (se_memory s) s) = se_draws s" by (simp add: committed_def)
  then show "Q ev s0 (Inr ()) (committed E m (se_memory s) s)"
    using assms(1) by (intro assms(3)) (auto simp: early_def)
qed (use saveCurrent_cases[of E V s] assms in auto)

lemma early_draw:
  assumes "early E m s0 s" "se_draws s = n"
    and "\<And>s'. early E m s0 s' \<Longrightarrow>
      Q ev s0 (Inr (we_id E (map (text_at ''id'') (wd_operations (se_memory s0))) n)) s'"
  shows "meets R G C F Q (syncA (createOperationId E) s) ev s0"
proof (rule meets_sync)
  have m: "se_memory s = se_memory s0" using assms(1) by (simp add: early_def)
  have "early E m s0 (s\<lparr>se_draws := Suc (se_draws s)\<rparr>)" using assms(1) by (simp add: early_def)
  then show "Q ev s0 (fst (createOperationId E s)) (snd (createOperationId E s))"
    using assms(2,3) by (simp add: createOperationId_def m)
qed

lemma early_new:
  assumes "early E m s0 s" "op_at s0 i = []" "vw_mintUrl V = m" "op_key v = JStr i"
    and "\<And>s'. steady E m i False None s0 s' \<Longrightarrow> synced E m s' \<Longrightarrow> op_at s' i = [v] \<Longrightarrow> Q None s0 (Inr v) s'"
    and "\<And>e. part_keeps E m (Some i, lk) None s0 s \<Longrightarrow> Q None s0 (Inl e) s"
  shows "own_meets E m i lk Q (syncA (persistOperation E V v ps cl) s) None s0"
proof (rule own_sync[where x = v and ?s1.0 = "committed E m (with_operation v ps cl (se_memory s)) s"])
  let ?s' = "committed E m (with_operation v ps cl (se_memory s)) s"
  have same: "op_at s = op_at s0" using assms(1) by (auto simp: early_def op_at_def)
  have at: "op_at ?s' i = [v]" using assms(2) by (simp add: op_at_committed[OF assms(4)] same del: committed_sel(4))
  have others: "op_at ?s' j = op_at s0 j" if "j \<noteq> i" for j
    using that by (simp add: op_at_committed[OF assms(4)] same del: committed_sel(4))
  have "synced E m ?s'" "se_inflight ?s' = se_inflight s0" using assms(1) by (simp_all add: early_def)
  then have "steady E m i False None s0 ?s'"
    using assms(2) at others unfolding steady_def set_aside_def by auto
  then show "Q None s0 (Inr v) ?s'" using at by (intro assms(5)) auto
  show "Q None s0 (Inl e) s" for e by (rule assms(6)) (rule early_keeps[OF assms(1)])
qed (use persistOperation_cases[of E V v ps cl s] assms(3) in auto)

context mint_view begin

lemma meets_payable:
  assumes "\<And>ps. Q ev s0 (Inr ps) t" "\<And>e. Q ev s0 (Inl e) t"
  shows "meets R G C F Q (syncA (payable E V unit request) t) ev s0"
  unfolding payable_def by (rule own_rules assms | simp add: returnM_def syncA_def assms)+

lemma meets_returnM: "Q ev s0 (Inr x) t \<Longrightarrow> meets R G C F Q (syncA (returnM x) t) ev s0"
  by (simp add: syncA_def returnM_def)

lemmas early_rules =
  early_refl early_save[OF _ V] early_draw early_new[OF _ op_at_next_id V] early_keeps[OF early_refl]
  own_need own_read own_guard own_lift own_seq contracts case_InrI case_InlI meets_returnM meets_payable

lemma plays_confirm:
  assumes fresh: "fresh_ids E"
  shows "plays E m (Some (next_id E s), False) (handler_of E V (Confirm_cash_out p) s) None s"
  unfolding handler_of.simps wallet_confirmCashOut_def
  by (rule plays_void early_rules fresh own_executeCashOut | assumption | erule early_keeps
    | (simp add: next_id_def new_cash_out_def Let_def; fail)
    | (simp add: new_cash_out_def new_operation_def Let_def field_def; fail))+

lemma plays_create_outgoing:
  assumes fresh: "fresh_ids E"
  shows "plays E m (Some (next_id E s), False) (handler_of E V (Create_outgoing r p) s) None s"
proof (cases "og_prepared p")
  case (Offline_send keep send debit fee)
  show ?thesis
    unfolding handler_of.simps wallet_createOutgoing_def Offline_send prepared_send.case
    by (rule plays_void early_rules fresh | assumption | erule early_keeps | erule steady_keeps
      | (simp add: next_id_def new_send_def; fail) | simp only: prod.case)+
next
  case (Swap_send swap debit fee)
  show ?thesis
    unfolding handler_of.simps wallet_createOutgoing_def Swap_send prepared_send.case
    by (rule plays_void early_rules fresh own_completeOutgoing | assumption | erule early_keeps
      | (simp add: next_id_def new_send_def; fail) | simp only: prod.case
      | (simp add: new_send_def new_operation_def field_def; fail))+
qed

lemma plays_receive_token:
  assumes fresh: "fresh_ids E"
  shows "plays E m (Some (next_id E s), True) (handler_of E V (Receive_token t note) s) None s"
  unfolding handler_of.simps receiveToken_def
  by (rule plays_void early_rules fresh own_runLocked_at own_settleReceive case_sumI | assumption | erule early_keeps
    | (simp add: next_id_def; fail) | (simp add: new_operation_def field_def; fail))+

subsection \<open>Actions on no operation\<close>

lemma none_ask:
  assumes "part_keeps E m (None, lk) ev s0 s'" "shaped c K rd" "\<not> completes c"
    and "\<And>y s'. Q (Some (c, Inr (K y))) s' (Inr y) s'"
    and "\<And>e s'. Q (Some (c, Inl e)) s' (Inl e) s'"
  shows "meets (part_relies E m (None, lk)) (part_keeps E m (None, lk)) (allowed_call E m (None, lk)) fits Q (askA c rd s') ev s0"
proof (rule meets_ask)
  show "Q (Some (c, Inr x)) t (case rd x of None \<Rightarrow> Inl Thrown_value | Some y \<Rightarrow> Inr y) t" if "fits c (Inr x)" for x t
    using assms(2)[unfolded shaped_def] that assms(4) by force
qed (use assms in \<open>auto simp: allowed_call_def\<close>)

lemma none_new:
  assumes "early E m s0 t" "op_at s0 i = []" "op_key v = JStr i" "\<And>r t. part_keeps E m (None, lk) ev s0 t \<Longrightarrow> Q ev s0 r t"
  shows "meets R G C F Q (syncA (persistOperation E V v None cl) t) ev s0"
proof (rule own_sync[where x = v and ?s1.0 = "committed E m (with_operation v None cl (se_memory t)) t"])
  let ?t = "committed E m (with_operation v None cl (se_memory t)) t"
  have same: "op_at t = op_at s0" using assms(1) by (auto simp: early_def op_at_def)
  have others: "op_at ?t j = op_at s0 j" if "op_at s0 j \<noteq> []" for j
    using that assms(2) by (auto simp: op_at_committed[OF assms(3)] same simp del: committed_sel(4))
  have "synced E m ?t" "se_inflight ?t = se_inflight s0" "wd_proofs (se_memory ?t) = wd_proofs (se_memory s0)"
    using assms(1) by (simp_all add: early_def)
  then show "Q ev s0 (Inr v) ?t" using others by (intro assms(4)) (auto simp: part_keeps_def)
  show "Q ev s0 (Inl e) t" for e by (rule assms(4)) (rule early_keeps[OF assms(1)])
qed (use persistOperation_cases[of E V v None cl t] V in auto)

lemma none_commit:
  assumes "wd_operations d = wd_operations (se_memory t)" "wd_proofs d = wd_proofs (se_memory t)"
    and "\<And>r t'. part_keeps E m (None, lk) ev t t' \<Longrightarrow> Q ev t r t'"
  shows "meets R G C F Q (syncA (commitSnapshot E V d) t) ev t"
proof (rule own_sync[where x = "()" and ?s1.0 = "committed E m d t"])
  show "Q ev t (Inr ()) (committed E m d t)"
    by (rule assms(3)) (use assms(1,2) in \<open>auto simp: part_keeps_def op_at_def\<close>)
  show "Q ev t (Inl e) t" for e by (rule assms(3)) (simp add: part_keeps_def)
qed (use commitSnapshot_cases[of E V d t] V in auto)

lemma part_keeps_refl: "part_keeps E m p ev t t"
  by (simp add: part_keeps_def)

lemmas none_rules = part_keeps_refl none_ask[OF _ shapes(11)] none_ask[OF _ shapes(12)] none_ask[OF _ shapes(13)]
  none_ask[OF _ shapes(14)] none_new[OF _ op_at_next_id] none_commit

lemma plays_none:
  assumes fresh: "fresh_ids E" and "owner_of E s act = None"
  shows "plays E m (None, False) (handler_of E V act s) None s"
proof (cases act)
  case (Prepare_outgoing r)
  show ?thesis
    unfolding Prepare_outgoing handler_of.simps wallet_prepareOutgoing_def
    by (rule plays_void early_rules none_rules fresh | (simp; fail))+
next
  case (Request_add n)
  show ?thesis
    unfolding Request_add handler_of.simps wallet_requestAdd_def
    by (rule plays_void none_rules early_rules fresh | assumption | (simp add: next_id_def; fail))+
next
  case (Quote_cash_out t)
  show ?thesis
    unfolding Quote_cash_out handler_of.simps wallet_quoteCashOut_def
    by (rule plays_void early_rules none_rules fresh | (simp; fail))+
next
  case (Prepare_cash_out q)
  show ?thesis
    unfolding Prepare_cash_out handler_of.simps wallet_prepareCashOut_def
    by (rule plays_void early_rules none_rules fresh | (simp; fail))+
next
  case (Save_request r)
  show ?thesis
    unfolding Save_request handler_of.simps saveOpenRequest_def
    by (rule plays_void none_rules early_rules fresh | assumption | (simp; fail))+
next
  case Clear_request
  show ?thesis
    unfolding Clear_request handler_of.simps clearOpenRequest_def
    by (rule plays_void none_rules early_rules fresh | assumption | (simp; fail))+
qed (use assms in auto)

end

end
