(* ===== verification/Wallet_Safety.thy ===== *)
theory Wallet_Safety
  imports Wallet_Parts
begin

section \<open>Orderly runs of the wallet\<close>

text \<open>
  The contracts together: in an orderly run every waiting handler still has what its contract promises, no
  two work on one operation, and the waiting calls stay allowed whatever the others do.
\<close>

abbreviation part_of :: "pending \<Rightarrow> part" where
  "part_of p \<equiv> (pd_owner p, pd_locked p)"

abbreviation wp_mint :: "wallet_app \<Rightarrow> string" where
  "wp_mint a \<equiv> vw_mintUrl (wp_view a)"

definition still_waits :: "wallet_env \<Rightarrow> wallet_app \<Rightarrow> pending \<Rightarrow> bool" where
  "still_waits E a p \<longleftrightarrow>
     waiting (part_relies E (wp_mint a) (part_of p)) (part_keeps E (wp_mint a) (part_of p))
       (allowed_call E (wp_mint a) (part_of p)) fits (pd_task p) (wp_session a)"

definition tidy :: "wallet_env \<Rightarrow> wallet_app \<Rightarrow> bool" where
  "tidy E a \<longleftrightarrow>
     (wp_loading a \<longrightarrow> vw_wallet (wp_view a) = None) \<and> (vw_wallet (wp_view a) = None \<longrightarrow> wp_pool a = []) \<and>
     list_all (still_waits E a) (wp_pool a) \<and> sorted_wrt parts_apart (map part_of (wp_pool a))"

lemma parts_apart_sym: "parts_apart p q \<Longrightarrow> parts_apart q p"
  by (auto simp: parts_apart_def)

lemma still_waits_allowed:
  assumes "still_waits E a p"
  obtains s0 c k where "pd_task p = Await s0 c k" "allowed_call E (wp_mint a) (part_of p) c (wp_session a)"
  using assms by (auto simp: still_waits_def waiting_def split: task.splits)

text \<open>What another handler does keeps a waiting one waiting.\<close>

lemma still_waits_apart:
  assumes "still_waits E a q" "parts_apart p (part_of q)" "part_keeps E (wp_mint a) p ev (wp_session a) s"
    and "wp_view b = wp_view a" "wp_session b = s"
  shows "still_waits E b q"
  using parts.waiting_apart[OF _ assms(2,3)] assms(1,4,5) by (simp add: still_waits_def)

lemma still_waits_moment: "still_waits E a q \<Longrightarrow> still_waits E (at_moment now room a) q"
  unfolding still_waits_def at_moment_def
  by (simp, erule parts.waiting_stable) (simp add: part_relies_def synced_def op_at_def)

lemma tidy_moment: "tidy E a \<Longrightarrow> tidy E (at_moment now room a)"
  using still_waits_moment by (auto simp: tidy_def at_moment_def list_all_iff)

subsection \<open>Without a wallet and under a lock nothing waits\<close>

lemma no_wallet:
  assumes "vw_wallet V = None"
  shows "\<exists>s' r. handler_of E V act s = Done s' r"
proof -
  have settle: "settleReceive E V v t = Done t (Inl unreachable)" for v t
    by (simp add: settleReceive_def bindA_def syncA_def needM_def assms)
  have void: "\<exists>s' r. voidA h s = Done s' r" if "\<exists>s' r. h s = Done s' r" for h :: "'a handler"
    using that by (auto simp: voidA_def)
  have locked: "\<exists>s' r. runLocked i h s = Done s' r" if "\<And>t. \<exists>s' r. h t = Done s' r" for i and h :: "'a handler"
    using that[of "s\<lparr>se_inflight := insert i (se_inflight s)\<rparr>"]
    by (auto simp: runLocked_def finallyA_def bindA_def split: sum.splits) (auto simp: returnA_def)
  have refresh: "\<exists>s' r. wallet_refreshOperation E V v s = Done s' r" for v
    using locked[of "settleReceive E V v" "text_at ''id'' v"]
    by (auto simp: wallet_refreshOperation_def wallet_refreshAdd_def wallet_refreshCashOut_def wallet_refreshSend_def
        bindA_def syncA_def needM_def assms returnA_def awaited_def settle split: sum.splits)
  have discard: "\<exists>s' r. discardIncomingToken E V v s = Done s' r" for v
  proof -
    have "\<exists>s' r. runLocked (text_at ''id'' v) (syncA (discardStored E V v)) s = Done s' r"
      by (rule locked) (simp add: syncA_def split: prod.splits)
    then show ?thesis
      by (auto simp: discardIncomingToken_def bindA_def syncA_def split: prod.splits sum.splits)
  qed
  show ?thesis
    by (cases act)
       (auto intro!: void refresh discard simp: bindA_def syncA_def needM_def bindM_def assms wallet_prepareOutgoing_def
          wallet_createOutgoing_def receiveToken_def wallet_requestAdd_def wallet_quoteCashOut_def
          wallet_prepareCashOut_def wallet_confirmCashOut_def wallet_reclaimOperation_def wallet_reclaimSend_def guardM_def
          split: prod.splits sum.splits)
qed

lemma lock_taken:
  assumes "text_at ''id'' v \<in> se_inflight s" and "act \<in> {Refresh_operation v, Reclaim_operation v, Discard_token v}"
  shows "\<exists>r. handler_of E V act s = Done s r"
proof -
  have locked: "runLocked (text_at ''id'' v) h s = Done s (Inr None)" for h :: "'a handler"
    using assms(1) by (simp add: runLocked_def)
  show ?thesis
    using assms(2)
    by (auto simp: voidA_def wallet_refreshOperation_def wallet_refreshAdd_def wallet_refreshCashOut_def
        wallet_refreshSend_def wallet_reclaimOperation_def wallet_reclaimSend_def discardIncomingToken_def bindA_def
        syncA_def needM_def guardM_def returnA_def awaited_def locked split: option.splits)
qed

subsection \<open>Each move keeps a tidy application tidy\<close>

text \<open>The part of an action that starts is apart from every waiting one, unless its lock is taken.\<close>

lemma start_apart:
  assumes "tidy E a" "q \<in> set (wp_pool a)" "orderly_start a act" "fresh_ids E"
    and free: "\<And>v. act \<in> {Refresh_operation v, Reclaim_operation v, Discard_token v} \<Longrightarrow>
      text_at ''id'' v \<notin> se_inflight (wp_session a)"
  shows "parts_apart (owner_of E (wp_session a) act, holds_lock act) (part_of q)"
proof (rule ccontr)
  assume "\<not> ?thesis"
  then obtain i where i: "pd_owner q = Some i" "owner_of E (wp_session a) act = Some i"
    by (auto simp: parts_apart_def)
  from assms(1,2) have "still_waits E a q" by (simp add: tidy_def list_all_iff)
  then obtain s0 c k where "allowed_call E (wp_mint a) (part_of q) c (wp_session a)"
    by (rule still_waits_allowed)
  then have q: "op_at (wp_session a) i \<noteq> []" "pd_locked q \<longrightarrow> i \<in> se_inflight (wp_session a)"
    using i(1) by (auto simp: allowed_call_def)
  have "i \<noteq> next_id E (wp_session a)"
    using q(1) op_at_next_id[OF assms(4), of "wp_session a"] by auto
  with i(2) obtain v where v: "act \<in> {Refresh_operation v, Reclaim_operation v, Discard_token v}" "i = text_at ''id'' v"
    by (cases act) auto
  with assms(3) have "i \<notin> creating a" by (auto simp: current_def)
  with i(1) assms(2) have "pd_locked q" by (auto simp: creating_def)
  with q(2) free[OF v(1)] v(2) show False by simp
qed

lemma plays_action:
  assumes "orderly_start a act" "fresh_ids E"
  shows "plays E (wp_mint a) (owner_of E (wp_session a) act, holds_lock act)
    (handler_of E (wp_view a) act (wp_session a)) None (wp_session a)"
proof (cases "owner_of E (wp_session a) act")
  case None
  then show ?thesis using handling.plays_none[OF assms(2) None] by (cases act) auto
next
  case (Some i)
  have own: "op_at (wp_session a) (text_at ''id'' v) = [v]" "op_key v = JStr (text_at ''id'' v)" if "current a v" for v
    using that by (auto simp: current_def op_at_def)
  show ?thesis
    using assms(1) Some
    by (cases act)
       (auto intro!: handling.plays_confirm[OF assms(2)] handling.plays_create_outgoing[OF assms(2)]
          handling.plays_receive_token[OF assms(2)] handling.plays_refresh_operation handling.plays_reclaim_operation
          handling.plays_discard own simp del: handler_of.simps)
qed

lemma tidy_others:
  assumes "tidy E a" "\<And>q. q \<in> set ps \<Longrightarrow> q \<in> set (wp_pool a) \<and> parts_apart p (part_of q)"
    and "part_keeps E (wp_mint a) p ev (wp_session a) s" "wp_view b = wp_view a" "wp_session b = s"
  shows "list_all (still_waits E b) ps"
  using assms still_waits_apart[OF _ _ assms(3,4,5)] by (fastforce simp: tidy_def list_all_iff)

lemma waiting_now:
  assumes "plays E (wp_mint a) p (Await s c k) ev s0"
  shows "waiting (part_relies E (wp_mint a) p) (part_keeps E (wp_mint a) p) (allowed_call E (wp_mint a) p) fits (Await s c k) s"
    "part_keeps E (wp_mint a) p ev s0 s"
  using parts.waiting_starts[OF assms] by auto

lemma tidy_start:
  assumes tidy: "tidy E a" and orderly: "orderly_start a act" and fresh: "fresh_ids E"
  shows "tidy E (start E act a)"
proof (cases "\<exists>v. act \<in> {Refresh_operation v, Reclaim_operation v, Discard_token v} \<and> text_at ''id'' v \<in> se_inflight (wp_session a)")
  case True
  then obtain r where "handler_of E (wp_view a) act (wp_session a) = Done (wp_session a) r"
    using lock_taken by blast
  then have "start E act a = a" by (simp add: start_def)
  with tidy show ?thesis by simp
next
  case False
  let ?p = "(owner_of E (wp_session a) act, holds_lock act)"
  have apart: "parts_apart ?p (part_of q)" if "q \<in> set (wp_pool a)" for q
    by (rule start_apart[OF tidy that orderly fresh]) (use False in auto)
  note plays = plays_action[OF orderly fresh]
  show ?thesis
  proof (cases "handler_of E (wp_view a) act (wp_session a)")
    case (Done s r)
    let ?b = "a\<lparr>wp_session := s\<rparr>"
    have b: "start E act a = ?b" by (simp add: start_def Done)
    have "part_keeps E (wp_mint a) ?p None (wp_session a) s" using plays by (simp add: Done)
    then have "list_all (still_waits E ?b) (wp_pool a)"
      by (intro tidy_others[OF tidy]) (use apart in auto)
    with tidy show ?thesis by (simp add: b tidy_def)
  next
    case (Await s c k)
    let ?q = "\<lparr>pd_owner = owner_of E (wp_session a) act, pd_locked = holds_lock act, pd_task = Await s c k\<rparr>"
    let ?b = "a\<lparr>wp_session := s, wp_pool := wp_pool a @ [?q]\<rparr>"
    have b: "start E act a = ?b" by (simp add: start_def Await)
    have "vw_wallet (wp_view a) \<noteq> None"
      using no_wallet[of "wp_view a" E act "wp_session a"] Await by auto
    moreover from this tidy have "\<not> wp_loading a" by (auto simp: tidy_def)
    moreover note w = waiting_now[OF plays[unfolded Await]]
    have "list_all (still_waits E ?b) (wp_pool a)"
      by (rule tidy_others[OF tidy _ w(2)]) (use apart in auto)
    moreover have "still_waits E ?b ?q" using w(1) by (simp add: still_waits_def)
    moreover have "sorted_wrt parts_apart (map part_of (wp_pool ?b))"
      using tidy apart by (auto simp: tidy_def sorted_wrt_append intro: parts_apart_sym)
    ultimately show ?thesis by (simp add: b tidy_def)
  qed
qed

lemma tidy_start_all:
  "tidy E a \<Longrightarrow> orderly_all E vs a \<Longrightarrow> fresh_ids E \<Longrightarrow> tidy E (start_all E vs a)"
  by (induction vs arbitrary: a) (simp_all add: tidy_start)

text \<open>An answer: the stretch that it starts, in the state that the handler finds.\<close>

lemma answered_meets:
  assumes "tidy E a" "i < length (wp_pool a)" "pd_task (wp_pool a ! i) = Await s0 c k" "fits c r"
  shows "plays E (wp_mint a) (part_of (wp_pool a ! i)) (k r (wp_session a)) (Some (c, r)) (wp_session a)"
proof -
  have "still_waits E a (wp_pool a ! i)" using assms(1,2) by (auto simp: tidy_def list_all_iff)
  then show ?thesis
    unfolding still_waits_def assms(3) by (rule parts.waiting_answered) (rule assms(4))
qed

lemma apart_nth:
  assumes "sorted_wrt parts_apart (map part_of ps)" "i < length ps" "j < length ps" "i \<noteq> j"
  shows "parts_apart (part_of (ps ! i)) (part_of (ps ! j))"
  using assms sorted_wrt_nth_less[OF assms(1), of i j] sorted_wrt_nth_less[OF assms(1), of j i]
  by (cases "i < j") (auto intro: parts_apart_sym)

lemma split_nth: "i < length xs \<Longrightarrow> xs = take i xs @ xs ! i # drop (Suc i) xs"
  by (rule id_take_nth_drop)

lemma set_drop_nth:
  assumes "sorted_wrt parts_apart (map part_of ps)" "i < length ps" "q \<in> set (drop_nth i ps)"
  shows "q \<in> set ps \<and> parts_apart (part_of (ps ! i)) (part_of q)"
proof -
  have "sorted_wrt parts_apart (map part_of (take i ps @ ps ! i # drop (Suc i) ps))"
    using assms(1,2) split_nth by metis
  with assms(3) show ?thesis
    by (auto simp: drop_nth_def sorted_wrt_append intro: parts_apart_sym dest: in_set_takeD in_set_dropD)
qed

lemma sorted_drop_nth:
  assumes "sorted_wrt P xs"
  shows "sorted_wrt P (drop_nth i xs)"
proof (cases "i < length xs")
  case True
  have "sorted_wrt P (take i xs @ xs ! i # drop (Suc i) xs)"
    using assms split_nth[OF True] by metis
  then show ?thesis by (auto simp: drop_nth_def sorted_wrt_append)
qed (use assms in \<open>simp add: drop_nth_def\<close>)

lemma set_update_nth: "i < length xs \<Longrightarrow> set (xs[i := x]) = insert x (set (drop_nth i xs))"
  by (simp add: drop_nth_def upd_conv_take_nth_drop)

lemma tidy_answer:
  assumes tidy: "tidy E a"
  shows "tidy E (answer i r a)"
proof (cases "i < length (wp_pool a) \<and> (\<exists>s0 c k. pd_task (wp_pool a ! i) = Await s0 c k \<and> fits c r)")
  case False
  then have "answer i r a = a" by (auto simp: answer_def split: task.splits)
  with tidy show ?thesis by simp
next
  case True
  then obtain s0 c k where i: "i < length (wp_pool a)" and t: "pd_task (wp_pool a ! i) = Await s0 c k" and f: "fits c r"
    by blast
  let ?p = "part_of (wp_pool a ! i)"
  note plays = answered_meets[OF tidy i t f]
  have sorted: "sorted_wrt parts_apart (map part_of (wp_pool a))" using tidy by (simp add: tidy_def)
  have apart: "q \<in> set (wp_pool a) \<and> parts_apart ?p (part_of q)" if "q \<in> set (drop_nth i (wp_pool a))" for q
    by (rule set_drop_nth[OF sorted i that])
  show ?thesis
  proof (cases "k r (wp_session a)")
    case (Done s x)
    let ?b = "a\<lparr>wp_session := s, wp_pool := drop_nth i (wp_pool a)\<rparr>"
    have b: "answer i r a = ?b" using i f by (simp add: answer_def t Done)
    have "part_keeps E (wp_mint a) ?p (Some (c, r)) (wp_session a) s" using plays by (simp add: Done)
    then have "list_all (still_waits E ?b) (drop_nth i (wp_pool a))"
      by (intro tidy_others[OF tidy apart]) auto
    moreover have "sorted_wrt parts_apart (map part_of (drop_nth i (wp_pool a)))"
      using sorted_drop_nth[OF sorted, of i] by (simp add: drop_nth_def take_map drop_map)
    ultimately show ?thesis using tidy by (auto simp: b tidy_def drop_nth_def)
  next
    case (Await s c' k')
    let ?q = "(wp_pool a ! i)\<lparr>pd_task := Await s c' k'\<rparr>"
    let ?b = "a\<lparr>wp_session := s, wp_pool := (wp_pool a)[i := ?q]\<rparr>"
    have b: "answer i r a = ?b" using i f by (simp add: answer_def t Await)
    note w = waiting_now[OF plays[unfolded Await]]
    have q: "still_waits E ?b ?q" using w(1) by (simp add: still_waits_def)
    have others: "list_all (still_waits E ?b) (drop_nth i (wp_pool a))"
      by (rule tidy_others[OF tidy apart w(2)]) auto
    have "list_all (still_waits E ?b) (wp_pool ?b)"
      using q others by (simp add: list_all_iff set_update_nth[OF i])
    moreover have "map part_of (wp_pool ?b) = map part_of (wp_pool a)"
      using i by (simp add: map_update list_update_same_conv)
    ultimately show ?thesis using tidy i by (auto simp: b tidy_def)
  qed
qed

lemma tidy_empty: "wp_pool a = [] \<Longrightarrow> (wp_loading a \<Longrightarrow> vw_wallet (wp_view a) = None) \<Longrightarrow> tidy E a"
  by (simp add: tidy_def)

lemma connect_pool [simp]: "wp_pool (connect E m a) = wp_pool a" "vw_wallet (wp_view (connect E m a)) = None"
  by (simp_all add: connect_def Let_def split: prod.splits)

lemma tidy_connect: "wp_pool a = [] \<Longrightarrow> tidy E (connect E m a)"
  by (rule tidy_empty) simp_all

lemma tidy_move:
  assumes "tidy E a" "orderly E a mv" "fresh_ids E"
  shows "tidy E (app_move E mv a)"
proof (cases mv)
  case (Change_mint m)
  with assms have "wp_pool a = []" by simp
  then have "wp_pool (a\<lparr>wp_session := s\<rparr>) = []" for s by simp
  note tidy_connect[OF this]
  moreover have "tidy E (a\<lparr>wp_session := s\<rparr>)" for s using assms(1) \<open>wp_pool a = []\<close> by (simp add: tidy_def)
  ultimately show ?thesis
    using assms(1) by (simp add: Change_mint change_mint_def Let_def split: prod.splits sum.splits)
next
  case (Loaded r)
  show ?thesis
  proof (cases "wp_loading a")
    case True
    with assms(1) have "wp_pool a = []" by (simp add: tidy_def)
    then show ?thesis
      using True by (auto simp: Loaded loaded_def Let_def tidy_def split: prod.splits sum.splits)
  qed (use assms(1) in \<open>simp add: Loaded loaded_def\<close>)
qed (use assms in \<open>auto simp: tidy_start tidy_start_all tidy_answer tidy_connect\<close>)

lemma orderly_tidy:
  assumes "orderly_run E a0 a" "fresh_ids E"
  shows "tidy E a"
  using assms
proof induction
  case (orderly_opened fallback s a)
  then show ?case by (auto simp: opened_def result_simps tidy_connect)
qed (auto intro: tidy_move tidy_moment)

subsection \<open>What a move does to the balance\<close>

lemma owner_once:
  assumes "sorted_wrt parts_apart (map part_of ps)" "p \<in> set ps" "pd_owner p = Some i"
  shows "filter (\<lambda>q. pd_owner q = Some i) ps = [p]"
  using assms
proof (induction ps)
  case (Cons q ps)
  show ?case
  proof (cases "p = q")
    case True
    with Cons.prems have "\<forall>r \<in> set ps. pd_owner r \<noteq> Some i" by (auto simp: parts_apart_def)
    with True Cons.prems(3) show ?thesis by (simp add: filter_empty_conv)
  next
    case False
    with Cons.prems have "p \<in> set ps" "pd_owner q \<noteq> Some i" by (auto simp: parts_apart_def)
    with Cons show ?thesis by simp
  qed
qed simp

lemma start_keeps:
  assumes "orderly_start a act" "fresh_ids E"
  shows "part_keeps E (wp_mint a) (owner_of E (wp_session a) act, holds_lock act) None (wp_session a)
    (wp_session (start E act a))"
proof (cases "handler_of E (wp_view a) act (wp_session a)")
  case (Done s r)
  with plays_action[OF assms] show ?thesis by (simp add: start_def)
next
  case (Await s c k)
  with waiting_now(2)[OF plays_action[OF assms, unfolded Await]] show ?thesis by (simp add: start_def)
qed

lemma start_view [simp]: "wp_view (start E act a) = wp_view a"
  by (simp add: start_def split: task.splits)

lemma start_all_view [simp]: "wp_view (start_all E vs a) = wp_view a"
  by (induction vs arbitrary: a) simp_all

lemma answer_view [simp]: "wp_view (answer i r a) = wp_view a"
  by (simp add: answer_def split: task.splits)

text \<open>Only an action that creates an operation sets proofs aside.\<close>

lemma start_proofs:
  assumes "orderly_start a act" "fresh_ids E"
    and "wd_proofs (se_memory (wp_session (start E act a))) \<noteq> wd_proofs (se_memory (wp_session a))"
  obtains i v where "owner_of E (wp_session a) act = Some i" "op_at (wp_session a) i = []"
    "op_at (wp_session (start E act a)) i = [v]" "synced E (wp_mint a) (wp_session (start E act a))"
  using start_keeps[OF assms(1,2)] assms(3) by (auto simp: part_keeps_def credited_def set_aside_def)

lemma refresh_proofs:
  assumes "current a v" "fresh_ids E"
  shows "wd_proofs (se_memory (wp_session (start E (Refresh_operation v) a))) = wd_proofs (se_memory (wp_session a))"
proof (rule ccontr)
  assume "\<not> ?thesis"
  with assms obtain i where "owner_of E (wp_session a) (Refresh_operation v) = Some i" "op_at (wp_session a) i = []"
    by (auto elim: start_proofs[rotated 2])
  with assms(1) show False by (auto simp: current_def op_at_def)
qed

lemma refresh_all_proofs:
  "orderly_all E vs a \<Longrightarrow> fresh_ids E \<Longrightarrow>
   wd_proofs (se_memory (wp_session (start_all E vs a))) = wd_proofs (se_memory (wp_session a))"
  by (induction vs arbitrary: a) (simp_all add: refresh_proofs)

lemma loaded_proofs: "wd_proofs (se_memory (wp_session (loaded E r a))) = wd_proofs (se_memory (wp_session a))"
  by (auto simp: loaded_def Let_def bound_to_def split: prod.splits sum.splits)

text \<open>An answer credits the proofs that it brings, in the commit that completes its operation.\<close>

lemma answer_proofs:
  assumes tidy: "tidy E a" and "wd_proofs (se_memory (wp_session (answer n r a))) \<noteq> wd_proofs (se_memory (wp_session a))"
  obtains c where "n < length (wp_pool a)" "\<exists>s0 k. pd_task (wp_pool a ! n) = Await s0 c k"
    "credited E (pd_owner (wp_pool a ! n)) (Some (c, r)) (wp_session a) (wp_session (answer n r a))"
    "synced E (wp_mint a) (wp_session (answer n r a))"
proof -
  have n: "n < length (wp_pool a)"
    by (rule ccontr) (use assms(2) in \<open>simp add: answer_def\<close>)
  obtain s0 c k where t: "pd_task (wp_pool a ! n) = Await s0 c k" "fits c r"
    using assms(2) n by (auto simp: answer_def split: task.splits if_splits)
  note plays = answered_meets[OF tidy n t]
  have "part_keeps E (wp_mint a) (part_of (wp_pool a ! n)) (Some (c, r)) (wp_session a) (wp_session (answer n r a))"
  proof (cases "k r (wp_session a)")
    case (Done s x)
    with plays t n show ?thesis by (simp add: answer_def)
  next
    case (Await s c' k')
    with waiting_now(2)[OF plays[unfolded Await]] t n show ?thesis by (simp add: answer_def)
  qed
  with assms(2) have "credited E (pd_owner (wp_pool a ! n)) (Some (c, r)) (wp_session a) (wp_session (answer n r a))"
    "synced E (wp_mint a) (wp_session (answer n r a))"
    by (auto simp: part_keeps_def set_aside_def)
  with n t that show ?thesis by blast
qed

end
