(* ===== verification/Wallet_Ledger.thy ===== *)
theory Wallet_Ledger
  imports Wallet_Safety
begin

section \<open>The balance up to the first wait\<close>

text \<open>
  \<open>leaves K p\<close>: up to its first wait \<open>p\<close> either leaves the proofs of the wallet as they are or leaves
  those of \<open>K\<close>. Of the actions only the creation of a send and of a cash-out name proofs to keep.
\<close>

abbreviation proofs_of :: "wallet_session \<Rightarrow> cashu_proof list" where
  "proofs_of s \<equiv> wd_proofs (se_memory s)"

definition leavesM :: "cashu_proof list option \<Rightarrow> 'a stretch \<Rightarrow> bool" where
  "leavesM K m \<longleftrightarrow> (\<forall>s. proofs_of (snd (m s)) = proofs_of s \<or> Some (proofs_of (snd (m s))) = K)"

definition leaves :: "cashu_proof list option \<Rightarrow> 'a handler \<Rightarrow> bool" where
  "leaves K p \<longleftrightarrow> (\<forall>s. proofs_of (left_state (p s)) = proofs_of s \<or> Some (proofs_of (left_state (p s))) = K)"

lemma left_chain: "left_state (chain t f) = (case t of Done s r \<Rightarrow> left_state (f r s) | Await s c k \<Rightarrow> s)"
  by (cases t) simp_all

subsection \<open>Stretches\<close>

lemma leavesM_calls:
  "leavesM K (returnM x)" "leavesM K (readM f)" "leavesM K (guardM b e)" "leavesM K (liftM r)" "leavesM K (needM v e)"
  "leavesM K (createOperationId E)" "leavesM K (saveCurrent E V)"
  by (simp_all add: leavesM_def returnM_def readM_def guardM_def liftM_def needM_def createOperationId_def saveCurrent_def
      saveWalletSnapshot_def Let_def split: option.splits prod.splits)

lemma leavesM_bind: "leavesM K m \<Longrightarrow> (\<And>x. leavesM K (f x)) \<Longrightarrow> leavesM K (bindM m f)"
  unfolding leavesM_def bindM_def by (auto split: prod.splits sum.splits) (metis snd_conv)+

lemma leavesM_persist: "ps = None \<or> ps = K \<Longrightarrow> leavesM K (persistOperation E V v ps cl)"
  unfolding leavesM_def
proof
  fix s
  assume "ps = None \<or> ps = K"
  then show "proofs_of (snd (persistOperation E V v ps cl s)) = proofs_of s \<or>
      Some (proofs_of (snd (persistOperation E V v ps cl s))) = K"
    using persistOperation_cases[of E V v ps cl s] by (auto split: option.splits)
qed

lemma leavesM_advance: "leavesM K (advance E V v st fs None cl)"
  using leavesM_persist[of None K E V] by (simp add: leavesM_def advance_persist)

lemma leavesM_payable: "leavesM K (payable E V u r)"
  unfolding payable_def by (rule leavesM_bind leavesM_calls | simp split: prod.splits)+

lemma leavesM_option: "(\<And>x. leavesM K (f x)) \<Longrightarrow> leavesM K m \<Longrightarrow> leavesM K (case v of None \<Rightarrow> m | Some x \<Rightarrow> f x)"
  by (cases v) auto

lemmas leaves_stretch = leavesM_calls leavesM_bind leavesM_advance leavesM_payable leavesM_option

subsection \<open>Handlers\<close>

lemma leaves_sync: "leavesM K m \<Longrightarrow> leaves K (syncA m)"
  by (simp add: leaves_def leavesM_def syncA_def split: prod.splits) (metis snd_conv)

lemma leaves_return: "leaves K (returnA x)" "leaves K (throwA e)"
  by (simp_all add: leaves_def returnA_def throwA_def)

lemma leaves_ask: "leaves K (bindA (askA c rd) f)" "leaves K (tryA (askA c rd) h g)"
  by (simp_all add: leaves_def bindA_def tryA_def askA_def)

lemma leaves_chain:
  assumes "leaves K p" "\<And>r. leaves K (f r)"
  shows "leaves K (\<lambda>s. chain (p s) f)"
  unfolding leaves_def left_chain
proof
  fix s
  show "proofs_of (case p s of Done s r \<Rightarrow> left_state (f r s) | Await s c k \<Rightarrow> s) = proofs_of s \<or>
      Some (proofs_of (case p s of Done s r \<Rightarrow> left_state (f r s) | Await s c k \<Rightarrow> s)) = K"
    using assms(1)[unfolded leaves_def, rule_format, of s] assms(2)[unfolded leaves_def, rule_format]
    by (cases "p s") (auto, metis)
qed

lemma leaves_rest:
  "(\<And>e. leaves K (h e)) \<Longrightarrow> (\<And>x. leaves K (f x)) \<Longrightarrow> leaves K (\<lambda>s. case r of Inl e \<Rightarrow> h e s | Inr x \<Rightarrow> f x s)"
  by (cases r) simp_all

lemma leaves_bind: "leaves K p \<Longrightarrow> (\<And>x. leaves K (f x)) \<Longrightarrow> leaves K (bindA p f)"
  using leaves_chain[of K p "\<lambda>r s. case r of Inl e \<Rightarrow> Done s (Inl e) | Inr x \<Rightarrow> f x s"]
    leaves_rest[of K throwA f] leaves_return(2)
  unfolding bindA_def[abs_def] throwA_def[abs_def] by blast

lemma leaves_try:
  "leaves K p \<Longrightarrow> (\<And>e. leaves K (h e)) \<Longrightarrow> (\<And>x. leaves K (f x)) \<Longrightarrow> leaves K (tryA p h f)"
  using leaves_chain[of K p "\<lambda>r s. case r of Inl e \<Rightarrow> h e s | Inr x \<Rightarrow> f x s"] leaves_rest[of K h f]
  unfolding tryA_def[abs_def] by blast

lemma leaves_catch: "leaves K p \<Longrightarrow> (\<And>e. leaves K (h e)) \<Longrightarrow> leaves K (catchA p h)"
  unfolding catchA_def by (rule leaves_try) (simp_all add: leaves_return)

lemma leaves_void: "leaves K p \<Longrightarrow> leaves K (voidA p)"
  using leaves_chain[of K p "\<lambda>r s. Done s (Inr ())"] by (simp add: leaves_def voidA_def)

lemma leaves_locked: "leaves K p \<Longrightarrow> leaves K (runLocked i p)"
proof -
  assume "leaves K p"
  then have "leaves K (bindA p (\<lambda>x. returnA (Some x)))" by (rule leaves_bind) (rule leaves_return)
  note first = this[unfolded leaves_def, rule_format, of "s\<lparr>se_inflight := insert i (se_inflight s)\<rparr>" for s]
  show ?thesis
    unfolding leaves_def
  proof
    fix s
    show "proofs_of (left_state (runLocked i p s)) = proofs_of s \<or> Some (proofs_of (left_state (runLocked i p s))) = K"
      using first[of s] by (auto simp: runLocked_def finallyA_def left_chain split: task.splits)
  qed
qed

lemma leaves_if: "leaves K p \<Longrightarrow> leaves K q \<Longrightarrow> leaves K (if b then p else q)"
  by simp

lemma leaves_sum: "(\<And>x. leaves K (p x)) \<Longrightarrow> (\<And>y. leaves K (q y)) \<Longrightarrow> leaves K (case r of Inl x \<Rightarrow> p x | Inr y \<Rightarrow> q y)"
  by (cases r) auto

lemma leaves_pair: "(\<And>x y. leaves K (p x y)) \<Longrightarrow> leaves K (case r of (x, y) \<Rightarrow> p x y)"
  by (cases r) auto

lemmas leaves_rules = leaves_sync leaves_stretch leaves_return leaves_ask leaves_bind leaves_try leaves_catch leaves_void
  leaves_locked leaves_if leaves_sum leaves_pair

subsection \<open>Actions\<close>

fun kept_proofs :: "wallet_action \<Rightarrow> cashu_proof list option" where
  "kept_proofs (Create_outgoing r p) =
     (case og_prepared p of
        Offline_send keep send debit fee \<Rightarrow> Some keep
      | Swap_send swap debit fee \<Rightarrow> Some (list_or_nil (sw_unselected swap)))"
| "kept_proofs (Confirm_cash_out p) = Some (pm_keep (cp_prepared p))"
| "kept_proofs _ = None"

lemma leaves_completeReceive: "leaves K (completeReceive E V u v)"
  unfolding completeReceive_def by (rule leaves_rules)+

lemma leaves_settleReceive: "leaves K (settleReceive E V v)"
  unfolding settleReceive_def checkReceive_def receiveCaught_def Let_def
  by (rule leaves_rules leaves_completeReceive leavesM_persist[OF disjI1] refl)+

lemma leaves_createOutgoing: "leaves (kept_proofs (Create_outgoing r p)) (wallet_createOutgoing E V r p)"
  unfolding wallet_createOutgoing_def completeOutgoing_def
  by (cases "og_prepared p"; simp only: prepared_send.case kept_proofs.simps)
     (rule leaves_rules leavesM_persist[OF disjI2] refl)+

lemma leaves_confirm: "leaves (kept_proofs (Confirm_cash_out p)) (wallet_confirmCashOut E V p)"
  unfolding wallet_confirmCashOut_def executeCashOut_def
  by (rule leaves_rules leavesM_persist[OF disjI2] refl | simp)+

lemma leaves_receiveToken: "leaves None (receiveToken E V t n)"
  unfolding receiveToken_def
  by (rule leaves_rules leaves_settleReceive leavesM_persist[OF disjI1] refl)+

lemma start_left: "wp_session (start E act a) = left_state (handler_of E (wp_view a) act (wp_session a))"
  by (simp add: start_def split: task.splits)

text \<open>Only an action that creates an operation sets proofs aside, and it leaves those of its preparation.\<close>

lemma start_kept:
  assumes "orderly_start a act" "fresh_ids E" "proofs_of (wp_session (start E act a)) \<noteq> proofs_of (wp_session a)"
  obtains i v where "owner_of E (wp_session a) act = Some i" "op_at (wp_session a) i = []"
    "op_at (wp_session (start E act a)) i = [v]" "synced E (wp_mint a) (wp_session (start E act a))"
    "kept_proofs act = Some (proofs_of (wp_session (start E act a)))"
proof -
  obtain i v where at: "owner_of E (wp_session a) act = Some i" "op_at (wp_session a) i = []"
    "op_at (wp_session (start E act a)) i = [v]" "synced E (wp_mint a) (wp_session (start E act a))"
    using assms by (rule start_proofs)
  have "\<not> act \<in> {Refresh_operation w, Reclaim_operation w, Discard_token w}" for w
    using assms(1) at(1,2) by (auto simp: current_def op_at_def)
  then have "leaves (kept_proofs act) (handler_of E (wp_view a) act)"
    using at(1) leaves_createOutgoing leaves_confirm leaves_receiveToken
    by (cases act) (auto intro!: leaves_void simp del: kept_proofs.simps(1) simp: kept_proofs.simps(2-))
  with assms(3) have "kept_proofs act = Some (proofs_of (wp_session (start E act a)))"
    by (auto simp: leaves_def start_left)
  with at that show ?thesis by blast
qed

end
