(* ===== verification/Wallet_Reviewed.thy ===== *)
theory Wallet_Reviewed
  imports Wallet_Shown Wallet_Ledger
begin

section \<open>A confirmation spends what its review showed\<close>

text \<open>
  The confirmations of the pay and the cash-out screen up to the commit that spends: the screen asks the mint
  for a new preparation, compares its figures with those of the review and calls the handler in the same
  stretch. So what is committed has the figures that were shown, or nothing is.
\<close>

subsection \<open>Paying\<close>

fun kept_of :: "prepared_send \<Rightarrow> cashu_proof list" where
  "kept_of (Offline_send keep send debit fee) = keep"
| "kept_of (Swap_send swap debit fee) = list_or_nil (sw_unselected swap)"

definition outgoing_of :: "wallet_env \<Rightarrow> decoded_request \<Rightarrow> cashu_proof list \<Rightarrow> prepared_send \<Rightarrow> outgoing_preparation" where
  "outgoing_of E r ps q =
     \<lparr>og_request = dr_encoded r, og_prepared = q, og_balance = sumProofs ps, og_debit = send_debit q, og_fee = send_fee q,
      og_fingerprint = walletFingerprint (we_platform E) ps\<rparr>"

lemma payable_cases: "(\<exists>e. payable E V u r s = (Inl e, s)) \<or> payable E V u r s = (Inr (wd_proofs (se_memory s)), s)"
  by (auto simp: payable_def bindM_def readM_def liftM_def returnM_def split: sum.splits)

lemma prepareOutgoing_cases:
  "(\<exists>e. wallet_prepareOutgoing E V r s = Done s (Inl e)) \<or>
   wallet_prepareOutgoing E V r s = Await s (PrepareSend (dr_amount r) (wd_proofs (se_memory s)))
     (\<lambda>a s'. Done s' (case a of Inl e \<Rightarrow> Inl e | Inr x \<Rightarrow> (case as_send x of None \<Rightarrow> Inl Thrown_value
        | Some q \<Rightarrow> Inr (outgoing_of E r (wd_proofs (se_memory s)) q))))"
proof (cases "vw_wallet V")
  case (Some u)
  show ?thesis
    using payable_cases[of E V u r s]
    by (elim disjE exE) (auto simp: wallet_prepareOutgoing_def bindA_def syncA_def needM_def askA_def returnA_def
        outgoing_of_def Some fun_eq_iff split: sum.splits option.splits)
qed (simp add: wallet_prepareOutgoing_def bindA_def syncA_def needM_def)

text \<open>A send that was written down for a request with a prepared transfer.\<close>

definition sent_for :: "wallet_env \<Rightarrow> decoded_request \<Rightarrow> prepared_send \<Rightarrow> wallet_document \<Rightarrow> wallet_document \<Rightarrow> bool" where
  "sent_for E r q before after \<longleftrightarrow>
     wd_proofs after = kept_of q \<and>
     (\<exists>v \<in> set (wd_operations after). is_kind ''send'' v \<and> field v ''amount'' = number_json (dr_amount r) \<and>
        field v ''fee'' = number_json (send_fee q) \<and>
        wd_operations after = replaceOperation (wd_operations before) v)"

lemma replaced_twice: "op_key w = op_key v \<Longrightarrow> replaceOperation (replaceOperation vs v) w = replaceOperation vs w"
proof (cases "\<exists>u \<in> set vs. op_key u = op_key v")
  case True
  then have "\<exists>u \<in> set (map (\<lambda>u. if op_key u = op_key v then v else u) vs). op_key u = op_key v" by auto
  moreover assume "op_key w = op_key v"
  ultimately show ?thesis using True by (simp add: replaceOperation_def upsert_def)
qed (auto simp: replaceOperation_def upsert_def intro: map_idI)

lemma created_fields:
  "is_kind ''send'' (new_send V u i st r now rest)" "field (new_send V u i st r now rest) ''amount'' = number_json (dr_amount r)"
  "op_key (new_send V u i st r now rest) = JStr i"
  by (simp_all add: is_kind_def new_send_def new_operation_def op_key_def field_def)

lemma created_fee: "map_of rest ''fee'' = Some f \<Longrightarrow> field (new_send V u i st r now rest) ''fee'' = f"
  by (simp add: new_send_def new_operation_def field_def)

lemma sent_forI:
  assumes "is_kind ''send'' v" "field v ''amount'' = number_json (dr_amount r)" "field v ''fee'' = number_json (send_fee q)"
  shows "sent_for E r q d (with_operation v (Some (kept_of q)) False d)"
  using assms unfolding sent_for_def by (auto simp: replaceOperation_def)

lemma completeOutgoing_first:
  assumes "is_kind ''send'' v" "field v ''fee'' = f"
  shows "se_memory (left_state (completeOutgoing E V w v s)) = se_memory s \<or>
     (\<exists>v'. is_kind ''send'' v' \<and> field v' ''fee'' = f \<and> field v' ''amount'' = field v ''amount'' \<and> op_key v' = op_key v \<and>
        se_memory (left_state (completeOutgoing E V w v s)) = with_operation v' None False (se_memory s))"
proof -
  let ?v' = "moved v ''recovery_required'' [(''error'', JStr (''Token preparation is stored for retry. '' @
      describe (Failure ''QuotaExceededError'')))] s"
  have "is_kind ''send'' ?v'" "field ?v' ''fee'' = f" "field ?v' ''amount'' = field v ''amount''" "op_key ?v' = op_key v"
    using assms by (simp_all add: is_kind_def moved_def field_spread op_key_def)
  moreover have "se_memory (left_state (completeOutgoing E V w v s)) = se_memory s \<or>
      se_memory (left_state (completeOutgoing E V w v s)) = with_operation ?v' None False (se_memory s)"
    using saveCurrent_cases[of E V s] persistOperation_cases[of E V ?v' None False s]
    by (auto simp: completeOutgoing_def catchA_def tryA_def bindA_def syncA_def askA_def advance_persist)
  ultimately show ?thesis by blast
qed


lemma createOutgoing_first:
  "(\<exists>s2 e. wallet_createOutgoing E V r p s = Done s2 (Inl e) \<and> se_memory s2 = se_memory s) \<or>
   (og_fingerprint p = walletFingerprint (we_platform E) (wd_proofs (se_memory s)) \<and>
    sent_for E r (og_prepared p) (se_memory s) (se_memory (left_state (wallet_createOutgoing E V r p s))))"
proof -
  let ?go = "\<lambda>u now ident. case og_prepared p of
       Offline_send keep send debit fee \<Rightarrow>
         bindA (syncA (liftM (we_encode E (vw_mintUrl V) u send))) (\<lambda>token.
         syncA (persistOperation E V
           (new_send V u ident ''awaiting_acceptance'' r now [(''token'', JStr token), (''fee'', number_json fee)]) (Some keep) False))
     | Swap_send swap debit fee \<Rightarrow>
         bindA (syncA (persistOperation E V
           (new_send V u ident ''preparing'' r now [(''swap'', swap_json swap), (''fee'', number_json fee)])
           (Some (list_or_nil (sw_unselected swap))) False)) (completeOutgoing E V swap)"
  have go: "(\<exists>s3 e. ?go u now ident s2 = Done s3 (Inl e) \<and> se_memory s3 = se_memory s2) \<or>
      sent_for E r (og_prepared p) (se_memory s2) (se_memory (left_state (?go u now ident s2)))" for u now ident s2
  proof (cases "og_prepared p")
    case (Offline_send keep send debit fee)
    show ?thesis
    proof (cases "we_encode E (vw_mintUrl V) u send")
      case (Inr t)
      let ?v = "new_send V u ident ''awaiting_acceptance'' r now [(''token'', JStr t), (''fee'', number_json fee)]"
      have "sent_for E r (og_prepared p) (se_memory s2) (with_operation ?v (Some keep) False (se_memory s2))"
        using sent_forI[of ?v r "og_prepared p" E "se_memory s2"] Offline_send by (simp add: created_fields created_fee)
      then show ?thesis
        using persistOperation_cases[of E V ?v "Some keep" False s2] Offline_send Inr
        by (auto simp: bindA_def syncA_def liftM_def)
    qed (simp add: Offline_send bindA_def syncA_def liftM_def)
  next
    case (Swap_send swap debit fee)
    let ?v = "new_send V u ident ''preparing'' r now [(''swap'', swap_json swap), (''fee'', number_json fee)]"
    let ?d = "with_operation ?v (Some (list_or_nil (sw_unselected swap))) False (se_memory s2)"
    have v: "is_kind ''send'' ?v" "field ?v ''fee'' = number_json fee" "field ?v ''amount'' = number_json (dr_amount r)"
      by (simp_all add: created_fields created_fee)
    have first: "sent_for E r (og_prepared p) (se_memory s2) ?d"
      using sent_forI[of ?v r "og_prepared p" E "se_memory s2"] Swap_send v by simp
    have again: "sent_for E r (og_prepared p) (se_memory s2) (with_operation w None False ?d)"
      if "is_kind ''send'' w" "field w ''fee'' = number_json fee" "field w ''amount'' = field ?v ''amount''" "op_key w = op_key ?v" for w
      using that v Swap_send unfolding sent_for_def by (auto simp: replaced_twice) (auto simp: replaceOperation_def)
    from persistOperation_cases[of E V ?v "Some (list_or_nil (sw_unselected swap))" False s2]
    show ?thesis
    proof
      assume stored: "persistOperation E V ?v (Some (list_or_nil (sw_unselected swap))) False s2 =
          (Inr ?v, committed E (vw_mintUrl V) ?d s2)"
      have "sent_for E r (og_prepared p) (se_memory s2)
          (se_memory (left_state (completeOutgoing E V swap ?v (committed E (vw_mintUrl V) ?d s2))))"
        using completeOutgoing_first[OF v(1,2), of E V swap "committed E (vw_mintUrl V) ?d s2"] first again by auto
      with stored show ?thesis by (simp add: Swap_send bindA_def syncA_def)
    qed (simp add: Swap_send bindA_def syncA_def)
  qed
  show ?thesis
  proof (cases "vw_wallet V")
    case (Some u)
    let ?c = "committed E (vw_mintUrl V) (se_memory s) s"
    note stored = go[where u = u and now = "se_now ?c" and ident = "we_id E (map (text_at ''id'') (wd_operations (se_memory ?c))) (se_draws ?c)"
        and ?s2.0 = "?c\<lparr>se_draws := Suc (se_draws ?c)\<rparr>"]
    note parts = wallet_createOutgoing_def bindA_def[of "syncA _"] syncA_def needM_def guardM_def readM_def bindM_def
      createOperationId_def returnM_def Some
    from payable_cases[of E V u r s] saveCurrent_cases[of E V s]
    consider (refused) e where "payable E V u r s = (Inl e, s)"
      | (unsaved) "payable E V u r s = (Inr (wd_proofs (se_memory s)), s)"
          "saveCurrent E V s = (Inl (Failure ''QuotaExceededError''), s)"
      | (saved) "payable E V u r s = (Inr (wd_proofs (se_memory s)), s)" "saveCurrent E V s = (Inr (), ?c)"
      by blast
    then show ?thesis
    proof cases
      case saved
      let ?ok = "og_request p = dr_encoded r \<and> og_fingerprint p = walletFingerprint (we_platform E) (wd_proofs (se_memory s))"
      let ?i = "we_id E (map (text_at ''id'') (wd_operations (se_memory ?c))) (se_draws ?c)"
      have run: "wallet_createOutgoing E V r p s =
          (if ?ok then ?go u (se_now ?c) ?i (?c\<lparr>se_draws := Suc (se_draws ?c)\<rparr>)
           else Done s (Inl (Failure ''The wallet balance changed. Review the recalculated amount before paying.'')))"
        by (simp add: parts saved)
      show ?thesis
      proof (cases ?ok)
        case True
        show ?thesis using stored unfolding run if_P[OF True] using True by auto
      next
        case False
        show ?thesis unfolding run if_not_P[OF False] by simp
      qed
    qed (auto simp: parts)
  qed (simp add: wallet_createOutgoing_def bindA_def syncA_def needM_def)
qed


text \<open>
  The first stretch of a confirmation asks for a new preparation; the second, in which the session is \<open>s1\<close>
  whatever the others have done, either leaves the document alone and shows a message in the review, or
  commits a send whose figures are those of the review.
\<close>

lemma pay_run_first:
  assumes run: "pay_run E V r seen (x, s) = Await xs c k"
  shows "snd xs = s \<and> c = PrepareSend (dr_amount r) (wd_proofs (se_memory s)) \<and>
    (let after = left_state (k a (x1, s1)) in
     se_memory (snd after) = se_memory s1 \<and> py_view (fst after) = Pay_review \<and> py_error (fst after) \<noteq> None \<or>
     (\<exists>q. a = Inr (Is_send q) \<and> \<not> pay_changed (outgoing_of E r (wd_proofs (se_memory s)) q) seen \<and>
        walletFingerprint (we_platform E) (wd_proofs (se_memory s1)) = walletFingerprint (we_platform E) (wd_proofs (se_memory s)) \<and>
        sent_for E r q (se_memory s1) (se_memory (snd after))))"
proof -
  note run_defs = pay_run_def pay_spend_def finallySet_def finallyA_def catchA_def tryA_def setA_def calls_def
    bindA_def returnA_def
  let ?ps = "wd_proofs (se_memory s)"
  from prepareOutgoing_cases[of E V r s] show ?thesis
  proof
    assume "\<exists>e. wallet_prepareOutgoing E V r s = Done s (Inl e)"
    then show ?thesis using run by (auto simp: run_defs)
  next
    assume prepare: "wallet_prepareOutgoing E V r s = Await s (PrepareSend (dr_amount r) ?ps)
      (\<lambda>a s'. Done s' (case a of Inl e \<Rightarrow> Inl e | Inr x \<Rightarrow> (case as_send x of None \<Rightarrow> Inl Thrown_value
        | Some q \<Rightarrow> Inr (outgoing_of E r ?ps q))))"
    show ?thesis
    proof (cases a)
      case (Inl e)
      then show ?thesis using run prepare by (auto simp: run_defs Let_def)
    next
      case (Inr b)
      show ?thesis
      proof (cases "as_send b")
        case None
        then show ?thesis using run prepare Inr by (auto simp: run_defs Let_def)
      next
        case (Some q)
        then have b: "a = Inr (Is_send q)" using Inr by (cases b) auto
        show ?thesis
        proof (cases "pay_changed (outgoing_of E r ?ps q) seen")
          case True
          then show ?thesis using run prepare b by (auto simp: run_defs Let_def)
        next
          case False
          let ?t = "wallet_createOutgoing E V r (outgoing_of E r ?ps q) s1"
          have after: "snd (left_state (k a (x1, s1))) = left_state ?t"
            using run prepare b False by (cases ?t) (auto simp: run_defs left_chain split: sum.splits)
          have failed: "py_view (fst (left_state (k a (x1, s1)))) = Pay_review \<and> py_error (fst (left_state (k a (x1, s1)))) \<noteq> None"
            if "?t = Done s2 (Inl e)" for s2 e
            using run prepare b False that by (auto simp: run_defs)
          from createOutgoing_first[of E V r "outgoing_of E r ?ps q" s1] show ?thesis
            using run prepare b False after failed by (auto simp: run_defs Let_def outgoing_of_def)
        qed
      qed
    qed
  qed
qed


subsection \<open>Cashing out\<close>

definition cash_out_of :: "wallet_env \<Rightarrow> melt_quote \<Rightarrow> cashu_proof list \<Rightarrow> prepared_melt \<Rightarrow> cash_out_preparation" where
  "cash_out_of E quote ps p =
     \<lparr>cp_quote = quote, cp_prepared = p, cp_balance = sumProofs ps,
      cp_maximumDebit = num_add (num_add (mlq_amount quote) (mlq_fee_reserve quote)) (pm_inputFee p),
      cp_fingerprint = walletFingerprint (we_platform E) ps\<rparr>"

lemma prepareCashOut_cases:
  "(\<exists>e. wallet_prepareCashOut E V quote s = Done s (Inl e)) \<or>
   wallet_prepareCashOut E V quote s = Await s (PrepareMelt quote (wd_proofs (se_memory s)))
     (\<lambda>a s'. Done s' (case a of Inl e \<Rightarrow> Inl e | Inr x \<Rightarrow> (case as_melt x of None \<Rightarrow> Inl Thrown_value
        | Some p \<Rightarrow> Inr (cash_out_of E quote (wd_proofs (se_memory s)) p))))"
  by (cases "vw_wallet V") (auto simp: wallet_prepareCashOut_def bindA_def syncA_def needM_def askA_def returnA_def readM_def
      cash_out_of_def fun_eq_iff split: sum.splits option.splits)

text \<open>A cash-out that was written down, whose melt is the next call.\<close>

definition cashed_out_for :: "melt_quote \<Rightarrow> prepared_melt \<Rightarrow> wallet_document \<Rightarrow> wallet_document \<Rightarrow> bool" where
  "cashed_out_for quote p before after \<longleftrightarrow>
     (\<exists>v. after = with_operation v (Some (pm_keep p)) False before \<and> is_kind ''cashout'' v \<and>
        field v ''amount'' = number_json (mlq_amount quote) \<and> field v ''cashuFee'' = number_json (pm_inputFee p) \<and>
        field v ''reservedProofs'' = JArr (pm_reserved p))"

lemma new_cash_out_fields:
  "is_kind ''cashout'' (new_cash_out V u i now p)"
  "field (new_cash_out V u i now p) ''amount'' = number_json (mlq_amount (cp_quote p))"
  "field (new_cash_out V u i now p) ''cashuFee'' = number_json (pm_inputFee (cp_prepared p))"
  "field (new_cash_out V u i now p) ''reservedProofs'' = JArr (pm_reserved (cp_prepared p))"
  by (simp_all add: is_kind_def new_cash_out_def new_operation_def field_def Let_def)

lemma confirmCashOut_first:
  "(\<exists>s2 e. wallet_confirmCashOut E V p s = Done s2 (Inl e) \<and> se_memory s2 = se_memory s) \<or>
   (cp_fingerprint p = walletFingerprint (we_platform E) (wd_proofs (se_memory s)) \<and>
    (\<exists>s2 k. wallet_confirmCashOut E V p s = Await s2 (ExecuteMelt (cp_quote p) (cp_prepared p)) k \<and>
       cashed_out_for (cp_quote p) (cp_prepared p) (se_memory s) (se_memory s2)))"
proof (cases "vw_wallet V")
  case (Some u)
  let ?c = "committed E (vw_mintUrl V) (se_memory s) s"
  let ?i = "we_id E (map (text_at ''id'') (wd_operations (se_memory s))) (se_draws ?c)"
  let ?v = "new_cash_out V u ?i (se_now ?c) p"
  note parts = wallet_confirmCashOut_def bindA_def syncA_def needM_def guardM_def readM_def bindM_def
    createOperationId_def returnM_def executeCashOut_def catchA_def tryA_def askA_def Some
  have stored: "cashed_out_for (cp_quote p) (cp_prepared p) (se_memory s)
      (with_operation ?v (Some (pm_keep (cp_prepared p))) False (se_memory s))"
    unfolding cashed_out_for_def by (rule exI[of _ ?v]) (simp add: new_cash_out_fields)
  from saveCurrent_cases[of E V s] show ?thesis
  proof
    assume saved: "saveCurrent E V s = (Inr (), ?c)"
    show ?thesis
      using persistOperation_cases[of E V ?v "Some (pm_keep (cp_prepared p))" False "?c\<lparr>se_draws := Suc (se_draws ?c)\<rparr>"] stored
      by (auto simp: parts saved)
  qed (auto simp: parts)
qed (simp add: wallet_confirmCashOut_def bindA_def syncA_def bindM_def needM_def)

lemma cash_out_first:
  assumes run: "cash_out_confirm E V (x, s) = Await xs c k" and quote: "cs_quote x = Some quote" and seen: "cs_preparation x = Some seen"
  shows "snd xs = s \<and> c = PrepareMelt quote (wd_proofs (se_memory s)) \<and>
    (let after = k a (x1, s1) in
     se_memory (snd (left_state after)) = se_memory s1 \<and> cs_view (fst (left_state after)) = Cash_review \<and>
       cs_error (fst (left_state after)) \<noteq> None \<or>
     (\<exists>p. a = Inr (Is_melt p) \<and> \<not> cash_out_changed (cash_out_of E quote (wd_proofs (se_memory s)) p) seen \<and>
        walletFingerprint (we_platform E) (wd_proofs (se_memory s1)) = walletFingerprint (we_platform E) (wd_proofs (se_memory s)) \<and>
        (\<exists>ys k'. after = Await ys (ExecuteMelt quote p) k' \<and> cashed_out_for quote p (se_memory s1) (se_memory (snd ys)))))"
proof -
  note run_defs = cash_out_confirm_def cash_out_spend_def catchA_def tryA_def setA_def calls_def bindA_def returnA_def quote seen
  let ?ps = "wd_proofs (se_memory s)"
  from prepareCashOut_cases[of E V quote s] show ?thesis
  proof
    assume "\<exists>e. wallet_prepareCashOut E V quote s = Done s (Inl e)"
    then show ?thesis using run by (auto simp: run_defs)
  next
    assume prepare: "wallet_prepareCashOut E V quote s = Await s (PrepareMelt quote ?ps)
      (\<lambda>a s'. Done s' (case a of Inl e \<Rightarrow> Inl e | Inr x \<Rightarrow> (case as_melt x of None \<Rightarrow> Inl Thrown_value
        | Some p \<Rightarrow> Inr (cash_out_of E quote ?ps p))))"
    show ?thesis
    proof (cases a)
      case (Inl e)
      then show ?thesis using run prepare by (auto simp: run_defs Let_def)
    next
      case (Inr b)
      show ?thesis
      proof (cases "as_melt b")
        case None
        then show ?thesis using run prepare Inr by (auto simp: run_defs Let_def)
      next
        case (Some p)
        then have p: "a = Inr (Is_melt p)" using Inr by (cases b) auto
        show ?thesis
        proof (cases "cash_out_changed (cash_out_of E quote ?ps p) seen")
          case True
          then show ?thesis using run prepare p by (auto simp: run_defs Let_def)
        next
          case False
          from confirmCashOut_first[of E V "cash_out_of E quote ?ps p" s1] show ?thesis
            using run prepare p False by (auto simp: run_defs Let_def cash_out_of_def)
        qed
      qed
    qed
  qed
qed

end
