(* ===== verification/Wallet_Races.thy ===== *)
theory Wallet_Races
  imports Wallet_System Wallet_Contract
begin

section \<open>Runs that are not orderly\<close>

text \<open>
  What the three handlers of the races do, stretch by stretch, while the storage has room: the creation of
  a cash-out and its answer, the refresh of a cash-out that the mint calls paid, and a request for cash.
\<close>

definition unlimited :: "string \<Rightarrow> string \<Rightarrow> bool" where
  "unlimited key text = True"

lemma persist_room:
  "se_room s = unlimited \<Longrightarrow>
   persistOperation E V v ps cl s = (Inr v, committed E (vw_mintUrl V) (with_operation v ps cl (se_memory s)) s)"
  by (simp add: persistOperation_def commitSnapshot_def saveWalletSnapshot_def committed_def Let_def unlimited_def
      bindM_def readM_def returnM_def)

lemma save_room: "se_room s = unlimited \<Longrightarrow> saveCurrent E V s = (Inr (), committed E (vw_mintUrl V) (se_memory s) s)"
  by (simp add: saveCurrent_def saveWalletSnapshot_def committed_def Let_def unlimited_def)

lemma committed_room [simp]:
  "se_room (committed E m d s) = se_room s" "se_now (committed E m d s) = se_now s" "se_draws (committed E m d s) = se_draws s"
  by (simp_all add: committed_def)

lemmas async_defs = voidA_def bindA_def catchA_def tryA_def syncA_def askA_def returnA_def awaited_def finallyA_def
  bindM_def needM_def readM_def guardM_def liftM_def returnM_def

definition after_confirm :: "wallet_env \<Rightarrow> string \<Rightarrow> json \<Rightarrow> cash_out_preparation \<Rightarrow> wallet_session \<Rightarrow> wallet_session" where
  "after_confirm E m v p s =
     committed E m (with_operation v (Some (pm_keep (cp_prepared p))) False (se_memory s))
       ((committed E m (se_memory s) s)\<lparr>se_draws := Suc (se_draws s)\<rparr>)"

definition credited_by ::
  "wallet_env \<Rightarrow> string \<Rightarrow> string \<Rightarrow> cashu_proof list \<Rightarrow> wallet_session \<Rightarrow> wallet_session \<Rightarrow> bool" where
  "credited_by E m i ps t t' \<longleftrightarrow>
     (\<exists>w. op_key w = JStr i \<and> se_memory t' = with_operation w (Some (wd_proofs (se_memory t) @ ps)) False (se_memory t)) \<and>
     synced E m t' \<and> se_room t' = se_room t"

lemma credited_byI:
  assumes "op_key w = JStr i" "d = with_operation w (Some (wd_proofs (se_memory t) @ ps)) False (se_memory t)"
    and "se_memory t' = d" "se_store t' (stateKey m) = Some (json_stringify (we_platform E) (document_json d))"
    and "se_room t' = se_room t"
  shows "credited_by E m i ps t t'"
  using assms by (auto simp: credited_by_def synced_def)

lemma next_id_store [simp]: "next_id E (s\<lparr>se_store := x\<rparr>) = next_id E s"
  by (simp add: next_id_def)

lemma confirm_waits:
  assumes "vw_wallet V = Some u" "se_room s = unlimited"
    and "cp_fingerprint p = walletFingerprint (we_platform E) (wd_proofs (se_memory s))"
    and v: "v = new_cash_out V u (next_id E s) (se_now s) p"
  shows "\<exists>k. handler_of E V (Confirm_cash_out p) s =
      Await (after_confirm E (vw_mintUrl V) v p s) (ExecuteMelt (cp_quote p) (cp_prepared p)) k \<and>
    (\<forall>t x. mx_state x = PAID \<longrightarrow> se_room t = unlimited \<longrightarrow>
       (\<exists>t'. k (Inr (Is_execution x)) t = Done t' (Inr ()) \<and>
          credited_by E (vw_mintUrl V) (next_id E s) (mx_change x) t t'))"
proof -
  have key: "op_key (moved (new_cash_out V u (next_id E s) (se_now s) p) st fs t) = JStr (next_id E s)"
    if "''id'' \<notin> fst ` set fs" for st fs t
    using that by (subst op_key_moved) (simp_all add: new_cash_out_def Let_def)
  show ?thesis
    using assms
    by (auto simp: wallet_confirmCashOut_def executeCashOut_def async_defs save_room persist_room createOperationId_def
        next_id_def[symmetric] after_confirm_def advance_persist committed_def out_erased_def key
        intro!: credited_byI[OF _ refl])
qed

lemma refresh_waits:
  assumes "vw_wallet V = Some u" and v: "op_key v = JStr i" "field v ''kind'' = JStr ''cashout''" and i: "i \<notin> se_inflight s"
    and out: "has_items (field v ''outputData'')"
  shows "\<exists>k. handler_of E V (Refresh_operation v) s =
      Await (s\<lparr>se_inflight := insert i (se_inflight s)\<rparr>) (CheckMeltQuote (text_at ''quote'' (field v ''quote''))) k \<and>
    (\<forall>t q ch. mlq_state q = PAID \<longrightarrow> se_room t = unlimited \<longrightarrow>
       we_change E (field v ''outputData'') (melt_quote_of (field v ''quote'') q) = Inr ch \<longrightarrow>
       (\<exists>t'. k (Inr (Is_melt_quote q)) t = Done t' (Inr ()) \<and> credited_by E (vw_mintUrl V) i ch t t'))"
proof -
  have key: "op_key (moved v st fs t) = JStr i" if "''id'' \<notin> fst ` set fs" for st fs t
    using that v by (simp add: op_key_moved)
  have at: "text_at ''id'' v = i" using v(1) by (simp add: op_key_def text_at_def)
  show ?thesis
    using assms
    by (auto simp: wallet_refreshOperation_def wallet_refreshCashOut_def runLocked_def at observeCashOut_def paidOut_def
        async_defs Let_def advance_persist persist_room toast_def out_erased_def committed_def
        intro!: credited_byI[OF key refl] split: list.splits option.splits)
qed

lemma request_waits:
  assumes "vw_wallet V = Some u"
  shows "\<exists>k. handler_of E V (Request_add n) s = Await s (RequestMint n) k \<and>
    (\<forall>t q. se_room t = unlimited \<longrightarrow>
       (\<exists>v t'. k (Inr (Is_mint_quote q)) t = Done t' (Inr ()) \<and>
          t' = (committed E (vw_mintUrl V) (with_operation v None False (se_memory t)) (t\<lparr>se_draws := Suc (se_draws t)\<rparr>))))"
  using assms
  by (auto simp: wallet_requestAdd_def async_defs createOperationId_def persist_room)

subsection \<open>Whole runs\<close>

definition app_run :: "wallet_env \<Rightarrow> int \<Rightarrow> wallet_move list \<Rightarrow> wallet_app \<Rightarrow> wallet_app" where
  "app_run E now mvs a = foldl (\<lambda>a mv. app_move E mv (at_moment now unlimited a)) a mvs"

lemma at_moment_sel [simp]:
  "wp_view (at_moment now room a) = wp_view a" "wp_pool (at_moment now room a) = wp_pool a"
  "wp_status (at_moment now room a) = wp_status a" "wp_loading (at_moment now room a) = wp_loading a"
  "wp_session (at_moment now room a) = (wp_session a)\<lparr>se_now := now, se_room := room\<rparr>"
  by (simp_all add: at_moment_def)

lemma credited_by_proofs:
  "credited_by E m i ps t t' \<Longrightarrow> wd_proofs (se_memory t') = wd_proofs (se_memory t) @ ps \<and> synced E m t'"
  by (auto simp: credited_by_def)

lemma start_waits:
  assumes "handler_of E (wp_view a) act (wp_session a) = Await s c k"
  shows "start E act a = a\<lparr>wp_session := s, wp_pool := wp_pool a @
    [\<lparr>pd_owner = owner_of E (wp_session a) act, pd_locked = holds_lock act, pd_task = Await s c k\<rparr>]\<rparr>"
  by (simp add: start_def assms)

lemma answer_done:
  assumes "i < length (wp_pool a)" "pd_task (wp_pool a ! i) = Await s0 c k" "fits c r" "k r (wp_session a) = Done s x"
  shows "answer i r a = a\<lparr>wp_session := s, wp_pool := drop_nth i (wp_pool a)\<rparr>"
  using assms by (simp add: answer_def)

text \<open>A cash-out is paid while the timer checks it: both handlers credit the change.\<close>

lemma change_twice:
  assumes view: "wp_view a = \<lparr>vw_mintUrl = m, vw_wallet = Some u\<rparr>" "wp_status a = Mint_online" "wp_pool a = []"
    and quiet: "wd_operations (se_memory (wp_session a)) = []" "se_inflight (wp_session a) = {}"
    and p: "cp_fingerprint p = walletFingerprint (we_platform E) (wd_proofs (se_memory (wp_session a)))"
      "pm_outputs (cp_prepared p) \<noteq> []"
    and q: "mlq_state q = PAID"
      "we_change E (JArr (pm_outputs (cp_prepared p))) (melt_quote_of (melt_quote_json now (cp_quote p)) q) = Inr change"
    and x: "mx_state x = PAID" "mx_change x = change"
  shows "\<exists>s. wp_session (app_run E now [Start (Confirm_cash_out p), Refresh_unresolved,
        Answer 1 (Inr (Is_melt_quote q)), Answer 0 (Inr (Is_execution x))] a) = s \<and>
     wd_proofs (se_memory s) = pm_keep (cp_prepared p) @ change @ change \<and> synced E m s"
proof -
  define s0 where "s0 = (wp_session a)\<lparr>se_now := now, se_room := unlimited\<rparr>"
  define i where "i = next_id E s0"
  define v where "v = new_cash_out (wp_view a) u i now p"
  have V: "vw_wallet (wp_view a) = Some u" "vw_mintUrl (wp_view a) = m" using view by simp_all
  obtain k1 where k1: "handler_of E (wp_view a) (Confirm_cash_out p) s0 =
        Await (after_confirm E m v p s0) (ExecuteMelt (cp_quote p) (cp_prepared p)) k1"
      "\<And>t x. mx_state x = PAID \<Longrightarrow> se_room t = unlimited \<Longrightarrow>
        \<exists>t'. k1 (Inr (Is_execution x)) t = Done t' (Inr ()) \<and> credited_by E m i (mx_change x) t t'"
    using confirm_waits[of "wp_view a" u s0 p E v] V p(1) by (auto simp: s0_def v_def i_def)
  define s1 where "s1 = after_confirm E m v p s0"
  define w1 where "w1 = \<lparr>pd_owner = Some i, pd_locked = False,
      pd_task = Await s1 (ExecuteMelt (cp_quote p) (cp_prepared p)) k1\<rparr>"
  have a1: "app_move E (Start (Confirm_cash_out p)) (at_moment now unlimited a) =
      (at_moment now unlimited a)\<lparr>wp_session := s1, wp_pool := [w1]\<rparr>"
    using start_waits[of E "at_moment now unlimited a" "Confirm_cash_out p"] k1(1) view(3)
    by (simp add: s0_def w1_def s1_def i_def)
  have s1: "se_memory s1 = with_operation v (Some (pm_keep (cp_prepared p))) False (se_memory s0)"
      "se_inflight s1 = {}" "se_now s1 = now" "se_room s1 = unlimited"
    using quiet by (simp_all add: s1_def after_confirm_def s0_def)
  then have ops: "wd_operations (se_memory s1) = [v]"
    using quiet by (simp add: s0_def replaceOperation_def upsert_def)
  have vf: "op_key v = JStr i" "field v ''kind'' = JStr ''cashout''"
      "field v ''outputData'' = JArr (pm_outputs (cp_prepared p))" "field v ''quote'' = melt_quote_json now (cp_quote p)"
      "operationNeedsAttention v"
    by (simp_all add: v_def new_cash_out_def Let_def new_operation_def op_key_def field_def operationNeedsAttention_def text_in_def)
  have at: "text_at ''id'' v = i" using vf(1) by (simp add: op_key_def text_at_def)
  define b1 where "b1 = (at_moment now unlimited a)\<lparr>wp_session := s1, wp_pool := [w1]\<rparr>"
  have now1: "s1\<lparr>se_now := now, se_room := unlimited\<rparr> = s1" using s1 by simp
  have todo: "unresolved (at_moment now unlimited b1) = [v]"
    using view ops vf(5) by (simp add: unresolved_def b1_def)
  obtain k2 where k2: "handler_of E (wp_view a) (Refresh_operation v) s1 =
        Await (s1\<lparr>se_inflight := insert i (se_inflight s1)\<rparr>) (CheckMeltQuote (text_at ''quote'' (field v ''quote''))) k2"
      "\<And>t q ch. mlq_state q = PAID \<Longrightarrow> se_room t = unlimited \<Longrightarrow>
        we_change E (field v ''outputData'') (melt_quote_of (field v ''quote'') q) = Inr ch \<Longrightarrow>
        \<exists>t'. k2 (Inr (Is_melt_quote q)) t = Done t' (Inr ()) \<and> credited_by E m i ch t t'"
    using refresh_waits[of "wp_view a" u v i s1 E] V vf s1(2) p(2) by auto
  define s2 where "s2 = s1\<lparr>se_inflight := insert i (se_inflight s1)\<rparr>"
  define w2 where "w2 = \<lparr>pd_owner = Some i, pd_locked = True,
      pd_task = Await s2 (CheckMeltQuote (text_at ''quote'' (field v ''quote''))) k2\<rparr>"
  define b2 where "b2 = (at_moment now unlimited b1)\<lparr>wp_session := s2, wp_pool := [w1, w2]\<rparr>"
  have a2: "app_move E Refresh_unresolved (at_moment now unlimited b1) = b2"
    using start_waits[of E "at_moment now unlimited b1" "Refresh_operation v"] k2(1) todo
    by (simp add: b1_def b2_def now1 s2_def w2_def at)
  obtain s3 where s3: "k2 (Inr (Is_melt_quote q)) s2 = Done s3 (Inr ())" "credited_by E m i change s2 s3"
    using k2(2)[OF q(1), of s2 change] q(2) vf s1(4) by (auto simp: s2_def)
  have now2: "s2\<lparr>se_now := now, se_room := unlimited\<rparr> = s2" using s1 by (simp add: s2_def)
  define b3 where "b3 = (at_moment now unlimited b2)\<lparr>wp_session := s3, wp_pool := [w1]\<rparr>"
  have a3: "app_move E (Answer 1 (Inr (Is_melt_quote q))) (at_moment now unlimited b2) = b3"
    using answer_done[of 1 "at_moment now unlimited b2"] s3(1)
    by (simp add: b2_def b3_def w2_def now2 drop_nth_def)
  define t3 where "t3 = s3\<lparr>se_now := now, se_room := unlimited\<rparr>"
  obtain s4 where s4: "k1 (Inr (Is_execution x)) t3 = Done s4 (Inr ())" "credited_by E m i change t3 s4"
    using k1(2)[OF x(1), of t3] x(2) by (auto simp: t3_def)
  have a4: "wp_session (app_move E (Answer 0 (Inr (Is_execution x))) (at_moment now unlimited b3)) = s4"
    using answer_done[of 0 "at_moment now unlimited b3"] s4(1)
    by (simp add: b3_def w1_def t3_def)
  have "wd_proofs (se_memory s2) = pm_keep (cp_prepared p)" using s1(1) by (simp add: s2_def)
  then have "wd_proofs (se_memory s4) = pm_keep (cp_prepared p) @ change @ change" "synced E m s4"
    using credited_by_proofs[OF s3(2)] credited_by_proofs[OF s4(2)] by (simp_all add: t3_def)
  moreover have "wp_session (app_run E now [Start (Confirm_cash_out p), Refresh_unresolved,
        Answer 1 (Inr (Is_melt_quote q)), Answer 0 (Inr (Is_execution x))] a) = s4"
    using a4 by (simp add: app_run_def a1 b1_def[symmetric] a2 a3 del: app_move.simps One_nat_def)
  ultimately show ?thesis by blast
qed

text \<open>The storage keys of the wallet.\<close>

lemma keys_apart [simp]:
  "stateKey m = stateKey n \<longleftrightarrow> m = n" "ACTIVE_MINT_KEY \<noteq> stateKey m" "ACTIVE_MINT_KEY \<noteq> legacyProofKey m"
  "legacyProofKey n \<noteq> stateKey m" "stateKey m \<noteq> ACTIVE_MINT_KEY" "legacyProofKey m \<noteq> ACTIVE_MINT_KEY"
  by (simp_all add: stateKey_def ACTIVE_MINT_KEY_def legacyProofKey_def)

lemma load_new_mint:
  "store (stateKey m) = None \<Longrightarrow> store (legacyProofKey m) = None \<Longrightarrow>
   loadWalletSnapshot P room m store = (emptyWalletSnapshot, store)"
  by (simp add: loadWalletSnapshot_def truthy_text_def)

lemma load_unreadable:
  "store (stateKey m) = Some t \<Longrightarrow> t \<noteq> [] \<Longrightarrow> json_parse P t = None \<Longrightarrow>
   loadWalletSnapshot P room m store = (emptyWalletSnapshot, store)"
  by (simp add: loadWalletSnapshot_def truthy_text_def text_or_def)

text \<open>A quote for one mint arrives after the user has changed to another.\<close>

lemma mint_changed:
  assumes view: "wp_view a = \<lparr>vw_mintUrl = m, vw_wallet = Some u\<rparr>" "wp_pool a = []"
    and other: "normalizeMintUrl (new_url (we_platform E)) m' = Inr m'" "m' \<noteq> m"
      "se_store (wp_session a) (stateKey m') = None" "se_store (wp_session a) (legacyProofKey m') = None"
  shows "\<exists>v. se_store (wp_session (app_run E now
        [Start (Request_add n), Change_mint m', Answer 0 (Inr (Is_mint_quote q))] a)) (stateKey m) =
      Some (json_stringify (we_platform E) (document_json (emptyWalletSnapshot\<lparr>wd_operations := [v]\<rparr>)))"
proof -
  define s0 where "s0 = (wp_session a)\<lparr>se_now := now, se_room := unlimited\<rparr>"
  obtain k where k: "handler_of E (wp_view a) (Request_add n) s0 = Await s0 (RequestMint n) k"
      "\<And>t q. se_room t = unlimited \<Longrightarrow> \<exists>v. k (Inr (Is_mint_quote q)) t =
        Done (committed E m (with_operation v None False (se_memory t)) (t\<lparr>se_draws := Suc (se_draws t)\<rparr>)) (Inr ())"
    using request_waits[of "wp_view a" u E n s0] view by auto
  define w where "w = \<lparr>pd_owner = None, pd_locked = False, pd_task = Await s0 (RequestMint n) k\<rparr>"
  define b1 where "b1 = (at_moment now unlimited a)\<lparr>wp_session := s0, wp_pool := [w]\<rparr>"
  have a1: "app_move E (Start (Request_add n)) (at_moment now unlimited a) = b1"
    using start_waits[of E "at_moment now unlimited a" "Request_add n"] k(1) view
    by (simp add: s0_def w_def b1_def)
  define b2 where "b2 = app_move E (Change_mint m') (at_moment now unlimited b1)"
  have save: "saveActiveMint (new_url (we_platform E)) unlimited m' st = (Inr (), st(ACTIVE_MINT_KEY \<mapsto> m'))" for st
    by (simp add: saveActiveMint_def other(1) unlimited_def)
  have b2: "wp_pool b2 = [w]" "se_memory (wp_session b2) = emptyWalletSnapshot"
    using other view
    by (simp_all add: b2_def b1_def change_mint_def Let_def save connect_def load_new_mint s0_def)
  define t where "t = (wp_session b2)\<lparr>se_now := now, se_room := unlimited\<rparr>"
  obtain v where v: "k (Inr (Is_mint_quote q)) t =
      Done (committed E m (with_operation v None False (se_memory t)) (t\<lparr>se_draws := Suc (se_draws t)\<rparr>)) (Inr ())"
    using k(2)[of t] by (auto simp: t_def)
  have "wp_session (app_move E (Answer 0 (Inr (Is_mint_quote q))) (at_moment now unlimited b2)) =
      committed E m (with_operation v None False (se_memory t)) (t\<lparr>se_draws := Suc (se_draws t)\<rparr>)"
    using answer_done[of 0 "at_moment now unlimited b2"] v b2(1) by (simp add: w_def t_def)
  moreover have "with_operation v None False (se_memory t) = emptyWalletSnapshot\<lparr>wd_operations := [v]\<rparr>"
    using b2(2) by (simp add: t_def with_operation_def emptyWalletSnapshot_def replaceOperation_def upsert_def)
  ultimately show ?thesis
    by (intro exI[of _ v]) (simp add: app_run_def a1 b2_def[symmetric] committed_def del: app_move.simps)
qed

text \<open>A document that cannot be read is replaced by an empty one when the mint answers.\<close>

lemma unreadable_replaced:
  assumes "se_store (wp_session a) (stateKey m) = Some t" "t \<noteq> []" "json_parse (we_platform E) t = None"
  shows "se_store (wp_session (app_run E now [Loaded (Inr u)] (connect E m a))) (stateKey m) =
    Some (json_stringify (we_platform E) (document_json (emptyWalletSnapshot\<lparr>wd_unit := Some u\<rparr>)))"
proof -
  have "wd_unit emptyWalletSnapshot = None" "bound_to u emptyWalletSnapshot = emptyWalletSnapshot\<lparr>wd_unit := Some u\<rparr>"
    by (simp_all add: emptyWalletSnapshot_def bound_to_def)
  then show ?thesis
    using assms
    by (simp add: app_run_def connect_def Let_def load_unreadable loaded_def truthy_text_def at_moment_def
        saveWalletSnapshot_def unlimited_def)
qed

end
