(* ===== verification/Wallet_Promises.thy ===== *)
theory Wallet_Promises
  imports Wallet_Ledger Wallet_Races Wallet_Ends Wallet_Restore Market_Demo
begin

section \<open>Properties of the wallet\<close>

text \<open>
  The properties of \<open>wallet/src/App.tsx\<close> and of its restore from the mint, with their witnesses: a wallet
  with an empty storage opens, the mint answers, and a cash-out of nothing with one blank output is confirmed.
\<close>

subsection \<open>A wallet for the witnesses\<close>

definition wallet_demo :: wallet_env where
  "wallet_demo =
     \<lparr>we_platform = demo_platform, we_id = (\<lambda>used n. CHR ''x'' # concat used),
      we_inspect = (\<lambda>unit token. Inl Thrown_value), we_encode = (\<lambda>mintUrl unit ps. Inr ''cashuB''),
      we_change = (\<lambda>outputs quote. Inr [demo_proof])\<rparr>"

lemma length_concat: "x \<in> set xs \<Longrightarrow> length x \<le> length (concat xs)"
  by (induction xs) auto

lemma wallet_demo_fresh: "fresh_ids wallet_demo"
proof -
  have "CHR ''x'' # concat used \<notin> set used" for used :: "string list"
    using length_concat[of "CHR ''x'' # concat used" used] by auto
  then show ?thesis by (simp add: fresh_ids_def wallet_demo_def)
qed

lemma wallet_demo_sel [simp]:
  "we_platform wallet_demo = demo_platform" "we_change wallet_demo = (\<lambda>outputs quote. Inr [demo_proof])"
  by (simp_all add: wallet_demo_def)

definition wallet_demo_session :: wallet_session where
  "wallet_demo_session =
     \<lparr>se_store = Map.empty, se_memory = emptyWalletSnapshot, se_inflight = {}, se_toast = None, se_draws = 0, se_now = 0,
      se_room = unlimited\<rparr>"

definition wallet_demo_opened :: wallet_app where
  "wallet_demo_opened =
     \<lparr>wp_session = wallet_demo_session, wp_view = \<lparr>vw_mintUrl = ''https://m'', vw_wallet = None\<rparr>, wp_status = Mint_connecting,
      wp_error = None, wp_loading = True, wp_pool = []\<rparr>"

definition wallet_demo_online :: wallet_app where
  "wallet_demo_online = app_move wallet_demo (Loaded (Inr ''rusd'')) (at_moment 0 unlimited wallet_demo_opened)"

definition wallet_demo_change :: "cashu_proof list" where
  "wallet_demo_change = [demo_proof]"

definition wallet_demo_cash_out :: cash_out_preparation where
  "wallet_demo_cash_out =
     \<lparr>cp_quote = demo_melt_quote,
      cp_prepared = \<lparr>pm_keep = [], pm_reserved = [], pm_outputs = [demo_output], pm_keysetId = ''k'', pm_inputFee = Some 0\<rparr>,
      cp_balance = Some 0, cp_maximumDebit = Some 0, cp_fingerprint = walletFingerprint demo_platform []\<rparr>"

definition wallet_demo_paying :: wallet_app where
  "wallet_demo_paying = app_move wallet_demo (Start (wallet_action.Confirm_cash_out wallet_demo_cash_out))
     (at_moment 0 unlimited wallet_demo_online)"

lemma wallet_demo_runs:
  "opened wallet_demo ''https://m'' wallet_demo_session = Inr wallet_demo_opened"
  "orderly_run wallet_demo wallet_demo_opened wallet_demo_online"
  "orderly_run wallet_demo wallet_demo_opened wallet_demo_paying"
proof -
  show opened: "opened wallet_demo ''https://m'' wallet_demo_session = Inr wallet_demo_opened"
    by (simp add: opened_def loadActiveMint_def truthy_text_def wallet_demo_session_def demo_platform_def demo_mint
        connect_def load_new_mint wallet_demo_opened_def)
  have start: "orderly_run wallet_demo wallet_demo_opened wallet_demo_opened"
    by (rule orderly_opened[OF opened]) (simp add: wallet_demo_session_def)
  show online: "orderly_run wallet_demo wallet_demo_opened wallet_demo_online"
    unfolding wallet_demo_online_def by (rule orderly_move[OF start]) simp
  show "orderly_run wallet_demo wallet_demo_opened wallet_demo_paying"
    unfolding wallet_demo_paying_def by (rule orderly_move[OF online]) simp
qed

lemma wallet_demo_is_online:
  "wp_view wallet_demo_online = \<lparr>vw_mintUrl = ''https://m'', vw_wallet = Some ''rusd''\<rparr>"
  "wp_status wallet_demo_online = Mint_online" "wp_pool wallet_demo_online = []"
  "se_memory (wp_session wallet_demo_online) = emptyWalletSnapshot\<lparr>wd_unit := Some ''rusd''\<rparr>"
  "se_inflight (wp_session wallet_demo_online) = {}"
  by (simp_all add: wallet_demo_online_def Wallet_System.loaded_def wallet_demo_opened_def wallet_demo_session_def at_moment_def
      truthy_text_def emptyWalletSnapshot_def saveWalletSnapshot_def unlimited_def bound_to_def)

text \<open>What the confirmed cash-out waits for, and its operation.\<close>

definition wallet_demo_record :: json where
  "wallet_demo_record = new_cash_out \<lparr>vw_mintUrl = ''https://m'', vw_wallet = Some ''rusd''\<rparr> ''rusd'' ''x'' 0 wallet_demo_cash_out"

lemma wallet_demo_waits:
  obtains s k where "wp_pool wallet_demo_paying = [\<lparr>pd_owner = Some ''x'', pd_locked = False, pd_task =
      Await s (ExecuteMelt demo_melt_quote (cp_prepared wallet_demo_cash_out)) k\<rparr>]"
    "wp_view wallet_demo_paying = wp_view wallet_demo_online"
    "\<And>t x. mx_state x = PAID \<Longrightarrow> se_room t = unlimited \<Longrightarrow>
       \<exists>t'. k (Inr (Is_execution x)) t = Done t' (Inr ()) \<and> credited_by wallet_demo ''https://m'' ''x'' (mx_change x) t t'"
proof -
  let ?a = "at_moment 0 unlimited wallet_demo_online"
  have ident: "next_id wallet_demo (wp_session ?a) = ''x''"
    by (simp add: next_id_def wallet_demo_is_online emptyWalletSnapshot_def) (simp add: wallet_demo_def)
  obtain k where k: "handler_of wallet_demo (wp_view ?a) (wallet_action.Confirm_cash_out wallet_demo_cash_out) (wp_session ?a) =
      Await (after_confirm wallet_demo ''https://m'' wallet_demo_record wallet_demo_cash_out (wp_session ?a))
        (ExecuteMelt (cp_quote wallet_demo_cash_out) (cp_prepared wallet_demo_cash_out)) k"
    "\<And>t x. mx_state x = PAID \<Longrightarrow> se_room t = unlimited \<Longrightarrow>
       \<exists>t'. k (Inr (Is_execution x)) t = Done t' (Inr ()) \<and> credited_by wallet_demo ''https://m'' ''x'' (mx_change x) t t'"
    using confirm_waits[of "wp_view ?a" "''rusd''" "wp_session ?a" wallet_demo_cash_out wallet_demo wallet_demo_record] ident
    by (auto simp: wallet_demo_is_online wallet_demo_record_def wallet_demo_cash_out_def emptyWalletSnapshot_def)
  have "cp_quote wallet_demo_cash_out = demo_melt_quote" by (simp add: wallet_demo_cash_out_def)
  with start_waits[OF k(1)] k(2) ident show ?thesis
    by (intro that) (simp_all add: wallet_demo_paying_def wallet_demo_is_online del: handler_of.simps)
qed

subsection \<open>Calls and the balance\<close>

text \<open>
  C34. In an orderly run (\<open>orderly_run\<close>), when new identifiers are new (\<open>fresh_ids\<close>): whenever a handler waits
  for a call that spends prepared data, the stored document is the one in memory and has exactly one
  operation of its owner, which holds that data; and no other waiting handler works on the operation. The
  runs below show what happens in runs that are not orderly.
\<close>

theorem wallet_calls_are_recoverable:
  assumes "orderly_run E a0 a" "fresh_ids E"
    and "p \<in> set (wp_pool a)" "pd_task p = Await s0 c k" "completes c"
  shows "\<exists>i v. pd_owner p = Some i \<and> op_at (wp_session a) i = [v] \<and> holds c v \<and>
    se_store (wp_session a) (stateKey (wp_mint a)) =
      Some (json_stringify (we_platform E) (document_json (se_memory (wp_session a)))) \<and>
    filter (\<lambda>q. pd_owner q = Some i) (wp_pool a) = [p]"
proof -
  have tidy: "tidy E a" by (rule orderly_tidy[OF assms(1,2)])
  with assms(3) have "still_waits E a p" by (simp add: tidy_def list_all_iff)
  then have "allowed_call E (wp_mint a) (part_of p) c (wp_session a)"
    using assms(4) by (auto elim: still_waits_allowed)
  with assms(5) obtain i v where i: "pd_owner p = Some i" "op_at (wp_session a) i = [v]" "holds c v"
      "Wallet_Contract.synced E (wp_mint a) (wp_session a)"
    by (auto simp: allowed_call_def)
  have "filter (\<lambda>q. pd_owner q = Some i) (wp_pool a) = [p]"
    by (rule owner_once[OF _ assms(3) i(1)]) (use tidy in \<open>simp add: tidy_def\<close>)
  with i show ?thesis by (auto simp: Wallet_Contract.synced_def)
qed

lemma wallet_calls_are_recoverable_witness:
  "orderly_run wallet_demo wallet_demo_opened wallet_demo_paying \<and>
   (\<exists>p s0 k i v. wp_pool wallet_demo_paying = [p] \<and>
      pd_task p = Await s0 (ExecuteMelt demo_melt_quote (cp_prepared wallet_demo_cash_out)) k \<and>
      op_at (wp_session wallet_demo_paying) i = [v] \<and> field v ''outputData'' = JArr [demo_output])"
proof -
  obtain s k where w: "wp_pool wallet_demo_paying = [\<lparr>pd_owner = Some ''x'', pd_locked = False, pd_task =
      Await s (ExecuteMelt demo_melt_quote (cp_prepared wallet_demo_cash_out)) k\<rparr>]"
    by (rule wallet_demo_waits)
  have "pm_outputs (cp_prepared wallet_demo_cash_out) = [demo_output]" by (simp add: wallet_demo_cash_out_def)
  with wallet_calls_are_recoverable[OF wallet_demo_runs(3) wallet_demo_fresh, of _ s
      "ExecuteMelt demo_melt_quote (cp_prepared wallet_demo_cash_out)" k] w wallet_demo_runs(3)
  show ?thesis by fastforce
qed

text \<open>
  C35. In an orderly run, when new identifiers are new, a move other than changing or reloading the mint
  (which take the proofs of the document that the storage holds) changes the proofs only as follows: the
  start of a send or a cash-out leaves those that its preparation keeps, in the commit that stores the new
  operation; or an answer appends those that it brings, in the commit that completes its operation.
\<close>

theorem wallet_balance_ledger:
  assumes "orderly_run E a0 b" "fresh_ids E" "a = at_moment now room b" "orderly E a mv"
    and "\<And>m. mv \<noteq> Change_mint m" "mv \<noteq> Retry_mint" and a': "a' = app_move E mv a"
    and changed: "wd_proofs (se_memory (wp_session a')) \<noteq> wd_proofs (se_memory (wp_session a))"
  shows "se_store (wp_session a') (stateKey (wp_mint a)) =
      Some (json_stringify (we_platform E) (document_json (se_memory (wp_session a')))) \<and>
    ((\<exists>act i v. mv = Start act \<and> owner_of E (wp_session a) act = Some i \<and> op_at (wp_session a) i = [] \<and>
        op_at (wp_session a') i = [v] \<and> kept_proofs act = Some (wd_proofs (se_memory (wp_session a')))) \<or>
     (\<exists>n x s0 c k i v v' ps. mv = Answer n (Inr x) \<and> n < length (wp_pool a) \<and>
        pd_task (wp_pool a ! n) = Await s0 c k \<and> pd_owner (wp_pool a ! n) = Some i \<and>
        op_at (wp_session a) i = [v] \<and> op_at (wp_session a') i = [v'] \<and> credit E v c x = Some ps \<and>
        wd_proofs (se_memory (wp_session a')) = wd_proofs (se_memory (wp_session a)) @ ps \<and> completed c v'))"
proof (cases mv)
  case (Start act)
  have "orderly_start a act" "proofs_of (wp_session (start E act a)) \<noteq> proofs_of (wp_session a)"
    using assms(4) changed by (simp_all add: a' Start)
  from this(1) assms(2) this(2) obtain i v where "owner_of E (wp_session a) act = Some i" "op_at (wp_session a) i = []"
    "op_at (wp_session (start E act a)) i = [v]" "Wallet_Contract.synced E (wp_mint a) (wp_session (start E act a))"
    "kept_proofs act = Some (proofs_of (wp_session (start E act a)))"
    by (rule start_kept)
  then show ?thesis by (auto simp: a' Start Wallet_Contract.synced_def)
next
  case (Answer n r)
  have tidy: "tidy E a" unfolding assms(3) by (rule tidy_moment[OF orderly_tidy[OF assms(1,2)]])
  have changed: "proofs_of (wp_session (answer n r a)) \<noteq> proofs_of (wp_session a)"
    using changed by (simp add: a' Answer)
  obtain c where c: "n < length (wp_pool a)" "\<exists>s0 k. pd_task (wp_pool a ! n) = Await s0 c k"
      "credited E (pd_owner (wp_pool a ! n)) (Some (c, r)) (wp_session a) (wp_session (answer n r a))"
      "Wallet_Contract.synced E (wp_mint a) (wp_session (answer n r a))"
    by (rule answer_proofs[OF tidy changed])
  then show ?thesis by (auto simp: a' Answer credited_def Wallet_Contract.synced_def)
qed (use assms changed refresh_all_proofs loaded_proofs in auto)

lemma wallet_balance_ledger_witness:
  "\<exists>a a' n x c ps. a = at_moment 0 unlimited wallet_demo_paying \<and> a' = app_move wallet_demo (Answer n (Inr x)) a \<and>
     wd_proofs (se_memory (wp_session a')) = wd_proofs (se_memory (wp_session a)) @ ps \<and> ps = [demo_proof]"
proof -
  let ?a = "at_moment 0 unlimited wallet_demo_paying"
  let ?x = "\<lparr>mx_state = PAID, mx_change = [demo_proof], mx_outputs = [demo_output]\<rparr>"
  obtain s k where w: "wp_pool wallet_demo_paying = [\<lparr>pd_owner = Some ''x'', pd_locked = False, pd_task =
      Await s (ExecuteMelt demo_melt_quote (cp_prepared wallet_demo_cash_out)) k\<rparr>]"
    and k: "\<And>t x. mx_state x = PAID \<Longrightarrow> se_room t = unlimited \<Longrightarrow>
       \<exists>t'. k (Inr (Is_execution x)) t = Done t' (Inr ()) \<and> credited_by wallet_demo ''https://m'' ''x'' (mx_change x) t t'"
    by (rule wallet_demo_waits) blast
  obtain t where t: "k (Inr (Is_execution ?x)) (wp_session ?a) = Done t (Inr ())"
      "credited_by wallet_demo ''https://m'' ''x'' [demo_proof] (wp_session ?a) t"
    using k[of ?x "wp_session ?a"] by auto
  let ?b = "app_move wallet_demo (Answer 0 (Inr (Is_execution ?x))) ?a"
  have "wp_session ?b = t" using answer_done[of 0 ?a s "ExecuteMelt demo_melt_quote (cp_prepared wallet_demo_cash_out)" k, OF _ _ _ t(1)] w by simp
  then have more: "proofs_of (wp_session ?b) = proofs_of (wp_session ?a) @ [demo_proof]"
    using credited_by_proofs[OF t(2)] by simp
  have "se_store (wp_session ?b) (stateKey (wp_mint ?a)) =
      Some (json_stringify demo_platform (document_json (se_memory (wp_session ?b))))"
    using wallet_balance_ledger[OF wallet_demo_runs(3) wallet_demo_fresh refl _ _ _ refl, of 0 unlimited
        "Answer 0 (Inr (Is_execution ?x))"] more by simp
  with more show ?thesis by blast
qed

subsection \<open>Races\<close>

text \<open>
  C36. A cash-out that is checked while it is paid credits its change twice.
\<close>

theorem wallet_credits_change_twice:
  assumes "wp_view a = \<lparr>vw_mintUrl = m, vw_wallet = Some u\<rparr>" "wp_status a = Mint_online" "wp_pool a = []"
    and "wd_operations (se_memory (wp_session a)) = []" "se_inflight (wp_session a) = {}"
    and "cp_fingerprint p = walletFingerprint (we_platform E) (wd_proofs (se_memory (wp_session a)))"
      "pm_outputs (cp_prepared p) \<noteq> []"
    and "mlq_state q = PAID" "mx_state x = PAID"
      "we_change E (JArr (pm_outputs (cp_prepared p))) (melt_quote_of (melt_quote_json now (cp_quote p)) q) = Inr (mx_change x)"
  shows "\<exists>s. wp_session (app_run E now [Start (wallet_action.Confirm_cash_out p), Refresh_unresolved,
        Answer 1 (Inr (Is_melt_quote q)), Answer 0 (Inr (Is_execution x))] a) = s \<and>
     wd_proofs (se_memory s) = pm_keep (cp_prepared p) @ mx_change x @ mx_change x \<and>
     se_store s (stateKey m) = Some (json_stringify (we_platform E) (document_json (se_memory s)))"
  using change_twice[OF assms(1-8) assms(10,9) refl] by (simp add: Wallet_Contract.synced_def)

lemma wallet_credits_change_twice_witness:
  "\<exists>s. wp_session (app_run wallet_demo 0 [Start (wallet_action.Confirm_cash_out wallet_demo_cash_out), Refresh_unresolved,
        Answer 1 (Inr (Is_melt_quote (demo_melt_quote\<lparr>mlq_state := PAID\<rparr>))),
        Answer 0 (Inr (Is_execution \<lparr>mx_state = PAID, mx_change = [demo_proof], mx_outputs = []\<rparr>))] wallet_demo_online) = s \<and>
     wd_proofs (se_memory s) = [demo_proof, demo_proof]"
  using wallet_credits_change_twice[of wallet_demo_online "''https://m''" "''rusd''" wallet_demo_cash_out wallet_demo
      "demo_melt_quote\<lparr>mlq_state := PAID\<rparr>" "\<lparr>mx_state = PAID, mx_change = [demo_proof], mx_outputs = []\<rparr>" 0]
  by (simp add: wallet_demo_is_online emptyWalletSnapshot_def) (simp add: wallet_demo_cash_out_def)

text \<open>
  C37. An answer that arrives after a change of the mint overwrites the document of the earlier mint.
\<close>

theorem wallet_mint_change_overwrites:
  assumes "wp_view a = \<lparr>vw_mintUrl = m, vw_wallet = Some u\<rparr>" "wp_pool a = []"
    and "normalizeMintUrl (new_url (we_platform E)) m' = Inr m'" "m' \<noteq> m"
    and "se_store (wp_session a) (stateKey m') = None" "se_store (wp_session a) (legacyProofKey m') = None"
  shows "\<exists>v. se_store (wp_session (app_run E now
        [Start (Request_add n), Change_mint m', Answer 0 (Inr (Is_mint_quote q))] a)) (stateKey m) =
      Some (json_stringify (we_platform E) (document_json (emptyWalletSnapshot\<lparr>wd_operations := [v]\<rparr>)))"
  by (rule mint_changed[OF assms])

definition wallet_demo_elsewhere :: wallet_app where
  "wallet_demo_elsewhere =
     wallet_demo_opened\<lparr>wp_view := \<lparr>vw_mintUrl = ''https://n'', vw_wallet = Some ''rusd''\<rparr>,
       wp_session := wallet_demo_session\<lparr>se_memory := emptyWalletSnapshot\<lparr>wd_proofs := [demo_proof]\<rparr>\<rparr>\<rparr>"

lemma wallet_mint_change_overwrites_witness:
  "wd_proofs (se_memory (wp_session wallet_demo_elsewhere)) = [demo_proof] \<and>
   (\<exists>v. se_store (wp_session (app_run wallet_demo 0
        [Start (Request_add 10), Change_mint ''https://m'', Answer 0 (Inr (Is_mint_quote demo_mint_quote))]
        wallet_demo_elsewhere)) (stateKey ''https://n'') =
      Some (json_stringify demo_platform (document_json (emptyWalletSnapshot\<lparr>wd_operations := [v]\<rparr>))))"
  using wallet_mint_change_overwrites[of wallet_demo_elsewhere "''https://n''" "''rusd''" wallet_demo "''https://m''" 0 10
      demo_mint_quote]
  by (simp add: wallet_demo_elsewhere_def wallet_demo_opened_def wallet_demo_session_def demo_mint demo_runtime)

text \<open>
  A stored document that cannot be read is overwritten when the mint answers.
\<close>

lemma wallet_overwrites_unreadable:
  assumes "se_store (wp_session a) (stateKey m) = Some t" "t \<noteq> []" "json_parse (we_platform E) t = None"
  shows "se_store (wp_session (app_run E now [Loaded (Inr u)] (connect E m a))) (stateKey m) =
    Some (json_stringify (we_platform E) (document_json (emptyWalletSnapshot\<lparr>wd_unit := Some u\<rparr>)))"
  by (rule unreadable_replaced[OF assms])

lemma wallet_overwrites_unreadable_witness:
  "se_store (wp_session (app_run wallet_demo 0 [Loaded (Inr ''rusd'')] (connect wallet_demo ''https://m''
       (wallet_demo_opened\<lparr>wp_session := wallet_demo_session\<lparr>se_store := [stateKey ''https://m'' \<mapsto> ''{'']\<rparr>\<rparr>))))
     (stateKey ''https://m'') =
   Some (json_stringify demo_platform (document_json (emptyWalletSnapshot\<lparr>wd_unit := Some ''rusd''\<rparr>)))"
proof -
  have "read_json ''{'' = None" by code_simp
  then show ?thesis
    using wallet_overwrites_unreadable[of "wallet_demo_opened\<lparr>wp_session :=
        wallet_demo_session\<lparr>se_store := [stateKey ''https://m'' \<mapsto> ''{'']\<rparr>\<rparr>" "''https://m''" "''{''" wallet_demo 0 "''rusd''"]
    by (simp add: demo_platform_def)
qed

subsection \<open>Restoring from the mint\<close>

text \<open>
  C38. The signatures that a mint restores are matched exactly.
\<close>

theorem wallet_restored_signatures:
  "(matchRestoredSignatures expected outputs signatures = Some ms \<longleftrightarrow> restores expected outputs signatures ms) \<and>
   (case matchRestoredSignatures expected outputs signatures of None \<Rightarrow> True | Some ms \<Rightarrow> mset ms = mset signatures)"
  by (simp add: match_restores restores_perm split: option.split)

end
