(* ===== verification/Wallet_Screen_Promises.thy ===== *)
theory Wallet_Screen_Promises
  imports Wallet_Reviewed Wallet_Promises
begin

section \<open>Properties of the wallet's screens\<close>

text \<open>
  What a confirmation spends is what its review showed, and no handler and no screen waits for ever. The
  witness is a screen that reviews a payment of 5 out of one proof of 10.
\<close>

subsection \<open>A screen for the witness\<close>

definition demo_view :: wallet_view where
  "demo_view = \<lparr>vw_mintUrl = ''https://m'', vw_wallet = Some ''rusd''\<rparr>"

definition demo_rich :: wallet_session where
  "demo_rich = wallet_demo_session\<lparr>se_memory := emptyWalletSnapshot\<lparr>wd_proofs := [demo_proof]\<rparr>\<rparr>"

definition demo_asked :: decoded_request where
  "demo_asked = \<lparr>dr_id = None, dr_amount = Some 5, dr_unit = ''rusd'', dr_mints = [], dr_description = ''Tea'',
     dr_singleUse = False, dr_transport = [], dr_nut10 = None, dr_encoded = ''creqA''\<rparr>"

definition demo_reviewing :: pay_screen where
  "demo_reviewing = pay_opened\<lparr>py_view := Pay_review, py_request := Some demo_asked,
     py_preparation := Some (outgoing_of wallet_demo demo_asked [demo_proof] (Offline_send [] [demo_proof] (Some 10) (Some 5)))\<rparr>"

lemma demo_sum: "sumProofs [demo_proof] = Some 10"
  by (simp add: sumProofs_def num_add_def proof_units_def demo_proof_def field_def small_safe js_add_exact)

lemma demo_unit: "to_lower (to_upper ''rusd'') = ''rusd''"
  by code_simp

lemma demo_payable: "payable wallet_demo demo_view ''rusd'' demo_asked demo_rich = (Inr [demo_proof], demo_rich)"
  by (simp add: payable_def bindM_def readM_def liftM_def returnM_def assertSingleUseRequestAvailable_def demo_asked_def
      validatePaymentRequest_def demo_rich_def demo_view_def demo_mint num_safe_def small_safe demo_sum num_less_def
      demo_runtime emptyWalletSnapshot_def demo_unit)


lemma demo_confirms:
  "\<exists>xs k. pay_confirm wallet_demo demo_view (demo_reviewing, demo_rich) = Await xs (PrepareSend (Some 5) [demo_proof]) k"
  "py_request demo_reviewing = Some demo_asked"
  "pay_figures demo_reviewing = Some (Some 5, Some 5, Some 10, Some 0)"
proof -
  have wallet: "vw_wallet demo_view = Some ''rusd''" by (simp add: demo_view_def)
  show asked: "py_request demo_reviewing = Some demo_asked" by (simp add: demo_reviewing_def)
  have seen: "py_preparation demo_reviewing = Some (outgoing_of wallet_demo demo_asked [demo_proof]
      (Offline_send [] [demo_proof] (Some 10) (Some 5)))" "py_view demo_reviewing = Pay_review" "\<not> py_confirming demo_reviewing"
    by (simp_all add: demo_reviewing_def pay_opened_def)
  show "\<exists>xs k. pay_confirm wallet_demo demo_view (demo_reviewing, demo_rich) = Await xs (PrepareSend (Some 5) [demo_proof]) k"
    by (simp add: pay_confirm_def asked seen pay_run_def pay_spend_def finallySet_def finallyA_def catchA_def tryA_def
        bindA_def setA_def calls_def wallet_prepareOutgoing_def syncA_def needM_def wallet demo_payable askA_def)
       (simp add: demo_asked_def)
  show "pay_figures demo_reviewing = Some (Some 5, Some 5, Some 10, Some 0)"
    by (simp add: pay_figures_def asked seen outgoing_of_def demo_sum num_minus_def js_add_exact small_safe)
       (simp add: demo_asked_def)
qed

subsection \<open>Spending\<close>

text \<open>
  C39. A confirmation of a payment commits what its review showed, or nothing.
\<close>

theorem wallet_spends_what_was_shown:
  assumes "pay_confirm E V (x, s) = Await xs c k" and "py_request x = Some r"
    and "pay_figures x = Some (amount, fee, debit, rest)"
  shows "c = PrepareSend amount (wd_proofs (se_memory s)) \<and>
    (let after = left_state (k a (x1, s1)) in
     se_memory (snd after) = se_memory s1 \<and> py_view (fst after) = Pay_review \<and> py_error (fst after) \<noteq> None \<or>
     (\<exists>q. a = Inr (Is_send q) \<and> send_debit q = debit \<and> send_fee q = fee \<and>
        num_minus (sumProofs (wd_proofs (se_memory s))) debit = rest \<and>
        walletFingerprint (we_platform E) (wd_proofs (se_memory s1)) = walletFingerprint (we_platform E) (wd_proofs (se_memory s)) \<and>
        sent_for E r q (se_memory s1) (se_memory (snd after))))"
proof -
  from assms(2,3) obtain seen where seen: "py_preparation x = Some seen" "dr_amount r = amount" "og_fee seen = fee"
      "og_debit seen = debit" "num_minus (og_balance seen) debit = rest"
    by (auto simp: pay_figures_def split: pay_view.splits option.splits)
  have "pay_run E V r seen (x, s) = Await xs c k"
    using assms(1,2) seen(1) by (auto simp: pay_confirm_def returnA_def split: if_splits)
  from pay_run_first[OF this, of a x1 s1] seen show ?thesis
    by (auto simp: Let_def pay_changed_def num_differs_def outgoing_of_def)
qed

lemma wallet_spends_what_was_shown_witness:
  "\<exists>xs k. pay_confirm wallet_demo demo_view (demo_reviewing, demo_rich) = Await xs (PrepareSend (Some 5) [demo_proof]) k \<and>
   (let after = left_state (k (Inr (Is_send (Offline_send [] [demo_proof] (Some 10) (Some 5)))) (demo_reviewing, demo_rich)) in
    se_memory (snd after) = se_memory demo_rich \<and> py_view (fst after) = Pay_review \<and> py_error (fst after) \<noteq> None \<or>
    sent_for wallet_demo demo_asked (Offline_send [] [demo_proof] (Some 10) (Some 5)) (se_memory demo_rich) (se_memory (snd after)))"
proof -
  obtain xs k where run: "pay_confirm wallet_demo demo_view (demo_reviewing, demo_rich) = Await xs (PrepareSend (Some 5) [demo_proof]) k"
    using demo_confirms(1) by blast
  show ?thesis
    using run wallet_spends_what_was_shown[OF run demo_confirms(2,3),
        of "Inr (Is_send (Offline_send [] [demo_proof] (Some 10) (Some 5)))" demo_reviewing demo_rich]
    by (auto simp: Let_def)
qed

subsection \<open>Nothing waits for ever\<close>

text \<open>
  C40. Every handler ends after at most four answers, and every action of a screen after at most five, with
  the screen out of its waiting view.
\<close>

theorem wallet_actions_end:
  "(\<exists>s' r. answered (handler_of E V act s) [(r1, s1), (r2, s2), (r3, s3), (r4, s4)] = Done s' r) \<and>
   comes_back 5 (\<lambda>x. py_view x = Pay_scan) (\<lambda>x. py_view x = Pay_scan \<or> py_view x = Pay_review) (pay_submit E V) \<and>
   comes_back 5 pay_reviewing pay_answered (pay_confirm E V) \<and>
   comes_back 5 (\<lambda>x. \<not> cs_busy x) (\<lambda>x. \<not> cs_busy x) (cash_out_price E V) \<and>
   comes_back 5 (\<lambda>x. cs_view x = Cash_review) cash_out_answered (cash_out_confirm E V) \<and>
   comes_back 5 (\<lambda>x. \<not> cs_busy x) (\<lambda>x. \<not> cs_busy x) (cash_out_refresh E V) \<and>
   comes_back 5 (\<lambda>x. \<not> ad_busy x) (\<lambda>x. \<not> ad_busy x) (add_request E V) \<and>
   comes_back 5 (\<lambda>x. \<not> ad_busy x) (\<lambda>x. \<not> ad_busy x) (add_refresh E V) \<and>
   comes_back 5 request_idle request_idle (request_receive E V online t) \<and>
   comes_back 5 (\<lambda>x. \<not> dt_busy x) (\<lambda>x. \<not> dt_busy x) (detail_run E V v choice)"
proof (intro conjI)
  show "\<exists>s' r. answered (handler_of E V act s) [(r1, s1), (r2, s2), (r3, s3), (r4, s4)] = Done s' r"
    by (rule ends_within_answered[of _ 4]) (use handlers_end in \<open>simp_all add: costs_def\<close>)
qed (rule pay_submit_back pay_confirm_back cash_out_price_back cash_out_confirm_back cash_out_refresh_back
      add_request_back add_refresh_back request_receive_back detail_run_back)+

end
