(* ===== verification/Spec2Isabelle.thy ===== *)
theory Spec2Isabelle
  imports Relay_Server_Properties Faucet_Properties Faucet_Server_Correct Market_Promises
    Market_Cart Wallet_Amounts Wallet_Library Wallet_Storage Wallet_Screen_Promises
begin

text \<open>
  FiberNuts: the TypeScript services and applications, as executable definitions with their theorems.

  The program. Four programs share one Cashu mint whose invoices are paid over Fiber. The relay
  (\<open>relay/src\<close>) carries payment payloads between browsers: a vendor registers an order with two
  capabilities, an attendee delivers to one, the vendor reads, acknowledges or cancels with the other. The
  faucet (\<open>faucet/src\<close>) pays the invoices of mint quotes on a test network, within budgets. The market
  (\<open>market/src\<close>) is a browser application for the vendors and attendees of an event; it uses the wallet's
  library, the relay and the faucet. The wallet (\<open>wallet/src\<close>) is the general browser wallet.

  Theories, in the order in which they build on each other.
  \<^item> \<open>Prelude\<close> (results as sums, lists with keys, IEEE doubles as rounded integers, characters), \<open>Effects\<close>
    (operations that leave a state, with the rules \<open>outcomes\<close>), \<open>State_Machine\<close> (the locales
    \<open>invariant_machine\<close> and \<open>tracked_machine\<close>), \<open>Js_Value\<close> (JSON values, \<open>JSON.parse\<close> and \<open>stringify\<close>,
    URLs), \<open>Http\<close> (settings, requests, bodies, rate tables).
  \<^item> Relay: \<open>Relay_Protocol\<close> is \<open>protocol.ts\<close>, \<open>Relay_Store\<close> is \<open>database.ts\<close>, \<open>Relay_Server\<close> is \<open>config.ts\<close>,
    \<open>server.ts\<close> and the start and clean-up of \<open>index.ts\<close>. \<open>Relay_Facts\<close> and \<open>Relay_Correct\<close> hold the
    invariant of the table, the life cycle of a slot and the durability of a delivered payload;
    \<open>Relay_Server_Correct\<close> the refinement of the server to the store and the rate limit. Properties:
    \<open>Relay_Properties\<close>, \<open>Relay_Server_Properties\<close>.
  \<^item> Faucet: \<open>Faucet_Protocol\<close> is \<open>config.ts\<close> and \<open>protocol.ts\<close>, \<open>Faucet_Store\<close> is \<open>database.ts\<close>,
    \<open>Faucet_Upstream\<close> is \<open>upstream.ts\<close>, \<open>Faucet_Service\<close> is \<open>service.ts\<close> with the passes of \<open>index.ts\<close>,
    \<open>Faucet_Server\<close> is \<open>server.ts\<close>. \<open>Faucet_Refine\<close> cuts the service into atomic moves;
    \<open>Faucet_Correct\<close> and \<open>Faucet_Limits\<close> prove their invariants over those moves through
    the locales \<open>timed_invariant\<close>, \<open>clocked_invariant\<close> and \<open>move_invariant\<close>; \<open>Faucet_Script\<close> is the packed
    script. \<open>Faucet_Server_Correct\<close> carries every run of the service over to the server.
    Properties: \<open>Faucet_Properties\<close> and the end of \<open>Faucet_Server_Correct\<close>.
  \<^item> Records, library and storage of the wallet: \<open>Wallet_Types\<close> is \<open>domain/operations.ts\<close>, \<open>Wallet_Request\<close>
    is \<open>lib/payment-request.ts\<close>, \<open>Wallet_Library\<close> and \<open>Wallet_Restore\<close> are \<open>lib/wallet.ts\<close>, \<open>Wallet_Storage\<close>
    is \<open>lib/storage.ts\<close>; \<open>Wallet_Amounts\<close> shows that a printed amount reads back as itself.
  \<^item> Market: \<open>Market_Errors\<close> is \<open>domain/errors.ts\<close>, \<open>Market_Types\<close> \<open>domain/types.ts\<close>, \<open>Market_Manifest\<close>
    \<open>event/manifest.ts\<close>, \<open>Market_Storage\<close>, \<open>Market_Snapshot\<close> and \<open>Market_Load\<close> \<open>domain/storage.ts\<close>,
    \<open>Market_Payment\<close> \<open>domain/payment.ts\<close>, \<open>Market_Clients\<close> \<open>domain/relay.ts\<close> and \<open>domain/faucet.ts\<close>,
    \<open>Market_Ports\<close>, \<open>Market_Runtime\<close>, \<open>Market_Vendor\<close> and \<open>Market_Cash\<close> \<open>domain/market-runtime.ts\<close>, and
    \<open>Market_App\<close> \<open>hooks/useMarket.ts\<close>. \<open>Market_Moves\<close> is the abstract machine of the runtime: the calls it
    makes and the commits between them. The \<open>Market_Refine\<close> theories show that every method is a sequence
    of its moves, \<open>Market_App_Refine\<close> that every event of the application is. \<open>Market_Safety\<close> proves their
    invariant, with the history of all commits, which the properties state of the states that the
    application reaches (\<open>app_reaches\<close>); \<open>Market_Progress\<close> and \<open>Market_Background\<close> what single methods and the timer
    achieve, \<open>Market_Requests\<close> the way of a charge from vendor to attendee to relay,
    \<open>Market_Storage_Facts\<close> and \<open>Market_Copy\<close> what a stored snapshot keeps; \<open>Market_Demo\<close> and
    \<open>Market_Charge_Demo\<close> are the instances for the witnesses. Properties: \<open>Market_Properties\<close>, \<open>Market_Promises\<close>.
  \<^item> The wallet's application, \<open>App.tsx\<close>: \<open>Wallet_Task\<close> (an \<open>async\<close> function as a task that runs from one
    \<open>await\<close> to the next, and contracts of such tasks, with the locale \<open>interference\<close>), \<open>Wallet_App\<close> (session,
    commits, \<open>runLocked\<close>), \<open>Wallet_Handlers\<close> (every handler), \<open>Wallet_System\<close> (the whole application: events
    of the browser, waiting handlers, answers in any order). \<open>Wallet_Contract\<close> says what a handler promises
    and relies on; \<open>Wallet_Owned\<close> and \<open>Wallet_Parts\<close> show, in the locale \<open>mint_view\<close>, that every handler keeps it;
    \<open>Wallet_Safety\<close> and \<open>Wallet_Ledger\<close> put them together for orderly runs; \<open>Wallet_Races\<close> follows three runs
    that are not orderly; \<open>Wallet_Ends\<close> counts the answers a handler needs. Properties: \<open>Wallet_Promises\<close>.
    \<open>Wallet_Present\<close> is how an operation is shown and which actions are offered for it.
  \<^item> The screens: \<open>Wallet_Screens\<close> is the state, the actions and the navigation of \<open>wallet/src/screens\<close>, each
    action composed with the handlers it calls. \<open>Wallet_Shown\<close> shows that an action leaves the waiting view of
    its screen, \<open>Wallet_Reviewed\<close> that what is committed has the reviewed figures; properties in
    \<open>Wallet_Screen_Promises\<close>. \<open>Market_Screens\<close> is the cart, the lists, the actions and the navigation of
    \<open>market/src/screens\<close> and the data of \<open>domain/preview.ts\<close>; \<open>Market_Cart\<close> shows that every cart can be charged
    and is charged as it was shown, and that the screens offer what the timer takes up.

  How the state corresponds. Tables of SQLite are lists of records in the order of insertion, and the
  relay's \<open>payload_json\<close> column holds the parsed document. A service is a machine whose events come in any
  order; a stretch between two waits is one event and reads the clock once. The market's session holds the
  snapshot in memory, the storage and the world behind the ports; locked tasks of the market are atomic to
  each other (\<open>navigator.locks\<close>), and another tab or a crash is a reload between any two moves of the abstract machine. The wallet's
  handlers interleave at every wait; its operations are the stored JSON objects themselves. Fields named
  for the theorems only (replies sent, calls made, commits made, owners of handlers) decide nothing.

  Conventions. A string is a list of characters, one per UTF-16 unit, and one byte per character where bytes
  are counted. Doubles are integers rounded by \<open>js_round\<close>, \<open>js_add\<close> and \<open>js_mul\<close>; an amount of the package
  is read by \<open>units\<close> as an integer or, as \<open>None\<close>, \<open>NaN\<close>. An error of a service is its status, code and
  seconds to wait, without its text; the texts of the market and the wallet are kept. Parameters, with what is
  assumed of them in the theorem that uses it: SHA-256 \<open>H\<close>, HMAC \<open>M\<close>, the URL parser \<open>U\<close> and \<open>UB\<close>, \<open>JSON.parse\<close>
  \<open>J\<close>, \<open>Number\<close> of a text that is not digits \<open>N\<close>, the collation, the packages cashu-ts (\<open>cashu\<close>,
  \<open>cashu_wallet\<close>), the clock, the room in the storage, and the source of identifiers, which is
  assumed only to give new ones (\<open>fresh_for\<close>, \<open>fresh_ids\<close>).

  Bounds and fuel. No definition takes fuel: every function recurses on its data and ends; a handler of the
  wallet ends after at most four answers and an action of its screens after at most five
  (\<open>wallet_actions_end\<close>).

  What the lemmas show. Of each service, that its state satisfies an invariant in every run and that the
  server adds nothing to the runs of what it serves; of the market and the wallet, that value is written
  down before every call that spends it, credited once, and recoverable; of the screens, that a confirmation
  spends exactly the figures of its review and that no action waits for ever; of the loaders, that they accept
  exactly the documents with their checks and that what was saved loads again; of the parsers and codecs,
  round trips and bounds. The theorems named an error state what goes wrong: the stale reconciliation pass
  and the scrubbed network cap of the faucet, the starving timer of the market, and in the wallet the change
  that is credited twice, the document that a change of the mint overwrites and the unreadable document
  that is replaced.

  Not modelled. The markup, styles and icons of the two applications and the texts that only label a state;
  the QR scanner, the clipboard, sharing, scrolling and the toast's timer; the flag that turns the market's
  preview on (its data is modelled, and \<open>can_move_value\<close> is the case without the flag); the entry points; the
  brand-asset script; the tests; the Rust processor of the mint, which is another program; the build,
  deployment and documentation. These hold no state that the modelled code depends on, or are programs for
  other systems.
\<close>

end
